(* ===== verification/Market_Prelude.thy ===== *)
theory Market_Prelude
  imports Main "HOL-Library.Word"
begin

section \<open>Prelude: Go values, errors and shared lemmas\<close>

text \<open>
  What the components share. Opaque identifiers of other Go modules (CIDs, addresses, peer ids,
  data transfer channel ids, tip set tokens) are their canonical strings, the empty string being
  the undefined value (\<open>cid.Undef\<close>, \<open>address.Undef\<close>, an empty path). A Go pointer or a big
  integer that may be nil is an \<open>option\<close>. \<open>uint64\<close> is \<open>64 word\<close>; an \<open>int64\<close> is an
  \<open>int\<close> brought back into range by \<open>i64\<close> after every addition. \<open>go_error\<close> keeps what the
  code observes of an error: its text, the sentinel it wraps, and the shortfall type.
\<close>

subsection \<open>Names of the model's types\<close>

type_synonym cid = string
type_synonym address = string
type_synonym peer_id = string
type_synonym channel_id = string
type_synonym tipset_token = string
type_synonym uint64 = "64 word"
type_synonym token_amount = int
type_synonym chain_epoch = int

abbreviation (input) cid_Undef :: cid where "cid_Undef \<equiv> []"
abbreviation (input) address_Undef :: address where "address_Undef \<equiv> []"

named_theorems fsm_table \<open>the event tables and what they are made of\<close>
named_theorems handler_defs \<open>definitions of state entry handlers\<close>

subsection \<open>int64 arithmetic\<close>

text \<open>Two's complement wrap-around of a mathematical integer to the range of \<open>int64\<close>.\<close>

definition i64 :: "int \<Rightarrow> int" where
  "i64 x = (x + 2 ^ 63) mod 2 ^ 64 - 2 ^ 63"

lemma i64_range: "- (2 ^ 63) \<le> i64 x \<and> i64 x < 2 ^ 63"
proof -
  have "0 \<le> (x + 2 ^ 63) mod 2 ^ 64" and "(x + 2 ^ 63) mod 2 ^ 64 < (2 ^ 64 :: int)"
    by simp_all
  then show ?thesis by (simp add: i64_def)
qed

lemma i64_id: "- (2 ^ 63) \<le> x \<Longrightarrow> x < 2 ^ 63 \<Longrightarrow> i64 x = x"
  by (simp add: i64_def)

text \<open>\<open>int64(u)\<close> for an unsigned value \<open>u\<close>.\<close>

definition int64_of :: "uint64 \<Rightarrow> int" where
  "int64_of u = i64 (uint u)"

lemma int64_of_small: "uint u < 2 ^ 63 \<Longrightarrow> int64_of u = uint u"
proof -
  assume small: "uint u < 2 ^ 63"
  have "- (2 ^ 63) \<le> (0 :: int)" by simp
  also have "0 \<le> uint u" by simp
  finally show ?thesis using small by (simp only: int64_of_def i64_id)
qed

text \<open>Go's division of big integers truncates towards zero. A zero divisor panics in Go; the
  callers guard it.\<close>

definition big_Div :: "int \<Rightarrow> int \<Rightarrow> int" where
  "big_Div a b = sgn a * sgn b * (\<bar>a\<bar> div \<bar>b\<bar>)"

lemma big_Div_nonneg: "0 \<le> a \<Longrightarrow> 0 < b \<Longrightarrow> big_Div a b = a div b"
  by (cases "a = 0") (simp_all add: big_Div_def)

subsection \<open>Errors\<close>

datatype sentinel =
    DatastoreErrNotFound
  | RetrievalErrNotFound
  | StoresErrNotFound
  | StatemachineErrTerminated
  | ErrAlreadyAdvertised
  | ContextCanceled
  | ContextDeadlineExceeded
  | SentErrNoPushAccepted
  | SentErrNoPullAccepted
  | SentErrNoDeal
  | SentErrWrongPiece
  | SentErrInacceptableDealState
  | SentEOF
  | SentUnexpectedEOF
  | IndexErrNotFound
  | FormatErrNotFound

datatype go_error =
    New string
  | Sentinel sentinel string
  | ShortfallError token_amount
  | Wrap string go_error

text \<open>\<open>Wrap p e\<close> is \<open>xerrors.Errorf(p + "%w", e)\<close>: the text of \<open>e\<close> after the prefix
  \<open>p\<close>, with \<open>e\<close> reachable by \<open>errors.Is\<close>. \<open>show_nat\<close> and \<open>show_int\<close> are the decimal text
  that \<open>%d\<close> prints.\<close>

fun show_nat :: "nat \<Rightarrow> string" where
  "show_nat n = (if n < 10 then [char_of (48 + n)]
     else show_nat (n div 10) @ [char_of (48 + n mod 10)])"

declare show_nat.simps [simp del]

definition show_int :: "int \<Rightarrow> string" where
  "show_int i = (if i < 0 then ''-'' @ show_nat (nat (- i)) else show_nat (nat i))"

definition show_uint64 :: "uint64 \<Rightarrow> string" where
  "show_uint64 u = show_nat (unat u)"

primrec Error :: "go_error \<Rightarrow> string" where
  "Error (New s) = s"
| "Error (Sentinel k s) = s"
| "Error (ShortfallError a) = ''Inssufficient Funds. Shortfall: '' @ show_int a"
| "Error (Wrap p e) = p @ Error e"

primrec errors_Is :: "go_error \<Rightarrow> sentinel \<Rightarrow> bool" where
  "errors_Is (New s) k = False"
| "errors_Is (Sentinel k' s) k = (k' = k)"
| "errors_Is (ShortfallError a) k = False"
| "errors_Is (Wrap p e) k = errors_Is e k"

definition io_EOF :: go_error where
  "io_EOF = Sentinel SentEOF ''EOF''"

definition io_ErrUnexpectedEOF :: go_error where
  "io_ErrUnexpectedEOF = Sentinel SentUnexpectedEOF ''unexpected EOF''"

subsection \<open>Strings\<close>

fun strings_HasPrefix :: "string \<Rightarrow> string \<Rightarrow> bool" where
  "strings_HasPrefix s [] = True"
| "strings_HasPrefix [] (p # ps) = False"
| "strings_HasPrefix (c # cs) (p # ps) = (c = p \<and> strings_HasPrefix cs ps)"

fun strings_Contains :: "string \<Rightarrow> string \<Rightarrow> bool" where
  "strings_Contains [] sub = (sub = [])"
| "strings_Contains (c # cs) sub = (strings_HasPrefix (c # cs) sub \<or> strings_Contains cs sub)"

lemma strings_HasPrefix_append: "strings_HasPrefix (p @ s) p"
  by (induction p) (cases s, simp_all)

lemma strings_HasPrefix_iff: "strings_HasPrefix s p \<longleftrightarrow> (\<exists>t. s = p @ t)"
  by (induction s p rule: strings_HasPrefix.induct) auto

lemma strings_Contains_iff: "strings_Contains s sub \<longleftrightarrow> (\<exists>a b. s = a @ sub @ b)"
proof (induction s)
  case Nil
  show ?case by auto
next
  case (Cons c cs)
  have "(\<exists>a b. c # cs = a @ sub @ b) \<longleftrightarrow> (\<exists>b. c # cs = sub @ b) \<or> (\<exists>a b. cs = a @ sub @ b)"
    by (metis append_Cons append_Nil append_eq_Cons_conv)
  with Cons show ?case by (simp add: strings_HasPrefix_iff)
qed

subsection \<open>Decimal text is injective\<close>

lemma char_of_digit_inj: "a < 10 \<Longrightarrow> b < 10 \<Longrightarrow> char_of (48 + a :: nat) = char_of (48 + b) \<Longrightarrow> a = b"
proof -
  assume a: "a < 10" and b: "b < 10" and eq: "(char_of (48 + a) :: char) = char_of (48 + b)"
  from eq have "of_char (char_of (48 + a) :: char) = (of_char (char_of (48 + b) :: char) :: nat)"
    by simp
  with a b show "a = b" by (simp add: of_char_of)
qed

lemma show_nat_nonempty: "show_nat n \<noteq> []"
  by (subst show_nat.simps) simp

lemma show_nat_big: "\<not> n < 10 \<Longrightarrow> show_nat n = show_nat (n div 10) @ [char_of (48 + n mod 10)]"
  by (subst show_nat.simps) simp

lemma show_nat_small: "n < 10 \<Longrightarrow> show_nat n = [char_of (48 + n)]"
  by (subst show_nat.simps) simp

lemma show_nat_inj: "show_nat m = show_nat n \<Longrightarrow> m = n"
proof (induction m arbitrary: n rule: show_nat.induct)
  case (1 m)
  show ?case
  proof (cases "m < 10")
    case True
    then have "length (show_nat n) = 1" using 1(2) by (simp add: show_nat_small flip: 1(2))
    then have "n < 10"
      using show_nat_big [of n] show_nat_nonempty [of "n div 10"] by (cases "n < 10") auto
    with True 1(2) show ?thesis by (auto simp: show_nat_small dest: char_of_digit_inj)
  next
    case False
    have "\<not> n < 10"
    proof
      assume "n < 10"
      then have "length (show_nat m) = 1" using 1(2) by (simp add: show_nat_small)
      with False show_nat_big [OF False] show_nat_nonempty [of "m div 10"] show "False" by auto
    qed
    with False 1(2) have "show_nat (m div 10) = show_nat (n div 10)"
      and d: "(char_of (48 + m mod 10) :: char) = char_of (48 + n mod 10)"
      by (simp_all add: show_nat_big)
    then have "m div 10 = n div 10" using 1(1) False by blast
    moreover have "m mod 10 = n mod 10" using char_of_digit_inj [OF _ _ d] by simp
    ultimately show ?thesis by (metis div_mult_mod_eq)
  qed
qed

lemma show_uint64_inj: "show_uint64 u = show_uint64 v \<longleftrightarrow> u = v"
  by (auto simp: show_uint64_def word_unat_eq_iff dest!: show_nat_inj)

subsection \<open>Results\<close>

text \<open>The Go idiom \<open>if err != nil { return ... }\<close> on a result \<open>go_error + 'a\<close>.\<close>

definition on_err :: "(go_error + 'a) \<Rightarrow> (go_error \<Rightarrow> 'b) \<Rightarrow> ('a \<Rightarrow> 'b) \<Rightarrow> 'b" where
  "on_err r h k = (case r of Inl e \<Rightarrow> h e | Inr a \<Rightarrow> k a)"

lemma on_err_simps [simp]:
  "on_err (Inl e) h k = h e"
  "on_err (Inr a) h k = k a"
  by (simp_all add: on_err_def)

lemma on_err_split:
  "P (on_err r h k) \<longleftrightarrow> (\<forall>e. r = Inl e \<longrightarrow> P (h e)) \<and> (\<forall>a. r = Inr a \<longrightarrow> P (k a))"
  by (simp add: on_err_def split: sum.split)

lemma on_err_split_asm:
  "P (on_err r h k) \<longleftrightarrow>
     \<not> ((\<exists>e. r = Inl e \<and> \<not> P (h e)) \<or> (\<exists>a. r = Inr a \<and> \<not> P (k a)))"
  by (simp add: on_err_def split: sum.split)

lemmas on_err_splits = on_err_split on_err_split_asm

subsection \<open>Calls that may not return\<close>

text \<open>A call of Go code returns, panics, or loops forever.\<close>

datatype 'a go_run = Returns 'a | Panics | Loops

definition run_opt :: "'a option \<Rightarrow> 'a go_run" where
  "run_opt r = (case r of None \<Rightarrow> Loops | Some a \<Rightarrow> Returns a)"

definition run_bind :: "'a go_run \<Rightarrow> ('a \<Rightarrow> 'b go_run) \<Rightarrow> 'b go_run" where
  "run_bind r k = (case r of Returns a \<Rightarrow> k a | Panics \<Rightarrow> Panics | Loops \<Rightarrow> Loops)"

lemma run_bind_simps [simp]:
  "run_bind (Returns a) k = k a" "run_bind Panics k = Panics" "run_bind Loops k = Loops"
  by (simp_all add: run_bind_def)

lemma run_bind_Returns_iff:
  "run_bind r k = Returns b \<longleftrightarrow> (\<exists>a. r = Returns a \<and> k a = Returns b)"
  by (cases r) auto

lemma run_opt_Returns_iff [simp]: "run_opt r = Returns a \<longleftrightarrow> r = Some a"
  by (cases r) (auto simp: run_opt_def)

lemma unat_of_nat_small: "m < 2 ^ 64 \<Longrightarrow> unat (of_nat m :: uint64) = m"
  by (simp add: unat_of_nat)

end
