(* ===== verification/Storage_Enums.thy ===== *)
theory Storage_Enums
  imports Market_Prelude
begin

section \<open>Storage market: deal states and events\<close>

text \<open>
  The constant blocks of \<open>storagemarket/dealstatus.go\<close> and \<open>storagemarket/events.go\<close> as
  datatypes with the constants' names, their numeric values (\<open>iota\<close>), and the maps from a
  constant to its text. A key that a Go map does not have is \<open>None\<close>; reading it in Go gives the
  empty string.
\<close>

subsection \<open>Deal states\<close>

datatype StorageDealStatus =
    StorageDealUnknown
  | StorageDealProposalNotFound
  | StorageDealProposalRejected
  | StorageDealProposalAccepted
  | StorageDealStaged
  | StorageDealSealing
  | StorageDealFinalizing
  | StorageDealActive
  | StorageDealExpired
  | StorageDealSlashed
  | StorageDealRejecting
  | StorageDealFailing
  | StorageDealFundsReserved
  | StorageDealCheckForAcceptance
  | StorageDealValidating
  | StorageDealAcceptWait
  | StorageDealStartDataTransfer
  | StorageDealTransferring
  | StorageDealWaitingForData
  | StorageDealVerifyData
  | StorageDealReserveProviderFunds
  | StorageDealReserveClientFunds
  | StorageDealProviderFunding
  | StorageDealClientFunding
  | StorageDealPublish
  | StorageDealPublishing
  | StorageDealError
  | StorageDealProviderTransferAwaitRestart
  | StorageDealClientTransferRestart
  | StorageDealAwaitingPreCommit
  | StorageDealTransferQueued

primrec StorageDealStatus_code :: "StorageDealStatus \<Rightarrow> nat" where
  "StorageDealStatus_code StorageDealUnknown = 0"
| "StorageDealStatus_code StorageDealProposalNotFound = 1"
| "StorageDealStatus_code StorageDealProposalRejected = 2"
| "StorageDealStatus_code StorageDealProposalAccepted = 3"
| "StorageDealStatus_code StorageDealStaged = 4"
| "StorageDealStatus_code StorageDealSealing = 5"
| "StorageDealStatus_code StorageDealFinalizing = 6"
| "StorageDealStatus_code StorageDealActive = 7"
| "StorageDealStatus_code StorageDealExpired = 8"
| "StorageDealStatus_code StorageDealSlashed = 9"
| "StorageDealStatus_code StorageDealRejecting = 10"
| "StorageDealStatus_code StorageDealFailing = 11"
| "StorageDealStatus_code StorageDealFundsReserved = 12"
| "StorageDealStatus_code StorageDealCheckForAcceptance = 13"
| "StorageDealStatus_code StorageDealValidating = 14"
| "StorageDealStatus_code StorageDealAcceptWait = 15"
| "StorageDealStatus_code StorageDealStartDataTransfer = 16"
| "StorageDealStatus_code StorageDealTransferring = 17"
| "StorageDealStatus_code StorageDealWaitingForData = 18"
| "StorageDealStatus_code StorageDealVerifyData = 19"
| "StorageDealStatus_code StorageDealReserveProviderFunds = 20"
| "StorageDealStatus_code StorageDealReserveClientFunds = 21"
| "StorageDealStatus_code StorageDealProviderFunding = 22"
| "StorageDealStatus_code StorageDealClientFunding = 23"
| "StorageDealStatus_code StorageDealPublish = 24"
| "StorageDealStatus_code StorageDealPublishing = 25"
| "StorageDealStatus_code StorageDealError = 26"
| "StorageDealStatus_code StorageDealProviderTransferAwaitRestart = 27"
| "StorageDealStatus_code StorageDealClientTransferRestart = 28"
| "StorageDealStatus_code StorageDealAwaitingPreCommit = 29"
| "StorageDealStatus_code StorageDealTransferQueued = 30"

primrec DealStates :: "StorageDealStatus \<Rightarrow> string option" where
  "DealStates StorageDealUnknown = Some ''StorageDealUnknown''"
| "DealStates StorageDealProposalNotFound = Some ''StorageDealProposalNotFound''"
| "DealStates StorageDealProposalRejected = Some ''StorageDealProposalRejected''"
| "DealStates StorageDealProposalAccepted = Some ''StorageDealProposalAccepted''"
| "DealStates StorageDealStaged = Some ''StorageDealStaged''"
| "DealStates StorageDealSealing = Some ''StorageDealSealing''"
| "DealStates StorageDealFinalizing = Some ''StorageDealFinalizing''"
| "DealStates StorageDealActive = Some ''StorageDealActive''"
| "DealStates StorageDealExpired = Some ''StorageDealExpired''"
| "DealStates StorageDealSlashed = Some ''StorageDealSlashed''"
| "DealStates StorageDealRejecting = Some ''StorageDealRejecting''"
| "DealStates StorageDealFailing = Some ''StorageDealFailing''"
| "DealStates StorageDealFundsReserved = Some ''StorageDealFundsReserved''"
| "DealStates StorageDealCheckForAcceptance = Some ''StorageDealCheckForAcceptance''"
| "DealStates StorageDealValidating = Some ''StorageDealValidating''"
| "DealStates StorageDealAcceptWait = Some ''StorageDealAcceptWait''"
| "DealStates StorageDealStartDataTransfer = Some ''StorageDealStartDataTransfer''"
| "DealStates StorageDealTransferring = Some ''StorageDealTransferring''"
| "DealStates StorageDealWaitingForData = Some ''StorageDealWaitingForData''"
| "DealStates StorageDealVerifyData = Some ''StorageDealVerifyData''"
| "DealStates StorageDealReserveProviderFunds = Some ''StorageDealReserveProviderFunds''"
| "DealStates StorageDealReserveClientFunds = Some ''StorageDealReserveClientFunds''"
| "DealStates StorageDealProviderFunding = Some ''StorageDealProviderFunding''"
| "DealStates StorageDealClientFunding = Some ''StorageDealClientFunding''"
| "DealStates StorageDealPublish = Some ''StorageDealPublish''"
| "DealStates StorageDealPublishing = Some ''StorageDealPublishing''"
| "DealStates StorageDealError = Some ''StorageDealError''"
| "DealStates StorageDealProviderTransferAwaitRestart = Some ''StorageDealProviderTransferAwaitRestart''"
| "DealStates StorageDealClientTransferRestart = Some ''StorageDealClientTransferRestart''"
| "DealStates StorageDealAwaitingPreCommit = Some ''StorageDealAwaitingPreCommit''"
| "DealStates StorageDealTransferQueued = Some ''StorageDealTransferQueued''"

primrec DealStatesDescriptions :: "StorageDealStatus \<Rightarrow> string option" where
  "DealStatesDescriptions StorageDealUnknown = Some ''Unknown''"
| "DealStatesDescriptions StorageDealProposalNotFound = Some ''Proposal not found''"
| "DealStatesDescriptions StorageDealProposalRejected = Some ''Proposal rejected''"
| "DealStatesDescriptions StorageDealProposalAccepted = Some ''Proposal accepted''"
| "DealStatesDescriptions StorageDealStaged = Some ''Staged''"
| "DealStatesDescriptions StorageDealSealing = Some ''Sealing''"
| "DealStatesDescriptions StorageDealFinalizing = Some ''Finalizing''"
| "DealStatesDescriptions StorageDealActive = Some ''Active''"
| "DealStatesDescriptions StorageDealExpired = Some ''Expired''"
| "DealStatesDescriptions StorageDealSlashed = Some ''Slashed''"
| "DealStatesDescriptions StorageDealRejecting = Some ''Rejecting''"
| "DealStatesDescriptions StorageDealFailing = Some ''Failing''"
| "DealStatesDescriptions StorageDealFundsReserved = Some ''FundsReserved''"
| "DealStatesDescriptions StorageDealCheckForAcceptance = Some ''Checking for deal acceptance''"
| "DealStatesDescriptions StorageDealValidating = Some ''Validating''"
| "DealStatesDescriptions StorageDealAcceptWait = Some ''AcceptWait''"
| "DealStatesDescriptions StorageDealStartDataTransfer = Some ''Starting data transfer''"
| "DealStatesDescriptions StorageDealTransferring = Some ''Transferring''"
| "DealStatesDescriptions StorageDealWaitingForData = Some ''Waiting for data''"
| "DealStatesDescriptions StorageDealVerifyData = Some ''Verifying data''"
| "DealStatesDescriptions StorageDealReserveProviderFunds = Some ''Reserving provider funds''"
| "DealStatesDescriptions StorageDealReserveClientFunds = Some ''Reserving client funds''"
| "DealStatesDescriptions StorageDealProviderFunding = Some ''Provider funding''"
| "DealStatesDescriptions StorageDealClientFunding = Some ''Client funding''"
| "DealStatesDescriptions StorageDealPublish = Some ''Publish''"
| "DealStatesDescriptions StorageDealPublishing = Some ''Publishing''"
| "DealStatesDescriptions StorageDealError = Some ''Error''"
| "DealStatesDescriptions StorageDealProviderTransferAwaitRestart = Some ''ProviderTransferAwaitRestart''"
| "DealStatesDescriptions StorageDealClientTransferRestart = Some ''Client transfer restart''"
| "DealStatesDescriptions StorageDealAwaitingPreCommit = Some ''Awaiting a PreCommit message on chain''"
| "DealStatesDescriptions StorageDealTransferQueued = None"

primrec DealStatesDurations :: "StorageDealStatus \<Rightarrow> string option" where
  "DealStatesDurations StorageDealUnknown = Some ''''"
| "DealStatesDurations StorageDealProposalNotFound = Some ''''"
| "DealStatesDurations StorageDealProposalRejected = Some ''''"
| "DealStatesDurations StorageDealProposalAccepted = Some ''a few minutes''"
| "DealStatesDurations StorageDealStaged = Some ''a few minutes''"
| "DealStatesDurations StorageDealSealing = Some ''a few hours''"
| "DealStatesDurations StorageDealFinalizing = Some ''a few minutes''"
| "DealStatesDurations StorageDealActive = Some ''''"
| "DealStatesDurations StorageDealExpired = Some ''''"
| "DealStatesDurations StorageDealSlashed = Some ''''"
| "DealStatesDurations StorageDealRejecting = Some ''''"
| "DealStatesDurations StorageDealFailing = Some ''''"
| "DealStatesDurations StorageDealFundsReserved = Some ''a few minutes''"
| "DealStatesDurations StorageDealCheckForAcceptance = Some ''a few minutes''"
| "DealStatesDurations StorageDealValidating = Some ''a few minutes''"
| "DealStatesDurations StorageDealAcceptWait = Some ''a few minutes''"
| "DealStatesDurations StorageDealStartDataTransfer = Some ''a few minutes''"
| "DealStatesDurations StorageDealTransferring = Some ''a few minutes''"
| "DealStatesDurations StorageDealWaitingForData = Some ''a few minutes''"
| "DealStatesDurations StorageDealVerifyData = Some ''a few minutes''"
| "DealStatesDurations StorageDealReserveProviderFunds = Some ''a few minutes''"
| "DealStatesDurations StorageDealReserveClientFunds = Some ''a few minutes''"
| "DealStatesDurations StorageDealProviderFunding = Some ''a few minutes''"
| "DealStatesDurations StorageDealClientFunding = Some ''a few minutes''"
| "DealStatesDurations StorageDealPublish = Some ''a few minutes''"
| "DealStatesDurations StorageDealPublishing = Some ''a few minutes''"
| "DealStatesDurations StorageDealError = Some ''''"
| "DealStatesDurations StorageDealProviderTransferAwaitRestart = Some ''a few minutes''"
| "DealStatesDurations StorageDealClientTransferRestart = Some ''depending on data size, anywhere between a few minutes to a few hours''"
| "DealStatesDurations StorageDealAwaitingPreCommit = Some ''a few minutes''"
| "DealStatesDurations StorageDealTransferQueued = None"

subsection \<open>Client events\<close>

datatype ClientEvent =
    ClientEventOpen
  | ClientEventReserveFundsFailed
  | ClientEventFundingInitiated
  | ClientEventFundsReserved
  | ClientEventFundsReleased
  | ClientEventFundingComplete
  | ClientEventWriteProposalFailed
  | ClientEventInitiateDataTransfer
  | ClientEventDataTransferInitiated
  | ClientEventDataTransferRestarted
  | ClientEventDataTransferComplete
  | ClientEventWaitForDealState
  | ClientEventDataTransferFailed
  | ClientEventDataTransferRestartFailed
  | ClientEventReadResponseFailed
  | ClientEventResponseVerificationFailed
  | ClientEventResponseDealDidNotMatch
  | ClientEventUnexpectedDealState
  | ClientEventStreamCloseError
  | ClientEventDealRejected
  | ClientEventDealAccepted
  | ClientEventDealPublishFailed
  | ClientEventDealPublished
  | ClientEventDealPrecommitFailed
  | ClientEventDealPrecommitted
  | ClientEventDealActivationFailed
  | ClientEventDealActivated
  | ClientEventDealCompletionFailed
  | ClientEventDealExpired
  | ClientEventDealSlashed
  | ClientEventFailed
  | ClientEventRestart
  | ClientEventDataTransferStalled
  | ClientEventDataTransferCancelled
  | ClientEventDataTransferQueued

primrec ClientEvent_code :: "ClientEvent \<Rightarrow> nat" where
  "ClientEvent_code ClientEventOpen = 0"
| "ClientEvent_code ClientEventReserveFundsFailed = 1"
| "ClientEvent_code ClientEventFundingInitiated = 2"
| "ClientEvent_code ClientEventFundsReserved = 3"
| "ClientEvent_code ClientEventFundsReleased = 4"
| "ClientEvent_code ClientEventFundingComplete = 5"
| "ClientEvent_code ClientEventWriteProposalFailed = 6"
| "ClientEvent_code ClientEventInitiateDataTransfer = 7"
| "ClientEvent_code ClientEventDataTransferInitiated = 8"
| "ClientEvent_code ClientEventDataTransferRestarted = 9"
| "ClientEvent_code ClientEventDataTransferComplete = 10"
| "ClientEvent_code ClientEventWaitForDealState = 11"
| "ClientEvent_code ClientEventDataTransferFailed = 12"
| "ClientEvent_code ClientEventDataTransferRestartFailed = 13"
| "ClientEvent_code ClientEventReadResponseFailed = 14"
| "ClientEvent_code ClientEventResponseVerificationFailed = 15"
| "ClientEvent_code ClientEventResponseDealDidNotMatch = 16"
| "ClientEvent_code ClientEventUnexpectedDealState = 17"
| "ClientEvent_code ClientEventStreamCloseError = 18"
| "ClientEvent_code ClientEventDealRejected = 19"
| "ClientEvent_code ClientEventDealAccepted = 20"
| "ClientEvent_code ClientEventDealPublishFailed = 21"
| "ClientEvent_code ClientEventDealPublished = 22"
| "ClientEvent_code ClientEventDealPrecommitFailed = 23"
| "ClientEvent_code ClientEventDealPrecommitted = 24"
| "ClientEvent_code ClientEventDealActivationFailed = 25"
| "ClientEvent_code ClientEventDealActivated = 26"
| "ClientEvent_code ClientEventDealCompletionFailed = 27"
| "ClientEvent_code ClientEventDealExpired = 28"
| "ClientEvent_code ClientEventDealSlashed = 29"
| "ClientEvent_code ClientEventFailed = 30"
| "ClientEvent_code ClientEventRestart = 31"
| "ClientEvent_code ClientEventDataTransferStalled = 32"
| "ClientEvent_code ClientEventDataTransferCancelled = 33"
| "ClientEvent_code ClientEventDataTransferQueued = 34"

primrec ClientEvents_names :: "ClientEvent \<Rightarrow> string option" where
  "ClientEvents_names ClientEventOpen = Some ''ClientEventOpen''"
| "ClientEvents_names ClientEventReserveFundsFailed = Some ''ClientEventReserveFundsFailed''"
| "ClientEvents_names ClientEventFundingInitiated = Some ''ClientEventFundingInitiated''"
| "ClientEvents_names ClientEventFundsReserved = Some ''ClientEventFundsReserved''"
| "ClientEvents_names ClientEventFundsReleased = Some ''ClientEventFundsReleased''"
| "ClientEvents_names ClientEventFundingComplete = Some ''ClientEventFundingComplete''"
| "ClientEvents_names ClientEventWriteProposalFailed = Some ''ClientEventWriteProposalFailed''"
| "ClientEvents_names ClientEventInitiateDataTransfer = Some ''ClientEventInitiateDataTransfer''"
| "ClientEvents_names ClientEventDataTransferInitiated = Some ''ClientEventDataTransferInitiated''"
| "ClientEvents_names ClientEventDataTransferRestarted = Some ''ClientEventDataTransferRestarted''"
| "ClientEvents_names ClientEventDataTransferComplete = Some ''ClientEventDataTransferComplete''"
| "ClientEvents_names ClientEventWaitForDealState = Some ''ClientEventWaitForDealState''"
| "ClientEvents_names ClientEventDataTransferFailed = Some ''ClientEventDataTransferFailed''"
| "ClientEvents_names ClientEventDataTransferRestartFailed = Some ''ClientEventDataTransferRestartFailed''"
| "ClientEvents_names ClientEventReadResponseFailed = Some ''ClientEventReadResponseFailed''"
| "ClientEvents_names ClientEventResponseVerificationFailed = Some ''ClientEventResponseVerificationFailed''"
| "ClientEvents_names ClientEventResponseDealDidNotMatch = Some ''ClientEventResponseDealDidNotMatch''"
| "ClientEvents_names ClientEventUnexpectedDealState = Some ''ClientEventUnexpectedDealState''"
| "ClientEvents_names ClientEventStreamCloseError = Some ''ClientEventStreamCloseError''"
| "ClientEvents_names ClientEventDealRejected = Some ''ClientEventDealRejected''"
| "ClientEvents_names ClientEventDealAccepted = Some ''ClientEventDealAccepted''"
| "ClientEvents_names ClientEventDealPublishFailed = Some ''ClientEventDealPublishFailed''"
| "ClientEvents_names ClientEventDealPublished = Some ''ClientEventDealPublished''"
| "ClientEvents_names ClientEventDealPrecommitFailed = None"
| "ClientEvents_names ClientEventDealPrecommitted = None"
| "ClientEvents_names ClientEventDealActivationFailed = Some ''ClientEventDealActivationFailed''"
| "ClientEvents_names ClientEventDealActivated = Some ''ClientEventDealActivated''"
| "ClientEvents_names ClientEventDealCompletionFailed = Some ''ClientEventDealCompletionFailed''"
| "ClientEvents_names ClientEventDealExpired = Some ''ClientEventDealExpired''"
| "ClientEvents_names ClientEventDealSlashed = Some ''ClientEventDealSlashed''"
| "ClientEvents_names ClientEventFailed = Some ''ClientEventFailed''"
| "ClientEvents_names ClientEventRestart = Some ''ClientEventRestart''"
| "ClientEvents_names ClientEventDataTransferStalled = Some ''ClientEventDataTransferStalled''"
| "ClientEvents_names ClientEventDataTransferCancelled = Some ''ClientEventDataTransferCancelled''"
| "ClientEvents_names ClientEventDataTransferQueued = Some ''ClientEventDataTransferQueued''"

definition ClientEvent_String :: "ClientEvent \<Rightarrow> string" where
  "ClientEvent_String e = (case ClientEvents_names e of
     Some str \<Rightarrow> str | None \<Rightarrow> ''ClientEventUnknown - '' @ show_nat (ClientEvent_code e))"

subsection \<open>Provider events\<close>

datatype ProviderEvent =
    ProviderEventOpen
  | ProviderEventNodeErrored
  | ProviderEventDealDeciding
  | ProviderEventDealRejected
  | ProviderEventRejectionSent
  | ProviderEventDealAccepted
  | ProviderEventInsufficientFunds
  | ProviderEventFundsReserved
  | ProviderEventFundsReleased
  | ProviderEventFundingInitiated
  | ProviderEventFunded
  | ProviderEventDataTransferFailed
  | ProviderEventDataRequested
  | ProviderEventDataTransferInitiated
  | ProviderEventDataTransferRestarted
  | ProviderEventDataTransferCompleted
  | ProviderEventManualDataReceived
  | ProviderEventDataVerificationFailed
  | ProviderEventVerifiedData
  | ProviderEventSendResponseFailed
  | ProviderEventDealPublishInitiated
  | ProviderEventDealPublished
  | ProviderEventDealPublishError
  | ProviderEventFileStoreErrored
  | ProviderEventDealHandoffFailed
  | ProviderEventDealHandedOff
  | ProviderEventDealPrecommitFailed
  | ProviderEventDealPrecommitted
  | ProviderEventDealActivationFailed
  | ProviderEventDealActivated
  | ProviderEventPieceStoreErrored
  | ProviderEventFinalized
  | ProviderEventDealCompletionFailed
  | ProviderEventMultistoreErrored
  | ProviderEventDealExpired
  | ProviderEventDealSlashed
  | ProviderEventFailed
  | ProviderEventTrackFundsFailed
  | ProviderEventRestart
  | ProviderEventDataTransferRestartFailed
  | ProviderEventDataTransferStalled
  | ProviderEventDataTransferCancelled
  | ProviderEventAwaitTransferRestartTimeout

primrec ProviderEvent_code :: "ProviderEvent \<Rightarrow> nat" where
  "ProviderEvent_code ProviderEventOpen = 0"
| "ProviderEvent_code ProviderEventNodeErrored = 1"
| "ProviderEvent_code ProviderEventDealDeciding = 2"
| "ProviderEvent_code ProviderEventDealRejected = 3"
| "ProviderEvent_code ProviderEventRejectionSent = 4"
| "ProviderEvent_code ProviderEventDealAccepted = 5"
| "ProviderEvent_code ProviderEventInsufficientFunds = 6"
| "ProviderEvent_code ProviderEventFundsReserved = 7"
| "ProviderEvent_code ProviderEventFundsReleased = 8"
| "ProviderEvent_code ProviderEventFundingInitiated = 9"
| "ProviderEvent_code ProviderEventFunded = 10"
| "ProviderEvent_code ProviderEventDataTransferFailed = 11"
| "ProviderEvent_code ProviderEventDataRequested = 12"
| "ProviderEvent_code ProviderEventDataTransferInitiated = 13"
| "ProviderEvent_code ProviderEventDataTransferRestarted = 14"
| "ProviderEvent_code ProviderEventDataTransferCompleted = 15"
| "ProviderEvent_code ProviderEventManualDataReceived = 16"
| "ProviderEvent_code ProviderEventDataVerificationFailed = 17"
| "ProviderEvent_code ProviderEventVerifiedData = 18"
| "ProviderEvent_code ProviderEventSendResponseFailed = 19"
| "ProviderEvent_code ProviderEventDealPublishInitiated = 20"
| "ProviderEvent_code ProviderEventDealPublished = 21"
| "ProviderEvent_code ProviderEventDealPublishError = 22"
| "ProviderEvent_code ProviderEventFileStoreErrored = 23"
| "ProviderEvent_code ProviderEventDealHandoffFailed = 24"
| "ProviderEvent_code ProviderEventDealHandedOff = 25"
| "ProviderEvent_code ProviderEventDealPrecommitFailed = 26"
| "ProviderEvent_code ProviderEventDealPrecommitted = 27"
| "ProviderEvent_code ProviderEventDealActivationFailed = 28"
| "ProviderEvent_code ProviderEventDealActivated = 29"
| "ProviderEvent_code ProviderEventPieceStoreErrored = 30"
| "ProviderEvent_code ProviderEventFinalized = 31"
| "ProviderEvent_code ProviderEventDealCompletionFailed = 32"
| "ProviderEvent_code ProviderEventMultistoreErrored = 33"
| "ProviderEvent_code ProviderEventDealExpired = 34"
| "ProviderEvent_code ProviderEventDealSlashed = 35"
| "ProviderEvent_code ProviderEventFailed = 36"
| "ProviderEvent_code ProviderEventTrackFundsFailed = 37"
| "ProviderEvent_code ProviderEventRestart = 38"
| "ProviderEvent_code ProviderEventDataTransferRestartFailed = 39"
| "ProviderEvent_code ProviderEventDataTransferStalled = 40"
| "ProviderEvent_code ProviderEventDataTransferCancelled = 41"
| "ProviderEvent_code ProviderEventAwaitTransferRestartTimeout = 42"

primrec ProviderEvents_names :: "ProviderEvent \<Rightarrow> string option" where
  "ProviderEvents_names ProviderEventOpen = Some ''ProviderEventOpen''"
| "ProviderEvents_names ProviderEventNodeErrored = Some ''ProviderEventNodeErrored''"
| "ProviderEvents_names ProviderEventDealDeciding = Some ''ProviderEventDealDeciding''"
| "ProviderEvents_names ProviderEventDealRejected = Some ''ProviderEventDealRejected''"
| "ProviderEvents_names ProviderEventRejectionSent = Some ''ProviderEventRejectionSent''"
| "ProviderEvents_names ProviderEventDealAccepted = Some ''ProviderEventDealAccepted''"
| "ProviderEvents_names ProviderEventInsufficientFunds = Some ''ProviderEventInsufficientFunds''"
| "ProviderEvents_names ProviderEventFundsReserved = Some ''ProviderEventFundsReserved''"
| "ProviderEvents_names ProviderEventFundsReleased = Some ''ProviderEventFundsReleased''"
| "ProviderEvents_names ProviderEventFundingInitiated = Some ''ProviderEventFundingInitiated''"
| "ProviderEvents_names ProviderEventFunded = Some ''ProviderEventFunded''"
| "ProviderEvents_names ProviderEventDataTransferFailed = Some ''ProviderEventDataTransferFailed''"
| "ProviderEvents_names ProviderEventDataRequested = Some ''ProviderEventDataRequested''"
| "ProviderEvents_names ProviderEventDataTransferInitiated = Some ''ProviderEventDataTransferInitiated''"
| "ProviderEvents_names ProviderEventDataTransferRestarted = Some ''ProviderEventDataTransferRestarted''"
| "ProviderEvents_names ProviderEventDataTransferCompleted = Some ''ProviderEventDataTransferCompleted''"
| "ProviderEvents_names ProviderEventManualDataReceived = Some ''ProviderEventManualDataReceived''"
| "ProviderEvents_names ProviderEventDataVerificationFailed = Some ''ProviderEventDataVerificationFailed''"
| "ProviderEvents_names ProviderEventVerifiedData = Some ''ProviderEventVerifiedData''"
| "ProviderEvents_names ProviderEventSendResponseFailed = Some ''ProviderEventSendResponseFailed''"
| "ProviderEvents_names ProviderEventDealPublishInitiated = Some ''ProviderEventDealPublishInitiated''"
| "ProviderEvents_names ProviderEventDealPublished = Some ''ProviderEventDealPublished''"
| "ProviderEvents_names ProviderEventDealPublishError = Some ''ProviderEventDealPublishError''"
| "ProviderEvents_names ProviderEventFileStoreErrored = Some ''ProviderEventFileStoreErrored''"
| "ProviderEvents_names ProviderEventDealHandoffFailed = Some ''ProviderEventDealHandoffFailed''"
| "ProviderEvents_names ProviderEventDealHandedOff = Some ''ProviderEventDealHandedOff''"
| "ProviderEvents_names ProviderEventDealPrecommitFailed = Some ''ProviderEventDealPrecommitFailed''"
| "ProviderEvents_names ProviderEventDealPrecommitted = Some ''ProviderEventDealPrecommitted''"
| "ProviderEvents_names ProviderEventDealActivationFailed = Some ''ProviderEventDealActivationFailed''"
| "ProviderEvents_names ProviderEventDealActivated = Some ''ProviderEventDealActivated''"
| "ProviderEvents_names ProviderEventPieceStoreErrored = Some ''ProviderEventPieceStoreErrored''"
| "ProviderEvents_names ProviderEventFinalized = Some ''ProviderEventCleanupFinished''"
| "ProviderEvents_names ProviderEventDealCompletionFailed = Some ''ProviderEventDealCompletionFailed''"
| "ProviderEvents_names ProviderEventMultistoreErrored = Some ''ProviderEventMultistoreErrored''"
| "ProviderEvents_names ProviderEventDealExpired = Some ''ProviderEventDealExpired''"
| "ProviderEvents_names ProviderEventDealSlashed = Some ''ProviderEventDealSlashed''"
| "ProviderEvents_names ProviderEventFailed = Some ''ProviderEventFailed''"
| "ProviderEvents_names ProviderEventTrackFundsFailed = Some ''ProviderEventTrackFundsFailed''"
| "ProviderEvents_names ProviderEventRestart = Some ''ProviderEventRestart''"
| "ProviderEvents_names ProviderEventDataTransferRestartFailed = Some ''ProviderEventDataTransferRestartFailed''"
| "ProviderEvents_names ProviderEventDataTransferStalled = Some ''ProviderEventDataTransferStalled''"
| "ProviderEvents_names ProviderEventDataTransferCancelled = Some ''ProviderEventDataTransferCancelled''"
| "ProviderEvents_names ProviderEventAwaitTransferRestartTimeout = Some ''ProviderEventAwaitTransferRestartTimeout''"

definition ProviderEvent_String :: "ProviderEvent \<Rightarrow> string" where
  "ProviderEvent_String e = (case ProviderEvents_names e of
     Some str \<Rightarrow> str | None \<Rightarrow> ''ProviderEventUnknown - '' @ show_nat (ProviderEvent_code e))"

end
