(* ===== verification/Storage_Types.thy ===== *)
theory Storage_Types
  imports Storage_Enums
begin

section \<open>Storage market: data model\<close>

text \<open>
  The structs of \<open>storagemarket/types.go\<close> that provider and client share, and the timeline of a
  deal (\<open>DealStages\<close>) with its operations. \<open>DealProposal\<close> is the struct of the market actor
  that the source embeds; what the code computes from it with the actor's own library is a
  parameter (\<open>market_lib\<close>). Where a Go field name would clash with another record's, it has
  the struct's name in front.
\<close>

subsection \<open>Proposals, asks and references\<close>

record DealProposal =
  PieceCID :: cid
  PieceSize :: uint64
  VerifiedDeal :: bool
  ProposalClient :: address
  Provider :: address
  Label :: string
  StartEpoch :: chain_epoch
  EndEpoch :: chain_epoch
  StoragePricePerEpoch :: token_amount
  ProviderCollateral :: token_amount
  ClientCollateral :: token_amount

record Balance =
  Locked :: token_amount
  Available :: token_amount

record StorageAsk =
  Price :: token_amount
  VerifiedPrice :: token_amount
  AskMinPieceSize :: uint64
  AskMaxPieceSize :: uint64
  AskMiner :: address
  Timestamp :: chain_epoch
  Expiry :: chain_epoch
  SeqNo :: uint64

definition StorageAskUndefined :: StorageAsk where
  "StorageAskUndefined = \<lparr>Price = 0, VerifiedPrice = 0, AskMinPieceSize = 0, AskMaxPieceSize = 0,
     AskMiner = address_Undef, Timestamp = 0, Expiry = 0, SeqNo = 0\<rparr>"

type_synonym StorageAskOption = "StorageAsk \<Rightarrow> StorageAsk"

definition MinPieceSize :: "uint64 \<Rightarrow> StorageAskOption" where
  "MinPieceSize minPieceSize = (\<lambda>sa. sa\<lparr>AskMinPieceSize := minPieceSize\<rparr>)"

definition MaxPieceSize :: "uint64 \<Rightarrow> StorageAskOption" where
  "MaxPieceSize maxPieceSize = (\<lambda>sa. sa\<lparr>AskMaxPieceSize := maxPieceSize\<rparr>)"

record SignedStorageAsk =
  Ask :: "StorageAsk option"
  Signature :: "string option"

definition TTGraphsync :: string where "TTGraphsync = ''graphsync''"

definition TTManual :: string where "TTManual = ''manual''"

record DataRef =
  TransferType :: string
  Root :: cid
  PieceCid :: "cid option"
  RefPieceSize :: uint64
  RawBlockSize :: uint64

text \<open>The functions of the market actor's library that the deal logic calls.\<close>

record market_lib =
  Duration :: "DealProposal \<Rightarrow> chain_epoch"
  ClientBalanceRequirement :: "DealProposal \<Rightarrow> token_amount"
  DealDurationBounds :: "uint64 \<Rightarrow> chain_epoch \<times> chain_epoch"
  MaxSectorExpirationExtension :: chain_epoch
  Label_Length :: "string \<Rightarrow> nat"
  PieceSize_Validate :: "uint64 \<Rightarrow> go_error option"
  HasPieceCIDPrefix :: "cid \<Rightarrow> bool"
  Unpadded :: "uint64 \<Rightarrow> uint64"

text \<open>An instance for concrete runs.\<close>

definition sample_lib :: market_lib where
  "sample_lib = \<lparr>Duration = (\<lambda>p. EndEpoch p - StartEpoch p), ClientBalanceRequirement = (\<lambda>p. ClientCollateral p),
     DealDurationBounds = (\<lambda>_. (0, 1000)), MaxSectorExpirationExtension = 5000, Label_Length = length,
     PieceSize_Validate = (\<lambda>_. None), HasPieceCIDPrefix = (\<lambda>_. True), Unpadded = (\<lambda>n. n)\<rparr>"

subsection \<open>The timeline of a deal\<close>

record Log =
  LogMsg :: string
  LogUpdatedTime :: int

record DealStage =
  StageName :: string
  Description :: string
  ExpectedDuration :: string
  CreatedTime :: int
  StageUpdatedTime :: int
  Logs :: "Log list"

type_synonym DealStages = "DealStage list"

definition NewDealStages :: "DealStages option" where
  "NewDealStages = Some []"

text \<open>\<open>GetStage\<close> returns the first stage of that name; \<open>with_stage\<close> is the assignment through
  the pointer that it returned.\<close>

fun GetStage :: "DealStages option \<Rightarrow> string \<Rightarrow> DealStage option" where
  "GetStage None stage = None"
| "GetStage (Some []) stage = None"
| "GetStage (Some (s # ss)) stage =
     (if StageName s = stage then Some s else GetStage (Some ss) stage)"

fun with_stage :: "string \<Rightarrow> (DealStage \<Rightarrow> DealStage) \<Rightarrow> DealStages \<Rightarrow> DealStages" where
  "with_stage stage f [] = []"
| "with_stage stage f (s # ss) =
     (if StageName s = stage then f s # ss else s # with_stage stage f ss)"

definition update_stage ::
  "int \<Rightarrow> string \<Rightarrow> string \<Rightarrow> string \<Rightarrow> string \<Rightarrow> DealStage \<Rightarrow> DealStage" where
  "update_stage now stage description expectedDuration msg st =
     (let st1 = st\<lparr>StageName := stage, Description := description,
                   ExpectedDuration := expectedDuration, StageUpdatedTime := now\<rparr>
      in if msg \<noteq> [] \<and> (Logs st1 = [] \<or> LogMsg (last (Logs st1)) \<noteq> msg)
         then st1\<lparr>Logs := Logs st1 @ [\<lparr>LogMsg = msg, LogUpdatedTime = now\<rparr>]\<rparr> else st1)"

definition AddStageLog ::
  "int \<Rightarrow> string \<Rightarrow> string \<Rightarrow> string \<Rightarrow> string \<Rightarrow> DealStages option \<Rightarrow> DealStages option" where
  "AddStageLog now stage description expectedDuration msg ds = (case ds of
     None \<Rightarrow> None
   | Some stages \<Rightarrow> (case GetStage ds stage of
       Some st \<Rightarrow>
         Some (with_stage stage (update_stage now stage description expectedDuration msg) stages)
     | None \<Rightarrow> Some (stages @ [update_stage now stage description expectedDuration msg
         \<lparr>StageName = [], Description = [], ExpectedDuration = [], CreatedTime = now,
          StageUpdatedTime = 0, Logs = []\<rparr>])))"

subsection \<open>Facts about the timeline\<close>

lemma StageName_update_stage [simp]: "StageName (update_stage now stage ds ed msg st) = stage"
  by (simp add: update_stage_def Let_def)

lemma GetStage_None_iff: "GetStage (Some ss) stage = None \<longleftrightarrow> stage \<notin> StageName ` set ss"
  by (induction ss) auto

lemma GetStage_append: "GetStage (Some (xs @ ys)) stage =
    (case GetStage (Some xs) stage of Some s \<Rightarrow> Some s | None \<Rightarrow> GetStage (Some ys) stage)"
  by (induction xs) auto

lemma GetStage_with_stage: "GetStage (Some ss) stage = Some st \<Longrightarrow> StageName (f st) = stage \<Longrightarrow>
    GetStage (Some (with_stage stage f ss)) stage = Some (f st)"
  by (induction ss) auto

lemma GetStage_with_stage_other: "stage' \<noteq> stage \<Longrightarrow> (\<And>st. StageName (f st) = stage) \<Longrightarrow>
    GetStage (Some (with_stage stage f ss)) stage' = GetStage (Some ss) stage'"
  by (induction ss) auto

lemma with_stage_names: "(\<And>st. StageName (f st) = stage) \<Longrightarrow>
    map StageName (with_stage stage f ss) = map StageName ss"
  by (induction ss) auto

text \<open>No two consecutive logs of a stage carry the same message.\<close>

fun no_repeats :: "Log list \<Rightarrow> bool" where
  "no_repeats (a # b # ls) = (LogMsg a \<noteq> LogMsg b \<and> no_repeats (b # ls))"
| "no_repeats _ = True"

lemma no_repeats_snoc: "no_repeats (ls @ [l]) \<longleftrightarrow>
    no_repeats ls \<and> (ls = [] \<or> LogMsg (last ls) \<noteq> LogMsg l)"
  by (induction ls rule: no_repeats.induct) auto

definition stages_wf :: "DealStages option \<Rightarrow> bool" where
  "stages_wf ds = (case ds of None \<Rightarrow> True | Some ss \<Rightarrow>
     distinct (map StageName ss) \<and> list_all (\<lambda>s. no_repeats (Logs s)) ss)"

lemma update_stage_no_repeats:
  "no_repeats (Logs st) \<Longrightarrow> no_repeats (Logs (update_stage now stage ds ed msg st))"
  by (simp add: update_stage_def Let_def no_repeats_snoc)

lemma list_all_with_stage: "list_all p ss \<Longrightarrow> (\<And>s. p s \<Longrightarrow> p (f s)) \<Longrightarrow>
    list_all p (with_stage stage f ss)"
  by (induction ss) auto

lemma AddStageLog_wf_aux:
  "stages_wf ds \<Longrightarrow> stages_wf (AddStageLog now stage desc dur msg ds)"
  by (cases ds)
    (auto simp: stages_wf_def AddStageLog_def GetStage_None_iff update_stage_no_repeats
       with_stage_names list_all_with_stage split: option.split)

lemma AddStageLog_GetStage_aux:
  "GetStage (AddStageLog now stage desc dur msg (Some ss)) stage =
     Some (update_stage now stage desc dur msg (case GetStage (Some ss) stage of
       Some st \<Rightarrow> st
     | None \<Rightarrow> \<lparr>StageName = [], Description = [], ExpectedDuration = [], CreatedTime = now,
          StageUpdatedTime = 0, Logs = []\<rparr>))"
  by (auto simp: AddStageLog_def GetStage_append intro: GetStage_with_stage split: option.split)

lemma AddStageLog_other_aux:
  "stage' \<noteq> stage \<Longrightarrow>
     GetStage (AddStageLog now stage desc dur msg ds) stage' = GetStage ds stage'"
  by (cases ds) (auto simp: AddStageLog_def GetStage_append GetStage_with_stage_other
      split: option.split)

end
