(* ===== verification/Fsm.thy ===== *)
theory Fsm
  imports Market_Prelude
begin

section \<open>Event tables and the state machine engine\<close>

text \<open>
  The four deal state machines of the repository are values of the builder of the module
  go-statemachine/fsm: a list of events, each with its \<open>From\<close>/\<open>FromMany\<close>/\<open>FromAny\<close> clauses
  and an action on the deal record. The builder's shape is a datatype here, so that a table reads
  like its source. The engine that runs the tables is not part of the repository: it is a
  parameter \<open>plan\<close> with the documented behaviour of the module as the laws of the locale
  \<open>fsm_engine\<close>. \<open>fsm_plan\<close> is the function that the laws determine; it interprets the locale.
\<close>

subsection \<open>Tables\<close>

datatype 's target = To 's | ToNoChange | ToJustRecord

datatype 's clause =
    From 's "'s target"
  | FromMany "'s list" "'s target"
  | FromAny "'s target"

datatype 's fsm_arg =
    AErr go_error
  | ACid cid
  | ACidPtr "cid option"
  | APath string
  | AString string
  | AToken token_amount
  | ADealID uint64
  | ASector uint64
  | AUint64 uint64
  | AEpoch chain_epoch
  | AChannel channel_id
  | AAddress address
  | ABool bool
  | AStatus 's

text \<open>An action checks its arguments (the module compares their number and types with the
  parameters of the Go function) and may dereference nil.\<close>

datatype 'd act_result = BadArgs | Panicked | Done 'd

type_synonym ('s, 'd) action = "'s fsm_arg list \<Rightarrow> 'd \<Rightarrow> 'd act_result"

datatype ('e, 's, 'd) fsm_event =
  Event (ev_name: 'e) (ev_clauses: "'s clause list") (ev_action: "('s, 'd) action")

definition act :: "('s fsm_arg list \<Rightarrow> 'a option) \<Rightarrow> ('a \<Rightarrow> 'd \<Rightarrow> 'd) \<Rightarrow> ('s, 'd) action" where
  "act params f args d = (case params args of None \<Rightarrow> BadArgs | Some a \<Rightarrow> Done (f a d))"

definition actM ::
  "('s fsm_arg list \<Rightarrow> 'a option) \<Rightarrow> ('a \<Rightarrow> 'd \<Rightarrow> 'd act_result) \<Rightarrow> ('s, 'd) action" where
  "actM params f args d = (case params args of None \<Rightarrow> BadArgs | Some a \<Rightarrow> f a d)"

text \<open>Reading a key that a Go map does not have gives the empty string.\<close>

definition go_lookup :: "('k \<Rightarrow> string option) \<Rightarrow> 'k \<Rightarrow> string" where
  "go_lookup m k = (case m k of None \<Rightarrow> [] | Some s \<Rightarrow> s)"

text \<open>Parameter lists of the actions: one reader per Go signature.\<close>

fun p_none :: "'s fsm_arg list \<Rightarrow> unit option" where
  "p_none [] = Some ()" | "p_none _ = None"

fun p_err :: "'s fsm_arg list \<Rightarrow> go_error option" where
  "p_err [AErr e] = Some e" | "p_err _ = None"

fun p_cid :: "'s fsm_arg list \<Rightarrow> cid option" where
  "p_cid [ACid c] = Some c" | "p_cid _ = None"

fun p_cidptr :: "'s fsm_arg list \<Rightarrow> cid option option" where
  "p_cidptr [ACidPtr c] = Some c" | "p_cidptr _ = None"

fun p_token :: "'s fsm_arg list \<Rightarrow> token_amount option" where
  "p_token [AToken a] = Some a" | "p_token _ = None"

fun p_channel :: "'s fsm_arg list \<Rightarrow> channel_id option" where
  "p_channel [AChannel c] = Some c" | "p_channel _ = None"

fun p_sector :: "'s fsm_arg list \<Rightarrow> uint64 option" where
  "p_sector [ASector n] = Some n" | "p_sector _ = None"

fun p_uint64 :: "'s fsm_arg list \<Rightarrow> uint64 option" where
  "p_uint64 [AUint64 n] = Some n" | "p_uint64 _ = None"

fun p_dealid :: "'s fsm_arg list \<Rightarrow> uint64 option" where
  "p_dealid [ADealID n] = Some n" | "p_dealid _ = None"

fun p_epoch :: "'s fsm_arg list \<Rightarrow> chain_epoch option" where
  "p_epoch [AEpoch n] = Some n" | "p_epoch _ = None"

fun p_string :: "'s fsm_arg list \<Rightarrow> string option" where
  "p_string [AString s] = Some s" | "p_string _ = None"

fun p_status :: "'s fsm_arg list \<Rightarrow> 's option" where
  "p_status [AStatus s] = Some s" | "p_status _ = None"

fun p_address :: "'s fsm_arg list \<Rightarrow> address option" where
  "p_address [AAddress a] = Some a" | "p_address _ = None"

fun p_err_path_path :: "'s fsm_arg list \<Rightarrow> (go_error \<times> string \<times> string) option" where
  "p_err_path_path [AErr e, APath p, APath m] = Some (e, p, m)" | "p_err_path_path _ = None"

fun p_path_path :: "'s fsm_arg list \<Rightarrow> (string \<times> string) option" where
  "p_path_path [APath p, APath m] = Some (p, m)" | "p_path_path _ = None"

fun p_dealid_cid :: "'s fsm_arg list \<Rightarrow> (uint64 \<times> cid) option" where
  "p_dealid_cid [ADealID n, ACid c] = Some (n, c)" | "p_dealid_cid _ = None"

fun p_status_string :: "'s fsm_arg list \<Rightarrow> ('s \<times> string) option" where
  "p_status_string [AStatus s, AString m] = Some (s, m)" | "p_status_string _ = None"

fun p_bool_status :: "'s fsm_arg list \<Rightarrow> (bool \<times> 's) option" where
  "p_bool_status [ABool b, AStatus s] = Some (b, s)" | "p_bool_status _ = None"

fun p_cid_cid :: "'s fsm_arg list \<Rightarrow> (cid \<times> cid) option" where
  "p_cid_cid [ACid c, ACid c'] = Some (c, c')" | "p_cid_cid _ = None"

fun p_cid_address :: "'s fsm_arg list \<Rightarrow> (cid \<times> address) option" where
  "p_cid_address [ACid c, AAddress a] = Some (c, a)" | "p_cid_address _ = None"

lemma act_Done_iff [simp]:
  "act params f args d = Done d' \<longleftrightarrow> (\<exists>a. params args = Some a \<and> d' = f a d)"
  by (auto simp: act_def split: option.split)

lemma act_not_Panicked [simp]: "act params f args d \<noteq> Panicked"
  by (simp add: act_def split: option.split)

lemma act_BadArgs_iff [simp]: "act params f args d = BadArgs \<longleftrightarrow> params args = None"
  by (simp add: act_def split: option.split)

lemma actM_Done_iff [simp]:
  "actM params f args d = Done d' \<longleftrightarrow> (\<exists>a. params args = Some a \<and> f a d = Done d')"
  by (auto simp: actM_def split: option.split)

lemma actM_Panicked_iff [simp]:
  "actM params f args d = Panicked \<longleftrightarrow> (\<exists>a. params args = Some a \<and> f a d = Panicked)"
  by (auto simp: actM_def split: option.split)

subsection \<open>Reading a table\<close>

definition find_event :: "('e, 's, 'd) fsm_event list \<Rightarrow> 'e \<Rightarrow> ('e, 's, 'd) fsm_event option" where
  "find_event tbl e = find (\<lambda>ev. ev_name ev = e) tbl"

lemma find_event_Nil [simp]: "find_event [] e = None"
  by (simp add: find_event_def)

lemma find_event_Cons [simp]:
  "find_event (ev # tbl) e = (if ev_name ev = e then Some ev else find_event tbl e)"
  by (simp add: find_event_def)

lemma find_event_SomeD: "find_event tbl e = Some ev \<Longrightarrow> ev \<in> set tbl \<and> ev_name ev = e"
  by (auto simp: find_event_def find_Some_iff)

text \<open>A clause that names the current state comes before the \<open>FromAny\<close> clause.\<close>

fun clause_target :: "'s \<Rightarrow> 's clause \<Rightarrow> 's target option" where
  "clause_target s (From s' t) = (if s = s' then Some t else None)"
| "clause_target s (FromMany ss t) = (if s \<in> set ss then Some t else None)"
| "clause_target s (FromAny t) = None"

fun specific_target :: "'s clause list \<Rightarrow> 's \<Rightarrow> 's target option" where
  "specific_target [] s = None"
| "specific_target (c # cs) s =
     (case clause_target s c of Some t \<Rightarrow> Some t | None \<Rightarrow> specific_target cs s)"

fun any_target :: "'s clause list \<Rightarrow> 's target option" where
  "any_target [] = None"
| "any_target (FromAny t # cs) = Some t"
| "any_target (_ # cs) = any_target cs"

definition transition :: "'s clause list \<Rightarrow> 's \<Rightarrow> 's target option" where
  "transition cs s = (case specific_target cs s of Some t \<Rightarrow> Some t | None \<Rightarrow> any_target cs)"

text \<open>The states a clause names. In a well-formed event they are distinct and \<open>FromAny\<close> occurs
  at most once, so that the order of its clauses does not matter.\<close>

fun clause_sources :: "'s clause \<Rightarrow> 's list" where
  "clause_sources (From s t) = [s]"
| "clause_sources (FromMany ss t) = ss"
| "clause_sources (FromAny t) = []"

definition is_FromAny :: "'s clause \<Rightarrow> bool" where
  "is_FromAny c = (case c of FromAny t \<Rightarrow> True | _ \<Rightarrow> False)"

definition table_wf :: "('e, 's, 'd) fsm_event list \<Rightarrow> bool" where
  "table_wf tbl \<longleftrightarrow> distinct (map ev_name tbl) \<and>
     list_all (\<lambda>ev. distinct (concat (map clause_sources (ev_clauses ev))) \<and>
       length (filter is_FromAny (ev_clauses ev)) \<le> 1) tbl"

lemma clause_target_source: "clause_target s c = Some t \<Longrightarrow> s \<in> set (clause_sources c)"
  by (cases c) (auto split: if_splits)

lemma clause_source_target: "s \<in> set (clause_sources c) \<Longrightarrow> \<exists>t. clause_target s c = Some t"
  by (cases c) auto

lemma specific_target_iff:
  assumes "distinct (concat (map clause_sources cs))"
  shows "specific_target cs s = Some t \<longleftrightarrow> (\<exists>c \<in> set cs. clause_target s c = Some t)"
  using assms
proof (induction cs)
  case Nil
  then show ?case by simp
next
  case (Cons c cs)
  then have IH: "specific_target cs s = Some t \<longleftrightarrow> (\<exists>c \<in> set cs. clause_target s c = Some t)"
    by simp
  show ?case
  proof (cases "clause_target s c")
    case None
    with IH show ?thesis by simp
  next
    case (Some u)
    then have "s \<in> set (clause_sources c)" by (rule clause_target_source)
    with Cons.prems have "\<forall>c' \<in> set cs. clause_target s c' \<noteq> Some t"
      by (fastforce dest: clause_target_source)
    with Some show ?thesis by auto
  qed
qed

subsection \<open>The engine\<close>

record ('e, 's, 'd) fsm_params =
  StateOf :: "'d \<Rightarrow> 's"
  SetState :: "'s \<Rightarrow> 'd \<Rightarrow> 'd"
  Events :: "('e, 's, 'd) fsm_event list"
  FinalityStates :: "'s list"

text \<open>What becomes of an event: it is refused (an error is returned to the sender, the deal is
  as before), the action panics, the deal is updated without entering a state, or a state is
  entered and its handler will run.\<close>

datatype 'd fsm_result = Rejected | Crashed | Recorded 'd | Entered 'd

definition apply_target :: "('e, 's, 'd) fsm_params \<Rightarrow> 's target \<Rightarrow> 'd \<Rightarrow> 'd fsm_result" where
  "apply_target P t d = (case t of
     To s \<Rightarrow> Entered (SetState P s d) | ToNoChange \<Rightarrow> Entered d | ToJustRecord \<Rightarrow> Recorded d)"

definition fsm_plan ::
  "('e, 's, 'd) fsm_params \<Rightarrow> 'e \<Rightarrow> 's fsm_arg list \<Rightarrow> 'd \<Rightarrow> 'd fsm_result" where
  "fsm_plan P e args d =
     (if StateOf P d \<in> set (FinalityStates P) then Rejected
      else case find_event (Events P) e of None \<Rightarrow> Rejected
      | Some ev \<Rightarrow> (case ev_action ev args d of
          BadArgs \<Rightarrow> Rejected
        | r \<Rightarrow> (case transition (ev_clauses ev) (StateOf P d) of
            None \<Rightarrow> Rejected
          | Some t \<Rightarrow> (case r of Done d' \<Rightarrow> apply_target P t d' | _ \<Rightarrow> Crashed))))"

locale fsm_engine =
  fixes plan :: "('e, 's, 'd) fsm_params \<Rightarrow> 'e \<Rightarrow> 's fsm_arg list \<Rightarrow> 'd \<Rightarrow> 'd fsm_result"
  assumes plan_final: "StateOf P d \<in> set (FinalityStates P) \<Longrightarrow> plan P e args d = Rejected"
    and plan_unknown: "find_event (Events P) e = None \<Longrightarrow> plan P e args d = Rejected"
    and plan_bad_args: "find_event (Events P) e = Some ev \<Longrightarrow> ev_action ev args d = BadArgs \<Longrightarrow>
      plan P e args d = Rejected"
    and plan_no_transition: "find_event (Events P) e = Some ev \<Longrightarrow>
      transition (ev_clauses ev) (StateOf P d) = None \<Longrightarrow> plan P e args d = Rejected"
    and plan_panic: "StateOf P d \<notin> set (FinalityStates P) \<Longrightarrow>
      find_event (Events P) e = Some ev \<Longrightarrow>
      transition (ev_clauses ev) (StateOf P d) = Some t \<Longrightarrow>
      ev_action ev args d = Panicked \<Longrightarrow> plan P e args d = Crashed"
    and plan_apply: "StateOf P d \<notin> set (FinalityStates P) \<Longrightarrow>
      find_event (Events P) e = Some ev \<Longrightarrow>
      transition (ev_clauses ev) (StateOf P d) = Some t \<Longrightarrow>
      ev_action ev args d = Done d' \<Longrightarrow> plan P e args d = apply_target P t d'"
begin

lemma plan_eq: "plan P e args d = fsm_plan P e args d"
proof (cases "StateOf P d \<in> set (FinalityStates P)")
  case True
  then show ?thesis by (simp add: plan_final fsm_plan_def)
next
  case live: False
  show ?thesis
  proof (cases "find_event (Events P) e")
    case None
    with live show ?thesis by (simp add: plan_unknown fsm_plan_def)
  next
    case ev: (Some ev)
    show ?thesis
    proof (cases "transition (ev_clauses ev) (StateOf P d)")
      case None
      with live ev show ?thesis
        by (simp add: plan_no_transition fsm_plan_def split: act_result.split)
    next
      case (Some t)
      with live ev show ?thesis
        by (cases "ev_action ev args d")
          (simp_all add: plan_bad_args plan_panic plan_apply fsm_plan_def)
    qed
  qed
qed

end

interpretation fsm_ref: fsm_engine fsm_plan
  by unfold_locales (simp_all add: fsm_plan_def split: option.split act_result.split)

lemma engine_is_fsm_plan: "fsm_engine plan \<Longrightarrow> plan = fsm_plan"
  by (intro ext) (rule fsm_engine.plan_eq)

text \<open>What an accepted event did: its table entry, clause and action.\<close>

lemma fsm_plan_acceptedE:
  assumes "fsm_plan P e args d = Recorded d' \<or> fsm_plan P e args d = Entered d'"
  obtains ev t d1 where "ev \<in> set (Events P)" "ev_name ev = e"
    "transition (ev_clauses ev) (StateOf P d) = Some t"
    "ev_action ev args d = Done d1" "fsm_plan P e args d = apply_target P t d1"
    "StateOf P d \<notin> set (FinalityStates P)"
proof -
  from assms obtain ev where live: "StateOf P d \<notin> set (FinalityStates P)"
    and ev: "find_event (Events P) e = Some ev"
    by (auto simp: fsm_plan_def split: if_splits option.splits)
  with assms obtain t d1 where "transition (ev_clauses ev) (StateOf P d) = Some t"
    and "ev_action ev args d = Done d1"
    by (auto simp: fsm_plan_def split: option.splits act_result.splits)
  with live ev find_event_SomeD [OF ev] show thesis
    by (intro that) (simp_all add: fsm_plan_def)
qed

subsection \<open>Invariants of a table\<close>

text \<open>\<open>ev_keeps P Q ev\<close>: whenever \<open>ev\<close> is accepted, the deal it leaves satisfies \<open>Q\<close> if the
  one it found did. A table all of whose rows keep \<open>Q\<close> keeps it under every event.\<close>

definition after_target :: "('e, 's, 'd) fsm_params \<Rightarrow> 's target \<Rightarrow> 'd \<Rightarrow> 'd" where
  "after_target P t d = (case t of To s \<Rightarrow> SetState P s d | _ \<Rightarrow> d)"

lemma after_target_simps [simp]:
  "after_target P (To s) d = SetState P s d"
  "after_target P ToNoChange d = d"
  "after_target P ToJustRecord d = d"
  by (simp_all add: after_target_def)

definition ev_keeps ::
  "('e, 's, 'd) fsm_params \<Rightarrow> ('d \<Rightarrow> bool) \<Rightarrow> ('e, 's, 'd) fsm_event \<Rightarrow> bool" where
  "ev_keeps P Q ev \<longleftrightarrow> (\<forall>args d d1 t. Q d \<longrightarrow> StateOf P d \<notin> set (FinalityStates P) \<longrightarrow>
     ev_action ev args d = Done d1 \<longrightarrow> transition (ev_clauses ev) (StateOf P d) = Some t \<longrightarrow>
     Q (after_target P t d1))"

lemma ev_keepsI:
  "(\<And>args d d1 t. Q d \<Longrightarrow> StateOf P d \<notin> set (FinalityStates P) \<Longrightarrow>
     ev_action ev args d = Done d1 \<Longrightarrow> transition (ev_clauses ev) (StateOf P d) = Some t \<Longrightarrow>
     Q (after_target P t d1)) \<Longrightarrow> ev_keeps P Q ev"
  by (simp add: ev_keeps_def)

lemma apply_target_accepted:
  "apply_target P t d1 = Recorded d' \<or> apply_target P t d1 = Entered d' \<Longrightarrow> d' = after_target P t d1"
  by (auto simp: apply_target_def split: target.splits)

lemma table_keeps:
  assumes "list_all (ev_keeps P Q) (Events P)" and "Q d"
    and acc: "fsm_plan P e args d = Recorded d' \<or> fsm_plan P e args d = Entered d'"
  shows "Q d'"
  using acc
proof (rule fsm_plan_acceptedE)
  fix ev t d1
  assume ev: "ev \<in> set (Events P)" and act: "ev_action ev args d = Done d1"
    and t: "transition (ev_clauses ev) (StateOf P d) = Some t"
    and live: "StateOf P d \<notin> set (FinalityStates P)"
    and plan: "fsm_plan P e args d = apply_target P t d1"
  from assms(1) ev have "ev_keeps P Q ev" by (simp add: list_all_iff)
  with assms(2) live act t have "Q (after_target P t d1)" by (simp add: ev_keeps_def)
  with apply_target_accepted [of P t d1 d'] acc plan show ?thesis by simp
qed

text \<open>\<open>ev_relates P R ev\<close>: whenever \<open>ev\<close> is accepted, the deals before and after are related by
  \<open>R\<close>, which may look at the event and its arguments.\<close>

definition ev_relates ::
  "('e, 's, 'd) fsm_params \<Rightarrow> ('e \<Rightarrow> 's fsm_arg list \<Rightarrow> 'd \<Rightarrow> 'd \<Rightarrow> bool) \<Rightarrow>
   ('e, 's, 'd) fsm_event \<Rightarrow> bool" where
  "ev_relates P R ev \<longleftrightarrow> (\<forall>args d d1 t. StateOf P d \<notin> set (FinalityStates P) \<longrightarrow>
     ev_action ev args d = Done d1 \<longrightarrow> transition (ev_clauses ev) (StateOf P d) = Some t \<longrightarrow>
     R (ev_name ev) args d (after_target P t d1))"

lemma ev_relatesI:
  "(\<And>args d d1 t. StateOf P d \<notin> set (FinalityStates P) \<Longrightarrow>
     ev_action ev args d = Done d1 \<Longrightarrow> transition (ev_clauses ev) (StateOf P d) = Some t \<Longrightarrow>
     R (ev_name ev) args d (after_target P t d1)) \<Longrightarrow> ev_relates P R ev"
  by (simp add: ev_relates_def)

lemma table_relates:
  assumes "list_all (ev_relates P R) (Events P)"
    and acc: "fsm_plan P e args d = Recorded d' \<or> fsm_plan P e args d = Entered d'"
  shows "R e args d d'"
  using acc
proof (rule fsm_plan_acceptedE)
  fix ev t d1
  assume ev: "ev \<in> set (Events P)" and name: "ev_name ev = e" and act: "ev_action ev args d = Done d1"
    and t: "transition (ev_clauses ev) (StateOf P d) = Some t"
    and live: "StateOf P d \<notin> set (FinalityStates P)"
    and plan: "fsm_plan P e args d = apply_target P t d1"
  from assms(1) ev have "ev_relates P R ev" by (simp add: list_all_iff)
  with live act t have "R (ev_name ev) args d (after_target P t d1)" by (simp add: ev_relates_def)
  with apply_target_accepted [of P t d1 d'] acc plan name show ?thesis by simp
qed

text \<open>An event crashes only where its action does, in a state the event is accepted in.\<close>

lemma fsm_plan_Crashed:
  assumes "fsm_plan P e args d = Crashed"
  shows "\<exists>ev. find_event (Events P) e = Some ev \<and> ev_action ev args d = Panicked \<and>
    transition (ev_clauses ev) (StateOf P d) \<noteq> None"
  using assms
  by (auto simp: fsm_plan_def apply_target_def
      split: if_splits option.splits act_result.splits target.splits)

lemma fsm_plan_Rejected:
  "fsm_plan P e args d = Rejected \<longleftrightarrow> StateOf P d \<in> set (FinalityStates P) \<or>
     (case find_event (Events P) e of None \<Rightarrow> True
      | Some ev \<Rightarrow> ev_action ev args d = BadArgs \<or> transition (ev_clauses ev) (StateOf P d) = None)"
  by (auto simp: fsm_plan_def apply_target_def split: option.split act_result.split target.split)

lemma actM_BadArgs_iff [simp]:
  "actM params f args d = BadArgs \<longleftrightarrow> (\<forall>a. params args = Some a \<longrightarrow> f a d = BadArgs)"
  by (auto simp: actM_def split: option.split)

end
