(* ===== verification/Fsm_Machine.thy ===== *)
theory Fsm_Machine
  imports Fsm
begin

section \<open>State machines in motion\<close>

text \<open>
  A deal's state machine between the events sent to it and the handlers it runs. A state entry
  handler of the source is a function from the results of the calls it makes (its environment)
  and the deal to the list of steps it takes: calls that change the world outside, events sent to
  the deal's own queue, callbacks and goroutines left behind, or a nil dereference. The machine
  takes one step at a time, so that events sent from outside and from callbacks interleave with
  those of a handler in every order:

    \<^item> \<open>enter\<close>: the handler of a state just entered starts, in an arbitrary environment;
    \<^item> \<open>todo\<close>: the handler takes its next step;
    \<^item> \<open>callback\<close>: a callback left behind takes its next step;
    \<^item> \<open>event\<close>: with no handler running, the engine processes the next event of the queue; with
      the engine's option \<open>ConsumeAllEventsBeforeEntryFuncs\<close> it empties the queue before the handler
      of the state then current starts, otherwise the handler of a state entered comes first;
    \<^item> \<open>external\<close>: another component sends an event;
    \<^item> \<open>restart\<close>: the process starts anew with the stored deal, and the restart event is sent.

  \<open>MayRestart\<close> says in which configurations a restart is considered, \<open>EnvOK\<close> what is assumed of the
  environments. The environment also stands for what an action reads of the world (the clock).
\<close>

datatype ('c, 'e, 's) hstep =
    Call 'c
  | Trig 'e "'s fsm_arg list"
  | NilDeref
  | Async "('c, 'e, 's) hstep list"

record ('c, 'e, 's, 'd) cfg =
  cfg_deal :: 'd
  queue :: "('e \<times> 's fsm_arg list) list"
  entered :: bool
  todo :: "('c, 'e, 's) hstep list"
  callbacks :: "('c, 'e, 's) hstep list list"
  made :: "'c list"
  crashed :: bool

record ('n, 'c, 'e, 's, 'd) machine =
  Plan :: "'n \<Rightarrow> 'e \<Rightarrow> 's fsm_arg list \<Rightarrow> 'd \<Rightarrow> 'd fsm_result"
  Handler :: "'n \<Rightarrow> 'd \<Rightarrow> ('c, 'e, 's) hstep list"
  EnvOK :: "'n \<Rightarrow> bool"
  External :: "'e \<Rightarrow> 's fsm_arg list \<Rightarrow> bool"
  RestartEvent :: 'e
  MayRestart :: "('c, 'e, 's, 'd) cfg \<Rightarrow> bool"
  ConsumeAll :: bool

definition start_cfg :: "'d \<Rightarrow> ('e \<times> 's fsm_arg list) list \<Rightarrow> ('c, 'e, 's, 'd) cfg" where
  "start_cfg d q = \<lparr>cfg_deal = d, queue = q, entered = False, todo = [], callbacks = [],
     made = [], crashed = False\<rparr>"

fun run_step :: "('c, 'e, 's) hstep \<Rightarrow> ('c, 'e, 's, 'd) cfg \<Rightarrow> ('c, 'e, 's, 'd) cfg" where
  "run_step (Call x) c = c\<lparr>made := made c @ [x]\<rparr>"
| "run_step (Trig e a) c = c\<lparr>queue := queue c @ [(e, a)]\<rparr>"
| "run_step NilDeref c = c\<lparr>crashed := True\<rparr>"
| "run_step (Async ss) c = c\<lparr>callbacks := callbacks c @ [ss]\<rparr>"

definition process ::
  "'d fsm_result \<Rightarrow> ('e \<times> 's fsm_arg list) list \<Rightarrow> ('c, 'e, 's, 'd) cfg \<Rightarrow> ('c, 'e, 's, 'd) cfg" where
  "process r q c = (case r of
     Rejected \<Rightarrow> c\<lparr>queue := q\<rparr>
   | Crashed \<Rightarrow> c\<lparr>queue := q, crashed := True\<rparr>
   | Recorded d \<Rightarrow> c\<lparr>queue := q, cfg_deal := d\<rparr>
   | Entered d \<Rightarrow> c\<lparr>queue := q, cfg_deal := d, entered := True\<rparr>)"

definition restarted :: "'e \<Rightarrow> ('c, 'e, 's, 'd) cfg \<Rightarrow> ('c, 'e, 's, 'd) cfg" where
  "restarted e c = c\<lparr>queue := [(e, [])], entered := False, todo := [], callbacks := [],
     crashed := False\<rparr>"

inductive machine_step ::
  "('n, 'c, 'e, 's, 'd) machine \<Rightarrow> ('c, 'e, 's, 'd) cfg \<Rightarrow> ('c, 'e, 's, 'd) cfg \<Rightarrow> bool"
  for M where
  enter: "\<not> crashed c \<Longrightarrow> entered c \<Longrightarrow> todo c = [] \<Longrightarrow> EnvOK M env \<Longrightarrow>
    (ConsumeAll M \<longrightarrow> queue c = []) \<Longrightarrow>
    machine_step M c (c\<lparr>entered := False, todo := Handler M env (cfg_deal c)\<rparr>)"
| todo: "\<not> crashed c \<Longrightarrow> todo c = s # ss \<Longrightarrow> machine_step M c (run_step s (c\<lparr>todo := ss\<rparr>))"
| callback: "\<not> crashed c \<Longrightarrow> i < length (callbacks c) \<Longrightarrow> callbacks c ! i = s # ss \<Longrightarrow>
    machine_step M c (run_step s (c\<lparr>callbacks := (callbacks c)[i := ss]\<rparr>))"
| event: "\<not> crashed c \<Longrightarrow> \<not> entered c \<or> ConsumeAll M \<Longrightarrow> todo c = [] \<Longrightarrow> queue c = (e, a) # q \<Longrightarrow>
    machine_step M c (process (Plan M env e a (cfg_deal c)) q c)"
| external: "\<not> crashed c \<Longrightarrow> External M e a \<Longrightarrow>
    machine_step M c (c\<lparr>queue := queue c @ [(e, a)]\<rparr>)"
| restart: "MayRestart M c \<Longrightarrow> machine_step M c (restarted (RestartEvent M) c)"

inductive machine_reach ::
  "('n, 'c, 'e, 's, 'd) machine \<Rightarrow> ('c, 'e, 's, 'd) cfg \<Rightarrow> ('c, 'e, 's, 'd) cfg \<Rightarrow> bool"
  for M c0 where
  start: "machine_reach M c0 c0"
| step: "machine_reach M c0 c \<Longrightarrow> machine_step M c c' \<Longrightarrow> machine_reach M c0 c'"

inductive_cases machine_stepE: "machine_step M c c'"

subsection \<open>Invariants of a machine\<close>

locale machine_invariant =
  fixes M :: "('n, 'c, 'e, 's, 'd) machine"
    and I :: "('c, 'e, 's, 'd) cfg \<Rightarrow> bool"
  assumes inv_enter: "I c \<Longrightarrow> \<not> crashed c \<Longrightarrow> entered c \<Longrightarrow> todo c = [] \<Longrightarrow> EnvOK M env \<Longrightarrow>
      (ConsumeAll M \<longrightarrow> queue c = []) \<Longrightarrow> I (c\<lparr>entered := False, todo := Handler M env (cfg_deal c)\<rparr>)"
    and inv_todo: "I c \<Longrightarrow> \<not> crashed c \<Longrightarrow> todo c = s # ss \<Longrightarrow> I (run_step s (c\<lparr>todo := ss\<rparr>))"
    and inv_callback: "I c \<Longrightarrow> \<not> crashed c \<Longrightarrow> i < length (callbacks c) \<Longrightarrow>
      callbacks c ! i = s # ss \<Longrightarrow> I (run_step s (c\<lparr>callbacks := (callbacks c)[i := ss]\<rparr>))"
    and inv_event: "I c \<Longrightarrow> \<not> crashed c \<Longrightarrow> \<not> entered c \<or> ConsumeAll M \<Longrightarrow> todo c = [] \<Longrightarrow>
      queue c = (e, a) # q \<Longrightarrow> I (process (Plan M env e a (cfg_deal c)) q c)"
    and inv_external: "I c \<Longrightarrow> \<not> crashed c \<Longrightarrow> External M e a \<Longrightarrow>
      I (c\<lparr>queue := queue c @ [(e, a)]\<rparr>)"
    and inv_restart: "I c \<Longrightarrow> MayRestart M c \<Longrightarrow> I (restarted (RestartEvent M) c)"
begin

lemma step_keeps: "machine_step M c c' \<Longrightarrow> I c \<Longrightarrow> I c'"
  by (cases rule: machine_step.cases)
    (auto intro: inv_enter inv_todo inv_callback inv_event inv_external inv_restart)

lemma reach_keeps: "machine_reach M c0 c \<Longrightarrow> I c0 \<Longrightarrow> I c"
  by (induction rule: machine_reach.induct) (auto intro: step_keeps)

end

subsection \<open>Invariants of the deal alone\<close>

text \<open>An invariant of the stored deal that every event keeps, whatever its arguments and whoever
  sent it, and under which no handler dereferences nil.\<close>

fun nil_free :: "('c, 'e, 's) hstep \<Rightarrow> bool" where
  "nil_free NilDeref = False"
| "nil_free (Async ss) = list_all nil_free ss"
| "nil_free (Call x) = True"
| "nil_free (Trig e a) = True"

lemma nil_free_map: "list_all nil_free (map f xs) \<longleftrightarrow> (\<forall>x \<in> set xs. nil_free (f x))"
  by (simp add: list_all_iff)

definition cfg_nil_free :: "('c, 'e, 's, 'd) cfg \<Rightarrow> bool" where
  "cfg_nil_free c \<longleftrightarrow> list_all nil_free (todo c) \<and> list_all (list_all nil_free) (callbacks c)"

lemma run_step_deal [simp]: "cfg_deal (run_step s c) = cfg_deal c"
  by (cases s) simp_all

lemma run_step_todo [simp]: "todo (run_step s c) = todo c"
  by (cases s) simp_all

lemma run_step_entered [simp]: "entered (run_step s c) = entered c"
  by (cases s) simp_all

lemma run_step_callbacks:
  "nil_free s \<Longrightarrow> list_all (list_all nil_free) (callbacks c) \<Longrightarrow>
     list_all (list_all nil_free) (callbacks (run_step s c))"
  by (cases s) simp_all

lemma process_todo [simp]: "todo (process r q c) = todo c"
  and process_callbacks [simp]: "callbacks (process r q c) = callbacks c"
  and process_made [simp]: "made (process r q c) = made c"
  and process_queue [simp]: "queue (process r q c) = q"
  by (simp_all add: process_def split: fsm_result.split)

lemma list_all_nth_Cons:
  assumes "list_all (list_all p) xss" and "i < length xss" and "xss ! i = x # xs"
  shows "p x" and "list_all p xs" and "list_all (list_all p) (xss[i := xs])"
proof -
  from assms have "list_all p (x # xs)" by (metis list_all_length)
  then show "p x" and "list_all p xs" by simp_all
  with assms(1) show "list_all (list_all p) (xss[i := xs])"
    by (auto simp: list_all_iff dest: set_update_subset_insert [THEN subsetD])
qed

locale deal_invariant =
  fixes M :: "('n, 'c, 'e, 's, 'd) machine" and J :: "'d \<Rightarrow> bool"
  assumes event_keeps: "J d \<Longrightarrow> Plan M env e a d = Recorded d' \<or> Plan M env e a d = Entered d' \<Longrightarrow> J d'"
    and handler_safe: "J d \<Longrightarrow> EnvOK M env \<Longrightarrow> list_all nil_free (Handler M env d)"

sublocale deal_invariant \<subseteq> cfg: machine_invariant M "\<lambda>c. J (cfg_deal c) \<and> cfg_nil_free c"
proof
  fix c :: "('c, 'e, 's, 'd) cfg" and env
  assume "J (cfg_deal c) \<and> cfg_nil_free c" and "EnvOK M env"
  then show "J (cfg_deal (c\<lparr>entered := False, todo := Handler M env (cfg_deal c)\<rparr>)) \<and>
      cfg_nil_free (c\<lparr>entered := False, todo := Handler M env (cfg_deal c)\<rparr>)"
    by (simp add: cfg_nil_free_def handler_safe)
next
  fix c :: "('c, 'e, 's, 'd) cfg" and s ss
  assume "J (cfg_deal c) \<and> cfg_nil_free c" and "todo c = s # ss"
  then show "J (cfg_deal (run_step s (c\<lparr>todo := ss\<rparr>))) \<and> cfg_nil_free (run_step s (c\<lparr>todo := ss\<rparr>))"
    by (simp add: cfg_nil_free_def run_step_callbacks)
next
  fix c :: "('c, 'e, 's, 'd) cfg" and i s ss
  assume "J (cfg_deal c) \<and> cfg_nil_free c" and "i < length (callbacks c)"
    and "callbacks c ! i = s # ss"
  then show "J (cfg_deal (run_step s (c\<lparr>callbacks := (callbacks c)[i := ss]\<rparr>))) \<and>
      cfg_nil_free (run_step s (c\<lparr>callbacks := (callbacks c)[i := ss]\<rparr>))"
    using list_all_nth_Cons [of nil_free "callbacks c" i s ss]
    by (simp add: cfg_nil_free_def run_step_callbacks)
next
  fix c :: "('c, 'e, 's, 'd) cfg" and env e a q
  assume "J (cfg_deal c) \<and> cfg_nil_free c"
  then show "J (cfg_deal (process (Plan M env e a (cfg_deal c)) q c)) \<and>
      cfg_nil_free (process (Plan M env e a (cfg_deal c)) q c)"
    by (auto simp: cfg_nil_free_def process_def split: fsm_result.split intro: event_keeps)
qed (simp_all add: cfg_nil_free_def restarted_def)

context deal_invariant
begin

lemma reach_deal:
  assumes "machine_reach M (start_cfg d q) c" and "J d"
  shows "J (cfg_deal c)" and "cfg_nil_free c"
proof -
  have "J (cfg_deal (start_cfg d q)) \<and> cfg_nil_free (start_cfg d q)"
    using assms(2) by (simp add: start_cfg_def cfg_nil_free_def)
  from cfg.reach_keeps [OF assms(1) this] show "J (cfg_deal c)" and "cfg_nil_free c" by simp_all
qed

end

subsection \<open>Invariants of the deal and of the events under way\<close>

text \<open>An invariant that holds because of what handlers and other components send: \<open>G d e a\<close> says
  that event \<open>e\<close> with arguments \<open>a\<close> may be under way while the deal is \<open>d\<close>, and stays true while
  other events are processed; \<open>C\<close> holds of the calls made. Then no event and no handler of a run
  panics.\<close>

fun good_step :: "('c \<Rightarrow> bool) \<Rightarrow> ('e \<Rightarrow> 's fsm_arg list \<Rightarrow> bool) \<Rightarrow> ('c, 'e, 's) hstep \<Rightarrow> bool" where
  "good_step C G NilDeref = False"
| "good_step C G (Async ss) = list_all (good_step C G) ss"
| "good_step C G (Call x) = C x"
| "good_step C G (Trig e a) = G e a"

definition good_cfg ::
  "('c \<Rightarrow> bool) \<Rightarrow> ('d \<Rightarrow> 'e \<Rightarrow> 's fsm_arg list \<Rightarrow> bool) \<Rightarrow> ('c, 'e, 's, 'd) cfg \<Rightarrow> bool" where
  "good_cfg C G c \<longleftrightarrow> \<not> crashed c \<and> list_all C (made c) \<and> list_all (\<lambda>(e, a). G (cfg_deal c) e a) (queue c) \<and>
     list_all (good_step C (G (cfg_deal c))) (todo c) \<and>
     list_all (list_all (good_step C (G (cfg_deal c)))) (callbacks c)"

lemma good_step_mono:
  "(\<And>e a. G e a \<Longrightarrow> G' e a) \<Longrightarrow> good_step C G s \<Longrightarrow> good_step C G' s"
  by (induction C G s rule: good_step.induct) (auto simp: list_all_iff)

lemma good_cfg_run_step:
  "good_cfg C G c \<Longrightarrow> good_step C (G (cfg_deal c)) s \<Longrightarrow> good_cfg C G (run_step s c)"
  by (cases s) (simp_all add: good_cfg_def)

locale guarded_invariant =
  fixes M :: "('n, 'c, 'e, 's, 'd) machine" and J :: "'d \<Rightarrow> bool"
    and G :: "'d \<Rightarrow> 'e \<Rightarrow> 's fsm_arg list \<Rightarrow> bool" and C :: "'c \<Rightarrow> bool"
  assumes guarded_keeps: "J d \<Longrightarrow> G d e a \<Longrightarrow>
      Plan M env e a d = Recorded d' \<or> Plan M env e a d = Entered d' \<Longrightarrow> J d'"
    and guarded_safe: "J d \<Longrightarrow> G d e a \<Longrightarrow> Plan M env e a d \<noteq> Crashed"
    and guarded_stable: "J d \<Longrightarrow> G d e a \<Longrightarrow> G d e' a' \<Longrightarrow>
      Plan M env e a d = Recorded d' \<or> Plan M env e a d = Entered d' \<Longrightarrow> G d' e' a'"
    and guarded_handler: "J d \<Longrightarrow> EnvOK M env \<Longrightarrow> list_all (good_step C (G d)) (Handler M env d)"
    and guarded_external: "J d \<Longrightarrow> External M e a \<Longrightarrow> G d e a"
    and guarded_restart: "J d \<Longrightarrow> MayRestart M c \<Longrightarrow> G d (RestartEvent M) []"
begin

lemma good_cfg_process:
  fixes c :: "('c, 'e, 's, 'd) cfg"
  assumes "J (cfg_deal c)" and "good_cfg C G c" and "queue c = (e, a) # q"
  shows "J (cfg_deal (process (Plan M env e a (cfg_deal c)) q c)) \<and>
    good_cfg C G (process (Plan M env e a (cfg_deal c)) q c)"
proof -
  let ?r = "Plan M env e a (cfg_deal c)"
  from assms(2,3) have G: "G (cfg_deal c) e a" by (simp add: good_cfg_def)
  have step: "J d' \<and> good_cfg C G (c\<lparr>queue := q, cfg_deal := d', entered := b\<rparr>)"
    if r: "?r = Recorded d' \<or> ?r = Entered d'" for d' b
  proof
    show "J d'" using guarded_keeps [OF assms(1) G r] .
    note st = guarded_stable [OF assms(1) G _ r]
    have gs: "good_step C (G d') s" if "good_step C (G (cfg_deal c)) s" for s :: "('c, 'e, 's) hstep"
      using that by (rule good_step_mono [rotated]) (rule st)
    show "good_cfg C G (c\<lparr>queue := q, cfg_deal := d', entered := b\<rparr>)"
      using assms(2,3) by (auto simp: good_cfg_def list_all_iff intro: st gs)
  qed
  show ?thesis
  proof (cases ?r)
    case Rejected
    with assms show ?thesis by (simp add: process_def good_cfg_def)
  next
    case Crashed
    with guarded_safe [OF assms(1) G] show ?thesis by simp
  next
    case (Recorded d')
    with step [of d' "entered c"] show ?thesis by (simp add: process_def good_cfg_def)
  next
    case (Entered d')
    with step [of d' True] show ?thesis by (simp add: process_def)
  qed
qed

end

sublocale guarded_invariant \<subseteq> cfg: machine_invariant M "\<lambda>c. J (cfg_deal c) \<and> good_cfg C G c"
proof
  fix c :: "('c, 'e, 's, 'd) cfg" and env
  assume "J (cfg_deal c) \<and> good_cfg C G c" and "EnvOK M env"
  then show "J (cfg_deal (c\<lparr>entered := False, todo := Handler M env (cfg_deal c)\<rparr>)) \<and>
      good_cfg C G (c\<lparr>entered := False, todo := Handler M env (cfg_deal c)\<rparr>)"
    by (simp add: good_cfg_def guarded_handler)
next
  fix c :: "('c, 'e, 's, 'd) cfg" and s ss
  assume "J (cfg_deal c) \<and> good_cfg C G c" and "todo c = s # ss"
  then show "J (cfg_deal (run_step s (c\<lparr>todo := ss\<rparr>))) \<and> good_cfg C G (run_step s (c\<lparr>todo := ss\<rparr>))"
    using good_cfg_run_step [of C G "c\<lparr>todo := ss\<rparr>" s] by (simp add: good_cfg_def)
next
  fix c :: "('c, 'e, 's, 'd) cfg" and i s ss
  assume "J (cfg_deal c) \<and> good_cfg C G c" and "i < length (callbacks c)"
    and "callbacks c ! i = s # ss"
  then show "J (cfg_deal (run_step s (c\<lparr>callbacks := (callbacks c)[i := ss]\<rparr>))) \<and>
      good_cfg C G (run_step s (c\<lparr>callbacks := (callbacks c)[i := ss]\<rparr>))"
    using list_all_nth_Cons [of "good_step C (G (cfg_deal c))" "callbacks c" i s ss]
      good_cfg_run_step [of C G "c\<lparr>callbacks := (callbacks c)[i := ss]\<rparr>" s]
    by (simp add: good_cfg_def)
qed (simp_all add: good_cfg_process, simp_all add: good_cfg_def guarded_external guarded_restart restarted_def)

context guarded_invariant
begin

lemma reach_guarded:
  assumes "machine_reach M (start_cfg d q) c" and "J d" and "list_all (\<lambda>(e, a). G d e a) q"
  shows "J (cfg_deal c)" and "\<not> crashed c" and "cfg_nil_free c" and "list_all C (made c)"
proof -
  have "J (cfg_deal (start_cfg d q)) \<and> good_cfg C G (start_cfg d q)"
    using assms(2,3) by (simp add: start_cfg_def good_cfg_def)
  from cfg.reach_keeps [OF assms(1) this] have J: "J (cfg_deal c)" and good: "good_cfg C G c"
    by simp_all
  show "J (cfg_deal c)" by (rule J)
  show "\<not> crashed c" and "list_all C (made c)" using good by (simp_all add: good_cfg_def)
  have nf: "nil_free s" if "good_step C H s" for H and s :: "('c, 'e, 's) hstep"
    using that by (induction C H s rule: good_step.induct) (auto simp: list_all_iff)
  show "cfg_nil_free c" using good 
    unfolding good_cfg_def cfg_nil_free_def list_all_iff by (blast intro: nf)
qed

end

subsection \<open>Events and calls of a list of steps\<close>

text \<open>The events a list of steps sends itself, those its callbacks will send, and its calls.\<close>

fun strigs :: "('c, 'e, 's) hstep list \<Rightarrow> ('e \<times> 's fsm_arg list) list" where
  "strigs [] = []"
| "strigs (Trig e a # ss) = (e, a) # strigs ss"
| "strigs (Call x # ss) = strigs ss"
| "strigs (NilDeref # ss) = strigs ss"
| "strigs (Async ts # ss) = strigs ss"

fun atrigs :: "('c, 'e, 's) hstep list \<Rightarrow> ('e \<times> 's fsm_arg list) list" where
  "atrigs [] = []"
| "atrigs (Trig e a # ss) = atrigs ss"
| "atrigs (Call x # ss) = atrigs ss"
| "atrigs (NilDeref # ss) = atrigs ss"
| "atrigs (Async ts # ss) = strigs ts @ atrigs ss"

fun scalls :: "('c, 'e, 's) hstep list \<Rightarrow> 'c list" where
  "scalls [] = []"
| "scalls (Trig e a # ss) = scalls ss"
| "scalls (Call x # ss) = x # scalls ss"
| "scalls (NilDeref # ss) = scalls ss"
| "scalls (Async ts # ss) = scalls ss"

lemma strigs_append [simp]: "strigs (xs @ ys) = strigs xs @ strigs ys"
  by (induction xs rule: strigs.induct) simp_all

lemma atrigs_append [simp]: "atrigs (xs @ ys) = atrigs xs @ atrigs ys"
  by (induction xs rule: atrigs.induct) simp_all

lemma scalls_append [simp]: "scalls (xs @ ys) = scalls xs @ scalls ys"
  by (induction xs rule: scalls.induct) simp_all

lemma concat_update:
  assumes "i < length xss"
  shows "\<exists>pre post. concat (map f xss) = pre @ f (xss ! i) @ post \<and>
    (\<forall>ys. concat (map f (xss[i := ys])) = pre @ f ys @ post)"
proof (intro exI conjI allI)
  show "concat (map f xss) =
      concat (map f (take i xss)) @ f (xss ! i) @ concat (map f (drop (Suc i) xss))"
    using id_take_nth_drop [OF assms] by (metis concat.simps(2) concat_append list.map(2) map_append)
  show "concat (map f (xss[i := ys])) =
      concat (map f (take i xss)) @ f ys @ concat (map f (drop (Suc i) xss))" for ys
    using assms by (simp add: upd_conv_take_nth_drop)
qed

subsection \<open>A scheduler\<close>

text \<open>A deterministic run of a machine, to evaluate concrete runs: a running handler first, then
  a handler to start, then the queue, then the first callback.\<close>

fun first_busy :: "'a list list \<Rightarrow> nat option" where
  "first_busy [] = None"
| "first_busy ((x # xs) # xss) = Some 0"
| "first_busy ([] # xss) = map_option Suc (first_busy xss)"

lemma first_busy_Some: "first_busy xss = Some i \<Longrightarrow> i < length xss \<and> xss ! i \<noteq> []"
  by (induction xss arbitrary: i rule: first_busy.induct) auto

definition sched ::
  "('n, 'c, 'e, 's, 'd) machine \<Rightarrow> 'n \<Rightarrow> ('c, 'e, 's, 'd) cfg \<Rightarrow> ('c, 'e, 's, 'd) cfg" where
  "sched M env c = (if crashed c then c else case todo c of
     s # ss \<Rightarrow> run_step s (c\<lparr>todo := ss\<rparr>)
   | [] \<Rightarrow> if entered c \<and> (ConsumeAll M \<longrightarrow> queue c = []) then c\<lparr>entered := False, todo := Handler M env (cfg_deal c)\<rparr>
     else (case queue c of
       (e, a) # q \<Rightarrow> process (Plan M env e a (cfg_deal c)) q c
     | [] \<Rightarrow> (case first_busy (callbacks c) of
         Some i \<Rightarrow> (case callbacks c ! i of
           s # ss \<Rightarrow> run_step s (c\<lparr>callbacks := (callbacks c)[i := ss]\<rparr>) | [] \<Rightarrow> c)
       | None \<Rightarrow> c)))"

fun sched_n :: "nat \<Rightarrow> ('n, 'c, 'e, 's, 'd) machine \<Rightarrow> 'n \<Rightarrow> ('c, 'e, 's, 'd) cfg \<Rightarrow> ('c, 'e, 's, 'd) cfg" where
  "sched_n 0 M env c = c"
| "sched_n (Suc n) M env c = sched_n n M env (sched M env c)"

lemma sched_step: "EnvOK M env \<Longrightarrow> sched M env c = c \<or> machine_step M c (sched M env c)"
  by (auto simp: sched_def split: list.split option.split intro: machine_step.intros
      dest: first_busy_Some)

lemma sched_n_reach:
  "machine_reach M c0 c \<Longrightarrow> EnvOK M env \<Longrightarrow> machine_reach M c0 (sched_n n M env c)"
proof (induction n arbitrary: c)
  case (Suc n)
  from sched_step [OF Suc.prems(2), of c] Suc.prems(1) have "machine_reach M c0 (sched M env c)"
    by (auto intro: machine_reach.step)
  with Suc.IH Suc.prems(2) show ?case by simp
qed simp

lemma sched_n_start: "EnvOK M env \<Longrightarrow> machine_reach M c0 (sched_n n M env c0)"
  by (rule sched_n_reach [OF machine_reach.start])

lemma external_reach: "machine_reach M c0 c \<Longrightarrow> \<not> crashed c \<Longrightarrow> External M e a \<Longrightarrow>
    machine_reach M c0 (c\<lparr>queue := queue c @ [(e, a)]\<rparr>)"
  by (auto intro: machine_reach.step machine_step.external)

text \<open>A run in which other components send the given events, each when the machine had \<open>n\<close> steps to
  come to rest.\<close>

fun drive :: "nat \<Rightarrow> ('n, 'c, 'e, 's, 'd) machine \<Rightarrow> 'n \<Rightarrow> ('e \<times> 's fsm_arg list) list \<Rightarrow>
    ('c, 'e, 's, 'd) cfg \<Rightarrow> ('c, 'e, 's, 'd) cfg" where
  "drive n M env [] c = sched_n n M env c"
| "drive n M env (x # xs) c = (let c' = sched_n n M env c in
     if crashed c' then c' else drive n M env xs (c'\<lparr>queue := queue c' @ [x]\<rparr>))"

lemma drive_reach:
  assumes "EnvOK M env"
  shows "machine_reach M c0 c \<Longrightarrow> list_all (\<lambda>(e, a). External M e a) xs \<Longrightarrow>
    machine_reach M c0 (drive n M env xs c)"
proof (induction xs arbitrary: c)
  case Nil
  then show ?case using sched_n_reach [OF _ assms] by simp
next
  case (Cons x xs)
  have "machine_reach M c0 (sched_n n M env c)" using sched_n_reach [OF Cons.prems(1) assms] .
  with Cons.prems(2) Cons.IH show ?case
    by (cases x) (auto simp: Let_def intro: external_reach)
qed

end
