(* ===== verification/Storage_Provider_Fsm.thy ===== *)
theory Storage_Provider_Fsm
  imports Storage_Types Fsm_Machine
begin

section \<open>Storage provider: deal record and event table\<close>

text \<open>
  \<open>MinerDeal\<close> (\<open>storagemarket/types.go\<close>) and the event table of
  \<open>storagemarket/impl/providerstates/provider_fsm.go\<close>, event by event in the order of the
  source, with the actions on the deal, the finality states and the states known by the sealing
  subsystem. An action runs before the new state is stored, as in the engine.
\<close>

record MinerDeal =
  Proposal :: DealProposal
  ClientSignature :: string
  ProposalCid :: cid
  AddFundsCid :: "cid option"
  PublishCid :: "cid option"
  Miner :: peer_id
  Client :: peer_id
  State :: StorageDealStatus
  PiecePath :: string
  MetadataPath :: string
  SlashEpoch :: chain_epoch
  FastRetrieval :: bool
  Message :: string
  FundsReserved :: "token_amount option"
  Ref :: "DataRef option"
  AvailableForRetrieval :: bool
  DealID :: uint64
  CreationTime :: int
  TransferChannelId :: "channel_id option"
  SectorNumber :: uint64
  InboundCAR :: string

type_synonym provider_event = "(ProviderEvent, StorageDealStatus, MinerDeal) fsm_event"

subsection \<open>Events\<close>

text \<open>The action most failures share: the message is the error with a prefix.\<close>

definition note_error :: "string \<Rightarrow> (StorageDealStatus, MinerDeal) action" where
  "note_error prefix = act p_err (\<lambda>err deal. deal\<lparr>Message := prefix @ Error err\<rparr>)"

definition no_action :: "(StorageDealStatus, MinerDeal) action" where
  "no_action = act p_none (\<lambda>_ deal. deal)"

definition ProviderEvents_1 :: "provider_event list" where
  "ProviderEvents_1 = [
    Event ProviderEventOpen
      [From StorageDealUnknown (To StorageDealValidating)] no_action,
    Event ProviderEventNodeErrored
      [FromAny (To StorageDealFailing)] (note_error ''error calling node: ''),
    Event ProviderEventDealRejected
      [FromMany [StorageDealValidating, StorageDealVerifyData, StorageDealAcceptWait]
         (To StorageDealRejecting)]
      (note_error ''deal rejected: ''),
    Event ProviderEventRejectionSent
      [From StorageDealRejecting (To StorageDealFailing)] no_action,
    Event ProviderEventDealDeciding
      [From StorageDealValidating (To StorageDealAcceptWait)] no_action,
    Event ProviderEventDataRequested
      [From StorageDealAcceptWait (To StorageDealWaitingForData)] no_action,
    Event ProviderEventDataTransferFailed
      [FromMany [StorageDealTransferring, StorageDealProviderTransferAwaitRestart]
         (To StorageDealFailing)]
      (note_error ''error transferring data: ''),
    Event ProviderEventDataTransferInitiated
      [FromMany [StorageDealWaitingForData, StorageDealProviderTransferAwaitRestart]
         (To StorageDealTransferring)]
      (act p_channel (\<lambda>channelId deal. deal\<lparr>TransferChannelId := Some channelId\<rparr>)),
    Event ProviderEventDataTransferRestarted
      [FromMany [StorageDealWaitingForData, StorageDealProviderTransferAwaitRestart]
         (To StorageDealTransferring),
       From StorageDealTransferring ToJustRecord]
      (act p_channel (\<lambda>channelId deal. deal\<lparr>TransferChannelId := Some channelId, Message := []\<rparr>)),
    Event ProviderEventDataTransferStalled
      [FromMany [StorageDealTransferring, StorageDealProviderTransferAwaitRestart] ToJustRecord]
      (act p_none (\<lambda>_ deal. deal\<lparr>Message :=
         ''data transfer appears to be stalled, awaiting reconnect from client''\<rparr>)),
    Event ProviderEventDataTransferCancelled
      [FromMany [StorageDealWaitingForData, StorageDealTransferring,
         StorageDealProviderTransferAwaitRestart] (To StorageDealFailing)]
      (act p_none (\<lambda>_ deal. deal\<lparr>Message := ''data transfer cancelled''\<rparr>)),
    Event ProviderEventDataTransferCompleted
      [FromMany [StorageDealTransferring, StorageDealProviderTransferAwaitRestart]
         (To StorageDealVerifyData)] no_action,
    Event ProviderEventDataVerificationFailed
      [From StorageDealVerifyData (To StorageDealFailing)]
      (act p_err_path_path (\<lambda>(err, path, metadataPath) deal.
         deal\<lparr>PiecePath := path, MetadataPath := metadataPath,
              Message := ''deal data verification failed: '' @ Error err\<rparr>)),
    Event ProviderEventVerifiedData
      [FromMany [StorageDealVerifyData, StorageDealWaitingForData]
         (To StorageDealReserveProviderFunds)]
      (act p_path_path (\<lambda>(path, metadataPath) deal.
         deal\<lparr>PiecePath := path, MetadataPath := metadataPath\<rparr>)),
    Event ProviderEventFundingInitiated
      [From StorageDealReserveProviderFunds (To StorageDealProviderFunding)]
      (act p_cid (\<lambda>mcid deal. deal\<lparr>AddFundsCid := Some mcid\<rparr>)),
    Event ProviderEventFunded
      [FromMany [StorageDealProviderFunding, StorageDealReserveProviderFunds]
         (To StorageDealPublish)] no_action,
    Event ProviderEventDealPublishInitiated
      [From StorageDealPublish (To StorageDealPublishing)]
      (act p_cid (\<lambda>finalCid deal. deal\<lparr>PublishCid := Some finalCid\<rparr>)),
    Event ProviderEventDealPublishError
      [From StorageDealPublishing (To StorageDealFailing)]
      (note_error ''PublishStorageDeal error: ''),
    Event ProviderEventSendResponseFailed
      [FromMany [StorageDealAcceptWait, StorageDealRejecting] (To StorageDealFailing)]
      (note_error ''sending response to deal: ''),
    Event ProviderEventDealPublished
      [From StorageDealPublishing (To StorageDealStaged)]
      (act p_dealid_cid (\<lambda>(dealID, finalCid) deal.
         deal\<lparr>DealID := dealID, PublishCid := Some finalCid\<rparr>))]"

definition ProviderEvents_2 :: "provider_event list" where
  "ProviderEvents_2 = [
    Event ProviderEventFileStoreErrored
      [FromMany [StorageDealStaged, StorageDealAwaitingPreCommit, StorageDealSealing,
         StorageDealActive] (To StorageDealFailing)]
      (note_error ''accessing file store: ''),
    Event ProviderEventMultistoreErrored
      [FromMany [StorageDealStaged] (To StorageDealFailing)]
      (note_error ''operating on multistore: ''),
    Event ProviderEventDealHandoffFailed
      [From StorageDealStaged (To StorageDealFailing)]
      (note_error ''handing off deal to node: ''),
    Event ProviderEventPieceStoreErrored
      [From StorageDealStaged ToJustRecord]
      (note_error ''recording piece for retrieval: ''),
    Event ProviderEventDealHandedOff
      [From StorageDealStaged (To StorageDealAwaitingPreCommit)]
      (act p_none (\<lambda>_ deal. deal\<lparr>AvailableForRetrieval := True\<rparr>)),
    Event ProviderEventDealPrecommitFailed
      [From StorageDealAwaitingPreCommit (To StorageDealFailing)]
      (note_error ''error awaiting deal pre-commit: ''),
    Event ProviderEventDealPrecommitted
      [From StorageDealAwaitingPreCommit (To StorageDealSealing)]
      (act p_sector (\<lambda>sectorNumber deal. deal\<lparr>SectorNumber := sectorNumber\<rparr>)),
    Event ProviderEventDealActivationFailed
      [From StorageDealSealing (To StorageDealFailing)]
      (note_error ''error activating deal: ''),
    Event ProviderEventDealActivated
      [FromMany [StorageDealAwaitingPreCommit, StorageDealSealing]
         (To StorageDealFinalizing)] no_action,
    Event ProviderEventFinalized
      [From StorageDealFinalizing (To StorageDealActive)] no_action,
    Event ProviderEventDealSlashed
      [From StorageDealActive (To StorageDealSlashed)]
      (act p_epoch (\<lambda>slashEpoch deal. deal\<lparr>SlashEpoch := slashEpoch\<rparr>)),
    Event ProviderEventDealExpired
      [From StorageDealActive (To StorageDealExpired)] no_action,
    Event ProviderEventDealCompletionFailed
      [From StorageDealActive (To StorageDealError)]
      (note_error ''error waiting for deal completion: ''),
    Event ProviderEventFailed
      [From StorageDealFailing (To StorageDealError)] no_action,
    Event ProviderEventRestart
      [FromMany [StorageDealValidating, StorageDealAcceptWait, StorageDealRejecting]
         (To StorageDealError),
       From StorageDealTransferring (To StorageDealProviderTransferAwaitRestart),
       FromAny ToNoChange] no_action,
    Event ProviderEventAwaitTransferRestartTimeout
      [From StorageDealProviderTransferAwaitRestart (To StorageDealFailing),
       FromAny ToJustRecord]
      (act p_none (\<lambda>_ deal.
         if State deal = StorageDealProviderTransferAwaitRestart
         then deal\<lparr>Message := ''timed out waiting for client to restart transfer''\<rparr> else deal)),
    Event ProviderEventTrackFundsFailed
      [From StorageDealReserveProviderFunds (To StorageDealFailing)]
      (note_error ''error tracking deal funds: ''),
    Event ProviderEventFundsReserved
      [From StorageDealReserveProviderFunds ToJustRecord]
      (act p_token (\<lambda>fundsReserved deal. case FundsReserved deal of
         None \<Rightarrow> deal\<lparr>FundsReserved := Some fundsReserved\<rparr>
       | Some old \<Rightarrow> deal\<lparr>FundsReserved := Some (old + fundsReserved)\<rparr>)),
    Event ProviderEventFundsReleased
      [FromMany [StorageDealPublishing, StorageDealFailing] ToJustRecord]
      (actM p_token (\<lambda>fundsReleased deal. case FundsReserved deal of
         None \<Rightarrow> Panicked
       | Some old \<Rightarrow> Done (deal\<lparr>FundsReserved := Some (old - fundsReleased)\<rparr>)))]"

definition ProviderEvents :: "provider_event list" where
  "ProviderEvents = ProviderEvents_1 @ ProviderEvents_2"

definition ProviderFinalityStates :: "StorageDealStatus list" where
  "ProviderFinalityStates = [StorageDealError, StorageDealSlashed, StorageDealExpired]"

definition StatesKnownBySealingSubsystem :: "StorageDealStatus list" where
  "StatesKnownBySealingSubsystem =
     [StorageDealAwaitingPreCommit, StorageDealSealing, StorageDealFinalizing, StorageDealActive]"

text \<open>\<open>newProviderStateMachine\<close> of \<open>storagemarket/impl/provider.go\<close>: the table, the state
  field and the finality states.\<close>

definition provider_fsm :: "(ProviderEvent, StorageDealStatus, MinerDeal) fsm_params" where
  "provider_fsm = \<lparr>StateOf = State, SetState = (\<lambda>s deal. deal\<lparr>State := s\<rparr>),
     Events = ProviderEvents, FinalityStates = ProviderFinalityStates\<rparr>"

lemmas provider_table_defs = ProviderEvents_def ProviderEvents_1_def ProviderEvents_2_def
  ProviderFinalityStates_def provider_fsm_def

subsection \<open>The table, event by event\<close>

lemma provider_table_wf: "table_wf ProviderEvents"
  by (simp add: table_wf_def is_FromAny_def provider_table_defs)

text \<open>Four declared events are in no row of the table: sending one is refused in every state.\<close>

lemma provider_unused_events: "find_event ProviderEvents e = None \<longleftrightarrow>
    e \<in> {ProviderEventDealAccepted, ProviderEventInsufficientFunds,
      ProviderEventManualDataReceived, ProviderEventDataTransferRestartFailed}"
  by (cases e) (simp_all add: provider_table_defs)

end
