(* ===== verification/Piece_Store.thy ===== *)
theory Piece_Store
  imports Market_Prelude
begin

section \<open>Piece store\<close>

text \<open>
  \<open>piecestore/types.go\<close> and \<open>piecestore/impl/piecestore.go\<close>: which deals hold a piece and in
  which pieces a block lies. The versioned state store underneath is a module of its own: a
  parameter \<open>store_api\<close> with the documented behaviour of its operations as the laws of the locale
  \<open>state_store\<close> (an operation that fails leaves the store as it was) and, for the theorems on
  what succeeds, of \<open>reliable_store\<close> (no operation fails but for the documented reasons). A Go
  map that a loop runs over is a list of its entries in the order of the run.
\<close>

subsection \<open>Data\<close>

record DealInfo =
  InfoDealID :: uint64
  SectorID :: uint64
  Offset :: uint64
  Length :: uint64

record BlockLocation =
  RelOffset :: uint64
  BlockSize :: uint64

record PieceBlockLocation =
  Location :: BlockLocation
  LocationPieceCID :: cid

record CIDInfo =
  CID :: cid
  PieceBlockLocations :: "PieceBlockLocation list"

definition CIDInfoUndefined :: CIDInfo where
  "CIDInfoUndefined = \<lparr>CID = cid_Undef, PieceBlockLocations = []\<rparr>"

record PieceInfo =
  InfoPieceCID :: cid
  Deals :: "DealInfo list"

definition PieceInfoUndefined :: PieceInfo where
  "PieceInfoUndefined = \<lparr>InfoPieceCID = cid_Undef, Deals = []\<rparr>"

definition PieceInfo_Defined :: "PieceInfo \<Rightarrow> bool" where
  "PieceInfo_Defined pi \<longleftrightarrow> InfoPieceCID pi \<noteq> cid_Undef \<or> length (Deals pi) > 0"

subsection \<open>The state store underneath\<close>

record ('s, 'v) store_api =
  Has :: "'s \<Rightarrow> cid \<Rightarrow> go_error + bool"
  Begin :: "'s \<Rightarrow> cid \<Rightarrow> 'v \<Rightarrow> go_error option \<times> 's"
  GetState :: "'s \<Rightarrow> cid \<Rightarrow> go_error + 'v"
  Mutate :: "'s \<Rightarrow> cid \<Rightarrow> ('v \<Rightarrow> go_error + 'v) \<Rightarrow> go_error option \<times> 's"
  ListAll :: "'s \<Rightarrow> go_error + 'v list"

locale state_store =
  fixes api :: "('s, 'v) store_api" and view :: "'s \<Rightarrow> cid \<Rightarrow> 'v option"
  assumes has_view: "Has api s c = Inr b \<Longrightarrow> b \<longleftrightarrow> view s c \<noteq> None"
    and begin_ok: "Begin api s c v = (None, s') \<Longrightarrow> view s' = (view s)(c \<mapsto> v)"
    and begin_err: "Begin api s c v = (Some e, s') \<Longrightarrow> view s' = view s"
    and get_ok: "GetState api s c = Inr v \<Longrightarrow> view s c = Some v"
    and get_missing: "GetState api s c = Inl e \<Longrightarrow> errors_Is e DatastoreErrNotFound \<Longrightarrow>
      view s c = None"
    and mutate_ok: "Mutate api s c f = (None, s') \<Longrightarrow>
      \<exists>v v'. view s c = Some v \<and> f v = Inr v' \<and> view s' = (view s)(c \<mapsto> v')"
    and mutate_err: "Mutate api s c f = (Some e, s') \<Longrightarrow> view s' = view s"

locale reliable_store = state_store +
  assumes has_total: "\<exists>b. Has api s c = Inr b"
    and begin_total: "view s c = None \<Longrightarrow> fst (Begin api s c v) = None"
    and get_total: "view s c = Some v \<Longrightarrow> GetState api s c = Inr v"
    and get_none: "view s c = None \<Longrightarrow>
      \<exists>e. GetState api s c = Inl e \<and> errors_Is e DatastoreErrNotFound"
    and mutate_total: "view s c = Some v \<Longrightarrow> f v = Inr v' \<Longrightarrow> fst (Mutate api s c f) = None"

subsection \<open>Operations\<close>

definition ensureInfo :: "('s, 'v) store_api \<Rightarrow> (cid \<Rightarrow> 'v) \<Rightarrow> cid \<Rightarrow> 's \<Rightarrow> go_error option \<times> 's" where
  "ensureInfo api fresh c s = on_err (Has api s c) (\<lambda>err. (Some err, s))
     (\<lambda>has. if has then (None, s) else Begin api s c (fresh c))"

definition ensurePieceInfo :: "('s, PieceInfo) store_api \<Rightarrow> cid \<Rightarrow> 's \<Rightarrow> go_error option \<times> 's" where
  "ensurePieceInfo api pieceCID s =
     ensureInfo api (\<lambda>c. PieceInfoUndefined\<lparr>InfoPieceCID := c\<rparr>) pieceCID s"

definition ensureCIDInfo :: "('s, CIDInfo) store_api \<Rightarrow> cid \<Rightarrow> 's \<Rightarrow> go_error option \<times> 's" where
  "ensureCIDInfo api c s = ensureInfo api (\<lambda>c. CIDInfoUndefined\<lparr>CID := c\<rparr>) c s"

definition mutatePieceInfo :: "('s, PieceInfo) store_api \<Rightarrow> cid \<Rightarrow>
    (PieceInfo \<Rightarrow> go_error + PieceInfo) \<Rightarrow> 's \<Rightarrow> go_error option \<times> 's" where
  "mutatePieceInfo api pieceCID mutator s = (case ensurePieceInfo api pieceCID s of
     (Some err, s1) \<Rightarrow> (Some err, s1)
   | (None, s1) \<Rightarrow> Mutate api s1 pieceCID mutator)"

definition mutateCIDInfo :: "('s, CIDInfo) store_api \<Rightarrow> cid \<Rightarrow>
    (CIDInfo \<Rightarrow> go_error + CIDInfo) \<Rightarrow> 's \<Rightarrow> go_error option \<times> 's" where
  "mutateCIDInfo api c mutator s = (case ensureCIDInfo api c s of
     (Some err, s1) \<Rightarrow> (Some err, s1)
   | (None, s1) \<Rightarrow> Mutate api s1 c mutator)"

definition addDeal :: "DealInfo \<Rightarrow> PieceInfo \<Rightarrow> go_error + PieceInfo" where
  "addDeal dealInfo pi = Inr (if \<exists>di \<in> set (Deals pi). di = dealInfo then pi
     else pi\<lparr>Deals := Deals pi @ [dealInfo]\<rparr>)"

definition AddDealForPiece ::
  "('s, PieceInfo) store_api \<Rightarrow> cid \<Rightarrow> cid \<Rightarrow> DealInfo \<Rightarrow> 's \<Rightarrow> go_error option \<times> 's" where
  "AddDealForPiece api pieceCID proposalCid dealInfo s =
     mutatePieceInfo api pieceCID (addDeal dealInfo) s"

definition addLocation :: "cid \<Rightarrow> BlockLocation \<Rightarrow> CIDInfo \<Rightarrow> go_error + CIDInfo" where
  "addLocation pieceCID blockLocation ci = Inr (
     if \<exists>pbl \<in> set (PieceBlockLocations ci).
          LocationPieceCID pbl = pieceCID \<and> Location pbl = blockLocation then ci
     else ci\<lparr>PieceBlockLocations := PieceBlockLocations ci @
       [\<lparr>Location = blockLocation, LocationPieceCID = pieceCID\<rparr>]\<rparr>)"

fun AddPieceBlockLocations :: "('s, CIDInfo) store_api \<Rightarrow> cid \<Rightarrow> (cid \<times> BlockLocation) list \<Rightarrow> 's \<Rightarrow>
    go_error option \<times> 's" where
  "AddPieceBlockLocations api pieceCID [] s = (None, s)"
| "AddPieceBlockLocations api pieceCID ((c, blockLocation) # rest) s =
     (case mutateCIDInfo api c (addLocation pieceCID blockLocation) s of
        (Some err, s1) \<Rightarrow> (Some err, s1)
      | (None, s1) \<Rightarrow> AddPieceBlockLocations api pieceCID rest s1)"

definition ListPieceInfoKeys :: "('s, PieceInfo) store_api \<Rightarrow> 's \<Rightarrow> go_error + cid list" where
  "ListPieceInfoKeys api s = on_err (ListAll api s) Inl (\<lambda>pis. Inr (map InfoPieceCID pis))"

definition ListCidInfoKeys :: "('s, CIDInfo) store_api \<Rightarrow> 's \<Rightarrow> go_error + cid list" where
  "ListCidInfoKeys api s = on_err (ListAll api s) Inl (\<lambda>cis. Inr (map CID cis))"

definition RetrievalNotFound :: go_error where
  "RetrievalNotFound = Sentinel RetrievalErrNotFound ''not found''"

definition GetPieceInfo :: "('s, PieceInfo) store_api \<Rightarrow> cid \<Rightarrow> 's \<Rightarrow> go_error + PieceInfo" where
  "GetPieceInfo api pieceCID s = on_err (GetState api s pieceCID)
     (\<lambda>err. if errors_Is err DatastoreErrNotFound
        then Inl (Wrap (''piece with CID '' @ pieceCID @ '': '') RetrievalNotFound) else Inl err)
     Inr"

definition GetCIDInfo :: "('s, CIDInfo) store_api \<Rightarrow> cid \<Rightarrow> 's \<Rightarrow> go_error + CIDInfo" where
  "GetCIDInfo api payloadCID s = on_err (GetState api s payloadCID)
     (\<lambda>err. if errors_Is err DatastoreErrNotFound
        then Inl (Wrap (''payload CID '' @ payloadCID @ '': '') RetrievalNotFound) else Inl err)
     Inr"

subsection \<open>What the operations do to the store's contents\<close>

text \<open>The entry of a piece or block that the store does not have yet is created empty.\<close>

definition piece_entry :: "(cid \<Rightarrow> PieceInfo option) \<Rightarrow> cid \<Rightarrow> PieceInfo" where
  "piece_entry m c = (case m c of Some pi \<Rightarrow> pi | None \<Rightarrow> PieceInfoUndefined\<lparr>InfoPieceCID := c\<rparr>)"

definition cid_entry :: "(cid \<Rightarrow> CIDInfo option) \<Rightarrow> cid \<Rightarrow> CIDInfo" where
  "cid_entry m c = (case m c of Some ci \<Rightarrow> ci | None \<Rightarrow> CIDInfoUndefined\<lparr>CID := c\<rparr>)"

context state_store
begin

lemma ensureInfo_ok: "ensureInfo api fresh c s = (None, s') \<Longrightarrow>
    view s' = (view s)(c \<mapsto> case view s c of Some v \<Rightarrow> v | None \<Rightarrow> fresh c)"
  by (auto simp: ensureInfo_def split: on_err_splits if_splits option.splits
      dest!: has_view begin_ok)

lemma ensureInfo_err: "ensureInfo api fresh c s = (Some e, s') \<Longrightarrow> view s' = view s"
  by (auto simp: ensureInfo_def split: on_err_splits if_splits dest!: begin_err)

lemma ensure_mutate_ok:
  assumes "ensureInfo api fresh c s = (None, s1)" and "Mutate api s1 c f = (None, s')"
  shows "\<exists>v. f (case view s c of Some v \<Rightarrow> v | None \<Rightarrow> fresh c) = Inr v \<and>
    view s' = (view s)(c \<mapsto> v)"
  using mutate_ok [OF assms(2)] ensureInfo_ok [OF assms(1)] by auto

text \<open>A failed mutation changes at most the entry it ensured.\<close>

lemma ensure_mutate_err:
  assumes "ensureInfo api fresh c s = (None, s1)" and "Mutate api s1 c f = (Some e, s')"
  shows "view s' = (view s)(c \<mapsto> case view s c of Some v \<Rightarrow> v | None \<Rightarrow> fresh c)"
  using mutate_err [OF assms(2)] ensureInfo_ok [OF assms(1)] by simp

end

context reliable_store
begin

lemma ensureInfo_total: "fst (ensureInfo api fresh c s) = None"
  using has_total [of s c] has_view [of s c]
  by (auto simp: ensureInfo_def split: on_err_splits intro: begin_total)

lemma ensure_mutate_total:
  assumes "ensureInfo api fresh c s = (None, s1)" and "\<And>v. \<exists>v'. f v = Inr v'"
  shows "fst (Mutate api s1 c f) = None"
  using ensureInfo_ok [OF assms(1)] assms(2) mutate_total [of s1 c] by (metis fun_upd_same)

end

subsection \<open>A store in memory\<close>

text \<open>The store as a list of entries, newest first: it fulfils the laws.\<close>

definition mem_api :: "((cid \<times> 'v) list, 'v) store_api" where
  "mem_api = \<lparr>
     Has = (\<lambda>s c. Inr (map_of s c \<noteq> None)),
     Begin = (\<lambda>s c v. case map_of s c of
        None \<Rightarrow> (None, (c, v) # s) | Some _ \<Rightarrow> (Some (New ''already exists''), s)),
     GetState = (\<lambda>s c. case map_of s c of
        None \<Rightarrow> Inl (Sentinel DatastoreErrNotFound ''datastore: key not found'') | Some v \<Rightarrow> Inr v),
     Mutate = (\<lambda>s c f. case map_of s c of
        None \<Rightarrow> (Some (Sentinel DatastoreErrNotFound ''datastore: key not found''), s)
      | Some v \<Rightarrow> on_err (f v) (\<lambda>e. (Some e, s)) (\<lambda>v'. (None, (c, v') # s))),
     ListAll = (\<lambda>s. Inr (map snd s))\<rparr>"

interpretation mem_store: reliable_store mem_api map_of
  by unfold_locales
    (auto simp: mem_api_def split: option.splits on_err_splits)

subsection \<open>Piece operations on every branch\<close>

lemma mutatePieceInfo_ok:
  assumes "state_store api view" and "mutatePieceInfo api c f s = (None, s')"
  shows "\<exists>v. f (piece_entry (view s) c) = Inr v \<and> view s' = (view s)(c \<mapsto> v)"
proof -
  from assms(2) obtain s1 where "ensurePieceInfo api c s = (None, s1)" "Mutate api s1 c f = (None, s')"
    by (auto simp: mutatePieceInfo_def split: prod.splits option.splits)
  from state_store.ensure_mutate_ok [OF assms(1) this [unfolded ensurePieceInfo_def]]
  show ?thesis by (simp only: piece_entry_def)
qed

lemma mutateCIDInfo_ok:
  assumes "state_store api view" and "mutateCIDInfo api c f s = (None, s')"
  shows "\<exists>v. f (cid_entry (view s) c) = Inr v \<and> view s' = (view s)(c \<mapsto> v)"
proof -
  from assms(2) obtain s1 where "ensureCIDInfo api c s = (None, s1)" "Mutate api s1 c f = (None, s')"
    by (auto simp: mutateCIDInfo_def split: prod.splits option.splits)
  from state_store.ensure_mutate_ok [OF assms(1) this [unfolded ensureCIDInfo_def]]
  show ?thesis by (simp only: cid_entry_def)
qed

lemma mutatePieceInfo_total:
  assumes "reliable_store api view" and "\<And>v. \<exists>v'. f v = Inr v'"
  shows "\<exists>s'. mutatePieceInfo api c f s = (None, s')"
proof -
  obtain s1 where s1: "ensurePieceInfo api c s = (None, s1)"
    using reliable_store.ensureInfo_total [OF assms(1)]
    by (metis ensurePieceInfo_def prod.collapse)
  then have "fst (Mutate api s1 c f) = None"
    using reliable_store.ensure_mutate_total [OF assms(1)] assms(2)
    by (simp add: ensurePieceInfo_def)
  with s1 show ?thesis by (cases "Mutate api s1 c f") (simp add: mutatePieceInfo_def)
qed

lemma mutateCIDInfo_total:
  assumes "reliable_store api view" and "\<And>v. \<exists>v'. f v = Inr v'"
  shows "\<exists>s'. mutateCIDInfo api c f s = (None, s')"
proof -
  obtain s1 where s1: "ensureCIDInfo api c s = (None, s1)"
    using reliable_store.ensureInfo_total [OF assms(1)]
    by (metis ensureCIDInfo_def prod.collapse)
  then have "fst (Mutate api s1 c f) = None"
    using reliable_store.ensure_mutate_total [OF assms(1)] assms(2)
    by (simp add: ensureCIDInfo_def)
  with s1 show ?thesis by (cases "Mutate api s1 c f") (simp add: mutateCIDInfo_def)
qed

lemma addDeal_set: "addDeal di pi = Inr pi' \<Longrightarrow> set (Deals pi') = insert di (set (Deals pi))"
  by (auto simp: addDeal_def split: if_splits)

lemma addDeal_again: "addDeal di pi = Inr pi' \<Longrightarrow> addDeal di pi' = Inr pi'"
  by (auto simp: addDeal_def split: if_splits)

lemma addDeal_distinct: "addDeal di pi = Inr pi' \<Longrightarrow> distinct (Deals pi) \<Longrightarrow> distinct (Deals pi')"
  by (auto simp: addDeal_def split: if_splits)

lemma addLocation_again: "addLocation p l ci = Inr ci' \<Longrightarrow> addLocation p l ci' = Inr ci'"
  by (auto simp: addLocation_def split: if_splits)

subsection \<open>Abstract contents: sets of deals and of locations\<close>

text \<open>What clients of the piece store read of it: the set of deals of a piece and the set of
  places (piece and location in it) of a block. Order and repetition are details of the store.\<close>

definition piece_deals :: "(cid \<Rightarrow> PieceInfo option) \<Rightarrow> cid \<Rightarrow> DealInfo set" where
  "piece_deals m c = set (Deals (piece_entry m c))"

definition block_places :: "(cid \<Rightarrow> CIDInfo option) \<Rightarrow> cid \<Rightarrow> (cid \<times> BlockLocation) set" where
  "block_places m c =
     (\<lambda>pbl. (LocationPieceCID pbl, Location pbl)) ` set (PieceBlockLocations (cid_entry m c))"

lemma addLocation_places: "addLocation p l ci = Inr ci' \<Longrightarrow>
    (\<lambda>pbl. (LocationPieceCID pbl, Location pbl)) ` set (PieceBlockLocations ci') =
    insert (p, l) ((\<lambda>pbl. (LocationPieceCID pbl, Location pbl)) ` set (PieceBlockLocations ci))"
  by (auto simp: addLocation_def image_iff split: if_splits)

lemma block_places_update: "addLocation p l (cid_entry m c) = Inr ci \<Longrightarrow>
    block_places (m(c \<mapsto> ci)) d = block_places m d \<union> (if d = c then {(p, l)} else {})"
  by (auto simp: block_places_def cid_entry_def dest!: addLocation_places)

lemma AddPieceBlockLocations_places:
  assumes "state_store api view" and "AddPieceBlockLocations api p ls s = (None, s')"
  shows "block_places (view s') c = block_places (view s) c \<union> Pair p ` {l. (c, l) \<in> set ls}"
  using assms(2)
proof (induction ls arbitrary: s)
  case Nil
  then show ?case by simp
next
  case (Cons x ls)
  obtain d l where x: "x = (d, l)" by (cases x)
  from Cons.prems obtain s1 where s1: "mutateCIDInfo api d (addLocation p l) s = (None, s1)"
    and rest: "AddPieceBlockLocations api p ls s1 = (None, s')"
    by (auto simp: x split: prod.splits option.splits)
  from mutateCIDInfo_ok [OF assms(1) s1] obtain ci
    where "addLocation p l (cid_entry (view s) d) = Inr ci" and "view s1 = (view s)(d \<mapsto> ci)"
    by blast
  then have "block_places (view s1) c = block_places (view s) c \<union> (if c = d then {(p, l)} else {})"
    by (simp only: block_places_update)
  with Cons.IH [OF rest] show ?case by (auto simp: x)
qed

lemma AddPieceBlockLocations_total:
  assumes "reliable_store api view"
  shows "\<exists>s'. AddPieceBlockLocations api p ls s = (None, s')"
proof (induction ls arbitrary: s)
  case (Cons x ls)
  obtain d l where x: "x = (d, l)" by (cases x)
  obtain s1 where "mutateCIDInfo api d (addLocation p l) s = (None, s1)"
    using mutateCIDInfo_total [OF assms, of "addLocation p l" d s] by (auto simp: addLocation_def)
  with Cons.IH [of s1] show ?case by (simp add: x)
qed simp

lemma AddDealForPiece_deals:
  assumes "state_store api view" and "AddDealForPiece api p pc di s = (None, s')"
  shows "piece_deals (view s') c = piece_deals (view s) c \<union> (if c = p then {di} else {})"
proof -
  from assms(2) have "mutatePieceInfo api p (addDeal di) s = (None, s')"
    by (simp add: AddDealForPiece_def)
  from mutatePieceInfo_ok [OF assms(1) this] obtain pi
    where "addDeal di (piece_entry (view s) p) = Inr pi" and "view s' = (view s)(p \<mapsto> pi)" by blast
  then show ?thesis by (auto simp: piece_deals_def piece_entry_def dest!: addDeal_set)
qed

lemma reliable_is_state_store: "reliable_store api view \<Longrightarrow> state_store api view"
  by (simp add: reliable_store_def)

subsection \<open>Properties\<close>

text \<open>C5. On a store that does not fail, adding a deal for a piece succeeds; afterwards the
  piece's record can be read, its deals are the earlier ones and the new one, no other piece has
  changed, and adding the same deal again changes no record (so that a deal handed off twice
  after a restart is recorded once).\<close>

theorem AddDealForPiece_correct:
  assumes "reliable_store api view"
  shows "\<exists>s' pi. AddDealForPiece api p pc di s = (None, s') \<and>
    GetPieceInfo api p s' = Inr pi \<and> set (Deals pi) = insert di (piece_deals (view s) p) \<and>
    (\<forall>c. c \<noteq> p \<longrightarrow> view s' c = view s c) \<and>
    (\<exists>s''. AddDealForPiece api p pc di s' = (None, s'') \<and> view s'' = view s')"
proof -
  have total: "\<exists>s'. AddDealForPiece api p pc di s0 = (None, s')" for s0
    unfolding AddDealForPiece_def by (rule mutatePieceInfo_total [OF assms])
      (simp add: addDeal_def)
  note ok = mutatePieceInfo_ok [OF reliable_is_state_store [OF assms], of p "addDeal di"]
  from total obtain s' where s': "AddDealForPiece api p pc di s = (None, s')" by blast
  with ok obtain pi where pi: "addDeal di (piece_entry (view s) p) = Inr pi"
    and view': "view s' = (view s)(p \<mapsto> pi)" by (auto simp: AddDealForPiece_def)
  from total obtain s'' where s'': "AddDealForPiece api p pc di s' = (None, s'')" by blast
  with ok obtain pi' where "addDeal di (piece_entry (view s') p) = Inr pi'"
    and "view s'' = (view s')(p \<mapsto> pi')" by (auto simp: AddDealForPiece_def)
  with view' addDeal_again [OF pi] have "view s'' = view s'" by (simp add: piece_entry_def)
  moreover from view' have "GetPieceInfo api p s' = Inr pi"
    using reliable_store.get_total [OF assms] by (simp add: GetPieceInfo_def)
  ultimately show ?thesis
    using s' s'' view' addDeal_set [OF pi] by (auto simp: piece_deals_def)
qed

theorem AddDealForPiece_correct_witness:
  "\<exists>s' pi. AddDealForPiece mem_api ''p'' ''q'' \<lparr>InfoDealID = 1, SectorID = 2, Offset = 0, Length = 8\<rparr>
     [] = (None, s') \<and> GetPieceInfo mem_api ''p'' s' = Inr pi \<and> length (Deals pi) = 1"
proof -
  let ?di = "\<lparr>InfoDealID = 1, SectorID = 2, Offset = 0, Length = 8\<rparr>"
  from AddDealForPiece_correct [OF mem_store.reliable_store_axioms, of "''p''" "''q''" ?di "[]"]
  have "\<exists>s'. AddDealForPiece mem_api ''p'' ''q'' ?di [] = (None, s')" by blast
  then show ?thesis
    by (auto simp: AddDealForPiece_def mutatePieceInfo_def ensurePieceInfo_def ensureInfo_def
        mem_api_def GetPieceInfo_def addDeal_def PieceInfoUndefined_def)
qed

text \<open>On a store that does not fail, recording the block locations of a piece succeeds, and
  whatever the order in which the map is traversed, every block then has exactly the places it
  had before and those recorded for the piece; no place is lost.\<close>

theorem AddPieceBlockLocations_correct:
  assumes "reliable_store api view"
  shows "\<exists>s'. AddPieceBlockLocations api p ls s = (None, s') \<and>
    (\<forall>c. block_places (view s') c = block_places (view s) c \<union> {(p, l) |l. (c, l) \<in> set ls})"
proof -
  obtain s' where s': "AddPieceBlockLocations api p ls s = (None, s')"
    using AddPieceBlockLocations_total [OF assms] by blast
  moreover have "Pair p ` {l. (c, l) \<in> set ls} = {(p, l) |l. (c, l) \<in> set ls}" for c by auto
  ultimately show ?thesis
    using AddPieceBlockLocations_places [OF reliable_is_state_store [OF assms] s'] by simp
qed

theorem AddPieceBlockLocations_correct_witness:
  "\<exists>s'. AddPieceBlockLocations mem_api ''p'' [(''a'', \<lparr>RelOffset = 0, BlockSize = 4\<rparr>)] [] = (None, s') \<and>
     (''p'', \<lparr>RelOffset = 0, BlockSize = 4\<rparr>) \<in> block_places (map_of s') ''a''"
  using AddPieceBlockLocations_correct [OF mem_store.reliable_store_axioms,
      of "''p''" "[(''a'', \<lparr>RelOffset = 0, BlockSize = 4\<rparr>)]" "[]"]
  by auto

text \<open>Reading a piece that the store does not hold gives an error that wraps the retrieval
  market's \<open>ErrNotFound\<close> without being equal to it: \<open>errors.Is\<close> finds it, a comparison with
  \<open>==\<close> does not.\<close>

theorem GetPieceInfo_not_found:
  assumes "reliable_store api view" and "view s c = None"
  shows "\<exists>err. GetPieceInfo api c s = Inl err \<and> errors_Is err RetrievalErrNotFound \<and>
    err \<noteq> RetrievalNotFound"
  using reliable_store.get_none [OF assms] by (auto simp: GetPieceInfo_def RetrievalNotFound_def)

theorem GetPieceInfo_not_found_witness:
  "\<exists>err. GetPieceInfo mem_api ''p'' [] = Inl err \<and> errors_Is err RetrievalErrNotFound"
  using GetPieceInfo_not_found [OF mem_store.reliable_store_axioms, of "[]" "''p''"] by auto

end
