(* ===== verification/Storage_Provider_States.thy ===== *)
theory Storage_Provider_States
  imports Storage_Provider_Fsm Piece_Store
begin

section \<open>Storage provider: state entry handlers\<close>

text \<open>
  The handlers of \<open>storagemarket/impl/providerstates/provider_states.go\<close>. The environment
  \<open>ProviderDealEnvironment\<close> and the node behind it are the record \<open>provider_env\<close>: one field per
  call, a function of the arguments that matter to the answer. Calls with an effect outside the
  deal are steps (\<open>provider_call\<close>); an error that the code only logs leaves no trace. Callbacks
  given to the node are the invocations that the environment lists.
\<close>

record PublishDealsResult =
  ResDealID :: uint64
  ResFinalCid :: cid

record PackingResult =
  PackSectorNumber :: uint64
  PackOffset :: uint64
  PackSize :: uint64

record provider_env =
  lib :: market_lib
  GetChainHead :: "go_error + tipset_token \<times> chain_epoch"
  DumpProposal :: "DealProposal \<Rightarrow> go_error + string"
  VerifySignatureFn :: "string \<Rightarrow> address \<Rightarrow> string \<Rightarrow> tipset_token \<Rightarrow> go_error + bool"
  EnvAddress :: address
  EnvAsk :: StorageAsk
  DealProviderCollateralBounds :: "uint64 \<Rightarrow> bool \<Rightarrow> go_error + token_amount \<times> token_amount"
  GetBalance :: "address \<Rightarrow> tipset_token \<Rightarrow> go_error + Balance"
  GetDataCap :: "address \<Rightarrow> tipset_token \<Rightarrow> go_error + int option"
  RunCustomDecisionLogic :: "MinerDeal \<Rightarrow> go_error + bool \<times> string"
  SendSignedResponse :: "StorageDealStatus \<Rightarrow> string \<Rightarrow> cid \<Rightarrow> go_error option"
  FinalizeBlockstore :: "cid \<Rightarrow> go_error option"
  GeneratePieceCommitment :: "cid \<Rightarrow> string \<Rightarrow> uint64 \<Rightarrow> go_error + cid \<times> string"
  GetMinerWorkerAddress :: "address \<Rightarrow> tipset_token \<Rightarrow> go_error + address"
  ReserveFunds :: "address \<Rightarrow> address \<Rightarrow> token_amount \<Rightarrow> go_error + cid"
  WaitForMessage :: "cid \<Rightarrow> (go_error + nat \<times> string \<times> cid) option"
  PublishDeals :: "MinerDeal \<Rightarrow> go_error + cid"
  WaitForPublishDeals :: "cid \<Rightarrow> DealProposal \<Rightarrow> go_error + PublishDealsResult"
  FileStoreOpen :: "string \<Rightarrow> go_error + string \<times> uint64"
  ReadCAR :: "string \<Rightarrow> go_error + uint64"
  DataReader :: "string \<Rightarrow> go_error option"
  CloseCAR :: "string \<Rightarrow> go_error option"
  NewInflatorReader :: "uint64 \<Rightarrow> uint64 \<Rightarrow> go_error option"
  OnDealComplete :: "MinerDeal \<Rightarrow> uint64 \<Rightarrow> go_error + PackingResult"
  LoadBlockLocations :: "string \<Rightarrow> go_error + (cid \<times> BlockLocation) list"
  AddPieceBlockLocationsEnv :: "cid \<Rightarrow> (cid \<times> BlockLocation) list \<Rightarrow> go_error option"
  AddDealForPieceEnv :: "cid \<Rightarrow> cid \<Rightarrow> DealInfo \<Rightarrow> go_error option"
  OnDealSectorPreCommitted ::
    "address \<Rightarrow> uint64 \<Rightarrow> cid option \<Rightarrow> (go_error + uint64 \<times> bool) list \<times> go_error option"
  OnDealSectorCommitted ::
    "address \<Rightarrow> uint64 \<Rightarrow> uint64 \<Rightarrow> cid option \<Rightarrow> go_error option list \<times> go_error option"
  OnDealExpiredOrSlashed ::
    "uint64 \<Rightarrow> go_error option list \<times> (go_error + chain_epoch) list \<times> go_error option"

datatype provider_call =
    CTagPeer peer_id string
  | CUntagPeer peer_id string
  | CSendSignedResponse StorageDealStatus string cid
  | CDisconnect cid
  | CFinalizeBlockstore cid
  | CTerminateBlockstore cid string
  | CReserveFunds address address token_amount
  | CReleaseFunds address token_amount
  | CPublishDeals MinerDeal
  | COnDealComplete MinerDeal uint64
  | CAddPieceBlockLocations cid "(cid \<times> BlockLocation) list"
  | CAddDealForPiece cid cid DealInfo
  | CRegisterShard cid string bool
  | CAnnounceIndex MinerDeal
  | CRemoveIndex cid
  | CFileStoreDelete string

type_synonym provider_step = "(provider_call, ProviderEvent, StorageDealStatus) hstep"

subsection \<open>Signatures\<close>

definition VerifySignature ::
  "provider_env \<Rightarrow> string \<Rightarrow> address \<Rightarrow> string \<Rightarrow> tipset_token \<Rightarrow> go_error option" where
  "VerifySignature env signature signer buf tok =
     on_err (VerifySignatureFn env signature signer buf tok)
       (\<lambda>err. Some (Wrap ''verifying: '' err))
       (\<lambda>verified. if \<not> verified then Some (New ''could not verify signature'') else None)"

definition VerifyProposal :: "provider_env \<Rightarrow> MinerDeal \<Rightarrow> tipset_token \<Rightarrow> go_error option" where
  "VerifyProposal env sdp tok = on_err (DumpProposal env (Proposal sdp)) Some
     (\<lambda>b. VerifySignature env (ClientSignature sdp) (ProposalClient (Proposal sdp)) b tok)"

subsection \<open>Validating a proposal\<close>

definition DealMaxLabelSize :: nat where "DealMaxLabelSize = 256"

text \<open>The checks of \<open>ValidateDealProposal\<close> in the order of the source, each with the error the
  deal is rejected with; \<open>None\<close> when all pass.\<close>

definition askPrice :: "provider_env \<Rightarrow> DealProposal \<Rightarrow> token_amount" where
  "askPrice env proposal =
     (if VerifiedDeal proposal then VerifiedPrice (EnvAsk env) else Price (EnvAsk env))"

definition minPrice :: "provider_env \<Rightarrow> DealProposal \<Rightarrow> token_amount" where
  "minPrice env proposal =
     big_Div (askPrice env proposal * int64_of (PieceSize proposal)) (2 ^ 30)"

definition check_verified :: "provider_env \<Rightarrow> DealProposal \<Rightarrow> tipset_token \<Rightarrow> go_error option" where
  "check_verified env proposal tok =
     (if \<not> VerifiedDeal proposal then None
      else on_err (GetDataCap env (ProposalClient proposal) tok)
        (\<lambda>err. Some (Wrap ''node error fetching verified data cap: '' err))
        (\<lambda>dataCap. case dataCap of
           None \<Rightarrow> Some (New
             ''node error fetching verified data cap: data cap missing -- client not verified'')
         | Some dc \<Rightarrow> if dc < uint (PieceSize proposal)
             then Some (New ''verified deal DataCap too small for proposed piece size'')
             else None))"

definition check_funds :: "provider_env \<Rightarrow> DealProposal \<Rightarrow> tipset_token \<Rightarrow> go_error option" where
  "check_funds env proposal tok =
     on_err (GetBalance env (ProposalClient proposal) tok)
       (\<lambda>err. Some (Wrap ''node error getting client market balance failed: '' err))
       (\<lambda>clientMarketBalance.
          if Available clientMarketBalance < ClientBalanceRequirement (lib env) proposal
          then Some (New (''clientMarketBalance.Available too small: '' @
            show_int (Available clientMarketBalance) @ '' < '' @
            show_int (ClientBalanceRequirement (lib env) proposal)))
          else check_verified env proposal tok)"

definition check_ask :: "provider_env \<Rightarrow> DealProposal \<Rightarrow> tipset_token \<Rightarrow> go_error option" where
  "check_ask env proposal tok =
     (if StoragePricePerEpoch proposal < minPrice env proposal
      then Some (New (''storage price per epoch less than asking price: '' @
        show_int (StoragePricePerEpoch proposal) @ '' < '' @ show_int (minPrice env proposal)))
      else if PieceSize proposal < AskMinPieceSize (EnvAsk env)
      then Some (New (''piece size less than minimum required size: '' @
        show_uint64 (PieceSize proposal) @ '' < '' @ show_uint64 (AskMinPieceSize (EnvAsk env))))
      else if PieceSize proposal > AskMaxPieceSize (EnvAsk env)
      then Some (New (''piece size more than maximum allowed size: '' @
        show_uint64 (PieceSize proposal) @ '' > '' @ show_uint64 (AskMaxPieceSize (EnvAsk env))))
      else check_funds env proposal tok)"

definition check_collateral :: "provider_env \<Rightarrow> DealProposal \<Rightarrow> tipset_token \<Rightarrow> go_error option" where
  "check_collateral env proposal tok =
     on_err (DealProviderCollateralBounds env (PieceSize proposal) (VerifiedDeal proposal))
       (\<lambda>err. Some (Wrap ''node error getting collateral bounds: '' err))
       (\<lambda>(pcMin, pcMax).
          if ProviderCollateral proposal < pcMin
          then Some (New (''proposed provider collateral below minimum: '' @
            show_int (ProviderCollateral proposal) @ '' < '' @ show_int pcMin))
          else if ProviderCollateral proposal > pcMax
          then Some (New (''proposed provider collateral above maximum: '' @
            show_int (ProviderCollateral proposal) @ '' > '' @ show_int pcMax))
          else check_ask env proposal tok)"

definition check_epochs ::
  "provider_env \<Rightarrow> DealProposal \<Rightarrow> tipset_token \<Rightarrow> chain_epoch \<Rightarrow> go_error option" where
  "check_epochs env proposal tok curEpoch =
     (let (minDuration, maxDuration) = DealDurationBounds (lib env) (PieceSize proposal);
          duration = Duration (lib env) proposal;
          maxEndEpoch = i64 (curEpoch + MaxSectorExpirationExtension (lib env))
      in if EndEpoch proposal \<le> StartEpoch proposal
         then Some (New ''proposal end before proposal start'')
         else if curEpoch > StartEpoch proposal
         then Some (New ''deal start epoch has already elapsed'')
         else if duration < minDuration \<or> duration > maxDuration
         then Some (New (''deal duration out of bounds (min, max, provided): '' @
           show_int minDuration @ '', '' @ show_int maxDuration @ '', '' @ show_int duration))
         else if EndEpoch proposal > maxEndEpoch
         then Some (New (''invalid deal end epoch '' @ show_int (EndEpoch proposal) @
           '': cannot be more than '' @ show_int (MaxSectorExpirationExtension (lib env)) @
           '' past current epoch '' @ show_int curEpoch))
         else check_collateral env proposal tok)"

definition check_proposal ::
  "provider_env \<Rightarrow> DealProposal \<Rightarrow> tipset_token \<Rightarrow> chain_epoch \<Rightarrow> go_error option" where
  "check_proposal env proposal tok curEpoch =
     (if Provider proposal \<noteq> EnvAddress env
      then Some (New ''incorrect provider for deal'')
      else if Label_Length (lib env) (Label proposal) > DealMaxLabelSize
      then Some (New (''deal label can be at most '' @ show_nat DealMaxLabelSize @ '' bytes, is '' @
        show_nat (Label_Length (lib env) (Label proposal))))
      else case PieceSize_Validate (lib env) (PieceSize proposal) of
        Some err \<Rightarrow> Some (Wrap ''proposal piece size is invalid: '' err)
      | None \<Rightarrow>
          if PieceCID proposal = cid_Undef
          then Some (New ''proposal PieceCID undefined'')
          else if \<not> HasPieceCIDPrefix (lib env) (PieceCID proposal)
          then Some (New ''proposal PieceCID had wrong prefix'')
          else check_epochs env proposal tok curEpoch)"

definition rejection :: "provider_env \<Rightarrow> MinerDeal \<Rightarrow> go_error option" where
  "rejection env deal = on_err (GetChainHead env)
     (\<lambda>err. Some (Wrap ''node error getting most recent state id: '' err))
     (\<lambda>(tok, curEpoch). case VerifyProposal env deal tok of
        Some err \<Rightarrow> Some (Wrap ''verifying StorageDealProposal: '' err)
      | None \<Rightarrow> check_proposal env (Proposal deal) tok curEpoch)"

definition ValidateDealProposal :: "provider_env \<Rightarrow> MinerDeal \<Rightarrow> provider_step list" where
  "ValidateDealProposal env deal =
     Call (CTagPeer (Client deal) (ProposalCid deal)) #
     (case rejection env deal of
        Some err \<Rightarrow> [Trig ProviderEventDealRejected [AErr err]]
      | None \<Rightarrow> [Trig ProviderEventDealDeciding []])"

subsection \<open>Deciding, transferring, verifying\<close>

definition DecideOnProposal :: "provider_env \<Rightarrow> MinerDeal \<Rightarrow> provider_step list" where
  "DecideOnProposal env deal = on_err (RunCustomDecisionLogic env deal)
     (\<lambda>err. [Trig ProviderEventDealRejected [AErr (Wrap ''custom deal decision logic failed: '' err)]])
     (\<lambda>(accept, reason).
        if \<not> accept then [Trig ProviderEventDealRejected [AErr (New reason)]]
        else Call (CSendSignedResponse StorageDealWaitingForData [] (ProposalCid deal)) #
          (case SendSignedResponse env StorageDealWaitingForData [] (ProposalCid deal) of
             Some err \<Rightarrow> [Trig ProviderEventSendResponseFailed [AErr err]]
           | None \<Rightarrow> [Call (CDisconnect (ProposalCid deal)), Trig ProviderEventDataRequested []]))"

definition WaitForTransferRestart :: "provider_env \<Rightarrow> MinerDeal \<Rightarrow> provider_step list" where
  "WaitForTransferRestart env deal = [Async [Trig ProviderEventAwaitTransferRestartTimeout []]]"

definition VerifyData :: "provider_env \<Rightarrow> MinerDeal \<Rightarrow> provider_step list" where
  "VerifyData env deal = Call (CFinalizeBlockstore (ProposalCid deal)) #
     (case FinalizeBlockstore env (ProposalCid deal) of
        Some err \<Rightarrow> [Trig ProviderEventDataVerificationFailed
          [AErr (Wrap ''failed to finalize read/write blockstore: '' err), APath [], APath []]]
      | None \<Rightarrow> on_err
          (GeneratePieceCommitment env (ProposalCid deal) (InboundCAR deal) (PieceSize (Proposal deal)))
          (\<lambda>err. [Trig ProviderEventDataVerificationFailed
             [AErr (Wrap ''error generating CommP: '' err), APath [], APath []]])
          (\<lambda>(pieceCid, metadataPath).
             if pieceCid \<noteq> PieceCID (Proposal deal)
             then [Trig ProviderEventDataVerificationFailed
               [AErr (New (''proposal CommP doesn'' @ [CHR 0x27] @ ''t match calculated CommP'')),
                APath [], APath metadataPath]]
             else [Trig ProviderEventVerifiedData [APath [], APath metadataPath]]))"

subsection \<open>Funds and publishing\<close>

definition ReserveProviderFunds :: "provider_env \<Rightarrow> MinerDeal \<Rightarrow> provider_step list" where
  "ReserveProviderFunds env deal = on_err (GetChainHead env)
     (\<lambda>err. [Trig ProviderEventNodeErrored [AErr (Wrap ''acquiring chain head: '' err)]])
     (\<lambda>(tok, _). on_err (GetMinerWorkerAddress env (Provider (Proposal deal)) tok)
        (\<lambda>err. [Trig ProviderEventNodeErrored [AErr (Wrap ''looking up miner worker: '' err)]])
        (\<lambda>waddr. on_err
           (ReserveFunds env waddr (Provider (Proposal deal)) (ProviderCollateral (Proposal deal)))
           (\<lambda>err. [Trig ProviderEventNodeErrored [AErr (Wrap ''reserving funds: '' err)]])
           (\<lambda>mcid. [
              Call (CReserveFunds waddr (Provider (Proposal deal)) (ProviderCollateral (Proposal deal))),
              Trig ProviderEventFundsReserved [AToken (ProviderCollateral (Proposal deal))],
              if mcid = cid_Undef then Trig ProviderEventFunded []
              else Trig ProviderEventFundingInitiated [ACid mcid]])))"

text \<open>The exit code of the message is 0 for \<open>exitcode.Ok\<close>; its text comes with it.\<close>

definition WaitForFunding :: "provider_env \<Rightarrow> MinerDeal \<Rightarrow> provider_step list" where
  "WaitForFunding env deal = (case AddFundsCid deal of
     None \<Rightarrow> [NilDeref]
   | Some mcid \<Rightarrow> (case WaitForMessage env mcid of
       None \<Rightarrow> []
     | Some res \<Rightarrow> [Async [on_err res
         (\<lambda>err. Trig ProviderEventNodeErrored [AErr (Wrap ''AddFunds errored: '' err)])
         (\<lambda>(code, text, finalCid). if code \<noteq> 0
            then Trig ProviderEventNodeErrored [AErr (New (''AddFunds exit code: '' @ text))]
            else Trig ProviderEventFunded [])]]))"

text \<open>The copies of a deal handed to the node carry only the listed fields.\<close>

definition empty_MinerDeal :: "DealProposal \<Rightarrow> string \<Rightarrow> MinerDeal" where
  "empty_MinerDeal proposal sig = \<lparr>Proposal = proposal, ClientSignature = sig, ProposalCid = cid_Undef,
     AddFundsCid = None, PublishCid = None, Miner = [], Client = [], State = StorageDealUnknown,
     PiecePath = [], MetadataPath = [], SlashEpoch = 0, FastRetrieval = False, Message = [],
     FundsReserved = None, Ref = None, AvailableForRetrieval = False, DealID = 0, CreationTime = 0,
     TransferChannelId = None, SectorNumber = 0, InboundCAR = []\<rparr>"

definition PublishDeal :: "provider_env \<Rightarrow> MinerDeal \<Rightarrow> provider_step list" where
  "PublishDeal env deal =
     (let smDeal = (empty_MinerDeal (Proposal deal) (ClientSignature deal))
            \<lparr>Client := Client deal, ProposalCid := ProposalCid deal, State := State deal, Ref := Ref deal\<rparr>
      in Call (CPublishDeals smDeal) #
         on_err (PublishDeals env smDeal)
           (\<lambda>err. if strings_Contains (Error err) ''not enough funds'' then []
              else [Trig ProviderEventNodeErrored [AErr (Wrap ''publishing deal: '' err)]])
           (\<lambda>mcid. [Trig ProviderEventDealPublishInitiated [ACid mcid]]))"

definition releaseReservedFunds :: "provider_env \<Rightarrow> MinerDeal \<Rightarrow> provider_step list" where
  "releaseReservedFunds env deal = (case FundsReserved deal of
     None \<Rightarrow> []
   | Some funds \<Rightarrow> if funds = 0 then [] else
       [Call (CReleaseFunds (Provider (Proposal deal)) funds),
        Trig ProviderEventFundsReleased [AToken funds]])"

definition WaitForPublish :: "provider_env \<Rightarrow> MinerDeal \<Rightarrow> provider_step list" where
  "WaitForPublish env deal = (case PublishCid deal of
     None \<Rightarrow> [NilDeref]
   | Some publishCid \<Rightarrow> on_err (WaitForPublishDeals env publishCid (Proposal deal))
       (\<lambda>err. [Trig ProviderEventDealPublishError
          [AErr (Wrap ''PublishStorageDeals errored: '' err)]])
       (\<lambda>res. releaseReservedFunds env deal @
          [Trig ProviderEventDealPublished [ADealID (ResDealID res), ACid (ResFinalCid res)]]))"

subsection \<open>Handing off, sealing and completion\<close>

definition handoffDeal :: "provider_env \<Rightarrow> MinerDeal \<Rightarrow> uint64 \<Rightarrow>
    provider_step list \<times> (go_error + PackingResult)" where
  "handoffDeal env deal payloadSize =
     (let unpadded = Unpadded (lib env) (PieceSize (Proposal deal));
          copy = (empty_MinerDeal (Proposal deal) (ClientSignature deal))
            \<lparr>Client := Client deal, ProposalCid := ProposalCid deal, State := State deal,
             Ref := Ref deal, PublishCid := PublishCid deal, DealID := DealID deal,
             FastRetrieval := FastRetrieval deal\<rparr>
      in case NewInflatorReader env payloadSize unpadded of
           Some err \<Rightarrow> ([], Inl err)
         | None \<Rightarrow> ([Call (COnDealComplete copy unpadded)], OnDealComplete env copy unpadded))"

text \<open>The location map of a deal without metadata has its root as the only key, at location zero.
  \<open>recordPiece\<close> dereferences the deal's \<open>Ref\<close> in that case: \<open>None\<close> is the nil dereference.\<close>

definition block_locations ::
  "provider_env \<Rightarrow> MinerDeal \<Rightarrow> (go_error + (cid \<times> BlockLocation) list) option" where
  "block_locations env deal =
     (if MetadataPath deal \<noteq> [] then Some (on_err (LoadBlockLocations env (MetadataPath deal))
        (\<lambda>err. Inl (Wrap ''failed to load block locations: '' err)) Inr)
      else map_option (\<lambda>ref. Inr [(Root ref, \<lparr>RelOffset = 0, BlockSize = 0\<rparr>)]) (Ref deal))"

definition recordPiece :: "provider_env \<Rightarrow> MinerDeal \<Rightarrow> uint64 \<Rightarrow> uint64 \<Rightarrow> uint64 \<Rightarrow>
    (provider_step list \<times> go_error option) option" where
  "recordPiece env deal sectorID offset len = map_option (\<lambda>locs. on_err locs
     (\<lambda>err. ([], Some err))
     (\<lambda>blockLocations.
        let pieceCID = PieceCID (Proposal deal);
            info = \<lparr>InfoDealID = DealID deal, SectorID = sectorID, Offset = offset, Length = len\<rparr>;
            steps1 = [Call (CAddPieceBlockLocations pieceCID blockLocations)];
            steps2 = steps1 @ [Call (CAddDealForPiece pieceCID (ProposalCid deal) info)]
        in case AddPieceBlockLocationsEnv env pieceCID blockLocations of
             Some err \<Rightarrow> (steps1, Some (New (''failed to add piece block locations: '' @ Error err)))
           | None \<Rightarrow> (case AddDealForPieceEnv env pieceCID (ProposalCid deal) info of
               Some err \<Rightarrow> (steps2, Some (New (''failed to add deal for piece: '' @ Error err)))
             | None \<Rightarrow> (steps2, None)))) (block_locations env deal)"

text \<open>\<open>%s\<close> of a nil pointer to a CID prints \<open><nil>\<close>. An error message that mentions
  \<open>deal.Ref.PieceCid\<close> dereferences \<open>deal.Ref\<close>.\<close>

definition show_cidptr :: "cid option \<Rightarrow> string" where
  "show_cidptr c = (case c of None \<Rightarrow> ''<nil>'' | Some c \<Rightarrow> c)"

definition announce :: "provider_env \<Rightarrow> MinerDeal \<Rightarrow> string \<Rightarrow> provider_step list" where
  "announce env deal carFilePath =
     [Call (CRegisterShard (PieceCID (Proposal deal)) carFilePath True),
      Call (CAnnounceIndex deal),
      Trig ProviderEventDealHandedOff []]"

definition handoff_record :: "provider_env \<Rightarrow> MinerDeal \<Rightarrow> string \<Rightarrow> PackingResult \<Rightarrow> provider_step list" where
  "handoff_record env deal carFilePath packingInfo =
     (case recordPiece env deal (PackSectorNumber packingInfo) (PackOffset packingInfo)
             (PackSize packingInfo) of
        None \<Rightarrow> [NilDeref]
      | Some (steps, None) \<Rightarrow> steps @ announce env deal carFilePath
      | Some (steps, Some err) \<Rightarrow> steps @ (case Ref deal of
          None \<Rightarrow> [NilDeref]
        | Some ref \<Rightarrow> Trig ProviderEventPieceStoreErrored
            [AErr (Wrap (''failed to register deal data for piece '' @ show_cidptr (PieceCid ref) @
               '' for retrieval: '') err)] # announce env deal carFilePath))"

definition HandoffDeal :: "provider_env \<Rightarrow> MinerDeal \<Rightarrow> provider_step list" where
  "HandoffDeal env deal =
     (if PiecePath deal \<noteq> [] then
        on_err (FileStoreOpen env (PiecePath deal))
          (\<lambda>err. [Trig ProviderEventFileStoreErrored
             [AErr (Wrap (''reading piece at path '' @ PiecePath deal @ '': '') err)]])
          (\<lambda>(osPath, size). case handoffDeal env deal size of
             (steps, res) \<Rightarrow> steps @ on_err res
               (\<lambda>err. [Trig ProviderEventDealHandoffFailed
                  [AErr (Wrap (''packing piece at path '' @ PiecePath deal @ '': '') err)]])
               (handoff_record env deal osPath))
      else
        on_err (ReadCAR env (InboundCAR deal))
          (\<lambda>err. [Trig ProviderEventDealHandoffFailed [AErr (Wrap
             (''failed to open CARv2 file, proposalCid='' @ ProposalCid deal @ '': '') err)]])
          (\<lambda>dataSize. case DataReader env (InboundCAR deal) of
             Some err \<Rightarrow> [Trig ProviderEventDealHandoffFailed [AErr (Wrap
               (''failed to get reader over file data, proposalCid='' @ ProposalCid deal @ '': '') err)]]
           | None \<Rightarrow> (case handoffDeal env deal dataSize of
               (steps, res) \<Rightarrow> steps @ (case CloseCAR env (InboundCAR deal) of
                 Some err \<Rightarrow> [Trig ProviderEventDealHandoffFailed
                   [AErr (Wrap ''failed to close CARv2 reader: '' err)]]
               | None \<Rightarrow> on_err res
                   (\<lambda>packingErr. case Ref deal of
                      None \<Rightarrow> [NilDeref]
                    | Some ref \<Rightarrow> [Trig ProviderEventDealHandoffFailed [AErr (Wrap
                        (''packing piece '' @ show_cidptr (PieceCid ref) @ '': '') packingErr)]])
                   (handoff_record env deal (InboundCAR deal))))))"

definition delete_files :: "MinerDeal \<Rightarrow> provider_step list" where
  "delete_files deal =
     (if PiecePath deal \<noteq> [] then [Call (CFileStoreDelete (PiecePath deal))] else []) @
     (if MetadataPath deal \<noteq> [] then [Call (CFileStoreDelete (MetadataPath deal))] else [])"

definition CleanupDeal :: "provider_env \<Rightarrow> MinerDeal \<Rightarrow> provider_step list" where
  "CleanupDeal env deal = delete_files deal @
     (if InboundCAR deal \<noteq> [] then [Call (CTerminateBlockstore (ProposalCid deal) (InboundCAR deal))]
      else []) @
     [Trig ProviderEventFinalized []]"

definition VerifyDealPreCommitted :: "provider_env \<Rightarrow> MinerDeal \<Rightarrow> provider_step list" where
  "VerifyDealPreCommitted env deal =
     (case OnDealSectorPreCommitted env (Provider (Proposal deal)) (DealID deal) (PublishCid deal) of
        (invocations, err) \<Rightarrow>
          map (\<lambda>inv. Async [on_err inv
            (\<lambda>err. Trig ProviderEventDealPrecommitFailed [AErr err])
            (\<lambda>(sectorNumber, isActive). if isActive then Trig ProviderEventDealActivated []
               else Trig ProviderEventDealPrecommitted [ASector sectorNumber])]) invocations @
          (case err of Some err \<Rightarrow> [Trig ProviderEventDealPrecommitFailed [AErr err]] | None \<Rightarrow> []))"

definition VerifyDealActivated :: "provider_env \<Rightarrow> MinerDeal \<Rightarrow> provider_step list" where
  "VerifyDealActivated env deal =
     (case OnDealSectorCommitted env (Provider (Proposal deal)) (DealID deal) (SectorNumber deal)
             (PublishCid deal) of
        (invocations, err) \<Rightarrow>
          map (\<lambda>inv. Async [case inv of
              Some err \<Rightarrow> Trig ProviderEventDealActivationFailed [AErr err]
            | None \<Rightarrow> Trig ProviderEventDealActivated []]) invocations @
          (case err of Some err \<Rightarrow> [Trig ProviderEventDealActivationFailed [AErr err]] | None \<Rightarrow> []))"

definition WaitForDealCompletion :: "provider_env \<Rightarrow> MinerDeal \<Rightarrow> provider_step list" where
  "WaitForDealCompletion env deal = Call (CUntagPeer (Client deal) (ProposalCid deal)) #
     (case OnDealExpiredOrSlashed env (DealID deal) of
        (expirations, slashings, err) \<Rightarrow>
          map (\<lambda>inv. Async [Call (CRemoveIndex (ProposalCid deal)), case inv of
              Some err \<Rightarrow> Trig ProviderEventDealCompletionFailed
                [AErr (Wrap ''deal expiration err: '' err)]
            | None \<Rightarrow> Trig ProviderEventDealExpired []]) expirations @
          map (\<lambda>inv. Async [Call (CRemoveIndex (ProposalCid deal)), on_err inv
              (\<lambda>err. Trig ProviderEventDealCompletionFailed
                 [AErr (Wrap ''deal slashing err: '' err)])
              (\<lambda>slashEpoch. Trig ProviderEventDealSlashed [AEpoch slashEpoch])]) slashings @
          (case err of Some err \<Rightarrow> [Trig ProviderEventDealCompletionFailed [AErr err]] | None \<Rightarrow> []))"

subsection \<open>Rejecting and failing\<close>

definition RejectDeal :: "provider_env \<Rightarrow> MinerDeal \<Rightarrow> provider_step list" where
  "RejectDeal env deal =
     Call (CSendSignedResponse StorageDealFailing (Message deal) (ProposalCid deal)) #
     (case SendSignedResponse env StorageDealFailing (Message deal) (ProposalCid deal) of
        Some err \<Rightarrow> [Trig ProviderEventSendResponseFailed [AErr err]]
      | None \<Rightarrow> [Call (CDisconnect (ProposalCid deal)), Trig ProviderEventRejectionSent []])"

definition FailDeal :: "provider_env \<Rightarrow> MinerDeal \<Rightarrow> provider_step list" where
  "FailDeal env deal = Call (CUntagPeer (Client deal) (ProposalCid deal)) #
     delete_files deal @
     (if InboundCAR deal \<noteq> [] then
        [Call (CFinalizeBlockstore (ProposalCid deal)),
         Call (CTerminateBlockstore (ProposalCid deal) (InboundCAR deal))] else []) @
     releaseReservedFunds env deal @
     [Trig ProviderEventFailed []]"

subsection \<open>Dispatch\<close>

text \<open>\<open>ProviderStateEntryFuncs\<close>: the handler of a state; a state without one does nothing.\<close>

definition ProviderStateEntryFuncs ::
  "StorageDealStatus \<Rightarrow> (provider_env \<Rightarrow> MinerDeal \<Rightarrow> provider_step list) option" where
  "ProviderStateEntryFuncs s = map_of [
     (StorageDealValidating, ValidateDealProposal),
     (StorageDealAcceptWait, DecideOnProposal),
     (StorageDealProviderTransferAwaitRestart, WaitForTransferRestart),
     (StorageDealVerifyData, VerifyData),
     (StorageDealReserveProviderFunds, ReserveProviderFunds),
     (StorageDealProviderFunding, WaitForFunding),
     (StorageDealPublish, PublishDeal),
     (StorageDealPublishing, WaitForPublish),
     (StorageDealStaged, HandoffDeal),
     (StorageDealAwaitingPreCommit, VerifyDealPreCommitted),
     (StorageDealSealing, VerifyDealActivated),
     (StorageDealRejecting, RejectDeal),
     (StorageDealFinalizing, CleanupDeal),
     (StorageDealActive, WaitForDealCompletion),
     (StorageDealFailing, FailDeal)] s"

definition provider_handler :: "provider_env \<Rightarrow> MinerDeal \<Rightarrow> provider_step list" where
  "provider_handler env deal = (case ProviderStateEntryFuncs (State deal) of
     None \<Rightarrow> [] | Some f \<Rightarrow> f env deal)"

lemmas provider_handler_defs = ValidateDealProposal_def DecideOnProposal_def
  WaitForTransferRestart_def VerifyData_def ReserveProviderFunds_def WaitForFunding_def
  PublishDeal_def WaitForPublish_def HandoffDeal_def handoffDeal_def handoff_record_def
  announce_def recordPiece_def block_locations_def VerifyDealPreCommitted_def
  VerifyDealActivated_def RejectDeal_def CleanupDeal_def delete_files_def
  WaitForDealCompletion_def FailDeal_def releaseReservedFunds_def

text \<open>The machine of one deal: process restarts are considered where \<open>may_restart\<close> allows them,
  and the events that other components send are those of \<open>external\<close>.\<close>

definition provider_machine ::
  "((ProviderEvent, StorageDealStatus, MinerDeal) fsm_params \<Rightarrow> ProviderEvent \<Rightarrow>
      StorageDealStatus fsm_arg list \<Rightarrow> MinerDeal \<Rightarrow> MinerDeal fsm_result) \<Rightarrow>
   (ProviderEvent \<Rightarrow> StorageDealStatus fsm_arg list \<Rightarrow> bool) \<Rightarrow>
   ((provider_call, ProviderEvent, StorageDealStatus, MinerDeal) cfg \<Rightarrow> bool) \<Rightarrow>
   (provider_env, provider_call, ProviderEvent, StorageDealStatus, MinerDeal) machine" where
  "provider_machine plan external may_restart = \<lparr>Plan = (\<lambda>env. plan provider_fsm),
     Handler = provider_handler, EnvOK = (\<lambda>env. True), External = external, RestartEvent = ProviderEventRestart,
     MayRestart = may_restart, ConsumeAll = False\<rparr>"

end
