(* ===== verification/Funds_Protocol.thy ===== *)
theory Funds_Protocol
  imports Fsm_Machine
begin

section \<open>Reserving and releasing funds: the protocol of a deal machine\<close>

text \<open>
  Provider and client handle the funds of a deal in the same way: a handler reserves them with
  the node and sends an event that adds the amount to the deal; another releases them and sends an
  event that subtracts it. The locale \<open>funds_protocol\<close> states what makes this sound, as laws on
  the event table (\<open>plan\<close>) and on the handlers, and shows the invariant of the running machine:
  the node's ledger is what the deal records together with the amounts on their way.

  \<open>key\<close> are the events that concern funds or leave the states in which they are handled;
  \<open>pending_ok\<close> the sequences of them that can be under way in a deal's state. A handler may also
  leave one answer to a callback (\<open>waits\<close>, \<open>answer\<close>). \<open>busy\<close> are the states that only key events
  leave, \<open>zero\<close> those in which nothing is reserved.
\<close>

definition quiet :: "('c, 'e, 's, 'd) cfg \<Rightarrow> bool" where
  "quiet c \<longleftrightarrow> queue c = [] \<and> todo c = []"

definition kfilter :: "('e \<Rightarrow> bool) \<Rightarrow> ('e \<times> 's fsm_arg list) list \<Rightarrow> ('e \<times> 's fsm_arg list) list" where
  "kfilter key xs = filter (\<lambda>(e, _). key e) xs"

lemma kfilter_simps [simp]:
  "kfilter key [] = []"
  "kfilter key ((e, a) # xs) = (if key e then (e, a) # kfilter key xs else kfilter key xs)"
  "kfilter key (xs @ ys) = kfilter key xs @ kfilter key ys"
  by (simp_all add: kfilter_def)

definition sum_by :: "('a \<Rightarrow> int) \<Rightarrow> 'a list \<Rightarrow> int" where
  "sum_by f xs = sum_list (map f xs)"

lemma sum_by_simps [simp]:
  "sum_by f [] = 0" "sum_by f (x # xs) = f x + sum_by f xs" "sum_by f (xs @ ys) = sum_by f xs + sum_by f ys"
  by (simp_all add: sum_by_def)

text \<open>Steps of a callback: calls that move no funds, and events.\<close>

fun benign :: "('c \<Rightarrow> int) \<Rightarrow> ('c, 'e, 's) hstep \<Rightarrow> bool" where
  "benign entry (Call x) = (entry x = 0)"
| "benign entry (Trig e a) = True"
| "benign entry NilDeref = False"
| "benign entry (Async ts) = False"

fun benign_async :: "('c \<Rightarrow> int) \<Rightarrow> ('c, 'e, 's) hstep \<Rightarrow> bool" where
  "benign_async entry (Async ts) = list_all (benign entry) ts"
| "benign_async entry NilDeref = False"
| "benign_async entry (Call x) = True"
| "benign_async entry (Trig e a) = True"

lemma benign_nil_free: "benign entry s \<Longrightarrow> nil_free s"
  by (cases s) simp_all

lemma benign_async_nil_free: "list_all (benign_async entry) ss \<Longrightarrow> list_all nil_free ss"
proof (induction ss)
  case (Cons s ss)
  then show ?case by (cases s) (auto simp: list_all_iff intro: benign_nil_free)
qed simp

text \<open>A handler's steps: its calls move what its events carry, and what it leaves pending is
  admissible in the deal's state.\<close>

definition handler_ok :: "('c \<Rightarrow> int) \<Rightarrow> ('e \<Rightarrow> bool) \<Rightarrow> ('e \<times> 's fsm_arg list \<Rightarrow> int) \<Rightarrow>
    ('e \<times> 's fsm_arg list \<Rightarrow> bool) \<Rightarrow> bool \<Rightarrow> (('e \<times> 's fsm_arg list) list \<Rightarrow> bool) \<Rightarrow>
    ('c, 'e, 's) hstep list \<Rightarrow> bool" where
  "handler_ok entry key amount answer waits pend ss \<longleftrightarrow> list_all (benign_async entry) ss \<and>
     sum_by entry (scalls ss) = sum_by amount (kfilter key (strigs ss)) \<and>
     (kfilter key (atrigs ss) = [] \<and> pend (kfilter key (strigs ss)) \<or>
      waits \<and> kfilter key (strigs ss) = [] \<and> (\<exists>x. answer x \<and> kfilter key (atrigs ss) = [x]))"

text \<open>The steps of a handler that has nothing to do with funds.\<close>

fun neutral :: "('c \<Rightarrow> int) \<Rightarrow> ('e \<Rightarrow> bool) \<Rightarrow> ('c, 'e, 's) hstep \<Rightarrow> bool" where
  "neutral entry key (Call x) = (entry x = 0)"
| "neutral entry key (Trig e a) = (\<not> key e)"
| "neutral entry key NilDeref = False"
| "neutral entry key (Async ts) =
     list_all (\<lambda>t. benign entry t \<and> (case t of Trig e a \<Rightarrow> \<not> key e | _ \<Rightarrow> True)) ts"

lemma neutral_strigs: "list_all (neutral entry key) ss \<Longrightarrow> kfilter key (strigs ss) = []"
  by (induction ss rule: strigs.induct) simp_all

lemma benign_strigs:
  "list_all (\<lambda>t. benign entry t \<and> (case t of Trig e a \<Rightarrow> \<not> key e | _ \<Rightarrow> True)) ts
    \<Longrightarrow> kfilter key (strigs ts) = [] \<and> list_all (benign entry) ts"
  by (induction ts rule: strigs.induct) simp_all

lemma neutral_atrigs: "list_all (neutral entry key) ss \<Longrightarrow> kfilter key (atrigs ss) = []"
  by (induction ss rule: atrigs.induct) (auto dest: benign_strigs)

lemma neutral_scalls: "list_all (neutral entry key) ss \<Longrightarrow> sum_by entry (scalls ss) = 0"
  by (induction ss rule: scalls.induct) simp_all

lemma neutral_benign: "list_all (neutral entry key) ss \<Longrightarrow> list_all (benign_async entry) ss"
  by (induction ss rule: atrigs.induct) (auto dest: benign_strigs)

lemmas neutral_facts = neutral_strigs neutral_atrigs neutral_scalls neutral_benign

lemma neutral_handler_ok:
  "list_all (neutral entry key) ss \<Longrightarrow> pend [] \<Longrightarrow> handler_ok entry key amount answer waits pend ss"
  by (simp add: handler_ok_def neutral_facts)

lemma neutral_map: "list_all (neutral entry key) (map f xs) \<longleftrightarrow> (\<forall>x \<in> set xs. neutral entry key (f x))"
  by (simp add: list_all_iff)

text \<open>What the processing of a pending key event gives.\<close>

definition result_ok :: "('d \<Rightarrow> int) \<Rightarrow> ('d \<Rightarrow> bool) \<Rightarrow> ('x list \<Rightarrow> int) \<Rightarrow> ('d \<Rightarrow> 'x list \<Rightarrow> bool) \<Rightarrow>
    int \<Rightarrow> 'x list \<Rightarrow> 'd fsm_result \<Rightarrow> bool" where
  "result_ok funds zero tot pend l ks r = (case r of
     Entered d \<Rightarrow> ks = [] \<and> l = funds d \<and> (zero d \<longrightarrow> funds d = 0)
   | Recorded d \<Rightarrow> pend d ks \<and> l = funds d + tot ks \<and> (zero d \<longrightarrow> funds d = 0)
   | Rejected \<Rightarrow> False
   | Crashed \<Rightarrow> False)"

subsection \<open>The laws\<close>

locale funds_protocol =
  fixes M :: "('n, 'c, 'e, 's, 'd) machine"
    and key :: "'e \<Rightarrow> bool"
    and entry :: "'c \<Rightarrow> int"
    and amount :: "'e \<times> 's fsm_arg list \<Rightarrow> int"
    and funds :: "'d \<Rightarrow> int"
    and deal_ok busy zero waits :: "'d \<Rightarrow> bool"
    and answer :: "'e \<times> 's fsm_arg list \<Rightarrow> bool"
    and pending_ok :: "'d \<Rightarrow> ('e \<times> 's fsm_arg list) list \<Rightarrow> bool"
  assumes one_event: "\<not> ConsumeAll M"
    and external_free: "External M e a \<Longrightarrow> \<not> key e"
    and restart_quiet: "MayRestart M c \<Longrightarrow> quiet c"
    and restart_key: "key (RestartEvent M)" "amount (RestartEvent M, []) = 0"
    and pending_nil: "pending_ok d []"
    and pending_answer: "waits d \<Longrightarrow> answer x \<Longrightarrow> pending_ok d [x]"
    and answer_zero: "answer x \<Longrightarrow> amount x = 0"
    and waits_busy: "waits d \<Longrightarrow> busy d"
    and idle_pending: "pending_ok d xs \<Longrightarrow> \<not> busy d \<Longrightarrow> xs = []"
    and plan_ok: "deal_ok d \<Longrightarrow> Plan M env e a d = Recorded d' \<or> Plan M env e a d = Entered d' \<Longrightarrow>
      deal_ok d'"
    and handlers_ok: "deal_ok d \<Longrightarrow> EnvOK M env \<Longrightarrow>
      handler_ok entry key amount answer (waits d) (pending_ok d) (Handler M env d)"
    and harmless: "\<not> key e \<Longrightarrow> Plan M env e a d = Rejected \<or>
      (\<exists>d'. Plan M env e a d = Recorded d' \<and> funds d' = funds d \<and> zero d' = zero d \<and>
         waits d' = waits d \<and> (\<forall>xs. pending_ok d xs \<longrightarrow> pending_ok d' xs)) \<or>
      (\<exists>d'. Plan M env e a d = Entered d' \<and> funds d' = funds d \<and> (zero d' \<longrightarrow> zero d) \<and> \<not> busy d)"
    and restarting: "Plan M env (RestartEvent M) [] d = Rejected \<or>
      (\<exists>d'. Plan M env (RestartEvent M) [] d = Entered d' \<and> funds d' = funds d \<and> (zero d' \<longrightarrow> zero d))"
    and pending_event: "pending_ok d ((e, a) # ks) \<Longrightarrow> (zero d \<longrightarrow> funds d = 0) \<Longrightarrow>
      result_ok funds zero (sum_by amount) pending_ok (funds d + sum_by amount ((e, a) # ks)) ks
        (Plan M env e a d)"
begin

definition skeys :: "('c, 'e, 's, 'd) cfg \<Rightarrow> ('e \<times> 's fsm_arg list) list" where
  "skeys c = kfilter key (queue c @ strigs (todo c))"

definition akeys :: "('c, 'e, 's, 'd) cfg \<Rightarrow> ('e \<times> 's fsm_arg list) list" where
  "akeys c = kfilter key (concat (map strigs (callbacks c)) @ atrigs (todo c))"

definition pending_cfg_ok :: "('c, 'e, 's, 'd) cfg \<Rightarrow> bool" where
  "pending_cfg_ok c \<longleftrightarrow>
     (if entered c then todo c = [] \<and> skeys c = [] \<and> akeys c = []
      else akeys c = [] \<and> todo c = [] \<and> (\<exists>q. queue c = (RestartEvent M, []) # q \<and> kfilter key q = [])
        \<or> akeys c = [] \<and> pending_ok (cfg_deal c) (skeys c)
        \<or> waits (cfg_deal c) \<and> skeys c = [] \<and> (\<exists>x. answer x \<and> akeys c = [x]))"

definition funds_inv :: "('c, 'e, 's, 'd) cfg \<Rightarrow> bool" where
  "funds_inv c \<longleftrightarrow> \<not> crashed c \<and> deal_ok (cfg_deal c) \<and>
     list_all (list_all (benign entry)) (callbacks c) \<and> list_all (benign_async entry) (todo c) \<and>
     sum_by entry (made c @ scalls (todo c)) = funds (cfg_deal c) + sum_by amount (skeys c) \<and>
     (zero (cfg_deal c) \<longrightarrow> funds (cfg_deal c) = 0) \<and>
     pending_cfg_ok c"

lemma inv_plan_ok:
  assumes "funds_inv c"
  shows "Plan M env e a (cfg_deal c) = Recorded d' \<Longrightarrow> deal_ok d'"
    and "Plan M env e a (cfg_deal c) = Entered d' \<Longrightarrow> deal_ok d'"
proof -
  from assms have "deal_ok (cfg_deal c)" by (simp add: funds_inv_def)
  then show "Plan M env e a (cfg_deal c) = Recorded d' \<Longrightarrow> deal_ok d'"
    and "Plan M env e a (cfg_deal c) = Entered d' \<Longrightarrow> deal_ok d'"
    by (blast intro: plan_ok)+
qed

lemma funds_inv_todo:
  assumes inv: "funds_inv c" and todo: "todo c = s # ss"
  shows "funds_inv (run_step s (c\<lparr>todo := ss\<rparr>))"
proof -
  from inv todo have ne: "\<not> entered c" by (auto simp: funds_inv_def pending_cfg_ok_def split: if_splits)
  with inv todo show ?thesis
    by (cases s) (auto simp: funds_inv_def pending_cfg_ok_def skeys_def akeys_def)
qed

lemma akeys_callback:
  assumes "i < length (callbacks c)" and "callbacks c ! i = s # ss"
  shows "\<exists>pre post. akeys c = pre @ kfilter key (strigs [s]) @ post \<and>
    akeys (c\<lparr>callbacks := (callbacks c)[i := ss]\<rparr>) = pre @ post"
proof -
  from concat_update [OF assms(1), of strigs] obtain pre post
    where cb: "concat (map strigs (callbacks c)) = pre @ strigs (callbacks c ! i) @ post"
      and upd: "\<And>ys. concat (map strigs ((callbacks c)[i := ys])) = pre @ strigs ys @ post" by blast
  have "strigs (s # ss) = strigs [s] @ strigs ss" by (cases s) simp_all
  then have "akeys c = kfilter key pre @ kfilter key (strigs [s]) @
      (kfilter key (strigs ss @ post @ atrigs (todo c)))"
    by (simp add: akeys_def cb assms(2))
  moreover have "akeys (c\<lparr>callbacks := (callbacks c)[i := ss]\<rparr>) =
      kfilter key pre @ kfilter key (strigs ss @ post @ atrigs (todo c))"
    by (simp add: akeys_def upd)
  ultimately show ?thesis by blast
qed

lemma funds_inv_callback_key:
  assumes inv: "funds_inv c" and a: "akeys c = pre @ (e, args) # post" and key: "key e"
    and ben: "list_all (list_all (benign entry)) (callbacks c')"
    and c': "cfg_deal c' = cfg_deal c" "entered c' = entered c" "todo c' = todo c" "made c' = made c"
      "crashed c' = crashed c" "queue c' = queue c @ [(e, args)]" "akeys c' = pre @ post"
  shows "funds_inv c'"
proof -
  from inv a have fa: "answer (e, args)" and "pre = []" "post = []" and ne: "\<not> entered c"
    and st: "waits (cfg_deal c)" and sk: "skeys c = []"
    by (auto simp: funds_inv_def pending_cfg_ok_def append_eq_Cons_conv split: if_splits)
  moreover from sk have "kfilter key (queue c) = []" "kfilter key (strigs (todo c)) = []"
    by (simp_all add: skeys_def)
  then have "skeys c' = [(e, args)]" using key by (simp add: skeys_def c')
  ultimately show ?thesis
    using inv ben c' answer_zero [OF fa] pending_answer [OF st fa]
    by (simp add: funds_inv_def pending_cfg_ok_def)
qed

lemma funds_inv_same:
  assumes inv: "funds_inv c" and ben: "list_all (list_all (benign entry)) (callbacks c')"
    and c': "cfg_deal c' = cfg_deal c" "entered c' = entered c" "todo c' = todo c"
      "sum_by entry (made c') = sum_by entry (made c)"
      "crashed c' = crashed c" "skeys c' = skeys c" "akeys c' = akeys c"
      "\<And>q. queue c = (RestartEvent M, []) # q \<Longrightarrow> kfilter key q = [] \<Longrightarrow>
         \<exists>q'. queue c' = (RestartEvent M, []) # q' \<and> kfilter key q' = []"
  shows "funds_inv c'"
  using inv ben c' by (auto simp: funds_inv_def pending_cfg_ok_def)

lemma funds_inv_callback:
  assumes inv: "funds_inv c" and i: "i < length (callbacks c)" and cb: "callbacks c ! i = s # ss"
  shows "funds_inv (run_step s (c\<lparr>callbacks := (callbacks c)[i := ss]\<rparr>))"
proof -
  from inv have ben: "list_all (list_all (benign entry)) (callbacks c)" by (simp add: funds_inv_def)
  note ben' = list_all_nth_Cons [OF ben i cb]
  from akeys_callback [OF i cb] obtain pre post
    where a: "akeys c = pre @ kfilter key (strigs [s]) @ post"
      and a': "akeys (c\<lparr>callbacks := (callbacks c)[i := ss]\<rparr>) = pre @ post" by blast
  show ?thesis
  proof (cases s)
    case (Call x)
    with ben' a a' show ?thesis
      by (intro funds_inv_same [OF inv]) (simp_all add: skeys_def akeys_def)
  next
    case (Trig e args)
    show ?thesis
    proof (cases "key e")
      case False
      with Trig ben' a a' show ?thesis
        by (intro funds_inv_same [OF inv]) (simp_all add: skeys_def akeys_def)
    next
      case True
      with a have a1: "akeys c = pre @ (e, args) # post" by (simp add: Trig)
      from Trig ben' a' show ?thesis
        by (intro funds_inv_callback_key [OF inv a1 True]) (simp_all add: akeys_def)
    qed
  qed (use ben'(1) in simp_all)
qed

lemma funds_inv_enter:
  assumes inv: "funds_inv c" and "entered c" and "todo c = []" and "EnvOK M env"
  shows "funds_inv (c\<lparr>entered := False, todo := Handler M env (cfg_deal c)\<rparr>)"
proof -
  have "handler_ok entry key amount answer (waits (cfg_deal c)) (pending_ok (cfg_deal c))
      (Handler M env (cfg_deal c))"
    using inv assms(4) by (simp add: funds_inv_def handlers_ok)
  moreover have "kfilter key (queue c) = []" and "kfilter key (concat (map strigs (callbacks c))) = []"
    using inv assms(2,3) by (simp_all add: funds_inv_def pending_cfg_ok_def skeys_def akeys_def)
  ultimately show ?thesis
    using inv assms(2,3)
    by (simp add: funds_inv_def pending_cfg_ok_def handler_ok_def skeys_def akeys_def)
qed

lemma funds_inv_process:
  assumes inv: "funds_inv c" and ne: "\<not> entered c" and todo: "todo c = []" and ak: "akeys c = []"
    and res: "result_ok funds zero (sum_by amount) pending_ok (sum_by entry (made c)) (kfilter key q)
      (Plan M env e a (cfg_deal c))"
  shows "funds_inv (process (Plan M env e a (cfg_deal c)) q c)"
proof (cases "Plan M env e a (cfg_deal c)")
  case (Recorded d')
  moreover have "deal_ok d'" using inv_plan_ok [OF inv] Recorded by blast
  ultimately show ?thesis
    using inv ne todo res ak
    by (simp add: process_def funds_inv_def pending_cfg_ok_def skeys_def akeys_def result_ok_def)
next
  case (Entered d')
  moreover have "deal_ok d'" using inv_plan_ok [OF inv] Entered by blast
  ultimately show ?thesis
    using inv ne todo res ak
    by (simp add: process_def funds_inv_def pending_cfg_ok_def skeys_def akeys_def result_ok_def)
qed (use res in \<open>simp_all add: result_ok_def\<close>)

lemma funds_inv_harmless:
  assumes inv: "funds_inv c" and ne: "\<not> entered c" and todo: "todo c = []"
    and q: "queue c = (e, a) # q" and e: "\<not> key e"
  shows "funds_inv (process (Plan M env e a (cfg_deal c)) q c)"
  using harmless [OF e, of env a "cfg_deal c"]
proof (elim disjE exE conjE)
  assume "Plan M env e a (cfg_deal c) = Rejected"
  with inv ne todo q e restart_key(1) show ?thesis
    by (auto simp: process_def funds_inv_def pending_cfg_ok_def skeys_def akeys_def)
next
  fix d' assume p: "Plan M env e a (cfg_deal c) = Recorded d'"
    and d': "funds d' = funds (cfg_deal c)" "zero d' = zero (cfg_deal c)" "waits d' = waits (cfg_deal c)"
      "\<forall>xs. pending_ok (cfg_deal c) xs \<longrightarrow> pending_ok d' xs"
  have "deal_ok d'" using inv_plan_ok [OF inv] p by blast
  with inv ne todo q e d' restart_key(1) show ?thesis
    by (auto simp: p process_def funds_inv_def pending_cfg_ok_def skeys_def akeys_def)
next
  fix d' assume p: "Plan M env e a (cfg_deal c) = Entered d'"
    and d': "funds d' = funds (cfg_deal c)" "zero d' \<longrightarrow> zero (cfg_deal c)"
    and idle: "\<not> busy (cfg_deal c)"
  have "deal_ok d'" using inv_plan_ok [OF inv] p by blast
  moreover have "kfilter key q = []" and "akeys c = []"
    using inv ne todo q e idle idle_pending [of "cfg_deal c"] waits_busy [of "cfg_deal c"] restart_key(1)
    by (auto simp: funds_inv_def pending_cfg_ok_def skeys_def)
  ultimately show ?thesis
    using inv ne todo q e d'
    by (auto simp: p process_def funds_inv_def pending_cfg_ok_def skeys_def akeys_def)
qed

lemma funds_inv_restart_event:
  assumes inv: "funds_inv c" and ne: "\<not> entered c" and todo: "todo c = []"
    and q: "queue c = (RestartEvent M, []) # q" "kfilter key q = []" and ak: "akeys c = []"
  shows "funds_inv (process (Plan M env (RestartEvent M) [] (cfg_deal c)) q c)"
proof (cases "Plan M env (RestartEvent M) [] (cfg_deal c) = Rejected")
  case True
  with inv ne todo q ak restart_key pending_nil show ?thesis
    by (auto simp: process_def funds_inv_def pending_cfg_ok_def skeys_def akeys_def)
next
  case False
  with restarting [of env "cfg_deal c"] inv q todo restart_key
  have "result_ok funds zero (sum_by amount) pending_ok (sum_by entry (made c)) (kfilter key q)
      (Plan M env (RestartEvent M) [] (cfg_deal c))"
    by (auto simp: result_ok_def funds_inv_def skeys_def)
  then show ?thesis by (rule funds_inv_process [OF inv ne todo ak])
qed

lemma funds_inv_event:
  assumes inv: "funds_inv c" and ne: "\<not> entered c" and todo: "todo c = []"
    and q: "queue c = (e, a) # q"
  shows "funds_inv (process (Plan M env e a (cfg_deal c)) q c)"
proof (cases "key e")
  case False
  then show ?thesis by (rule funds_inv_harmless [OF inv ne todo q])
next
  case True
  have ledger: "sum_by entry (made c) = funds (cfg_deal c) + sum_by amount ((e, a) # kfilter key q)"
    and zero: "zero (cfg_deal c) \<longrightarrow> funds (cfg_deal c) = 0"
    using inv todo q True by (simp_all add: funds_inv_def skeys_def)
  consider (restart) "akeys c = []" "e = RestartEvent M" "a = []" "kfilter key q = []"
    | (pending) "akeys c = []" "pending_ok (cfg_deal c) ((e, a) # kfilter key q)"
    using inv ne todo q True by (auto simp: funds_inv_def pending_cfg_ok_def skeys_def)
  then show ?thesis
  proof cases
    case pending
    from pending_event [OF pending(2) zero, of env]
    have "result_ok funds zero (sum_by amount) pending_ok (sum_by entry (made c)) (kfilter key q)
        (Plan M env e a (cfg_deal c))" by (simp only: ledger)
    then show ?thesis by (rule funds_inv_process [OF inv ne todo pending(1)])
  next
    case restart
    with funds_inv_restart_event [OF inv ne todo] q show ?thesis by simp
  qed
qed

end

subsection \<open>The invariant of the machine\<close>

sublocale funds_protocol \<subseteq> funds: machine_invariant M funds_inv
proof
  fix c :: "('c, 'e, 's, 'd) cfg" and e a
  assume inv: "funds_inv c" and "External M e a"
  then have "\<not> key e" by (simp add: external_free)
  with inv show "funds_inv (c\<lparr>queue := queue c @ [(e, a)]\<rparr>)"
    by (intro funds_inv_same [OF inv]) (simp_all add: funds_inv_def skeys_def akeys_def)
next
  fix c :: "('c, 'e, 's, 'd) cfg"
  assume "funds_inv c" and "MayRestart M c"
  moreover from this(2) have "queue c = []" "todo c = []"
    using restart_quiet by (auto simp: quiet_def)
  ultimately show "funds_inv (restarted (RestartEvent M) c)"
    using restart_key by (simp add: restarted_def funds_inv_def pending_cfg_ok_def skeys_def akeys_def)
qed (auto simp: one_event intro: funds_inv_enter funds_inv_todo funds_inv_callback funds_inv_event)

context funds_protocol
begin

lemma start_inv:
  assumes "deal_ok d" "funds d = 0" "\<not> key e"
  shows "funds_inv (start_cfg d [(e, a)])"
  using assms pending_nil
  by (auto simp: funds_inv_def start_cfg_def skeys_def akeys_def pending_cfg_ok_def)

text \<open>At rest, the ledger is what the deal records.\<close>

lemma reach_conserved:
  assumes "machine_reach M (start_cfg d [(e, a)]) c" "deal_ok d" "funds d = 0" "\<not> key e"
  shows "\<not> crashed c" and "quiet c \<Longrightarrow> sum_by entry (made c) = funds (cfg_deal c)"
proof -
  have "funds_inv c" by (rule funds.reach_keeps [OF assms(1) start_inv [OF assms(2-)]])
  then show "\<not> crashed c" and "quiet c \<Longrightarrow> sum_by entry (made c) = funds (cfg_deal c)"
    by (auto simp: funds_inv_def quiet_def skeys_def)
qed

text \<open>In a state that holds no funds and that only its own events leave, the ledger is empty.\<close>

lemma reach_settled:
  assumes "machine_reach M (start_cfg d [(e, a)]) c" "deal_ok d" "funds d = 0" "\<not> key e"
    and "zero (cfg_deal c)" "\<not> busy (cfg_deal c)" "todo c = []"
  shows "sum_by entry (made c) = 0"
proof -
  have inv: "funds_inv c" by (rule funds.reach_keeps [OF assms(1) start_inv [OF assms(2-4)]])
  moreover have "sum_by amount (skeys c) = 0"
    using inv assms(6,7) restart_key waits_busy
    by (auto simp: funds_inv_def pending_cfg_ok_def skeys_def split: if_splits dest: idle_pending)
  ultimately show ?thesis using assms(5,7) by (simp add: funds_inv_def)
qed

end

end
