(* ===== verification/Storage_Provider_Funds.thy ===== *)
theory Storage_Provider_Funds
  imports Storage_Provider_States Funds_Protocol
begin

section \<open>Storage provider: safety of the running machine\<close>

text \<open>
  Invariants of a deal's machine over all interleavings of handlers, callbacks, events of other
  components and restarts. First, no handler dereferences nil. Second, the funds of a deal: the
  collateral reserved with the node for it, less what was released, is what the deal records
  (\<open>FundsReserved\<close>) together with the amounts in events still queued, and nothing stays reserved
  once the deal is published, completed or failed.
\<close>

subsection \<open>No handler dereferences nil\<close>

definition provider_deal_ok :: "MinerDeal \<Rightarrow> bool" where
  "provider_deal_ok d \<longleftrightarrow> Ref d \<noteq> None \<and>
     (State d = StorageDealProviderFunding \<longrightarrow> AddFundsCid d \<noteq> None) \<and>
     (State d = StorageDealPublishing \<longrightarrow> PublishCid d \<noteq> None)"

lemma provider_rows_1_ok: "list_all (ev_keeps provider_fsm provider_deal_ok) ProviderEvents_1"
  unfolding ProviderEvents_1_def list.pred_inject
  by (intro conjI ev_keepsI) (auto simp: provider_deal_ok_def transition_def note_error_def
    no_action_def provider_fsm_def split: if_splits)

lemma provider_rows_2_ok: "list_all (ev_keeps provider_fsm provider_deal_ok) ProviderEvents_2"
  unfolding ProviderEvents_2_def list.pred_inject
  by (intro conjI ev_keepsI) (auto simp: provider_deal_ok_def transition_def note_error_def
    no_action_def provider_fsm_def split: if_splits option.splits)

lemma provider_plan_ok:
  assumes "provider_deal_ok d"
    and "fsm_plan provider_fsm e args d = Recorded d' \<or> fsm_plan provider_fsm e args d = Entered d'"
  shows "provider_deal_ok d'"
proof (rule table_keeps [where P = provider_fsm and Q = provider_deal_ok, OF _ assms])
  show "list_all (ev_keeps provider_fsm provider_deal_ok) (Events provider_fsm)"
    using provider_rows_1_ok provider_rows_2_ok by (simp add: provider_fsm_def ProviderEvents_def)
qed

lemma nil_free_sync:
  "list_all nil_free (ValidateDealProposal env d)" "list_all nil_free (DecideOnProposal env d)"
  "list_all nil_free (WaitForTransferRestart env d)" "list_all nil_free (VerifyData env d)"
  "list_all nil_free (ReserveProviderFunds env d)" "list_all nil_free (PublishDeal env d)"
  "list_all nil_free (releaseReservedFunds env d)" "list_all nil_free (RejectDeal env d)"
  "list_all nil_free (CleanupDeal env d)" "list_all nil_free (FailDeal env d)"
  by (simp_all add: provider_handler_defs Let_def split: option.split on_err_split prod.split)

lemma nil_free_callbacks:
  "list_all nil_free (VerifyDealPreCommitted env d)" "list_all nil_free (VerifyDealActivated env d)"
  "list_all nil_free (WaitForDealCompletion env d)"
  by (simp_all add: provider_handler_defs nil_free_map list_all_append
      split: option.split on_err_split prod.split)

lemma nil_free_handoff: "Ref d \<noteq> None \<Longrightarrow> list_all nil_free (handoff_record env d path info)"
  by (auto simp: handoff_record_def recordPiece_def block_locations_def announce_def Let_def
      split: option.split on_err_split prod.split)

lemma handoffDeal_steps: "list_all nil_free (fst (handoffDeal env d sz))"
  by (simp add: handoffDeal_def Let_def split: option.split)

lemma nil_free_HandoffDeal: "Ref d \<noteq> None \<Longrightarrow> list_all nil_free (HandoffDeal env d)"
  using handoffDeal_steps [of env d]
  by (auto simp: HandoffDeal_def nil_free_handoff split: option.split on_err_split prod.split)
    (metis fst_conv)+

lemma provider_handler_nil_free:
  "provider_deal_ok d \<Longrightarrow> list_all nil_free (provider_handler env d)"
  by (cases "State d")
    (auto simp: provider_handler_def ProviderStateEntryFuncs_def nil_free_sync nil_free_callbacks
       nil_free_HandoffDeal provider_deal_ok_def WaitForFunding_def WaitForPublish_def
       split: option.split on_err_split)


interpretation provider_nil: deal_invariant "provider_machine fsm_plan external may_restart" provider_deal_ok
  for external may_restart
  by unfold_locales
    (auto simp: provider_machine_def provider_handler_nil_free intro: provider_plan_ok)

subsection \<open>The ledger\<close>

text \<open>What the node holds for the deal: the amounts of the reservations that succeeded less those
  of the release requests.\<close>

primrec ledger_entry :: "provider_call \<Rightarrow> int" where
  "ledger_entry (CReserveFunds w p amt) = amt"
| "ledger_entry (CReleaseFunds p amt) = - amt"
| "ledger_entry (CTagPeer p t) = 0"
| "ledger_entry (CUntagPeer p t) = 0"
| "ledger_entry (CSendSignedResponse s m c) = 0"
| "ledger_entry (CDisconnect c) = 0"
| "ledger_entry (CFinalizeBlockstore c) = 0"
| "ledger_entry (CTerminateBlockstore c p) = 0"
| "ledger_entry (CPublishDeals d) = 0"
| "ledger_entry (COnDealComplete d n) = 0"
| "ledger_entry (CAddPieceBlockLocations c ls) = 0"
| "ledger_entry (CAddDealForPiece c pc di) = 0"
| "ledger_entry (CRegisterShard c p b) = 0"
| "ledger_entry (CAnnounceIndex d) = 0"
| "ledger_entry (CRemoveIndex c) = 0"
| "ledger_entry (CFileStoreDelete p) = 0"

definition ledger :: "provider_call list \<Rightarrow> int" where
  "ledger cs = sum_by ledger_entry cs"

definition funds_of :: "MinerDeal \<Rightarrow> int" where
  "funds_of d = (case FundsReserved d of None \<Rightarrow> 0 | Some x \<Rightarrow> x)"

text \<open>The events that only the handlers around funding, publishing and failing send. All others
  may come from anywhere at any time.\<close>

definition funds_event :: "ProviderEvent \<Rightarrow> bool" where
  "funds_event e \<longleftrightarrow> e \<in> {ProviderEventNodeErrored, ProviderEventFundingInitiated,
     ProviderEventFunded, ProviderEventDealPublishInitiated, ProviderEventDealPublishError,
     ProviderEventDealPublished, ProviderEventFailed, ProviderEventTrackFundsFailed,
     ProviderEventFundsReserved, ProviderEventFundsReleased, ProviderEventRestart}"

abbreviation (input) funds_machine where
  "funds_machine plan \<equiv> provider_machine plan (\<lambda>e a. \<not> funds_event e) quiet"

text \<open>The states in which funds may be reserved.\<close>

definition funding_state :: "StorageDealStatus \<Rightarrow> bool" where
  "funding_state s \<longleftrightarrow> s \<in> {StorageDealReserveProviderFunds, StorageDealProviderFunding,
     StorageDealPublish, StorageDealPublishing, StorageDealFailing}"

subsection \<open>Other events leave the funds alone\<close>

definition row_harmless :: "provider_event \<Rightarrow> bool" where
  "row_harmless ev \<longleftrightarrow> funds_event (ev_name ev) \<or>
     (\<forall>args d. ev_action ev args d \<noteq> Panicked \<and>
        (\<forall>d1. ev_action ev args d = Done d1 \<longrightarrow>
           FundsReserved d1 = FundsReserved d \<and> State d1 = State d) \<and>
        (\<forall>s t. funding_state s \<longrightarrow> transition (ev_clauses ev) s = Some t \<longrightarrow> t = ToJustRecord))"

lemma rows_1_harmless: "list_all row_harmless ProviderEvents_1"
  unfolding ProviderEvents_1_def list.pred_inject row_harmless_def
  by (intro conjI) (auto simp: funds_event_def funding_state_def transition_def note_error_def
    no_action_def split: if_splits)

lemma rows_2_harmless: "list_all row_harmless ProviderEvents_2"
  unfolding ProviderEvents_2_def list.pred_inject row_harmless_def
  by (intro conjI) (auto simp: funds_event_def funding_state_def transition_def note_error_def
    no_action_def split: if_splits)

lemma harmless_plan:
  assumes "\<not> funds_event e"
  shows "fsm_plan provider_fsm e a d = Rejected \<or>
    (\<exists>d'. fsm_plan provider_fsm e a d = Recorded d' \<and>
       State d' = State d \<and> FundsReserved d' = FundsReserved d) \<or>
    (\<exists>d'. fsm_plan provider_fsm e a d = Entered d' \<and>
       FundsReserved d' = FundsReserved d \<and> \<not> funding_state (State d))"
proof (cases "fsm_plan provider_fsm e a d = Rejected")
  case False
  then obtain ev t where ev: "find_event ProviderEvents e = Some ev"
    and t: "transition (ev_clauses ev) (State d) = Some t"
    and args: "ev_action ev a d \<noteq> BadArgs"
    and plan: "fsm_plan provider_fsm e a d =
      (case ev_action ev a d of Done d1 \<Rightarrow> apply_target provider_fsm t d1 | _ \<Rightarrow> Crashed)"
    by (auto simp: fsm_plan_def provider_fsm_def split: if_splits option.splits act_result.splits)
  from find_event_SomeD [OF ev] have "row_harmless ev" and "ev_name ev = e"
    using rows_1_harmless rows_2_harmless by (auto simp: ProviderEvents_def list_all_iff)
  with assms have safe: "ev_action ev a d \<noteq> Panicked"
    and d1: "\<And>d1. ev_action ev a d = Done d1 \<Longrightarrow> FundsReserved d1 = FundsReserved d \<and> State d1 = State d"
    and busy: "funding_state (State d) \<Longrightarrow> t = ToJustRecord"
    using t by (auto simp: row_harmless_def)
  from safe args plan obtain d' where d': "ev_action ev a d = Done d'"
    and eq: "fsm_plan provider_fsm e a d = apply_target provider_fsm t d'"
    by (cases "ev_action ev a d") simp_all
  from d1 [OF d'] busy show ?thesis
    unfolding eq by (cases t) (auto simp: apply_target_def provider_fsm_def)
qed simp

end
