(* ===== verification/Storage_Provider_Ledger.thy ===== *)
theory Storage_Provider_Ledger
  imports Storage_Provider_Funds
begin

section \<open>Storage provider: conservation of reserved funds\<close>

text \<open>
  The provider's event table and handlers satisfy the laws of \<open>funds_protocol\<close>. In each state
  around funding only a few sequences of funds events can be under way (\<open>pending_ok\<close>), and every
  one of them brings the amount it carries to the deal before the state is left.
\<close>

type_synonym provider_cfg = "(provider_call, ProviderEvent, StorageDealStatus, MinerDeal) cfg"

type_synonym provider_trig = "ProviderEvent \<times> StorageDealStatus fsm_arg list"

fun amount :: "provider_trig \<Rightarrow> int" where
  "amount (ProviderEventFundsReserved, [AToken x]) = x"
| "amount (ProviderEventFundsReleased, [AToken x]) = - x"
| "amount _ = 0"

definition funding_answer :: "provider_trig \<Rightarrow> bool" where
  "funding_answer x \<longleftrightarrow> x = (ProviderEventFunded, []) \<or> (\<exists>err. x = (ProviderEventNodeErrored, [AErr err]))"

definition reserve_exit :: "provider_trig \<Rightarrow> bool" where
  "reserve_exit x \<longleftrightarrow> x = (ProviderEventFunded, []) \<or> (\<exists>m. x = (ProviderEventFundingInitiated, [ACid m]))"

definition release_exit :: "MinerDeal \<Rightarrow> provider_trig \<Rightarrow> bool" where
  "release_exit d x \<longleftrightarrow>
     (State d = StorageDealPublishing \<and> (\<exists>i m. x = (ProviderEventDealPublished, [ADealID i, ACid m]))) \<or>
     (State d = StorageDealFailing \<and> x = (ProviderEventFailed, []))"

inductive pending_ok :: "MinerDeal \<Rightarrow> provider_trig list \<Rightarrow> bool" for d where
  nothing: "pending_ok d []"
| node_error: "State d \<in> {StorageDealReserveProviderFunds, StorageDealPublish} \<Longrightarrow>
    pending_ok d [(ProviderEventNodeErrored, [AErr err])]"
| reserved: "State d = StorageDealReserveProviderFunds \<Longrightarrow> reserve_exit x \<Longrightarrow>
    pending_ok d [(ProviderEventFundsReserved, [AToken amt]), x]"
| reserve_done: "State d = StorageDealReserveProviderFunds \<Longrightarrow> reserve_exit x \<Longrightarrow> pending_ok d [x]"
| funding: "State d = StorageDealProviderFunding \<Longrightarrow> funding_answer x \<Longrightarrow> pending_ok d [x]"
| publish: "State d = StorageDealPublish \<Longrightarrow>
    pending_ok d [(ProviderEventDealPublishInitiated, [ACid m])]"
| publish_error: "State d = StorageDealPublishing \<Longrightarrow>
    pending_ok d [(ProviderEventDealPublishError, [AErr err])]"
| released: "release_exit d x \<Longrightarrow> FundsReserved d = Some f \<Longrightarrow>
    pending_ok d [(ProviderEventFundsReleased, [AToken f]), x]"
| release_done: "release_exit d x \<Longrightarrow> funds_of d = 0 \<Longrightarrow> pending_ok d [x]"

subsection \<open>What the handlers send\<close>

lemma funds_event_others [simp]:
  "\<not> funds_event ProviderEventOpen" "\<not> funds_event ProviderEventDealRejected"
  "\<not> funds_event ProviderEventRejectionSent" "\<not> funds_event ProviderEventDealDeciding"
  "\<not> funds_event ProviderEventDataRequested" "\<not> funds_event ProviderEventSendResponseFailed"
  "\<not> funds_event ProviderEventDataVerificationFailed" "\<not> funds_event ProviderEventVerifiedData"
  "\<not> funds_event ProviderEventFileStoreErrored" "\<not> funds_event ProviderEventDealHandoffFailed"
  "\<not> funds_event ProviderEventPieceStoreErrored" "\<not> funds_event ProviderEventDealHandedOff"
  "\<not> funds_event ProviderEventDealPrecommitFailed" "\<not> funds_event ProviderEventDealPrecommitted"
  "\<not> funds_event ProviderEventDealActivationFailed" "\<not> funds_event ProviderEventDealActivated"
  "\<not> funds_event ProviderEventFinalized" "\<not> funds_event ProviderEventDealSlashed"
  "\<not> funds_event ProviderEventDealExpired" "\<not> funds_event ProviderEventDealCompletionFailed"
  "\<not> funds_event ProviderEventAwaitTransferRestartTimeout"
  "funds_event ProviderEventNodeErrored" "funds_event ProviderEventFundingInitiated"
  "funds_event ProviderEventFunded" "funds_event ProviderEventDealPublishInitiated"
  "funds_event ProviderEventDealPublishError" "funds_event ProviderEventDealPublished"
  "funds_event ProviderEventFailed" "funds_event ProviderEventFundsReserved"
  "funds_event ProviderEventFundsReleased" "funds_event ProviderEventRestart"
  by (simp_all add: funds_event_def)

lemma neutral_sync:
  "list_all (neutral ledger_entry funds_event) (ValidateDealProposal env d)" "list_all (neutral ledger_entry funds_event) (DecideOnProposal env d)"
  "list_all (neutral ledger_entry funds_event) (WaitForTransferRestart env d)" "list_all (neutral ledger_entry funds_event) (VerifyData env d)"
  "list_all (neutral ledger_entry funds_event) (RejectDeal env d)" "list_all (neutral ledger_entry funds_event) (CleanupDeal env d)"
  by (simp_all add: provider_handler_defs split: option.split on_err_split prod.split)

lemma neutral_callbacks:
  "list_all (neutral ledger_entry funds_event) (VerifyDealPreCommitted env d)" "list_all (neutral ledger_entry funds_event) (VerifyDealActivated env d)"
  "list_all (neutral ledger_entry funds_event) (WaitForDealCompletion env d)"
  by (simp_all add: provider_handler_defs neutral_map list_all_append
      split: option.split on_err_split prod.split)

lemma neutral_handoff: "Ref d \<noteq> None \<Longrightarrow> list_all (neutral ledger_entry funds_event) (handoff_record env d path info)"
  by (auto simp: handoff_record_def recordPiece_def block_locations_def announce_def Let_def
      split: option.split on_err_split prod.split)

lemma neutral_handoffDeal: "list_all (neutral ledger_entry funds_event) (fst (handoffDeal env d sz))"
  by (simp add: handoffDeal_def Let_def split: option.split)

lemma neutral_HandoffDeal: "Ref d \<noteq> None \<Longrightarrow> list_all (neutral ledger_entry funds_event) (HandoffDeal env d)"
  using neutral_handoffDeal [of env d]
  by (auto simp: HandoffDeal_def neutral_handoff split: option.split on_err_split prod.split)
    (metis fst_conv)+

lemma neutral_delete_files: "list_all (neutral ledger_entry funds_event) (delete_files d)"
  by (simp add: delete_files_def)

lemma neutral_handler:
  "\<not> funding_state (State d) \<Longrightarrow> provider_deal_ok d \<Longrightarrow> list_all (neutral ledger_entry funds_event) (provider_handler env d)"
  by (cases "State d")
    (auto simp: provider_handler_def ProviderStateEntryFuncs_def neutral_sync neutral_callbacks
       neutral_HandoffDeal provider_deal_ok_def funding_state_def)

text \<open>The handlers of the funding states: their calls, and what is pending after them.\<close>

definition provider_waits :: "MinerDeal \<Rightarrow> bool" where
  "provider_waits d \<longleftrightarrow> State d = StorageDealProviderFunding"

definition provider_handler_ok ::
  "MinerDeal \<Rightarrow> (provider_call, ProviderEvent, StorageDealStatus) hstep list \<Rightarrow> bool" where
  "provider_handler_ok d ss \<longleftrightarrow>
     handler_ok ledger_entry funds_event amount funding_answer (provider_waits d) (pending_ok d) ss"

lemmas hok_defs = provider_handler_ok_def handler_ok_def provider_waits_def

lemma ReserveProviderFunds_ok:
  "State d = StorageDealReserveProviderFunds \<Longrightarrow> provider_handler_ok d (ReserveProviderFunds env d)"
  by (auto simp: ReserveProviderFunds_def hok_defs reserve_exit_def
      intro!: pending_ok.intros split: on_err_split prod.split)

lemma WaitForFunding_ok:
  "State d = StorageDealProviderFunding \<Longrightarrow> provider_deal_ok d \<Longrightarrow> provider_handler_ok d (WaitForFunding env d)"
  by (auto simp: WaitForFunding_def hok_defs funding_answer_def provider_deal_ok_def
      intro!: pending_ok.nothing split: on_err_split prod.split option.split)

lemma PublishDeal_ok: "State d = StorageDealPublish \<Longrightarrow> provider_handler_ok d (PublishDeal env d)"
  by (auto simp: PublishDeal_def hok_defs Let_def
      intro!: pending_ok.intros split: on_err_split)

lemma releaseReservedFunds_steps:
  "releaseReservedFunds env d = (if funds_of d = 0 then [] else
     [Call (CReleaseFunds (Provider (Proposal d)) (funds_of d)),
      Trig ProviderEventFundsReleased [AToken (funds_of d)]])"
  by (simp add: releaseReservedFunds_def funds_of_def split: option.split)

lemma release_pending:
  "release_exit d x \<Longrightarrow> funds_of d \<noteq> 0 \<Longrightarrow>
     pending_ok d [(ProviderEventFundsReleased, [AToken (funds_of d)]), x]"
  by (cases "FundsReserved d") (auto simp: funds_of_def intro: pending_ok.released)

lemma WaitForPublish_ok:
  "State d = StorageDealPublishing \<Longrightarrow> provider_deal_ok d \<Longrightarrow> provider_handler_ok d (WaitForPublish env d)"
  by (auto simp: WaitForPublish_def hok_defs provider_deal_ok_def releaseReservedFunds_steps
      release_exit_def intro!: pending_ok.publish_error release_pending pending_ok.release_done
      split: on_err_split)

lemma FailDeal_ok: "State d = StorageDealFailing \<Longrightarrow> provider_handler_ok d (FailDeal env d)"
  using neutral_delete_files [of d]
  by (auto simp: FailDeal_def hok_defs releaseReservedFunds_steps release_exit_def
      neutral_facts
      intro!: release_pending pending_ok.release_done)

lemma handlers_ok: "provider_deal_ok d \<Longrightarrow> provider_handler_ok d (provider_handler env d)"
proof (cases "funding_state (State d)")
  case True
  assume "provider_deal_ok d"
  with True show ?thesis
    using ReserveProviderFunds_ok WaitForFunding_ok PublishDeal_ok WaitForPublish_ok FailDeal_ok
    by (auto simp: funding_state_def provider_handler_def ProviderStateEntryFuncs_def)
qed (simp add: neutral_handler provider_handler_ok_def neutral_handler_ok pending_ok.nothing)

subsection \<open>Events\<close>

lemmas plan_simps = fsm_plan_def provider_table_defs transition_def apply_target_def
  note_error_def no_action_def act_def actM_def

lemma plan_Restart:
  "fsm_plan provider_fsm ProviderEventRestart [] d = Rejected \<or>
   (\<exists>d'. fsm_plan provider_fsm ProviderEventRestart [] d = Entered d' \<and>
      FundsReserved d' = FundsReserved d \<and> (funding_state (State d') \<longleftrightarrow> funding_state (State d)))"
  by (auto simp: plan_simps funding_state_def)

lemma plan_NodeErrored: "funding_state (State d) \<Longrightarrow>
    fsm_plan provider_fsm ProviderEventNodeErrored [AErr err] d =
      Entered (d\<lparr>Message := ''error calling node: '' @ Error err, State := StorageDealFailing\<rparr>)"
  by (auto simp: plan_simps funding_state_def)

lemma plan_FundsReserved: "State d = StorageDealReserveProviderFunds \<Longrightarrow>
    fsm_plan provider_fsm ProviderEventFundsReserved [AToken x] d =
      Recorded (d\<lparr>FundsReserved := Some (funds_of d + x)\<rparr>)"
  by (simp add: plan_simps funds_of_def split: option.split)

lemma plan_Funded: "State d \<in> {StorageDealProviderFunding, StorageDealReserveProviderFunds} \<Longrightarrow>
    fsm_plan provider_fsm ProviderEventFunded [] d = Entered (d\<lparr>State := StorageDealPublish\<rparr>)"
  by (auto simp: plan_simps)

lemma plan_FundingInitiated: "State d = StorageDealReserveProviderFunds \<Longrightarrow>
    fsm_plan provider_fsm ProviderEventFundingInitiated [ACid m] d =
      Entered (d\<lparr>AddFundsCid := Some m, State := StorageDealProviderFunding\<rparr>)"
  by (simp add: plan_simps)

lemma plan_DealPublishInitiated: "State d = StorageDealPublish \<Longrightarrow>
    fsm_plan provider_fsm ProviderEventDealPublishInitiated [ACid m] d =
      Entered (d\<lparr>PublishCid := Some m, State := StorageDealPublishing\<rparr>)"
  by (simp add: plan_simps)

lemma plan_DealPublishError: "State d = StorageDealPublishing \<Longrightarrow>
    fsm_plan provider_fsm ProviderEventDealPublishError [AErr err] d =
      Entered (d\<lparr>Message := ''PublishStorageDeal error: '' @ Error err, State := StorageDealFailing\<rparr>)"
  by (simp add: plan_simps)

lemma plan_DealPublished: "State d = StorageDealPublishing \<Longrightarrow>
    fsm_plan provider_fsm ProviderEventDealPublished [ADealID i, ACid m] d =
      Entered (d\<lparr>DealID := i, PublishCid := Some m, State := StorageDealStaged\<rparr>)"
  by (simp add: plan_simps)

lemma plan_Failed: "State d = StorageDealFailing \<Longrightarrow>
    fsm_plan provider_fsm ProviderEventFailed [] d = Entered (d\<lparr>State := StorageDealError\<rparr>)"
  by (simp add: plan_simps)

lemma plan_FundsReleased:
  "State d \<in> {StorageDealPublishing, StorageDealFailing} \<Longrightarrow> FundsReserved d = Some f \<Longrightarrow>
    fsm_plan provider_fsm ProviderEventFundsReleased [AToken x] d =
      Recorded (d\<lparr>FundsReserved := Some (f - x)\<rparr>)"
  by (auto simp: plan_simps)

lemmas plan_funds_events = plan_NodeErrored plan_FundsReserved plan_Funded plan_FundingInitiated
  plan_DealPublishInitiated plan_DealPublishError plan_DealPublished plan_Failed plan_FundsReleased

lemma pending_ok_cong:
  "pending_ok d xs \<Longrightarrow> State d' = State d \<Longrightarrow> FundsReserved d' = FundsReserved d \<Longrightarrow> pending_ok d' xs"
  by (induction rule: pending_ok.induct)
    (auto intro: pending_ok.intros simp: release_exit_def funds_of_def)

lemma pending_ok_settled: "pending_ok d xs \<Longrightarrow> \<not> funding_state (State d) \<Longrightarrow> xs = []"
  by (induction rule: pending_ok.induct) (auto simp: funding_state_def release_exit_def)

lemma provider_pending_event:
  assumes "pending_ok d ((e, a) # ks)"
  shows "result_ok funds_of (\<lambda>d. \<not> funding_state (State d)) (sum_by amount) pending_ok
    (funds_of d + sum_by amount ((e, a) # ks)) ks (fsm_plan provider_fsm e a d)"
  using assms
proof (cases rule: pending_ok.cases)
  case (reserved x amt)
  then show ?thesis
    by (auto simp: plan_FundsReserved result_ok_def funds_of_def funding_state_def
        intro: pending_ok.reserve_done)
next
  case (released x f)
  then have "pending_ok (d\<lparr>FundsReserved := Some 0\<rparr>) ks"
    by (auto intro!: pending_ok.release_done simp: release_exit_def funds_of_def)
  with released show ?thesis
    by (auto simp: plan_FundsReleased result_ok_def release_exit_def funds_of_def funding_state_def)
qed (auto simp: plan_funds_events result_ok_def funding_state_def reserve_exit_def
    funding_answer_def release_exit_def funds_of_def)


subsection \<open>The laws of the protocol hold\<close>

definition provider_busy :: "MinerDeal \<Rightarrow> bool" where
  "provider_busy d \<longleftrightarrow> funding_state (State d)"

interpretation provider_funds: funds_protocol "funds_machine fsm_plan" funds_event ledger_entry
  amount funds_of provider_deal_ok provider_busy "\<lambda>d. \<not> funding_state (State d)" provider_waits
  funding_answer pending_ok
proof unfold_locales
  fix d :: MinerDeal and e env a
  assume e: "\<not> funds_event e"
  show "Plan (funds_machine fsm_plan) env e a d = Rejected \<or>
      (\<exists>d'. Plan (funds_machine fsm_plan) env e a d = Recorded d' \<and> funds_of d' = funds_of d \<and>
         (\<not> funding_state (State d')) = (\<not> funding_state (State d)) \<and>
         provider_waits d' = provider_waits d \<and> (\<forall>xs. pending_ok d xs \<longrightarrow> pending_ok d' xs)) \<or>
      (\<exists>d'. Plan (funds_machine fsm_plan) env e a d = Entered d' \<and> funds_of d' = funds_of d \<and>
         (\<not> funding_state (State d') \<longrightarrow> \<not> funding_state (State d)) \<and> \<not> provider_busy d)"
    using harmless_plan [OF e, of a d]
  proof (elim disjE exE conjE)
    fix d' assume "fsm_plan provider_fsm e a d = Recorded d'"
      and "State d' = State d" and "FundsReserved d' = FundsReserved d"
    then show ?thesis
      by (intro disjI2 disjI1 exI [of _ d'])
        (auto simp: provider_machine_def funds_of_def provider_waits_def elim: pending_ok_cong)
  next
    fix d' assume "fsm_plan provider_fsm e a d = Entered d'"
      and "FundsReserved d' = FundsReserved d" and "\<not> funding_state (State d)"
    then show ?thesis
      by (intro disjI2 exI [of _ d'])
        (simp add: provider_machine_def funds_of_def provider_busy_def)
  qed (simp add: provider_machine_def)
next
  fix d :: MinerDeal and env
  show "Plan (funds_machine fsm_plan) env (RestartEvent (funds_machine fsm_plan)) [] d = Rejected \<or>
      (\<exists>d'. Plan (funds_machine fsm_plan) env (RestartEvent (funds_machine fsm_plan)) [] d = Entered d' \<and>
         funds_of d' = funds_of d \<and> (\<not> funding_state (State d') \<longrightarrow> \<not> funding_state (State d)))"
    using plan_Restart [of d] by (auto simp: provider_machine_def funds_of_def)
next
  fix d :: MinerDeal and env e a d'
  assume "provider_deal_ok d" and "Plan (funds_machine fsm_plan) env e a d = Recorded d' \<or>
    Plan (funds_machine fsm_plan) env e a d = Entered d'"
  then show "provider_deal_ok d'"
    using provider_plan_ok [of d e a d'] by (simp add: provider_machine_def)
next
  fix d :: MinerDeal and env
  assume "provider_deal_ok d"
  then show "handler_ok ledger_entry funds_event amount funding_answer (provider_waits d) (pending_ok d)
      (Handler (funds_machine fsm_plan) env d)"
    using handlers_ok [of d env] by (simp add: provider_handler_ok_def provider_machine_def)
next
  fix d :: MinerDeal and xs
  assume "pending_ok d xs" and "\<not> provider_busy d"
  then show "xs = []" by (simp add: provider_busy_def pending_ok_settled)
next
  fix d :: MinerDeal and e a ks env
  assume "pending_ok d ((e, a) # ks)"
  then show "result_ok funds_of (\<lambda>d. \<not> funding_state (State d)) (sum_by amount) pending_ok
      (funds_of d + sum_by amount ((e, a) # ks)) ks (Plan (funds_machine fsm_plan) env e a d)"
    using provider_pending_event [of d e a ks] by (simp add: provider_machine_def)
qed (auto simp: provider_machine_def provider_waits_def provider_busy_def funding_state_def
    funding_answer_def intro: pending_ok.nothing pending_ok.funding)

end
