(* ===== verification/Storage_Provider_Correct.thy ===== *)
theory Storage_Provider_Correct
  imports Storage_Provider_Ledger
begin

section \<open>Storage provider: properties\<close>

text \<open>
  The theorems on the provider's deal machine, over every engine that satisfies the laws of
  \<open>fsm_engine\<close>, with a concrete run (a manual deal from proposal to expiry) for their witnesses.
\<close>

subsection \<open>A sample deal\<close>

definition sample_env :: provider_env where
  "sample_env = \<lparr>lib = sample_lib, GetChainHead = Inr (''tok'', 5), DumpProposal = (\<lambda>_. Inr ''bytes''),
    VerifySignatureFn = (\<lambda>_ _ _ _. Inr True), EnvAddress = ''f01'',
    EnvAsk = \<lparr>Price = 1, VerifiedPrice = 1, AskMinPieceSize = 1, AskMaxPieceSize = 1000, AskMiner = ''f01'',
      Timestamp = 0, Expiry = 100, SeqNo = 0\<rparr>,
    DealProviderCollateralBounds = (\<lambda>_ _. Inr (0, 100)), GetBalance = (\<lambda>_ _. Inr \<lparr>Locked = 0, Available = 100\<rparr>),
    GetDataCap = (\<lambda>_ _. Inr None), RunCustomDecisionLogic = (\<lambda>_. Inr (True, [])),
    SendSignedResponse = (\<lambda>_ _ _. None), FinalizeBlockstore = (\<lambda>_. None),
    GeneratePieceCommitment = (\<lambda>_ _ _. Inr (''piece'', [])), GetMinerWorkerAddress = (\<lambda>_ _. Inr ''f02''),
    ReserveFunds = (\<lambda>_ _ _. Inr ''m''), WaitForMessage = (\<lambda>_. Some (Inr (0, [], ''m''))),
    PublishDeals = (\<lambda>_. Inr ''pub''), WaitForPublishDeals = (\<lambda>_ _. Inr \<lparr>ResDealID = 7, ResFinalCid = ''pub''\<rparr>),
    FileStoreOpen = (\<lambda>_. Inr (''path'', 64)), ReadCAR = (\<lambda>_. Inr 64), DataReader = (\<lambda>_. None), CloseCAR = (\<lambda>_. None),
    NewInflatorReader = (\<lambda>_ _. None), OnDealComplete = (\<lambda>_ _. Inr \<lparr>PackSectorNumber = 3, PackOffset = 0, PackSize = 128\<rparr>),
    LoadBlockLocations = (\<lambda>_. Inr []), AddPieceBlockLocationsEnv = (\<lambda>_ _. None), AddDealForPieceEnv = (\<lambda>_ _ _. None),
    OnDealSectorPreCommitted = (\<lambda>_ _ _. ([Inr (3, False)], None)), OnDealSectorCommitted = (\<lambda>_ _ _ _. ([None], None)),
    OnDealExpiredOrSlashed = (\<lambda>_. ([None], [], None))\<rparr>"

definition sample_proposal :: DealProposal where
  "sample_proposal = \<lparr>PieceCID = ''piece'', PieceSize = 128, VerifiedDeal = False, ProposalClient = ''f03'',
    Provider = ''f01'', Label = ''x'', StartEpoch = 10, EndEpoch = 200, StoragePricePerEpoch = 10,
    ProviderCollateral = 42, ClientCollateral = 0\<rparr>"

definition sample_deal :: MinerDeal where
  "sample_deal = (empty_MinerDeal sample_proposal ''sig'')\<lparr>ProposalCid := ''prop'',
     Ref := Some \<lparr>TransferType = TTManual, Root = ''root'', PieceCid = None, RefPieceSize = 0, RawBlockSize = 0\<rparr>\<rparr>"


definition sample_open :: provider_cfg where
  "sample_open = start_cfg sample_deal [(ProviderEventOpen, [])]"

definition sample_waiting :: provider_cfg where
  "sample_waiting = sched_n 20 (funds_machine fsm_plan) sample_env sample_open"

definition sample_imported :: provider_cfg where
  "sample_imported = sample_waiting\<lparr>queue := queue sample_waiting @
     [(ProviderEventVerifiedData, [APath ''p'', APath []])]\<rparr>"

definition sample_funded :: provider_cfg where
  "sample_funded = sched_n 9 (funds_machine fsm_plan) sample_env sample_imported"

definition sample_expired :: provider_cfg where
  "sample_expired = sched_n 60 (funds_machine fsm_plan) sample_env sample_imported"

lemma sample_imported_reach: "machine_reach (funds_machine fsm_plan) sample_open sample_imported"
  unfolding sample_imported_def
proof (rule external_reach)
  show "machine_reach (funds_machine fsm_plan) sample_open sample_waiting"
    unfolding sample_waiting_def by (rule sched_n_start) (simp add: provider_machine_def)
  show "\<not> crashed sample_waiting" by code_simp
  show "External (funds_machine fsm_plan) ProviderEventVerifiedData [APath ''p'', APath []]"
    by (simp add: provider_machine_def)
qed

lemma sample_funded_reach: "machine_reach (funds_machine fsm_plan)
    (start_cfg sample_deal [(ProviderEventOpen, [])]) sample_funded"
  using sched_n_reach [OF sample_imported_reach, of sample_env]
  unfolding sample_funded_def sample_open_def by (simp add: provider_machine_def)

lemma sample_expired_reach: "machine_reach (funds_machine fsm_plan)
    (start_cfg sample_deal [(ProviderEventOpen, [])]) sample_expired"
  using sched_n_reach [OF sample_imported_reach, of sample_env]
  unfolding sample_expired_def sample_open_def by (simp add: provider_machine_def)

lemma sample_deal_start:
  "State sample_deal = StorageDealUnknown" "FundsReserved sample_deal = None" "Ref sample_deal \<noteq> None"
  by (simp_all add: sample_deal_def empty_MinerDeal_def)

subsection \<open>Engines\<close>

lemma new_deal_ok:
  assumes "State d = StorageDealUnknown" "FundsReserved d = None" "Ref d \<noteq> None"
  shows "provider_deal_ok d" "funds_of d = 0"
  using assms by (simp_all add: provider_deal_ok_def funds_of_def)

subsection \<open>Funds\<close>





subsection \<open>Nil safety\<close>

text \<open>C3. No state entry handler of the provider dereferences a nil pointer: in every run of a deal
  that starts with a data reference, whatever events are sent from outside with whatever
  arguments, and even when the process is restarted in the middle of a handler, the steps of the
  running handler and of all callbacks are free of nil dereferences.\<close>

theorem provider_handlers_nil_safe:
  assumes "fsm_engine plan"
    and "machine_reach (provider_machine plan external may_restart) (start_cfg d q) c"
    and "State d = StorageDealUnknown" and "Ref d \<noteq> None"
  shows "cfg_nil_free c"
proof -
  from assms(2) have "machine_reach (provider_machine fsm_plan external may_restart) (start_cfg d q) c"
    by (simp only: engine_is_fsm_plan [OF assms(1)])
  moreover from assms(3,4) have "provider_deal_ok d" by (simp add: provider_deal_ok_def)
  ultimately show ?thesis by (rule provider_nil.reach_deal(2))
qed

theorem provider_handlers_nil_safe_witness:
  "State (cfg_deal sample_funded) = StorageDealProviderFunding \<and> cfg_nil_free sample_funded"
proof -
  have "State (cfg_deal sample_funded) = StorageDealProviderFunding" by code_simp
  with provider_handlers_nil_safe [OF fsm_ref.fsm_engine_axioms sample_funded_reach
      sample_deal_start(1,3)]
  show ?thesis by simp
qed

subsection \<open>Acceptance of a proposal\<close>

lemma check_verified_None: "check_verified env p tok = None \<longleftrightarrow>
    (VerifiedDeal p \<longrightarrow> (\<exists>dc. GetDataCap env (ProposalClient p) tok = Inr (Some dc) \<and>
       uint (PieceSize p) \<le> dc))"
  by (auto simp: check_verified_def split: on_err_split option.split)

lemma check_funds_None: "check_funds env p tok = None \<longleftrightarrow>
    (\<exists>bal. GetBalance env (ProposalClient p) tok = Inr bal \<and>
       ClientBalanceRequirement (lib env) p \<le> Available bal \<and> check_verified env p tok = None)"
  by (auto simp: check_funds_def split: on_err_split)

lemma check_ask_None: "check_ask env p tok = None \<longleftrightarrow>
    minPrice env p \<le> StoragePricePerEpoch p \<and> AskMinPieceSize (EnvAsk env) \<le> PieceSize p \<and>
    PieceSize p \<le> AskMaxPieceSize (EnvAsk env) \<and> check_funds env p tok = None"
  by (auto simp: check_ask_def)

lemma check_collateral_None: "check_collateral env p tok = None \<longleftrightarrow>
    (\<exists>pcMin pcMax. DealProviderCollateralBounds env (PieceSize p) (VerifiedDeal p) = Inr (pcMin, pcMax) \<and>
       pcMin \<le> ProviderCollateral p \<and> ProviderCollateral p \<le> pcMax \<and> check_ask env p tok = None)"
  by (auto simp: check_collateral_def split: on_err_split)

lemma check_epochs_None: "check_epochs env p tok cur = None \<longleftrightarrow>
    StartEpoch p < EndEpoch p \<and> cur \<le> StartEpoch p \<and>
    fst (DealDurationBounds (lib env) (PieceSize p)) \<le> Duration (lib env) p \<and>
    Duration (lib env) p \<le> snd (DealDurationBounds (lib env) (PieceSize p)) \<and>
    EndEpoch p \<le> i64 (cur + MaxSectorExpirationExtension (lib env)) \<and>
    check_collateral env p tok = None"
  by (auto simp: check_epochs_def Let_def split: prod.split)

lemma check_proposal_None: "check_proposal env p tok cur = None \<longleftrightarrow>
    Provider p = EnvAddress env \<and> Label_Length (lib env) (Label p) \<le> DealMaxLabelSize \<and>
    PieceSize_Validate (lib env) (PieceSize p) = None \<and> PieceCID p \<noteq> cid_Undef \<and>
    HasPieceCIDPrefix (lib env) (PieceCID p) \<and> check_epochs env p tok cur = None"
  by (auto simp: check_proposal_def split: option.split)

lemma rejection_None: "rejection env deal = None \<longleftrightarrow>
    (\<exists>tok cur. GetChainHead env = Inr (tok, cur) \<and> VerifyProposal env deal tok = None \<and>
       check_proposal env (Proposal deal) tok cur = None)"
  by (auto simp: rejection_def split: on_err_split option.split)

lemmas validation_checks = rejection_None check_proposal_None check_epochs_None
  check_collateral_None check_ask_None check_funds_None check_verified_None

lemma rejection_None_iff: "rejection env deal = None \<longleftrightarrow>
       (\<exists>tok cur pcMin pcMax bal. let p = Proposal deal in
          GetChainHead env = Inr (tok, cur) \<and> VerifyProposal env deal tok = None \<and>
          Provider p = EnvAddress env \<and> Label_Length (lib env) (Label p) \<le> 256 \<and>
          PieceSize_Validate (lib env) (PieceSize p) = None \<and> PieceCID p \<noteq> cid_Undef \<and>
          HasPieceCIDPrefix (lib env) (PieceCID p) \<and>
          StartEpoch p < EndEpoch p \<and> cur \<le> StartEpoch p \<and>
          fst (DealDurationBounds (lib env) (PieceSize p)) \<le> Duration (lib env) p \<and>
          Duration (lib env) p \<le> snd (DealDurationBounds (lib env) (PieceSize p)) \<and>
          EndEpoch p \<le> i64 (cur + MaxSectorExpirationExtension (lib env)) \<and>
          DealProviderCollateralBounds env (PieceSize p) (VerifiedDeal p) = Inr (pcMin, pcMax) \<and>
          pcMin \<le> ProviderCollateral p \<and> ProviderCollateral p \<le> pcMax \<and>
          minPrice env p \<le> StoragePricePerEpoch p \<and>
          AskMinPieceSize (EnvAsk env) \<le> PieceSize p \<and> PieceSize p \<le> AskMaxPieceSize (EnvAsk env) \<and>
          GetBalance env (ProposalClient p) tok = Inr bal \<and>
          ClientBalanceRequirement (lib env) p \<le> Available bal \<and>
          (VerifiedDeal p \<longrightarrow> (\<exists>dc. GetDataCap env (ProposalClient p) tok = Inr (Some dc) \<and>
             uint (PieceSize p) \<le> dc)))"
  by (auto simp: validation_checks Let_def DealMaxLabelSize_def)

text \<open>C4. \<open>ValidateDealProposal\<close> sends exactly one event, and lets the deal pass to the decision
  exactly when all its checks hold: the client's signature verifies, the deal names this provider,
  label, piece size and piece CID are well formed, the epochs lie in order and within the bounds of
  duration and sector lifetime, the collateral is within the node's bounds, price and size match
  the ask, the client's balance covers the deal, and a verified deal has the data cap.\<close>

theorem ValidateDealProposal_accepts_iff:
  "\<exists>ev. strigs (ValidateDealProposal env deal) = [ev] \<and>
     (ev \<noteq> (ProviderEventDealDeciding, []) \<longleftrightarrow> (\<exists>err. ev = (ProviderEventDealRejected, [AErr err]))) \<and>
     (ev = (ProviderEventDealDeciding, []) \<longleftrightarrow>
       (\<exists>tok cur pcMin pcMax bal. let p = Proposal deal in
          GetChainHead env = Inr (tok, cur) \<and> VerifyProposal env deal tok = None \<and>
          Provider p = EnvAddress env \<and> Label_Length (lib env) (Label p) \<le> 256 \<and>
          PieceSize_Validate (lib env) (PieceSize p) = None \<and> PieceCID p \<noteq> cid_Undef \<and>
          HasPieceCIDPrefix (lib env) (PieceCID p) \<and>
          StartEpoch p < EndEpoch p \<and> cur \<le> StartEpoch p \<and>
          fst (DealDurationBounds (lib env) (PieceSize p)) \<le> Duration (lib env) p \<and>
          Duration (lib env) p \<le> snd (DealDurationBounds (lib env) (PieceSize p)) \<and>
          EndEpoch p \<le> i64 (cur + MaxSectorExpirationExtension (lib env)) \<and>
          DealProviderCollateralBounds env (PieceSize p) (VerifiedDeal p) = Inr (pcMin, pcMax) \<and>
          pcMin \<le> ProviderCollateral p \<and> ProviderCollateral p \<le> pcMax \<and>
          minPrice env p \<le> StoragePricePerEpoch p \<and>
          AskMinPieceSize (EnvAsk env) \<le> PieceSize p \<and> PieceSize p \<le> AskMaxPieceSize (EnvAsk env) \<and>
          GetBalance env (ProposalClient p) tok = Inr bal \<and>
          ClientBalanceRequirement (lib env) p \<le> Available bal \<and>
          (VerifiedDeal p \<longrightarrow> (\<exists>dc. GetDataCap env (ProposalClient p) tok = Inr (Some dc) \<and>
             uint (PieceSize p) \<le> dc))))"
proof (cases "rejection env deal")
  case None
  then show ?thesis unfolding rejection_None_iff [symmetric] by (simp add: ValidateDealProposal_def)
next
  case (Some err)
  then show ?thesis unfolding rejection_None_iff [symmetric] by (simp add: ValidateDealProposal_def)
qed

theorem ValidateDealProposal_accepts_iff_witness:
  "strigs (ValidateDealProposal sample_env sample_deal) = [(ProviderEventDealDeciding, [])]"
proof -
  have "rejection sample_env sample_deal = None" by code_simp
  then show ?thesis
    using ValidateDealProposal_accepts_iff [of sample_env sample_deal]
    by (auto simp: ValidateDealProposal_def)
qed

end
