(* ===== verification/Storage_Client_Fsm.thy ===== *)
theory Storage_Client_Fsm
  imports Storage_Types Fsm_Machine
begin

section \<open>Storage client: deal record and event table\<close>

text \<open>
  \<open>ClientDeal\<close> (\<open>storagemarket/types.go\<close>) with \<open>AddLog\<close>, and the event table of
  \<open>storagemarket/impl/clientstates/client_fsm.go\<close> in the order of the source. Every action logs to
  the deal's timeline; the clock it reads is the parameter \<open>now\<close> of the table.
\<close>

record ClientDeal =
  Proposal :: DealProposal
  ClientSignature :: string
  ProposalCid :: cid
  AddFundsCid :: "cid option"
  State :: StorageDealStatus
  Miner :: peer_id
  MinerWorker :: address
  DealID :: uint64
  DataRefOf :: "DataRef option"
  Message :: string
  DealStagesOf :: "DealStages option"
  PublishMessage :: "cid option"
  SlashEpoch :: chain_epoch
  PollRetryCount :: uint64
  PollErrorCount :: uint64
  FastRetrieval :: bool
  FundsReserved :: "token_amount option"
  CreationTime :: int
  TransferChannelID :: "channel_id option"
  SectorNumber :: uint64

text \<open>The message comes formatted: the callers below put the arguments in.\<close>

definition AddLog :: "int \<Rightarrow> string \<Rightarrow> ClientDeal \<Rightarrow> ClientDeal" where
  "AddLog now msg d = d\<lparr>DealStagesOf := AddStageLog now (go_lookup DealStates (State d))
     (go_lookup DealStatesDescriptions (State d)) (go_lookup DealStatesDurations (State d)) msg
     (DealStagesOf d)\<rparr>"

type_synonym client_event = "(ClientEvent, StorageDealStatus, ClientDeal) fsm_event"

subsection \<open>Events\<close>

text \<open>The action most failures share: the message is set and logged.\<close>

definition fail_message :: "int \<Rightarrow> string \<Rightarrow> ClientDeal \<Rightarrow> ClientDeal" where
  "fail_message now msg d = AddLog now msg (d\<lparr>Message := msg\<rparr>)"

definition note_error :: "int \<Rightarrow> string \<Rightarrow> (StorageDealStatus, ClientDeal) action" where
  "note_error now prefix = act p_err (\<lambda>err. fail_message now (prefix @ Error err))"

definition no_action :: "(StorageDealStatus, ClientDeal) action" where
  "no_action = act p_none (\<lambda>_ deal. deal)"

definition wait_log :: "StorageDealStatus \<Rightarrow> string \<Rightarrow> string" where
  "wait_log providerState msg =
     (let name = go_lookup DealStates providerState in
      if name = ''StorageDealVerifyData'' then ''provider is verifying the data''
      else if name = ''StorageDealPublish'' then ''waiting for provider to publish the deal on-chain''
      else if name = ''StorageDealPublishing''
        then ''provider has submitted the deal on-chain and is waiting for confirmation''
      else if name = ''StorageDealProviderFunding''
        then ''waiting for provider to lock collateral on-chain''
      else msg)"

definition ClientEvents_1 :: "int \<Rightarrow> client_event list" where
  "ClientEvents_1 now = [
    Event ClientEventOpen
      [From StorageDealUnknown (To StorageDealReserveClientFunds)] no_action,
    Event ClientEventFundingInitiated
      [From StorageDealReserveClientFunds (To StorageDealClientFunding)]
      (act p_cid (\<lambda>mcid deal. AddLog now
         (''reserving funds for storage deal, message cid: <'' @ mcid @ ''>'')
         (deal\<lparr>AddFundsCid := Some mcid\<rparr>))),
    Event ClientEventReserveFundsFailed
      [FromMany [StorageDealClientFunding, StorageDealReserveClientFunds] (To StorageDealFailing)]
      (note_error now ''adding market funds failed: ''),
    Event ClientEventFundsReserved
      [From StorageDealReserveClientFunds ToJustRecord]
      (act p_token (\<lambda>fundsReserved deal. AddLog now
         (''funds reserved, amount <'' @ show_int fundsReserved @ ''>'')
         (case FundsReserved deal of
            None \<Rightarrow> deal\<lparr>FundsReserved := Some fundsReserved\<rparr>
          | Some old \<Rightarrow> deal\<lparr>FundsReserved := Some (old + fundsReserved)\<rparr>))),
    Event ClientEventFundsReleased
      [FromMany [StorageDealProposalAccepted, StorageDealFailing] ToJustRecord]
      (actM p_token (\<lambda>fundsReleased deal. case FundsReserved deal of
         None \<Rightarrow> Panicked
       | Some old \<Rightarrow> Done (AddLog now (''funds released, amount <'' @ show_int fundsReleased @ ''>'')
           (deal\<lparr>FundsReserved := Some (old - fundsReleased)\<rparr>)))),
    Event ClientEventFundingComplete
      [FromMany [StorageDealReserveClientFunds, StorageDealClientFunding]
         (To StorageDealFundsReserved)] no_action,
    Event ClientEventWriteProposalFailed
      [From StorageDealFundsReserved (To StorageDealError)]
      (note_error now ''sending proposal to storage provider failed: ''),
    Event ClientEventReadResponseFailed
      [From StorageDealFundsReserved (To StorageDealFailing)]
      (note_error now ''error reading Response message from provider: ''),
    Event ClientEventResponseVerificationFailed
      [From StorageDealFundsReserved (To StorageDealFailing)]
      (act p_none (\<lambda>_. fail_message now ''unable to verify signature on deal response'')),
    Event ClientEventInitiateDataTransfer
      [From StorageDealFundsReserved (To StorageDealStartDataTransfer)]
      (act p_none (\<lambda>_. AddLog now ''opening data transfer to storage provider'')),
    Event ClientEventUnexpectedDealState
      [From StorageDealFundsReserved (To StorageDealFailing)]
      (act p_status_string (\<lambda>(status, providerMessage). fail_message now
         (''unexpected deal status while waiting for data request: '' @
          show_nat (StorageDealStatus_code status) @ '' ('' @ go_lookup DealStates status @
          ''). Provider message: '' @ providerMessage))),
    Event ClientEventDataTransferFailed
      [FromMany [StorageDealStartDataTransfer, StorageDealTransferring, StorageDealTransferQueued]
         (To StorageDealFailing)]
      (note_error now ''failed to complete data transfer: ''),
    Event ClientEventDataTransferRestartFailed
      [From StorageDealClientTransferRestart (To StorageDealFailing)]
      (note_error now ''failed to restart data transfer: ''),
    Event ClientEventDataTransferQueued
      [FromMany [StorageDealStartDataTransfer] (To StorageDealTransferQueued)]
      (act p_channel (\<lambda>channelId. AddLog now
         (''provider data transfer request added to client'' @ [CHR 0x27] @
          ''s queue: channel id <'' @ channelId @ ''>''))),
    Event ClientEventDataTransferInitiated
      [FromMany [StorageDealTransferQueued] (To StorageDealTransferring)]
      (act p_channel (\<lambda>channelId deal. AddLog now
         (''data transfer initiated on channel id <'' @ channelId @ ''>'')
         (deal\<lparr>TransferChannelID := Some channelId\<rparr>))),
    Event ClientEventDataTransferRestarted
      [FromMany [StorageDealClientTransferRestart, StorageDealStartDataTransfer,
         StorageDealTransferQueued] (To StorageDealTransferring),
       From StorageDealTransferring ToJustRecord]
      (act p_channel (\<lambda>channelId deal. AddLog now
         (''data transfer restarted on channel id <'' @ channelId @ ''>'')
         (deal\<lparr>TransferChannelID := Some channelId, Message := []\<rparr>)))]"

definition ClientEvents_2 :: "int \<Rightarrow> client_event list" where
  "ClientEvents_2 now = [
    Event ClientEventDataTransferStalled
      [FromMany [StorageDealTransferring, StorageDealTransferQueued] (To StorageDealFailing)]
      (act p_err (\<lambda>err deal. fail_message now
         (''could not complete data transfer, could not connect to provider '' @ Miner deal) deal)),
    Event ClientEventDataTransferCancelled
      [FromMany [StorageDealStartDataTransfer, StorageDealTransferring,
         StorageDealClientTransferRestart, StorageDealTransferQueued] (To StorageDealFailing)]
      (act p_none (\<lambda>_. fail_message now ''data transfer cancelled'')),
    Event ClientEventDataTransferComplete
      [FromMany [StorageDealTransferring, StorageDealStartDataTransfer, StorageDealTransferQueued]
         (To StorageDealCheckForAcceptance)] no_action,
    Event ClientEventWaitForDealState
      [From StorageDealCheckForAcceptance ToNoChange]
      (act p_bool_status (\<lambda>(pollError, providerState) deal.
         let msg = ''Provider state: '' @ go_lookup DealStates providerState;
             deal1 = deal\<lparr>PollRetryCount := PollRetryCount deal + 1\<rparr>;
             deal2 = (if pollError then deal1\<lparr>PollErrorCount := PollErrorCount deal1 + 1\<rparr> else deal1)
         in AddLog now (wait_log providerState msg) (deal2\<lparr>Message := msg\<rparr>))),
    Event ClientEventResponseDealDidNotMatch
      [From StorageDealCheckForAcceptance (To StorageDealFailing)]
      (act p_cid_cid (\<lambda>(responseCid, proposalCid). fail_message now
         (''miner responded to a wrong proposal: '' @ responseCid @ '' != '' @ proposalCid))),
    Event ClientEventDealRejected
      [From StorageDealCheckForAcceptance (To StorageDealFailing)]
      (act p_status_string (\<lambda>(state, reason). fail_message now
         (''deal failed: (State='' @ show_nat (StorageDealStatus_code state) @ '') '' @ reason))),
    Event ClientEventDealAccepted
      [From StorageDealCheckForAcceptance (To StorageDealProposalAccepted)]
      (act p_cidptr (\<lambda>publishMessage deal. AddLog now ''deal has been accepted by storage provider''
         (deal\<lparr>PublishMessage := publishMessage, Message := []\<rparr>))),
    Event ClientEventStreamCloseError
      [FromAny (To StorageDealError)]
      (note_error now ''error attempting to close stream: ''),
    Event ClientEventDealPublishFailed
      [From StorageDealProposalAccepted (To StorageDealError)]
      (note_error now ''error validating deal published: ''),
    Event ClientEventDealPublished
      [From StorageDealProposalAccepted (To StorageDealAwaitingPreCommit)]
      (act p_dealid (\<lambda>dealID deal. AddLog now [] (deal\<lparr>DealID := dealID\<rparr>))),
    Event ClientEventDealPrecommitFailed
      [From StorageDealAwaitingPreCommit (To StorageDealError)]
      (note_error now ''error waiting for deal pre-commit message to appear on chain: ''),
    Event ClientEventDealPrecommitted
      [From StorageDealAwaitingPreCommit (To StorageDealSealing)]
      (act p_sector (\<lambda>sectorNumber deal. AddLog now ''deal pre-commit message has landed on chain''
         (deal\<lparr>SectorNumber := sectorNumber\<rparr>))),
    Event ClientEventDealActivationFailed
      [From StorageDealSealing (To StorageDealError)]
      (note_error now ''error in deal activation: ''),
    Event ClientEventDealActivated
      [FromMany [StorageDealAwaitingPreCommit, StorageDealSealing] (To StorageDealActive)]
      (act p_none (\<lambda>_. AddLog now ''deal activated'')),
    Event ClientEventDealSlashed
      [From StorageDealActive (To StorageDealSlashed)]
      (act p_epoch (\<lambda>slashEpoch deal. AddLog now
         (''deal slashed at epoch <'' @ show_int slashEpoch @ ''>'') (deal\<lparr>SlashEpoch := slashEpoch\<rparr>))),
    Event ClientEventDealExpired
      [From StorageDealActive (To StorageDealExpired)] no_action,
    Event ClientEventDealCompletionFailed
      [From StorageDealActive (To StorageDealError)]
      (note_error now ''error waiting for deal completion: ''),
    Event ClientEventFailed
      [From StorageDealFailing (To StorageDealError)]
      (act p_none (\<lambda>_. AddLog now [])),
    Event ClientEventRestart
      [From StorageDealTransferring (To StorageDealClientTransferRestart),
       FromAny ToNoChange] no_action]"

definition ClientEvents :: "int \<Rightarrow> client_event list" where
  "ClientEvents now = ClientEvents_1 now @ ClientEvents_2 now"

definition ClientFinalityStates :: "StorageDealStatus list" where
  "ClientFinalityStates = [StorageDealSlashed, StorageDealExpired, StorageDealError]"

definition client_fsm :: "int \<Rightarrow> (ClientEvent, StorageDealStatus, ClientDeal) fsm_params" where
  "client_fsm now = \<lparr>StateOf = State, SetState = (\<lambda>s deal. deal\<lparr>State := s\<rparr>),
     Events = ClientEvents now, FinalityStates = ClientFinalityStates\<rparr>"

lemmas client_table_defs = ClientEvents_def ClientEvents_1_def ClientEvents_2_def
  ClientFinalityStates_def client_fsm_def

subsection \<open>Facts about the table\<close>

lemma client_table_wf: "table_wf (ClientEvents now)"
  by (simp add: table_wf_def is_FromAny_def client_table_defs)

lemma client_events_listed: "find_event (ClientEvents now) e \<noteq> None"
  by (cases e) (simp_all add: client_table_defs)

lemma AddLog_fields [simp]:
  "State (AddLog now msg d) = State d" "FundsReserved (AddLog now msg d) = FundsReserved d"
  "AddFundsCid (AddLog now msg d) = AddFundsCid d" "DataRefOf (AddLog now msg d) = DataRefOf d"
  "Message (AddLog now msg d) = Message d" "Proposal (AddLog now msg d) = Proposal d"
  "TransferChannelID (AddLog now msg d) = TransferChannelID d"
  by (simp_all add: AddLog_def)

lemma fail_message_fields [simp]:
  "State (fail_message now msg d) = State d" "FundsReserved (fail_message now msg d) = FundsReserved d"
  "AddFundsCid (fail_message now msg d) = AddFundsCid d"
  "DataRefOf (fail_message now msg d) = DataRefOf d" "Message (fail_message now msg d) = msg"
  by (simp_all add: fail_message_def)

end
