(* ===== verification/Storage_Client_States.thy ===== *)
theory Storage_Client_States
  imports Storage_Client_Fsm Funds_Protocol
begin

section \<open>Storage client: state entry handlers\<close>

text \<open>
  The handlers of \<open>storagemarket/impl/clientstates/client_states.go\<close>. The environment
  \<open>ClientDealEnvironment\<close>, the deal stream and the node are the record \<open>client_env\<close>; its field
  \<open>EnvNow\<close> is the clock that the actions' logs read.
\<close>

record Response =
  RespState :: StorageDealStatus
  RespMessage :: string
  RespProposal :: cid
  RespPublishMessage :: "cid option"

record SignedResponse =
  ResponseOf :: Response
  RespSignature :: "string option"

record ProviderDealState =
  PDState :: StorageDealStatus
  PDMessage :: string
  PDProposal :: "DealProposal option"
  PDProposalCid :: "cid option"
  PDAddFundsCid :: "cid option"
  PDPublishCid :: "cid option"
  PDDealID :: uint64
  PDFastRetrieval :: bool

record client_env =
  EnvNow :: int
  lib :: market_lib
  ReserveFunds :: "address \<Rightarrow> address \<Rightarrow> token_amount \<Rightarrow> go_error + cid"
  WaitForMessage :: "cid \<Rightarrow> (go_error + nat \<times> string \<times> cid) option"
  NewDealStream :: "peer_id \<Rightarrow> go_error option"
  WriteDealProposal :: "DealProposal \<Rightarrow> string \<Rightarrow> DataRef option \<Rightarrow> bool \<Rightarrow> go_error option"
  ReadDealResponse :: "go_error + SignedResponse \<times> string"
  GetChainHead :: "go_error + tipset_token \<times> chain_epoch"
  VerifySignatureFn :: "string \<Rightarrow> address \<Rightarrow> string \<Rightarrow> tipset_token \<Rightarrow> go_error + bool"
  RestartDataTransferEnv :: "channel_id \<Rightarrow> go_error option"
  StartDataTransfer :: "peer_id \<Rightarrow> cid \<Rightarrow> cid \<Rightarrow> go_error option"
  GetProviderDealState :: "cid \<Rightarrow> go_error + ProviderDealState"
  ValidatePublishedDeal :: "ClientDeal \<Rightarrow> go_error + uint64"
  OnDealSectorPreCommitted ::
    "address \<Rightarrow> uint64 \<Rightarrow> cid option \<Rightarrow> (go_error + uint64 \<times> bool) list \<times> go_error option"
  OnDealSectorCommitted ::
    "address \<Rightarrow> uint64 \<Rightarrow> uint64 \<Rightarrow> cid option \<Rightarrow> go_error option list \<times> go_error option"
  OnDealExpiredOrSlashed ::
    "uint64 \<Rightarrow> go_error option list \<times> (go_error + chain_epoch) list \<times> go_error option"

datatype client_call =
    CReserveFunds address address token_amount
  | CReleaseFunds address token_amount
  | CTagPeer peer_id string
  | CUntagPeer peer_id string
  | CWriteDealProposal DealProposal string "DataRef option" bool
  | CCloseStream
  | CStartDataTransfer peer_id cid cid
  | CRestartDataTransfer channel_id
  | CCleanBlockstore cid

type_synonym client_step = "(client_call, ClientEvent, StorageDealStatus) hstep"

subsection \<open>Funding and proposing\<close>

definition ReserveClientFunds :: "client_env \<Rightarrow> ClientDeal \<Rightarrow> client_step list" where
  "ReserveClientFunds env deal =
     (let client = ProposalClient (Proposal deal);
          amount = ClientBalanceRequirement (lib env) (Proposal deal)
      in on_err (ReserveFunds env client client amount)
           (\<lambda>err. [Trig ClientEventReserveFundsFailed [AErr err]])
           (\<lambda>mcid. [
              Call (CReserveFunds client client amount),
              Trig ClientEventFundsReserved [AToken amount],
              if mcid = cid_Undef then Trig ClientEventFundingComplete []
              else Trig ClientEventFundingInitiated [ACid mcid]]))"

definition WaitForFunding :: "client_env \<Rightarrow> ClientDeal \<Rightarrow> client_step list" where
  "WaitForFunding env deal = (case AddFundsCid deal of
     None \<Rightarrow> [NilDeref]
   | Some mcid \<Rightarrow> (case WaitForMessage env mcid of
       None \<Rightarrow> []
     | Some res \<Rightarrow> [Async [on_err res
         (\<lambda>err. Trig ClientEventReserveFundsFailed [AErr (Wrap ''AddFunds err: '' err)])
         (\<lambda>(code, text, finalCid). if code \<noteq> 0
            then Trig ClientEventReserveFundsFailed [AErr (New (''AddFunds exit code: '' @ text))]
            else Trig ClientEventFundingComplete [])]]))"

text \<open>The answer of the provider: the signature is dereferenced, the bytes as received are
  verified against the miner's worker key.\<close>

definition check_response :: "client_env \<Rightarrow> ClientDeal \<Rightarrow> SignedResponse \<Rightarrow> string \<Rightarrow> client_step list" where
  "check_response env deal resp origBytes = on_err (GetChainHead env)
     (\<lambda>err. [Trig ClientEventResponseVerificationFailed []])
     (\<lambda>(tok, _). case RespSignature resp of
        None \<Rightarrow> [NilDeref]
      | Some sig \<Rightarrow> on_err (VerifySignatureFn env sig (MinerWorker deal) origBytes tok)
          (\<lambda>err. [Trig ClientEventResponseVerificationFailed []])
          (\<lambda>verified.
             if \<not> verified then [Trig ClientEventResponseVerificationFailed []]
             else if RespState (ResponseOf resp) \<noteq> StorageDealWaitingForData
             then [Trig ClientEventUnexpectedDealState
               [AStatus (RespState (ResponseOf resp)), AString (RespMessage (ResponseOf resp))]]
             else [Trig ClientEventInitiateDataTransfer []]))"

definition ProposeDeal :: "client_env \<Rightarrow> ClientDeal \<Rightarrow> client_step list" where
  "ProposeDeal env deal = (case NewDealStream env (Miner deal) of
     Some err \<Rightarrow> [Trig ClientEventWriteProposalFailed [AErr err]]
   | None \<Rightarrow> Call (CTagPeer (Miner deal) (ProposalCid deal)) #
       Call (CWriteDealProposal (Proposal deal) (ClientSignature deal) (DataRefOf deal) (FastRetrieval deal)) #
       (case WriteDealProposal env (Proposal deal) (ClientSignature deal) (DataRefOf deal)
               (FastRetrieval deal) of
          Some err \<Rightarrow> [Trig ClientEventWriteProposalFailed [AErr err]]
        | None \<Rightarrow> on_err (ReadDealResponse env)
            (\<lambda>err. [Trig ClientEventReadResponseFailed [AErr err]])
            (\<lambda>(resp, origBytes). Call CCloseStream # check_response env deal resp origBytes)))"

subsection \<open>Data transfer\<close>

definition RestartDataTransfer :: "client_env \<Rightarrow> ClientDeal \<Rightarrow> client_step list" where
  "RestartDataTransfer env deal = (case TransferChannelID deal of
     None \<Rightarrow> [Trig ClientEventDataTransferRestartFailed [AErr (New ''channelId on client deal is nil'')]]
   | Some chid \<Rightarrow> Call (CRestartDataTransfer chid) #
       (case RestartDataTransferEnv env chid of
          Some err \<Rightarrow> [Trig ClientEventDataTransferRestartFailed [AErr err]]
        | None \<Rightarrow> []))"

definition InitiateDataTransfer :: "client_env \<Rightarrow> ClientDeal \<Rightarrow> client_step list" where
  "InitiateDataTransfer env deal = (case DataRefOf deal of
     None \<Rightarrow> [NilDeref]
   | Some ref \<Rightarrow>
       if TransferType ref = TTManual then [Trig ClientEventDataTransferComplete []]
       else Call (CStartDataTransfer (Miner deal) (ProposalCid deal) (Root ref)) #
         (case StartDataTransfer env (Miner deal) (ProposalCid deal) (Root ref) of
            Some err \<Rightarrow> [Trig ClientEventDataTransferFailed
              [AErr (Wrap ''failed to open push data channel: '' err)]]
          | None \<Rightarrow> []))"

subsection \<open>Acceptance\<close>

definition MaxGraceEpochsForDealAcceptance :: chain_epoch where
  "MaxGraceEpochsForDealAcceptance = 10"

definition isAccepted :: "StorageDealStatus \<Rightarrow> bool" where
  "isAccepted status \<longleftrightarrow> status = StorageDealStaged \<or> status = StorageDealAwaitingPreCommit \<or>
     status = StorageDealSealing \<or> status = StorageDealActive \<or> status = StorageDealExpired \<or>
     status = StorageDealSlashed"

definition isFailed :: "StorageDealStatus \<Rightarrow> bool" where
  "isFailed status \<longleftrightarrow> status = StorageDealFailing \<or> status = StorageDealError"

definition waitAgain :: "bool \<Rightarrow> StorageDealStatus \<Rightarrow> client_step list" where
  "waitAgain pollError providerState =
     [Async [Trig ClientEventWaitForDealState [ABool pollError, AStatus providerState]]]"

text \<open>An error of \<open>GetChainHead\<close> is ignored: the check of the start epoch is left out.\<close>

definition start_elapsed :: "client_env \<Rightarrow> ClientDeal \<Rightarrow> bool" where
  "start_elapsed env deal = on_err (GetChainHead env) (\<lambda>err. False)
     (\<lambda>(_, currEpoch). currEpoch > i64 (StartEpoch (Proposal deal) + MaxGraceEpochsForDealAcceptance))"

definition CheckForDealAcceptance :: "client_env \<Rightarrow> ClientDeal \<Rightarrow> client_step list" where
  "CheckForDealAcceptance env deal =
     (if start_elapsed env deal
      then [Trig ClientEventDealRejected [AStatus (State deal), AString ''start epoch already elapsed'']]
      else on_err (GetProviderDealState env (ProposalCid deal))
        (\<lambda>err. waitAgain True StorageDealUnknown)
        (\<lambda>dealState.
           if isFailed (PDState dealState)
           then [Trig ClientEventDealRejected [AStatus (PDState dealState), AString (PDMessage dealState)]]
           else if isAccepted (PDState dealState) then
             (case PDProposalCid dealState of
                None \<Rightarrow> [NilDeref]
              | Some c \<Rightarrow>
                  if c \<noteq> ProposalCid deal
                  then [Trig ClientEventResponseDealDidNotMatch [ACid c, ACid (ProposalCid deal)]]
                  else [Trig ClientEventDealAccepted [ACidPtr (PDPublishCid dealState)]])
           else waitAgain False (PDState dealState)))"

subsection \<open>Publication, sealing, completion\<close>

definition releaseReservedFunds :: "client_env \<Rightarrow> ClientDeal \<Rightarrow> client_step list" where
  "releaseReservedFunds env deal = (case FundsReserved deal of
     None \<Rightarrow> []
   | Some funds \<Rightarrow> if funds = 0 then [] else
       [Call (CReleaseFunds (ProposalClient (Proposal deal)) funds),
        Trig ClientEventFundsReleased [AToken funds]])"

definition ValidateDealPublished :: "client_env \<Rightarrow> ClientDeal \<Rightarrow> client_step list" where
  "ValidateDealPublished env deal = on_err (ValidatePublishedDeal env deal)
     (\<lambda>err. [Trig ClientEventDealPublishFailed [AErr err]])
     (\<lambda>dealID. releaseReservedFunds env deal @
        [Call (CUntagPeer (Miner deal) (ProposalCid deal)),
         Trig ClientEventDealPublished [ADealID dealID]])"

definition VerifyDealPreCommitted :: "client_env \<Rightarrow> ClientDeal \<Rightarrow> client_step list" where
  "VerifyDealPreCommitted env deal =
     (case OnDealSectorPreCommitted env (Provider (Proposal deal)) (DealID deal) (PublishMessage deal) of
        (invocations, err) \<Rightarrow>
          map (\<lambda>inv. Async [on_err inv
            (\<lambda>err. Trig ClientEventDealPrecommitFailed [AErr err])
            (\<lambda>(sectorNumber, isActive). if isActive then Trig ClientEventDealActivated []
               else Trig ClientEventDealPrecommitted [ASector sectorNumber])]) invocations @
          (case err of Some err \<Rightarrow> [Trig ClientEventDealPrecommitFailed [AErr err]] | None \<Rightarrow> []))"

definition VerifyDealActivated :: "client_env \<Rightarrow> ClientDeal \<Rightarrow> client_step list" where
  "VerifyDealActivated env deal =
     (case OnDealSectorCommitted env (Provider (Proposal deal)) (DealID deal) (SectorNumber deal)
             (PublishMessage deal) of
        (invocations, err) \<Rightarrow>
          map (\<lambda>inv. Async [case inv of
              Some err \<Rightarrow> Trig ClientEventDealActivationFailed [AErr err]
            | None \<Rightarrow> Trig ClientEventDealActivated []]) invocations @
          (case err of Some err \<Rightarrow> [Trig ClientEventDealActivationFailed [AErr err]] | None \<Rightarrow> []))"

definition WaitForDealCompletion :: "client_env \<Rightarrow> ClientDeal \<Rightarrow> client_step list" where
  "WaitForDealCompletion env deal = (case DataRefOf deal of
     None \<Rightarrow> [NilDeref]
   | Some ref \<Rightarrow> Call (CCleanBlockstore (Root ref)) #
       (case OnDealExpiredOrSlashed env (DealID deal) of
          (expirations, slashings, err) \<Rightarrow>
            map (\<lambda>inv. Async [case inv of
                Some err \<Rightarrow> Trig ClientEventDealCompletionFailed
                  [AErr (Wrap ''deal expiration err: '' err)]
              | None \<Rightarrow> Trig ClientEventDealExpired []]) expirations @
            map (\<lambda>inv. Async [on_err inv
                (\<lambda>err. Trig ClientEventDealCompletionFailed
                   [AErr (Wrap ''deal slashing err: '' err)])
                (\<lambda>slashEpoch. Trig ClientEventDealSlashed [AEpoch slashEpoch])]) slashings @
            (case err of Some err \<Rightarrow> [Trig ClientEventDealCompletionFailed [AErr err]] | None \<Rightarrow> [])))"

definition FailDeal :: "client_env \<Rightarrow> ClientDeal \<Rightarrow> client_step list" where
  "FailDeal env deal = releaseReservedFunds env deal @
     Call (CUntagPeer (Miner deal) (ProposalCid deal)) #
     (case DataRefOf deal of
        None \<Rightarrow> [NilDeref]
      | Some ref \<Rightarrow> [Call (CCleanBlockstore (Root ref)), Trig ClientEventFailed []])"

subsection \<open>Dispatch\<close>

definition ClientStateEntryFuncs ::
  "StorageDealStatus \<Rightarrow> (client_env \<Rightarrow> ClientDeal \<Rightarrow> client_step list) option" where
  "ClientStateEntryFuncs s = map_of [
     (StorageDealReserveClientFunds, ReserveClientFunds),
     (StorageDealClientFunding, WaitForFunding),
     (StorageDealFundsReserved, ProposeDeal),
     (StorageDealStartDataTransfer, InitiateDataTransfer),
     (StorageDealClientTransferRestart, RestartDataTransfer),
     (StorageDealCheckForAcceptance, CheckForDealAcceptance),
     (StorageDealProposalAccepted, ValidateDealPublished),
     (StorageDealAwaitingPreCommit, VerifyDealPreCommitted),
     (StorageDealSealing, VerifyDealActivated),
     (StorageDealActive, WaitForDealCompletion),
     (StorageDealFailing, FailDeal)] s"

definition client_handler :: "client_env \<Rightarrow> ClientDeal \<Rightarrow> client_step list" where
  "client_handler env deal = (case ClientStateEntryFuncs (State deal) of
     None \<Rightarrow> [] | Some f \<Rightarrow> f env deal)"

text \<open>The code dereferences two pointers that it decodes from the provider's answers without
  checking them: the signature of a deal response, and the proposal CID of a status that tells of an
  accepted deal. Runs are considered with answers that have them.\<close>

definition responses_complete :: "client_env \<Rightarrow> bool" where
  "responses_complete env \<longleftrightarrow>
     (\<forall>resp bytes. ReadDealResponse env = Inr (resp, bytes) \<longrightarrow> RespSignature resp \<noteq> None) \<and>
     (\<forall>c st. GetProviderDealState env c = Inr st \<longrightarrow> isAccepted (PDState st) \<longrightarrow> PDProposalCid st \<noteq> None)"

definition client_machine_with ::
  "(client_env \<Rightarrow> bool) \<Rightarrow> ((ClientEvent, StorageDealStatus, ClientDeal) fsm_params \<Rightarrow> ClientEvent \<Rightarrow>
      StorageDealStatus fsm_arg list \<Rightarrow> ClientDeal \<Rightarrow> ClientDeal fsm_result) \<Rightarrow>
   (ClientEvent \<Rightarrow> StorageDealStatus fsm_arg list \<Rightarrow> bool) \<Rightarrow>
   ((client_call, ClientEvent, StorageDealStatus, ClientDeal) cfg \<Rightarrow> bool) \<Rightarrow>
   (client_env, client_call, ClientEvent, StorageDealStatus, ClientDeal) machine" where
  "client_machine_with env_ok plan external may_restart =
     \<lparr>Plan = (\<lambda>env. plan (client_fsm (EnvNow env))), Handler = client_handler, EnvOK = env_ok,
      External = external, RestartEvent = ClientEventRestart, MayRestart = may_restart,
      ConsumeAll = False\<rparr>"

definition client_machine ::
  "((ClientEvent, StorageDealStatus, ClientDeal) fsm_params \<Rightarrow> ClientEvent \<Rightarrow>
      StorageDealStatus fsm_arg list \<Rightarrow> ClientDeal \<Rightarrow> ClientDeal fsm_result) \<Rightarrow>
   (ClientEvent \<Rightarrow> StorageDealStatus fsm_arg list \<Rightarrow> bool) \<Rightarrow>
   ((client_call, ClientEvent, StorageDealStatus, ClientDeal) cfg \<Rightarrow> bool) \<Rightarrow>
   (client_env, client_call, ClientEvent, StorageDealStatus, ClientDeal) machine" where
  "client_machine = client_machine_with responses_complete"

lemmas client_machine_defs = client_machine_def client_machine_with_def

text \<open>The scheduler does not look at what is assumed of environments.\<close>

lemma client_sched_with:
  "sched (client_machine_with p plan ext mr) env c = sched (client_machine plan ext mr) env c"
  by (simp add: sched_def client_machine_defs split: list.split option.split)

lemma client_sched_n_with:
  "sched_n n (client_machine_with p plan ext mr) env c = sched_n n (client_machine plan ext mr) env c"
  by (induction n arbitrary: c) (simp_all add: client_sched_with)

lemmas client_handler_defs = ReserveClientFunds_def WaitForFunding_def check_response_def
  ProposeDeal_def RestartDataTransfer_def InitiateDataTransfer_def CheckForDealAcceptance_def
  waitAgain_def releaseReservedFunds_def ValidateDealPublished_def VerifyDealPreCommitted_def
  VerifyDealActivated_def WaitForDealCompletion_def FailDeal_def

end
