(* ===== verification/Storage_Client_Funds.thy ===== *)
theory Storage_Client_Funds
  imports Storage_Client_States
begin

section \<open>Storage client: safety of the running machine\<close>

text \<open>
  The client's event table and handlers satisfy the laws of \<open>funds_protocol\<close>: the client's
  payment and collateral, reserved before the proposal is sent, is what the deal records, in every
  interleaving. Unlike on the provider, a deal may end in \<open>StorageDealError\<close> with funds still
  reserved, since three of its failures do not pass through \<open>StorageDealFailing\<close>.
\<close>

type_synonym client_cfg = "(client_call, ClientEvent, StorageDealStatus, ClientDeal) cfg"

type_synonym client_trig = "ClientEvent \<times> StorageDealStatus fsm_arg list"

primrec client_entry :: "client_call \<Rightarrow> int" where
  "client_entry (CReserveFunds w a amt) = amt"
| "client_entry (CReleaseFunds a amt) = - amt"
| "client_entry (CTagPeer p t) = 0"
| "client_entry (CUntagPeer p t) = 0"
| "client_entry (CWriteDealProposal p s r b) = 0"
| "client_entry CCloseStream = 0"
| "client_entry (CStartDataTransfer p c r) = 0"
| "client_entry (CRestartDataTransfer ch) = 0"
| "client_entry (CCleanBlockstore c) = 0"

definition client_ledger :: "client_call list \<Rightarrow> int" where
  "client_ledger cs = sum_by client_entry cs"

definition client_funds_of :: "ClientDeal \<Rightarrow> int" where
  "client_funds_of d = (case FundsReserved d of None \<Rightarrow> 0 | Some x \<Rightarrow> x)"

definition client_funds_event :: "ClientEvent \<Rightarrow> bool" where
  "client_funds_event e \<longleftrightarrow> e \<in> {ClientEventReserveFundsFailed, ClientEventFundingInitiated,
     ClientEventFundingComplete, ClientEventFundsReserved, ClientEventFundsReleased,
     ClientEventDealPublishFailed, ClientEventDealPublished, ClientEventFailed,
     ClientEventStreamCloseError, ClientEventRestart}"

definition client_busy :: "ClientDeal \<Rightarrow> bool" where
  "client_busy d \<longleftrightarrow> State d \<in> {StorageDealReserveClientFunds, StorageDealClientFunding,
     StorageDealProposalAccepted, StorageDealFailing}"

definition client_zero :: "ClientDeal \<Rightarrow> bool" where
  "client_zero d \<longleftrightarrow> State d \<in> {StorageDealUnknown, StorageDealAwaitingPreCommit,
     StorageDealSealing, StorageDealActive, StorageDealSlashed, StorageDealExpired}"

definition client_deal_ok :: "ClientDeal \<Rightarrow> bool" where
  "client_deal_ok d \<longleftrightarrow> DataRefOf d \<noteq> None \<and>
     (State d = StorageDealClientFunding \<longrightarrow> AddFundsCid d \<noteq> None)"

subsection \<open>The deal's invariant\<close>

lemma client_rows_1_ok: "list_all (ev_keeps (client_fsm now) client_deal_ok) (ClientEvents_1 now)"
  unfolding ClientEvents_1_def list.pred_inject
  by (intro conjI ev_keepsI) (auto simp: client_deal_ok_def transition_def note_error_def
    no_action_def client_fsm_def split: if_splits option.splits)

lemma client_rows_2_ok: "list_all (ev_keeps (client_fsm now) client_deal_ok) (ClientEvents_2 now)"
  unfolding ClientEvents_2_def list.pred_inject
  by (intro conjI ev_keepsI) (auto simp: client_deal_ok_def transition_def note_error_def
    no_action_def client_fsm_def Let_def split: if_splits)

lemma client_plan_ok:
  assumes "client_deal_ok d"
    and "fsm_plan (client_fsm now) e a d = Recorded d' \<or> fsm_plan (client_fsm now) e a d = Entered d'"
  shows "client_deal_ok d'"
proof (rule table_keeps [where P = "client_fsm now" and Q = client_deal_ok, OF _ assms])
  show "list_all (ev_keeps (client_fsm now) client_deal_ok) (Events (client_fsm now))"
    using client_rows_1_ok client_rows_2_ok by (simp add: client_fsm_def ClientEvents_def)
qed

subsection \<open>Events that leave the funds alone\<close>

definition client_row_harmless :: "client_event \<Rightarrow> bool" where
  "client_row_harmless ev \<longleftrightarrow> client_funds_event (ev_name ev) \<or>
     (\<forall>args d. ev_action ev args d \<noteq> Panicked \<and>
        (\<forall>d1. ev_action ev args d = Done d1 \<longrightarrow>
           FundsReserved d1 = FundsReserved d \<and> State d1 = State d) \<and>
        (\<forall>t. transition (ev_clauses ev) (State d) = Some t \<longrightarrow>
           (client_busy d \<longrightarrow> t = ToJustRecord) \<and>
           (\<forall>s. t = To s \<longrightarrow> client_zero (d\<lparr>State := s\<rparr>) \<longrightarrow> client_zero d)))"

lemma client_rows_1_harmless: "list_all client_row_harmless (ClientEvents_1 now)"
  unfolding ClientEvents_1_def list.pred_inject client_row_harmless_def
  by (intro conjI) (auto simp: client_funds_event_def client_busy_def client_zero_def
    transition_def note_error_def no_action_def split: if_splits)

lemma client_rows_2_harmless: "list_all client_row_harmless (ClientEvents_2 now)"
  unfolding ClientEvents_2_def list.pred_inject client_row_harmless_def
  by (intro conjI) (auto simp: client_funds_event_def client_busy_def client_zero_def
    transition_def note_error_def no_action_def Let_def split: if_splits)

lemma client_harmless_plan:
  assumes "\<not> client_funds_event e"
  shows "fsm_plan (client_fsm now) e a d = Rejected \<or>
    (\<exists>d'. fsm_plan (client_fsm now) e a d = Recorded d' \<and>
       State d' = State d \<and> FundsReserved d' = FundsReserved d) \<or>
    (\<exists>d'. fsm_plan (client_fsm now) e a d = Entered d' \<and> FundsReserved d' = FundsReserved d \<and>
       (client_zero d' \<longrightarrow> client_zero d) \<and> \<not> client_busy d)"
proof (cases "fsm_plan (client_fsm now) e a d = Rejected")
  case False
  then obtain ev t where ev: "find_event (ClientEvents now) e = Some ev"
    and t: "transition (ev_clauses ev) (State d) = Some t"
    and args: "ev_action ev a d \<noteq> BadArgs"
    and plan: "fsm_plan (client_fsm now) e a d =
      (case ev_action ev a d of Done d1 \<Rightarrow> apply_target (client_fsm now) t d1 | _ \<Rightarrow> Crashed)"
    by (auto simp: fsm_plan_def client_fsm_def split: if_splits option.splits act_result.splits)
  from find_event_SomeD [OF ev] have "client_row_harmless ev" and "ev_name ev = e"
    using client_rows_1_harmless client_rows_2_harmless
    by (auto simp: ClientEvents_def list_all_iff)
  with assms t have safe: "ev_action ev a d \<noteq> Panicked"
    and d1: "\<And>d1. ev_action ev a d = Done d1 \<Longrightarrow> FundsReserved d1 = FundsReserved d \<and> State d1 = State d"
    and busy: "client_busy d \<Longrightarrow> t = ToJustRecord"
    and zero: "\<And>s. t = To s \<Longrightarrow> client_zero (d\<lparr>State := s\<rparr>) \<Longrightarrow> client_zero d"
    by (auto simp: client_row_harmless_def)
  from safe args plan obtain d' where d': "ev_action ev a d = Done d'"
    and eq: "fsm_plan (client_fsm now) e a d = apply_target (client_fsm now) t d'"
    by (cases "ev_action ev a d") simp_all
  from d1 [OF d'] busy zero show ?thesis
    unfolding eq by (cases t) (auto simp: apply_target_def client_fsm_def client_zero_def)
qed simp

subsection \<open>Pending events\<close>

fun client_amount :: "client_trig \<Rightarrow> int" where
  "client_amount (ClientEventFundsReserved, [AToken x]) = x"
| "client_amount (ClientEventFundsReleased, [AToken x]) = - x"
| "client_amount _ = 0"

definition client_answer :: "client_trig \<Rightarrow> bool" where
  "client_answer x \<longleftrightarrow> x = (ClientEventFundingComplete, []) \<or>
     (\<exists>err. x = (ClientEventReserveFundsFailed, [AErr err]))"

definition client_reserve_exit :: "client_trig \<Rightarrow> bool" where
  "client_reserve_exit x \<longleftrightarrow> x = (ClientEventFundingComplete, []) \<or>
     (\<exists>m. x = (ClientEventFundingInitiated, [ACid m]))"

definition client_release_exit :: "ClientDeal \<Rightarrow> client_trig \<Rightarrow> bool" where
  "client_release_exit d x \<longleftrightarrow>
     (State d = StorageDealProposalAccepted \<and> (\<exists>i. x = (ClientEventDealPublished, [ADealID i]))) \<or>
     (State d = StorageDealFailing \<and> x = (ClientEventFailed, []))"

definition client_waits :: "ClientDeal \<Rightarrow> bool" where
  "client_waits d \<longleftrightarrow> State d = StorageDealClientFunding"

inductive client_pending :: "ClientDeal \<Rightarrow> client_trig list \<Rightarrow> bool" for d where
  c_nothing: "client_pending d []"
| c_reserve_failed: "State d = StorageDealReserveClientFunds \<Longrightarrow>
    client_pending d [(ClientEventReserveFundsFailed, [AErr err])]"
| c_reserved: "State d = StorageDealReserveClientFunds \<Longrightarrow> client_reserve_exit x \<Longrightarrow>
    client_pending d [(ClientEventFundsReserved, [AToken amt]), x]"
| c_reserve_done: "State d = StorageDealReserveClientFunds \<Longrightarrow> client_reserve_exit x \<Longrightarrow>
    client_pending d [x]"
| c_funding: "State d = StorageDealClientFunding \<Longrightarrow> client_answer x \<Longrightarrow> client_pending d [x]"
| c_publish_failed: "State d = StorageDealProposalAccepted \<Longrightarrow>
    client_pending d [(ClientEventDealPublishFailed, [AErr err])]"
| c_released: "client_release_exit d x \<Longrightarrow> FundsReserved d = Some f \<Longrightarrow>
    client_pending d [(ClientEventFundsReleased, [AToken f]), x]"
| c_release_done: "client_release_exit d x \<Longrightarrow> client_funds_of d = 0 \<Longrightarrow> client_pending d [x]"

lemma client_pending_cong:
  "client_pending d xs \<Longrightarrow> State d' = State d \<Longrightarrow> FundsReserved d' = FundsReserved d \<Longrightarrow>
     client_pending d' xs"
  by (induction rule: client_pending.induct)
    (auto intro: client_pending.intros simp: client_release_exit_def client_funds_of_def)

lemma client_pending_idle: "client_pending d xs \<Longrightarrow> \<not> client_busy d \<Longrightarrow> xs = []"
  by (induction rule: client_pending.induct) (auto simp: client_busy_def client_release_exit_def)

lemmas client_plan_simps = fsm_plan_def client_table_defs transition_def apply_target_def
  note_error_def no_action_def act_def actM_def

lemma client_plan_funds:
  "State d = StorageDealReserveClientFunds \<Longrightarrow>
     fsm_plan (client_fsm now) ClientEventFundsReserved [AToken x] d = Recorded (AddLog now
       (''funds reserved, amount <'' @ show_int x @ ''>'') (d\<lparr>FundsReserved := Some (client_funds_of d + x)\<rparr>))"
  "State d \<in> {StorageDealProposalAccepted, StorageDealFailing} \<Longrightarrow> FundsReserved d = Some f \<Longrightarrow>
     fsm_plan (client_fsm now) ClientEventFundsReleased [AToken x] d = Recorded (AddLog now
       (''funds released, amount <'' @ show_int x @ ''>'') (d\<lparr>FundsReserved := Some (f - x)\<rparr>))"
  by (auto simp: client_plan_simps client_funds_of_def split: option.split)

lemma client_plan_exits:
  "State d \<in> {StorageDealReserveClientFunds, StorageDealClientFunding} \<Longrightarrow>
     \<exists>d'. fsm_plan (client_fsm now) ClientEventFundingComplete [] d = Entered d' \<and>
       State d' = StorageDealFundsReserved \<and> FundsReserved d' = FundsReserved d"
  "State d \<in> {StorageDealReserveClientFunds, StorageDealClientFunding} \<Longrightarrow>
     \<exists>d'. fsm_plan (client_fsm now) ClientEventReserveFundsFailed [AErr err] d = Entered d' \<and>
       State d' = StorageDealFailing \<and> FundsReserved d' = FundsReserved d"
  "State d = StorageDealReserveClientFunds \<Longrightarrow>
     \<exists>d'. fsm_plan (client_fsm now) ClientEventFundingInitiated [ACid m] d = Entered d' \<and>
       State d' = StorageDealClientFunding \<and> FundsReserved d' = FundsReserved d"
  "State d = StorageDealProposalAccepted \<Longrightarrow>
     \<exists>d'. fsm_plan (client_fsm now) ClientEventDealPublishFailed [AErr err] d = Entered d' \<and>
       State d' = StorageDealError \<and> FundsReserved d' = FundsReserved d"
  "State d = StorageDealProposalAccepted \<Longrightarrow>
     \<exists>d'. fsm_plan (client_fsm now) ClientEventDealPublished [ADealID i] d = Entered d' \<and>
       State d' = StorageDealAwaitingPreCommit \<and> FundsReserved d' = FundsReserved d"
  "State d = StorageDealFailing \<Longrightarrow>
     \<exists>d'. fsm_plan (client_fsm now) ClientEventFailed [] d = Entered d' \<and>
       State d' = StorageDealError \<and> FundsReserved d' = FundsReserved d"
  by (auto simp: client_plan_simps)

lemma client_plan_Restart:
  "fsm_plan (client_fsm now) ClientEventRestart [] d = Rejected \<or>
   (\<exists>d'. fsm_plan (client_fsm now) ClientEventRestart [] d = Entered d' \<and>
      FundsReserved d' = FundsReserved d \<and> (client_zero d' \<longrightarrow> client_zero d))"
  by (auto simp: client_plan_simps client_zero_def)

lemma client_exit_result:
  "\<exists>d'. r = Entered d' \<and> State d' = s \<and> FundsReserved d' = FundsReserved d \<Longrightarrow>
     (s \<notin> {StorageDealUnknown, StorageDealAwaitingPreCommit, StorageDealSealing, StorageDealActive,
        StorageDealSlashed, StorageDealExpired} \<or> client_funds_of d = 0) \<Longrightarrow>
     l = client_funds_of d \<Longrightarrow> result_ok client_funds_of client_zero tot client_pending l [] r"
  by (auto simp: result_ok_def client_funds_of_def client_zero_def)

lemma client_pending_event:
  assumes "client_pending d ((e, a) # ks)"
  shows "result_ok client_funds_of client_zero (sum_by client_amount) client_pending
    (client_funds_of d + sum_by client_amount ((e, a) # ks)) ks (fsm_plan (client_fsm now) e a d)"
  using assms
proof (cases rule: client_pending.cases)
  case (c_reserved x amt)
  then show ?thesis
    by (auto simp: client_plan_funds result_ok_def client_funds_of_def client_zero_def
        intro!: client_pending.c_reserve_done)
next
  case (c_released x f)
  then have "client_pending (AddLog now msg (d\<lparr>FundsReserved := Some 0\<rparr>)) ks" for msg
    by (auto intro!: client_pending.c_release_done simp: client_release_exit_def client_funds_of_def)
  with c_released show ?thesis
    by (auto simp: client_plan_funds result_ok_def client_release_exit_def client_funds_of_def
        client_zero_def)
qed (auto simp: client_reserve_exit_def client_answer_def client_release_exit_def
    intro!: client_exit_result client_plan_exits)

subsection \<open>What the handlers send\<close>

abbreviation (input) client_neutral where
  "client_neutral \<equiv> list_all (neutral client_entry client_funds_event)"

lemma client_funds_event_cases [simp]:
  "\<not> client_funds_event ClientEventOpen" "\<not> client_funds_event ClientEventWriteProposalFailed"
  "\<not> client_funds_event ClientEventReadResponseFailed"
  "\<not> client_funds_event ClientEventResponseVerificationFailed"
  "\<not> client_funds_event ClientEventInitiateDataTransfer"
  "\<not> client_funds_event ClientEventUnexpectedDealState"
  "\<not> client_funds_event ClientEventDataTransferFailed"
  "\<not> client_funds_event ClientEventDataTransferRestartFailed"
  "\<not> client_funds_event ClientEventDataTransferComplete"
  "\<not> client_funds_event ClientEventWaitForDealState"
  "\<not> client_funds_event ClientEventResponseDealDidNotMatch"
  "\<not> client_funds_event ClientEventDealRejected" "\<not> client_funds_event ClientEventDealAccepted"
  "\<not> client_funds_event ClientEventDealPrecommitFailed"
  "\<not> client_funds_event ClientEventDealPrecommitted"
  "\<not> client_funds_event ClientEventDealActivationFailed"
  "\<not> client_funds_event ClientEventDealActivated" "\<not> client_funds_event ClientEventDealSlashed"
  "\<not> client_funds_event ClientEventDealExpired"
  "\<not> client_funds_event ClientEventDealCompletionFailed"
  "client_funds_event ClientEventReserveFundsFailed" "client_funds_event ClientEventFundingInitiated"
  "client_funds_event ClientEventFundingComplete" "client_funds_event ClientEventFundsReserved"
  "client_funds_event ClientEventFundsReleased" "client_funds_event ClientEventDealPublishFailed"
  "client_funds_event ClientEventDealPublished" "client_funds_event ClientEventFailed"
  "client_funds_event ClientEventRestart"
  by (simp_all add: client_funds_event_def)

lemma client_neutral_ProposeDeal: "responses_complete env \<Longrightarrow> client_neutral (ProposeDeal env d)"
  by (auto simp: ProposeDeal_def check_response_def responses_complete_def
      split: option.split on_err_split prod.split)

lemma client_neutral_CheckForDealAcceptance:
  "responses_complete env \<Longrightarrow> client_neutral (CheckForDealAcceptance env d)"
  by (auto simp: CheckForDealAcceptance_def waitAgain_def responses_complete_def
      split: option.split on_err_split) (metis option.distinct(1))

lemma client_neutral_transfer:
  "client_neutral (RestartDataTransfer env d)"
  "DataRefOf d \<noteq> None \<Longrightarrow> client_neutral (InitiateDataTransfer env d)"
  by (auto simp: RestartDataTransfer_def InitiateDataTransfer_def split: option.split)

lemma client_neutral_callbacks:
  "client_neutral (VerifyDealPreCommitted env d)" "client_neutral (VerifyDealActivated env d)"
  "DataRefOf d \<noteq> None \<Longrightarrow> client_neutral (WaitForDealCompletion env d)"
  by (auto simp: VerifyDealPreCommitted_def VerifyDealActivated_def WaitForDealCompletion_def
      neutral_map split: option.split on_err_split prod.split)

lemma client_neutral_handler:
  "\<not> client_busy d \<Longrightarrow> client_deal_ok d \<Longrightarrow> responses_complete env \<Longrightarrow>
     client_neutral (client_handler env d)"
  by (cases "State d")
    (auto simp: client_handler_def ClientStateEntryFuncs_def client_neutral_ProposeDeal
       client_neutral_CheckForDealAcceptance client_neutral_transfer client_neutral_callbacks
       client_deal_ok_def client_busy_def)

definition client_handler_ok :: "ClientDeal \<Rightarrow> client_step list \<Rightarrow> bool" where
  "client_handler_ok d ss \<longleftrightarrow> handler_ok client_entry client_funds_event client_amount client_answer
     (client_waits d) (client_pending d) ss"

lemmas client_hok_defs = client_handler_ok_def handler_ok_def client_waits_def

lemma client_ReserveClientFunds_ok:
  "State d = StorageDealReserveClientFunds \<Longrightarrow> client_handler_ok d (ReserveClientFunds env d)"
  by (auto simp: ReserveClientFunds_def client_hok_defs client_reserve_exit_def Let_def
      intro!: client_pending.intros split: on_err_split)

lemma client_WaitForFunding_ok:
  "State d = StorageDealClientFunding \<Longrightarrow> client_deal_ok d \<Longrightarrow> client_handler_ok d (WaitForFunding env d)"
  by (auto simp: WaitForFunding_def client_hok_defs client_answer_def client_deal_ok_def
      intro!: client_pending.c_nothing split: on_err_split prod.split option.split)

lemma client_release_steps:
  "releaseReservedFunds env d = (if client_funds_of d = 0 then [] else
     [Call (CReleaseFunds (ProposalClient (Proposal d)) (client_funds_of d)),
      Trig ClientEventFundsReleased [AToken (client_funds_of d)]])"
  by (simp add: releaseReservedFunds_def client_funds_of_def split: option.split)

lemma client_release_pending:
  "client_release_exit d x \<Longrightarrow> client_funds_of d \<noteq> 0 \<Longrightarrow>
     client_pending d [(ClientEventFundsReleased, [AToken (client_funds_of d)]), x]"
  by (cases "FundsReserved d") (auto simp: client_funds_of_def intro: client_pending.c_released)

lemma client_ValidateDealPublished_ok:
  "State d = StorageDealProposalAccepted \<Longrightarrow> client_handler_ok d (ValidateDealPublished env d)"
  by (auto simp: ValidateDealPublished_def client_hok_defs client_release_steps
      client_release_exit_def intro!: client_pending.c_publish_failed client_release_pending
      client_pending.c_release_done split: on_err_split)

lemma client_FailDeal_ok:
  "State d = StorageDealFailing \<Longrightarrow> client_deal_ok d \<Longrightarrow> client_handler_ok d (FailDeal env d)"
  by (auto simp: FailDeal_def client_hok_defs client_release_steps client_release_exit_def
      client_deal_ok_def intro!: client_release_pending client_pending.c_release_done)

lemma client_handlers_ok:
  assumes "client_deal_ok d" "responses_complete env"
  shows "client_handler_ok d (client_handler env d)"
proof (cases "client_busy d")
  case True
  with assms show ?thesis
    using client_ReserveClientFunds_ok client_WaitForFunding_ok client_ValidateDealPublished_ok
      client_FailDeal_ok
    by (auto simp: client_busy_def client_handler_def ClientStateEntryFuncs_def)
next
  case False
  then show ?thesis
    using client_neutral_handler [OF False assms]
    by (simp add: client_handler_ok_def neutral_handler_ok client_pending.c_nothing)
qed

subsection \<open>The laws of the protocol hold\<close>

abbreviation (input) client_funds_machine where
  "client_funds_machine plan \<equiv> client_machine plan (\<lambda>e a. \<not> client_funds_event e) quiet"

interpretation client_funds: funds_protocol "client_funds_machine fsm_plan" client_funds_event
  client_entry client_amount client_funds_of client_deal_ok client_busy client_zero client_waits
  client_answer client_pending
proof unfold_locales
  fix d :: ClientDeal and e env a
  assume e: "\<not> client_funds_event e"
  show "Plan (client_funds_machine fsm_plan) env e a d = Rejected \<or>
      (\<exists>d'. Plan (client_funds_machine fsm_plan) env e a d = Recorded d' \<and>
         client_funds_of d' = client_funds_of d \<and> client_zero d' = client_zero d \<and>
         client_waits d' = client_waits d \<and> (\<forall>xs. client_pending d xs \<longrightarrow> client_pending d' xs)) \<or>
      (\<exists>d'. Plan (client_funds_machine fsm_plan) env e a d = Entered d' \<and>
         client_funds_of d' = client_funds_of d \<and> (client_zero d' \<longrightarrow> client_zero d) \<and> \<not> client_busy d)"
    using client_harmless_plan [OF e, of "EnvNow env" a d]
  proof (elim disjE exE conjE)
    fix d' assume "fsm_plan (client_fsm (EnvNow env)) e a d = Recorded d'"
      and "State d' = State d" and "FundsReserved d' = FundsReserved d"
    then show ?thesis
      by (intro disjI2 disjI1 exI [of _ d'])
        (auto simp: client_machine_defs client_funds_of_def client_waits_def client_zero_def
          elim: client_pending_cong)
  next
    fix d' assume "fsm_plan (client_fsm (EnvNow env)) e a d = Entered d'"
      and "FundsReserved d' = FundsReserved d" and "client_zero d' \<longrightarrow> client_zero d" "\<not> client_busy d"
    then show ?thesis
      by (intro disjI2 exI [of _ d']) (simp add: client_machine_defs client_funds_of_def)
  qed (simp add: client_machine_defs)
next
  fix d :: ClientDeal and env
  show "Plan (client_funds_machine fsm_plan) env (RestartEvent (client_funds_machine fsm_plan)) [] d = Rejected \<or>
      (\<exists>d'. Plan (client_funds_machine fsm_plan) env (RestartEvent (client_funds_machine fsm_plan)) [] d =
           Entered d' \<and>
         client_funds_of d' = client_funds_of d \<and> (client_zero d' \<longrightarrow> client_zero d))"
    using client_plan_Restart [of "EnvNow env" d] by (auto simp: client_machine_defs client_funds_of_def)
next
  fix d :: ClientDeal and env e a d'
  assume "client_deal_ok d" and "Plan (client_funds_machine fsm_plan) env e a d = Recorded d' \<or>
    Plan (client_funds_machine fsm_plan) env e a d = Entered d'"
  then show "client_deal_ok d'"
    using client_plan_ok [of d "EnvNow env" e a d'] by (simp add: client_machine_defs)
next
  fix d :: ClientDeal and env
  assume "client_deal_ok d" and "EnvOK (client_funds_machine fsm_plan) env"
  then show "handler_ok client_entry client_funds_event client_amount client_answer (client_waits d)
      (client_pending d) (Handler (client_funds_machine fsm_plan) env d)"
    using client_handlers_ok [of d env] by (simp add: client_handler_ok_def client_machine_defs)
next
  fix d :: ClientDeal and e a ks env
  assume "client_pending d ((e, a) # ks)"
  then show "result_ok client_funds_of client_zero (sum_by client_amount) client_pending
      (client_funds_of d + sum_by client_amount ((e, a) # ks)) ks
      (Plan (client_funds_machine fsm_plan) env e a d)"
    using client_pending_event [of d e a ks "EnvNow env"] by (simp add: client_machine_defs)
qed (auto simp: client_machine_defs client_waits_def client_busy_def client_answer_def
    intro: client_pending.c_nothing client_pending.c_funding dest: client_pending_idle)

end
