(* ===== verification/Storage_Client_Correct.thy ===== *)
theory Storage_Client_Correct
  imports Storage_Client_Funds
begin

section \<open>Storage client: properties\<close>

text \<open>
  The theorems on the client's deal machine, with a concrete run (a manual deal from opening to
  expiry) for their witnesses.
\<close>

subsection \<open>A sample deal\<close>

definition client_sample_env :: client_env where
  "client_sample_env = \<lparr>EnvNow = 7, lib = sample_lib\<lparr>ClientBalanceRequirement := (\<lambda>p. 30)\<rparr>,
    ReserveFunds = (\<lambda>_ _ _. Inr ''m''), WaitForMessage = (\<lambda>_. Some (Inr (0, [], ''m''))),
    NewDealStream = (\<lambda>_. None), WriteDealProposal = (\<lambda>_ _ _ _. None),
    ReadDealResponse = Inr (\<lparr>ResponseOf = \<lparr>RespState = StorageDealWaitingForData, RespMessage = [],
      RespProposal = ''prop'', RespPublishMessage = None\<rparr>, RespSignature = Some ''s''\<rparr>, ''bytes''),
    GetChainHead = Inr (''tok'', 5), VerifySignatureFn = (\<lambda>_ _ _ _. Inr True),
    RestartDataTransferEnv = (\<lambda>_. None), StartDataTransfer = (\<lambda>_ _ _. None),
    GetProviderDealState = (\<lambda>_. Inr \<lparr>PDState = StorageDealStaged, PDMessage = [], PDProposal = None,
      PDProposalCid = Some ''prop'', PDAddFundsCid = None, PDPublishCid = Some ''pub'', PDDealID = 7,
      PDFastRetrieval = False\<rparr>),
    ValidatePublishedDeal = (\<lambda>_. Inr 7),
    OnDealSectorPreCommitted = (\<lambda>_ _ _. ([Inr (3, False)], None)),
    OnDealSectorCommitted = (\<lambda>_ _ _ _. ([None], None)),
    OnDealExpiredOrSlashed = (\<lambda>_. ([None], [], None))\<rparr>"

definition client_sample_proposal :: DealProposal where
  "client_sample_proposal = \<lparr>PieceCID = ''piece'', PieceSize = 128, VerifiedDeal = False,
    ProposalClient = ''f03'', Provider = ''f01'', Label = ''x'', StartEpoch = 10, EndEpoch = 200,
    StoragePricePerEpoch = 10, ProviderCollateral = 42, ClientCollateral = 0\<rparr>"

definition client_sample_deal :: ClientDeal where
  "client_sample_deal = \<lparr>Proposal = client_sample_proposal, ClientSignature = ''sig'', ProposalCid = ''prop'',
     AddFundsCid = None, State = StorageDealUnknown, Miner = ''peer'', MinerWorker = ''f02'', DealID = 0,
     DataRefOf = Some \<lparr>TransferType = TTManual, Root = ''root'', PieceCid = None, RefPieceSize = 0,
       RawBlockSize = 0\<rparr>,
     Message = [], DealStagesOf = NewDealStages, PublishMessage = None, SlashEpoch = 0,
     PollRetryCount = 0, PollErrorCount = 0, FastRetrieval = False, FundsReserved = None,
     CreationTime = 0, TransferChannelID = None, SectorNumber = 0\<rparr>"

definition client_sample_open :: client_cfg where
  "client_sample_open = start_cfg client_sample_deal [(ClientEventOpen, [])]"

definition client_sample_funding :: client_cfg where
  "client_sample_funding = sched_n 9 (client_machine_with (\<lambda>_. True) fsm_plan (\<lambda>e a. \<not> client_funds_event e) quiet)
      client_sample_env client_sample_open"

definition client_sample_expired :: client_cfg where
  "client_sample_expired = sched_n 60 (client_machine_with (\<lambda>_. True) fsm_plan (\<lambda>e a. \<not> client_funds_event e) quiet)
      client_sample_env client_sample_open"

lemma client_sample_env_ok: "responses_complete client_sample_env"
  by (simp add: responses_complete_def client_sample_env_def)

lemma client_sample_reach:
  "machine_reach (client_funds_machine fsm_plan) (start_cfg client_sample_deal [(ClientEventOpen, [])])
     client_sample_funding"
  "machine_reach (client_funds_machine fsm_plan) (start_cfg client_sample_deal [(ClientEventOpen, [])])
     client_sample_expired"
  using sched_n_start [of "client_funds_machine fsm_plan" client_sample_env]
  unfolding client_sample_funding_def client_sample_expired_def client_sample_open_def
    client_sched_n_with
  by (simp_all add: client_machine_defs client_sample_env_ok)

lemma client_sample_start:
  "State client_sample_deal = StorageDealUnknown" "FundsReserved client_sample_deal = None"
  "DataRefOf client_sample_deal \<noteq> None"
  by (simp_all add: client_sample_deal_def)

lemma client_new_deal_ok:
  assumes "State d = StorageDealUnknown" "FundsReserved d = None" "DataRefOf d \<noteq> None"
  shows "client_deal_ok d" "client_funds_of d = 0"
  using assms by (simp_all add: client_deal_ok_def client_funds_of_def)

subsection \<open>Funds\<close>





text \<open>A proposal that cannot be sent strands its funds: when the stream to the provider cannot
  be opened, the deal goes from \<open>StorageDealFundsReserved\<close> straight to \<open>StorageDealError\<close> with the
  reserved amount unchanged; no release is requested, the final state has no handler, and every
  further event is refused.\<close>

theorem client_write_failure_strands_funds:
  assumes "fsm_engine plan" and "State d = StorageDealFundsReserved"
    and "FundsReserved d = Some f" and "NewDealStream env (Miner d) = Some err"
  shows "\<exists>d'. ProposeDeal env d = [Trig ClientEventWriteProposalFailed [AErr err]] \<and>
    plan (client_fsm now) ClientEventWriteProposalFailed [AErr err] d = Entered d' \<and>
    State d' = StorageDealError \<and> FundsReserved d' = Some f \<and>
    ClientStateEntryFuncs StorageDealError = None \<and>
    (\<forall>now' e a. plan (client_fsm now') e a d' = Rejected)"
proof -
  let ?d = "(fail_message now (''sending proposal to storage provider failed: '' @ Error err) d)
    \<lparr>State := StorageDealError\<rparr>"
  have "fsm_plan (client_fsm now) ClientEventWriteProposalFailed [AErr err] d = Entered ?d"
    using assms(2) by (simp add: client_plan_simps)
  moreover have "fsm_plan (client_fsm now') e a ?d = Rejected" for now' e a
    by (simp add: fsm_plan_def client_fsm_def ClientFinalityStates_def)
  ultimately show ?thesis
    using assms(2-) unfolding engine_is_fsm_plan [OF assms(1)]
    by (intro exI [of _ ?d]) (simp add: ProposeDeal_def ClientStateEntryFuncs_def)
qed

theorem client_write_failure_strands_funds_witness:
  "\<exists>d'. fsm_plan (client_fsm 0) ClientEventWriteProposalFailed [AErr (New ''dial'')]
      (client_sample_deal\<lparr>State := StorageDealFundsReserved, FundsReserved := Some 30\<rparr>) = Entered d' \<and>
    FundsReserved d' = Some 30"
  using client_write_failure_strands_funds [OF fsm_ref.fsm_engine_axioms,
      of "client_sample_deal\<lparr>State := StorageDealFundsReserved, FundsReserved := Some 30\<rparr>" 30
        "client_sample_env\<lparr>NewDealStream := (\<lambda>_. Some (New ''dial''))\<rparr>" "New ''dial''" 0]
  by auto

subsection \<open>Answers of the provider\<close>



text \<open>C9. \<open>CheckForDealAcceptance\<close> accepts a deal exactly when the start epoch has not elapsed by
  more than the grace period (as far as the chain head is known), the provider's state could be
  read and is one after publication (\<open>StorageDealFinalizing\<close> is not among them), and the state is for
  this proposal; the publish message is taken over.\<close>

theorem CheckForDealAcceptance_accepts_iff:
  "Trig ClientEventDealAccepted [ACidPtr p] \<in> set (CheckForDealAcceptance env d) \<longleftrightarrow>
     (\<exists>st. GetProviderDealState env (ProposalCid d) = Inr st \<and>
        PDState st \<in> {StorageDealStaged, StorageDealAwaitingPreCommit, StorageDealSealing,
          StorageDealActive, StorageDealExpired, StorageDealSlashed} \<and>
        PDProposalCid st = Some (ProposalCid d) \<and> PDPublishCid st = p) \<and>
     \<not> (\<exists>tok epoch. GetChainHead env = Inr (tok, epoch) \<and> i64 (StartEpoch (Proposal d) + 10) < epoch)"
  by (auto simp: CheckForDealAcceptance_def start_elapsed_def waitAgain_def isAccepted_def
      isFailed_def MaxGraceEpochsForDealAcceptance_def split: option.splits on_err_splits if_splits)

theorem CheckForDealAcceptance_accepts_iff_witness:
  "Trig ClientEventDealAccepted [ACidPtr (Some ''pub'')] \<in>
     set (CheckForDealAcceptance client_sample_env client_sample_deal)"
  using CheckForDealAcceptance_accepts_iff [of "Some ''pub''" client_sample_env client_sample_deal]
  by (auto simp: client_sample_env_def client_sample_deal_def client_sample_proposal_def i64_def)

subsection \<open>The timeline\<close>

definition timeline_ok :: "ClientDeal \<Rightarrow> bool" where
  "timeline_ok d \<longleftrightarrow> stages_wf (DealStagesOf d)"

lemma AddLog_timeline: "timeline_ok d \<Longrightarrow> timeline_ok (AddLog now msg d)"
  by (simp add: timeline_ok_def AddLog_def AddStageLog_wf_aux)

lemma timeline_update [simp]:
  "timeline_ok (d\<lparr>Message := m\<rparr>) = timeline_ok d" "timeline_ok (d\<lparr>State := s\<rparr>) = timeline_ok d"
  "timeline_ok (d\<lparr>FundsReserved := f\<rparr>) = timeline_ok d"
  "timeline_ok (d\<lparr>AddFundsCid := c\<rparr>) = timeline_ok d"
  "timeline_ok (d\<lparr>TransferChannelID := ch\<rparr>) = timeline_ok d"
  "timeline_ok (d\<lparr>PollRetryCount := n\<rparr>) = timeline_ok d"
  "timeline_ok (d\<lparr>PollErrorCount := n\<rparr>) = timeline_ok d"
  "timeline_ok (d\<lparr>PublishMessage := p\<rparr>) = timeline_ok d" "timeline_ok (d\<lparr>DealID := i\<rparr>) = timeline_ok d"
  "timeline_ok (d\<lparr>SectorNumber := i\<rparr>) = timeline_ok d" "timeline_ok (d\<lparr>SlashEpoch := e\<rparr>) = timeline_ok d"
  by (simp_all add: timeline_ok_def)

lemma fail_message_timeline: "timeline_ok d \<Longrightarrow> timeline_ok (fail_message now msg d)"
  by (simp add: fail_message_def AddLog_timeline)

lemma timeline_rows:
  "list_all (ev_keeps (client_fsm now) timeline_ok) (ClientEvents_1 now)"
  "list_all (ev_keeps (client_fsm now) timeline_ok) (ClientEvents_2 now)"
  unfolding ClientEvents_1_def ClientEvents_2_def list.pred_inject
  by (intro conjI ev_keepsI; auto simp: transition_def note_error_def no_action_def client_fsm_def
    Let_def AddLog_timeline fail_message_timeline split: if_splits option.splits)+

interpretation client_timeline: deal_invariant "client_machine fsm_plan external may_restart"
  "\<lambda>d. timeline_ok d \<and> client_deal_ok d" for external may_restart
proof
  fix d :: ClientDeal and env e a d'
  assume "timeline_ok d \<and> client_deal_ok d"
    and "Plan (client_machine fsm_plan external may_restart) env e a d = Recorded d' \<or>
      Plan (client_machine fsm_plan external may_restart) env e a d = Entered d'"
  then show "timeline_ok d' \<and> client_deal_ok d'"
    using client_plan_ok [of d "EnvNow env" e a d']
      table_keeps [of "client_fsm (EnvNow env)" timeline_ok d e a d'] timeline_rows [of "EnvNow env"]
    by (simp add: client_machine_defs client_fsm_def ClientEvents_def)
next
  fix d :: ClientDeal and env
  assume "timeline_ok d \<and> client_deal_ok d"
    and "EnvOK (client_machine fsm_plan external may_restart) env"
  then have "client_handler_ok d (client_handler env d)"
    by (intro client_handlers_ok) (simp_all add: client_machine_defs)
  then have "list_all (benign_async client_entry) (client_handler env d)"
    by (simp add: client_hok_defs)
  then show "list_all nil_free (Handler (client_machine fsm_plan external may_restart) env d)"
    by (simp add: client_machine_defs benign_async_nil_free)
qed

text \<open>C10. The timeline of a client deal stays well formed in every run, whatever events arrive and
  whenever the process restarts: there is one entry per stage, and no two consecutive logs of a
  stage are the same. No handler dereferences nil, given answers with the fields the code
  dereferences.\<close>

theorem client_timeline_wf:
  assumes "fsm_engine plan"
    and "machine_reach (client_machine plan external may_restart) (start_cfg d q) c"
    and "State d = StorageDealUnknown" "DataRefOf d \<noteq> None" "DealStagesOf d = NewDealStages"
  shows "stages_wf (DealStagesOf (cfg_deal c)) \<and> cfg_nil_free c"
proof -
  from assms(2) have "machine_reach (client_machine fsm_plan external may_restart) (start_cfg d q) c"
    by (simp only: engine_is_fsm_plan [OF assms(1)])
  moreover from assms(3-) have "timeline_ok d \<and> client_deal_ok d"
    by (simp add: timeline_ok_def client_deal_ok_def NewDealStages_def stages_wf_def)
  ultimately show ?thesis
    using client_timeline.reach_deal [of external may_restart d q c] by (simp add: timeline_ok_def)
qed

theorem client_timeline_wf_witness:
  "stages_wf (DealStagesOf (cfg_deal client_sample_expired)) \<and>
   map StageName (the (DealStagesOf (cfg_deal client_sample_expired))) =
     [''StorageDealReserveClientFunds'', ''StorageDealFundsReserved'', ''StorageDealCheckForAcceptance'',
      ''StorageDealProposalAccepted'', ''StorageDealAwaitingPreCommit'', ''StorageDealSealing'']"
proof -
  have "map StageName (the (DealStagesOf (cfg_deal client_sample_expired))) =
     [''StorageDealReserveClientFunds'', ''StorageDealFundsReserved'', ''StorageDealCheckForAcceptance'',
      ''StorageDealProposalAccepted'', ''StorageDealAwaitingPreCommit'', ''StorageDealSealing'']"
    by code_simp
  with client_timeline_wf [OF fsm_ref.fsm_engine_axioms client_sample_reach(2) client_sample_start(1,3)]
  show ?thesis by (simp add: client_sample_deal_def)
qed

end
