(* ===== verification/Datastore.thy ===== *)
theory Datastore
  imports Market_Prelude
begin

section \<open>Key-value datastores and blockstore trackers\<close>

text \<open>
  What the market components rely on of the datastore module: a parameter \<open>ds_api\<close>, with the
  documented behaviour as the laws of the locale \<open>datastore\<close> (a value that was put is read back, a
  key that was never put is not found, an operation that fails changes nothing). The type of the
  stored bytes is a parameter; \<open>map_ds\<close> is a datastore in memory. The locale \<open>persisted\<close> is what
  the two ask stores promise. Then \<open>shared/movekey.go\<close>, and the open blockstores of
  \<open>stores/ro_bstores.go\<close> and \<open>stores/rw_bstores.go\<close>, which both promise what the locale
  \<open>tracker\<close> says.
\<close>

record ('s, 'v) ds_api =
  DsHas :: "'s \<Rightarrow> string \<Rightarrow> go_error + bool"
  DsGet :: "'s \<Rightarrow> string \<Rightarrow> go_error + 'v"
  DsPut :: "'s \<Rightarrow> string \<Rightarrow> 'v \<Rightarrow> go_error option \<times> 's"
  DsDelete :: "'s \<Rightarrow> string \<Rightarrow> go_error option \<times> 's"

locale datastore =
  fixes api :: "('s, 'v) ds_api" and view :: "'s \<Rightarrow> string \<rightharpoonup> 'v"
  assumes ds_has: "DsHas api s k = Inr b \<Longrightarrow> b \<longleftrightarrow> view s k \<noteq> None"
    and ds_get: "DsGet api s k = Inr v \<Longrightarrow> view s k = Some v"
    and ds_get_missing: "DsGet api s k = Inl e \<Longrightarrow> errors_Is e DatastoreErrNotFound \<Longrightarrow> view s k = None"
    and ds_put: "DsPut api s k v = (None, s') \<Longrightarrow> view s' = (view s)(k \<mapsto> v)"
    and ds_put_err: "DsPut api s k v = (Some e, s') \<Longrightarrow> view s' = view s"
    and ds_delete: "DsDelete api s k = (None, s') \<Longrightarrow> view s' = (view s)(k := None)"
    and ds_delete_err: "DsDelete api s k = (Some e, s') \<Longrightarrow> view s' = view s"

definition map_ds :: "(string \<rightharpoonup> 'v, 'v) ds_api" where
  "map_ds = \<lparr>DsHas = (\<lambda>s k. Inr (s k \<noteq> None)),
     DsGet = (\<lambda>s k. case s k of None \<Rightarrow> Inl (Sentinel DatastoreErrNotFound ''datastore: key not found'')
       | Some v \<Rightarrow> Inr v),
     DsPut = (\<lambda>s k v. (None, s(k \<mapsto> v))),
     DsDelete = (\<lambda>s k. (None, s(k := None)))\<rparr>"

interpretation map_ds: datastore map_ds id
  by unfold_locales (auto simp: map_ds_def split: option.splits)

subsection \<open>Moving a key\<close>

definition MoveKey :: "('s, 'v) ds_api \<Rightarrow> string \<Rightarrow> string \<Rightarrow> 's \<Rightarrow> go_error option \<times> 's" where
  "MoveKey api old new s = on_err (DsHas api s old)
     (\<lambda>err. (Some err, s))
     (\<lambda>has. if \<not> has then (None, s)
        else on_err (DsGet api s old)
          (\<lambda>err. (Some err, s))
          (\<lambda>value. case DsPut api s new value of
             (Some err, s1) \<Rightarrow> (Some err, s1)
           | (None, s1) \<Rightarrow> DsDelete api s1 old))"

context datastore
begin

text \<open>Whatever fails on the way, the value is still under one of the two keys.\<close>

lemma MoveKey_keeps:
  assumes "MoveKey api old new s = (r, s')" and "view s old = Some v" and "old \<noteq> new"
  shows "view s' old = Some v \<or> view s' new = Some v"
  using assms by (cases r) (auto simp: MoveKey_def split: on_err_splits if_splits prod.splits option.splits
      dest!: ds_has ds_get ds_put ds_put_err ds_delete ds_delete_err)

lemma MoveKey_ok:
  assumes "MoveKey api old new s = (None, s')" and "old \<noteq> new"
  shows "view s' = (case view s old of None \<Rightarrow> view s | Some v \<Rightarrow> (view s)(new \<mapsto> v, old := None))"
  using assms by (auto simp: MoveKey_def split: on_err_splits if_splits prod.splits option.splits
      dest!: ds_has ds_get ds_put ds_delete)

end

subsection \<open>A value kept on disk and in memory\<close>

text \<open>
  \<open>save\<close> writes the value and then caches it, \<open>load\<close> reads the cache from disk, \<open>restart\<close> loses
  the cache; \<open>stored\<close> is what the disk holds.
\<close>

locale persisted =
  fixes save :: "'a \<Rightarrow> 'st \<Rightarrow> go_error option \<times> 'st"
    and load :: "'st \<Rightarrow> go_error option \<times> 'st"
    and restart :: "'st \<Rightarrow> 'st"
    and cache :: "'st \<Rightarrow> 'a option"
    and stored :: "'st \<Rightarrow> 'a option"
  assumes save_ok: "save a s = (None, s') \<Longrightarrow> cache s' = Some a \<and> stored s' = Some a"
    and save_err: "save a s = (Some e, s') \<Longrightarrow> cache s' = cache s \<and> stored s' = stored s"
    and load_ok: "load s = (None, s') \<Longrightarrow> stored s' = stored s \<and>
      cache s' = (case stored s of None \<Rightarrow> cache s | Some a \<Rightarrow> Some a)"
    and load_err: "load s = (Some e, s') \<Longrightarrow> cache s' = cache s \<and> stored s' = stored s"
    and restart_cache: "cache (restart s) = None"
    and restart_stored: "stored (restart s) = stored s"
begin

lemma save_then_reload:
  "save a s = (None, s1) \<Longrightarrow> load (restart s1) = (None, s2) \<Longrightarrow> cache s2 = Some a"
  using save_ok [of a s s1] load_ok [of "restart s1" s2] by (simp add: restart_stored)

lemma save_consistent: "save a s = (r, s') \<Longrightarrow> cache s = stored s \<Longrightarrow> cache s' = stored s'"
  using save_ok [of a s s'] save_err [of a s _ s'] by (cases r) auto

lemma reload_consistent: "load (restart s) = (None, s') \<Longrightarrow> cache s' = stored s'"
  using load_ok [of "restart s" s'] by (simp add: restart_cache split: option.splits)

end

subsection \<open>Open blockstores\<close>

text \<open>
  The map of open blockstores, under a mutex. \<open>RO_Untrack\<close> closes a store that is an
  \<open>io.Closer\<close>; \<open>closer\<close> says whether a store is one and what closing it answers.
\<close>

type_synonym 'b stores = "string \<rightharpoonup> 'b"

definition stores_not_found :: "string \<Rightarrow> go_error" where
  "stores_not_found key = Wrap (''could not get blockstore for key '' @ key @ '': '')
     (Sentinel StoresErrNotFound ''not found'')"

definition RO_Track :: "string \<Rightarrow> 'b \<Rightarrow> 'b stores \<Rightarrow> bool \<times> 'b stores" where
  "RO_Track key bs r = (case r key of Some _ \<Rightarrow> (False, r) | None \<Rightarrow> (True, r(key \<mapsto> bs)))"

definition RO_Get :: "string \<Rightarrow> 'b stores \<Rightarrow> go_error + 'b" where
  "RO_Get key r = (case r key of Some bs \<Rightarrow> Inr bs | None \<Rightarrow> Inl (stores_not_found key))"

definition RO_Untrack ::
  "('b \<Rightarrow> go_error option option) \<Rightarrow> string \<Rightarrow> 'b stores \<Rightarrow> go_error option \<times> 'b stores" where
  "RO_Untrack closer key r = (case r key of
     None \<Rightarrow> (None, r)
   | Some bs \<Rightarrow> (case closer bs of
       Some (Some err) \<Rightarrow> (Some (Wrap ''failed to close read-only blockstore: '' err), r(key := None))
     | _ \<Rightarrow> (None, r(key := None))))"

definition RW_Get :: "string \<Rightarrow> 'b stores \<Rightarrow> go_error + 'b" where
  "RW_Get key r = (case r key of Some bs \<Rightarrow> Inr bs | None \<Rightarrow> Inl (stores_not_found key))"

definition RW_GetOrOpen :: "(go_error + 'b) \<Rightarrow> string \<Rightarrow> 'b stores \<Rightarrow> (go_error + 'b) \<times> 'b stores" where
  "RW_GetOrOpen openReadWrite key r = (case r key of
     Some bs \<Rightarrow> (Inr bs, r)
   | None \<Rightarrow> on_err openReadWrite
       (\<lambda>err. (Inl (Wrap ''failed to create read-write blockstore: '' err), r))
       (\<lambda>bs. (Inr bs, r(key \<mapsto> bs))))"

text \<open>\<open>Untrack\<close> finalizes an open store and ignores the error.\<close>

definition RW_Untrack :: "string \<Rightarrow> 'b stores \<Rightarrow> 'b list \<times> 'b stores" where
  "RW_Untrack key r = ((case r key of Some bs \<Rightarrow> [bs] | None \<Rightarrow> []), r(key := None))"

text \<open>The contract of the two: the first store added under a key stays until the key is dropped.\<close>

locale tracker =
  fixes get :: "string \<Rightarrow> 's \<Rightarrow> go_error + 'b"
    and add :: "string \<Rightarrow> 'b \<Rightarrow> 's \<Rightarrow> 's"
    and untrack :: "string \<Rightarrow> 's \<Rightarrow> 's"
    and content :: "'s \<Rightarrow> string \<rightharpoonup> 'b"
  assumes get_content: "get k s = (case content s k of Some b \<Rightarrow> Inr b | None \<Rightarrow> Inl (stores_not_found k))"
    and add_content: "content (add k b s) =
      (case content s k of Some _ \<Rightarrow> content s | None \<Rightarrow> (content s)(k \<mapsto> b))"
    and untrack_content: "content (untrack k s) = (content s)(k := None)"

datatype 'b tracker_op = TAdd string 'b | TDrop string

fun first_since_drop :: "string \<Rightarrow> 'b option \<Rightarrow> 'b tracker_op list \<Rightarrow> 'b option" where
  "first_since_drop k cur [] = cur"
| "first_since_drop k cur (TAdd k' b # ops) =
     first_since_drop k (if k' = k \<and> cur = None then Some b else cur) ops"
| "first_since_drop k cur (TDrop k' # ops) = first_since_drop k (if k' = k then None else cur) ops"

primrec run_tracker_op ::
  "(string \<Rightarrow> 'b \<Rightarrow> 's \<Rightarrow> 's) \<Rightarrow> (string \<Rightarrow> 's \<Rightarrow> 's) \<Rightarrow> 'b tracker_op \<Rightarrow> 's \<Rightarrow> 's" where
  "run_tracker_op add untrack (TAdd k b) s = add k b s"
| "run_tracker_op add untrack (TDrop k) s = untrack k s"

context tracker
begin

lemma content_run:
  "content (fold (run_tracker_op add untrack) ops s) k = first_since_drop k (content s k) ops"
  by (induction k "content s k" ops arbitrary: s rule: first_since_drop.induct)
    (simp_all add: add_content untrack_content split: option.split)

lemma get_run:
  "get k (fold (run_tracker_op add untrack) ops s) =
     (case first_since_drop k (content s k) ops of Some b \<Rightarrow> Inr b | None \<Rightarrow> Inl (stores_not_found k))"
  by (simp add: get_content content_run)

end

interpretation ro_tracker: tracker RO_Get "\<lambda>k b s. snd (RO_Track k b s)"
  "\<lambda>k s. snd (RO_Untrack closer k s)" "\<lambda>s. s" for closer
  by unfold_locales (auto simp: RO_Get_def RO_Track_def RO_Untrack_def split: option.splits)

interpretation rw_tracker: tracker RW_Get "\<lambda>k b s. snd (RW_GetOrOpen (Inr b) k s)"
  "\<lambda>k s. snd (RW_Untrack k s)" "\<lambda>s. s"
  by unfold_locales (auto simp: RW_Get_def RW_GetOrOpen_def RW_Untrack_def split: option.splits)

text \<open>
  Open blockstores, read-only and read-write: after any sequence of operations, \<open>Get\<close> answers the
  store that was tracked (opened) first under the key since the key was last untracked, and a
  not-found error when there is none.
\<close>
theorem blockstores_first_tracked:
  "RO_Get key (fold (run_tracker_op (\<lambda>k b s. snd (RO_Track k b s)) (\<lambda>k s. snd (RO_Untrack closer k s)))
     ops Map.empty) =
     (case first_since_drop key None ops of Some b \<Rightarrow> Inr b | None \<Rightarrow> Inl (stores_not_found key))
   \<and> RW_Get key (fold (run_tracker_op (\<lambda>k b s. snd (RW_GetOrOpen (Inr b) k s)) (\<lambda>k s. snd (RW_Untrack k s)))
     ops Map.empty) =
     (case first_since_drop key None ops of Some b \<Rightarrow> Inr b | None \<Rightarrow> Inl (stores_not_found key))"
  by (simp add: ro_tracker.get_run rw_tracker.get_run)

subsection \<open>Waiting for a shard of the DAG store\<close>

text \<open>\<open>stores/dagstore.go\<close>: the DAG store answers a request and later sends its result; \<open>shard_wait\<close> is what comes
  first, the result or the end of the context.\<close>

datatype shard_wait = CtxEnded go_error | ShardResult "go_error option"

definition await_shard :: "go_error option \<Rightarrow> shard_wait \<Rightarrow> go_error option" where
  "await_shard request w = (case request of
     Some err \<Rightarrow> Some err
   | None \<Rightarrow> (case w of CtxEnded err \<Rightarrow> Some err | ShardResult res \<Rightarrow> res))"

definition RegisterShardSync :: "go_error option \<Rightarrow> shard_wait \<Rightarrow> go_error option" where
  "RegisterShardSync registerShard w = await_shard registerShard w"

definition DestroyShardSync :: "go_error option \<Rightarrow> shard_wait \<Rightarrow> go_error option" where
  "DestroyShardSync destroyShard w = await_shard destroyShard w"

text \<open>No error only after the result came, without one.\<close>

lemma shard_done_iff:
  "RegisterShardSync request w = None \<longleftrightarrow> request = None \<and> w = ShardResult None"
  "DestroyShardSync request w = None \<longleftrightarrow> request = None \<and> w = ShardResult None"
  by (auto simp: RegisterShardSync_def DestroyShardSync_def await_shard_def split: option.splits shard_wait.splits)

end
