(* ===== verification/Storage_Ask_Store.thy ===== *)
theory Storage_Ask_Store
  imports Storage_Types Datastore
begin

section \<open>Storage provider: the stored ask\<close>

text \<open>
  \<open>storagemarket/impl/storedask/storedask.go\<close> and \<open>SignMinerData\<close> of
  \<open>storagemarket/impl/providerutils/providerutils.go\<close>: the provider's signed ask, kept in a datastore
  and cached in memory. The datastore, its migrations, the CBOR codec and the node are the record
  \<open>storedask_env\<close>; \<open>SetHead\<close> and \<open>SignHead\<close> are the answers of the two calls of \<open>GetChainHead\<close>
  in one \<open>SetAsk\<close>. The mutex makes every operation atomic.
\<close>

definition DefaultPrice :: token_amount where "DefaultPrice = 500000000"
definition DefaultVerifiedPrice :: token_amount where "DefaultVerifiedPrice = 50000000"
definition DefaultDuration :: chain_epoch where "DefaultDuration = 1000000"
definition DefaultMinPieceSize :: uint64 where "DefaultMinPieceSize = 256"
definition DefaultMaxPieceSize :: uint64 where "DefaultMaxPieceSize = push_bit 20 1"

record ('s, 'v) storedask_env =
  SaDs :: "('s, 'v) ds_api"
  SaKey :: string
  SaBuildMigrations :: "go_error option"
  SaMigrateDs :: "'s \<Rightarrow> go_error option \<times> 's"
  DumpSigned :: "SignedStorageAsk \<Rightarrow> go_error + 'v"
  ReadSigned :: "'v \<Rightarrow> go_error + SignedStorageAsk"
  SetHead :: "go_error + tipset_token \<times> chain_epoch"
  SignHead :: "go_error + tipset_token \<times> chain_epoch"
  DumpStorageAsk :: "StorageAsk \<Rightarrow> go_error + string"
  WorkerLookup :: "address \<Rightarrow> tipset_token \<Rightarrow> go_error + address"
  SignBytes :: "address \<Rightarrow> string \<Rightarrow> go_error + string option"
  Actor :: address

record 's StoredAsk =
  CachedSigned :: "SignedStorageAsk option"
  SaDisk :: 's

text \<open>\<open>dumped\<close> is the serialization of the data.\<close>

definition SignMinerData ::
  "(go_error + string) \<Rightarrow> address \<Rightarrow> tipset_token \<Rightarrow> (address \<Rightarrow> tipset_token \<Rightarrow> go_error + address) \<Rightarrow>
   (address \<Rightarrow> string \<Rightarrow> go_error + string option) \<Rightarrow> go_error + string option" where
  "SignMinerData dumped addr tok workerLookup sign = on_err dumped
     (\<lambda>err. Inl (Wrap ''serializing: '' err))
     (\<lambda>msg. on_err (workerLookup addr tok) Inl
        (\<lambda>worker. on_err (sign worker msg) (\<lambda>err. Inl (Wrap ''failed to sign: '' err)) Inr))"

definition sa_sign :: "('s, 'v) storedask_env \<Rightarrow> StorageAsk \<Rightarrow> go_error + string option" where
  "sa_sign env ask = on_err (SignHead env) Inl
     (\<lambda>(tok, _). SignMinerData (DumpStorageAsk env ask) (Actor env) tok (WorkerLookup env) (SignBytes env))"

definition sa_saveAsk ::
  "('s, 'v) storedask_env \<Rightarrow> SignedStorageAsk \<Rightarrow> 's StoredAsk \<Rightarrow> go_error option \<times> 's StoredAsk" where
  "sa_saveAsk env a s = on_err (DumpSigned env a)
     (\<lambda>err. (Some err, s))
     (\<lambda>b. case DsPut (SaDs env) (SaDisk s) (SaKey env) b of
        (Some err, d) \<Rightarrow> (Some err, s\<lparr>SaDisk := d\<rparr>)
      | (None, d) \<Rightarrow> (None, s\<lparr>SaDisk := d, CachedSigned := Some a\<rparr>))"

definition sa_loadAsk ::
  "('s, 'v) storedask_env \<Rightarrow> 's StoredAsk \<Rightarrow> go_error option \<times> 's StoredAsk" where
  "sa_loadAsk env s = on_err (DsGet (SaDs env) (SaDisk s) (SaKey env))
     (\<lambda>err. (Some (Wrap ''failed to load most recent ask from disk: '' err), s))
     (\<lambda>askb. on_err (ReadSigned env askb) (\<lambda>err. (Some err, s)) (\<lambda>ssa. (None, s\<lparr>CachedSigned := Some ssa\<rparr>)))"

definition sa_tryLoadAsk ::
  "('s, 'v) storedask_env \<Rightarrow> 's StoredAsk \<Rightarrow> go_error option \<times> 's StoredAsk" where
  "sa_tryLoadAsk env s = (case sa_loadAsk env s of
     (Some err, s') \<Rightarrow> if errors_Is err DatastoreErrNotFound then (None, s') else (Some err, s')
   | (None, s') \<Rightarrow> (None, s'))"

definition sa_GetAsk :: "'s StoredAsk \<Rightarrow> SignedStorageAsk option" where
  "sa_GetAsk s = CachedSigned s"

text \<open>The sequence number and the piece sizes that a new ask starts from. A stored ask whose \<open>Ask\<close> is
  nil makes the code panic.\<close>

definition ask_base :: "SignedStorageAsk option \<Rightarrow> (uint64 \<times> uint64 \<times> uint64) go_run" where
  "ask_base cached = (case cached of
     None \<Rightarrow> Returns (0, DefaultMinPieceSize, DefaultMaxPieceSize)
   | Some ssa \<Rightarrow> (case Ask ssa of
       None \<Rightarrow> Panics
     | Some a \<Rightarrow> Returns (SeqNo a + 1, AskMinPieceSize a, AskMaxPieceSize a)))"

definition new_ask :: "('s, 'v) storedask_env \<Rightarrow> uint64 \<times> uint64 \<times> uint64 \<Rightarrow> chain_epoch \<Rightarrow>
    token_amount \<Rightarrow> token_amount \<Rightarrow> chain_epoch \<Rightarrow> StorageAskOption list \<Rightarrow> StorageAsk" where
  "new_ask env base height price verifiedPrice duration options = (case base of
     (seqno, minPieceSize, maxPieceSize) \<Rightarrow> fold (\<lambda>option ask. option ask) options
       \<lparr>Price = price, VerifiedPrice = verifiedPrice, AskMinPieceSize = minPieceSize,
        AskMaxPieceSize = maxPieceSize, AskMiner = Actor env, Timestamp = height,
        Expiry = i64 (height + duration), SeqNo = seqno\<rparr>)"

definition sa_SetAsk ::
  "('s, 'v) storedask_env \<Rightarrow> token_amount \<Rightarrow> token_amount \<Rightarrow> chain_epoch \<Rightarrow> StorageAskOption list \<Rightarrow>
   's StoredAsk \<Rightarrow> (go_error option \<times> 's StoredAsk) go_run" where
  "sa_SetAsk env price verifiedPrice duration options s = run_bind (ask_base (CachedSigned s)) (\<lambda>base.
     Returns (on_err (SetHead env)
       (\<lambda>err. (Some err, s))
       (\<lambda>(_, height). let ask = new_ask env base height price verifiedPrice duration options
          in on_err (sa_sign env ask)
            (\<lambda>err. (Some err, s))
            (\<lambda>sig. sa_saveAsk env \<lparr>Ask = Some ask, Signature = sig\<rparr> s))))"

definition NewStoredAsk ::
  "('s, 'v) storedask_env \<Rightarrow> StorageAskOption list \<Rightarrow> 's \<Rightarrow> (go_error + 's StoredAsk) go_run" where
  "NewStoredAsk env opts ds = (case SaBuildMigrations env of
     Some err \<Rightarrow> Returns (Inl err)
   | None \<Rightarrow> (case SaMigrateDs env ds of
       (Some err, _) \<Rightarrow> Returns (Inl err)
     | (None, versionedDs) \<Rightarrow> (case sa_tryLoadAsk env \<lparr>CachedSigned = None, SaDisk = versionedDs\<rparr> of
         (Some err, _) \<Rightarrow> Returns (Inl err)
       | (None, s) \<Rightarrow>
           if CachedSigned s = None
           then run_bind (sa_SetAsk env DefaultPrice DefaultVerifiedPrice DefaultDuration opts s) (\<lambda>r. case r of
               (Some err, _) \<Rightarrow> Returns (Inl (Wrap ''failed setting a default price: '' err))
             | (None, s') \<Rightarrow> Returns (Inr s'))
           else Returns (Inr s))))"

lemmas stored_ask_defs = sa_saveAsk_def sa_loadAsk_def sa_tryLoadAsk_def sa_GetAsk_def

subsection \<open>The store keeps what was set\<close>

locale signed_ask_disk = datastore "SaDs env" view for env :: "('s, 'v) storedask_env" and view +
  assumes signed_codec: "DumpSigned env a = Inr b \<Longrightarrow> ReadSigned env b = Inr a"
begin

definition disk_signed :: "'s StoredAsk \<Rightarrow> SignedStorageAsk option" where
  "disk_signed s = (case view (SaDisk s) (SaKey env) of
     None \<Rightarrow> None
   | Some b \<Rightarrow> (case ReadSigned env b of Inl _ \<Rightarrow> None | Inr a \<Rightarrow> Some a))"

end

sublocale signed_ask_disk \<subseteq> persisted "sa_saveAsk env" "sa_tryLoadAsk env"
  "\<lambda>s. s\<lparr>CachedSigned := None\<rparr>" CachedSigned disk_signed
proof (unfold_locales, goal_cases)
  case (1 a s s')
  then show ?case
    by (auto simp: stored_ask_defs disk_signed_def split: on_err_splits prod.splits option.splits sum.splits
        dest!: ds_put dest: signed_codec)
next
  case (2 a s e s')
  then show ?case
    by (auto simp: stored_ask_defs disk_signed_def split: on_err_splits prod.splits option.splits
        dest!: ds_put_err)
next
  case (3 s s')
  then show ?case
    by (auto simp: stored_ask_defs disk_signed_def split: on_err_splits prod.splits option.splits sum.splits if_splits
        dest!: ds_get dest: ds_get_missing)
next
  case (4 s e s')
  then show ?case
    by (auto simp: stored_ask_defs disk_signed_def split: on_err_splits prod.splits option.splits if_splits)
qed (simp_all add: signed_ask_disk.disk_signed_def [OF signed_ask_disk_axioms])

context signed_ask_disk
begin

lemma save_then_new:
  assumes save: "sa_saveAsk env a s = (None, s')" and new: "NewStoredAsk env opts (SaDisk s') = Returns (Inr s'')"
    and current: "SaMigrateDs env (SaDisk s') = (None, SaDisk s')"
  shows "CachedSigned s'' = Some a"
proof -
  from new current obtain s1 where load: "sa_tryLoadAsk env (s'\<lparr>CachedSigned := None\<rparr>) = (None, s1)"
    and s'': "CachedSigned s1 \<noteq> None \<Longrightarrow> s'' = s1"
    by (cases s') (auto simp: NewStoredAsk_def split: option.splits prod.splits if_splits)
  have "CachedSigned s1 = Some a" by (rule save_then_reload [OF save load])
  with s'' show ?thesis by simp
qed

lemma save_failed:
  "sa_saveAsk env a s = (Some e, s') \<Longrightarrow> CachedSigned s' = CachedSigned s \<and> view (SaDisk s') = view (SaDisk s)"
  by (auto simp: stored_ask_defs split: on_err_splits prod.splits option.splits dest!: ds_put_err)

end

text \<open>A store over a datastore in memory whose values are the asks themselves.\<close>

definition memory_signed_env :: "(string \<rightharpoonup> SignedStorageAsk, SignedStorageAsk) storedask_env" where
  "memory_signed_env = \<lparr>SaDs = map_ds, SaKey = ''latest'', SaBuildMigrations = None,
     SaMigrateDs = (\<lambda>s. (None, s)), DumpSigned = Inr, ReadSigned = Inr, SetHead = Inr (''tok'', 10),
     SignHead = Inr (''tok'', 10), DumpStorageAsk = (\<lambda>a. Inr (AskMiner a)),
     WorkerLookup = (\<lambda>a tok. Inr ''w''), SignBytes = (\<lambda>w msg. Inr (Some (w @ msg))), Actor = ''f01''\<rparr>"

interpretation memory_signed: signed_ask_disk memory_signed_env id
proof -
  have ds: "SaDs memory_signed_env = map_ds" by (simp add: memory_signed_env_def)
  show "signed_ask_disk memory_signed_env id"
    unfolding signed_ask_disk_def signed_ask_disk_axioms_def ds
    using map_ds.datastore_axioms by (simp add: memory_signed_env_def)
qed

subsection \<open>Setting an ask\<close>

text \<open>The two options that the market offers change the piece sizes only.\<close>

definition size_options :: "StorageAskOption list \<Rightarrow> bool" where
  "size_options options \<longleftrightarrow> (\<forall>opt \<in> set options. (\<exists>n. opt = MinPieceSize n) \<or> (\<exists>n. opt = MaxPieceSize n))"

lemma fold_size_options:
  "size_options options \<Longrightarrow> let b = fold (\<lambda>option ask. option ask) options a in
     Price b = Price a \<and> VerifiedPrice b = VerifiedPrice a \<and> AskMiner b = AskMiner a \<and>
     Timestamp b = Timestamp a \<and> Expiry b = Expiry a \<and> SeqNo b = SeqNo a"
  by (induction options arbitrary: a) (auto simp: size_options_def MinPieceSize_def MaxPieceSize_def Let_def)

text \<open>What a successful \<open>SetAsk\<close> stores.\<close>

lemma SetAsk_saved:
  assumes "sa_SetAsk env price verifiedPrice duration options s = Returns (None, s')"
  obtains tok height base tok' epoch msg worker sig where "SetHead env = Inr (tok, height)"
    "ask_base (CachedSigned s) = Returns base" "SignHead env = Inr (tok', epoch)"
    "DumpStorageAsk env (new_ask env base height price verifiedPrice duration options) = Inr msg"
    "WorkerLookup env (Actor env) tok' = Inr worker" "SignBytes env worker msg = Inr sig"
    "sa_saveAsk env \<lparr>Ask = Some (new_ask env base height price verifiedPrice duration options), Signature = sig\<rparr> s =
      (None, s')"
proof -
  from assms obtain base where base: "ask_base (CachedSigned s) = Returns base"
    by (auto simp: sa_SetAsk_def run_bind_Returns_iff)
  from assms base obtain tok height where head: "SetHead env = Inr (tok, height)"
    by (cases "SetHead env") (auto simp: sa_SetAsk_def)
  define ask where "ask = new_ask env base height price verifiedPrice duration options"
  from assms base head have signed: "on_err (sa_sign env ask) (\<lambda>err. (Some err, s))
      (\<lambda>sig. sa_saveAsk env \<lparr>Ask = Some ask, Signature = sig\<rparr> s) = (None, s')"
    by (simp add: sa_SetAsk_def ask_def Let_def)
  then obtain sig where sig: "sa_sign env ask = Inr sig"
    and save: "sa_saveAsk env \<lparr>Ask = Some ask, Signature = sig\<rparr> s = (None, s')"
    by (cases "sa_sign env ask") auto
  from sig obtain tok' epoch where shead: "SignHead env = Inr (tok', epoch)"
    by (cases "SignHead env") (auto simp: sa_sign_def)
  from sig shead obtain msg worker where "DumpStorageAsk env ask = Inr msg"
    "WorkerLookup env (Actor env) tok' = Inr worker" "SignBytes env worker msg = Inr sig"
    by (cases "DumpStorageAsk env ask"; cases "WorkerLookup env (Actor env) tok'")
      (auto simp: sa_sign_def SignMinerData_def split: on_err_splits)
  with that [OF head base shead] save show thesis by (auto simp: ask_def)
qed

lemma SetAsk_failed:
  assumes "signed_ask_disk env view"
    and "sa_SetAsk env price verifiedPrice duration options s = Returns (Some e, s')"
  shows "CachedSigned s' = CachedSigned s \<and> view (SaDisk s') = view (SaDisk s)"
proof -
  from assms(2) obtain base where
    "on_err (SetHead env) (\<lambda>err. (Some err, s)) (\<lambda>(_, height).
       on_err (sa_sign env (new_ask env base height price verifiedPrice duration options)) (\<lambda>err. (Some err, s))
         (\<lambda>sig. sa_saveAsk env \<lparr>Ask = Some (new_ask env base height price verifiedPrice duration options),
            Signature = sig\<rparr> s)) = (Some e, s')"
    by (auto simp: sa_SetAsk_def run_bind_Returns_iff Let_def)
  then show ?thesis
    using signed_ask_disk.save_failed [OF assms(1)]
    by (cases "SetHead env") (auto split: prod.splits on_err_splits)
qed

text \<open>
  C25. Setting the storage ask. When it succeeds, the new ask has the given prices, is stamped with the
  current height and expires \<open>duration\<close> epochs later (in \<open>int64\<close> arithmetic), names the provider, has
  the next sequence number, and is signed by the provider's worker over its serialization; it is the
  ask of every store made later on the same datastore. When it fails, neither the ask in memory nor
  the one on disk changes.
\<close>
theorem SetAsk_correct:
  assumes "signed_ask_disk env view"
    and "size_options options"
    and "sa_SetAsk env price verifiedPrice duration options s = Returns (r, s')"
    and "NewStoredAsk env opts (SaDisk s') = Returns (Inr s'')"
    and "SaMigrateDs env (SaDisk s') = (None, SaDisk s')"
  shows "case r of
    None \<Rightarrow> (\<exists>tok height tok' epoch worker msg sig ask. SetHead env = Inr (tok, height) \<and>
      sa_GetAsk s' = Some \<lparr>Ask = Some ask, Signature = sig\<rparr> \<and> sa_GetAsk s'' = sa_GetAsk s' \<and>
      Price ask = price \<and> VerifiedPrice ask = verifiedPrice \<and> Timestamp ask = height \<and>
      Expiry ask = i64 (height + duration) \<and> AskMiner ask = Actor env \<and>
      SeqNo ask = (case sa_GetAsk s of Some ssa \<Rightarrow> SeqNo (the (Ask ssa)) + 1 | None \<Rightarrow> 0) \<and>
      SignHead env = Inr (tok', epoch) \<and> WorkerLookup env (Actor env) tok' = Inr worker \<and>
      DumpStorageAsk env ask = Inr msg \<and> SignBytes env worker msg = Inr sig)
  | Some _ \<Rightarrow> sa_GetAsk s' = sa_GetAsk s \<and> view (SaDisk s') = view (SaDisk s)"
proof (cases r)
  case None
  with assms(3) have set: "sa_SetAsk env price verifiedPrice duration options s = Returns (None, s')" by simp
  obtain tok height base tok' epoch msg worker sig where head: "SetHead env = Inr (tok, height)"
    and base: "ask_base (CachedSigned s) = Returns base" and shead: "SignHead env = Inr (tok', epoch)"
    and sign: "DumpStorageAsk env (new_ask env base height price verifiedPrice duration options) = Inr msg"
      "WorkerLookup env (Actor env) tok' = Inr worker" "SignBytes env worker msg = Inr sig"
    and save: "sa_saveAsk env \<lparr>Ask = Some (new_ask env base height price verifiedPrice duration options),
      Signature = sig\<rparr> s = (None, s')"
    by (rule SetAsk_saved [OF set])
  have cached: "CachedSigned s' = Some \<lparr>Ask = Some (new_ask env base height price verifiedPrice duration options),
      Signature = sig\<rparr>"
    using save by (auto simp: stored_ask_defs split: on_err_splits prod.splits option.splits)
  have later: "CachedSigned s'' = CachedSigned s'"
    using signed_ask_disk.save_then_new [OF assms(1) save assms(4,5)] cached by simp
  have seq: "fst base = (case CachedSigned s of Some ssa \<Rightarrow> SeqNo (the (Ask ssa)) + 1 | None \<Rightarrow> 0)"
    using base by (auto simp: ask_base_def split: option.splits)
  have fields: "let b = new_ask env base height price verifiedPrice duration options in
      Price b = price \<and> VerifiedPrice b = verifiedPrice \<and> AskMiner b = Actor env \<and>
      Timestamp b = height \<and> Expiry b = i64 (height + duration) \<and> SeqNo b = fst base"
    unfolding new_ask_def using fold_size_options [OF assms(2)]
    by (cases base) (simp add: Let_def)
  show ?thesis
    unfolding None sa_GetAsk_def using head cached later seq fields shead sign by (auto simp: Let_def)
next
  case (Some e)
  with SetAsk_failed [OF assms(1)] assms(3) show ?thesis by (simp add: sa_GetAsk_def)
qed

theorem SetAsk_correct_witness:
  "\<exists>s0 s1. NewStoredAsk memory_signed_env [] Map.empty = Returns (Inr s0) \<and>
     sa_SetAsk memory_signed_env 7 3 100 [MinPieceSize 512] s0 = Returns (None, s1) \<and>
     (\<exists>ask sig. sa_GetAsk s1 = Some \<lparr>Ask = Some ask, Signature = sig\<rparr> \<and> SeqNo ask = 1 \<and> Expiry ask = 110)"
proof -
  define a0 where "a0 = \<lparr>Ask = Some \<lparr>Price = 500000000, VerifiedPrice = 50000000, AskMinPieceSize = 256,
    AskMaxPieceSize = push_bit 20 1, AskMiner = ''f01'', Timestamp = 10, Expiry = 1000010, SeqNo = 0\<rparr>,
    Signature = Some ''wf01''\<rparr>"
  define a1 where "a1 = \<lparr>Ask = Some \<lparr>Price = 7, VerifiedPrice = 3, AskMinPieceSize = 512,
    AskMaxPieceSize = push_bit 20 1, AskMiner = ''f01'', Timestamp = 10, Expiry = 110, SeqNo = 1\<rparr>,
    Signature = Some ''wf01''\<rparr>"
  define s0 where "s0 = \<lparr>CachedSigned = Some a0, SaDisk = [''latest'' \<mapsto> a0]\<rparr>"
  define s1 where "s1 = \<lparr>CachedSigned = Some a1, SaDisk = [''latest'' \<mapsto> a1]\<rparr>"
  note defs = NewStoredAsk_def sa_SetAsk_def ask_base_def new_ask_def sa_sign_def SignMinerData_def
    stored_ask_defs memory_signed_env_def map_ds_def Let_def DefaultPrice_def DefaultVerifiedPrice_def
    DefaultDuration_def DefaultMinPieceSize_def DefaultMaxPieceSize_def i64_def
    MinPieceSize_def
  have new: "NewStoredAsk memory_signed_env [] Map.empty = Returns (Inr s0)"
    by (simp add: defs s0_def a0_def)
  have set: "sa_SetAsk memory_signed_env 7 3 100 [MinPieceSize 512] s0 = Returns (None, s1)"
    by (simp add: defs s0_def a0_def s1_def a1_def)
  have later: "NewStoredAsk memory_signed_env [] (SaDisk s1) = Returns (Inr s1)"
    by (simp add: defs s1_def)
  have "size_options [MinPieceSize 512]" by (auto simp: size_options_def)
  moreover have "SaMigrateDs memory_signed_env (SaDisk s1) = (None, SaDisk s1)" by (simp add: memory_signed_env_def)
  ultimately have "\<exists>ask sig. sa_GetAsk s1 = Some \<lparr>Ask = Some ask, Signature = sig\<rparr> \<and> SeqNo ask = 1 \<and> Expiry ask = 110"
    using SetAsk_correct [OF memory_signed.signed_ask_disk_axioms _ set later]
    by (auto simp: s0_def a0_def sa_GetAsk_def memory_signed_env_def i64_def)
  with new set show ?thesis by blast
qed

end
