(* ===== verification/Storage_Provider_Ops.thy ===== *)
theory Storage_Provider_Ops
  imports Storage_Provider_States Storage_Client_States Storage_Ask_Store
begin

section \<open>Storage provider: operations and protocols\<close>

text \<open>
  The operations around the provider's state machine: \<open>storagemarket/impl/provider.go\<close> (receiving
  proposals, the ask and deal status protocols, importing data, listing deals, announcing deals,
  starting up), \<open>storagemarket/impl/provider_environments.go\<close>, the connection manager
  \<open>storagemarket/impl/connmanager/connmanager.go\<close> and \<open>shared/ready.go\<close>. The state machine group,
  the node, the file store, the codecs and the index provider are the record \<open>sprovider\<close>; what an
  operation does to them is its list of \<open>sp_effect\<close>s.
\<close>

subsection \<open>Connections\<close>

text \<open>Open deal streams by proposal CID, under a mutex; \<open>close\<close> is what closing a stream answers.\<close>

type_synonym 'st conns = "cid \<rightharpoonup> 'st"

definition DealStream :: "cid \<Rightarrow> 'st conns \<Rightarrow> go_error + 'st" where
  "DealStream proposalCid c = (case c proposalCid of
     Some s \<Rightarrow> Inr s | None \<Rightarrow> Inl (New ''no connection to provider''))"

definition AddStream :: "cid \<Rightarrow> 'st \<Rightarrow> 'st conns \<Rightarrow> go_error option \<times> 'st conns" where
  "AddStream proposalCid s c = (case c proposalCid of
     Some _ \<Rightarrow> (Some (New (''already have connected for proposal '' @ proposalCid)), c)
   | None \<Rightarrow> (None, c(proposalCid \<mapsto> s)))"

definition Disconnect :: "('st \<Rightarrow> go_error option) \<Rightarrow> cid \<Rightarrow> 'st conns \<Rightarrow> go_error option \<times> 'st conns" where
  "Disconnect close proposalCid c = (case c proposalCid of
     None \<Rightarrow> (None, c) | Some s \<Rightarrow> (close s, c(proposalCid := None)))"

subsection \<open>Readiness\<close>

text \<open>\<open>shared/ready.go\<close>: the ready event fires once; \<open>None\<close> from \<open>AwaitReady\<close> means that the caller
  still waits. Listeners that wait are called when it fires.\<close>

record 'l ReadyManager =
  isReady :: bool
  initErr :: "go_error option"
  listeners :: "'l list"

definition FireReady :: "go_error option \<Rightarrow> 'l ReadyManager \<Rightarrow> ('l \<times> go_error option) list \<times> 'l ReadyManager" where
  "FireReady err m = (if isReady m then ([], m)
     else (map (\<lambda>l. (l, err)) (listeners m), m\<lparr>isReady := True, initErr := err\<rparr>))"

definition OnReady :: "'l \<Rightarrow> 'l ReadyManager \<Rightarrow> ('l \<times> go_error option) list \<times> 'l ReadyManager" where
  "OnReady ready m = (if isReady m then ([(ready, initErr m)], m)
     else ([], m\<lparr>listeners := listeners m @ [ready]\<rparr>))"

definition AwaitReady :: "'l ReadyManager \<Rightarrow> go_error option option" where
  "AwaitReady m = (if isReady m then Some (initErr m) else None)"

text \<open>The format of the error has two verbs and no arguments.\<close>

definition awaitProviderReady :: "'l ReadyManager \<Rightarrow> go_error option option" where
  "awaitProviderReady m = map_option (map_option (\<lambda>err.
     New ''could not get deal with proposal CID %!s(MISSING): error waiting for provider startup: %!w(MISSING)''))
     (AwaitReady m)"

subsection \<open>The provider\<close>

record ProposalMsg =
  MsgDealProposal :: "(DealProposal \<times> string) option"
  MsgPiece :: "DataRef option"
  MsgFastRetrieval :: bool

record DealStatusRequest =
  ReqProposal :: cid
  ReqSignature :: string

record DealStatusResponse =
  DealStateOf :: ProviderDealState
  StatusSignature :: string

record sprovider =
  DealsGet :: "cid \<Rightarrow> go_error + MinerDeal"
  DealsBegin :: "cid \<Rightarrow> MinerDeal \<Rightarrow> go_error option"
  DealsSend :: "cid \<Rightarrow> ProviderEvent \<Rightarrow> StorageDealStatus fsm_arg list \<Rightarrow> go_error option"
  DealsList :: "go_error + MinerDeal list"
  DealsIsTerminated :: "MinerDeal \<Rightarrow> bool"
  AsIpldCid :: "DealProposal \<times> string \<Rightarrow> go_error + cid"
  CreateTemp :: "go_error + string"
  CloseTemp :: "string \<Rightarrow> go_error option"
  CurTime :: int
  NetID :: peer_id
  SpnChainHead :: "go_error + tipset_token \<times> chain_epoch"
  SpnWorkerLookup :: "address \<Rightarrow> tipset_token \<Rightarrow> go_error + address"
  SpnSignBytes :: "address \<Rightarrow> string \<Rightarrow> go_error + string option"
  SpnVerifySignature :: "string \<Rightarrow> address \<Rightarrow> string \<Rightarrow> tipset_token \<Rightarrow> go_error + bool"
  SpnActor :: address
  DumpCid :: "cid \<Rightarrow> go_error + string"
  DumpResponse :: "Response \<Rightarrow> go_error + string"
  DumpDealState :: "ProviderDealState \<Rightarrow> go_error + string"
  StoredAskOf :: "SignedStorageAsk option"
  MeshConnect :: "go_error option"
  NotifyPut :: "MinerDeal \<Rightarrow> go_error option"

datatype sp_effect =
    EBegin cid MinerDeal
  | ESend cid ProviderEvent "StorageDealStatus fsm_arg list"
  | EWriteDealResponse SignedResponse
  | ECloseStream
  | ECreateTemp string
  | ERemove string
  | EFsDelete string
  | ENotifyPut cid

definition sp_sign :: "sprovider \<Rightarrow> (go_error + string) \<Rightarrow> go_error + string option" where
  "sp_sign p dumped = on_err (SpnChainHead p)
     (\<lambda>err. Inl (Wrap ''couldn't get chain head: '' err))
     (\<lambda>(tok, _). SignMinerData dumped (SpnActor p) tok (SpnWorkerLookup p) (SpnSignBytes p))"

definition resendProposalResponse ::
  "sprovider \<Rightarrow> (SignedResponse \<Rightarrow> go_error option) \<Rightarrow> MinerDeal \<Rightarrow> sp_effect list \<times> go_error option" where
  "resendProposalResponse p write md =
     (let resp = \<lparr>RespState = MinerDeal.State md, RespMessage = MinerDeal.Message md,
            RespProposal = MinerDeal.ProposalCid md, RespPublishMessage = None\<rparr>
      in on_err (sp_sign p (DumpResponse p resp))
        (\<lambda>err. ([], Some (Wrap ''failed to sign response message: '' err)))
        (\<lambda>sig. let signed = \<lparr>ResponseOf = resp, RespSignature = sig\<rparr>
           in ([EWriteDealResponse signed, ECloseStream], write signed)))"

definition new_miner_deal ::
  "sprovider \<Rightarrow> peer_id \<Rightarrow> DealProposal \<times> string \<Rightarrow> cid \<Rightarrow> DataRef \<Rightarrow> bool \<Rightarrow> string \<Rightarrow> MinerDeal" where
  "new_miner_deal p remotePeer prop propCid ref fast path = \<lparr>MinerDeal.Proposal = fst prop, ClientSignature = snd prop,
     ProposalCid = propCid, AddFundsCid = None, PublishCid = None, Miner = NetID p, Client = remotePeer,
     State = StorageDealUnknown, PiecePath = [], MetadataPath = [], SlashEpoch = 0, FastRetrieval = fast,
     Message = [], FundsReserved = None, Ref = Some ref, AvailableForRetrieval = False, DealID = 0,
     CreationTime = CurTime p, TransferChannelId = None, SectorNumber = 0, InboundCAR = path\<rparr>"

text \<open>The file that the blocks of a transferred deal are written to; a manual deal needs none.\<close>

definition inbound_car :: "sprovider \<Rightarrow> DataRef \<Rightarrow> sp_effect list \<times> (go_error + string)" where
  "inbound_car p ref = (if TransferType ref = TTManual then ([], Inr [])
     else on_err (CreateTemp p)
       (\<lambda>err. ([], Inl (Wrap ''failed to create an empty temp CARv2 file: '' err)))
       (\<lambda>tmp. case CloseTemp p tmp of
          Some err \<Rightarrow> ([ECreateTemp tmp, ERemove tmp], Inl (Wrap ''failed to close temp file: '' err))
        | None \<Rightarrow> ([ECreateTemp tmp], Inr tmp)))"

definition begin_deal ::
  "sprovider \<Rightarrow> 'st \<Rightarrow> MinerDeal \<Rightarrow> 'st conns \<Rightarrow> sp_effect list \<times> 'st conns \<times> go_error option" where
  "begin_deal p s deal conns = (case DealsBegin p (MinerDeal.ProposalCid deal) deal of
     Some err \<Rightarrow> ([], conns, Some err)
   | None \<Rightarrow> (case AddStream (MinerDeal.ProposalCid deal) s conns of
       (Some err, conns') \<Rightarrow> ([EBegin (MinerDeal.ProposalCid deal) deal], conns', Some err)
     | (None, conns') \<Rightarrow> (case DealsSend p (MinerDeal.ProposalCid deal) ProviderEventOpen [] of
         Some err \<Rightarrow> ([EBegin (MinerDeal.ProposalCid deal) deal], conns', Some err)
       | None \<Rightarrow> ([EBegin (MinerDeal.ProposalCid deal) deal,
           ESend (MinerDeal.ProposalCid deal) ProviderEventOpen []], conns', None))))"

definition receiveDeal ::
  "sprovider \<Rightarrow> 'st \<Rightarrow> peer_id \<Rightarrow> (go_error + ProposalMsg) \<Rightarrow> (SignedResponse \<Rightarrow> go_error option) \<Rightarrow> 'st conns \<Rightarrow>
   sp_effect list \<times> 'st conns \<times> go_error option" where
  "receiveDeal p s remotePeer readProposal write conns = on_err readProposal
     (\<lambda>err. ([], conns, Some (Wrap ''failed to read proposal message: '' err)))
     (\<lambda>proposal. case MsgDealProposal proposal of
        None \<Rightarrow> ([], conns, Some (New ''failed to get deal proposal from proposal message''))
      | Some prop \<Rightarrow> on_err (AsIpldCid p prop)
          (\<lambda>err. ([], conns, Some (Wrap ''getting deal proposal as IPLD: '' err)))
          (\<lambda>propCid. case DealsGet p propCid of
             Inr md \<Rightarrow> (case resendProposalResponse p write md of (eff, r) \<Rightarrow> (eff, conns, r))
           | Inl _ \<Rightarrow> (case MsgPiece proposal of
               None \<Rightarrow> ([], conns, Some (New ''failed to get proposal piece from proposal message''))
             | Some ref \<Rightarrow> (case inbound_car p ref of
                 (eff, Inl err) \<Rightarrow> (eff, conns, Some err)
               | (eff, Inr path) \<Rightarrow>
                   (case begin_deal p s (new_miner_deal p remotePeer prop propCid ref (MsgFastRetrieval proposal) path) conns
                    of (eff', conns', r) \<Rightarrow> (eff @ eff', conns', r))))))"

definition HandleDealStream ::
  "sprovider \<Rightarrow> 'st \<Rightarrow> peer_id \<Rightarrow> (go_error + ProposalMsg) \<Rightarrow> (SignedResponse \<Rightarrow> go_error option) \<Rightarrow> 'st conns \<Rightarrow>
   sp_effect list \<times> 'st conns" where
  "HandleDealStream p s remotePeer readProposal write conns =
     (case receiveDeal p s remotePeer readProposal write conns of
        (eff, conns', Some err) \<Rightarrow> (eff @ [ECloseStream], conns')
      | (eff, conns', None) \<Rightarrow> (eff, conns'))"

subsection \<open>Protocols\<close>

definition HandleAskStream :: "sprovider \<Rightarrow> (go_error + address) \<Rightarrow> SignedStorageAsk option option" where
  "HandleAskStream p readAskRequest = on_err readAskRequest
     (\<lambda>err. None) (\<lambda>miner. Some (if SpnActor p \<noteq> miner then None else StoredAskOf p))"

definition op_VerifySignature :: "sprovider \<Rightarrow> string \<Rightarrow> address \<Rightarrow> string \<Rightarrow> tipset_token \<Rightarrow> go_error option" where
  "op_VerifySignature p signature signer buf tok = on_err (SpnVerifySignature p signature signer buf tok)
     (\<lambda>err. Some (Wrap ''verifying: '' err))
     (\<lambda>verified. if \<not> verified then Some (New ''could not verify signature'') else None)"

definition deal_status :: "MinerDeal \<Rightarrow> ProviderDealState" where
  "deal_status md = \<lparr>PDState = MinerDeal.State md, PDMessage = MinerDeal.Message md,
     PDProposal = Some (MinerDeal.Proposal md), PDProposalCid = Some (MinerDeal.ProposalCid md),
     PDAddFundsCid = MinerDeal.AddFundsCid md, PDPublishCid = MinerDeal.PublishCid md,
     PDDealID = MinerDeal.DealID md, PDFastRetrieval = MinerDeal.FastRetrieval md\<rparr>"

definition processDealStatusRequest :: "sprovider \<Rightarrow> DealStatusRequest \<Rightarrow> go_error + ProviderDealState" where
  "processDealStatusRequest p request = on_err (DealsGet p (ReqProposal request))
     (\<lambda>err. Inl (New ''no such proposal''))
     (\<lambda>md. on_err (DumpCid p (ReqProposal request))
        (\<lambda>err. Inl (New ''internal error''))
        (\<lambda>buf. on_err (SpnChainHead p)
           (\<lambda>err. Inl (New ''internal error''))
           (\<lambda>(tok, _). case op_VerifySignature p (ReqSignature request) (ProposalClient (MinerDeal.Proposal md)) buf tok of
              Some err \<Rightarrow> Inl (New ''internal error'')
            | None \<Rightarrow> Inr (deal_status md))))"

definition status_error :: "go_error \<Rightarrow> ProviderDealState" where
  "status_error err = \<lparr>PDState = StorageDealError, PDMessage = Error err, PDProposal = None, PDProposalCid = None,
     PDAddFundsCid = None, PDPublishCid = None, PDDealID = 0, PDFastRetrieval = False\<rparr>"

text \<open>The response that is written, if one is; dereferencing a nil signature panics.\<close>

definition HandleDealStatusStream ::
  "sprovider \<Rightarrow> (go_error + DealStatusRequest) \<Rightarrow> DealStatusResponse option go_run" where
  "HandleDealStatusStream p readRequest = on_err readRequest
     (\<lambda>err. Returns None)
     (\<lambda>request. let dealState = on_err (processDealStatusRequest p request) status_error (\<lambda>st. st)
        in on_err (sp_sign p (DumpDealState p dealState))
          (\<lambda>err. Returns None)
          (\<lambda>sig. case sig of
             None \<Rightarrow> Panics
           | Some s \<Rightarrow> Returns (Some \<lparr>DealStateOf = dealState, StatusSignature = s\<rparr>)))"

subsection \<open>Local deals\<close>

definition LocalDealCount :: "sprovider \<Rightarrow> go_error + nat" where
  "LocalDealCount p = on_err (DealsList p) Inl (\<lambda>out. Inr (length out))"

definition ListLocalDeals :: "sprovider \<Rightarrow> go_error + MinerDeal list" where
  "ListLocalDeals p = DealsList p"

definition GetLocalDeal :: "sprovider \<Rightarrow> cid \<Rightarrow> go_error + MinerDeal" where
  "GetLocalDeal p propCid = DealsGet p propCid"

text \<open>
  The loop over the sorted deals: \<open>i\<close> is the index, \<open>page\<close> what was added so far, \<open>startIndex\<close> an
  \<open>int\<close> that is negative until the start is found. Capacities are not negative in the callers.
\<close>

fun page_loop :: "cid option \<Rightarrow> int \<Rightarrow> nat \<Rightarrow> int \<Rightarrow> int \<Rightarrow> MinerDeal list \<Rightarrow> MinerDeal list \<Rightarrow> MinerDeal list" where
  "page_loop startPropCid offset limit i startIndex page [] = page"
| "page_loop startPropCid offset limit i startIndex page (dl # deals) =
     (let startIndex' = (if startPropCid = Some (MinerDeal.ProposalCid dl) then i + offset else startIndex);
          page' = (if startIndex' \<ge> 0 \<and> i \<ge> startIndex' then page @ [dl] else page)
      in if length page' = limit then page'
         else page_loop startPropCid offset limit (i + 1) startIndex' page' deals)"

text \<open>\<open>sortSlice\<close> is \<open>sort.Slice\<close> with the newest deals first.\<close>

definition ListLocalDealsPage ::
  "(MinerDeal list \<Rightarrow> MinerDeal list) \<Rightarrow> sprovider \<Rightarrow> cid option \<Rightarrow> int \<Rightarrow> nat \<Rightarrow> go_error + MinerDeal list" where
  "ListLocalDealsPage sortSlice p startPropCid offset limit =
     (if limit = 0 then Inr []
      else on_err (DealsList p) Inl
        (\<lambda>deals. Inr (page_loop startPropCid offset limit 0 (if startPropCid = None then 0 else -1) []
           (sortSlice deals))))"

subsection \<open>Data for offline deals\<close>

text \<open>What \<open>ImportDataForDeal\<close> learns on its way: the outcome of the copy, the size of the file, the seek,
  the proof type, the piece commitment, the padded size of the file and the padded commitment.\<close>

record import_env =
  ImCopy :: "go_error option"
  ImSize :: uint64
  ImSeek :: "go_error option"
  ImProofType :: "go_error + nat"
  ImPieceCommitment :: "nat \<Rightarrow> uint64 \<Rightarrow> go_error + cid"
  ImPaddedSize :: "uint64 \<Rightarrow> uint64"
  ImPadCommP :: "cid \<Rightarrow> uint64 \<Rightarrow> uint64 \<Rightarrow> go_error + cid"

definition import_commp :: "import_env \<Rightarrow> MinerDeal \<Rightarrow> go_error + cid" where
  "import_commp im d = (case ImCopy im of
     Some err \<Rightarrow> Inl (Wrap ''importing deal data failed: '' err)
   | None \<Rightarrow> (case ImSeek im of
       Some err \<Rightarrow> Inl (Wrap ''failed to seek through temp imported file: '' err)
     | None \<Rightarrow> on_err (ImProofType im)
         (\<lambda>err. Inl (Wrap ''failed to determine proof type: '' err))
         (\<lambda>proofType. on_err (ImPieceCommitment im proofType (ImSize im))
            (\<lambda>err. Inl (Wrap ''failed to generate commP: '' err))
            (\<lambda>pieceCid. if ImPaddedSize im (ImSize im) < PieceSize (MinerDeal.Proposal d)
               then ImPadCommP im pieceCid (ImPaddedSize im (ImSize im)) (PieceSize (MinerDeal.Proposal d))
               else Inr pieceCid))))"

definition ImportDataForDeal :: "sprovider \<Rightarrow> import_env \<Rightarrow> cid \<Rightarrow> sp_effect list \<times> go_error option" where
  "ImportDataForDeal p im propCid = on_err (DealsGet p propCid)
     (\<lambda>err. ([], Some (Wrap (''failed getting deal '' @ propCid @ '': '') err)))
     (\<lambda>d. on_err (CreateTemp p)
        (\<lambda>err. ([], Some (Wrap ''failed to create temp file for data import: '' err)))
        (\<lambda>tmp. on_err (import_commp im d)
           (\<lambda>err. ([ECreateTemp tmp, EFsDelete tmp], Some err))
           (\<lambda>pieceCid.
              if pieceCid \<noteq> PieceCID (MinerDeal.Proposal d)
              then ([ECreateTemp tmp, EFsDelete tmp], Some (New (''given data does not match expected commP (got: '' @
                pieceCid @ '', expected '' @ PieceCID (MinerDeal.Proposal d) @ '')'')))
              else ([ECreateTemp tmp, ESend propCid ProviderEventVerifiedData [APath tmp, APath []]],
                DealsSend p propCid ProviderEventVerifiedData [APath tmp, APath []]))))"

subsection \<open>Collateral\<close>

text \<open>\<open>AddStorageCollateral\<close> waits for the message: \<open>invoked\<close> lists the calls of its callback (an error, or
  an exit code with its text); without one it waits forever.\<close>

definition AddStorageCollateral ::
  "(go_error + cid) \<Rightarrow> (cid \<Rightarrow> (go_error + nat \<times> string) list \<times> go_error option) \<Rightarrow> go_error option go_run" where
  "AddStorageCollateral addFunds waitForMessage = on_err addFunds
     (\<lambda>err. Returns (Some err))
     (\<lambda>mcid. case waitForMessage mcid of
        (invoked, Some err) \<Rightarrow> Returns (Some err)
      | (invoked, None) \<Rightarrow> (case invoked of
          [] \<Rightarrow> Loops
        | cb # _ \<Rightarrow> Returns (on_err cb
            (\<lambda>err. Some (Wrap ''AddFunds errored: '' err))
            (\<lambda>(code, text). if code \<noteq> 0 then Some (New (''AddFunds error, exit code: '' @ text)) else None))))"

definition GetStorageCollateral ::
  "sprovider \<Rightarrow> (address \<Rightarrow> tipset_token \<Rightarrow> go_error + Balance) \<Rightarrow> go_error + Balance" where
  "GetStorageCollateral p getBalance = on_err (SpnChainHead p) Inl (\<lambda>(tok, _). getBalance (SpnActor p) tok)"

definition RetryDealPublishing :: "sprovider \<Rightarrow> cid \<Rightarrow> sp_effect list \<times> go_error option" where
  "RetryDealPublishing p propcid = ([ESend propcid ProviderEventRestart []], DealsSend p propcid ProviderEventRestart [])"

subsection \<open>Announcing deals\<close>

definition AnnounceDealToIndexer :: "sprovider \<Rightarrow> cid \<Rightarrow> sp_effect list \<times> go_error option" where
  "AnnounceDealToIndexer p proposalCid = on_err (DealsGet p proposalCid)
     (\<lambda>err. ([], Some (Wrap (''failed getting deal '' @ proposalCid @ '': '') err)))
     (\<lambda>deal. case MeshConnect p of
        Some err \<Rightarrow> ([], Some (Wrap
          ''cannot publish index record as indexer host failed to connect to the full node: '' err))
      | None \<Rightarrow> ([ENotifyPut (MinerDeal.ProposalCid deal)], NotifyPut p deal))"

text \<open>The errors that are collected, in order; none means nil.\<close>

fun announce_loop :: "sprovider \<Rightarrow> MinerDeal list \<Rightarrow> sp_effect list \<times> go_error list" where
  "announce_loop p [] = ([], [])"
| "announce_loop p (d # ds) =
     (if MinerDeal.State d \<notin> set StatesKnownBySealingSubsystem \<or> MinerDeal.State d \<in> set ProviderFinalityStates
      then announce_loop p ds
      else case AnnounceDealToIndexer p (MinerDeal.ProposalCid d) of
        (eff, r) \<Rightarrow> (case announce_loop p ds of (effs, errs) \<Rightarrow>
          (eff @ effs, (case r of
             Some err \<Rightarrow> if errors_Is err ErrAlreadyAdvertised then errs else err # errs
           | None \<Rightarrow> errs))))"

definition AnnounceAllDealsToIndexer :: "sprovider \<Rightarrow> sp_effect list \<times> go_error list" where
  "AnnounceAllDealsToIndexer p = on_err (DealsList p)
     (\<lambda>err. ([], [Wrap ''failed to list deals: '' err])) (announce_loop p)"

subsection \<open>Starting up\<close>

fun sp_restartDeals :: "sprovider \<Rightarrow> MinerDeal list \<Rightarrow> sp_effect list \<times> go_error option" where
  "sp_restartDeals p [] = ([], None)"
| "sp_restartDeals p (deal # deals) =
     (if DealsIsTerminated p deal then sp_restartDeals p deals
      else case DealsSend p (MinerDeal.ProposalCid deal) ProviderEventRestart [] of
        Some err \<Rightarrow> ([ESend (MinerDeal.ProposalCid deal) ProviderEventRestart []], Some err)
      | None \<Rightarrow> (case sp_restartDeals p deals of (eff, r) \<Rightarrow>
          (ESend (MinerDeal.ProposalCid deal) ProviderEventRestart [] # eff, r)))"

definition runMigrations ::
  "sprovider \<Rightarrow> go_error option \<Rightarrow> (MinerDeal list \<Rightarrow> go_error + bool) \<Rightarrow> go_error + MinerDeal list" where
  "runMigrations p migrateDeals dagMigrate = (case migrateDeals of
     Some err \<Rightarrow> Inl (Wrap ''migrating storage provider state machines: '' err)
   | None \<Rightarrow> on_err (DealsList p)
       (\<lambda>err. Inl (Wrap ''failed to fetch deals during startup: '' err))
       (\<lambda>deals. on_err (dagMigrate deals)
          (\<lambda>err. Inl (Wrap ''failed to migrate deals to DAG store: '' err))
          (\<lambda>ok. Inr deals)))"

text \<open>\<open>start\<close> fires the ready event with its result, whatever it is; registering the multihash lister
  with the index provider is left out.\<close>

definition sp_start ::
  "sprovider \<Rightarrow> go_error option \<Rightarrow> (MinerDeal list \<Rightarrow> go_error + bool) \<Rightarrow> 'l ReadyManager \<Rightarrow>
   sp_effect list \<times> ('l \<times> go_error option) list \<times> 'l ReadyManager \<times> go_error option" where
  "sp_start p migrateDeals dagMigrate m =
     (case on_err (runMigrations p migrateDeals dagMigrate)
        (\<lambda>err. ([], Some err))
        (\<lambda>deals. case sp_restartDeals p deals of
           (eff, Some err) \<Rightarrow> (eff, Some (Wrap ''failed to restart deals: '' err))
         | (eff, None) \<Rightarrow> (eff, None)) of
      (eff, err) \<Rightarrow> (case FireReady err m of (called, m') \<Rightarrow> (eff, called, m', err)))"

subsection \<open>The environment of the handlers\<close>

definition pde_Ask :: "sprovider \<Rightarrow> StorageAsk go_run" where
  "pde_Ask p = (case StoredAskOf p of
     None \<Rightarrow> Returns StorageAskUndefined
   | Some sask \<Rightarrow> (case Ask sask of None \<Rightarrow> Panics | Some a \<Rightarrow> Returns a))"

definition pde_AnnounceIndex :: "sprovider \<Rightarrow> MinerDeal \<Rightarrow> sp_effect list \<times> go_error option" where
  "pde_AnnounceIndex p deal = (case MeshConnect p of
     Some err \<Rightarrow> ([], Some (Wrap
       ''cannot publish index record as indexer host failed to connect to the full node: '' err))
   | None \<Rightarrow> ([ENotifyPut (MinerDeal.ProposalCid deal)], NotifyPut p deal))"

definition pde_FinalizeBlockstore ::
  "('b \<Rightarrow> go_error option) \<Rightarrow> cid \<Rightarrow> 'b stores \<Rightarrow> go_error option" where
  "pde_FinalizeBlockstore finalize proposalCid st = on_err (RW_Get proposalCid st)
     (\<lambda>err. if errors_Is err StoresErrNotFound then None
        else Some (Wrap ''failed to get read/write blockstore: '' err))
     (\<lambda>bs. case finalize bs of
        Some err \<Rightarrow> Some (Wrap ''failed to finalize read/write blockstore: '' err) | None \<Rightarrow> None)"

definition pde_TerminateBlockstore :: "cid \<Rightarrow> string \<Rightarrow> 'b stores \<Rightarrow> sp_effect list \<times> 'b stores \<times> go_error option" where
  "pde_TerminateBlockstore proposalCid path st = ([ERemove path], snd (RW_Untrack proposalCid st), None)"

definition pde_GeneratePieceCommitment ::
  "(string \<Rightarrow> go_error + uint64) \<Rightarrow> (string \<Rightarrow> go_error option) \<Rightarrow> (string \<Rightarrow> uint64 \<Rightarrow> uint64 \<Rightarrow> go_error + cid) \<Rightarrow>
   (string \<Rightarrow> go_error option) \<Rightarrow> cid \<Rightarrow> string \<Rightarrow> uint64 \<Rightarrow> go_error + cid \<times> string" where
  "pde_GeneratePieceCommitment openReader dataReader generateCommp closeReader proposalCid carPath dealSize =
     on_err (openReader carPath)
       (\<lambda>err. Inl (Wrap (''failed to get CARv2 reader, proposalCid='' @ proposalCid @ '', carPath='' @ carPath @ '': '') err))
       (\<lambda>dataSize.
          let result = (case dataReader carPath of
            Some err \<Rightarrow> Inl (Wrap (''failed to get data reader over CAR file, proposalCid='' @ proposalCid @
              '', carPath='' @ carPath @ '': '') err)
          | None \<Rightarrow> on_err (generateCommp carPath dataSize dealSize) Inl (\<lambda>pieceCID. Inr (pieceCID, [])))
          in case closeReader carPath of
            None \<Rightarrow> result
          | Some err \<Rightarrow> (case result of
              Inl e \<Rightarrow> Inl e
            | Inr _ \<Rightarrow> Inl (Wrap (''failed to close CARv2 reader, proposalCid='' @ proposalCid @
                '', carPath='' @ carPath @ '': '') err)))"

definition pde_SendSignedResponse ::
  "sprovider \<Rightarrow> ('st \<Rightarrow> SignedResponse \<Rightarrow> go_error option) \<Rightarrow> ('st \<Rightarrow> go_error option) \<Rightarrow> Response \<Rightarrow> 'st conns \<Rightarrow>
   ('st \<times> SignedResponse) list \<times> 'st conns \<times> go_error option" where
  "pde_SendSignedResponse p write close resp conns = on_err (DealStream (RespProposal resp) conns)
     (\<lambda>err. ([], conns, Some (Wrap ''couldn't send response: '' err)))
     (\<lambda>s. on_err (sp_sign p (DumpResponse p resp))
        (\<lambda>err. ([], conns, Some (Wrap ''failed to sign response message: '' err)))
        (\<lambda>sig. let signed = \<lparr>ResponseOf = resp, RespSignature = sig\<rparr>
           in case write s signed of
             Some err \<Rightarrow> ([(s, signed)], snd (Disconnect close (RespProposal resp) conns), Some err)
           | None \<Rightarrow> ([(s, signed)], conns, None)))"

definition pde_RunCustomDecisionLogic ::
  "(MinerDeal \<Rightarrow> go_error + bool \<times> string) option \<Rightarrow> MinerDeal \<Rightarrow> go_error + bool \<times> string" where
  "pde_RunCustomDecisionLogic decider deal = (case decider of None \<Rightarrow> Inr (True, []) | Some f \<Rightarrow> f deal)"

text \<open>The getters for the data transfer module; \<open>None\<close>: they still wait for the provider to be ready.\<close>

definition spsg_Get ::
  "sprovider \<Rightarrow> 'l ReadyManager \<Rightarrow> (string \<Rightarrow> cid \<Rightarrow> go_error + 'b) \<Rightarrow> cid \<Rightarrow> 'b stores \<Rightarrow>
   ((go_error + 'b) go_run \<times> 'b stores) option" where
  "spsg_Get p m openReadWrite proposalCid st = map_option (\<lambda>r. case r of
     Some err \<Rightarrow> (Returns (Inl err), st)
   | None \<Rightarrow> on_err (DealsGet p proposalCid)
       (\<lambda>err. (Returns (Inl (Wrap ''failed to get deal state: '' err)), st))
       (\<lambda>deal. case MinerDeal.Ref deal of
          None \<Rightarrow> (Panics, st)
        | Some ref \<Rightarrow> (case RW_GetOrOpen (openReadWrite (InboundCAR deal) (Root ref)) proposalCid st of
            (bs, st') \<Rightarrow> (Returns bs, st')))) (awaitProviderReady m)"

definition ppd_Get :: "sprovider \<Rightarrow> 'l ReadyManager \<Rightarrow> cid \<Rightarrow> (go_error + MinerDeal) option" where
  "ppd_Get p m proposalCid = map_option (\<lambda>r. case r of
     Some err \<Rightarrow> Inl err | None \<Rightarrow> DealsGet p proposalCid) (awaitProviderReady m)"

subsection \<open>Paging\<close>

lemma page_loop_running:
  "startPropCid \<notin> (\<lambda>d. Some (MinerDeal.ProposalCid d)) ` set deals \<Longrightarrow> 0 \<le> startIndex \<Longrightarrow>
   length page < limit \<Longrightarrow>
   page_loop startPropCid offset limit i startIndex page deals =
     page @ take (limit - length page) (drop (nat (startIndex - i)) deals)"
proof (induction deals arbitrary: i page)
  case (Cons dl deals)
  then have fresh: "startPropCid \<notin> (\<lambda>d. Some (MinerDeal.ProposalCid d)) ` set deals"
    and neq: "startPropCid \<noteq> Some (MinerDeal.ProposalCid dl)" by auto
  show ?case
  proof (cases "startIndex \<le> i")
    case True
    show ?thesis
    proof (cases "length (page @ [dl]) = limit")
      case False
      with Cons.prems(3) have less: "length (page @ [dl]) < limit" by simp
      then have "limit - length page = Suc (limit - Suc (length page))" by simp
      with Cons.IH [OF fresh Cons.prems(2) less, of "i + 1"] True neq less Cons.prems(2) show ?thesis
        by (simp add: Let_def)
    qed (use True neq Cons.prems(2) in \<open>auto simp: Let_def\<close>)
  next
    case False
    then have "nat (startIndex - i) = Suc (nat (startIndex - (i + 1)))" by simp
    with False neq Cons.prems(3) Cons.IH [OF fresh Cons.prems(2,3), of "i + 1"] show ?thesis
      by (simp add: Let_def)
  qed
qed simp

lemma page_loop_searching:
  assumes "0 \<le> offset" and "0 < limit"
  shows "distinct (map MinerDeal.ProposalCid deals) \<Longrightarrow> 0 \<le> i \<Longrightarrow>
    page_loop (Some c) offset limit i (- 1) [] deals =
      take limit (drop (nat offset) (dropWhile (\<lambda>d. MinerDeal.ProposalCid d \<noteq> c) deals))"
proof (induction deals arbitrary: i)
  case (Cons dl deals)
  show ?case
  proof (cases "MinerDeal.ProposalCid dl = c")
    case True
    have fresh: "Some c \<notin> (\<lambda>d. Some (MinerDeal.ProposalCid d)) ` set deals"
      using Cons.prems(1) True by auto
    show ?thesis
    proof (cases "offset = 0")
      case True
      note run = page_loop_running [OF fresh, of "i + 0" "[dl]" limit 0 "i + 1"]
      show ?thesis
        using \<open>MinerDeal.ProposalCid dl = c\<close> True run Cons.prems(2) assms(2)
        by (cases limit; cases "limit - 1") (auto simp: Let_def)
    next
      case False
      with assms(1) have off: "nat offset = Suc (nat (offset - 1))" by simp
      note run = page_loop_running [OF fresh, of "i + offset" "[]" limit offset "i + 1"]
      have "nat (i + offset - (i + 1)) = nat (offset - 1)" by simp
      with \<open>MinerDeal.ProposalCid dl = c\<close> False run Cons.prems(2) assms off show ?thesis
        by (simp add: Let_def)
    qed
  next
    case False
    then show ?thesis using Cons.IH [of "i + 1"] Cons.prems assms(2) by (simp add: Let_def)
  qed
qed simp

definition sample_miner_deal :: "cid \<Rightarrow> int \<Rightarrow> MinerDeal" where
  "sample_miner_deal propCid time = (empty_MinerDeal \<lparr>PieceCID = ''piece'', PieceSize = 256, VerifiedDeal = False,
     ProposalClient = ''f02'', Provider = ''f01'', Label = [], StartEpoch = 1, EndEpoch = 2,
     StoragePricePerEpoch = 1, ProviderCollateral = 0, ClientCollateral = 0\<rparr> ''sig'')\<lparr>MinerDeal.ProposalCid := propCid,
     MinerDeal.CreationTime := time\<rparr>"

text \<open>
  A page of deals, newest first: without a start deal the first \<open>limit\<close> deals, whatever the offset;
  with one, \<open>limit\<close> deals from the \<open>offset\<close>-th after it on, and none if it is not there.
\<close>
theorem ListLocalDealsPage_correct:
  assumes "DealsList p = Inr deals" and "distinct (map MinerDeal.ProposalCid (sortSlice deals))" and "0 \<le> offset"
  shows "ListLocalDealsPage sortSlice p start offset limit = Inr (case start of
     None \<Rightarrow> take limit (sortSlice deals)
   | Some c \<Rightarrow> take limit (drop (nat offset) (dropWhile (\<lambda>d. MinerDeal.ProposalCid d \<noteq> c) (sortSlice deals))))"
proof (cases "limit = 0")
  case False
  then show ?thesis
    using assms page_loop_running [of None "sortSlice deals" 0 "[]" limit offset 0]
      page_loop_searching [of offset limit "sortSlice deals" 0]
    by (cases start) (auto simp: ListLocalDealsPage_def)
qed (simp add: ListLocalDealsPage_def split: option.split)

definition sample_sprovider :: sprovider where
  "sample_sprovider = \<lparr>DealsGet = (\<lambda>c. Inl (New ''not found'')), DealsBegin = (\<lambda>c d. None),
     DealsSend = (\<lambda>c e a. None), DealsList = Inr [sample_miner_deal ''a'' 3, sample_miner_deal ''b'' 2,
       sample_miner_deal ''c'' 1], DealsIsTerminated = (\<lambda>d. False), AsIpldCid = (\<lambda>x. Inr ''prop''),
     CreateTemp = Inr ''/tmp/x'', CloseTemp = (\<lambda>t. None), CurTime = 0, NetID = ''pm'',
     SpnChainHead = Inr (''tok'', 5), SpnWorkerLookup = (\<lambda>a t. Inr ''w''), SpnSignBytes = (\<lambda>w b. Inr (Some ''sig'')),
     SpnVerifySignature = (\<lambda>s a b t. Inr (s = ''sig'' @ a)), SpnActor = ''f01'', DumpCid = Inr,
     DumpResponse = (\<lambda>r. Inr ''resp''), DumpDealState = (\<lambda>s. Inr ''state''), StoredAskOf = None,
     MeshConnect = None, NotifyPut = (\<lambda>d. None)\<rparr>"

theorem ListLocalDealsPage_correct_witness:
  "ListLocalDealsPage (\<lambda>ds. ds) sample_sprovider (Some ''a'') 1 1 = Inr [sample_miner_deal ''b'' 2]"
  using ListLocalDealsPage_correct [of sample_sprovider _ "\<lambda>ds. ds" 1 "Some ''a''" 1]
  by (simp add: sample_sprovider_def sample_miner_deal_def)

end
