(* ===== verification/Storage_Client_Ops.thy ===== *)
theory Storage_Client_Ops
  imports Storage_Provider_Ops
begin

section \<open>Storage client: operations and protocols\<close>

text \<open>
  The operations around the client's state machine: \<open>storagemarket/impl/client.go\<close> (asking for an ask
  and for the status of a deal, proposing deals, escrow, starting up),
  \<open>storagemarket/impl/client_environments.go\<close> and \<open>storagemarket/impl/clientutils/clientutils.go\<close>. The
  state machine group, the node, the network streams, the codecs, the commitment calculation and the
  discovery store are the record \<open>sclient\<close>; what an operation does to them is its list of
  \<open>sc_effect\<close>s. The data reference that a proposal is made for is not nil.
\<close>

record StorageProviderInfo =
  InfoAddress :: address
  InfoWorker :: address
  InfoSectorSize :: uint64
  InfoPeerID :: peer_id
  InfoAddrs :: "string list"

record ProposeStorageDealParams =
  PropAddr :: address
  PropInfo :: StorageProviderInfo
  PropData :: DataRef
  PropStartEpoch :: chain_epoch
  PropEndEpoch :: chain_epoch
  PropPrice :: token_amount
  PropCollateral :: "token_amount option"
  PropFastRetrieval :: bool
  PropVerifiedDeal :: bool

record sclient =
  ScGet :: "cid \<Rightarrow> go_error + ClientDeal"
  ScBegin :: "cid \<Rightarrow> ClientDeal \<Rightarrow> go_error option"
  ScSend :: "cid \<Rightarrow> ClientEvent \<Rightarrow> go_error option"
  ScList :: "go_error + ClientDeal list"
  ScIsTerminated :: "ClientDeal \<Rightarrow> bool"
  ScChainHead :: "go_error + tipset_token \<times> chain_epoch"
  ScMinerInfo :: "address \<Rightarrow> tipset_token \<Rightarrow> go_error + StorageProviderInfo"
  ScVerifySignature :: "string \<Rightarrow> address \<Rightarrow> string \<Rightarrow> tipset_token \<Rightarrow> go_error + bool"
  ScSignBytes :: "address \<Rightarrow> string \<Rightarrow> go_error + string option"
  ScSignProposal :: "address \<Rightarrow> DealProposal \<Rightarrow> go_error + DealProposal \<times> string"
  ScAsIpldCid :: "DealProposal \<times> string \<Rightarrow> go_error + cid"
  ScDumpCid :: "cid \<Rightarrow> go_error + string"
  ScCollateralBounds :: "uint64 \<Rightarrow> bool \<Rightarrow> go_error + token_amount \<times> token_amount"
  ScBstoresGet :: "cid \<Rightarrow> go_error option"
  ScTraverseCommP :: "cid \<Rightarrow> uint64 \<Rightarrow> go_error + cid \<times> uint64"
  ScPadded :: "uint64 \<Rightarrow> uint64"
  ScMaxTraversalLinks :: uint64
  ScCidVersion :: "cid \<Rightarrow> nat"
  ScStringOfBase :: "cid \<Rightarrow> string \<Rightarrow> go_error + string"
  ScNewLabel :: "string \<Rightarrow> go_error + string"
  ScNow :: int
  ScDiscoveryAddPeer :: "cid \<Rightarrow> address \<Rightarrow> peer_id \<Rightarrow> cid \<Rightarrow> go_error option"
  ScNewAskStream :: "peer_id \<Rightarrow> go_error option"
  ScWriteAskRequest :: "address \<Rightarrow> go_error option"
  ScReadAskResponse :: "address \<Rightarrow> (go_error + SignedStorageAsk option \<times> string) go_run"
  ScNewStatusStream :: "peer_id \<Rightarrow> go_error option"
  ScWriteStatusRequest :: "DealStatusRequest \<Rightarrow> go_error option"
  ScReadStatusResponse :: "DealStatusRequest \<Rightarrow> go_error + DealStatusResponse \<times> string"

datatype sc_effect =
    ScAddAddrs peer_id "string list"
  | ScEBegin cid ClientDeal
  | ScESend cid ClientEvent
  | ScEAddPeer cid address peer_id cid

definition sc_addMultiaddrs :: "sclient \<Rightarrow> address \<Rightarrow> sc_effect list \<times> go_error option" where
  "sc_addMultiaddrs c providerAddr = on_err (ScChainHead c)
     (\<lambda>err. ([], Some err))
     (\<lambda>(tok, _). on_err (ScMinerInfo c providerAddr tok)
        (\<lambda>err. ([], Some err))
        (\<lambda>minfo. (if length (InfoAddrs minfo) > 0 then [ScAddAddrs (InfoPeerID minfo) (InfoAddrs minfo)] else [], None)))"

subsection \<open>Asks\<close>

definition sc_GetAsk :: "sclient \<Rightarrow> StorageProviderInfo \<Rightarrow> sc_effect list \<times> (go_error + StorageAsk) go_run" where
  "sc_GetAsk c info = (if length (InfoAddrs info) > 0 then [ScAddAddrs (InfoPeerID info) (InfoAddrs info)] else [],
     case ScNewAskStream c (InfoPeerID info) of
       Some err \<Rightarrow> Returns (Inl (Wrap ''failed to open stream to miner: '' err))
     | None \<Rightarrow> (case ScWriteAskRequest c (InfoAddress info) of
         Some err \<Rightarrow> Returns (Inl (Wrap ''failed to send ask request: '' err))
       | None \<Rightarrow> run_bind (ScReadAskResponse c (InfoAddress info)) (\<lambda>read. on_err read
           (\<lambda>err. Returns (Inl (Wrap ''failed to read ask response: '' err)))
           (\<lambda>(out, origBytes). case out of
              None \<Rightarrow> Returns (Inl (New ''got no ask back''))
            | Some ssa \<Rightarrow> (case Ask ssa of
                None \<Rightarrow> Panics
              | Some ask \<Rightarrow>
                  if AskMiner ask \<noteq> InfoAddress info then Returns (Inl (New ''got back ask for wrong miner''))
                  else on_err (ScChainHead c)
                    (\<lambda>err. Returns (Inl err))
                    (\<lambda>(tok, _). case Signature ssa of
                       None \<Rightarrow> Panics
                     | Some sig \<Rightarrow> on_err (ScVerifySignature c sig (InfoWorker info) origBytes tok)
                         (\<lambda>err. Returns (Inl err))
                         (\<lambda>isValid. Returns (if \<not> isValid then Inl (New ''ask was not properly signed'') else Inr ask))))))))"

subsection \<open>Deal status\<close>

definition verifyStatusResponseSignature :: "sclient \<Rightarrow> address \<Rightarrow> DealStatusResponse \<Rightarrow> string \<Rightarrow> go_error + bool" where
  "verifyStatusResponseSignature c miner response origBytes = on_err (ScChainHead c)
     (\<lambda>err. Inl (Wrap ''getting chain head: '' err))
     (\<lambda>(tok, _). on_err (ScVerifySignature c (StatusSignature response) miner origBytes tok)
        (\<lambda>err. Inl (Wrap ''validating signature: '' err)) Inr)"

definition sc_GetProviderDealState :: "sclient \<Rightarrow> cid \<Rightarrow> (go_error + ProviderDealState) go_run" where
  "sc_GetProviderDealState c proposalCid = on_err (ScGet c proposalCid)
     (\<lambda>err. Returns (Inl (Wrap ''could not get client deal state: '' err)))
     (\<lambda>deal. case ScNewStatusStream c (ClientDeal.Miner deal) of
        Some err \<Rightarrow> Returns (Inl (Wrap ''failed to open stream to miner: '' err))
      | None \<Rightarrow> on_err (ScDumpCid c (ClientDeal.ProposalCid deal))
          (\<lambda>err. Returns (Inl (Wrap ''failed serialize deal status request: '' err)))
          (\<lambda>buf. on_err (ScSignBytes c (ProposalClient (ClientDeal.Proposal deal)) buf)
             (\<lambda>err. Returns (Inl (Wrap ''failed to sign deal status request: '' err)))
             (\<lambda>signature. case signature of
                None \<Rightarrow> Panics
              | Some sig \<Rightarrow>
                  let request = \<lparr>ReqProposal = proposalCid, ReqSignature = sig\<rparr>
                  in (case ScWriteStatusRequest c request of
                      Some err \<Rightarrow> Returns (Inl (Wrap ''failed to send deal status request: '' err))
                    | None \<Rightarrow> on_err (ScReadStatusResponse c request)
                        (\<lambda>err. Returns (Inl (Wrap ''failed to read deal status response: '' err)))
                        (\<lambda>(resp, origBytes).
                           on_err (verifyStatusResponseSignature c (MinerWorker deal) resp origBytes)
                             (\<lambda>err. Returns (Inl err))
                             (\<lambda>valid. Returns (if \<not> valid then Inl (New ''invalid deal status response signature'')
                                else Inr (DealStateOf resp))))))))"

subsection \<open>Proposing a deal\<close>

definition CommP :: "sclient \<Rightarrow> DataRef \<Rightarrow> uint64 \<Rightarrow> go_error + cid \<times> uint64" where
  "CommP c data maxTraversalLinks = (case PieceCid data of
     Some pieceCid \<Rightarrow> Inr (pieceCid, RefPieceSize data)
   | None \<Rightarrow>
       if TransferType data = TTManual
       then Inl (New ''Piece CID and size must be set for manual transfer'')
       else ScTraverseCommP c (Root data) maxTraversalLinks)"

definition LabelField :: "sclient \<Rightarrow> cid \<Rightarrow> go_error + string" where
  "LabelField c payloadCID =
     on_err (ScStringOfBase c payloadCID (if ScCidVersion c payloadCID = 0 then ''base58btc'' else ''base64''))
       Inl (ScNewLabel c)"

text \<open>The provider's collateral: the one asked for, or the lower bound when none is.\<close>

definition prop_collateral :: "sclient \<Rightarrow> ProposeStorageDealParams \<Rightarrow> uint64 \<Rightarrow> go_error + token_amount" where
  "prop_collateral c params padded =
     (if PropCollateral params = None \<or> PropCollateral params = Some 0
      then on_err (ScCollateralBounds c padded (PropVerifiedDeal params))
        (\<lambda>err. Inl (Wrap ''computing deal provider collateral bound failed: '' err)) (\<lambda>(pcMin, _). Inr pcMin)
      else Inr (the (PropCollateral params)))"

definition client_proposal ::
  "ProposeStorageDealParams \<Rightarrow> cid \<Rightarrow> uint64 \<Rightarrow> token_amount \<Rightarrow> string \<Rightarrow> DealProposal" where
  "client_proposal params commP padded pcMin label = \<lparr>PieceCID = commP, PieceSize = padded,
     VerifiedDeal = PropVerifiedDeal params, ProposalClient = PropAddr params,
     Provider = InfoAddress (PropInfo params), Label = label, StartEpoch = PropStartEpoch params,
     EndEpoch = PropEndEpoch params, StoragePricePerEpoch = PropPrice params, ProviderCollateral = pcMin,
     ClientCollateral = 0\<rparr>"

definition new_client_deal ::
  "sclient \<Rightarrow> ProposeStorageDealParams \<Rightarrow> DealProposal \<times> string \<Rightarrow> cid \<Rightarrow> ClientDeal" where
  "new_client_deal c params prop propCid = \<lparr>ClientDeal.Proposal = fst prop, ClientSignature = snd prop,
     ProposalCid = propCid, AddFundsCid = None, State = StorageDealUnknown, Miner = InfoPeerID (PropInfo params),
     MinerWorker = InfoWorker (PropInfo params), DealID = 0, DataRefOf = Some (PropData params), Message = [],
     DealStagesOf = NewDealStages, PublishMessage = None, SlashEpoch = 0, PollRetryCount = 0,
     PollErrorCount = 0, FastRetrieval = PropFastRetrieval params, FundsReserved = None, CreationTime = ScNow c,
     TransferChannelID = None, SectorNumber = 0\<rparr>"

text \<open>The proposal that is signed, from the parameters of the call.\<close>

definition make_proposal :: "sclient \<Rightarrow> ProposeStorageDealParams \<Rightarrow> go_error + DealProposal" where
  "make_proposal c params = (case ScBstoresGet c (Root (PropData params)) of
     Some err \<Rightarrow> Inl (Wrap (''failed to get blockstore for imported root '' @ Root (PropData params) @ '': '') err)
   | None \<Rightarrow> on_err (CommP c (PropData params) (ScMaxTraversalLinks c))
       (\<lambda>err. Inl (Wrap ''computing commP failed: '' err))
       (\<lambda>(commP, pieceSize).
          if ScPadded c pieceSize > InfoSectorSize (PropInfo params)
          then Inl (New (''cannot propose a deal whose piece size ('' @ show_uint64 (ScPadded c pieceSize) @
            '') is greater than sector size ('' @ show_uint64 (InfoSectorSize (PropInfo params)) @ '')''))
          else on_err (prop_collateral c params (ScPadded c pieceSize)) Inl
            (\<lambda>pcMin. on_err (LabelField c (Root (PropData params)))
               (\<lambda>err. Inl (Wrap ''creating label field in proposal: '' err))
               (\<lambda>label. Inr (client_proposal params commP (ScPadded c pieceSize) pcMin label)))))"

text \<open>A deal that is tracked and opened is returned even when the peer could not be recorded, with the
  error beside it.\<close>

definition ProposeStorageDeal ::
  "sclient \<Rightarrow> ProposeStorageDealParams \<Rightarrow> sc_effect list \<times> cid option \<times> go_error option" where
  "ProposeStorageDeal c params = (case sc_addMultiaddrs c (InfoAddress (PropInfo params)) of
     (eff, Some err) \<Rightarrow> (eff, None, Some (Wrap ''looking up addresses: '' err))
   | (eff, None) \<Rightarrow> on_err (make_proposal c params)
       (\<lambda>err. (eff, None, Some err))
       (\<lambda>dealProposal. on_err (ScSignProposal c (PropAddr params) dealProposal)
          (\<lambda>err. (eff, None, Some (Wrap ''signing deal proposal failed: '' err)))
          (\<lambda>prop. on_err (ScAsIpldCid c prop)
             (\<lambda>err. (eff, None, Some (Wrap ''getting proposal node failed: '' err)))
             (\<lambda>propCid. let deal = new_client_deal c params prop propCid
                in case ScBegin c propCid deal of
                  Some err \<Rightarrow> (eff, None, Some (Wrap ''setting up deal tracking: '' err))
                | None \<Rightarrow> (case ScSend c propCid ClientEventOpen of
                    Some err \<Rightarrow> (eff @ [ScEBegin propCid deal], None, Some (Wrap ''initializing state machine: '' err))
                  | None \<Rightarrow> (eff @ [ScEBegin propCid deal, ScESend propCid ClientEventOpen,
                      ScEAddPeer (Root (PropData params)) (Provider dealProposal) (ClientDeal.Miner deal) (PieceCID dealProposal)],
                      Some propCid,
                      ScDiscoveryAddPeer c (Root (PropData params)) (Provider dealProposal) (ClientDeal.Miner deal)
                        (PieceCID dealProposal)))))))"

subsection \<open>Escrow and local deals\<close>

definition GetPaymentEscrow ::
  "sclient \<Rightarrow> (address \<Rightarrow> tipset_token \<Rightarrow> go_error + Balance) \<Rightarrow> address \<Rightarrow> go_error + Balance" where
  "GetPaymentEscrow c getBalance addr = on_err (ScChainHead c) Inl (\<lambda>(tok, _). getBalance addr tok)"

definition AddPaymentEscrow ::
  "(go_error + cid) \<Rightarrow> (cid \<Rightarrow> (go_error + nat \<times> string) list \<times> go_error option) \<Rightarrow> go_error option go_run" where
  "AddPaymentEscrow addFunds waitForMessage = on_err addFunds
     (\<lambda>err. Returns (Some err))
     (\<lambda>mcid. case waitForMessage mcid of
        (invoked, Some err) \<Rightarrow> Returns (Some err)
      | (invoked, None) \<Rightarrow> (case invoked of
          [] \<Rightarrow> Loops
        | cb # _ \<Rightarrow> Returns (on_err cb
            (\<lambda>err. Some (Wrap ''AddFunds errored: '' err))
            (\<lambda>(code, text). if code \<noteq> 0 then Some (New (''AddFunds error, exit code: '' @ text)) else None))))"

definition sc_ListLocalDeals :: "sclient \<Rightarrow> go_error + ClientDeal list" where
  "sc_ListLocalDeals c = ScList c"

definition sc_GetLocalDeal :: "sclient \<Rightarrow> cid \<Rightarrow> go_error + ClientDeal" where
  "sc_GetLocalDeal c propCid = ScGet c propCid"

subsection \<open>Starting up\<close>

fun sc_restart_loop :: "sclient \<Rightarrow> ClientDeal list \<Rightarrow> sc_effect list \<times> go_error option" where
  "sc_restart_loop c [] = ([], None)"
| "sc_restart_loop c (deal # deals) =
     (if ScIsTerminated c deal then sc_restart_loop c deals
      else case sc_addMultiaddrs c (Provider (ClientDeal.Proposal deal)) of
        (eff, Some err) \<Rightarrow> (eff, Some err)
      | (eff, None) \<Rightarrow> (case ScSend c (ClientDeal.ProposalCid deal) ClientEventRestart of
          Some err \<Rightarrow> (eff, Some err)
        | None \<Rightarrow> (case sc_restart_loop c deals of (effs, r) \<Rightarrow>
            (eff @ ScESend (ClientDeal.ProposalCid deal) ClientEventRestart # effs, r))))"

definition sc_restartDeals :: "sclient \<Rightarrow> sc_effect list \<times> go_error option" where
  "sc_restartDeals c = on_err (ScList c) (\<lambda>err. ([], Some err)) (sc_restart_loop c)"

text \<open>When publishing the ready event fails, the log line reads the text of the migration's error, which
  is nil if the migration went well.\<close>

definition sc_start :: "sclient \<Rightarrow> go_error option \<Rightarrow> go_error option \<Rightarrow> sc_effect list \<times> go_error option go_run" where
  "sc_start c migrate publish =
     (if publish \<noteq> None \<and> migrate = None then ([], Panics)
      else case migrate of
        Some err \<Rightarrow> ([], Returns (Some (Wrap ''Migrating storage client state machines: '' err)))
      | None \<Rightarrow> (case sc_restartDeals c of
          (eff, Some err) \<Rightarrow> (eff, Returns (Some (Wrap ''Failed to restart deals: '' err)))
        | (eff, None) \<Rightarrow> (eff, Returns None)))"

definition scsg_Get :: "sclient \<Rightarrow> (cid \<Rightarrow> go_error + 'b) \<Rightarrow> cid \<Rightarrow> (go_error + 'b) go_run" where
  "scsg_Get c bstoresGet proposalCid = on_err (ScGet c proposalCid)
     (\<lambda>err. Returns (Inl (Wrap ''failed to get client deal state: '' err)))
     (\<lambda>deal. case DataRefOf deal of
        None \<Rightarrow> Panics
      | Some ref \<Rightarrow> Returns (on_err (bstoresGet (Root ref))
          (\<lambda>err. Inl (Wrap (''failed to get blockstore for '' @ proposalCid @ '': '') err)) Inr))"

subsection \<open>The deal status protocol\<close>

lemma processDealStatusRequest_Inr_iff:
  "processDealStatusRequest p request = Inr st \<longleftrightarrow> (\<exists>md buf tok epoch. DealsGet p (ReqProposal request) = Inr md \<and>
     DumpCid p (ReqProposal request) = Inr buf \<and> SpnChainHead p = Inr (tok, epoch) \<and>
     SpnVerifySignature p (ReqSignature request) (ProposalClient (MinerDeal.Proposal md)) buf tok = Inr True \<and>
     st = deal_status md)"
  by (auto simp: processDealStatusRequest_def op_VerifySignature_def split: on_err_splits if_splits)

text \<open>
  C23. What a provider tells about a deal. The response to a status request names the deal's proposal
  only if the request carries a signature, over the serialized CID of the proposal, that verifies for
  the client of that deal at the current chain head, and then it is the state of that deal; every
  other response is an error without any detail of a deal. Each response is signed over itself with
  the provider's worker key.
\<close>
theorem deal_status_only_to_client:
  assumes "HandleDealStatusStream p (Inr request) = Returns (Some resp)"
  shows "(if PDProposal (DealStateOf resp) = None then (\<exists>err. DealStateOf resp = status_error err)
     else (\<exists>md buf tok epoch. DealsGet p (ReqProposal request) = Inr md \<and>
       DumpCid p (ReqProposal request) = Inr buf \<and> SpnChainHead p = Inr (tok, epoch) \<and>
       SpnVerifySignature p (ReqSignature request) (ProposalClient (MinerDeal.Proposal md)) buf tok = Inr True \<and>
       DealStateOf resp = deal_status md)) \<and>
   (\<exists>tok epoch worker bytes. SpnChainHead p = Inr (tok, epoch) \<and> SpnWorkerLookup p (SpnActor p) tok = Inr worker \<and>
     DumpDealState p (DealStateOf resp) = Inr bytes \<and> SpnSignBytes p worker bytes = Inr (Some (StatusSignature resp)))"
proof
  from assms have sig: "sp_sign p (DumpDealState p (DealStateOf resp)) = Inr (Some (StatusSignature resp))"
    and state: "DealStateOf resp = on_err (processDealStatusRequest p request) status_error (\<lambda>st. st)"
    by (auto simp: HandleDealStatusStream_def Let_def split: on_err_splits option.splits)
  show "if PDProposal (DealStateOf resp) = None then \<exists>err. DealStateOf resp = status_error err
     else \<exists>md buf tok epoch. DealsGet p (ReqProposal request) = Inr md \<and>
       DumpCid p (ReqProposal request) = Inr buf \<and> SpnChainHead p = Inr (tok, epoch) \<and>
       SpnVerifySignature p (ReqSignature request) (ProposalClient (MinerDeal.Proposal md)) buf tok = Inr True \<and>
       DealStateOf resp = deal_status md"
  proof (cases "processDealStatusRequest p request")
    case (Inr st)
    from Inr state have st: "DealStateOf resp = st" by simp
    from Inr [unfolded processDealStatusRequest_Inr_iff] show ?thesis
      unfolding st by (auto simp: deal_status_def)
  qed (use state in \<open>auto simp: status_error_def\<close>)
  show "\<exists>tok epoch worker bytes. SpnChainHead p = Inr (tok, epoch) \<and> SpnWorkerLookup p (SpnActor p) tok = Inr worker \<and>
     DumpDealState p (DealStateOf resp) = Inr bytes \<and> SpnSignBytes p worker bytes = Inr (Some (StatusSignature resp))"
    using sig by (auto simp: sp_sign_def SignMinerData_def split: on_err_splits)
qed

definition sample_status_provider :: sprovider where
  "sample_status_provider = sample_sprovider\<lparr>DealsGet := (\<lambda>c. if c = ''a'' then Inr (sample_miner_deal ''a'' 3)
     else Inl (New ''not found''))\<rparr>"

theorem deal_status_only_to_client_witness:
  "\<exists>resp. HandleDealStatusStream sample_status_provider (Inr \<lparr>ReqProposal = ''a'', ReqSignature = ''sigf02''\<rparr>) =
      Returns (Some resp) \<and> DealStateOf resp = deal_status (sample_miner_deal ''a'' 3)"
proof -
  define out where "out = HandleDealStatusStream sample_status_provider (Inr \<lparr>ReqProposal = ''a'', ReqSignature = ''sigf02''\<rparr>)"
  have "case out of Returns (Some resp) \<Rightarrow> PDProposal (DealStateOf resp) \<noteq> None | _ \<Rightarrow> False"
    unfolding out_def by code_simp
  then obtain resp where run: "out = Returns (Some resp)" and named: "PDProposal (DealStateOf resp) \<noteq> None"
    by (auto split: go_run.splits option.splits)
  from deal_status_only_to_client [OF run [unfolded out_def]] named
  have "DealStateOf resp = deal_status (sample_miner_deal ''a'' 3)"
    by (auto simp: sample_status_provider_def)
  with run show ?thesis unfolding out_def by blast
qed


definition sample_propose_params :: ProposeStorageDealParams where
  "sample_propose_params = \<lparr>PropAddr = ''f02'', PropInfo = \<lparr>InfoAddress = ''f01'', InfoWorker = ''w'',
     InfoSectorSize = 512, InfoPeerID = ''pm'', InfoAddrs = []\<rparr>,
     PropData = \<lparr>TransferType = TTGraphsync, Root = ''root'', PieceCid = None, RefPieceSize = 0, RawBlockSize = 0\<rparr>,
     PropStartEpoch = 10, PropEndEpoch = 20, PropPrice = 3, PropCollateral = None, PropFastRetrieval = True,
     PropVerifiedDeal = False\<rparr>"

definition sample_client_proposal :: DealProposal where
  "sample_client_proposal = client_proposal sample_propose_params ''piece'' 256 1 ''label''"

definition sample_status_request :: DealStatusRequest where
  "sample_status_request = \<lparr>ReqProposal = ''a'', ReqSignature = ''sigf02''\<rparr>"

definition sample_status_response :: DealStatusResponse where
  "sample_status_response = \<lparr>DealStateOf = deal_status (sample_miner_deal ''a'' 3), StatusSignature = ''sig''\<rparr>"

definition sample_sclient :: sclient where
  "sample_sclient = \<lparr>ScGet = (\<lambda>c. Inl (New ''not found'')), ScBegin = (\<lambda>c d. None), ScSend = (\<lambda>c e. None),
     ScList = Inr [], ScIsTerminated = (\<lambda>d. False), ScChainHead = Inr (''tok'', 5),
     ScMinerInfo = (\<lambda>a t. Inr (PropInfo sample_propose_params)), ScVerifySignature = (\<lambda>s a b t. Inr (s = ''sig'')),
     ScSignBytes = (\<lambda>a b. Inr (Some (''sig'' @ a))), ScSignProposal = (\<lambda>a d. Inr (d, ''sig'')),
     ScAsIpldCid = (\<lambda>x. Inr ''a''), ScDumpCid = Inr, ScCollateralBounds = (\<lambda>s v. Inr (1, 10)),
     ScBstoresGet = (\<lambda>c. None), ScTraverseCommP = (\<lambda>c n. Inr (''piece'', 254)), ScPadded = (\<lambda>n. n + 2),
     ScMaxTraversalLinks = 1000, ScCidVersion = (\<lambda>c. 1), ScStringOfBase = (\<lambda>c b. Inr ''label''),
     ScNewLabel = Inr, ScNow = 3, ScDiscoveryAddPeer = (\<lambda>r a p c. None), ScNewAskStream = (\<lambda>p. None),
     ScWriteAskRequest = (\<lambda>a. None), ScReadAskResponse = (\<lambda>a. Returns (Inr (None, []))),
     ScNewStatusStream = (\<lambda>p. None), ScWriteStatusRequest = (\<lambda>r. None),
     ScReadStatusResponse = (\<lambda>r. Inr (sample_status_response, ''state''))\<rparr>"

definition sample_status_client :: sclient where
  "sample_status_client = sample_sclient\<lparr>ScGet := (\<lambda>c.
     Inr (new_client_deal sample_sclient sample_propose_params (sample_client_proposal, ''sig'') c))\<rparr>"

lemma sample_status_run:
  "HandleDealStatusStream sample_status_provider (Inr \<lparr>ReqProposal = ''a'', ReqSignature = ''sigf02''\<rparr>) =
     Returns (Some sample_status_response)"
  by code_simp

lemma sample_same_client:
  "ProposalClient (ClientDeal.Proposal (new_client_deal sample_sclient sample_propose_params (sample_client_proposal, ''sig'') ''a'')) =
   ProposalClient (MinerDeal.Proposal (sample_miner_deal ''a'' 3))"
  by code_simp

lemmas sample_status_defs = sample_status_client_def sample_sclient_def new_client_deal_def sample_client_proposal_def
  client_proposal_def sample_propose_params_def sample_status_response_def


end
