(* ===== verification/Storage_Transfer.thy ===== *)
theory Storage_Transfer
  imports Storage_Provider_Fsm Storage_Client_Fsm
begin

section \<open>Storage market: data transfers\<close>

text \<open>
  How the data transfer module drives storage deals: the validator of transfer requests
  (\<open>storagemarket/impl/requestvalidation\<close>) and the subscribers that turn the module's events into
  events of the deal state machines (\<open>storagemarket/impl/dtutils/dtutils.go\<close>). A voucher is decoded
  by the bindnode registry (\<open>decode\<close>, a parameter) to the CID of a proposal; \<open>send\<close> is what the state
  machine group answers an event with.
\<close>

subsection \<open>Validating requests\<close>

definition DataTransferStates :: "StorageDealStatus list" where
  "DataTransferStates = [StorageDealValidating, StorageDealWaitingForData, StorageDealUnknown,
     StorageDealTransferring, StorageDealProviderTransferAwaitRestart]"

definition ErrNoPushAccepted :: go_error where
  "ErrNoPushAccepted = Sentinel SentErrNoPushAccepted ''client should not receive data for a storage deal''"

definition ErrNoPullAccepted :: go_error where
  "ErrNoPullAccepted = Sentinel SentErrNoPullAccepted ''provider should not send data for a storage deal''"

definition ErrNoDeal :: go_error where
  "ErrNoDeal = Sentinel SentErrNoDeal ''no deal found for this proposal''"

definition ErrWrongPiece :: go_error where
  "ErrWrongPiece = Sentinel SentErrWrongPiece ''base CID for deal does not match CID for piece''"

definition ErrInacceptableDealState :: go_error where
  "ErrInacceptableDealState =
     Sentinel SentErrInacceptableDealState ''deal is not in a state where deals are accepted''"

text \<open>A deal whose data reference is nil makes the checks panic.\<close>

definition ValidatePush ::
  "('n \<Rightarrow> go_error + cid) \<Rightarrow> (cid \<Rightarrow> go_error + MinerDeal) \<Rightarrow> peer_id \<Rightarrow> 'n \<Rightarrow> cid \<Rightarrow> string \<Rightarrow>
   go_error option go_run" where
  "ValidatePush decode deals sender voucher baseCid selector = on_err (decode voucher)
     (\<lambda>err. Returns (Some (Wrap ''could not decode StorageDataTransferVoucher: '' err)))
     (\<lambda>proposal. on_err (deals proposal)
        (\<lambda>err. Returns (Some (Wrap (''Proposal CID '' @ proposal @ '': '') ErrNoDeal)))
        (\<lambda>deal. case MinerDeal.Ref deal of
           None \<Rightarrow> Panics
         | Some ref \<Rightarrow> Returns (
             if Root ref \<noteq> baseCid
             then Some (Wrap (''Deal Payload CID '' @ PieceCID (MinerDeal.Proposal deal) @
               '', Data Transfer CID '' @ baseCid @ '': '') ErrWrongPiece)
             else if MinerDeal.State deal \<in> set DataTransferStates then None
             else Some (Wrap (''Deal State '' @ go_lookup DealStates (MinerDeal.State deal) @ '': '')
               ErrInacceptableDealState))))"

definition ValidatePull ::
  "('n \<Rightarrow> go_error + cid) \<Rightarrow> (cid \<Rightarrow> go_error + ClientDeal) \<Rightarrow> peer_id \<Rightarrow> 'n \<Rightarrow> cid \<Rightarrow> string \<Rightarrow>
   go_error option go_run" where
  "ValidatePull decode deals receiver voucher baseCid selector = on_err (decode voucher)
     (\<lambda>err. Returns (Some (Wrap ''could not decode StorageDataTransferVoucher: '' err)))
     (\<lambda>proposal. on_err (deals proposal)
        (\<lambda>err. Returns (Some (Wrap (''Proposal CID '' @ proposal @ '': '') ErrNoDeal)))
        (\<lambda>deal. case DataRefOf deal of
           None \<Rightarrow> Panics
         | Some ref \<Rightarrow> Returns (
             if Root ref \<noteq> baseCid
             then Some (Wrap (''Deal Payload CID '' @ PieceCID (ClientDeal.Proposal deal) @
               '', Data Transfer CID '' @ baseCid @ '': '') ErrWrongPiece)
             else if ClientDeal.State deal \<in> set DataTransferStates then None
             else Some (Wrap (''Deal State %!s(storagemarket.StorageDealStatus='' @
               show_nat (StorageDealStatus_code (ClientDeal.State deal)) @ ''): '') ErrInacceptableDealState))))"

record UnifiedRequestValidator =
  pushDeals :: "(cid \<Rightarrow> go_error + MinerDeal) option"
  pullDeals :: "(cid \<Rightarrow> go_error + ClientDeal) option"

text \<open>The result: whether the request is accepted, and an error.\<close>

type_synonym validation_answer = "(bool \<times> go_error option) go_run"

definition URV_ValidatePush ::
  "('n \<Rightarrow> go_error + cid) \<Rightarrow> UnifiedRequestValidator \<Rightarrow> peer_id \<Rightarrow> 'n \<Rightarrow> cid \<Rightarrow> string \<Rightarrow> validation_answer" where
  "URV_ValidatePush decode v sender voucher baseCid selector = (case pushDeals v of
     None \<Rightarrow> Returns (False, Some ErrNoPushAccepted)
   | Some deals \<Rightarrow> run_bind (ValidatePush decode deals sender voucher baseCid selector)
       (\<lambda>err. Returns (err = None, None)))"

definition URV_ValidatePull ::
  "('n \<Rightarrow> go_error + cid) \<Rightarrow> UnifiedRequestValidator \<Rightarrow> peer_id \<Rightarrow> 'n \<Rightarrow> cid \<Rightarrow> string \<Rightarrow> validation_answer" where
  "URV_ValidatePull decode v receiver voucher baseCid selector = (case pullDeals v of
     None \<Rightarrow> Returns (False, Some ErrNoPullAccepted)
   | Some deals \<Rightarrow> run_bind (ValidatePull decode deals receiver voucher baseCid selector)
       (\<lambda>err. Returns (err = None, None)))"

text \<open>What is read of a channel of the data transfer module, and of its events.\<close>

datatype sdt_code =
    SdtCancel | SdtRestart | SdtDisconnected | SdtOpen | SdtAccept | SdtTransferInitiated | SdtError
  | SdtOther nat

record 'n sdt_channel =
  SdtChannelID :: channel_id
  SdtCompleted :: bool
  SdtVoucher :: "'n option"
  SdtIsPull :: bool
  SdtRecipient :: peer_id
  SdtSender :: peer_id
  SdtBaseCID :: cid
  SdtSelector :: string

definition URV_ValidateRestart ::
  "('n option \<Rightarrow> go_error + cid) \<Rightarrow> UnifiedRequestValidator \<Rightarrow> 'n sdt_channel \<Rightarrow> validation_answer" where
  "URV_ValidateRestart decode v cs =
     (if SdtIsPull cs
      then URV_ValidatePull decode v (SdtRecipient cs) (SdtVoucher cs) (SdtBaseCID cs) (SdtSelector cs)
      else URV_ValidatePush decode v (SdtSender cs) (SdtVoucher cs) (SdtBaseCID cs) (SdtSelector cs))"

subsection \<open>Subscribers\<close>

type_synonym 'e sent = "cid \<times> 'e \<times> StorageDealStatus fsm_arg list"

text \<open>The voucher's proposal, when the channel is one of the storage market.\<close>

definition storage_voucher :: "('n \<Rightarrow> go_error + cid) \<Rightarrow> 'n sdt_channel \<Rightarrow> cid option" where
  "storage_voucher decode cs = (case SdtVoucher cs of
     None \<Rightarrow> None | Some n \<Rightarrow> on_err (decode n) (\<lambda>_. None) Some)"

definition provider_dt_events :: "cid \<Rightarrow> sdt_code \<Rightarrow> string \<Rightarrow> channel_id \<Rightarrow> ProviderEvent sent list" where
  "provider_dt_events proposal code message chid = (case code of
     SdtCancel \<Rightarrow> [(proposal, ProviderEventDataTransferCancelled, [])]
   | SdtRestart \<Rightarrow> [(proposal, ProviderEventDataTransferRestarted, [AChannel chid])]
   | SdtDisconnected \<Rightarrow> [(proposal, ProviderEventDataTransferStalled, [])]
   | SdtOpen \<Rightarrow> [(proposal, ProviderEventDataTransferInitiated, [AChannel chid])]
   | SdtError \<Rightarrow> [(proposal, ProviderEventDataTransferFailed,
       [AErr (New (''deal data transfer failed: '' @ message))])]
   | _ \<Rightarrow> [])"

definition ProviderDataTransferSubscriber ::
  "('n \<Rightarrow> go_error + cid) \<Rightarrow> (ProviderEvent sent \<Rightarrow> go_error option) \<Rightarrow> sdt_code \<Rightarrow> string \<Rightarrow> 'n sdt_channel \<Rightarrow>
   ProviderEvent sent list" where
  "ProviderDataTransferSubscriber decode send code message cs = (case storage_voucher decode cs of
     None \<Rightarrow> []
   | Some proposal \<Rightarrow>
       let completed = (proposal, ProviderEventDataTransferCompleted, []);
           events = provider_dt_events proposal code message (SdtChannelID cs)
       in if SdtCompleted cs
          then if send completed \<noteq> None then [completed] else completed # events
          else events)"

definition client_dt_events :: "cid \<Rightarrow> sdt_code \<Rightarrow> string \<Rightarrow> channel_id \<Rightarrow> ClientEvent sent list" where
  "client_dt_events proposal code message chid = (case code of
     SdtCancel \<Rightarrow> [(proposal, ClientEventDataTransferCancelled, [])]
   | SdtRestart \<Rightarrow> [(proposal, ClientEventDataTransferRestarted, [AChannel chid])]
   | SdtDisconnected \<Rightarrow> [(proposal, ClientEventDataTransferStalled, [])]
   | SdtAccept \<Rightarrow> [(proposal, ClientEventDataTransferQueued, [AChannel chid])]
   | SdtTransferInitiated \<Rightarrow> [(proposal, ClientEventDataTransferInitiated, [AChannel chid])]
   | SdtError \<Rightarrow> [(proposal, ClientEventDataTransferFailed,
       [AErr (New (''deal data transfer failed: '' @ message))])]
   | _ \<Rightarrow> [])"

definition ClientDataTransferSubscriber ::
  "('n \<Rightarrow> go_error + cid) \<Rightarrow> (ClientEvent sent \<Rightarrow> go_error option) \<Rightarrow> sdt_code \<Rightarrow> string \<Rightarrow> 'n sdt_channel \<Rightarrow>
   ClientEvent sent list" where
  "ClientDataTransferSubscriber decode send code message cs = (case storage_voucher decode cs of
     None \<Rightarrow> []
   | Some proposal \<Rightarrow>
       let completed = (proposal, ClientEventDataTransferComplete, []);
           events = client_dt_events proposal code message (SdtChannelID cs)
       in if SdtCompleted cs
          then if send completed \<noteq> None then [completed] else completed # events
          else events)"

text \<open>The store that the transport of a channel is to use; a getter may answer nil.\<close>

definition TransportConfigurer ::
  "('n \<Rightarrow> go_error + cid) \<Rightarrow> (cid \<Rightarrow> go_error + 'b option) \<Rightarrow> 'n option \<Rightarrow> 'b list" where
  "TransportConfigurer decode storeGetter voucher = (case voucher of
     None \<Rightarrow> []
   | Some n \<Rightarrow> on_err (decode n) (\<lambda>_. []) (\<lambda>proposal. on_err (storeGetter proposal) (\<lambda>_. [])
       (\<lambda>store. case store of None \<Rightarrow> [] | Some b \<Rightarrow> [b])))"

subsection \<open>Properties\<close>

lemma ValidatePush_None_iff:
  "ValidatePush decode deals sender voucher baseCid selector = Returns None \<longleftrightarrow>
     (\<exists>proposal deal ref. decode voucher = Inr proposal \<and> deals proposal = Inr deal \<and>
        MinerDeal.Ref deal = Some ref \<and> Root ref = baseCid \<and> MinerDeal.State deal \<in> set DataTransferStates)"
  by (auto simp: ValidatePush_def split: on_err_split option.split)

lemma initiated_accepted_iff:
  "fsm_plan provider_fsm ProviderEventDataTransferInitiated [AChannel ch] deal \<noteq> Rejected \<longleftrightarrow>
     MinerDeal.State deal \<in> {StorageDealWaitingForData, StorageDealProviderTransferAwaitRestart}"
  by (cases "MinerDeal.State deal")
    (simp_all add: fsm_plan_Rejected provider_table_defs transition_def)

text \<open>
  A storage provider accepts a push of data exactly for a deal it knows, whose payload is what is
  pushed and which waits for its data (or is about to, or its transfer restarts); the sender of the
  data plays no part, and a restarted transfer is judged like a new one. Of the five states in which
  data is accepted, only two let the deal go on to transferring when the transfer opens.
\<close>
theorem storage_push_accepted_iff:
  assumes "pushDeals v = Some deals"
  shows "(URV_ValidatePush decode v sender voucher baseCid selector = Returns (True, None) \<longleftrightarrow>
     (\<exists>proposal deal ref. decode voucher = Inr proposal \<and> deals proposal = Inr deal \<and>
        MinerDeal.Ref deal = Some ref \<and> Root ref = baseCid \<and> MinerDeal.State deal \<in> set DataTransferStates)) \<and>
   URV_ValidateRestart decode v (cs\<lparr>SdtIsPull := False\<rparr>) =
     URV_ValidatePush decode v sender (SdtVoucher cs) (SdtBaseCID cs) (SdtSelector cs) \<and>
   (fsm_plan provider_fsm ProviderEventDataTransferInitiated [AChannel ch] deal \<noteq> Rejected \<longleftrightarrow>
     MinerDeal.State deal \<in> {StorageDealWaitingForData, StorageDealProviderTransferAwaitRestart})"
proof (intro conjI)
  show "URV_ValidatePush decode v sender voucher baseCid selector = Returns (True, None) \<longleftrightarrow>
     (\<exists>proposal deal ref. decode voucher = Inr proposal \<and> deals proposal = Inr deal \<and>
        MinerDeal.Ref deal = Some ref \<and> Root ref = baseCid \<and> MinerDeal.State deal \<in> set DataTransferStates)"
    unfolding ValidatePush_None_iff [of decode deals sender voucher baseCid selector, symmetric]
    by (simp add: URV_ValidatePush_def assms run_bind_Returns_iff)
  show "URV_ValidateRestart decode v (cs\<lparr>SdtIsPull := False\<rparr>) =
     URV_ValidatePush decode v sender (SdtVoucher cs) (SdtBaseCID cs) (SdtSelector cs)"
    by (simp add: URV_ValidateRestart_def URV_ValidatePush_def ValidatePush_def assms)
qed (rule initiated_accepted_iff)

definition sample_push_deal :: MinerDeal where
  "sample_push_deal = \<lparr>MinerDeal.Proposal = \<lparr>PieceCID = ''piece'', PieceSize = 256, VerifiedDeal = False,
       ProposalClient = ''f02'', Provider = ''f01'', Label = [], StartEpoch = 1, EndEpoch = 2,
       StoragePricePerEpoch = 1, ProviderCollateral = 0, ClientCollateral = 0\<rparr>,
     ClientSignature = ''sig'', ProposalCid = ''prop'', AddFundsCid = None, PublishCid = None, Miner = ''pm'',
     Client = ''pc'', State = StorageDealWaitingForData, PiecePath = [], MetadataPath = [], SlashEpoch = 0,
     FastRetrieval = True, Message = [], FundsReserved = None,
     Ref = Some \<lparr>TransferType = TTGraphsync, Root = ''root'', PieceCid = None, RefPieceSize = 0, RawBlockSize = 0\<rparr>,
     AvailableForRetrieval = False, DealID = 0, CreationTime = 0, TransferChannelId = None, SectorNumber = 0,
     InboundCAR = []\<rparr>"

definition sample_sdt_channel :: "string sdt_channel" where
  "sample_sdt_channel = \<lparr>SdtChannelID = ''ch'', SdtCompleted = False, SdtVoucher = Some ''prop'',
     SdtIsPull = False, SdtRecipient = ''pm'', SdtSender = ''pc'', SdtBaseCID = ''root'', SdtSelector = ''all''\<rparr>"

definition sample_decode :: "string option \<Rightarrow> go_error + cid" where
  "sample_decode n = (case n of None \<Rightarrow> Inl (New ''empty voucher'') | Some c \<Rightarrow> Inr c)"

theorem storage_push_accepted_iff_witness:
  "URV_ValidatePush sample_decode \<lparr>pushDeals = Some (\<lambda>c. Inr sample_push_deal), pullDeals = None\<rparr> ''any'' (Some ''prop'')
     ''root'' ''all'' = Returns (True, None)"
proof -
  have "MinerDeal.Ref sample_push_deal = Some \<lparr>TransferType = TTGraphsync, Root = ''root'', PieceCid = None,
      RefPieceSize = 0, RawBlockSize = 0\<rparr>" "MinerDeal.State sample_push_deal \<in> set DataTransferStates"
    by (simp_all add: sample_push_deal_def DataTransferStates_def)
  with storage_push_accepted_iff [of "\<lparr>pushDeals = Some (\<lambda>c. Inr sample_push_deal), pullDeals = None\<rparr>"
      "\<lambda>c. Inr sample_push_deal" sample_decode "''any''" "Some ''prop''" "''root''" "''all''"]
  show ?thesis by (simp add: sample_decode_def)
qed

text \<open>The events that the subscribers send, with their arguments.\<close>

lemma provider_sent:
  "(p, e, a) \<in> set (ProviderDataTransferSubscriber decode send code message cs) \<Longrightarrow>
     (e, a) \<in> {(ProviderEventDataTransferCompleted, []), (ProviderEventDataTransferCancelled, []),
       (ProviderEventDataTransferRestarted, [AChannel (SdtChannelID cs)]), (ProviderEventDataTransferStalled, []),
       (ProviderEventDataTransferInitiated, [AChannel (SdtChannelID cs)]),
       (ProviderEventDataTransferFailed, [AErr (New (''deal data transfer failed: '' @ message))])}"
  by (auto simp: ProviderDataTransferSubscriber_def provider_dt_events_def Let_def
      split: option.splits if_splits sdt_code.splits)

lemma client_sent:
  "(p, e, a) \<in> set (ClientDataTransferSubscriber decode send code message cs) \<Longrightarrow>
     (e, a) \<in> {(ClientEventDataTransferComplete, []), (ClientEventDataTransferCancelled, []),
       (ClientEventDataTransferRestarted, [AChannel (SdtChannelID cs)]), (ClientEventDataTransferStalled, []),
       (ClientEventDataTransferQueued, [AChannel (SdtChannelID cs)]),
       (ClientEventDataTransferInitiated, [AChannel (SdtChannelID cs)]),
       (ClientEventDataTransferFailed, [AErr (New (''deal data transfer failed: '' @ message))])}"
  by (auto simp: ClientDataTransferSubscriber_def client_dt_events_def Let_def
      split: option.splits if_splits sdt_code.splits)

text \<open>
  C26. The events that data transfers send to storage deals. Every event that the provider's subscriber
  sends has a row in the provider's table and the arguments its action takes. On the client's side
  this fails for one event: a disconnection is sent without the error that the row's action expects,
  so that the state machine refuses it in every state and the deal stays as it was.
\<close>
theorem storage_transfer_events:
  "((p, e, a) \<in> set (ProviderDataTransferSubscriber decode send code message cs) \<longrightarrow>
     (\<exists>ev. find_event ProviderEvents e = Some ev \<and> ev_action ev a d \<noteq> BadArgs)) \<and>
   ((p', e', a') \<in> set (ClientDataTransferSubscriber decode send' code message cs) \<longrightarrow>
     (\<exists>ev. find_event (ClientEvents now) e' = Some ev \<and>
        (ev_action ev a' d' = BadArgs \<longleftrightarrow> e' = ClientEventDataTransferStalled))) \<and>
   fsm_plan (client_fsm now) ClientEventDataTransferStalled [] d' = Rejected"
proof (intro conjI impI)
  assume "(p, e, a) \<in> set (ProviderDataTransferSubscriber decode send code message cs)"
  from provider_sent [OF this] show "\<exists>ev. find_event ProviderEvents e = Some ev \<and> ev_action ev a d \<noteq> BadArgs"
    by (elim insertE emptyE)
      (simp_all add: provider_table_defs Storage_Provider_Fsm.no_action_def Storage_Provider_Fsm.note_error_def)
next
  assume "(p', e', a') \<in> set (ClientDataTransferSubscriber decode send' code message cs)"
  from client_sent [OF this] show "\<exists>ev. find_event (ClientEvents now) e' = Some ev \<and>
        (ev_action ev a' d' = BadArgs \<longleftrightarrow> e' = ClientEventDataTransferStalled)"
    by (elim insertE emptyE)
      (simp_all add: client_table_defs Storage_Client_Fsm.no_action_def Storage_Client_Fsm.note_error_def)
next
  show "fsm_plan (client_fsm now) ClientEventDataTransferStalled [] d' = Rejected"
    by (simp add: fsm_plan_Rejected client_table_defs)
qed

theorem storage_transfer_events_witness:
  "\<exists>ev. find_event ProviderEvents ProviderEventDataTransferRestarted = Some ev \<and>
     ev_action ev [AChannel ''ch''] sample_push_deal \<noteq> BadArgs"
proof -
  have "(''prop'', ProviderEventDataTransferRestarted, [AChannel ''ch'']) \<in>
      set (ProviderDataTransferSubscriber Inr (\<lambda>x. None) SdtRestart [] sample_sdt_channel)"
    by (simp add: ProviderDataTransferSubscriber_def provider_dt_events_def storage_voucher_def sample_sdt_channel_def)
  with storage_transfer_events [of "''prop''" ProviderEventDataTransferRestarted "[AChannel ''ch'']" Inr "\<lambda>x. None"
      SdtRestart "[]" sample_sdt_channel sample_push_deal] show ?thesis by blast
qed

end
