(* ===== verification/Retrieval_Enums.thy ===== *)
theory Retrieval_Enums
  imports Market_Prelude
begin

section \<open>Retrieval market: deal states and events\<close>

text \<open>
  The constant blocks of \<open>retrievalmarket/dealstatus.go\<close> and \<open>retrievalmarket/events.go\<close> as
  datatypes with the constants' names, their numeric values (\<open>iota\<close>) and the maps to their text.
\<close>

subsection \<open>Deal states\<close>

datatype DealStatus =
    DealStatusNew
  | DealStatusUnsealing
  | DealStatusUnsealed
  | DealStatusWaitForAcceptance
  | DealStatusPaymentChannelCreating
  | DealStatusPaymentChannelAddingFunds
  | DealStatusAccepted
  | DealStatusFundsNeededUnseal
  | DealStatusFailing
  | DealStatusRejected
  | DealStatusFundsNeeded
  | DealStatusSendFunds
  | DealStatusSendFundsLastPayment
  | DealStatusOngoing
  | DealStatusFundsNeededLastPayment
  | DealStatusCompleted
  | DealStatusDealNotFound
  | DealStatusErrored
  | DealStatusBlocksComplete
  | DealStatusFinalizing
  | DealStatusCompleting
  | DealStatusCheckComplete
  | DealStatusCheckFunds
  | DealStatusInsufficientFunds
  | DealStatusPaymentChannelAllocatingLane
  | DealStatusCancelling
  | DealStatusCancelled
  | DealStatusRetryLegacy
  | DealStatusWaitForAcceptanceLegacy
  | DealStatusClientWaitingForLastBlocks
  | DealStatusPaymentChannelAddingInitialFunds
  | DealStatusErroring
  | DealStatusRejecting
  | DealStatusDealNotFoundCleanup
  | DealStatusFinalizingBlockstore

primrec DealStatus_code :: "DealStatus \<Rightarrow> nat" where
  "DealStatus_code DealStatusNew = 0"
| "DealStatus_code DealStatusUnsealing = 1"
| "DealStatus_code DealStatusUnsealed = 2"
| "DealStatus_code DealStatusWaitForAcceptance = 3"
| "DealStatus_code DealStatusPaymentChannelCreating = 4"
| "DealStatus_code DealStatusPaymentChannelAddingFunds = 5"
| "DealStatus_code DealStatusAccepted = 6"
| "DealStatus_code DealStatusFundsNeededUnseal = 7"
| "DealStatus_code DealStatusFailing = 8"
| "DealStatus_code DealStatusRejected = 9"
| "DealStatus_code DealStatusFundsNeeded = 10"
| "DealStatus_code DealStatusSendFunds = 11"
| "DealStatus_code DealStatusSendFundsLastPayment = 12"
| "DealStatus_code DealStatusOngoing = 13"
| "DealStatus_code DealStatusFundsNeededLastPayment = 14"
| "DealStatus_code DealStatusCompleted = 15"
| "DealStatus_code DealStatusDealNotFound = 16"
| "DealStatus_code DealStatusErrored = 17"
| "DealStatus_code DealStatusBlocksComplete = 18"
| "DealStatus_code DealStatusFinalizing = 19"
| "DealStatus_code DealStatusCompleting = 20"
| "DealStatus_code DealStatusCheckComplete = 21"
| "DealStatus_code DealStatusCheckFunds = 22"
| "DealStatus_code DealStatusInsufficientFunds = 23"
| "DealStatus_code DealStatusPaymentChannelAllocatingLane = 24"
| "DealStatus_code DealStatusCancelling = 25"
| "DealStatus_code DealStatusCancelled = 26"
| "DealStatus_code DealStatusRetryLegacy = 27"
| "DealStatus_code DealStatusWaitForAcceptanceLegacy = 28"
| "DealStatus_code DealStatusClientWaitingForLastBlocks = 29"
| "DealStatus_code DealStatusPaymentChannelAddingInitialFunds = 30"
| "DealStatus_code DealStatusErroring = 31"
| "DealStatus_code DealStatusRejecting = 32"
| "DealStatus_code DealStatusDealNotFoundCleanup = 33"
| "DealStatus_code DealStatusFinalizingBlockstore = 34"

primrec DealStatuses :: "DealStatus \<Rightarrow> string option" where
  "DealStatuses DealStatusNew = Some ''DealStatusNew''"
| "DealStatuses DealStatusUnsealing = Some ''DealStatusUnsealing''"
| "DealStatuses DealStatusUnsealed = Some ''DealStatusUnsealed''"
| "DealStatuses DealStatusWaitForAcceptance = Some ''DealStatusWaitForAcceptance''"
| "DealStatuses DealStatusPaymentChannelCreating = Some ''DealStatusPaymentChannelCreating''"
| "DealStatuses DealStatusPaymentChannelAddingFunds = Some ''DealStatusPaymentChannelAddingFunds''"
| "DealStatuses DealStatusAccepted = Some ''DealStatusAccepted''"
| "DealStatuses DealStatusFundsNeededUnseal = Some ''DealStatusFundsNeededUnseal''"
| "DealStatuses DealStatusFailing = Some ''DealStatusFailing''"
| "DealStatuses DealStatusRejected = Some ''DealStatusRejected''"
| "DealStatuses DealStatusFundsNeeded = Some ''DealStatusFundsNeeded''"
| "DealStatuses DealStatusSendFunds = Some ''DealStatusSendFunds''"
| "DealStatuses DealStatusSendFundsLastPayment = Some ''DealStatusSendFundsLastPayment''"
| "DealStatuses DealStatusOngoing = Some ''DealStatusOngoing''"
| "DealStatuses DealStatusFundsNeededLastPayment = Some ''DealStatusFundsNeededLastPayment''"
| "DealStatuses DealStatusCompleted = Some ''DealStatusCompleted''"
| "DealStatuses DealStatusDealNotFound = Some ''DealStatusDealNotFound''"
| "DealStatuses DealStatusErrored = Some ''DealStatusErrored''"
| "DealStatuses DealStatusBlocksComplete = Some ''DealStatusBlocksComplete''"
| "DealStatuses DealStatusFinalizing = Some ''DealStatusFinalizing''"
| "DealStatuses DealStatusCompleting = Some ''DealStatusCompleting''"
| "DealStatuses DealStatusCheckComplete = Some ''DealStatusCheckComplete''"
| "DealStatuses DealStatusCheckFunds = Some ''DealStatusCheckFunds''"
| "DealStatuses DealStatusInsufficientFunds = Some ''DealStatusInsufficientFunds''"
| "DealStatuses DealStatusPaymentChannelAllocatingLane = Some ''DealStatusPaymentChannelAllocatingLane''"
| "DealStatuses DealStatusCancelling = Some ''DealStatusCancelling''"
| "DealStatuses DealStatusCancelled = Some ''DealStatusCancelled''"
| "DealStatuses DealStatusRetryLegacy = Some ''DealStatusRetryLegacy''"
| "DealStatuses DealStatusWaitForAcceptanceLegacy = Some ''DealStatusWaitForAcceptanceLegacy''"
| "DealStatuses DealStatusClientWaitingForLastBlocks = Some ''DealStatusWaitingForLastBlocks''"
| "DealStatuses DealStatusPaymentChannelAddingInitialFunds = Some ''DealStatusPaymentChannelAddingInitialFunds''"
| "DealStatuses DealStatusErroring = Some ''DealStatusErroring''"
| "DealStatuses DealStatusRejecting = Some ''DealStatusRejecting''"
| "DealStatuses DealStatusDealNotFoundCleanup = Some ''DealStatusDealNotFoundCleanup''"
| "DealStatuses DealStatusFinalizingBlockstore = Some ''DealStatusFinalizingBlockstore''"

definition DealStatus_String :: "DealStatus \<Rightarrow> string" where
  "DealStatus_String e = (case DealStatuses e of
     Some str \<Rightarrow> str | None \<Rightarrow> ''DealStatusUnknown - '' @ show_nat (DealStatus_code e))"

subsection \<open>Client events\<close>

datatype ClientEvent =
    ClientEventOpen
  | ClientEventWriteDealProposalErrored
  | ClientEventDealProposed
  | ClientEventDealRejected
  | ClientEventDealNotFound
  | ClientEventDealAccepted
  | ClientEventProviderCancelled
  | ClientEventUnknownResponseReceived
  | ClientEventPaymentChannelErrored
  | ClientEventAllocateLaneErrored
  | ClientEventPaymentChannelCreateInitiated
  | ClientEventPaymentChannelReady
  | ClientEventPaymentChannelAddingFunds
  | ClientEventPaymentChannelAddFundsErrored
  | ClientEventLastPaymentRequested
  | ClientEventAllBlocksReceived
  | ClientEventPaymentRequested
  | ClientEventUnsealPaymentRequested
  | ClientEventBlocksReceived
  | ClientEventSendFunds
  | ClientEventFundsExpended
  | ClientEventBadPaymentRequested
  | ClientEventCreateVoucherFailed
  | ClientEventWriteDealPaymentErrored
  | ClientEventPaymentSent
  | ClientEventComplete
  | ClientEventDataTransferError
  | ClientEventCancelComplete
  | ClientEventEarlyTermination
  | ClientEventCompleteVerified
  | ClientEventLaneAllocated
  | ClientEventVoucherShortfall
  | ClientEventRecheckFunds
  | ClientEventCancel
  | ClientEventWaitForLastBlocks
  | ClientEventPaymentChannelSkip
  | ClientEventPaymentNotSent
  | ClientEventBlockstoreFinalized
  | ClientEventFinalizeBlockstoreErrored

primrec ClientEvent_code :: "ClientEvent \<Rightarrow> nat" where
  "ClientEvent_code ClientEventOpen = 0"
| "ClientEvent_code ClientEventWriteDealProposalErrored = 1"
| "ClientEvent_code ClientEventDealProposed = 2"
| "ClientEvent_code ClientEventDealRejected = 3"
| "ClientEvent_code ClientEventDealNotFound = 4"
| "ClientEvent_code ClientEventDealAccepted = 5"
| "ClientEvent_code ClientEventProviderCancelled = 6"
| "ClientEvent_code ClientEventUnknownResponseReceived = 7"
| "ClientEvent_code ClientEventPaymentChannelErrored = 8"
| "ClientEvent_code ClientEventAllocateLaneErrored = 9"
| "ClientEvent_code ClientEventPaymentChannelCreateInitiated = 10"
| "ClientEvent_code ClientEventPaymentChannelReady = 11"
| "ClientEvent_code ClientEventPaymentChannelAddingFunds = 12"
| "ClientEvent_code ClientEventPaymentChannelAddFundsErrored = 13"
| "ClientEvent_code ClientEventLastPaymentRequested = 14"
| "ClientEvent_code ClientEventAllBlocksReceived = 15"
| "ClientEvent_code ClientEventPaymentRequested = 16"
| "ClientEvent_code ClientEventUnsealPaymentRequested = 17"
| "ClientEvent_code ClientEventBlocksReceived = 18"
| "ClientEvent_code ClientEventSendFunds = 19"
| "ClientEvent_code ClientEventFundsExpended = 20"
| "ClientEvent_code ClientEventBadPaymentRequested = 21"
| "ClientEvent_code ClientEventCreateVoucherFailed = 22"
| "ClientEvent_code ClientEventWriteDealPaymentErrored = 23"
| "ClientEvent_code ClientEventPaymentSent = 24"
| "ClientEvent_code ClientEventComplete = 25"
| "ClientEvent_code ClientEventDataTransferError = 26"
| "ClientEvent_code ClientEventCancelComplete = 27"
| "ClientEvent_code ClientEventEarlyTermination = 28"
| "ClientEvent_code ClientEventCompleteVerified = 29"
| "ClientEvent_code ClientEventLaneAllocated = 30"
| "ClientEvent_code ClientEventVoucherShortfall = 31"
| "ClientEvent_code ClientEventRecheckFunds = 32"
| "ClientEvent_code ClientEventCancel = 33"
| "ClientEvent_code ClientEventWaitForLastBlocks = 34"
| "ClientEvent_code ClientEventPaymentChannelSkip = 35"
| "ClientEvent_code ClientEventPaymentNotSent = 36"
| "ClientEvent_code ClientEventBlockstoreFinalized = 37"
| "ClientEvent_code ClientEventFinalizeBlockstoreErrored = 38"

primrec ClientEvents_names :: "ClientEvent \<Rightarrow> string option" where
  "ClientEvents_names ClientEventOpen = Some ''ClientEventOpen''"
| "ClientEvents_names ClientEventWriteDealProposalErrored = Some ''ClientEventWriteDealProposalErrored''"
| "ClientEvents_names ClientEventDealProposed = Some ''ClientEventDealProposed''"
| "ClientEvents_names ClientEventDealRejected = Some ''ClientEventDealRejected''"
| "ClientEvents_names ClientEventDealNotFound = Some ''ClientEventDealNotFound''"
| "ClientEvents_names ClientEventDealAccepted = Some ''ClientEventDealAccepted''"
| "ClientEvents_names ClientEventProviderCancelled = Some ''ClientEventProviderCancelled''"
| "ClientEvents_names ClientEventUnknownResponseReceived = Some ''ClientEventUnknownResponseReceived''"
| "ClientEvents_names ClientEventPaymentChannelErrored = Some ''ClientEventPaymentChannelErrored''"
| "ClientEvents_names ClientEventAllocateLaneErrored = Some ''ClientEventAllocateLaneErrored''"
| "ClientEvents_names ClientEventPaymentChannelCreateInitiated = Some ''ClientEventPaymentChannelCreateInitiated''"
| "ClientEvents_names ClientEventPaymentChannelReady = Some ''ClientEventPaymentChannelReady''"
| "ClientEvents_names ClientEventPaymentChannelAddingFunds = Some ''ClientEventPaymentChannelAddingFunds''"
| "ClientEvents_names ClientEventPaymentChannelAddFundsErrored = Some ''ClientEventPaymentChannelAddFundsErrored''"
| "ClientEvents_names ClientEventLastPaymentRequested = Some ''ClientEventLastPaymentRequested''"
| "ClientEvents_names ClientEventAllBlocksReceived = Some ''ClientEventAllBlocksReceived''"
| "ClientEvents_names ClientEventPaymentRequested = Some ''ClientEventPaymentRequested''"
| "ClientEvents_names ClientEventUnsealPaymentRequested = Some ''ClientEventUnsealPaymentRequested''"
| "ClientEvents_names ClientEventBlocksReceived = Some ''ClientEventBlocksReceived''"
| "ClientEvents_names ClientEventSendFunds = Some ''ClientEventSendFunds''"
| "ClientEvents_names ClientEventFundsExpended = Some ''ClientEventFundsExpended''"
| "ClientEvents_names ClientEventBadPaymentRequested = Some ''ClientEventBadPaymentRequested''"
| "ClientEvents_names ClientEventCreateVoucherFailed = Some ''ClientEventCreateVoucherFailed''"
| "ClientEvents_names ClientEventWriteDealPaymentErrored = Some ''ClientEventWriteDealPaymentErrored''"
| "ClientEvents_names ClientEventPaymentSent = Some ''ClientEventPaymentSent''"
| "ClientEvents_names ClientEventComplete = Some ''ClientEventComplete''"
| "ClientEvents_names ClientEventDataTransferError = Some ''ClientEventDataTransferError''"
| "ClientEvents_names ClientEventCancelComplete = Some ''ClientEventCancelComplete''"
| "ClientEvents_names ClientEventEarlyTermination = Some ''ClientEventEarlyTermination''"
| "ClientEvents_names ClientEventCompleteVerified = Some ''ClientEventCompleteVerified''"
| "ClientEvents_names ClientEventLaneAllocated = Some ''ClientEventLaneAllocated''"
| "ClientEvents_names ClientEventVoucherShortfall = Some ''ClientEventVoucherShortfall''"
| "ClientEvents_names ClientEventRecheckFunds = Some ''ClientEventRecheckFunds''"
| "ClientEvents_names ClientEventCancel = Some ''ClientEventCancel''"
| "ClientEvents_names ClientEventWaitForLastBlocks = Some ''ClientEventWaitForLastBlocks''"
| "ClientEvents_names ClientEventPaymentChannelSkip = Some ''ClientEventPaymentChannelSkip''"
| "ClientEvents_names ClientEventPaymentNotSent = Some ''ClientEventPaymentNotSent''"
| "ClientEvents_names ClientEventBlockstoreFinalized = Some ''ClientEventBlockstoreFinalized''"
| "ClientEvents_names ClientEventFinalizeBlockstoreErrored = Some ''ClientEventFinalizeBlockstoreErrored''"

definition ClientEvent_String :: "ClientEvent \<Rightarrow> string" where
  "ClientEvent_String e = (case ClientEvents_names e of
     Some str \<Rightarrow> str | None \<Rightarrow> ''ClientEventUnknown: '' @ show_nat (ClientEvent_code e))"

subsection \<open>Provider events\<close>

datatype ProviderEvent =
    ProviderEventOpen
  | ProviderEventDealNotFound
  | ProviderEventDealRejected
  | ProviderEventDealAccepted
  | ProviderEventBlockSent
  | ProviderEventBlocksCompleted
  | ProviderEventPaymentRequested
  | ProviderEventSaveVoucherFailed
  | ProviderEventPartialPaymentReceived
  | ProviderEventPaymentReceived
  | ProviderEventComplete
  | ProviderEventUnsealError
  | ProviderEventUnsealComplete
  | ProviderEventDataTransferError
  | ProviderEventCancelComplete
  | ProviderEventCleanupComplete
  | ProviderEventMultiStoreError
  | ProviderEventClientCancelled
  | ProviderEventLastPaymentRequested
  | ProviderEventProcessPayment

primrec ProviderEvent_code :: "ProviderEvent \<Rightarrow> nat" where
  "ProviderEvent_code ProviderEventOpen = 0"
| "ProviderEvent_code ProviderEventDealNotFound = 1"
| "ProviderEvent_code ProviderEventDealRejected = 2"
| "ProviderEvent_code ProviderEventDealAccepted = 3"
| "ProviderEvent_code ProviderEventBlockSent = 4"
| "ProviderEvent_code ProviderEventBlocksCompleted = 5"
| "ProviderEvent_code ProviderEventPaymentRequested = 6"
| "ProviderEvent_code ProviderEventSaveVoucherFailed = 7"
| "ProviderEvent_code ProviderEventPartialPaymentReceived = 8"
| "ProviderEvent_code ProviderEventPaymentReceived = 9"
| "ProviderEvent_code ProviderEventComplete = 10"
| "ProviderEvent_code ProviderEventUnsealError = 11"
| "ProviderEvent_code ProviderEventUnsealComplete = 12"
| "ProviderEvent_code ProviderEventDataTransferError = 13"
| "ProviderEvent_code ProviderEventCancelComplete = 14"
| "ProviderEvent_code ProviderEventCleanupComplete = 15"
| "ProviderEvent_code ProviderEventMultiStoreError = 16"
| "ProviderEvent_code ProviderEventClientCancelled = 17"
| "ProviderEvent_code ProviderEventLastPaymentRequested = 18"
| "ProviderEvent_code ProviderEventProcessPayment = 19"

primrec ProviderEvents_names :: "ProviderEvent \<Rightarrow> string option" where
  "ProviderEvents_names ProviderEventOpen = Some ''ProviderEventOpen''"
| "ProviderEvents_names ProviderEventDealNotFound = Some ''ProviderEventDealNotFound''"
| "ProviderEvents_names ProviderEventDealRejected = Some ''ProviderEventDealRejected''"
| "ProviderEvents_names ProviderEventDealAccepted = Some ''ProviderEventDealAccepted''"
| "ProviderEvents_names ProviderEventBlockSent = Some ''ProviderEventBlockSent''"
| "ProviderEvents_names ProviderEventBlocksCompleted = Some ''ProviderEventBlocksCompleted''"
| "ProviderEvents_names ProviderEventPaymentRequested = Some ''ProviderEventPaymentRequested''"
| "ProviderEvents_names ProviderEventSaveVoucherFailed = Some ''ProviderEventSaveVoucherFailed''"
| "ProviderEvents_names ProviderEventPartialPaymentReceived = Some ''ProviderEventPartialPaymentReceived''"
| "ProviderEvents_names ProviderEventPaymentReceived = Some ''ProviderEventPaymentReceived''"
| "ProviderEvents_names ProviderEventComplete = Some ''ProviderEventComplete''"
| "ProviderEvents_names ProviderEventUnsealError = Some ''ProviderEventUnsealError''"
| "ProviderEvents_names ProviderEventUnsealComplete = Some ''ProviderEventUnsealComplete''"
| "ProviderEvents_names ProviderEventDataTransferError = Some ''ProviderEventDataTransferError''"
| "ProviderEvents_names ProviderEventCancelComplete = Some ''ProviderEventCancelComplete''"
| "ProviderEvents_names ProviderEventCleanupComplete = Some ''ProviderEventCleanupComplete''"
| "ProviderEvents_names ProviderEventMultiStoreError = Some ''ProviderEventMultiStoreError''"
| "ProviderEvents_names ProviderEventClientCancelled = Some ''ProviderEventClientCancelled''"
| "ProviderEvents_names ProviderEventLastPaymentRequested = Some ''ProviderEventLastPaymentRequested''"
| "ProviderEvents_names ProviderEventProcessPayment = Some ''ProviderEventProcessPayment''"

end
