(* ===== verification/Retrieval_Params.thy ===== *)
theory Retrieval_Params
  imports Market_Prelude
begin

section \<open>Retrieval market: payment intervals\<close>

text \<open>
  The parameters of a retrieval deal and what follows from them (\<open>retrievalmarket/types.go\<close>): up to
  which byte the provider sends before it asks for the next payment, and what is owed at a point
  of the transfer. Counters are \<open>uint64\<close> and wrap around; the two loops are partial functions,
  \<open>None\<close> standing for a loop that does not end. The token amounts of decoded parameters are never
  nil.
\<close>

record Params =
  SelectorOf :: "string option"
  ParamsPieceCID :: "cid option"
  PricePerByte :: token_amount
  PaymentInterval :: uint64
  PaymentIntervalIncrease :: uint64
  UnsealPrice :: token_amount

definition SelectorSpecified :: "Params \<Rightarrow> bool" where
  "SelectorSpecified p \<longleftrightarrow> SelectorOf p \<noteq> None"

partial_function (option) lower_loop ::
  "uint64 \<Rightarrow> uint64 \<Rightarrow> uint64 \<Rightarrow> uint64 \<Rightarrow> uint64 \<Rightarrow> uint64 option" where
  "lower_loop increase currentInterval intervalSize lowerBound target =
     (if target \<le> currentInterval
      then lower_loop increase currentInterval (intervalSize + increase) target (target + intervalSize)
      else Some lowerBound)"

definition IntervalLowerBound :: "Params \<Rightarrow> uint64 \<Rightarrow> uint64 option" where
  "IntervalLowerBound p currentInterval =
     lower_loop (PaymentIntervalIncrease p) currentInterval (PaymentInterval p) 0 0"

partial_function (option) next_loop :: "uint64 \<Rightarrow> uint64 \<Rightarrow> uint64 \<Rightarrow> uint64 \<Rightarrow> uint64 option" where
  "next_loop increase currentInterval intervalSize nextInterval =
     (if nextInterval \<le> currentInterval
      then next_loop increase currentInterval (intervalSize + increase) (nextInterval + intervalSize)
      else Some nextInterval)"

definition nextInterval :: "Params \<Rightarrow> uint64 \<Rightarrow> uint64 option" where
  "nextInterval p currentInterval =
     next_loop (PaymentIntervalIncrease p) currentInterval (PaymentInterval p) 0"

declare lower_loop.simps [code] next_loop.simps [code]

definition bytes_paid :: "Params \<Rightarrow> token_amount \<Rightarrow> token_amount" where
  "bytes_paid p fundsReceived =
     big_Div (if UnsealPrice p \<noteq> 0 then fundsReceived - UnsealPrice p else fundsReceived) (PricePerByte p)"

definition NextInterval :: "Params \<Rightarrow> token_amount \<Rightarrow> uint64 option" where
  "NextInterval p fundsReceived =
     (if PricePerByte p = 0 then Some 0
      else nextInterval p (if bytes_paid p fundsReceived > 0
        then word_of_int (bytes_paid p fundsReceived) else 0))"

definition OutstandingBalance :: "Params \<Rightarrow> token_amount \<Rightarrow> uint64 \<Rightarrow> bool \<Rightarrow> token_amount option" where
  "OutstandingBalance p fundsReceived sent inFinalization =
     (if fundsReceived < UnsealPrice p then Some (UnsealPrice p - fundsReceived)
      else if PricePerByte p = 0 then Some 0
      else case (if inFinalization then Some sent else IntervalLowerBound p sent) of
        None \<Rightarrow> None
      | Some minimumBytesToPay \<Rightarrow>
          let transferPayment = fundsReceived - UnsealPrice p;
              totalPaymentRequired = int64_of minimumBytesToPay * PricePerByte p;
              owed = totalPaymentRequired - transferPayment
          in Some (if owed < 0 then 0 else owed))"

definition NewParamsV0 :: "token_amount \<Rightarrow> uint64 \<Rightarrow> uint64 \<Rightarrow> Params" where
  "NewParamsV0 pricePerByte paymentInterval paymentIntervalIncrease =
     \<lparr>SelectorOf = None, ParamsPieceCID = None, PricePerByte = pricePerByte,
      PaymentInterval = paymentInterval, PaymentIntervalIncrease = paymentIntervalIncrease,
      UnsealPrice = 0\<rparr>"

definition NewParamsV1 :: "token_amount \<Rightarrow> uint64 \<Rightarrow> uint64 \<Rightarrow> string option \<Rightarrow> cid option \<Rightarrow>
    token_amount \<Rightarrow> go_error + Params" where
  "NewParamsV1 pricePerByte paymentInterval paymentIntervalIncrease sel pieceCid unsealPrice =
     (case sel of
        None \<Rightarrow> Inl (New ''selector required for NewParamsV1'')
      | Some s \<Rightarrow> Inr \<lparr>SelectorOf = Some s, ParamsPieceCID = pieceCid, PricePerByte = pricePerByte,
          PaymentInterval = paymentInterval, PaymentIntervalIncrease = paymentIntervalIncrease,
          UnsealPrice = unsealPrice\<rparr>)"

subsection \<open>The interval bounds in closed form\<close>

text \<open>\<open>bound i n k\<close> is the \<open>k\<close>-th bound: \<open>k\<close> intervals, the first of size \<open>i\<close>, each \<open>n\<close> larger than
  the one before.\<close>

primrec bound :: "nat \<Rightarrow> nat \<Rightarrow> nat \<Rightarrow> nat" where
  "bound i n 0 = 0"
| "bound i n (Suc k) = bound i n k + (i + k * n)"

lemma bound_mono: "k \<le> l \<Longrightarrow> bound i n k \<le> bound i n l"
  by (induction rule: dec_induct) simp_all

lemma bound_less: "bound i n k < bound i n l \<Longrightarrow> k < l"
  using bound_mono [of l k i n] by (meson leD not_le_imp_less)

lemma bound_unbounded: "0 < i \<or> 0 < n \<Longrightarrow> \<exists>k. m < bound i n k"
proof -
  assume pos: "0 < i \<or> 0 < n"
  have "k \<le> bound i n (Suc k)" for k
  proof (induction k)
    case (Suc k)
    have "1 \<le> i + Suc k * n" using pos by (cases i) auto
    with Suc show ?case by simp
  qed simp
  from this [of "Suc m"] show ?thesis by (metis Suc_le_eq)
qed

text \<open>The first bound beyond \<open>m\<close>, and why it does not overflow.\<close>

definition first_bound :: "nat \<Rightarrow> nat \<Rightarrow> nat \<Rightarrow> nat" where
  "first_bound i n m = (LEAST k. m < bound i n k)"

lemma first_bound_props:
  assumes "0 < i \<or> 0 < n"
  shows "m < bound i n (first_bound i n m)" and "k < first_bound i n m \<Longrightarrow> bound i n k \<le> m"
    and "0 < first_bound i n m"
proof -
  show gt: "m < bound i n (first_bound i n m)"
    unfolding first_bound_def using bound_unbounded [OF assms] by (rule LeastI_ex)
  show "k < first_bound i n m \<Longrightarrow> bound i n k \<le> m"
    unfolding first_bound_def by (meson not_less_Least not_le_imp_less)
  show "0 < first_bound i n m" using gt by (cases "first_bound i n m") auto
qed

lemma bound_first_small:
  assumes "0 < i \<or> 0 < n"
  shows "bound i n (first_bound i n m) \<le> 2 * m + n + i"
proof -
  obtain k where k: "first_bound i n m = Suc k"
    using first_bound_props(3) [OF assms, of m] by (cases "first_bound i n m") auto
  have le: "bound i n k \<le> m" using first_bound_props(2) [OF assms, of k m] k by simp
  show ?thesis
  proof (cases k)
    case 0
    then show ?thesis using k by simp
  next
    case (Suc j)
    with le have "i + j * n \<le> m" by simp
    with le k Suc show ?thesis by simp
  qed
qed

subsection \<open>The loops compute the bounds\<close>

lemma unat_uint64_less: "unat (w :: uint64) < 2 ^ 64"
  using unsigned_less [of w] by simp

lemma int64_of_of_nat: "m < 2 ^ 63 \<Longrightarrow> int64_of (of_nat m :: uint64) = int m"
proof -
  assume m: "m < 2 ^ 63"
  then have "uint (of_nat m :: uint64) = int m" by (simp add: uint_nat unat_of_nat)
  moreover from m have "int m < 2 ^ 63" by simp
  ultimately show ?thesis by (subst int64_of_small) simp_all
qed

lemma of_nat_le_word: "m \<le> unat cur \<Longrightarrow> (of_nat m :: uint64) \<le> cur"
proof -
  assume le: "m \<le> unat cur"
  also note unat_uint64_less [of cur]
  finally have "unat (of_nat m :: uint64) = m" by (rule unat_of_nat_small)
  with le show ?thesis by (simp add: word_le_nat_alt)
qed

lemma of_nat_gt_word: "unat cur < m \<Longrightarrow> m < 2 ^ 64 \<Longrightarrow> \<not> (of_nat m :: uint64) \<le> cur"
  by (simp add: word_le_nat_alt unat_of_nat)

lemma next_loop_bound:
  assumes pos: "0 < i \<or> 0 < n" and K: "K = first_bound i n (unat cur)"
    and fits: "bound i n K < 2 ^ 64" and "k \<le> K"
  shows "next_loop (of_nat n) cur (of_nat (i + k * n)) (of_nat (bound i n k)) =
    Some (of_nat (bound i n K))"
  using \<open>k \<le> K\<close>
proof (induction rule: inc_induct)
  case base
  have "\<not> (of_nat (bound i n K) :: uint64) \<le> cur"
    using first_bound_props(1) [OF pos] fits unfolding K by (intro of_nat_gt_word)
  then show ?case by (subst next_loop.simps) simp
next
  case (step k)
  then have le: "bound i n k \<le> unat cur" using first_bound_props(2) [OF pos] K by blast
  then have "(of_nat (bound i n k) :: uint64) \<le> cur"
    by (rule of_nat_le_word)
  then have "next_loop (of_nat n) cur (of_nat (i + k * n)) (of_nat (bound i n k)) =
      next_loop (of_nat n) cur (of_nat (i + k * n) + of_nat n) (of_nat (bound i n k) + of_nat (i + k * n))"
    by (subst next_loop.simps) (simp only: if_True)
  also have "of_nat (i + k * n) + of_nat n = (of_nat (i + Suc k * n) :: uint64)"
    by (simp add: algebra_simps)
  also have "of_nat (bound i n k) + of_nat (i + k * n) = (of_nat (bound i n (Suc k)) :: uint64)"
    by simp
  finally show ?case using step.IH by simp
qed

lemma lower_loop_bound:
  assumes pos: "0 < i \<or> 0 < n" and K: "K = first_bound i n (unat cur)"
    and fits: "bound i n K < 2 ^ 64" and "Suc k \<le> K"
  shows "lower_loop (of_nat n) cur (of_nat (i + Suc k * n)) (of_nat (bound i n k))
    (of_nat (bound i n (Suc k))) = Some (of_nat (bound i n (K - 1)))"
  using \<open>Suc k \<le> K\<close>
proof (induction "K - Suc k" arbitrary: k)
  case 0
  then have "K = Suc k" by simp
  moreover from this have "\<not> (of_nat (bound i n (Suc k)) :: uint64) \<le> cur"
    using first_bound_props(1) [OF pos, of "unat cur"] fits K by (intro of_nat_gt_word) (simp_all only:)
  ultimately show ?case by (subst lower_loop.simps) (simp del: bound.simps)
next
  case (Suc x)
  then have le: "bound i n (Suc k) \<le> unat cur"
    using first_bound_props(2) [OF pos] K by (metis Suc_diff_Suc zero_less_diff zero_less_Suc)
  then have "(of_nat (bound i n (Suc k)) :: uint64) \<le> cur"
    by (rule of_nat_le_word)
  then have "lower_loop (of_nat n) cur (of_nat (i + Suc k * n)) (of_nat (bound i n k))
      (of_nat (bound i n (Suc k))) =
      lower_loop (of_nat n) cur (of_nat (i + Suc k * n) + of_nat n) (of_nat (bound i n (Suc k)))
        (of_nat (bound i n (Suc k)) + of_nat (i + Suc k * n))"
    by (subst lower_loop.simps) (simp only: if_True)
  also have "of_nat (i + Suc k * n) + of_nat n = (of_nat (i + Suc (Suc k) * n) :: uint64)"
    by (simp add: algebra_simps)
  also have "of_nat (bound i n (Suc k)) + of_nat (i + Suc k * n) =
      (of_nat (bound i n (Suc (Suc k))) :: uint64)"
    by (simp only: bound.simps(2) [of i n "Suc k"] of_nat_add)
  also have "lower_loop (of_nat n) cur (of_nat (i + Suc (Suc k) * n)) (of_nat (bound i n (Suc k)))
      (of_nat (bound i n (Suc (Suc k)))) = Some (of_nat (bound i n (K - 1)))"
    using Suc.hyps(2) by (intro Suc.hyps(1)) simp_all
  finally show ?case .
qed

lemma pos_params:
  "PaymentInterval p \<noteq> 0 \<or> PaymentIntervalIncrease p \<noteq> 0 \<Longrightarrow>
     0 < unat (PaymentInterval p) \<or> 0 < unat (PaymentIntervalIncrease p)"
  by (simp add: unat_gt_0)

text \<open>A counter from which the next bound can be computed without overflow.\<close>

definition fits :: "Params \<Rightarrow> uint64 \<Rightarrow> bool" where
  "fits p cur \<longleftrightarrow>
     2 * unat cur + unat (PaymentIntervalIncrease p) + unat (PaymentInterval p) < 2 ^ 64"

definition next_index :: "Params \<Rightarrow> uint64 \<Rightarrow> nat" where
  "next_index p cur =
     first_bound (unat (PaymentInterval p)) (unat (PaymentIntervalIncrease p)) (unat cur)"

abbreviation (input) pbound :: "Params \<Rightarrow> nat \<Rightarrow> nat" where
  "pbound p \<equiv> bound (unat (PaymentInterval p)) (unat (PaymentIntervalIncrease p))"

lemma next_index_props:
  assumes "PaymentInterval p \<noteq> 0 \<or> PaymentIntervalIncrease p \<noteq> 0" and "fits p cur"
  shows "unat cur < pbound p (next_index p cur)" and "0 < next_index p cur"
    and "pbound p (next_index p cur - 1) \<le> unat cur" and "pbound p (next_index p cur) < 2 ^ 64"
proof -
  note pos = pos_params [OF assms(1)]
  show "unat cur < pbound p (next_index p cur)" and gt: "0 < next_index p cur"
    using first_bound_props [OF pos] by (simp_all add: next_index_def)
  show "pbound p (next_index p cur - 1) \<le> unat cur"
    using gt first_bound_props(2) [OF pos] by (simp add: next_index_def)
  show "pbound p (next_index p cur) < 2 ^ 64"
    using bound_first_small [OF pos, of "unat cur"] assms(2)
    unfolding next_index_def fits_def by linarith
qed

lemma nextInterval_Some:
  assumes "PaymentInterval p \<noteq> 0 \<or> PaymentIntervalIncrease p \<noteq> 0" and "fits p cur"
  shows "nextInterval p cur = Some (of_nat (pbound p (next_index p cur)))"
  using next_loop_bound [OF pos_params [OF assms(1)] _ next_index_props(4) [OF assms, unfolded next_index_def],
      of cur 0]
  by (simp add: nextInterval_def next_index_def)

lemma IntervalLowerBound_Some:
  assumes "PaymentInterval p \<noteq> 0 \<or> PaymentIntervalIncrease p \<noteq> 0" and "fits p cur"
  shows "IntervalLowerBound p cur = Some (of_nat (pbound p (next_index p cur - 1)))"
proof -
  have "lower_loop (PaymentIntervalIncrease p) cur (PaymentInterval p) 0 0 =
      lower_loop (of_nat (unat (PaymentIntervalIncrease p))) cur
        (of_nat (unat (PaymentInterval p) + Suc 0 * unat (PaymentIntervalIncrease p)))
        (of_nat (pbound p 0)) (of_nat (pbound p (Suc 0)))"
    by (subst lower_loop.simps) simp
  also have "\<dots> = Some (of_nat (pbound p (next_index p cur - 1)))"
    using next_index_props(2,4) [OF assms]
    unfolding next_index_def
    by (intro lower_loop_bound [OF pos_params [OF assms(1)] refl]) simp_all
  finally show ?thesis by (simp only: IntervalLowerBound_def)
qed

lemma next_loop_Some_nonzero:
  "next_loop inc cur sz nxt = Some y \<Longrightarrow> \<not> (inc = 0 \<and> sz = 0 \<and> nxt = 0)"
  by (erule next_loop.raw_induct [rotated, where P = "\<lambda>inc cur sz nxt y. \<not> (inc = 0 \<and> sz = 0 \<and> nxt = 0)"])
    (fastforce split: if_splits)

lemma next_loop_zero_diverges: "next_loop 0 cur 0 0 = None"
  using next_loop_Some_nonzero [of 0 cur 0 0] by (cases "next_loop 0 cur 0 0") simp_all

lemma lower_loop_Some_nonzero:
  "lower_loop inc cur sz low tgt = Some y \<Longrightarrow> \<not> (inc = 0 \<and> sz = 0 \<and> tgt = 0)"
  by (erule lower_loop.raw_induct [rotated, where P = "\<lambda>inc cur sz low tgt y. \<not> (inc = 0 \<and> sz = 0 \<and> tgt = 0)"])
    (fastforce split: if_splits)

lemma lower_loop_zero_diverges: "lower_loop 0 cur 0 0 0 = None"
  using lower_loop_Some_nonzero [of 0 cur 0 0 0] by (cases "lower_loop 0 cur 0 0 0") simp_all

subsection \<open>Payment and limits\<close>

lemma bytes_paid_div:
  assumes "0 < PricePerByte p" and "UnsealPrice p \<le> funds"
  shows "bytes_paid p funds = (funds - UnsealPrice p) div PricePerByte p"
  using assms by (simp add: bytes_paid_def big_Div_nonneg)

lemma NextInterval_paid:
  assumes "0 < PricePerByte p" and "UnsealPrice p \<le> funds"
  shows "NextInterval p funds = nextInterval p (word_of_int (bytes_paid p funds))"
proof -
  have "0 \<le> bytes_paid p funds"
    using assms by (simp add: bytes_paid_div pos_imp_zdiv_nonneg_iff)
  then show ?thesis using assms(1) by (auto simp: NextInterval_def)
qed

text \<open>The bound below what was sent lies beyond the bytes paid for exactly when the limit is
  reached.\<close>

lemma lower_bound_paid:
  assumes "PaymentInterval p \<noteq> 0 \<or> PaymentIntervalIncrease p \<noteq> 0" and "fits p sent" and "fits p paid"
  shows "pbound p (next_index p sent - 1) \<le> unat paid \<longleftrightarrow> unat sent < pbound p (next_index p paid)"
proof
  note ps = next_index_props [OF assms(1,2)] and pp = next_index_props [OF assms(1,3)]
  assume "pbound p (next_index p sent - 1) \<le> unat paid"
  also note pp(1)
  finally have "next_index p sent - 1 < next_index p paid" by (rule bound_less)
  then have "next_index p sent \<le> next_index p paid" by linarith
  then have "pbound p (next_index p sent) \<le> pbound p (next_index p paid)" by (rule bound_mono)
  with ps(1) show "unat sent < pbound p (next_index p paid)" by linarith
next
  note ps = next_index_props [OF assms(1,2)] and pp = next_index_props [OF assms(1,3)]
  assume "unat sent < pbound p (next_index p paid)"
  from le_less_trans [OF ps(3) this] have "next_index p sent - 1 < next_index p paid"
    by (rule bound_less)
  then have "next_index p sent - 1 \<le> next_index p paid - 1" by linarith
  then have "pbound p (next_index p sent - 1) \<le> pbound p (next_index p paid - 1)" by (rule bound_mono)
  with pp(3) show "pbound p (next_index p sent - 1) \<le> unat paid" by linarith
qed

lemma div_lower: "0 < (b :: int) \<Longrightarrow> m * b \<le> a \<longleftrightarrow> m \<le> a div b"
proof
  assume b: "0 < b" and "m * b \<le> a"
  then have "m * b div b \<le> a div b" by (intro zdiv_mono1)
  with b show "m \<le> a div b" by simp
next
  assume b: "0 < b" and "m \<le> a div b"
  then have "m * b \<le> a div b * b" by (intro mult_right_mono) simp_all
  also have "\<dots> \<le> a" using div_mult_mod_eq [of a b] pos_mod_sign [OF b, of a] by linarith
  finally show "m * b \<le> a" .
qed

subsection \<open>Properties\<close>

text \<open>C12. The payment intervals of a deal. Unless both the interval and its increase are zero, both
  loops end for every counter that leaves room for the next interval in 64 bits, and they enclose
  the counter: the lower bound and the next bound are two consecutive sums of intervals (each
  interval larger than the one before by the increase), the first not above the counter and the
  second above it.\<close>

theorem intervals_enclose:
  assumes "PaymentInterval p \<noteq> 0 \<or> PaymentIntervalIncrease p \<noteq> 0"
    and "2 * unat cur + unat (PaymentIntervalIncrease p) + unat (PaymentInterval p) < 2 ^ 64"
  shows "\<exists>k lo hi. IntervalLowerBound p cur = Some lo \<and> nextInterval p cur = Some hi \<and>
    unat lo = bound (unat (PaymentInterval p)) (unat (PaymentIntervalIncrease p)) k \<and>
    unat hi = bound (unat (PaymentInterval p)) (unat (PaymentIntervalIncrease p)) (Suc k) \<and>
    lo \<le> cur \<and> cur < hi"
proof -
  have fit: "fits p cur" using assms(2) by (simp add: fits_def)
  note props = next_index_props [OF assms(1) fit]
  obtain k where k: "next_index p cur = Suc k" using props(2) by (cases "next_index p cur") auto
  have small: "pbound p k < 2 ^ 64" using props(3) k unat_uint64_less [of cur] by simp
  have "IntervalLowerBound p cur = Some (of_nat (pbound p k))"
    using IntervalLowerBound_Some [OF assms(1) fit] k by simp
  moreover have "nextInterval p cur = Some (of_nat (pbound p (Suc k)))"
    using nextInterval_Some [OF assms(1) fit] k by (simp only:)
  moreover have "unat (of_nat (pbound p k) :: uint64) = pbound p k"
    and "unat (of_nat (pbound p (Suc k)) :: uint64) = pbound p (Suc k)"
    using small props(4) unfolding k by (simp_all only: unat_of_nat_small)
  moreover from this have "(of_nat (pbound p k) :: uint64) \<le> cur" "cur < of_nat (pbound p (Suc k))"
    using props(1,3) k by (simp_all only: word_le_nat_alt word_less_nat_alt diff_Suc_1)
  ultimately show ?thesis by blast
qed

theorem intervals_enclose_witness:
  "\<exists>lo hi. IntervalLowerBound (NewParamsV0 5 100 50) 260 = Some lo \<and>
     nextInterval (NewParamsV0 5 100 50) 260 = Some hi \<and> lo \<le> 260 \<and> 260 < hi"
  using intervals_enclose [of "NewParamsV0 5 100 50" 260] by (auto simp: NewParamsV0_def)

lemma owed_limit_agree:
  assumes "PaymentInterval p \<noteq> 0 \<or> PaymentIntervalIncrease p \<noteq> 0"
    and "0 < PricePerByte p" and "UnsealPrice p \<le> funds"
    and "2 * unat sent + unat (PaymentIntervalIncrease p) + unat (PaymentInterval p) < 2 ^ 64"
    and "2 * ((funds - UnsealPrice p) div PricePerByte p) + uint (PaymentIntervalIncrease p) +
      uint (PaymentInterval p) < 2 ^ 64"
  shows "\<exists>limit owed. NextInterval p funds = Some limit \<and>
    OutstandingBalance p funds sent False = Some owed \<and> 0 \<le> owed \<and> (owed = 0 \<longleftrightarrow> sent < limit)"
proof -
  let ?q = "(funds - UnsealPrice p) div PricePerByte p" and ?paid = "word_of_int (bytes_paid p funds) :: uint64"
  have q: "0 \<le> ?q" using assms(2,3) by (simp add: pos_imp_zdiv_nonneg_iff)
  have "0 \<le> uint (PaymentIntervalIncrease p) + uint (PaymentInterval p)" by simp
  with assms(5) q have "?q < 2 ^ 64" by linarith
  with q have upaid: "uint ?paid = ?q" by (simp add: bytes_paid_div [OF assms(2,3)] uint_word_of_int)
  then have paid: "int (unat ?paid) = ?q" by simp
  have fit: "fits p sent" using assms(4) by (simp add: fits_def)
  have "int (2 * unat ?paid + unat (PaymentIntervalIncrease p) + unat (PaymentInterval p)) < 2 ^ 64"
    using assms(5) by (simp add: upaid)
  then have fit': "fits p ?paid" unfolding fits_def by (metis of_nat_less_iff of_nat_numeral of_nat_power)
  let ?lo = "pbound p (next_index p sent - 1)" and ?hi = "pbound p (next_index p ?paid)"
  have lo: "?lo \<le> unat sent" using next_index_props(3) [OF assms(1) fit] .
  have "2 * unat sent < 2 ^ 64" using assms(4) by linarith
  with lo have "?lo < 2 ^ 63" by simp
  then have lo63: "int64_of (of_nat ?lo :: uint64) = int ?lo" by (rule int64_of_of_nat)
  have limit: "NextInterval p funds = Some (of_nat ?hi)"
    by (simp only: NextInterval_paid [OF assms(2,3)] nextInterval_Some [OF assms(1) fit'])
  let ?owed = "int ?lo * PricePerByte p - (funds - UnsealPrice p)"
  have bal: "OutstandingBalance p funds sent False = Some (if ?owed < 0 then 0 else ?owed)"
    using assms(2,3) by (simp add: OutstandingBalance_def IntervalLowerBound_Some [OF assms(1) fit] lo63 Let_def del: One_nat_def)
  have "?owed \<le> 0 \<longleftrightarrow> int ?lo \<le> ?q" using div_lower [OF assms(2)] by simp
  also have "\<dots> \<longleftrightarrow> ?lo \<le> unat ?paid" by (simp only: of_nat_le_iff flip: paid)
  also have "\<dots> \<longleftrightarrow> unat sent < ?hi" by (rule lower_bound_paid [OF assms(1) fit fit'])
  also have "\<dots> \<longleftrightarrow> sent < of_nat ?hi"
    using next_index_props(4) [OF assms(1) fit'] by (simp add: word_less_nat_alt unat_of_nat)
  finally have "(if ?owed < 0 then 0 else ?owed) = 0 \<longleftrightarrow> sent < of_nat ?hi" by auto
  moreover have "0 \<le> (if ?owed < 0 then 0 else ?owed)" by simp
  ultimately show ?thesis using limit bal by blast
qed

text \<open>C11. What is owed and how much may be sent agree. For a paid transfer whose unsealing is paid,
  with amounts that fit 64 bits, both \<open>NextInterval\<close> (the limit the provider gives the transfer
  for the funds received) and \<open>OutstandingBalance\<close> return, the balance is never negative, and it is
  zero exactly as long as the bytes sent are below the limit: the provider neither asks for money
  before the limit nor lets the transfer pass it unpaid.\<close>

theorem owed_iff_limit_reached:
  assumes "PaymentInterval p \<noteq> 0 \<or> PaymentIntervalIncrease p \<noteq> 0"
    and "0 < PricePerByte p" and "UnsealPrice p \<le> funds"
    and "2 * unat sent + unat (PaymentIntervalIncrease p) + unat (PaymentInterval p) < 2 ^ 64"
    and "2 * ((funds - UnsealPrice p) div PricePerByte p) + uint (PaymentIntervalIncrease p) +
      uint (PaymentInterval p) < 2 ^ 64"
  shows "\<exists>limit owed. NextInterval p funds = Some limit \<and>
    OutstandingBalance p funds sent False = Some owed \<and> 0 \<le> owed \<and> (owed = 0 \<longleftrightarrow> sent < limit)"
  by (rule owed_limit_agree [OF assms])

theorem owed_iff_limit_reached_witness:
  "\<exists>limit owed. NextInterval (NewParamsV0 5 100 50) 1000 = Some limit \<and>
    OutstandingBalance (NewParamsV0 5 100 50) 1000 260 False = Some owed \<and> 0 \<le> owed \<and>
    (owed = 0 \<longleftrightarrow> 260 < limit)"
  using owed_iff_limit_reached [of "NewParamsV0 5 100 50" 1000 260] by (simp add: NewParamsV0_def)

text \<open>With both the payment interval and its increase zero the loops do not end: for a priced
  deal \<open>NextInterval\<close> never returns, nor does \<open>OutstandingBalance\<close> before finalization once the
  unsealing is paid.\<close>

theorem zero_interval_diverges:
  assumes "PaymentInterval p = 0" and "PaymentIntervalIncrease p = 0" and "PricePerByte p \<noteq> 0"
    and "UnsealPrice p \<le> funds"
  shows "NextInterval p funds = None \<and> OutstandingBalance p funds sent False = None"
  using assms
  by (simp add: NextInterval_def nextInterval_def OutstandingBalance_def IntervalLowerBound_def
      next_loop_zero_diverges lower_loop_zero_diverges)

theorem zero_interval_diverges_witness: "NextInterval (NewParamsV0 2 0 0) 10 = None"
  using zero_interval_diverges [of "NewParamsV0 2 0 0" 10 0] by (simp add: NewParamsV0_def)

end
