(* ===== verification/Retrieval_Types.thy ===== *)
theory Retrieval_Types
  imports Retrieval_Enums Retrieval_Params Piece_Store
begin

section \<open>Retrieval market: deals, queries and vouchers\<close>

text \<open>
  The records of \<open>retrievalmarket/types.go\<close>. A field of an embedded Go struct is reached through
  the field that stands for the struct (\<open>ProposalOf\<close>, \<open>ParamsOf\<close>). Deals are read back from the
  datastore before every event, so their token amounts are never nil. The vouchers that the data
  transfer module carries are nodes of the module bindnode: a parameter \<open>bindnode_registry\<close> with
  the documented round trip as the law of the locale \<open>bindnode\<close>.
\<close>

record PaymentInfo =
  PayCh :: address
  Lane :: uint64

record DealProposal =
  PayloadCID :: cid
  ProposalID :: uint64
  ParamsOf :: Params

record ClientDealState =
  ProposalOf :: DealProposal
  StoreID :: "uint64 option"
  ChannelID :: "channel_id option"
  LastPaymentRequested :: bool
  AllBlocksReceived :: bool
  TotalFunds :: token_amount
  ClientWallet :: address
  MinerWallet :: address
  PaymentInfoOf :: "PaymentInfo option"
  Status :: DealStatus
  Sender :: peer_id
  TotalReceived :: uint64
  Message :: string
  BytesPaidFor :: uint64
  CurrentInterval :: uint64
  PaymentRequested :: token_amount
  FundsSpent :: token_amount
  UnsealFundsPaid :: token_amount
  WaitMsgCID :: "cid option"
  VoucherShortfall :: token_amount
  LegacyProtocol :: bool

abbreviation deal_params :: "ClientDealState \<Rightarrow> Params" where
  "deal_params deal \<equiv> ParamsOf (ProposalOf deal)"

definition ClientDealState_NextInterval :: "ClientDealState \<Rightarrow> uint64 option" where
  "ClientDealState_NextInterval deal = nextInterval (deal_params deal) (CurrentInterval deal)"

record ProviderDealState =
  PProposalOf :: DealProposal
  PStoreID :: uint64
  PChannelID :: "channel_id option"
  PieceInfoOf :: "PieceInfo option"
  PStatus :: DealStatus
  Receiver :: peer_id
  FundsReceived :: token_amount
  PMessage :: string

abbreviation pdeal_params :: "ProviderDealState \<Rightarrow> Params" where
  "pdeal_params deal \<equiv> ParamsOf (PProposalOf deal)"

record ProviderDealIdentifier =
  IdReceiver :: peer_id
  IdDealID :: uint64

definition Identifier :: "ProviderDealState \<Rightarrow> ProviderDealIdentifier" where
  "Identifier pds = \<lparr>IdReceiver = Receiver pds, IdDealID = ProposalID (PProposalOf pds)\<rparr>"

definition ProviderDealIdentifier_String :: "ProviderDealIdentifier \<Rightarrow> string" where
  "ProviderDealIdentifier_String p = IdReceiver p @ ''/'' @ show_uint64 (IdDealID p)"

record RetrievalPeer =
  PeerAddress :: address
  PeerID :: peer_id
  PeerPieceCID :: "cid option"

subsection \<open>Queries\<close>

datatype QueryResponseStatus =
    QueryResponseAvailable
  | QueryResponseUnavailable
  | QueryResponseError

datatype QueryItemStatus =
    QueryItemAvailable
  | QueryItemUnavailable
  | QueryItemUnknown

record QueryParams =
  QueryPieceCID :: "cid option"

record Query =
  QueryPayloadCID :: cid
  QueryParamsOf :: QueryParams

definition NewQueryV0 :: "cid \<Rightarrow> Query" where
  "NewQueryV0 payloadCID = \<lparr>QueryPayloadCID = payloadCID, QueryParamsOf = \<lparr>QueryPieceCID = None\<rparr>\<rparr>"

definition NewQueryV1 :: "cid \<Rightarrow> cid option \<Rightarrow> Query" where
  "NewQueryV1 payloadCID pieceCID =
     \<lparr>QueryPayloadCID = payloadCID, QueryParamsOf = \<lparr>QueryPieceCID = pieceCID\<rparr>\<rparr>"

record QueryResponse =
  QueryStatus :: QueryResponseStatus
  PieceCIDFound :: QueryItemStatus
  QuerySize :: uint64
  PaymentAddress :: address
  MinPricePerByte :: token_amount
  MaxPaymentInterval :: uint64
  MaxPaymentIntervalIncrease :: uint64
  QueryMessage :: string
  QueryUnsealPrice :: token_amount

definition PieceRetrievalPrice :: "QueryResponse \<Rightarrow> token_amount" where
  "PieceRetrievalPrice qr = MinPricePerByte qr * int64_of (QuerySize qr) + QueryUnsealPrice qr"

definition IsTerminalError :: "DealStatus \<Rightarrow> bool" where
  "IsTerminalError status \<longleftrightarrow> status = DealStatusDealNotFound \<or> status = DealStatusFailing \<or>
     status = DealStatusRejected"

definition IsTerminalSuccess :: "DealStatus \<Rightarrow> bool" where
  "IsTerminalSuccess status \<longleftrightarrow> status = DealStatusCompleted"

definition IsTerminalStatus :: "DealStatus \<Rightarrow> bool" where
  "IsTerminalStatus status \<longleftrightarrow> IsTerminalError status \<or> IsTerminalSuccess status"

subsection \<open>Asks, responses and payments\<close>

text \<open>The unseal price of an ask may be nil.\<close>

record Ask =
  AskPricePerByte :: token_amount
  AskUnsealPrice :: "token_amount option"
  AskPaymentInterval :: uint64
  AskPaymentIntervalIncrease :: uint64

record ChannelAvailableFunds =
  ConfirmedAmt :: token_amount
  PendingAmt :: token_amount
  PendingWaitSentinel :: "cid option"
  QueuedAmt :: token_amount
  VoucherReedeemedAmt :: token_amount

record PricingInput =
  InputPayloadCID :: cid
  InputPieceCID :: cid
  InputPieceSize :: uint64
  InputClient :: peer_id
  VerifiedDeal :: bool
  Unsealed :: bool
  CurrentAsk :: Ask

text \<open>An amount that a response leaves out is encoded as zero.\<close>

record DealResponse =
  RespStatus :: DealStatus
  RespID :: uint64
  PaymentOwed :: token_amount
  RespMessage :: string

record DealPayment =
  PaymentID :: uint64
  PaymentChannel :: address
  PaymentVoucher :: "string option"

subsection \<open>Voucher nodes\<close>

record 'n bindnode_registry =
  proposal_to_node :: "DealProposal \<Rightarrow> 'n"
  proposal_from_node :: "'n \<Rightarrow> go_error + DealProposal"
  response_to_node :: "DealResponse \<Rightarrow> 'n"
  response_from_node :: "'n \<Rightarrow> go_error + DealResponse"
  payment_to_node :: "DealPayment \<Rightarrow> 'n"
  payment_from_node :: "'n \<Rightarrow> go_error + DealPayment"

definition DealProposalFromNode :: "'n bindnode_registry \<Rightarrow> 'n option \<Rightarrow> go_error + DealProposal" where
  "DealProposalFromNode reg node = (case node of
     None \<Rightarrow> Inl (New ''empty voucher'')
   | Some n \<Rightarrow> on_err (proposal_from_node reg n)
       (\<lambda>err. Inl (Wrap ''invalid DealProposal: '' err)) Inr)"

definition DealResponseFromNode :: "'n bindnode_registry \<Rightarrow> 'n option \<Rightarrow> go_error + DealResponse" where
  "DealResponseFromNode reg node = (case node of
     None \<Rightarrow> Inl (New ''empty voucher'')
   | Some n \<Rightarrow> on_err (response_from_node reg n)
       (\<lambda>err. Inl (Wrap ''invalid DealResponse: '' err)) Inr)"

definition DealPaymentFromNode :: "'n bindnode_registry \<Rightarrow> 'n option \<Rightarrow> go_error + DealPayment" where
  "DealPaymentFromNode reg node = (case node of
     None \<Rightarrow> Inl (New ''empty voucher'')
   | Some n \<Rightarrow> on_err (payment_from_node reg n)
       (\<lambda>err. Inl (Wrap ''invalid DealPayment: '' err)) Inr)"

text \<open>A value that was made a node is read back as it was.\<close>

locale bindnode =
  fixes reg :: "'n bindnode_registry"
  assumes proposal_node: "proposal_from_node reg (proposal_to_node reg p) = Inr p"
    and response_node: "response_from_node reg (response_to_node reg r) = Inr r"
    and payment_node: "payment_from_node reg (payment_to_node reg v) = Inr v"
begin

lemma proposal_roundtrip: "DealProposalFromNode reg (Some (proposal_to_node reg p)) = Inr p"
  by (simp add: DealProposalFromNode_def proposal_node)

lemma response_roundtrip: "DealResponseFromNode reg (Some (response_to_node reg r)) = Inr r"
  by (simp add: DealResponseFromNode_def response_node)

lemma payment_roundtrip: "DealPaymentFromNode reg (Some (payment_to_node reg v)) = Inr v"
  by (simp add: DealPaymentFromNode_def payment_node)

end

text \<open>Nodes that carry the value itself.\<close>

datatype voucher_node =
    ProposalNode DealProposal
  | ResponseNode DealResponse
  | PaymentNode DealPayment
  | OtherNode string

definition node_registry :: "voucher_node bindnode_registry" where
  "node_registry = \<lparr>
     proposal_to_node = ProposalNode,
     proposal_from_node = (\<lambda>n. case n of ProposalNode p \<Rightarrow> Inr p | _ \<Rightarrow> Inl (New ''not a DealProposal'')),
     response_to_node = ResponseNode,
     response_from_node = (\<lambda>n. case n of ResponseNode r \<Rightarrow> Inr r | _ \<Rightarrow> Inl (New ''not a DealResponse'')),
     payment_to_node = PaymentNode,
     payment_from_node = (\<lambda>n. case n of PaymentNode v \<Rightarrow> Inr v | _ \<Rightarrow> Inl (New ''not a DealPayment''))\<rparr>"

interpretation node_reg: bindnode node_registry
  by unfold_locales (simp_all add: node_registry_def)

end
