(* ===== verification/Retrieval_Client_Fsm.thy ===== *)
theory Retrieval_Client_Fsm
  imports Retrieval_Types Fsm_Machine
begin

section \<open>Retrieval client: event table\<close>

text \<open>
  The event table of \<open>retrievalmarket/impl/clientstates/client_fsm.go\<close> in the order of the source,
  in three parts. \<open>apply_payment\<close> is the action of \<open>ClientEventPaymentSent\<close>; the loop of
  \<open>NextInterval\<close> may not end, and the action then does not return.
\<close>

type_synonym client_event = "(ClientEvent, DealStatus, ClientDealState) fsm_event"

definition recordReceived :: "uint64 \<Rightarrow> ClientDealState \<Rightarrow> ClientDealState" where
  "recordReceived totalReceived deal = deal\<lparr>TotalReceived := totalReceived\<rparr>"

definition paymentChannelCreationStates :: "DealStatus list" where
  "paymentChannelCreationStates = [
     DealStatusWaitForAcceptance,
     DealStatusWaitForAcceptanceLegacy,
     DealStatusAccepted,
     DealStatusPaymentChannelCreating,
     DealStatusPaymentChannelAddingInitialFunds,
     DealStatusPaymentChannelAllocatingLane]"

definition note_error :: "string \<Rightarrow> (DealStatus, ClientDealState) action" where
  "note_error prefix = act p_err (\<lambda>err deal. deal\<lparr>Message := prefix @ Error err\<rparr>)"

definition no_action :: "(DealStatus, ClientDealState) action" where
  "no_action = act p_none (\<lambda>_ deal. deal)"

definition add_requested :: "token_amount \<Rightarrow> ClientDealState \<Rightarrow> ClientDealState" where
  "add_requested paymentOwed deal = deal\<lparr>PaymentRequested := PaymentRequested deal + paymentOwed\<rparr>"

definition set_payment_channel :: "address \<Rightarrow> ClientDealState \<Rightarrow> ClientDealState" where
  "set_payment_channel payCh deal = (case PaymentInfoOf deal of
     None \<Rightarrow> deal\<lparr>PaymentInfoOf := Some \<lparr>PayCh = payCh, Lane = 0\<rparr>\<rparr>
   | Some _ \<Rightarrow> deal)"

definition ClientEvents_1 :: "client_event list" where
  "ClientEvents_1 = [
    Event ClientEventOpen
      [From DealStatusNew ToNoChange] no_action,
    Event ClientEventWriteDealProposalErrored
      [FromAny (To DealStatusErroring)] (note_error ''proposing deal: ''),
    Event ClientEventDealProposed
      [From DealStatusNew (To DealStatusWaitForAcceptance),
       From DealStatusRetryLegacy (To DealStatusWaitForAcceptanceLegacy),
       From DealStatusCancelling ToJustRecord]
      (act p_channel (\<lambda>channelID deal. deal\<lparr>ChannelID := Some channelID, Message := []\<rparr>)),
    Event ClientEventDealRejected
      [From DealStatusWaitForAcceptance (To DealStatusRetryLegacy),
       From DealStatusWaitForAcceptanceLegacy (To DealStatusRejecting)]
      (act p_string (\<lambda>message deal.
         deal\<lparr>Message := ''deal rejected: '' @ message, LegacyProtocol := True\<rparr>)),
    Event ClientEventDealNotFound
      [FromMany [DealStatusWaitForAcceptance, DealStatusWaitForAcceptanceLegacy]
         (To DealStatusDealNotFoundCleanup)]
      (act p_string (\<lambda>message deal. deal\<lparr>Message := ''deal not found: '' @ message\<rparr>)),
    Event ClientEventDealAccepted
      [FromMany [DealStatusWaitForAcceptance, DealStatusWaitForAcceptanceLegacy]
         (To DealStatusAccepted)] no_action,
    Event ClientEventUnknownResponseReceived
      [FromAny (To DealStatusFailing)]
      (act p_status (\<lambda>status deal.
         deal\<lparr>Message := ''Unexpected deal response status: '' @ go_lookup DealStatuses status\<rparr>)),
    Event ClientEventPaymentChannelErrored
      [FromMany [DealStatusAccepted, DealStatusPaymentChannelCreating,
         DealStatusPaymentChannelAddingFunds] (To DealStatusFailing)]
      (note_error ''error from payment channel: ''),
    Event ClientEventPaymentChannelSkip
      [From DealStatusAccepted (To DealStatusOngoing)] no_action,
    Event ClientEventPaymentChannelCreateInitiated
      [From DealStatusAccepted (To DealStatusPaymentChannelCreating)]
      (act p_cid (\<lambda>msgCID deal. deal\<lparr>WaitMsgCID := Some msgCID\<rparr>)),
    Event ClientEventPaymentChannelAddingFunds
      [FromMany [DealStatusAccepted] (To DealStatusPaymentChannelAddingInitialFunds),
       FromMany [DealStatusCheckFunds] (To DealStatusPaymentChannelAddingFunds)]
      (act p_cid_address (\<lambda>(msgCID, payCh) deal.
         set_payment_channel payCh (deal\<lparr>WaitMsgCID := Some msgCID\<rparr>))),
    Event ClientEventPaymentChannelReady
      [FromMany [DealStatusPaymentChannelCreating, DealStatusPaymentChannelAddingInitialFunds,
         DealStatusAccepted] (To DealStatusPaymentChannelAllocatingLane),
       From DealStatusPaymentChannelAddingFunds (To DealStatusOngoing),
       From DealStatusCheckFunds (To DealStatusOngoing)]
      (act p_address (\<lambda>payCh deal.
         (set_payment_channel payCh deal)\<lparr>WaitMsgCID := None, Message := []\<rparr>)),
    Event ClientEventAllocateLaneErrored
      [FromMany [DealStatusPaymentChannelAllocatingLane] (To DealStatusFailing)]
      (note_error ''allocating payment lane: ''),
    Event ClientEventLaneAllocated
      [From DealStatusPaymentChannelAllocatingLane (To DealStatusOngoing)]
      (actM p_uint64 (\<lambda>lane deal. case PaymentInfoOf deal of
         None \<Rightarrow> Panicked
       | Some info \<Rightarrow> Done (deal\<lparr>PaymentInfoOf := Some (info\<lparr>Lane := lane\<rparr>)\<rparr>))),
    Event ClientEventDataTransferError
      [FromAny (To DealStatusErroring)]
      (note_error ''error generated by data transfer: '')]"

definition ClientEvents_2 :: "client_event list" where
  "ClientEvents_2 = [
    Event ClientEventLastPaymentRequested
      [FromMany [DealStatusOngoing, DealStatusFundsNeededLastPayment, DealStatusFundsNeeded]
         (To DealStatusFundsNeededLastPayment),
       From DealStatusSendFunds (To DealStatusOngoing),
       From DealStatusCheckComplete ToNoChange,
       From DealStatusBlocksComplete (To DealStatusSendFundsLastPayment),
       FromMany paymentChannelCreationStates ToJustRecord]
      (act p_token (\<lambda>paymentOwed deal.
         (add_requested paymentOwed deal)\<lparr>LastPaymentRequested := True\<rparr>)),
    Event ClientEventPaymentRequested
      [FromMany [DealStatusOngoing, DealStatusBlocksComplete, DealStatusFundsNeeded,
         DealStatusFundsNeededLastPayment] (To DealStatusFundsNeeded),
       From DealStatusSendFunds (To DealStatusOngoing),
       From DealStatusCheckComplete ToNoChange,
       FromMany paymentChannelCreationStates ToJustRecord]
      (act p_token add_requested),
    Event ClientEventUnsealPaymentRequested
      [FromMany [DealStatusWaitForAcceptance, DealStatusWaitForAcceptanceLegacy]
         (To DealStatusAccepted)]
      (act p_token add_requested),
    Event ClientEventAllBlocksReceived
      [FromMany [DealStatusOngoing, DealStatusBlocksComplete] (To DealStatusBlocksComplete),
       FromMany paymentChannelCreationStates ToJustRecord,
       FromMany [DealStatusSendFunds, DealStatusSendFundsLastPayment] (To DealStatusOngoing),
       From DealStatusFundsNeeded ToNoChange,
       From DealStatusFundsNeededLastPayment (To DealStatusSendFundsLastPayment),
       From DealStatusClientWaitingForLastBlocks (To DealStatusFinalizingBlockstore),
       From DealStatusCheckComplete (To DealStatusFinalizingBlockstore)]
      (act p_none (\<lambda>_ deal. deal\<lparr>AllBlocksReceived := True\<rparr>)),
    Event ClientEventBlocksReceived
      [FromMany [DealStatusOngoing, DealStatusFundsNeeded, DealStatusFundsNeededLastPayment,
         DealStatusCheckComplete, DealStatusClientWaitingForLastBlocks] ToNoChange,
       FromMany [DealStatusSendFunds, DealStatusSendFundsLastPayment] (To DealStatusOngoing),
       FromMany paymentChannelCreationStates ToJustRecord]
      (act p_uint64 recordReceived),
    Event ClientEventSendFunds
      [FromMany [DealStatusSendFunds, DealStatusSendFundsLastPayment] (To DealStatusOngoing),
       From DealStatusFundsNeeded (To DealStatusSendFunds),
       From DealStatusFundsNeededLastPayment (To DealStatusSendFundsLastPayment)] no_action,
    Event ClientEventFundsExpended
      [FromMany [DealStatusCheckFunds] (To DealStatusInsufficientFunds)]
      (act p_token (\<lambda>shortfall deal. deal\<lparr>Message :=
         ''not enough current or pending funds in payment channel, shortfall of '' @ show_int shortfall\<rparr>)),
    Event ClientEventBadPaymentRequested
      [FromMany [DealStatusSendFunds, DealStatusSendFundsLastPayment] (To DealStatusFailing)]
      (act p_string (\<lambda>message deal. deal\<lparr>Message := message\<rparr>)),
    Event ClientEventCreateVoucherFailed
      [FromMany [DealStatusSendFunds, DealStatusSendFundsLastPayment] (To DealStatusFailing)]
      (note_error ''creating payment voucher: ''),
    Event ClientEventVoucherShortfall
      [FromMany [DealStatusSendFunds, DealStatusSendFundsLastPayment] (To DealStatusCheckFunds)]
      (act p_token (\<lambda>shortfall deal. deal)),
    Event ClientEventWriteDealPaymentErrored
      [FromAny (To DealStatusErroring)] (note_error ''writing deal payment: ''),
    Event ClientEventPaymentNotSent
      [From DealStatusOngoing ToJustRecord,
       From DealStatusSendFunds (To DealStatusOngoing),
       From DealStatusSendFundsLastPayment (To DealStatusFinalizing)] no_action]"

text \<open>\<open>big.Div(paidSoFarForTransfer, PricePerByte).Uint64()\<close> and the bytes that follow from it.\<close>

definition bytes_paid_for :: "ClientDealState \<Rightarrow> uint64" where
  "bytes_paid_for deal =
     word_of_int (big_Div (FundsSpent deal - UnsealFundsPaid deal) (PricePerByte (deal_params deal)))"

definition apply_payment :: "token_amount \<Rightarrow> ClientDealState \<Rightarrow> ClientDealState act_result" where
  "apply_payment voucherAmt deal =
     (let sentAmt = voucherAmt - FundsSpent deal;
          deal1 = deal\<lparr>PaymentRequested := PaymentRequested deal - sentAmt, FundsSpent := voucherAmt\<rparr>
      in if UnsealPrice (deal_params deal1) \<ge> FundsSpent deal1
         then Done (deal1\<lparr>UnsealFundsPaid := FundsSpent deal1\<rparr>)
         else let deal2 = deal1\<lparr>UnsealFundsPaid := UnsealPrice (deal_params deal1)\<rparr>
           in if PricePerByte (deal_params deal2) = 0 then Done deal2
              else let deal3 = deal2\<lparr>BytesPaidFor := bytes_paid_for deal2\<rparr>
                in if BytesPaidFor deal3 \<ge> CurrentInterval deal3
                   then (case ClientDealState_NextInterval deal3 of
                      None \<Rightarrow> Panicked
                    | Some i \<Rightarrow> Done (deal3\<lparr>CurrentInterval := i\<rparr>))
                   else Done deal3)"

definition ClientEvents_3 :: "client_event list" where
  "ClientEvents_3 = [
    Event ClientEventPaymentSent
      [From DealStatusOngoing ToJustRecord,
       From DealStatusBlocksComplete (To DealStatusCheckComplete),
       From DealStatusCheckComplete ToNoChange,
       FromMany [DealStatusFundsNeeded, DealStatusFundsNeededLastPayment, DealStatusSendFunds]
         (To DealStatusOngoing),
       From DealStatusSendFundsLastPayment (To DealStatusFinalizing)]
      (actM p_token apply_payment),
    Event ClientEventComplete
      [FromMany [DealStatusSendFunds, DealStatusSendFundsLastPayment, DealStatusFundsNeeded,
         DealStatusFundsNeededLastPayment] (To DealStatusCheckComplete),
       From DealStatusOngoing (To DealStatusCheckComplete),
       From DealStatusBlocksComplete (To DealStatusCheckComplete),
       From DealStatusFinalizing (To DealStatusFinalizingBlockstore)] no_action,
    Event ClientEventCompleteVerified
      [From DealStatusCheckComplete (To DealStatusFinalizingBlockstore)] no_action,
    Event ClientEventEarlyTermination
      [From DealStatusCheckComplete (To DealStatusErroring)]
      (act p_none (\<lambda>_ deal.
         deal\<lparr>Message := ''Provider sent complete status without sending all data''\<rparr>)),
    Event ClientEventWaitForLastBlocks
      [From DealStatusCheckComplete (To DealStatusClientWaitingForLastBlocks),
       FromMany [DealStatusFinalizingBlockstore, DealStatusCompleted] ToJustRecord] no_action,
    Event ClientEventBlockstoreFinalized
      [From DealStatusFinalizingBlockstore (To DealStatusCompleted),
       From DealStatusErroring (To DealStatusErrored),
       From DealStatusRejecting (To DealStatusRejected),
       From DealStatusDealNotFoundCleanup (To DealStatusDealNotFound)] no_action,
    Event ClientEventFinalizeBlockstoreErrored
      [From DealStatusFinalizingBlockstore (To DealStatusErrored)]
      (note_error ''finalizing blockstore: ''),
    Event ClientEventCancelComplete
      [From DealStatusFailing (To DealStatusErrored),
       From DealStatusCancelling (To DealStatusCancelled)] no_action,
    Event ClientEventProviderCancelled
      [From DealStatusFailing ToJustRecord,
       From DealStatusCancelling ToJustRecord,
       FromAny (To DealStatusCancelling)]
      (act p_none (\<lambda>_ deal.
         if Status deal \<noteq> DealStatusFailing \<and> Status deal \<noteq> DealStatusCancelling
         then deal\<lparr>Message := ''Provider cancelled retrieval''\<rparr> else deal)),
    Event ClientEventCancel
      [FromAny (To DealStatusCancelling)]
      (act p_none (\<lambda>_ deal. deal\<lparr>Message := ''Client cancelled retrieval''\<rparr>)),
    Event ClientEventRecheckFunds
      [From DealStatusInsufficientFunds (To DealStatusCheckFunds)] no_action]"

definition ClientEvents :: "client_event list" where
  "ClientEvents = ClientEvents_1 @ ClientEvents_2 @ ClientEvents_3"

definition ClientFinalityStates :: "DealStatus list" where
  "ClientFinalityStates = [DealStatusErrored, DealStatusCompleted, DealStatusCancelled,
     DealStatusRejected, DealStatusDealNotFound]"

definition IsFinalityState :: "DealStatus \<Rightarrow> bool" where
  "IsFinalityState st \<longleftrightarrow> list_ex (\<lambda>state. st = state) ClientFinalityStates"

definition retrieval_client_fsm :: "(ClientEvent, DealStatus, ClientDealState) fsm_params" where
  "retrieval_client_fsm = \<lparr>StateOf = Status, SetState = (\<lambda>s deal. deal\<lparr>Status := s\<rparr>),
     Events = ClientEvents, FinalityStates = ClientFinalityStates\<rparr>"

lemmas rclient_table_defs = ClientEvents_def ClientEvents_1_def ClientEvents_2_def
  ClientEvents_3_def paymentChannelCreationStates_def ClientFinalityStates_def
  retrieval_client_fsm_def

subsection \<open>Facts about the table\<close>

lemma rclient_table_wf: "table_wf ClientEvents"
  by (simp add: table_wf_def is_FromAny_def rclient_table_defs)

text \<open>One event of the enumeration is in no row.\<close>

lemma rclient_events_listed:
  "find_event ClientEvents e = None \<longleftrightarrow> e = ClientEventPaymentChannelAddFundsErrored"
  by (cases e) (simp_all add: rclient_table_defs)

lemma IsFinalityState_rejects:
  "IsFinalityState (Status d) \<Longrightarrow> fsm_plan retrieval_client_fsm e a d = Rejected"
  by (auto simp: IsFinalityState_def fsm_plan_def retrieval_client_fsm_def list_ex_iff)

lemma set_payment_channel_fields [simp]:
  "Status (set_payment_channel p d) = Status d" "ProposalOf (set_payment_channel p d) = ProposalOf d"
  "TotalFunds (set_payment_channel p d) = TotalFunds d" "ChannelID (set_payment_channel p d) = ChannelID d"
  "WaitMsgCID (set_payment_channel p d) = WaitMsgCID d"
  "FundsSpent (set_payment_channel p d) = FundsSpent d"
  "PaymentRequested (set_payment_channel p d) = PaymentRequested d"
  "AllBlocksReceived (set_payment_channel p d) = AllBlocksReceived d"
  "LastPaymentRequested (set_payment_channel p d) = LastPaymentRequested d"
  "PaymentInfoOf (set_payment_channel p d) \<noteq> None"
  "BytesPaidFor (set_payment_channel p d) = BytesPaidFor d"
  "TotalReceived (set_payment_channel p d) = TotalReceived d"
  "CurrentInterval (set_payment_channel p d) = CurrentInterval d"
  "UnsealFundsPaid (set_payment_channel p d) = UnsealFundsPaid d"
  by (simp_all add: set_payment_channel_def split: option.split)

text \<open>What a payment changes, and that it keeps the sum of what is requested and what is spent.\<close>

lemma apply_payment_fields:
  assumes "apply_payment v d = Done d'"
  shows "Status d' = Status d" "ProposalOf d' = ProposalOf d" "TotalFunds d' = TotalFunds d"
    "ChannelID d' = ChannelID d" "WaitMsgCID d' = WaitMsgCID d" "PaymentInfoOf d' = PaymentInfoOf d"
    "FundsSpent d' = v" "PaymentRequested d' + v = PaymentRequested d + FundsSpent d"
    "AllBlocksReceived d' = AllBlocksReceived d" "LastPaymentRequested d' = LastPaymentRequested d"
    "TotalReceived d' = TotalReceived d"
  using assms by (auto simp: apply_payment_def Let_def split: if_splits option.splits)

end
