(* ===== verification/Retrieval_Client_States.thy ===== *)
theory Retrieval_Client_States
  imports Retrieval_Client_Fsm
begin

section \<open>Retrieval client: state entry handlers\<close>

text \<open>
  The handlers of \<open>retrievalmarket/impl/clientstates/client_states.go\<close>. The environment
  \<open>ClientDealEnvironment\<close> and the node behind it are the record \<open>rclient_env\<close>, one field per call;
  a call that changes the world outside is also a step \<open>Call\<close>. Debug logging is left out.
\<close>

record rclient_env =
  OpenDataTransfer :: "peer_id \<Rightarrow> DealProposal \<Rightarrow> go_error + channel_id"
  SendDataTransferVoucher :: "channel_id \<Rightarrow> DealPayment \<Rightarrow> go_error option"
  CloseDataTransfer :: "channel_id \<Rightarrow> go_error option"
  FinalizeBlockstoreEnv :: "uint64 \<Rightarrow> go_error option"
  GetChainHead :: "go_error + tipset_token \<times> chain_epoch"
  GetOrCreatePaymentChannel ::
    "address \<Rightarrow> address \<Rightarrow> token_amount \<Rightarrow> tipset_token \<Rightarrow> go_error + address \<times> cid"
  WaitForPaymentChannelReady :: "cid \<Rightarrow> go_error + address"
  AllocateLaneNode :: "address \<Rightarrow> go_error + uint64"
  CreatePaymentVoucher ::
    "address \<Rightarrow> token_amount \<Rightarrow> uint64 \<Rightarrow> tipset_token \<Rightarrow> go_error + string option"
  CheckAvailableFunds :: "address \<Rightarrow> go_error + ChannelAvailableFunds"

datatype rclient_call =
    COpenDataTransfer peer_id DealProposal
  | CGetOrCreatePaymentChannel address address token_amount
  | CAllocateLane address
  | CCreatePaymentVoucher address token_amount uint64
  | CSendDataTransferVoucher channel_id DealPayment
  | CCloseDataTransfer channel_id
  | CFinalizeBlockstore uint64

type_synonym rclient_step = "(rclient_call, ClientEvent, DealStatus) hstep"

definition ProposeDeal :: "rclient_env \<Rightarrow> ClientDealState \<Rightarrow> rclient_step list" where
  "ProposeDeal env deal = Call (COpenDataTransfer (Sender deal) (ProposalOf deal)) #
     on_err (OpenDataTransfer env (Sender deal) (ProposalOf deal))
       (\<lambda>err. [Trig ClientEventWriteDealProposalErrored [AErr err]])
       (\<lambda>channelID. [Trig ClientEventDealProposed [AChannel channelID]])"

definition SetupPaymentChannelStart :: "rclient_env \<Rightarrow> ClientDealState \<Rightarrow> rclient_step list" where
  "SetupPaymentChannelStart env deal =
     (if TotalFunds deal = 0 then [Trig ClientEventPaymentChannelSkip []]
      else on_err (GetChainHead env)
        (\<lambda>err. [Trig ClientEventPaymentChannelErrored [AErr err]])
        (\<lambda>(tok, _). Call (CGetOrCreatePaymentChannel (ClientWallet deal) (MinerWallet deal) (TotalFunds deal)) #
           on_err (GetOrCreatePaymentChannel env (ClientWallet deal) (MinerWallet deal) (TotalFunds deal) tok)
             (\<lambda>err. [Trig ClientEventPaymentChannelErrored [AErr err]])
             (\<lambda>(paych, msgCID).
                if paych = address_Undef
                then [Trig ClientEventPaymentChannelCreateInitiated [ACid msgCID]]
                else if msgCID = cid_Undef
                then [Trig ClientEventPaymentChannelReady [AAddress paych]]
                else [Trig ClientEventPaymentChannelAddingFunds [ACid msgCID, AAddress paych]])))"

definition WaitPaymentChannelReady :: "rclient_env \<Rightarrow> ClientDealState \<Rightarrow> rclient_step list" where
  "WaitPaymentChannelReady env deal = (case WaitMsgCID deal of
     None \<Rightarrow> [NilDeref]
   | Some msgCID \<Rightarrow> on_err (WaitForPaymentChannelReady env msgCID)
       (\<lambda>err. [Trig ClientEventPaymentChannelErrored [AErr err]])
       (\<lambda>paych. [Trig ClientEventPaymentChannelReady [AAddress paych]]))"

definition AllocateLane :: "rclient_env \<Rightarrow> ClientDealState \<Rightarrow> rclient_step list" where
  "AllocateLane env deal = (case PaymentInfoOf deal of
     None \<Rightarrow> [NilDeref]
   | Some info \<Rightarrow> Call (CAllocateLane (PayCh info)) # on_err (AllocateLaneNode env (PayCh info))
       (\<lambda>err. [Trig ClientEventAllocateLaneErrored [AErr err]])
       (\<lambda>lane. [Trig ClientEventLaneAllocated [AUint64 lane]]))"

definition Ongoing :: "rclient_env \<Rightarrow> ClientDealState \<Rightarrow> rclient_step list" where
  "Ongoing env deal =
     (if PaymentRequested deal > 0
      then if LastPaymentRequested deal then [Trig ClientEventLastPaymentRequested [AToken 0]]
           else [Trig ClientEventPaymentRequested [AToken 0]]
      else [])"

definition ProcessPaymentRequested :: "rclient_env \<Rightarrow> ClientDealState \<Rightarrow> rclient_step list" where
  "ProcessPaymentRequested env deal =
     (if UnsealPrice (deal_params deal) > UnsealFundsPaid deal then [Trig ClientEventSendFunds []]
      else if BytesPaidFor deal \<ge> TotalReceived deal then []
      else if AllBlocksReceived deal then [Trig ClientEventSendFunds []]
      else if TotalReceived deal \<ge> CurrentInterval deal then [Trig ClientEventSendFunds []]
      else [])"

definition total_price :: "ClientDealState \<Rightarrow> token_amount" where
  "total_price deal = int64_of (TotalReceived deal) * PricePerByte (deal_params deal) +
     UnsealPrice (deal_params deal)"

text \<open>The type assertion \<open>err.(rm.ShortfallError)\<close> holds of a shortfall error that nothing wraps.\<close>

definition send_voucher :: "rclient_env \<Rightarrow> ClientDealState \<Rightarrow> tipset_token \<Rightarrow> rclient_step list" where
  "send_voucher env deal tok = (case PaymentInfoOf deal of
     None \<Rightarrow> [NilDeref]
   | Some info \<Rightarrow> Call (CCreatePaymentVoucher (PayCh info) (total_price deal) (Lane info)) #
       on_err (CreatePaymentVoucher env (PayCh info) (total_price deal) (Lane info) tok)
         (\<lambda>err. case err of
            ShortfallError shortfall \<Rightarrow> [Trig ClientEventVoucherShortfall [AToken shortfall]]
          | _ \<Rightarrow> [Trig ClientEventCreateVoucherFailed [AErr err]])
         (\<lambda>voucher. case ChannelID deal of
            None \<Rightarrow> [NilDeref]
          | Some chid \<Rightarrow>
              let payment = \<lparr>PaymentID = ProposalID (ProposalOf deal), PaymentChannel = PayCh info,
                PaymentVoucher = voucher\<rparr>
              in case SendDataTransferVoucher env chid payment of
                   Some err \<Rightarrow> [Trig ClientEventWriteDealPaymentErrored [AErr err]]
                 | None \<Rightarrow> [Call (CSendDataTransferVoucher chid payment),
                     Trig ClientEventPaymentSent [AToken (total_price deal)]]))"

definition SendFunds :: "rclient_env \<Rightarrow> ClientDealState \<Rightarrow> rclient_step list" where
  "SendFunds env deal =
     (if UnsealFundsPaid deal \<ge> UnsealPrice (deal_params deal) \<and> \<not> AllBlocksReceived deal \<and>
         TotalReceived deal < CurrentInterval deal
      then [Trig ClientEventPaymentNotSent []]
      else on_err (GetChainHead env)
        (\<lambda>err. [Trig ClientEventCreateVoucherFailed [AErr err]])
        (\<lambda>(tok, _). if total_price deal \<le> FundsSpent deal then [Trig ClientEventPaymentNotSent []]
           else send_voucher env deal tok))"

definition CheckFunds :: "rclient_env \<Rightarrow> ClientDealState \<Rightarrow> rclient_step list" where
  "CheckFunds env deal = (case PaymentInfoOf deal of
     None \<Rightarrow> [NilDeref]
   | Some info \<Rightarrow> (case WaitMsgCID deal of
       Some msgCID \<Rightarrow> [Trig ClientEventPaymentChannelAddingFunds [ACid msgCID, AAddress (PayCh info)]]
     | None \<Rightarrow> on_err (CheckAvailableFunds env (PayCh info))
         (\<lambda>err. [Trig ClientEventPaymentChannelErrored [AErr err]])
         (\<lambda>availableFunds.
            let unredeemedFunds = ConfirmedAmt availableFunds - VoucherReedeemedAmt availableFunds;
                shortfall = PaymentRequested deal - unredeemedFunds;
                totalInFlight = PendingAmt availableFunds + QueuedAmt availableFunds
            in if shortfall \<le> 0 then [Trig ClientEventPaymentChannelReady [AAddress (PayCh info)]]
               else if totalInFlight < shortfall
               then [Trig ClientEventFundsExpended [AToken (shortfall - totalInFlight)]]
               else case PendingWaitSentinel availableFunds of
                 None \<Rightarrow> [Trig ClientEventFundsExpended [AToken (shortfall - totalInFlight)]]
               | Some sentinel \<Rightarrow>
                   [Trig ClientEventPaymentChannelAddingFunds [ACid sentinel, AAddress (PayCh info)]])))"

text \<open>A failure to finalize the blockstore is only logged.\<close>

definition CancelDeal :: "rclient_env \<Rightarrow> ClientDealState \<Rightarrow> rclient_step list" where
  "CancelDeal env deal = Call (CFinalizeBlockstore (ProposalID (ProposalOf deal))) #
     (case ChannelID deal of
        None \<Rightarrow> [Trig ClientEventCancelComplete []]
      | Some chid \<Rightarrow> Call (CCloseDataTransfer chid) # (case CloseDataTransfer env chid of
          Some err \<Rightarrow> [Trig ClientEventDataTransferError [AErr err]]
        | None \<Rightarrow> [Trig ClientEventCancelComplete []]))"

definition CheckComplete :: "rclient_env \<Rightarrow> ClientDealState \<Rightarrow> rclient_step list" where
  "CheckComplete env deal =
     (if AllBlocksReceived deal then [Trig ClientEventCompleteVerified []]
      else if PricePerByte (deal_params deal) = 0 then [Trig ClientEventWaitForLastBlocks []]
      else [Trig ClientEventEarlyTermination []])"

definition FinalizeBlockstore :: "rclient_env \<Rightarrow> ClientDealState \<Rightarrow> rclient_step list" where
  "FinalizeBlockstore env deal = Call (CFinalizeBlockstore (ProposalID (ProposalOf deal))) #
     (case FinalizeBlockstoreEnv env (ProposalID (ProposalOf deal)) of
        Some err \<Rightarrow> [Trig ClientEventFinalizeBlockstoreErrored [AErr err]]
      | None \<Rightarrow> [Trig ClientEventBlockstoreFinalized []])"

definition FailsafeFinalizeBlockstore :: "rclient_env \<Rightarrow> ClientDealState \<Rightarrow> rclient_step list" where
  "FailsafeFinalizeBlockstore env deal =
     [Call (CFinalizeBlockstore (ProposalID (ProposalOf deal))), Trig ClientEventBlockstoreFinalized []]"

subsection \<open>Dispatch\<close>

definition ClientStateEntryFuncs ::
  "DealStatus \<Rightarrow> (rclient_env \<Rightarrow> ClientDealState \<Rightarrow> rclient_step list) option" where
  "ClientStateEntryFuncs s = map_of [
     (DealStatusNew, ProposeDeal),
     (DealStatusRetryLegacy, ProposeDeal),
     (DealStatusAccepted, SetupPaymentChannelStart),
     (DealStatusPaymentChannelCreating, WaitPaymentChannelReady),
     (DealStatusPaymentChannelAddingInitialFunds, WaitPaymentChannelReady),
     (DealStatusPaymentChannelAllocatingLane, AllocateLane),
     (DealStatusOngoing, Ongoing),
     (DealStatusFundsNeeded, ProcessPaymentRequested),
     (DealStatusFundsNeededLastPayment, ProcessPaymentRequested),
     (DealStatusSendFunds, SendFunds),
     (DealStatusSendFundsLastPayment, SendFunds),
     (DealStatusCheckFunds, CheckFunds),
     (DealStatusPaymentChannelAddingFunds, WaitPaymentChannelReady),
     (DealStatusFailing, CancelDeal),
     (DealStatusCancelling, CancelDeal),
     (DealStatusCheckComplete, CheckComplete),
     (DealStatusFinalizingBlockstore, FinalizeBlockstore),
     (DealStatusErroring, FailsafeFinalizeBlockstore),
     (DealStatusRejecting, FailsafeFinalizeBlockstore),
     (DealStatusDealNotFoundCleanup, FailsafeFinalizeBlockstore)] s"

definition rclient_handler :: "rclient_env \<Rightarrow> ClientDealState \<Rightarrow> rclient_step list" where
  "rclient_handler env deal = (case ClientStateEntryFuncs (Status deal) of
     None \<Rightarrow> [] | Some f \<Rightarrow> f env deal)"

text \<open>The machine of one deal. The retrieval client sends no restart event: a deal goes on when
  the data transfer module restarts its transfer.\<close>

definition rclient_machine ::
  "((ClientEvent, DealStatus, ClientDealState) fsm_params \<Rightarrow> ClientEvent \<Rightarrow>
      DealStatus fsm_arg list \<Rightarrow> ClientDealState \<Rightarrow> ClientDealState fsm_result) \<Rightarrow>
   (ClientEvent \<Rightarrow> DealStatus fsm_arg list \<Rightarrow> bool) \<Rightarrow>
   (rclient_env, rclient_call, ClientEvent, DealStatus, ClientDealState) machine" where
  "rclient_machine plan external =
     \<lparr>Plan = (\<lambda>env. plan retrieval_client_fsm), Handler = rclient_handler, EnvOK = (\<lambda>env. True),
      External = external, RestartEvent = ClientEventOpen, MayRestart = (\<lambda>c. False),
      ConsumeAll = False\<rparr>"

text \<open>\<open>Retrieve\<close> (\<open>retrievalmarket/impl/client.go\<close>) starts a deal with this state and \<open>ClientEventOpen\<close>.\<close>

definition retrieve_deal :: "cid \<Rightarrow> uint64 \<Rightarrow> Params \<Rightarrow> token_amount \<Rightarrow> RetrievalPeer \<Rightarrow> address \<Rightarrow>
    address \<Rightarrow> ClientDealState" where
  "retrieve_deal payloadCID dealId params totalFunds p clientWallet minerWallet = \<lparr>
     ProposalOf = \<lparr>PayloadCID = payloadCID, ProposalID = dealId, ParamsOf = params\<rparr>,
     StoreID = None, ChannelID = None, LastPaymentRequested = False, AllBlocksReceived = False,
     TotalFunds = totalFunds, ClientWallet = clientWallet, MinerWallet = minerWallet,
     PaymentInfoOf = None, Status = DealStatusNew, Sender = PeerID p, TotalReceived = 0, Message = [],
     BytesPaidFor = 0, CurrentInterval = PaymentInterval params, PaymentRequested = 0, FundsSpent = 0,
     UnsealFundsPaid = 0, WaitMsgCID = None, VoucherShortfall = 0, LegacyProtocol = False\<rparr>"

lemmas rclient_handler_defs = ProposeDeal_def SetupPaymentChannelStart_def
  WaitPaymentChannelReady_def AllocateLane_def Ongoing_def ProcessPaymentRequested_def
  send_voucher_def SendFunds_def CheckFunds_def CancelDeal_def CheckComplete_def
  FinalizeBlockstore_def FailsafeFinalizeBlockstore_def

end
