(* ===== verification/Retrieval_Client_Inv.thy ===== *)
theory Retrieval_Client_Inv
  imports Retrieval_Client_States
begin

section \<open>Retrieval client: invariants of a deal\<close>

text \<open>
  The invariant of a retrieval deal (\<open>rclient_safe\<close>) and of the events under way for it
  (\<open>rclient_guard\<close>), carried through every run by the locale \<open>guarded_invariant\<close>: what the handlers
  dereference is there and the loop of the payment intervals ends, the client pays for no more
  than the bytes reported to it, and a deal is only completed after all blocks arrived or the last
  payment was asked for.
\<close>

subsection \<open>The invariant\<close>

fun in_transfer :: "DealStatus \<Rightarrow> bool" where
  "in_transfer DealStatusOngoing = True"
| "in_transfer DealStatusBlocksComplete = True"
| "in_transfer DealStatusFundsNeeded = True"
| "in_transfer DealStatusFundsNeededLastPayment = True"
| "in_transfer DealStatusSendFunds = True"
| "in_transfer DealStatusSendFundsLastPayment = True"
| "in_transfer _ = False"

fun tops_up :: "DealStatus \<Rightarrow> bool" where
  "tops_up DealStatusCheckFunds = True"
| "tops_up DealStatusInsufficientFunds = True"
| "tops_up DealStatusPaymentChannelAddingFunds = True"
| "tops_up _ = False"

fun waits_for_message :: "DealStatus \<Rightarrow> bool" where
  "waits_for_message DealStatusPaymentChannelCreating = True"
| "waits_for_message DealStatusPaymentChannelAddingInitialFunds = True"
| "waits_for_message DealStatusPaymentChannelAddingFunds = True"
| "waits_for_message _ = False"

fun has_channel :: "DealStatus \<Rightarrow> bool" where
  "has_channel DealStatusWaitForAcceptance = True"
| "has_channel DealStatusWaitForAcceptanceLegacy = True"
| "has_channel DealStatusAccepted = True"
| "has_channel DealStatusPaymentChannelCreating = True"
| "has_channel DealStatusPaymentChannelAddingInitialFunds = True"
| "has_channel DealStatusPaymentChannelAllocatingLane = True"
| "has_channel DealStatusOngoing = True"
| "has_channel DealStatusBlocksComplete = True"
| "has_channel DealStatusFundsNeeded = True"
| "has_channel DealStatusFundsNeededLastPayment = True"
| "has_channel DealStatusSendFunds = True"
| "has_channel DealStatusSendFundsLastPayment = True"
| "has_channel DealStatusCheckFunds = True"
| "has_channel DealStatusInsufficientFunds = True"
| "has_channel DealStatusPaymentChannelAddingFunds = True"
| "has_channel _ = False"

text \<open>Parameters with which the client pays: prices are not negative, a priced transfer has payment
  intervals, and a deal without funds is free.\<close>

definition payable :: "Params \<Rightarrow> token_amount \<Rightarrow> bool" where
  "payable p funds \<longleftrightarrow> 0 \<le> PricePerByte p \<and> 0 \<le> UnsealPrice p \<and>
     (PricePerByte p \<noteq> 0 \<longrightarrow> PaymentInterval p \<noteq> 0 \<or> PaymentIntervalIncrease p \<noteq> 0) \<and>
     (funds = 0 \<longrightarrow> PricePerByte p = 0 \<and> UnsealPrice p = 0)"

fun last_payment :: "DealStatus \<Rightarrow> bool" where
  "last_payment DealStatusFundsNeededLastPayment = True"
| "last_payment DealStatusSendFundsLastPayment = True"
| "last_payment DealStatusFinalizing = True"
| "last_payment _ = False"

fun completed :: "DealStatus \<Rightarrow> bool" where
  "completed DealStatusFinalizingBlockstore = True"
| "completed DealStatusCompleted = True"
| "completed _ = False"

text \<open>\<open>B\<close> bounds the number of bytes that the data transfer reports; \<open>price_for p n\<close> is what \<open>n\<close> bytes
  and the unsealing cost.\<close>

definition price_for :: "Params \<Rightarrow> uint64 \<Rightarrow> token_amount" where
  "price_for p n = uint n * PricePerByte p + UnsealPrice p"

definition rclient_safe :: "Params \<Rightarrow> uint64 \<Rightarrow> ClientDealState \<Rightarrow> bool" where
  "rclient_safe p B d \<longleftrightarrow> deal_params d = p \<and> fits p B \<and> payable p (TotalFunds d) \<and>
     0 \<le> FundsSpent d \<and> FundsSpent d \<le> price_for p B \<and> TotalReceived d \<le> B \<and>
     (waits_for_message (Status d) \<longrightarrow> WaitMsgCID d \<noteq> None) \<and>
     (Status d = DealStatusPaymentChannelAllocatingLane \<or> tops_up (Status d) \<longrightarrow>
        PaymentInfoOf d \<noteq> None) \<and>
     (in_transfer (Status d) \<longrightarrow> TotalFunds d = 0 \<or> PaymentInfoOf d \<noteq> None) \<and>
     (has_channel (Status d) \<longrightarrow> ChannelID d \<noteq> None) \<and>
     (last_payment (Status d) \<longrightarrow> LastPaymentRequested d) \<and>
     (completed (Status d) \<longrightarrow> AllBlocksReceived d \<or> LastPaymentRequested d)"

definition rclient_guard ::
  "Params \<Rightarrow> uint64 \<Rightarrow> ClientDealState \<Rightarrow> ClientEvent \<Rightarrow> DealStatus fsm_arg list \<Rightarrow> bool" where
  "rclient_guard p B d e a \<longleftrightarrow>
     (e = ClientEventPaymentSent \<longrightarrow> (\<forall>v. a = [AToken v] \<longrightarrow> (\<exists>n \<le> B. v = price_for p n))) \<and>
     (e = ClientEventBlocksReceived \<longrightarrow> (\<forall>n. a = [AUint64 n] \<longrightarrow> n \<le> B)) \<and>
     (e = ClientEventPaymentChannelSkip \<longrightarrow> TotalFunds d = 0) \<and>
     (e = ClientEventVoucherShortfall \<longrightarrow> PaymentInfoOf d \<noteq> None) \<and>
     (e = ClientEventCompleteVerified \<longrightarrow> AllBlocksReceived d)"

definition voucher_ok :: "Params \<Rightarrow> uint64 \<Rightarrow> rclient_call \<Rightarrow> bool" where
  "voucher_ok p B x = (case x of
     CCreatePaymentVoucher _ amount _ \<Rightarrow> 0 < amount \<and> (\<exists>n \<le> B. amount = price_for p n) | _ \<Rightarrow> True)"

definition rclient_same :: "ClientDealState \<Rightarrow> ClientDealState \<Rightarrow> bool" where
  "rclient_same d d' \<longleftrightarrow> TotalFunds d' = TotalFunds d \<and>
     (PaymentInfoOf d \<noteq> None \<longrightarrow> PaymentInfoOf d' \<noteq> None) \<and>
     (AllBlocksReceived d \<longrightarrow> AllBlocksReceived d')"

text \<open>The events that other components send: the data transfer subscriber, and the client's own
  operations \<open>Retrieve\<close>, \<open>CancelDeal\<close> and \<open>TryRestartInsufficientFunds\<close>.\<close>

definition rclient_external :: "uint64 \<Rightarrow> ClientEvent \<Rightarrow> DealStatus fsm_arg list \<Rightarrow> bool" where
  "rclient_external B e a \<longleftrightarrow> e \<in> set [ClientEventOpen, ClientEventDealRejected,
     ClientEventDealNotFound, ClientEventDealAccepted, ClientEventUnknownResponseReceived,
     ClientEventDataTransferError, ClientEventLastPaymentRequested, ClientEventPaymentRequested,
     ClientEventUnsealPaymentRequested, ClientEventAllBlocksReceived, ClientEventBlocksReceived,
     ClientEventComplete, ClientEventProviderCancelled, ClientEventCancel, ClientEventRecheckFunds] \<and>
     (e = ClientEventBlocksReceived \<longrightarrow> (case a of [AUint64 n] \<Rightarrow> n \<le> B | _ \<Rightarrow> True))"

subsection \<open>Payments\<close>

lemma fits_le: "fits p n \<Longrightarrow> m \<le> n \<Longrightarrow> fits p m"
  by (auto simp: fits_def word_le_nat_alt)

lemma fits_int64: "fits p n \<Longrightarrow> int64_of n = uint n"
proof -
  assume "fits p n"
  then have "2 * unat n < 2 ^ 64" by (simp add: fits_def)
  then have "unat n < 2 ^ 63" by simp
  then have "int (unat n) < int (2 ^ 63)" by (simp only: of_nat_less_iff)
  then have "uint n < 2 ^ 63" by (simp only: uint_nat of_nat_power of_nat_numeral)
  then show ?thesis by (rule int64_of_small)
qed

lemma price_for_mono: "payable p f \<Longrightarrow> m \<le> n \<Longrightarrow> price_for p m \<le> price_for p n"
  by (auto simp: payable_def price_for_def word_le_def mult_right_mono)

lemma price_for_nonneg: "payable p f \<Longrightarrow> 0 \<le> price_for p n"
  by (auto simp: payable_def price_for_def)

lemma price_for_bytes:
  "0 < PricePerByte p \<Longrightarrow> word_of_int (big_Div (price_for p n - UnsealPrice p) (PricePerByte p)) = n"
  by (simp add: price_for_def big_Div_nonneg)

text \<open>After a payment for received bytes the next interval is found.\<close>

lemma apply_payment_total:
  assumes "rclient_safe p B d" and "n \<le> B"
  shows "\<exists>d'. apply_payment (price_for p n) d = Done d'"
proof (cases "UnsealPrice p < price_for p n \<and> PricePerByte p \<noteq> 0")
  case False
  with assms(1) show ?thesis by (auto simp: rclient_safe_def apply_payment_def Let_def not_less)
next
  case True
  with assms(1) have price: "0 < PricePerByte p" and p: "deal_params d = p" and fit: "fits p B"
    and pos: "PaymentInterval p \<noteq> 0 \<or> PaymentIntervalIncrease p \<noteq> 0"
    by (auto simp: rclient_safe_def payable_def)
  have "\<exists>i. nextInterval p (CurrentInterval d) = Some i" if "CurrentInterval d \<le> n"
    using nextInterval_Some [OF pos fits_le [OF fit order_trans [OF that assms(2)]]] by blast
  with True p show ?thesis
    by (auto simp: apply_payment_def bytes_paid_for_def ClientDealState_NextInterval_def Let_def
        price_for_bytes [OF price] split: option.split)
qed

subsection \<open>The table keeps the invariants\<close>

definition safe_row :: "Params \<Rightarrow> uint64 \<Rightarrow> ClientEvent \<Rightarrow> DealStatus fsm_arg list \<Rightarrow> ClientDealState \<Rightarrow> ClientDealState \<Rightarrow> bool" where
  "safe_row p B e a d d' \<longleftrightarrow> rclient_same d d' \<and>
     (rclient_safe p B d \<longrightarrow> rclient_guard p B d e a \<longrightarrow> rclient_safe p B d')"

lemma p_token_Some: "p_token a = Some v \<Longrightarrow> a = [AToken v]"
  by (cases a rule: p_token.cases) auto

lemma p_uint64_Some: "p_uint64 a = Some v \<Longrightarrow> a = [AUint64 v]"
  by (cases a rule: p_uint64.cases) auto

text \<open>First the rows are taken apart, then the invariant is compared before and after.\<close>

lemmas row_defs = transition_def note_error_def no_action_def add_requested_def recordReceived_def
  paymentChannelCreationStates_def retrieval_client_fsm_def ClientFinalityStates_def

lemmas safe_defs = safe_row_def rclient_same_def rclient_safe_def rclient_guard_def

lemma safe_rows_1: "list_all (ev_relates retrieval_client_fsm (safe_row p B)) ClientEvents_1"
  unfolding ClientEvents_1_def list.pred_inject
  by (intro conjI ev_relatesI)
    (auto simp: row_defs split: if_splits option.splits, simp_all add: safe_defs, auto)

lemma safe_rows_2: "list_all (ev_relates retrieval_client_fsm (safe_row p B)) ClientEvents_2"
  unfolding ClientEvents_2_def list.pred_inject
  by (intro conjI ev_relatesI)
    (auto simp: row_defs split: if_splits option.splits dest!: p_uint64_Some, simp_all add: safe_defs)

lemma safe_payment_deal:
  assumes "apply_payment v d = Done d1"
  shows "rclient_same d d1" and "rclient_safe p B d \<Longrightarrow> n \<le> B \<Longrightarrow> v = price_for p n \<Longrightarrow> rclient_safe p B d1"
proof -
  note f = apply_payment_fields [OF assms]
  show "rclient_same d d1" by (simp add: rclient_same_def f)
  assume d: "rclient_safe p B d" and n: "n \<le> B" and v: "v = price_for p n"
  then have "0 \<le> v" and "v \<le> price_for p B"
    using price_for_nonneg [of p "TotalFunds d" n] price_for_mono [of p "TotalFunds d" n B]
    by (simp_all add: rclient_safe_def)
  with d show "rclient_safe p B d1" by (simp add: rclient_safe_def f)
qed

lemma safe_payment_to:
  assumes "in_transfer (Status d)" "rclient_safe p B d" "Status d = DealStatusSendFundsLastPayment \<or> s \<noteq> DealStatusFinalizing"
    and "s = DealStatusOngoing \<or> s = DealStatusCheckComplete \<or> s = DealStatusFinalizing"
  shows "rclient_safe p B (d\<lparr>Status := s\<rparr>)"
  using assms(4)
proof (elim disjE)
  have "has_channel (Status d)" using assms(1) by (cases "Status d") simp_all
  then show ?thesis if "s = DealStatusOngoing" using assms(1,2) that by (simp add: rclient_safe_def)
qed (use assms in \<open>auto simp: rclient_safe_def\<close>)

lemma safe_payment:
  assumes "apply_payment v d = Done d1"
  shows "safe_row p B ClientEventPaymentSent [AToken v] d d1"
    and "in_transfer (Status d) \<Longrightarrow>
      s = DealStatusOngoing \<or> s = DealStatusCheckComplete \<or>
        s = DealStatusFinalizing \<and> Status d = DealStatusSendFundsLastPayment \<Longrightarrow>
      safe_row p B ClientEventPaymentSent [AToken v] d (d1\<lparr>Status := s\<rparr>)"
proof -
  note f = apply_payment_fields(1) [OF assms]
  show deal: "safe_row p B ClientEventPaymentSent [AToken v] d d1"
    using safe_payment_deal [OF assms] by (auto simp: safe_row_def rclient_guard_def)
  assume t: "in_transfer (Status d)" and s: "s = DealStatusOngoing \<or> s = DealStatusCheckComplete \<or>
        s = DealStatusFinalizing \<and> Status d = DealStatusSendFundsLastPayment"
  from deal t s f show "safe_row p B ClientEventPaymentSent [AToken v] d (d1\<lparr>Status := s\<rparr>)"
    using safe_payment_to [of d1 p B s] by (auto simp: safe_row_def rclient_same_def)
qed

lemma safe_rows_3: "list_all (ev_relates retrieval_client_fsm (safe_row p B)) ClientEvents_3"
  unfolding ClientEvents_3_def list.pred_inject
  by (intro conjI ev_relatesI)
    (auto simp: row_defs split: if_splits option.splits dest!: p_token_Some,
     simp_all add: safe_payment, simp_all add: safe_defs)

lemma safe_plan:
  assumes "fsm_plan retrieval_client_fsm e a d = Recorded d' \<or> fsm_plan retrieval_client_fsm e a d = Entered d'"
  shows "safe_row p B e a d d'"
  using table_relates [OF _ assms, of "safe_row p B"] safe_rows_1 safe_rows_2 safe_rows_3
  by (simp add: retrieval_client_fsm_def ClientEvents_def)

text \<open>Two actions may not return, and do so only where the invariant excludes it.\<close>

lemma safe_no_crash:
  assumes "rclient_safe p B d" and "rclient_guard p B d e a"
  shows "fsm_plan retrieval_client_fsm e a d \<noteq> Crashed"
proof
  assume "fsm_plan retrieval_client_fsm e a d = Crashed"
  from fsm_plan_Crashed [OF this] obtain ev
    where ev: "find_event ClientEvents e = Some ev" and p: "ev_action ev a d = Panicked"
      and t: "transition (ev_clauses ev) (Status d) \<noteq> None"
    by (auto simp: retrieval_client_fsm_def)
  have ev': "ev \<in> set ClientEvents" "ev_name ev = e" using find_event_SomeD [OF ev] by simp_all
  from ev' p have "e = ClientEventLaneAllocated \<or> e = ClientEventPaymentSent"
    by (auto simp: rclient_table_defs note_error_def no_action_def)
  then show False
  proof
    assume "e = ClientEventLaneAllocated"
    with ev p t assms(1) show False
      by (auto simp: rclient_table_defs transition_def rclient_safe_def split: if_splits option.splits)
  next
    assume e: "e = ClientEventPaymentSent"
    with ev p obtain v where "a = [AToken v]" "apply_payment v d = Panicked"
      by (auto simp: rclient_table_defs dest!: p_token_Some)
    with e assms apply_payment_total [of p B d] show False by (fastforce simp: rclient_guard_def)
  qed
qed

subsection \<open>The handlers\<close>

lemma ClientStateEntryFuncs_set:
  "ClientStateEntryFuncs s = Some f \<Longrightarrow> (s, f) \<in> {
     (DealStatusNew, ProposeDeal), (DealStatusRetryLegacy, ProposeDeal),
     (DealStatusAccepted, SetupPaymentChannelStart),
     (DealStatusPaymentChannelCreating, WaitPaymentChannelReady),
     (DealStatusPaymentChannelAddingInitialFunds, WaitPaymentChannelReady),
     (DealStatusPaymentChannelAllocatingLane, AllocateLane), (DealStatusOngoing, Ongoing),
     (DealStatusFundsNeeded, ProcessPaymentRequested),
     (DealStatusFundsNeededLastPayment, ProcessPaymentRequested),
     (DealStatusSendFunds, SendFunds), (DealStatusSendFundsLastPayment, SendFunds),
     (DealStatusCheckFunds, CheckFunds), (DealStatusPaymentChannelAddingFunds, WaitPaymentChannelReady),
     (DealStatusFailing, CancelDeal), (DealStatusCancelling, CancelDeal),
     (DealStatusCheckComplete, CheckComplete), (DealStatusFinalizingBlockstore, FinalizeBlockstore),
     (DealStatusErroring, FailsafeFinalizeBlockstore), (DealStatusRejecting, FailsafeFinalizeBlockstore),
     (DealStatusDealNotFoundCleanup, FailsafeFinalizeBlockstore)}"
  unfolding ClientStateEntryFuncs_def by (drule map_of_SomeD) simp

lemma total_price_for: "rclient_safe p B d \<Longrightarrow> total_price d = price_for p (TotalReceived d)"
  using fits_le [of p B "TotalReceived d"]
  by (auto simp: rclient_safe_def total_price_def price_for_def fits_int64)

lemma SendFunds_good:
  assumes safe: "rclient_safe p B d" and "in_transfer (Status d)"
  shows "list_all (good_step (voucher_ok p B) (rclient_guard p B d)) (SendFunds env d)"
proof (cases "PaymentInfoOf d")
  case None
  with assms have "total_price d = 0" and "0 \<le> FundsSpent d"
    by (auto simp: rclient_safe_def payable_def total_price_def)
  then show ?thesis by (simp add: SendFunds_def rclient_guard_def split: on_err_split prod.split)
next
  case (Some info)
  have "has_channel (Status d)" using assms(2) by (cases "Status d") simp_all
  with safe obtain chid where "ChannelID d = Some chid" and "TotalReceived d \<le> B" "0 \<le> FundsSpent d"
    by (auto simp: rclient_safe_def)
  with Some total_price_for [OF safe] show ?thesis
    by (auto simp: SendFunds_def send_voucher_def rclient_guard_def voucher_ok_def Let_def
        split: on_err_split prod.split go_error.split option.split)
qed

lemma rclient_handlers_good:
  assumes "rclient_safe p B d"
  shows "list_all (good_step (voucher_ok p B) (rclient_guard p B d)) (rclient_handler env d)"
proof (cases "ClientStateEntryFuncs (Status d)")
  case None
  then show ?thesis by (simp add: rclient_handler_def)
next
  case (Some f)
  have "list_all (good_step (voucher_ok p B) (rclient_guard p B d)) (f env d)"
    using ClientStateEntryFuncs_set [OF Some] assms
    apply (simp only: insert_iff prod.inject empty_iff simp_thms)
    apply (elim disjE conjE)
    apply (simp_all add: SendFunds_good)
    apply (auto simp: rclient_safe_def rclient_guard_def voucher_ok_def ProposeDeal_def
      SetupPaymentChannelStart_def WaitPaymentChannelReady_def AllocateLane_def Ongoing_def
      ProcessPaymentRequested_def CheckFunds_def CancelDeal_def CheckComplete_def
      FinalizeBlockstore_def FailsafeFinalizeBlockstore_def Let_def
      split: on_err_split option.split)
    done
  with Some show ?thesis by (simp add: rclient_handler_def)
qed

subsection \<open>Every run\<close>

lemma rclient_external_guard: "rclient_external B e a \<Longrightarrow> rclient_guard p B d e a"
  by (auto simp: rclient_external_def rclient_guard_def)

interpretation rclient_inv: guarded_invariant "rclient_machine fsm_plan (rclient_external B)"
  "rclient_safe p B" "rclient_guard p B" "voucher_ok p B" for p B
proof
  fix d :: ClientDealState and env e a d'
  assume "rclient_safe p B d" "rclient_guard p B d e a"
    and "Plan (rclient_machine fsm_plan (rclient_external B)) env e a d = Recorded d' \<or>
      Plan (rclient_machine fsm_plan (rclient_external B)) env e a d = Entered d'"
  then show "rclient_safe p B d'"
    using safe_plan [of e a d d' p B] by (simp add: rclient_machine_def safe_row_def)
next
  fix d :: ClientDealState and env e a d' e' a'
  assume "rclient_guard p B d e' a'"
    and "Plan (rclient_machine fsm_plan (rclient_external B)) env e a d = Recorded d' \<or>
      Plan (rclient_machine fsm_plan (rclient_external B)) env e a d = Entered d'"
  then show "rclient_guard p B d' e' a'"
    using safe_plan [of e a d d' p B]
    by (auto simp: rclient_machine_def safe_row_def rclient_same_def rclient_guard_def)
qed (simp_all add: rclient_machine_def safe_no_crash rclient_handlers_good rclient_external_guard)

end
