(* ===== verification/Retrieval_Client_Correct.thy ===== *)
theory Retrieval_Client_Correct
  imports Retrieval_Client_Inv
begin

section \<open>Retrieval client: properties\<close>

text \<open>
  The theorems on the retrieval client's deal machine. The sample deal of the witnesses retrieves
  150 bytes at 2 per byte.
\<close>

subsection \<open>A sample deal\<close>

type_synonym rclient_cfg = "(rclient_call, ClientEvent, DealStatus, ClientDealState) cfg"

definition rsample_env :: rclient_env where
  "rsample_env = \<lparr>OpenDataTransfer = (\<lambda>_ _. Inr ''chan''), SendDataTransferVoucher = (\<lambda>_ _. None),
     CloseDataTransfer = (\<lambda>_. None), FinalizeBlockstoreEnv = (\<lambda>_. None),
     GetChainHead = Inr (''tok'', 5),
     GetOrCreatePaymentChannel = (\<lambda>_ _ _ _. Inr (''paych'', [])),
     WaitForPaymentChannelReady = (\<lambda>_. Inr ''paych''), AllocateLaneNode = (\<lambda>_. Inr 3),
     CreatePaymentVoucher = (\<lambda>_ _ _ _. Inr (Some ''voucher'')),
     CheckAvailableFunds = (\<lambda>_. Inl (New ''none''))\<rparr>"

definition rsample_params :: Params where
  "rsample_params = NewParamsV0 2 100 50"

definition rsample_deal :: "token_amount \<Rightarrow> Params \<Rightarrow> ClientDealState" where
  "rsample_deal funds p = retrieve_deal ''payload'' 9 p funds
     \<lparr>PeerAddress = ''f01'', PeerID = ''peer'', PeerPieceCID = None\<rparr> ''f02'' ''f03''"

definition rsample_script :: "(ClientEvent \<times> DealStatus fsm_arg list) list" where
  "rsample_script = [(ClientEventDealAccepted, []), (ClientEventBlocksReceived, [AUint64 150]),
     (ClientEventLastPaymentRequested, [AToken 300]), (ClientEventComplete, [])]"

definition rsample_end :: rclient_cfg where
  "rsample_end = drive 12 (rclient_machine fsm_plan (rclient_external 1000)) rsample_env rsample_script
     (start_cfg (rsample_deal 1000 rsample_params) [(ClientEventOpen, [])])"

lemma rsample_reach: "machine_reach (rclient_machine fsm_plan (rclient_external 1000))
    (start_cfg (rsample_deal 1000 rsample_params) [(ClientEventOpen, [])]) rsample_end"
  unfolding rsample_end_def
  by (intro drive_reach machine_reach.start)
    (simp_all add: rclient_machine_def rsample_script_def rclient_external_def)

lemma rsample_end_status: "Status (cfg_deal rsample_end) = DealStatusCompleted"
  and rsample_end_spent: "FundsSpent (cfg_deal rsample_end) = 300"
  and rsample_end_blocks: "\<not> AllBlocksReceived (cfg_deal rsample_end)"
  by code_simp+

lemma rsample_payable: "payable rsample_params 1000" and rsample_fits: "fits rsample_params 1000"
  by (simp_all add: payable_def fits_def rsample_params_def NewParamsV0_def)

lemma retrieve_deal_safe:
  "payable params funds \<Longrightarrow> fits params B \<Longrightarrow>
     rclient_safe params B (retrieve_deal cid dealId params funds p cw mw)"
  by (simp add: rclient_safe_def retrieve_deal_def price_for_nonneg)

lemma open_guard: "rclient_guard p B d ClientEventOpen a"
  by (simp add: rclient_guard_def)

subsection \<open>Every run\<close>



text \<open>C14. The client pays for no more than it was told it received. If the data transfer never
  reports more than \<open>B\<close> bytes, what the client has spent never exceeds the price of \<open>B\<close> bytes and the
  unsealing, and each voucher it creates is positive and is the exact price of some number of bytes
  up to \<open>B\<close>.\<close>

theorem rclient_pays_for_received:
  assumes "fsm_engine plan"
    and "machine_reach (rclient_machine plan (rclient_external B))
      (start_cfg (retrieve_deal cid dealId params funds peer cw mw) [(ClientEventOpen, [])]) c"
    and "payable params funds" and "fits params B"
  shows "0 \<le> FundsSpent (cfg_deal c) \<and>
    FundsSpent (cfg_deal c) \<le> uint B * PricePerByte params + UnsealPrice params \<and>
    (CCreatePaymentVoucher ch amount lane \<in> set (made c) \<longrightarrow> 0 < amount \<and>
      (\<exists>n \<le> B. amount = uint n * PricePerByte params + UnsealPrice params))"
proof -
  note inv = rclient_inv.reach_guarded [OF assms(2) [unfolded engine_is_fsm_plan [OF assms(1)]]
      retrieve_deal_safe [OF assms(3,4)]]
  have "rclient_safe params B (cfg_deal c)" and calls: "list_all (voucher_ok params B) (made c)"
    using inv by (simp_all add: open_guard)
  then have "0 \<le> FundsSpent (cfg_deal c)" "FundsSpent (cfg_deal c) \<le> price_for params B"
    by (simp_all add: rclient_safe_def)
  moreover have "voucher_ok params B x" if "x \<in> set (made c)" for x
    using calls that by (simp add: list_all_iff)
  ultimately show ?thesis by (fastforce simp: price_for_def voucher_ok_def)
qed

theorem rclient_pays_for_received_witness: "FundsSpent (cfg_deal rsample_end) \<le> 2000"
  using rclient_pays_for_received [OF fsm_ref.fsm_engine_axioms rsample_reach [unfolded rsample_deal_def]
      rsample_payable rsample_fits] by (simp add: rsample_params_def NewParamsV0_def)

text \<open>C15. A deal is only completed when all blocks were received or the provider had asked for the
  last payment: a provider that just declares the deal complete does not end it.\<close>

theorem rclient_completed_checked:
  assumes "fsm_engine plan"
    and "machine_reach (rclient_machine plan (rclient_external B))
      (start_cfg (retrieve_deal cid dealId params funds peer cw mw) [(ClientEventOpen, [])]) c"
    and "payable params funds" and "fits params B"
    and "Status (cfg_deal c) = DealStatusCompleted"
  shows "AllBlocksReceived (cfg_deal c) \<or> LastPaymentRequested (cfg_deal c)"
proof -
  have "rclient_safe params B (cfg_deal c)"
    using rclient_inv.reach_guarded(1) [OF assms(2) [unfolded engine_is_fsm_plan [OF assms(1)]]
      retrieve_deal_safe [OF assms(3,4)]] by (simp add: open_guard)
  with assms(5) show ?thesis by (simp add: rclient_safe_def)
qed

theorem rclient_completed_checked_witness: "LastPaymentRequested (cfg_deal rsample_end)"
  using rclient_completed_checked [OF fsm_ref.fsm_engine_axioms rsample_reach [unfolded rsample_deal_def]
      rsample_payable rsample_fits rsample_end_status] rsample_end_blocks by simp

text \<open>Asking for the last payment is enough: there is a run in which the provider asks for the
  last payment before it has sent all blocks, is paid for the 150 bytes received, declares the deal
  complete, and the client completes the deal without having received all blocks. The check of
  \<open>CheckComplete\<close> is not on this path.\<close>

theorem rclient_completes_without_all_blocks:
  "\<exists>c. machine_reach (rclient_machine fsm_plan (rclient_external 1000))
      (start_cfg (rsample_deal 1000 rsample_params) [(ClientEventOpen, [])]) c \<and>
    Status (cfg_deal c) = DealStatusCompleted \<and> \<not> AllBlocksReceived (cfg_deal c) \<and>
    FundsSpent (cfg_deal c) = 300"
  using rsample_reach rsample_end_status rsample_end_blocks rsample_end_spent by blast

subsection \<open>Payments\<close>

lemma nextInterval_beyond:
  assumes "PaymentInterval p \<noteq> 0 \<or> PaymentIntervalIncrease p \<noteq> 0" and "fits p cur"
  shows "\<exists>hi. nextInterval p cur = Some hi \<and> cur < hi"
proof (intro exI conjI)
  show "nextInterval p cur = Some (of_nat (pbound p (next_index p cur)))"
    by (rule nextInterval_Some [OF assms])
  show "cur < of_nat (pbound p (next_index p cur))"
    using next_index_props(1,4) [OF assms] by (simp add: word_less_nat_alt unat_of_nat_small)
qed

text \<open>What a payment records. When the voucher for \<open>n\<close> bytes of a priced deal has been sent, the
  action returns; the bytes paid for are \<open>n\<close>, the unsealing is paid, what is requested goes down by
  what was sent, and if the payment reached the current interval, the interval moves on by one.\<close>

theorem payment_recorded:
  assumes "0 < PricePerByte (deal_params d)" and "0 < n"
    and "PaymentInterval (deal_params d) \<noteq> 0 \<or> PaymentIntervalIncrease (deal_params d) \<noteq> 0"
    and "fits (deal_params d) n"
    and "v = uint n * PricePerByte (deal_params d) + UnsealPrice (deal_params d)"
  shows "\<exists>d'. apply_payment v d = Done d' \<and> BytesPaidFor d' = n \<and> FundsSpent d' = v \<and>
    UnsealFundsPaid d' = UnsealPrice (deal_params d) \<and>
    PaymentRequested d' = PaymentRequested d - (v - FundsSpent d) \<and>
    (if CurrentInterval d \<le> n
     then nextInterval (deal_params d) (CurrentInterval d) = Some (CurrentInterval d') \<and>
       CurrentInterval d < CurrentInterval d'
     else CurrentInterval d' = CurrentInterval d)"
proof -
  let ?p = "deal_params d"
  have v: "v = price_for ?p n" using assms(5) by (simp add: price_for_def)
  have "0 < uint n" using assms(2) by (simp add: word_less_def)
  then have unseal: "UnsealPrice ?p < v" using assms(1,5) by simp
  note bytes = price_for_bytes [OF assms(1), of n]
  show ?thesis
  proof (cases "CurrentInterval d \<le> n")
    case True
    obtain hi where "nextInterval ?p (CurrentInterval d) = Some hi" "CurrentInterval d < hi"
      using nextInterval_beyond [OF assms(3) fits_le [OF assms(4) True]] by blast
    with True unseal assms(1) bytes show ?thesis
      by (simp add: apply_payment_def bytes_paid_for_def ClientDealState_NextInterval_def Let_def v)
  next
    case False
    with unseal assms(1) bytes show ?thesis
      by (simp add: apply_payment_def bytes_paid_for_def Let_def v)
  qed
qed

theorem payment_recorded_witness:
  "\<exists>d'. apply_payment 300 (rsample_deal 1000 rsample_params) = Done d' \<and> BytesPaidFor d' = 150 \<and>
     100 < CurrentInterval d'"
  using payment_recorded [of "rsample_deal 1000 rsample_params" 150 300]
  by (auto simp: rsample_deal_def retrieve_deal_def rsample_params_def NewParamsV0_def fits_def)

text \<open>When the client sends a voucher. \<open>SendFunds\<close> creates at most one voucher, and does so exactly
  when a payment is due (the unsealing is unpaid, all blocks are here, or the current interval is
  reached), the chain head can be read, and the price of what was received exceeds what was spent;
  its amount is that price, with the received bytes read as \<open>int64\<close>.\<close>

theorem SendFunds_voucher_iff:
  assumes "PaymentInfoOf d = Some info"
  shows "CCreatePaymentVoucher ch amount lane \<in> set (scalls (SendFunds env d)) \<longleftrightarrow>
    ch = PayCh info \<and> lane = Lane info \<and>
    amount = int64_of (TotalReceived d) * PricePerByte (deal_params d) + UnsealPrice (deal_params d) \<and>
    FundsSpent d < amount \<and> (\<exists>tok epoch. GetChainHead env = Inr (tok, epoch)) \<and>
    (UnsealFundsPaid d < UnsealPrice (deal_params d) \<or> AllBlocksReceived d \<or>
      CurrentInterval d \<le> TotalReceived d)"
proof -
  have sv: "CCreatePaymentVoucher ch amount lane \<in> set (scalls (send_voucher env d tok)) \<longleftrightarrow>
    ch = PayCh info \<and> lane = Lane info \<and> amount = total_price d" for tok
    using assms
    by (auto simp: send_voucher_def Let_def split: on_err_split go_error.split option.split)
  show ?thesis
    by (auto simp: SendFunds_def sv total_price_def split: on_err_split)
qed

theorem SendFunds_voucher_iff_witness:
  "CCreatePaymentVoucher ''paych'' 300 3 \<in> set (scalls (SendFunds rsample_env
     ((rsample_deal 1000 rsample_params)\<lparr>PaymentInfoOf := Some \<lparr>PayCh = ''paych'', Lane = 3\<rparr>,
        TotalReceived := 150\<rparr>)))"
  using SendFunds_voucher_iff [of "(rsample_deal 1000 rsample_params)\<lparr>PaymentInfoOf :=
      Some \<lparr>PayCh = ''paych'', Lane = 3\<rparr>, TotalReceived := 150\<rparr>" "\<lparr>PayCh = ''paych'', Lane = 3\<rparr>"
      "''paych''" 300 3 rsample_env]
  by (simp add: rsample_env_def rsample_deal_def retrieve_deal_def rsample_params_def NewParamsV0_def
      int64_of_def i64_def)

text \<open>A deal without funds that is not free crashes the client. With \<open>TotalFunds\<close> zero the client
  skips the payment channel; when it then is to send funds for a priced deal, \<open>SendFunds\<close>
  dereferences the payment information that was never set.\<close>

theorem SendFunds_without_channel:
  assumes "PaymentInfoOf d = None" and "GetChainHead env = Inr (tok, epoch)"
    and "FundsSpent d < int64_of (TotalReceived d) * PricePerByte (deal_params d) + UnsealPrice (deal_params d)"
    and "AllBlocksReceived d"
  shows "SendFunds env d = [NilDeref]"
  using assms by (simp add: SendFunds_def send_voucher_def total_price_def)

theorem SendFunds_without_channel_witness:
  "SendFunds rsample_env ((rsample_deal 0 rsample_params)\<lparr>TotalReceived := 150, AllBlocksReceived := True\<rparr>) =
     [NilDeref]"
  using SendFunds_without_channel [of "(rsample_deal 0 rsample_params)\<lparr>TotalReceived := 150,
      AllBlocksReceived := True\<rparr>" rsample_env]
  by (simp add: rsample_env_def rsample_deal_def retrieve_deal_def rsample_params_def NewParamsV0_def
      int64_of_def i64_def)

subsection \<open>Handlers and table\<close>

lemma apply_payment_not_BadArgs: "apply_payment v d \<noteq> BadArgs"
  by (simp add: apply_payment_def Let_def split: option.split)

definition event_kept :: "ClientEvent \<Rightarrow> DealStatus fsm_arg list \<Rightarrow> ClientDealState \<Rightarrow> bool" where
  "event_kept e a d \<longleftrightarrow> (fsm_plan retrieval_client_fsm e a d = Rejected \<longleftrightarrow>
    e = ClientEventPaymentChannelErrored \<and>
    (Status d = DealStatusPaymentChannelAddingInitialFunds \<or> Status d = DealStatusCheckFunds))"

lemma rclient_events_kept:
  assumes "ClientStateEntryFuncs (Status d) = Some f" and "(e, a) \<in> set (strigs (f env d))"
  shows "event_kept e a d"
  using ClientStateEntryFuncs_set [OF assms(1)] assms(2)
  unfolding insert_iff prod.inject empty_iff simp_thms
  by (elim disjE conjE)
    (auto simp: rclient_handler_defs Let_def
      split: on_err_splits if_splits option.splits prod.splits go_error.splits,
     simp_all add: event_kept_def fsm_plan_Rejected rclient_table_defs transition_def
      note_error_def no_action_def apply_payment_not_BadArgs)

text \<open>C16. The events of the handlers are the events of the table, with one exception. Every event that
  a handler sends to its own deal is accepted in the state the handler runs in, except the error of
  the payment channel in the states \<open>PaymentChannelAddingInitialFunds\<close> and \<open>CheckFunds\<close>: there the
  event is refused, and the deal stays in that state with nothing under way.\<close>

theorem rclient_lost_event_iff:
  assumes "(e, a) \<in> set (strigs (rclient_handler env d))"
  shows "fsm_plan retrieval_client_fsm e a d = Rejected \<longleftrightarrow>
    e = ClientEventPaymentChannelErrored \<and>
    (Status d = DealStatusPaymentChannelAddingInitialFunds \<or> Status d = DealStatusCheckFunds)"
  using assms rclient_events_kept [of d _ e a env]
  by (auto simp: rclient_handler_def event_kept_def split: option.splits)

theorem rclient_lost_event_iff_witness:
  "fsm_plan retrieval_client_fsm ClientEventPaymentChannelErrored [AErr (New ''none'')]
     ((rsample_deal 1000 rsample_params)\<lparr>Status := DealStatusCheckFunds,
        PaymentInfoOf := Some \<lparr>PayCh = ''paych'', Lane = 3\<rparr>\<rparr>) = Rejected"
proof -
  let ?d = "(rsample_deal 1000 rsample_params)\<lparr>Status := DealStatusCheckFunds,
    PaymentInfoOf := Some \<lparr>PayCh = ''paych'', Lane = 3\<rparr>\<rparr>"
  have "(ClientEventPaymentChannelErrored, [AErr (New ''none'')]) \<in> set (strigs (rclient_handler rsample_env ?d))"
    by (simp add: rclient_handler_def ClientStateEntryFuncs_def CheckFunds_def rsample_env_def
        rsample_deal_def retrieve_deal_def)
  from rclient_lost_event_iff [OF this] show ?thesis by simp
qed

end
