(* ===== verification/Retrieval_Transfer.thy ===== *)
theory Retrieval_Transfer
  imports Retrieval_Types Fsm_Machine
begin

section \<open>Retrieval market: the data transfer subscribers\<close>

text \<open>
  What the market reads of a channel of the module go-data-transfer (\<open>channel_state\<close>), what it
  answers a transfer request with (\<open>ValidationResult\<close>), and the subscribers of
  \<open>retrievalmarket/impl/dtutils/dtutils.go\<close> that turn the module's events into events of the deal
  state machines.
\<close>

text \<open>The event codes and channel states that the code names; the module has others.\<close>

datatype dt_code =
    Accept | Disconnected | DtError | DataLimitExceeded | BeginFinalizing | NewVoucher | Cancel
  | DataReceivedProgress | FinishTransfer | NewVoucherResult | OtherCode nat

datatype dt_status = DtCompleted | DtOther nat

record dt_event =
  Code :: dt_code
  DtMessage :: string

text \<open>\<open>InFinalization\<close> is the answer of \<open>Status().InFinalization()\<close>.\<close>

record 'n channel_state =
  ChanID :: channel_id
  ChanStatus :: dt_status
  InFinalization :: bool
  Voucher :: "'n option"
  LastVoucher :: "'n option"
  LastVoucherResult :: "'n option"
  Queued :: uint64
  ReceivedBytes :: uint64
  ChanMessage :: string
  Recipient :: peer_id
  OtherPeer :: peer_id
  BaseCID :: cid
  ChanSelector :: string

record 'n ValidationResult =
  Accepted :: bool
  VoucherResult :: "'n option"
  ForcePause :: bool
  DataLimit :: uint64
  RequiresFinalization :: bool

definition ValidationResult_zero :: "'n ValidationResult" where
  "ValidationResult_zero = \<lparr>Accepted = False, VoucherResult = None, ForcePause = False, DataLimit = 0,
     RequiresFinalization = False\<rparr>"

text \<open>\<open>datatransfer.ErrRejected\<close>: the text that the subscriber compares with is a parameter.\<close>

subsection \<open>Provider\<close>

type_synonym 'e sent_event = "'e \<times> DealStatus fsm_arg list"

text \<open>\<open>noProviderEvent\<close> is \<open>None\<close>.\<close>

definition providerEvent :: "dt_event \<Rightarrow> 'n channel_state \<Rightarrow> ProviderEvent sent_event option" where
  "providerEvent event cs =
     (if ChanStatus cs = DtCompleted then Some (ProviderEventComplete, [])
      else case Code event of
        Accept \<Rightarrow> Some (ProviderEventDealAccepted, [AChannel (ChanID cs)])
      | Disconnected \<Rightarrow> Some (ProviderEventDataTransferError,
          [AErr (New ''deal data transfer stalled (peer hungup)'')])
      | DtError \<Rightarrow> Some (ProviderEventDataTransferError,
          [AErr (New (''deal data transfer failed: '' @ DtMessage event))])
      | DataLimitExceeded \<Rightarrow> Some (ProviderEventPaymentRequested, [])
      | BeginFinalizing \<Rightarrow> Some (ProviderEventLastPaymentRequested, [])
      | NewVoucher \<Rightarrow> Some (ProviderEventProcessPayment, [])
      | Cancel \<Rightarrow> Some (ProviderEventClientCancelled, [])
      | _ \<Rightarrow> None)"

text \<open>What the subscriber sends to the state machines: the deal's key, the event and its arguments.\<close>

definition ProviderDataTransferSubscriber ::
  "'n bindnode_registry \<Rightarrow> dt_event \<Rightarrow> 'n channel_state \<Rightarrow>
   (ProviderDealIdentifier \<times> ProviderEvent sent_event) option" where
  "ProviderDataTransferSubscriber reg event cs = (case Voucher cs of
     None \<Rightarrow> None
   | Some v \<Rightarrow> on_err (DealProposalFromNode reg (Some v))
       (\<lambda>err. None)
       (\<lambda>dealProposal. map_option
          (\<lambda>ev. (\<lparr>IdReceiver = Recipient cs, IdDealID = ProposalID dealProposal\<rparr>, ev))
          (providerEvent event cs)))"

subsection \<open>Client\<close>

definition clientEventForResponse :: "DealResponse \<Rightarrow> ClientEvent sent_event" where
  "clientEventForResponse response = (case RespStatus response of
     DealStatusRejected \<Rightarrow> (ClientEventDealRejected, [AString (RespMessage response)])
   | DealStatusDealNotFound \<Rightarrow> (ClientEventDealNotFound, [AString (RespMessage response)])
   | DealStatusAccepted \<Rightarrow> (ClientEventDealAccepted, [])
   | DealStatusFundsNeededUnseal \<Rightarrow> (ClientEventUnsealPaymentRequested, [AToken (PaymentOwed response)])
   | DealStatusFundsNeededLastPayment \<Rightarrow> (ClientEventLastPaymentRequested, [AToken (PaymentOwed response)])
   | DealStatusCompleted \<Rightarrow> (ClientEventComplete, [])
   | DealStatusFundsNeeded \<Rightarrow> (ClientEventPaymentRequested, [AToken (PaymentOwed response)])
   | DealStatusOngoing \<Rightarrow> (ClientEventPaymentRequested, [AToken (PaymentOwed response)])
   | status \<Rightarrow> (ClientEventUnknownResponseReceived, [AStatus status]))"

definition clientEvent ::
  "'n bindnode_registry \<Rightarrow> string \<Rightarrow> dt_event \<Rightarrow> 'n channel_state \<Rightarrow> ClientEvent sent_event option" where
  "clientEvent reg errRejected event cs = (case Code event of
     DataReceivedProgress \<Rightarrow> Some (ClientEventBlocksReceived, [AUint64 (ReceivedBytes cs)])
   | FinishTransfer \<Rightarrow> Some (ClientEventAllBlocksReceived, [])
   | Cancel \<Rightarrow> Some (ClientEventProviderCancelled, [])
   | NewVoucherResult \<Rightarrow> on_err (DealResponseFromNode reg (LastVoucherResult cs))
       (\<lambda>err. None) (\<lambda>response. Some (clientEventForResponse response))
   | Disconnected \<Rightarrow> Some (ClientEventDataTransferError,
       [AErr (New ''deal data transfer stalled (peer hungup)'')])
   | DtError \<Rightarrow>
       if ChanMessage cs = errRejected
       then Some (ClientEventDealRejected, [AString ''rejected for unknown reasons''])
       else Some (ClientEventDataTransferError,
         [AErr (New (''deal data transfer failed: '' @ DtMessage event))])
   | _ \<Rightarrow> None)"

definition ClientDataTransferSubscriber ::
  "'n bindnode_registry \<Rightarrow> string \<Rightarrow> dt_event \<Rightarrow> 'n channel_state \<Rightarrow>
   (uint64 \<times> ClientEvent sent_event) option" where
  "ClientDataTransferSubscriber reg errRejected event cs =
     on_err (DealProposalFromNode reg (Voucher cs))
       (\<lambda>err. None)
       (\<lambda>dealProposal. map_option (\<lambda>ev. (ProposalID dealProposal, ev))
          (clientEvent reg errRejected event cs))"

subsection \<open>Blockstores of the transport\<close>

text \<open>\<open>TransportConfigurer\<close>: the store that the transport of a channel is to use, if it is a
  retrieval's. \<open>otherParty\<close> is \<open>channelID.OtherParty(thisPeer)\<close>; a getter may answer nil.\<close>

definition TransportConfigurer ::
  "'n bindnode_registry \<Rightarrow> (peer_id \<Rightarrow> uint64 \<Rightarrow> go_error + 's option) \<Rightarrow> peer_id \<Rightarrow> 'n option \<Rightarrow> 's list" where
  "TransportConfigurer reg storeGetter otherParty voucher =
     on_err (DealProposalFromNode reg voucher)
       (\<lambda>err. [])
       (\<lambda>dealProposal. on_err (storeGetter otherParty (ProposalID dealProposal))
          (\<lambda>err. [])
          (\<lambda>store. case store of None \<Rightarrow> [] | Some s \<Rightarrow> [s]))"

end
