(* ===== verification/Retrieval_Provider_Fsm.thy ===== *)
theory Retrieval_Provider_Fsm
  imports Retrieval_Transfer
begin

section \<open>Retrieval provider: event table and state entry handlers\<close>

text \<open>
  \<open>retrievalmarket/impl/providerstates/provider_fsm.go\<close> and \<open>provider_states.go\<close>. The engine runs
  this machine with \<open>ConsumeAllEventsBeforeEntryFuncs\<close>. The loops of \<open>OutstandingBalance\<close> and
  \<open>NextInterval\<close> may not end; a handler caught in one takes the step \<open>NilDeref\<close>, after which nothing
  more of the deal happens.
\<close>

type_synonym provider_event = "(ProviderEvent, DealStatus, ProviderDealState) fsm_event"

definition recordError :: "(DealStatus, ProviderDealState) action" where
  "recordError = act p_err (\<lambda>err deal. deal\<lparr>PMessage := Error err\<rparr>)"

definition no_action :: "(DealStatus, ProviderDealState) action" where
  "no_action = act p_none (\<lambda>_ deal. deal)"

definition add_received :: "token_amount \<Rightarrow> ProviderDealState \<Rightarrow> ProviderDealState" where
  "add_received fundsReceived deal = deal\<lparr>FundsReceived := FundsReceived deal + fundsReceived\<rparr>"

definition ProviderEvents :: "provider_event list" where
  "ProviderEvents = [
    Event ProviderEventOpen
      [From DealStatusNew ToNoChange]
      (act p_none (\<lambda>_ deal. deal\<lparr>FundsReceived := 0\<rparr>)),
    Event ProviderEventDealAccepted
      [From DealStatusFundsNeededUnseal ToNoChange,
       From DealStatusNew (To DealStatusUnsealing)]
      (act p_channel (\<lambda>channelID deal. deal\<lparr>PChannelID := Some channelID\<rparr>)),
    Event ProviderEventUnsealError
      [From DealStatusUnsealing (To DealStatusFailing)] recordError,
    Event ProviderEventUnsealComplete
      [From DealStatusUnsealing (To DealStatusUnsealed)] no_action,
    Event ProviderEventBlockSent
      [FromMany [DealStatusOngoing] ToNoChange,
       From DealStatusUnsealed (To DealStatusOngoing)] no_action,
    Event ProviderEventPaymentRequested
      [FromMany [DealStatusOngoing, DealStatusUnsealed] (To DealStatusFundsNeeded),
       From DealStatusFundsNeeded ToJustRecord,
       From DealStatusNew (To DealStatusFundsNeededUnseal)] no_action,
    Event ProviderEventLastPaymentRequested
      [FromMany [DealStatusOngoing, DealStatusUnsealed] (To DealStatusFundsNeededLastPayment)] no_action,
    Event ProviderEventSaveVoucherFailed
      [FromMany [DealStatusFundsNeededUnseal, DealStatusFundsNeeded, DealStatusFundsNeededLastPayment]
         (To DealStatusFailing)] recordError,
    Event ProviderEventPartialPaymentReceived
      [FromMany [DealStatusFundsNeededUnseal, DealStatusFundsNeeded, DealStatusFundsNeededLastPayment]
         ToNoChange] (act p_token add_received),
    Event ProviderEventPaymentReceived
      [From DealStatusFundsNeeded (To DealStatusOngoing),
       From DealStatusFundsNeededLastPayment (To DealStatusFinalizing),
       From DealStatusFundsNeededUnseal (To DealStatusUnsealing),
       FromMany [DealStatusBlocksComplete, DealStatusOngoing, DealStatusFinalizing] ToJustRecord]
      (act p_token add_received),
    Event ProviderEventProcessPayment [FromAny ToNoChange] no_action,
    Event ProviderEventComplete [FromAny (To DealStatusCompleting)] no_action,
    Event ProviderEventCleanupComplete
      [From DealStatusCompleting (To DealStatusCompleted)] no_action,
    Event ProviderEventCancelComplete
      [From DealStatusCancelling (To DealStatusCancelled),
       From DealStatusFailing (To DealStatusErrored)] no_action,
    Event ProviderEventDataTransferError [FromAny (To DealStatusErrored)] recordError,
    Event ProviderEventMultiStoreError [FromAny (To DealStatusErrored)] recordError,
    Event ProviderEventClientCancelled
      [From DealStatusFailing ToJustRecord,
       From DealStatusCancelling ToJustRecord,
       FromAny (To DealStatusCancelling)]
      (act p_none (\<lambda>_ deal. if PStatus deal \<noteq> DealStatusFailing
         then deal\<lparr>PMessage := ''Client cancelled retrieval''\<rparr> else deal))]"

definition ProviderFinalityStates :: "DealStatus list" where
  "ProviderFinalityStates = [DealStatusErrored, DealStatusCompleted, DealStatusCancelled]"

definition retrieval_provider_fsm :: "(ProviderEvent, DealStatus, ProviderDealState) fsm_params" where
  "retrieval_provider_fsm = \<lparr>StateOf = PStatus, SetState = (\<lambda>s deal. deal\<lparr>PStatus := s\<rparr>),
     Events = ProviderEvents, FinalityStates = ProviderFinalityStates\<rparr>"

lemmas rprovider_table_defs = ProviderEvents_def ProviderFinalityStates_def retrieval_provider_fsm_def

lemma rprovider_table_wf: "table_wf ProviderEvents"
  by (simp add: table_wf_def is_FromAny_def rprovider_table_defs)

subsection \<open>Handlers\<close>

record 'n rprovider_env =
  registry :: "'n bindnode_registry"
  PGetChainHead :: "go_error + tipset_token \<times> chain_epoch"
  SavePaymentVoucher :: "address \<Rightarrow> string option \<Rightarrow> tipset_token \<Rightarrow> go_error + token_amount option"
  PrepareBlockstore :: "uint64 \<Rightarrow> cid \<Rightarrow> go_error option"
  DeleteStore :: "uint64 \<Rightarrow> go_error option"
  ResumeDataTransfer :: "channel_id \<Rightarrow> go_error option"
  PCloseDataTransfer :: "channel_id \<Rightarrow> go_error option"
  ChannelState :: "channel_id \<Rightarrow> go_error + 'n channel_state"
  UpdateValidationStatus :: "channel_id \<Rightarrow> 'n ValidationResult \<Rightarrow> go_error option"

text \<open>\<open>CSavePaymentVoucher\<close> carries what the node answered: how much the voucher adds.\<close>

datatype 'n rprovider_call =
    CPrepareBlockstore uint64 cid
  | CDeleteStore uint64
  | CResumeDataTransfer channel_id
  | CCloseDataTransfer channel_id
  | CSavePaymentVoucher address "string option" "token_amount option"
  | CUpdateValidationStatus channel_id "'n ValidationResult"

type_synonym 'n rprovider_step = "('n rprovider_call, ProviderEvent, DealStatus) hstep"

definition UnsealData :: "'n rprovider_env \<Rightarrow> ProviderDealState \<Rightarrow> 'n rprovider_step list" where
  "UnsealData env deal = (case PieceInfoOf deal of
     None \<Rightarrow> [NilDeref]
   | Some piece \<Rightarrow> Call (CPrepareBlockstore (ProposalID (PProposalOf deal)) (InfoPieceCID piece)) #
       (case PrepareBlockstore env (ProposalID (PProposalOf deal)) (InfoPieceCID piece) of
          Some err \<Rightarrow> [Trig ProviderEventUnsealError [AErr err]]
        | None \<Rightarrow> [Trig ProviderEventUnsealComplete []]))"

definition UnpauseDeal :: "'n rprovider_env \<Rightarrow> ProviderDealState \<Rightarrow> 'n rprovider_step list" where
  "UnpauseDeal env deal = (case PChannelID deal of
     None \<Rightarrow> []
   | Some chid \<Rightarrow> Call (CResumeDataTransfer chid) # (case ResumeDataTransfer env chid of
       Some err \<Rightarrow> [Trig ProviderEventDataTransferError [AErr err]]
     | None \<Rightarrow> []))"

definition savePayment ::
  "'n rprovider_env \<Rightarrow> DealPayment \<Rightarrow> 'n rprovider_step list \<times> (go_error + token_amount option)" where
  "savePayment env payment = on_err (PGetChainHead env)
     (\<lambda>err. ([Trig ProviderEventSaveVoucherFailed [AErr err]], Inl err))
     (\<lambda>(tok, _). on_err (SavePaymentVoucher env (PaymentChannel payment) (PaymentVoucher payment) tok)
        (\<lambda>err. ([Trig ProviderEventSaveVoucherFailed [AErr err]], Inl err))
        (\<lambda>received. ([Call (CSavePaymentVoucher (PaymentChannel payment) (PaymentVoucher payment) received)],
           Inr received)))"

definition processLastVoucher ::
  "'n rprovider_env \<Rightarrow> 'n channel_state \<Rightarrow> 'n rprovider_step list \<times> (go_error + token_amount option)" where
  "processLastVoucher env cs = on_err (DealPaymentFromNode (registry env) (LastVoucher cs))
     (\<lambda>_. on_err (DealProposalFromNode (registry env) (LastVoucher cs))
        (\<lambda>_. ([], Inl (New ''wrong voucher type'')))
        (\<lambda>_. ([], Inr (Some 0))))
     (\<lambda>payment. savePayment env payment)"

definition errorDealResponse ::
  "'n bindnode_registry \<Rightarrow> ProviderDealIdentifier \<Rightarrow> go_error \<Rightarrow> 'n ValidationResult" where
  "errorDealResponse reg dealID errMsg = ValidationResult_zero\<lparr>
     VoucherResult := Some (response_to_node reg \<lparr>RespStatus = DealStatusErrored,
       RespID = IdDealID dealID, PaymentOwed = 0, RespMessage = Error errMsg\<rparr>)\<rparr>"

text \<open>The events and the voucher result that a payment leads to, by what is still owed.\<close>

definition payment_event ::
  "ProviderDealState \<Rightarrow> token_amount \<Rightarrow> token_amount \<Rightarrow> 'n rprovider_step list" where
  "payment_event deal received owed =
     (if owed > 0
      then if received > 0 then [Trig ProviderEventPartialPaymentReceived [AToken received]] else []
      else [Trig ProviderEventPaymentReceived [AToken received]])"

definition payment_response ::
  "ProviderDealState \<Rightarrow> token_amount \<Rightarrow> token_amount \<Rightarrow> DealResponse option" where
  "payment_response deal received owed =
     (if owed > 0
      then if received > 0 \<or> PStatus deal \<noteq> DealStatusFundsNeededUnseal
        then Some \<lparr>RespStatus = PStatus deal, RespID = ProposalID (PProposalOf deal),
          PaymentOwed = owed, RespMessage = []\<rparr>
        else None
      else if PStatus deal = DealStatusFundsNeededLastPayment
        then Some \<lparr>RespStatus = DealStatusCompleted, RespID = ProposalID (PProposalOf deal),
          PaymentOwed = 0, RespMessage = []\<rparr>
        else None)"

definition funding_result ::
  "'n bindnode_registry \<Rightarrow> ProviderDealState \<Rightarrow> token_amount \<Rightarrow> token_amount \<Rightarrow> uint64 \<Rightarrow> 'n ValidationResult" where
  "funding_result reg deal received owed limit = \<lparr>Accepted = True,
     VoucherResult = map_option (response_to_node reg) (payment_response deal received owed),
     ForcePause = (PStatus deal = DealStatusUnsealing \<or> PStatus deal = DealStatusFundsNeededUnseal),
     DataLimit = limit,
     RequiresFinalization = (owed > 0 \<or> PStatus deal \<noteq> DealStatusFundsNeededLastPayment)\<rparr>"

text \<open>The steps taken and the result; no result when a loop does not end.\<close>

definition updateFunding ::
  "'n rprovider_env \<Rightarrow> ProviderDealState \<Rightarrow> 'n channel_state \<Rightarrow>
   'n rprovider_step list \<times> 'n ValidationResult option" where
  "updateFunding env deal cs = (case processLastVoucher env cs of
     (steps, Inl err) \<Rightarrow> (steps, Some (errorDealResponse (registry env) (Identifier deal) err))
   | (steps, Inr r) \<Rightarrow>
       let received = (case r of None \<Rightarrow> 0 | Some x \<Rightarrow> x);
           totalPaid = FundsReceived deal + received
       in case OutstandingBalance (pdeal_params deal) totalPaid (Queued cs) (InFinalization cs) of
            None \<Rightarrow> (steps, None)
          | Some owed \<Rightarrow> (steps @ payment_event deal received owed,
              map_option (funding_result (registry env) deal received owed)
                (NextInterval (pdeal_params deal) totalPaid)))"

definition UpdateFunding :: "'n rprovider_env \<Rightarrow> ProviderDealState \<Rightarrow> 'n rprovider_step list" where
  "UpdateFunding env deal = (case PChannelID deal of
     None \<Rightarrow> []
   | Some chid \<Rightarrow> on_err (ChannelState env chid)
       (\<lambda>err. [Trig ProviderEventDataTransferError [AErr err]])
       (\<lambda>cs. case updateFunding env deal cs of
          (steps, None) \<Rightarrow> steps @ [NilDeref]
        | (steps, Some result) \<Rightarrow> steps @ Call (CUpdateValidationStatus chid result) #
            (case UpdateValidationStatus env chid result of
               Some err \<Rightarrow> [Trig ProviderEventDataTransferError [AErr err]]
             | None \<Rightarrow> [])))"

definition CancelDeal :: "'n rprovider_env \<Rightarrow> ProviderDealState \<Rightarrow> 'n rprovider_step list" where
  "CancelDeal env deal = Call (CDeleteStore (ProposalID (PProposalOf deal))) #
     (case DeleteStore env (ProposalID (PProposalOf deal)) of
        Some err \<Rightarrow> [Trig ProviderEventMultiStoreError [AErr err]]
      | None \<Rightarrow> (case PChannelID deal of
          None \<Rightarrow> [Trig ProviderEventCancelComplete []]
        | Some chid \<Rightarrow> Call (CCloseDataTransfer chid) # (case PCloseDataTransfer env chid of
            None \<Rightarrow> [Trig ProviderEventCancelComplete []]
          | Some err \<Rightarrow>
              if errors_Is err StatemachineErrTerminated then [Trig ProviderEventCancelComplete []]
              else [Trig ProviderEventDataTransferError [AErr err]])))"

definition CleanupDeal :: "'n rprovider_env \<Rightarrow> ProviderDealState \<Rightarrow> 'n rprovider_step list" where
  "CleanupDeal env deal = Call (CDeleteStore (ProposalID (PProposalOf deal))) #
     (case DeleteStore env (ProposalID (PProposalOf deal)) of
        Some err \<Rightarrow> [Trig ProviderEventMultiStoreError [AErr err]]
      | None \<Rightarrow> [Trig ProviderEventCleanupComplete []])"

definition ProviderStateEntryFuncs ::
  "DealStatus \<Rightarrow> ('n rprovider_env \<Rightarrow> ProviderDealState \<Rightarrow> 'n rprovider_step list) option" where
  "ProviderStateEntryFuncs s = map_of [
     (DealStatusUnsealing, UnsealData),
     (DealStatusUnsealed, UnpauseDeal),
     (DealStatusFundsNeeded, UpdateFunding),
     (DealStatusFundsNeededUnseal, UpdateFunding),
     (DealStatusFundsNeededLastPayment, UpdateFunding),
     (DealStatusFailing, CancelDeal),
     (DealStatusCancelling, CancelDeal),
     (DealStatusCompleting, CleanupDeal)] s"

definition rprovider_handler :: "'n rprovider_env \<Rightarrow> ProviderDealState \<Rightarrow> 'n rprovider_step list" where
  "rprovider_handler env deal = (case ProviderStateEntryFuncs (PStatus deal) of
     None \<Rightarrow> [] | Some f \<Rightarrow> f env deal)"

text \<open>The machine of one deal. \<open>env_ok\<close> is what is assumed of the environment.\<close>

definition rprovider_machine ::
  "('n rprovider_env \<Rightarrow> bool) \<Rightarrow> ((ProviderEvent, DealStatus, ProviderDealState) fsm_params \<Rightarrow> ProviderEvent \<Rightarrow>
      DealStatus fsm_arg list \<Rightarrow> ProviderDealState \<Rightarrow> ProviderDealState fsm_result) \<Rightarrow>
   (ProviderEvent \<Rightarrow> DealStatus fsm_arg list \<Rightarrow> bool) \<Rightarrow>
   ('n rprovider_env, 'n rprovider_call, ProviderEvent, DealStatus, ProviderDealState) machine" where
  "rprovider_machine env_ok plan external =
     \<lparr>Plan = (\<lambda>env. plan retrieval_provider_fsm), Handler = rprovider_handler, EnvOK = env_ok,
      External = external, RestartEvent = ProviderEventOpen, MayRestart = (\<lambda>c. False),
      ConsumeAll = True\<rparr>"

end
