(* ===== verification/Retrieval_Provider_Correct.thy ===== *)
theory Retrieval_Provider_Correct
  imports Retrieval_Provider_Fsm
begin

section \<open>Retrieval provider: properties\<close>

text \<open>
  The funds that a retrieval deal records are those of the vouchers saved for it, in every run;
  what the provider answers a payment with agrees with the payment intervals.
\<close>

subsection \<open>Payments under way\<close>

fun pay_event :: "ProviderEvent \<Rightarrow> bool" where
  "pay_event ProviderEventPaymentReceived = True"
| "pay_event ProviderEventPartialPaymentReceived = True"
| "pay_event _ = False"

fun pay_amount :: "ProviderEvent \<times> DealStatus fsm_arg list \<Rightarrow> token_amount" where
  "pay_amount (e, [AToken v]) = v"
| "pay_amount _ = 0"

fun token_arg :: "ProviderEvent \<times> DealStatus fsm_arg list \<Rightarrow> bool" where
  "token_arg (e, [AToken v]) = True"
| "token_arg _ = False"

definition pays :: "(ProviderEvent \<times> DealStatus fsm_arg list) list \<Rightarrow>
    (ProviderEvent \<times> DealStatus fsm_arg list) list" where
  "pays xs = filter (\<lambda>(e, a). pay_event e) xs"

fun saved :: "'n rprovider_call \<Rightarrow> token_amount" where
  "saved (CSavePaymentVoucher ch v (Some r)) = r"
| "saved _ = 0"

fun needs :: "DealStatus \<Rightarrow> bool" where
  "needs DealStatusFundsNeeded = True"
| "needs DealStatusFundsNeededUnseal = True"
| "needs DealStatusFundsNeededLastPayment = True"
| "needs _ = False"

text \<open>The states in which a deal is not being wound up.\<close>

fun live :: "DealStatus \<Rightarrow> bool" where
  "live DealStatusFailing = False"
| "live DealStatusCancelling = False"
| "live DealStatusErrored = False"
| "live DealStatusCancelled = False"
| "live DealStatusCompleting = False"
| "live DealStatusCompleted = False"
| "live _ = True"

fun flat :: "('c, 'e, 's) hstep \<Rightarrow> bool" where
  "flat (Async ss) = False"
| "flat _ = True"

type_synonym 'n rprovider_cfg = "('n rprovider_call, ProviderEvent, DealStatus, ProviderDealState) cfg"

definition underway :: "'n rprovider_cfg \<Rightarrow> (ProviderEvent \<times> DealStatus fsm_arg list) list" where
  "underway c = pays (queue c) @ pays (strigs (todo c))"

definition paid_ok :: "'n rprovider_cfg \<Rightarrow> bool" where
  "paid_ok c \<longleftrightarrow>
     sum_list (map saved (made c)) + sum_list (map saved (scalls (todo c))) =
       FundsReceived (cfg_deal c) + sum_list (map pay_amount (underway c)) \<and>
     (underway c \<noteq> [] \<longrightarrow> length (underway c) \<le> 1 \<and> needs (PStatus (cfg_deal c)) \<and>
        list_all token_arg (underway c)) \<and>
     (PStatus (cfg_deal c) = DealStatusNew \<longrightarrow> FundsReceived (cfg_deal c) = 0)"

definition paid_inv :: "'n rprovider_cfg \<Rightarrow> bool" where
  "paid_inv c \<longleftrightarrow> callbacks c = [] \<and> list_all flat (todo c) \<and>
     (crashed c \<or> NilDeref \<in> set (todo c) \<or> \<not> live (PStatus (cfg_deal c)) \<or> paid_ok c)"

lemma pays_simps [simp]:
  "pays [] = []" "pays (x # xs) = (if pay_event (fst x) then x # pays xs else pays xs)"
  "pays (xs @ ys) = pays xs @ pays ys"
  by (auto simp: pays_def split: prod.split)

lemma needs_live: "needs s \<Longrightarrow> live s"
  by (cases s) simp_all

subsection \<open>The table\<close>

definition paid_row :: "ProviderEvent \<Rightarrow> DealStatus fsm_arg list \<Rightarrow> ProviderDealState \<Rightarrow>
    ProviderDealState \<Rightarrow> bool" where
  "paid_row e a d d' \<longleftrightarrow> \<not> pay_event e \<longrightarrow>
     (live (PStatus d') \<longrightarrow> live (PStatus d) \<and> (needs (PStatus d) \<longrightarrow> PStatus d' = PStatus d)) \<and>
     (PStatus d' = DealStatusNew \<longrightarrow> PStatus d = DealStatusNew) \<and>
     (FundsReceived d' = FundsReceived d \<or> PStatus d = DealStatusNew \<and> FundsReceived d' = 0)"

lemma paid_rows: "list_all (ev_relates retrieval_provider_fsm paid_row) ProviderEvents"
  unfolding ProviderEvents_def list.pred_inject
  by (intro conjI ev_relatesI)
    (auto simp: transition_def recordError_def no_action_def retrieval_provider_fsm_def
      ProviderFinalityStates_def paid_row_def split: if_splits)

lemma paid_plan:
  "fsm_plan retrieval_provider_fsm e a d = Recorded d' \<or> fsm_plan retrieval_provider_fsm e a d = Entered d' \<Longrightarrow>
     paid_row e a d d'"
  using table_relates [of retrieval_provider_fsm paid_row e a d d'] paid_rows
  by (simp add: retrieval_provider_fsm_def)

text \<open>In a state that waits for funds a payment is recorded.\<close>

lemma paid_accepted:
  assumes "needs (PStatus d)" and "pay_event e" and "a = [AToken v]"
  shows "\<exists>d'. (fsm_plan retrieval_provider_fsm e a d = Recorded d' \<or>
      fsm_plan retrieval_provider_fsm e a d = Entered d') \<and>
    FundsReceived d' = FundsReceived d + v \<and> PStatus d' \<noteq> DealStatusNew"
  using assms
  by (cases "PStatus d"; cases e)
    (simp_all add: fsm_plan_def rprovider_table_defs transition_def act_def apply_target_def add_received_def)

lemma paid_rejected:
  "needs (PStatus d) \<Longrightarrow> pay_event e \<Longrightarrow> token_arg (e, a) \<Longrightarrow> fsm_plan retrieval_provider_fsm e a d \<noteq> Rejected"
  using paid_accepted [of d e a] by (cases "(e, a)" rule: token_arg.cases) auto

text \<open>A deal that is being wound up records no payment.\<close>

lemma paid_dead:
  "\<not> live (PStatus d) \<Longrightarrow> pay_event e \<Longrightarrow> fsm_plan retrieval_provider_fsm e a d = Rejected"
  by (cases "PStatus d"; cases e) (simp_all add: fsm_plan_Rejected rprovider_table_defs transition_def)

subsection \<open>The handlers\<close>

text \<open>What the node answers for a voucher is not negative.\<close>

definition vouchers_add :: "'n rprovider_env \<Rightarrow> bool" where
  "vouchers_add env \<longleftrightarrow>
     (\<forall>ch v tok r. SavePaymentVoucher env ch v tok = Inr (Some r) \<longrightarrow> 0 \<le> r)"

definition balanced :: "'n rprovider_step list \<Rightarrow> bool" where
  "balanced ss \<longleftrightarrow> list_all flat ss \<and> (NilDeref \<in> set ss \<or>
     sum_list (map saved (scalls ss)) = sum_list (map pay_amount (pays (strigs ss))) \<and>
     length (pays (strigs ss)) \<le> 1 \<and> list_all token_arg (pays (strigs ss)))"

lemma processLastVoucher_steps:
  "processLastVoucher env cs = (steps, Inl err) \<Longrightarrow>
     steps = [] \<or> steps = [Trig ProviderEventSaveVoucherFailed [AErr err]]"
  "processLastVoucher env cs = (steps, Inr r) \<Longrightarrow>
     steps = [] \<and> r = Some 0 \<or> (\<exists>ch v tok. steps = [Call (CSavePaymentVoucher ch v r)] \<and>
       SavePaymentVoucher env ch v tok = Inr r)"
  by (auto simp: processLastVoucher_def savePayment_def split: on_err_splits prod.splits)

lemma payment_event_facts:
  "0 \<le> x \<Longrightarrow> sum_list (map pay_amount (pays (strigs (payment_event d x owed)))) = x"
  "length (pays (strigs (payment_event d x owed))) \<le> Suc 0"
  "list_all token_arg (pays (strigs (payment_event d x owed)))"
  "scalls (payment_event d x owed) = []" "list_all flat (payment_event d x owed)"
  by (simp_all add: payment_event_def)

lemma updateFunding_balanced:
  assumes "vouchers_add env" and "updateFunding env d cs = (steps, res)"
  shows "balanced steps \<or> res = None \<and> list_all flat steps"
proof (cases "processLastVoucher env cs")
  case (Pair st r)
  show ?thesis
  proof (cases r)
    case (Inl err)
    with Pair assms(2) processLastVoucher_steps(1) [of env cs st err] show ?thesis
      by (auto simp: updateFunding_def balanced_def)
  next
    case (Inr x)
    let ?x = "case x of None \<Rightarrow> 0 | Some y \<Rightarrow> y"
    from processLastVoucher_steps(2) [of env cs st x] Pair Inr
    have st: "list_all flat st \<and> sum_list (map saved (scalls st)) = ?x \<and> strigs st = []" and x: "0 \<le> ?x"
      using assms(1) by (auto simp: vouchers_add_def split: option.split)
    have "balanced (st @ payment_event d ?x owed)" for owed
      using st x by (simp add: balanced_def payment_event_facts)
    with Pair Inr assms(2) st show ?thesis
      by (auto simp: updateFunding_def Let_def split: option.splits)
  qed
qed

lemma UpdateFunding_balanced:
  assumes "vouchers_add env"
  shows "balanced (UpdateFunding env d)"
proof (cases "PChannelID d")
  case None
  then show ?thesis by (simp add: UpdateFunding_def balanced_def)
next
  case (Some chid)
  show ?thesis
  proof (cases "ChannelState env chid")
    case (Inl err)
    with Some show ?thesis by (simp add: UpdateFunding_def balanced_def)
  next
    case (Inr cs)
    obtain steps res where u: "updateFunding env d cs = (steps, res)" by (cases "updateFunding env d cs")
    from updateFunding_balanced [OF assms u] Some Inr u show ?thesis
      by (auto simp: UpdateFunding_def balanced_def split: option.splits)
  qed
qed

lemma handler_balanced:
  fixes env :: "'n rprovider_env"
  assumes "vouchers_add env"
  shows "balanced (rprovider_handler env d) \<and>
    (needs (PStatus d) \<or> pays (strigs (rprovider_handler env d)) = [])"
proof (cases "needs (PStatus d)")
  case True
  then have "rprovider_handler env d = UpdateFunding env d"
    by (cases "PStatus d") (simp_all add: rprovider_handler_def ProviderStateEntryFuncs_def)
  with True UpdateFunding_balanced [OF assms] show ?thesis by simp
next
  case False
  then show ?thesis
    by (cases "PStatus d")
      (auto simp: rprovider_handler_def ProviderStateEntryFuncs_def balanced_def UnsealData_def
        UnpauseDeal_def CancelDeal_def CleanupDeal_def split: option.split)
qed

subsection \<open>Every run\<close>

lemma paid_run_step:
  assumes "paid_inv c" and todo: "todo c = s # ss"
  shows "paid_inv (run_step s (c\<lparr>todo := ss\<rparr>))"
  using assms
  by (cases s) (auto simp: paid_inv_def paid_ok_def underway_def)

lemma paid_process_pay:
  assumes ok: "paid_ok c" and todo: "todo c = []" and q: "queue c = (e, a) # q" and e: "pay_event e"
    and r: "fsm_plan retrieval_provider_fsm e a (cfg_deal c) = Recorded d' \<or>
      fsm_plan retrieval_provider_fsm e a (cfg_deal c) = Entered d'"
  shows "paid_ok (c\<lparr>queue := q, cfg_deal := d', entered := b\<rparr>)"
proof -
  from ok todo q e have one: "pays q = []" and st: "needs (PStatus (cfg_deal c))" and "token_arg (e, a)"
    by (auto simp: paid_ok_def underway_def)
  then obtain v where v: "a = [AToken v]" by (cases "(e, a)" rule: token_arg.cases) auto
  from paid_accepted [OF st e v] r have "FundsReceived d' = FundsReceived (cfg_deal c) + v" "PStatus d' \<noteq> DealStatusNew"
    by auto
  with ok todo q e one v show ?thesis by (simp add: paid_ok_def underway_def)
qed

lemma paid_process_other:
  assumes ok: "paid_ok c" and todo: "todo c = []" and q: "queue c = (e, a) # q" and e: "\<not> pay_event e"
    and r: "fsm_plan retrieval_provider_fsm e a (cfg_deal c) = Recorded d' \<or>
      fsm_plan retrieval_provider_fsm e a (cfg_deal c) = Entered d'" and l: "live (PStatus d')"
  shows "paid_ok (c\<lparr>queue := q, cfg_deal := d', entered := b\<rparr>)"
proof -
  note row = paid_plan [OF r]
  have funds: "FundsReceived d' = FundsReceived (cfg_deal c)"
    using row e ok by (auto simp: paid_row_def paid_ok_def)
  have "PStatus d' = DealStatusNew \<longrightarrow> FundsReceived (cfg_deal c) = 0"
    using row e ok by (simp add: paid_row_def paid_ok_def)
  moreover have "needs (PStatus (cfg_deal c)) \<longrightarrow> needs (PStatus d')"
    using row e l unfolding paid_row_def by metis
  moreover have "underway (c\<lparr>queue := q, cfg_deal := d', entered := b\<rparr>) = underway c"
    using q e by (simp add: underway_def)
  ultimately show ?thesis
    using ok todo unfolding paid_ok_def by (simp add: funds)
qed

lemma paid_process:
  assumes inv: "paid_inv c" and "\<not> crashed c" and todo: "todo c = []" and q: "queue c = (e, a) # q"
  shows "paid_inv (process (fsm_plan retrieval_provider_fsm e a (cfg_deal c)) q c)"
proof -
  let ?r = "fsm_plan retrieval_provider_fsm e a (cfg_deal c)"
  have acc: "\<not> live (PStatus d') \<or> paid_ok (c\<lparr>queue := q, cfg_deal := d', entered := b\<rparr>)"
    if r: "?r = Recorded d' \<or> ?r = Entered d'" for d' b
  proof (cases "live (PStatus (cfg_deal c))")
    case True
    with inv assms(2) todo have ok: "paid_ok c" by (simp add: paid_inv_def)
    show ?thesis
      using paid_process_pay [OF ok todo q _ r] paid_process_other [OF ok todo q _ r] by blast
  next
    case False
    then have "\<not> pay_event e \<Longrightarrow> ?thesis" using paid_plan [OF r] by (auto simp: paid_row_def)
    moreover have "\<not> pay_event e" using False r paid_dead [of "cfg_deal c" e a] by auto
    ultimately show ?thesis by blast
  qed
  show ?thesis
  proof (cases ?r)
    case Rejected
    with inv assms(2) todo q paid_rejected [of "cfg_deal c" e a] show ?thesis
      by (auto simp: process_def paid_inv_def paid_ok_def underway_def split: if_splits)
  next
    case Crashed
    with inv todo show ?thesis by (simp add: process_def paid_inv_def)
  next
    case (Recorded d')
    with inv todo acc [of d' "entered c"] show ?thesis
      by (auto simp: process_def paid_inv_def paid_ok_def underway_def)
  next
    case (Entered d')
    with inv todo acc [of d' True] show ?thesis by (auto simp: process_def paid_inv_def)
  qed
qed

interpretation rprovider_paid: machine_invariant
  "rprovider_machine (vouchers_add :: 'n rprovider_env \<Rightarrow> bool) fsm_plan (\<lambda>e a. \<not> pay_event e)"
  "paid_inv :: 'n rprovider_cfg \<Rightarrow> bool"
proof
  fix c :: "'n rprovider_cfg" and env :: "'n rprovider_env"
  assume "paid_inv c" "entered c" "todo c = []"
    and "EnvOK (rprovider_machine vouchers_add fsm_plan (\<lambda>e a. \<not> pay_event e)) env"
    and "ConsumeAll (rprovider_machine (vouchers_add :: 'n rprovider_env \<Rightarrow> bool) fsm_plan (\<lambda>e a. \<not> pay_event e)) \<longrightarrow> queue c = []"
  then show "paid_inv (c\<lparr>entered := False,
      todo := Handler (rprovider_machine vouchers_add fsm_plan (\<lambda>e a. \<not> pay_event e)) env (cfg_deal c)\<rparr>)"
    using handler_balanced [of env "cfg_deal c"]
    by (auto simp: rprovider_machine_def paid_inv_def paid_ok_def underway_def balanced_def)
next
  fix c :: "'n rprovider_cfg" and e a
  assume "paid_inv c" "External (rprovider_machine (vouchers_add :: 'n rprovider_env \<Rightarrow> bool) fsm_plan (\<lambda>e a. \<not> pay_event e)) e a"
  then show "paid_inv (c\<lparr>queue := queue c @ [(e, a)]\<rparr>)"
    by (auto simp: rprovider_machine_def paid_inv_def paid_ok_def underway_def)
qed (auto simp: rprovider_machine_def paid_run_step paid_process, auto simp: paid_inv_def)

subsection \<open>A sample deal\<close>

definition psample_params :: Params where
  "psample_params = NewParamsV0 2 100 50"

definition psample_payment :: DealPayment where
  "psample_payment = \<lparr>PaymentID = 9, PaymentChannel = ''paych'', PaymentVoucher = Some ''v''\<rparr>"

definition psample_channel :: "voucher_node channel_state" where
  "psample_channel = \<lparr>ChanID = ''chan'', ChanStatus = DtOther 0, InFinalization = False, Voucher = None,
     LastVoucher = Some (PaymentNode psample_payment), LastVoucherResult = None, Queued = 120,
     ReceivedBytes = 0, ChanMessage = [], Recipient = ''client'', OtherPeer = ''client'', BaseCID = ''payload'',
     ChanSelector = []\<rparr>"

definition psample_env :: "voucher_node rprovider_env" where
  "psample_env = \<lparr>registry = node_registry, PGetChainHead = Inr (''tok'', 5),
     SavePaymentVoucher = (\<lambda>_ _ _. Inr (Some 240)), PrepareBlockstore = (\<lambda>_ _. None),
     DeleteStore = (\<lambda>_. None), ResumeDataTransfer = (\<lambda>_. None), PCloseDataTransfer = (\<lambda>_. None),
     ChannelState = (\<lambda>_. Inr psample_channel), UpdateValidationStatus = (\<lambda>_ _. None)\<rparr>"

definition psample_deal :: ProviderDealState where
  "psample_deal = \<lparr>PProposalOf = \<lparr>PayloadCID = ''payload'', ProposalID = 9, ParamsOf = psample_params\<rparr>,
     PStoreID = 0, PChannelID = None, PieceInfoOf = Some \<lparr>InfoPieceCID = ''piece'', Deals = []\<rparr>,
     PStatus = DealStatusNew, Receiver = ''client'', FundsReceived = 0, PMessage = []\<rparr>"

definition psample_end :: "voucher_node rprovider_cfg" where
  "psample_end = drive 8 (rprovider_machine (\<lambda>_. True) fsm_plan (\<lambda>e a. \<not> pay_event e)) psample_env
     [(ProviderEventDealAccepted, [AChannel ''chan'']), (ProviderEventPaymentRequested, [])]
     (start_cfg psample_deal [(ProviderEventOpen, [])])"

lemma psample_env_adds: "vouchers_add psample_env"
  by (simp add: vouchers_add_def psample_env_def)

text \<open>The scheduler does not look at what is assumed of environments.\<close>

lemma rprovider_sched_with:
  "sched (rprovider_machine p plan ext) env c = sched (rprovider_machine p' plan ext) env c"
  by (simp add: sched_def rprovider_machine_def split: list.split option.split)

lemma rprovider_sched_n_with:
  "sched_n n (rprovider_machine p plan ext) env c = sched_n n (rprovider_machine p' plan ext) env c"
  by (induction n arbitrary: c) (simp_all add: rprovider_sched_with [of p _ _ _ _ p'])

lemma rprovider_drive_with:
  "drive n (rprovider_machine p plan ext) env xs c = drive n (rprovider_machine p' plan ext) env xs c"
  by (induction xs arbitrary: c) (simp_all add: rprovider_sched_n_with [of _ p _ _ _ _ p'] Let_def)

lemma psample_reach:
  "machine_reach (rprovider_machine vouchers_add fsm_plan (\<lambda>e a. \<not> pay_event e))
     (start_cfg psample_deal [(ProviderEventOpen, [])]) psample_end"
  unfolding psample_end_def rprovider_drive_with [of _ "\<lambda>_. True" _ _ _ _ _ vouchers_add]
  by (intro drive_reach machine_reach.start) (simp_all add: rprovider_machine_def psample_env_adds)

lemma psample_end_facts:
  "PStatus (cfg_deal psample_end) = DealStatusOngoing" "todo psample_end = []" "queue psample_end = []"
  "\<not> crashed psample_end"
  by code_simp+

subsection \<open>Theorems\<close>



text \<open>C18. When the provider lets a transfer go on. For a priced transfer that is not in finalization and
  whose unsealing is paid, after a voucher worth \<open>r\<close>, \<open>UpdateFunding\<close> takes the payment as complete
  exactly when the bytes queued are below the data limit of all that is paid, and that limit is the
  one it gives the transfer.\<close>

theorem UpdateFunding_resumes_iff:
  assumes "PChannelID d = Some chid" and "ChannelState env chid = Inr cs" and "\<not> InFinalization cs"
    and "processLastVoucher env cs = (steps, Inr (Some r))" and "0 < PricePerByte (pdeal_params d)"
    and "PaymentInterval (pdeal_params d) \<noteq> 0 \<or> PaymentIntervalIncrease (pdeal_params d) \<noteq> 0"
    and "UnsealPrice (pdeal_params d) \<le> FundsReceived d + r"
    and "2 * unat (Queued cs) + unat (PaymentIntervalIncrease (pdeal_params d)) +
      unat (PaymentInterval (pdeal_params d)) < 2 ^ 64"
    and "2 * ((FundsReceived d + r - UnsealPrice (pdeal_params d)) div PricePerByte (pdeal_params d)) +
      uint (PaymentIntervalIncrease (pdeal_params d)) + uint (PaymentInterval (pdeal_params d)) < 2 ^ 64"
  shows "\<exists>limit. NextInterval (pdeal_params d) (FundsReceived d + r) = Some limit \<and>
    (Trig ProviderEventPaymentReceived [AToken r] \<in> set (UpdateFunding env d) \<longleftrightarrow> Queued cs < limit) \<and>
    (\<exists>res. Call (CUpdateValidationStatus chid res) \<in> set (UpdateFunding env d) \<and>
      Accepted res \<and> DataLimit res = limit)"
proof -
  obtain limit owed where limit: "NextInterval (pdeal_params d) (FundsReceived d + r) = Some limit"
    and owed: "OutstandingBalance (pdeal_params d) (FundsReceived d + r) (Queued cs) False = Some owed"
    and iff: "0 \<le> owed" "owed = 0 \<longleftrightarrow> Queued cs < limit"
    using owed_limit_agree [OF assms(6,5,7-9)] by blast
  have "Trig ProviderEventPaymentReceived [AToken r] \<notin> set steps"
    using processLastVoucher_steps(2) [OF assms(4)] by auto
  moreover have "updateFunding env d cs = (steps @ payment_event d r owed,
      Some (funding_result (registry env) d r owed limit))"
    using assms(3,4) limit owed by (simp add: updateFunding_def)
  moreover obtain rest where "UpdateFunding env d = steps @ payment_event d r owed @
      Call (CUpdateValidationStatus chid (funding_result (registry env) d r owed limit)) # rest"
    and "rest = [] \<or> (\<exists>err. rest = [Trig ProviderEventDataTransferError [AErr err]])"
    using assms(1,2) calculation(2) by (cases "UpdateValidationStatus env chid
      (funding_result (registry env) d r owed limit)") (simp_all add: UpdateFunding_def)
  moreover have "Trig ProviderEventPaymentReceived [AToken r] \<in> set (payment_event d r owed) \<longleftrightarrow> owed = 0"
    using iff(1) by (auto simp: payment_event_def)
  ultimately have "Trig ProviderEventPaymentReceived [AToken r] \<in> set (UpdateFunding env d) \<longleftrightarrow> owed = 0"
    and "Call (CUpdateValidationStatus chid (funding_result (registry env) d r owed limit))
      \<in> set (UpdateFunding env d)" by auto
  with limit iff(2) show ?thesis
    by (intro exI [of _ limit] conjI exI [of _ "funding_result (registry env) d r owed limit"])
      (simp_all add: funding_result_def)
qed

theorem UpdateFunding_resumes_iff_witness:
  "Trig ProviderEventPaymentReceived [AToken 240] \<in>
     set (UpdateFunding psample_env (psample_deal\<lparr>PChannelID := Some ''chan''\<rparr>))"
proof -
  let ?d = "psample_deal\<lparr>PChannelID := Some ''chan''\<rparr>"
  have steps: "processLastVoucher psample_env psample_channel =
      ([Call (CSavePaymentVoucher ''paych'' (Some ''v'') (Some 240))], Inr (Some 240))"
    by (simp add: processLastVoucher_def savePayment_def psample_env_def psample_channel_def
        DealPaymentFromNode_def node_registry_def psample_payment_def)
  have cs: "ChannelState psample_env ''chan'' = Inr psample_channel" by (simp add: psample_env_def)
  have fin: "\<not> InFinalization psample_channel" and queued: "Queued psample_channel = 120"
    by (simp_all add: psample_channel_def)
  have params: "pdeal_params ?d = psample_params" "PricePerByte psample_params = 2"
    "PaymentInterval psample_params = 100" "PaymentIntervalIncrease psample_params = 50"
    "UnsealPrice psample_params = 0" "FundsReceived ?d = 0"
    by (simp_all add: psample_deal_def psample_params_def NewParamsV0_def)
  have limit: "NextInterval psample_params 240 = Some 250" by code_simp
  have "\<exists>limit. NextInterval (pdeal_params ?d) (FundsReceived ?d + 240) = Some limit \<and>
    (Trig ProviderEventPaymentReceived [AToken 240] \<in> set (UpdateFunding psample_env ?d) \<longleftrightarrow>
       Queued psample_channel < limit) \<and>
    (\<exists>res. Call (CUpdateValidationStatus ''chan'' res) \<in> set (UpdateFunding psample_env ?d) \<and>
      Accepted res \<and> DataLimit res = limit)"
    by (rule UpdateFunding_resumes_iff [OF _ cs fin steps]) (simp_all only: params queued, simp_all)
  then show ?thesis by (auto simp only: params limit queued) (simp_all add: limit)
qed

fun funding_event :: "ProviderEvent \<times> DealStatus fsm_arg list \<Rightarrow> bool" where
  "funding_event (ProviderEventDataTransferError, [AErr err]) = True"
| "funding_event (ProviderEventSaveVoucherFailed, [AErr err]) = True"
| "funding_event (ProviderEventPartialPaymentReceived, [AToken r]) = True"
| "funding_event (ProviderEventPaymentReceived, [AToken r]) = True"
| "funding_event _ = False"

lemma updateFunding_events:
  assumes "updateFunding env d cs = (steps, res)"
  shows "list_all funding_event (strigs steps)"
proof (cases "processLastVoucher env cs")
  case (Pair st r)
  have pe: "list_all funding_event (strigs (payment_event d x owed))" for x owed
    by (simp add: payment_event_def)
  show ?thesis
  proof (cases r)
    case (Inl err)
    with Pair assms processLastVoucher_steps(1) [of env cs st err] show ?thesis
      by (auto simp: updateFunding_def)
  next
    case (Inr x)
    with Pair processLastVoucher_steps(2) [of env cs st x] have "strigs st = []" by auto
    with Pair Inr assms pe show ?thesis
      by (auto simp: updateFunding_def Let_def split: option.splits)
  qed
qed

lemma UpdateFunding_events: "list_all funding_event (strigs (UpdateFunding env d))"
proof (cases "PChannelID d")
  case (Some chid)
  show ?thesis
  proof (cases "ChannelState env chid")
    case (Inr cs)
    obtain steps res where u: "updateFunding env d cs = (steps, res)" by (cases "updateFunding env d cs")
    from updateFunding_events [OF u] Some Inr u show ?thesis
      by (auto simp: UpdateFunding_def split: option.split)
  qed (simp add: UpdateFunding_def Some)
qed (simp add: UpdateFunding_def)

lemma funding_event_kept:
  assumes "needs (PStatus d)" and "funding_event (e, a)"
  shows "fsm_plan retrieval_provider_fsm e a d \<noteq> Rejected"
  using assms
  by (cases "(e, a)" rule: funding_event.cases; cases "PStatus d")
    (simp_all add: fsm_plan_Rejected rprovider_table_defs transition_def recordError_def)

definition pevent_kept :: "ProviderEvent \<Rightarrow> DealStatus fsm_arg list \<Rightarrow> ProviderDealState \<Rightarrow> bool" where
  "pevent_kept e a d \<longleftrightarrow> fsm_plan retrieval_provider_fsm e a d \<noteq> Rejected"

lemma other_events_kept:
  assumes "\<not> needs (PStatus d)" and "(e, a) \<in> set (strigs (rprovider_handler env d))"
  shows "pevent_kept e a d"
  using assms
  by (cases "PStatus d")
    (auto simp: rprovider_handler_def ProviderStateEntryFuncs_def UnsealData_def UnpauseDeal_def
      CancelDeal_def CleanupDeal_def split: option.splits if_splits,
     simp_all add: pevent_kept_def fsm_plan_Rejected rprovider_table_defs transition_def
      recordError_def no_action_def)

text \<open>The handlers and the table of the retrieval provider agree: every event that a handler sends
  to its own deal is accepted in the state the handler runs in.\<close>

theorem rprovider_no_lost_event:
  assumes "(e, a) \<in> set (strigs (rprovider_handler env d))"
  shows "fsm_plan retrieval_provider_fsm e a d \<noteq> Rejected"
proof (cases "needs (PStatus d)")
  case True
  then have "rprovider_handler env d = UpdateFunding env d"
    by (cases "PStatus d") (simp_all add: rprovider_handler_def ProviderStateEntryFuncs_def)
  with assms UpdateFunding_events [of env d] have "funding_event (e, a)" by (auto simp: list_all_iff)
  with True show ?thesis by (rule funding_event_kept)
next
  case False
  from other_events_kept [OF this assms] show ?thesis by (simp add: pevent_kept_def)
qed

theorem rprovider_no_lost_event_witness:
  "fsm_plan retrieval_provider_fsm ProviderEventUnsealComplete []
     (psample_deal\<lparr>PStatus := DealStatusUnsealing\<rparr>) \<noteq> Rejected"
  using rprovider_no_lost_event [of ProviderEventUnsealComplete "[]" psample_env "psample_deal\<lparr>PStatus := DealStatusUnsealing\<rparr>"]
  by (simp add: rprovider_handler_def ProviderStateEntryFuncs_def UnsealData_def psample_env_def psample_deal_def)

end
