(* ===== verification/Retrieval_Pieces.thy ===== *)
theory Retrieval_Pieces
  imports Retrieval_Types
begin

section \<open>Retrieval provider: finding the piece of a payload\<close>

text \<open>
  \<open>retrievalmarket/impl/provider_pieces.go\<close>. The DAG store, the piece store, the sectors and the
  CID and IPLD modules are the record \<open>pieces_env\<close>. Decoding an identity CID may meet identity CIDs
  in turn; the recursion has fuel, and \<open>None\<close> is what is left when the fuel runs out. A CID that is
  contained in another's bytes is shorter (locale \<open>identity_cids\<close>), so that the length of the CID is
  fuel enough.
\<close>

record pieces_env =
  GetPiecesContainingBlock :: "cid \<Rightarrow> go_error + cid list"
  LookupPieceInfo :: "cid \<Rightarrow> go_error + PieceInfo"
  IsUnsealed :: "uint64 \<Rightarrow> uint64 \<Rightarrow> uint64 \<Rightarrow> go_error + bool"
  Unpadded :: "uint64 \<Rightarrow> uint64"
  IsIdentity :: "cid \<Rightarrow> bool"
  HashLen :: "cid \<Rightarrow> nat"
  DecoderChooser :: "cid \<Rightarrow> go_error option"
  MultihashDecode :: "cid \<Rightarrow> go_error + string"
  IpldDecode :: "cid \<Rightarrow> string \<Rightarrow> go_error + string"
  SelectLinks :: "string \<Rightarrow> go_error + cid list"

definition MaxIdentityCIDBytes :: nat where
  "MaxIdentityCIDBytes = 2048"

definition MaxIdentityCIDLinks :: nat where
  "MaxIdentityCIDLinks = 32"

subsection \<open>Identity CIDs\<close>

definition decode_identity :: "pieces_env \<Rightarrow> cid \<Rightarrow> go_error + cid list" where
  "decode_identity env c = (case DecoderChooser env c of
     Some err \<Rightarrow> Inl (Wrap (''choosing decoder for identity CID '' @ c @ '': '') err)
   | None \<Rightarrow> on_err (MultihashDecode env c)
       (\<lambda>err. Inl (Wrap (''decoding identity CID multihash '' @ c @ '': '') err))
       (\<lambda>digest. on_err (IpldDecode env c digest)
          (\<lambda>err. Inl (Wrap (''decoding identity CID '' @ c @ '': '') err))
          (\<lambda>node. on_err (SelectLinks env node)
             (\<lambda>err. Inl (Wrap (''collecting links from identity CID '' @ c @ '': '') err))
             Inr)))"

definition add_new :: "cid list \<Rightarrow> cid \<Rightarrow> cid list" where
  "add_new resultCids c = (if c \<in> set resultCids then resultCids else resultCids @ [c])"

fun collect_links ::
  "pieces_env \<Rightarrow> (cid \<Rightarrow> (go_error + cid list) option) \<Rightarrow> cid list \<Rightarrow> cid list \<Rightarrow>
   (go_error + cid list) option" where
  "collect_links env nested [] resultCids = Some (Inr resultCids)"
| "collect_links env nested (l # links) resultCids =
     (if IsIdentity env l
      then (case nested l of
          None \<Rightarrow> None
        | Some (Inl err) \<Rightarrow> Some (Inl err)
        | Some (Inr cids) \<Rightarrow> collect_links env nested links (foldl add_new resultCids cids))
      else collect_links env nested links (add_new resultCids l))"

fun links_fuel :: "nat \<Rightarrow> pieces_env \<Rightarrow> cid \<Rightarrow> (go_error + cid list) option" where
  "links_fuel 0 env c = None"
| "links_fuel (Suc n) env c =
     (if \<not> IsIdentity env c then Some (Inr [])
      else if HashLen env c > MaxIdentityCIDBytes
      then Some (Inl (New (''refusing to decode too-long identity CID ('' @ show_nat (HashLen env c) @ '' bytes)'')))
      else on_err (decode_identity env c)
        (\<lambda>err. Some (Inl err))
        (\<lambda>links. case collect_links env (links_fuel n env) links [] of
           None \<Rightarrow> None
         | Some (Inl err) \<Rightarrow> Some (Inl err)
         | Some (Inr resultCids) \<Rightarrow>
             if length resultCids > MaxIdentityCIDLinks
             then Some (Inl (New (''refusing to process identity CID with too many links ('' @
               show_nat (length resultCids) @ '')'')))
             else Some (Inr resultCids)))"

definition linksFromIdentityCid :: "pieces_env \<Rightarrow> cid \<Rightarrow> (go_error + cid list) option" where
  "linksFromIdentityCid env c = links_fuel (Suc (HashLen env c)) env c"

subsection \<open>Pieces of a payload\<close>

definition intersect_pieces :: "cid list \<Rightarrow> cid list \<Rightarrow> cid list" where
  "intersect_pieces piecesWithThisCid pieces = filter (\<lambda>cj. cj \<in> set pieces) piecesWithThisCid"

text \<open>The loop over the links: \<open>first\<close> is \<open>i == 0\<close>; it is left when no piece remains.\<close>

fun common_loop :: "pieces_env \<Rightarrow> bool \<Rightarrow> cid list \<Rightarrow> cid list \<Rightarrow> go_error + cid list" where
  "common_loop env first pieces [] = Inr pieces"
| "common_loop env first pieces (link # links) = on_err (GetPiecesContainingBlock env link)
     (\<lambda>err. Inl (Wrap (''getting pieces for identity CID sub-link '' @ link @ '': '') err))
     (\<lambda>piecesWithThisCid.
        if piecesWithThisCid = [] then Inl (New (''no pieces for identity CID sub-link '' @ link))
        else let pieces' = (if first then piecesWithThisCid else intersect_pieces piecesWithThisCid pieces)
          in if pieces' = [] then Inr [] else common_loop env False pieces' links)"

definition getCommonPiecesFromIdentityCidLinks :: "pieces_env \<Rightarrow> cid \<Rightarrow> (go_error + cid list) option" where
  "getCommonPiecesFromIdentityCidLinks env payloadCID = (case linksFromIdentityCid env payloadCID of
     None \<Rightarrow> None
   | Some (Inl err) \<Rightarrow> Some (Inl err)
   | Some (Inr links) \<Rightarrow> Some (if links = [] then Inr [] else common_loop env True [] links))"

text \<open>Pieces that cannot be read are skipped; the last error is returned beside the others.\<close>

fun piece_infos :: "pieces_env \<Rightarrow> cid list \<Rightarrow> PieceInfo list \<Rightarrow> go_error option \<Rightarrow>
    PieceInfo list \<times> go_error option" where
  "piece_infos env [] pieces lastErr = (pieces, lastErr)"
| "piece_infos env (c # cs) pieces lastErr = on_err (LookupPieceInfo env c)
     (\<lambda>err. piece_infos env cs pieces (Some err))
     (\<lambda>pieceInfo. piece_infos env cs (pieces @ [pieceInfo]) lastErr)"

definition getAllPieceInfoForPayload ::
  "pieces_env \<Rightarrow> cid \<Rightarrow> (PieceInfo list \<times> go_error option) option" where
  "getAllPieceInfoForPayload env payloadCID = on_err (GetPiecesContainingBlock env payloadCID)
     (\<lambda>err. case getCommonPiecesFromIdentityCidLinks env payloadCID of
        None \<Rightarrow> None
      | Some (Inl idErr) \<Rightarrow> Some ([], Some idErr)
      | Some (Inr pieces) \<Rightarrow> Some (
          if pieces = [] then ([], Some (Wrap (''getting pieces for cid '' @ payloadCID @ '': '') err))
          else piece_infos env pieces [] None))
     (\<lambda>pieces. Some (piece_infos env pieces [] None))"

subsection \<open>Choosing a piece\<close>

fun unsealed_loop :: "pieces_env \<Rightarrow> DealInfo list \<Rightarrow> bool" where
  "unsealed_loop env [] = False"
| "unsealed_loop env (di # dis) =
     on_err (IsUnsealed env (SectorID di) (Unpadded env (Offset di)) (Unpadded env (Length di)))
       (\<lambda>err. unsealed_loop env dis)
       (\<lambda>isUnsealed. if isUnsealed then True else unsealed_loop env dis)"

definition pieceInUnsealedSector :: "pieces_env \<Rightarrow> PieceInfo \<Rightarrow> bool" where
  "pieceInUnsealedSector env pieceInfo = unsealed_loop env (Deals pieceInfo)"

fun dealsFromPieces :: "PieceInfo list \<Rightarrow> uint64 list" where
  "dealsFromPieces [] = []"
| "dealsFromPieces (pieceInfo # pieces) = map InfoDealID (Deals pieceInfo) @ dealsFromPieces pieces"

definition getStorageDealsForPiece :: "bool \<Rightarrow> PieceInfo list \<Rightarrow> PieceInfo \<Rightarrow> uint64 list" where
  "getStorageDealsForPiece clientSpecificPiece pieces pieceInfo =
     (if clientSpecificPiece then map InfoDealID (Deals pieceInfo) else dealsFromPieces pieces)"

text \<open>\<open>sealed\<close> is the piece at the index \<open>sealedPieceInfo\<close>, once it is set.\<close>

fun best_loop :: "pieces_env \<Rightarrow> cid \<Rightarrow> PieceInfo option \<Rightarrow> PieceInfo list \<Rightarrow> PieceInfo \<times> bool" where
  "best_loop env clientPieceCID sealed [] =
     (case sealed of Some p \<Rightarrow> (p, False) | None \<Rightarrow> (PieceInfoUndefined, False))"
| "best_loop env clientPieceCID sealed (pieceInfo # pieces) =
     (if clientPieceCID \<noteq> cid_Undef
      then if InfoPieceCID pieceInfo = clientPieceCID
        then (pieceInfo, pieceInUnsealedSector env pieceInfo)
        else best_loop env clientPieceCID sealed pieces
      else if pieceInUnsealedSector env pieceInfo then (pieceInfo, True)
      else best_loop env clientPieceCID (case sealed of None \<Rightarrow> Some pieceInfo | Some p \<Rightarrow> Some p) pieces)"

definition getBestPieceInfoMatch :: "pieces_env \<Rightarrow> PieceInfo list \<Rightarrow> cid \<Rightarrow> PieceInfo \<times> bool" where
  "getBestPieceInfoMatch env pieces clientPieceCID = best_loop env clientPieceCID None pieces"

subsection \<open>Identity CIDs: the recursion ends\<close>

text \<open>
  What the code relies on of the CID and IPLD modules: the digest of an identity CID holds the bytes
  of the links it encodes, so that a link is shorter than the CID it is part of.
\<close>

definition identity_cids :: "pieces_env \<Rightarrow> bool" where
  "identity_cids env \<longleftrightarrow> (\<forall>c links. decode_identity env c = Inr links \<longrightarrow>
     (\<forall>l \<in> set links. IsIdentity env l \<longrightarrow> HashLen env l < HashLen env c))"

lemma identity_cidsD:
  "identity_cids env \<Longrightarrow> decode_identity env c = Inr links \<Longrightarrow> l \<in> set links \<Longrightarrow> IsIdentity env l \<Longrightarrow>
     HashLen env l < HashLen env c"
  unfolding identity_cids_def by blast

lemma collect_links_returns:
  "\<forall>l \<in> set links. IsIdentity env l \<longrightarrow> nested l \<noteq> None \<Longrightarrow> collect_links env nested links acc \<noteq> None"
proof (induction links arbitrary: acc)
  case (Cons l links)
  then have rest: "collect_links env nested links acc' \<noteq> None" for acc' by simp
  show ?case
  proof (cases "IsIdentity env l")
    case True
    with Cons.prems obtain r where "nested l = Some r" by auto
    with True show ?thesis by (cases r) (simp_all add: rest)
  qed (simp add: rest)
qed simp

lemma links_fuel_returns:
  assumes env: "identity_cids env"
  shows "HashLen env c < n \<Longrightarrow> links_fuel n env c \<noteq> None"
proof (induction n arbitrary: c)
  case (Suc n)
  show ?case
  proof (cases "decode_identity env c")
    case (Inr links)
    have "links_fuel n env l \<noteq> None" if "l \<in> set links" "IsIdentity env l" for l
      using Suc.IH [of l] Suc.prems identity_cidsD [OF env Inr that] by simp
    then have "collect_links env (links_fuel n env) links [] \<noteq> None"
      by (intro collect_links_returns) simp
    with Inr show ?thesis by (auto split: option.split sum.split)
  qed simp
qed simp

lemma foldl_add_new: "distinct acc \<Longrightarrow> distinct (foldl add_new acc xs)"
  and set_foldl_add_new: "set (foldl add_new acc xs) = set acc \<union> set xs"
  by (induction xs arbitrary: acc) (auto simp: add_new_def)

text \<open>What is collected is distinct and holds no identity CID.\<close>

lemma collect_links_plain:
  assumes "\<forall>l cs. nested l = Some (Inr cs) \<longrightarrow> (\<forall>x \<in> set cs. \<not> IsIdentity env x)"
  shows "collect_links env nested links acc = Some (Inr res) \<Longrightarrow> distinct acc \<Longrightarrow>
    (\<forall>x \<in> set acc. \<not> IsIdentity env x) \<Longrightarrow> distinct res \<and> (\<forall>x \<in> set res. \<not> IsIdentity env x)"
proof (induction links arbitrary: acc)
  case (Cons l links)
  show ?case
  proof (cases "IsIdentity env l")
    case True
    with Cons.prems(1) obtain cs where cs: "nested l = Some (Inr cs)"
      and rest: "collect_links env nested links (foldl add_new acc cs) = Some (Inr res)"
      by (auto split: option.splits sum.splits)
    have "distinct (foldl add_new acc cs)" by (rule foldl_add_new) (rule Cons.prems(2))
    moreover have "\<forall>x \<in> set (foldl add_new acc cs). \<not> IsIdentity env x"
      using Cons.prems(3) cs assms unfolding set_foldl_add_new by blast
    ultimately show ?thesis by (rule Cons.IH [OF rest])
  next
    case False
    with Cons.prems(1) have rest: "collect_links env nested links (add_new acc l) = Some (Inr res)" by simp
    show ?thesis
      by (rule Cons.IH [OF rest]) (use False Cons.prems(2,3) in \<open>simp_all add: add_new_def\<close>)
  qed
qed simp

lemma links_fuel_plain:
  "links_fuel n env c = Some (Inr cs) \<Longrightarrow>
     distinct cs \<and> (\<forall>x \<in> set cs. \<not> IsIdentity env x) \<and> length cs \<le> MaxIdentityCIDLinks"
proof (induction n arbitrary: c cs)
  case (Suc n)
  show ?case
  proof (cases "IsIdentity env c")
    case True
    with Suc.prems obtain links where
      "collect_links env (links_fuel n env) links [] = Some (Inr cs)" and len: "length cs \<le> MaxIdentityCIDLinks"
      by (auto split: if_splits on_err_splits option.splits sum.splits)
    then have "distinct cs \<and> (\<forall>x \<in> set cs. \<not> IsIdentity env x)"
      using collect_links_plain [of "links_fuel n env" env links "[]" cs] Suc.IH by simp
    with len show ?thesis by simp
  qed (use Suc.prems in simp)
qed simp

subsection \<open>The common pieces are the intersection\<close>

lemma set_intersect_pieces [simp]: "set (intersect_pieces ps qs) = set ps \<inter> set qs"
  by (auto simp: intersect_pieces_def)

lemma common_loop_intersection:
  assumes "\<forall>l \<in> set links. \<exists>ps. GetPiecesContainingBlock env l = Inr ps \<and> ps \<noteq> []"
  shows "\<exists>res. common_loop env first pieces links = Inr res \<and>
    (links = [] \<longrightarrow> res = pieces) \<and>
    (links \<noteq> [] \<longrightarrow> set res = (if first then UNIV else set pieces) \<inter>
       (\<Inter>l \<in> set links. {p. \<exists>ps. GetPiecesContainingBlock env l = Inr ps \<and> p \<in> set ps}))"
  using assms
proof (induction links arbitrary: first pieces)
  case (Cons l links)
  then obtain ps where ps: "GetPiecesContainingBlock env l = Inr ps" "ps \<noteq> []" by auto
  define here where "here = (if first then ps else intersect_pieces ps pieces)"
  have here: "set here = (if first then UNIV else set pieces) \<inter> set ps"
    by (auto simp: here_def)
  show ?case
  proof (cases "here = []")
    case True
    with ps have "common_loop env first pieces (l # links) = Inr []" by (simp add: here_def)
    with True ps here show ?thesis by auto
  next
    case False
    with ps have eq: "common_loop env first pieces (l # links) = common_loop env False here links"
      by (simp add: here_def)
    from Cons.IH [of False here] Cons.prems obtain res where
      "common_loop env False here links = Inr res" "links = [] \<longrightarrow> res = here"
      "links \<noteq> [] \<longrightarrow> set res = set here \<inter>
        (\<Inter>l \<in> set links. {p. \<exists>ps. GetPiecesContainingBlock env l = Inr ps \<and> p \<in> set ps})"
      by auto
    with eq here ps show ?thesis by (cases "links = []") auto
  qed
qed simp

lemma unsealed_loop_iff:
  "unsealed_loop env dis \<longleftrightarrow> (\<exists>di \<in> set dis.
     IsUnsealed env (SectorID di) (Unpadded env (Offset di)) (Unpadded env (Length di)) = Inr True)"
  by (induction dis) (auto split: on_err_splits)

lemma best_loop_specific:
  "clientPieceCID \<noteq> cid_Undef \<Longrightarrow> best_loop env clientPieceCID None pieces =
     (case find (\<lambda>p. InfoPieceCID p = clientPieceCID) pieces of
        Some p \<Rightarrow> (p, pieceInUnsealedSector env p) | None \<Rightarrow> (PieceInfoUndefined, False))"
  by (induction pieces) auto

lemma best_loop_any:
  "best_loop env cid_Undef sealed pieces =
     (case find (pieceInUnsealedSector env) pieces of
        Some p \<Rightarrow> (p, True)
      | None \<Rightarrow> (case sealed of Some p \<Rightarrow> (p, False)
          | None \<Rightarrow> (case pieces of [] \<Rightarrow> (PieceInfoUndefined, False) | p # _ \<Rightarrow> (p, False))))"
  by (induction pieces arbitrary: sealed) (auto split: option.split)

subsection \<open>Properties\<close>

text \<open>
  C22. Whatever payload CID a client asks for, the recursive decoding of identity CIDs returns, and
  when it returns links they are distinct, none of them is an identity CID, and they are at most 32
  (\<open>MaxIdentityCIDLinks\<close>), given that a CID inside an identity CID is shorter than it.
\<close>
theorem linksFromIdentityCid_returns:
  assumes "identity_cids env"
  shows "\<exists>r. linksFromIdentityCid env c = Some r \<and>
    (\<forall>cs. r = Inr cs \<longrightarrow> distinct cs \<and> (\<forall>x \<in> set cs. \<not> IsIdentity env x) \<and> length cs \<le> 32)"
proof -
  obtain r where r: "linksFromIdentityCid env c = Some r"
    using links_fuel_returns [OF assms, of c "Suc (HashLen env c)"]
    unfolding linksFromIdentityCid_def by (metis lessI option.exhaust)
  have "distinct cs \<and> (\<forall>x \<in> set cs. \<not> IsIdentity env x) \<and> length cs \<le> 32" if "r = Inr cs" for cs
    using links_fuel_plain [of "Suc (HashLen env c)" env c cs] r that
    unfolding linksFromIdentityCid_def MaxIdentityCIDLinks_def by blast
  with r show ?thesis by blast
qed

definition sample_pieces_env :: pieces_env where
  "sample_pieces_env = \<lparr>
     GetPiecesContainingBlock = (\<lambda>c. if c = ''a'' then Inr [''p1'', ''p2''] else if c = ''b'' then Inr [''p2'', ''p3'']
       else Inl (New ''not found'')),
     LookupPieceInfo = (\<lambda>c. Inr \<lparr> InfoPieceCID = c, Deals = [] \<rparr>),
     IsUnsealed = (\<lambda>sector off len. Inr (sector = 1)),
     Unpadded = (\<lambda>n. n - n div 128),
     IsIdentity = (\<lambda>c. c \<noteq> [] \<and> hd c = CHR ''i''),
     HashLen = length,
     DecoderChooser = (\<lambda>c. None),
     MultihashDecode = (\<lambda>c. Inr (tl c)),
     IpldDecode = (\<lambda>c digest. Inr digest),
     SelectLinks = (\<lambda>node. case node of [] \<Rightarrow> Inr [] | x # xs \<Rightarrow> if x = CHR ''i'' then Inr [node, ''b''] else Inr [[x]]) \<rparr>"

lemma sample_identity_cids: "identity_cids sample_pieces_env"
proof -
  have "length l < length c" if "decode_identity sample_pieces_env c = Inr links" "l \<in> set links"
    "l \<noteq> [] \<and> hd l = CHR ''i''" for c links l
  proof (cases c)
    case Nil
    with that show ?thesis by (simp add: decode_identity_def sample_pieces_env_def)
  next
    case (Cons a c')
    with that show ?thesis
      by (cases c') (auto simp: decode_identity_def sample_pieces_env_def split: if_splits)
  qed
  then show ?thesis unfolding identity_cids_def by (simp add: sample_pieces_env_def)
qed

theorem linksFromIdentityCid_returns_witness:
  "linksFromIdentityCid sample_pieces_env ''iia'' = Some (Inr [''a'', ''b'']) \<and>
   length [''a'', ''b''] \<le> 32 \<and> \<not> IsIdentity sample_pieces_env ''b''"
proof -
  have run: "linksFromIdentityCid sample_pieces_env ''iia'' = Some (Inr [''a'', ''b''])" by code_simp
  from linksFromIdentityCid_returns [OF sample_identity_cids, of "''iia''", unfolded run]
  have "\<not> IsIdentity sample_pieces_env ''b''" "length [''a'', ''b''] \<le> 32" by simp_all
  with run show ?thesis by blast
qed

text \<open>
  For an identity CID whose links can all be looked up, the pieces offered are exactly those that
  contain every link: the incremental intersection of the loop, with its early exit, computes the
  intersection of the piece sets of all the links.
\<close>
theorem getCommonPieces_intersection:
  assumes "linksFromIdentityCid env c = Some (Inr links)" and "links \<noteq> []"
    and "\<forall>l \<in> set links. \<exists>ps. GetPiecesContainingBlock env l = Inr ps \<and> ps \<noteq> []"
  shows "\<exists>pieces. getCommonPiecesFromIdentityCidLinks env c = Some (Inr pieces) \<and>
    (\<forall>p. p \<in> set pieces \<longleftrightarrow> (\<forall>l \<in> set links. \<exists>ps. GetPiecesContainingBlock env l = Inr ps \<and> p \<in> set ps))"
  using common_loop_intersection [OF assms(3), of True "[]"] assms(1,2)
  by (auto simp: getCommonPiecesFromIdentityCidLinks_def)

theorem getCommonPieces_intersection_witness:
  "getCommonPiecesFromIdentityCidLinks sample_pieces_env ''iia'' = Some (Inr [''p2'']) \<and>
   (\<exists>ps. GetPiecesContainingBlock sample_pieces_env ''b'' = Inr ps \<and> ''p2'' \<in> set ps)"
proof -
  have links: "linksFromIdentityCid sample_pieces_env ''iia'' = Some (Inr [''a'', ''b''])" by code_simp
  have run: "getCommonPiecesFromIdentityCidLinks sample_pieces_env ''iia'' = Some (Inr [''p2''])" by code_simp
  have all: "\<forall>l \<in> set [''a'', ''b'']. \<exists>ps. GetPiecesContainingBlock sample_pieces_env l = Inr ps \<and> ps \<noteq> []"
    by (simp add: sample_pieces_env_def)
  from getCommonPieces_intersection [OF links _ all] obtain pieces where
    "getCommonPiecesFromIdentityCidLinks sample_pieces_env ''iia'' = Some (Inr pieces)" and
    iff: "\<forall>p. p \<in> set pieces \<longleftrightarrow> (\<forall>l \<in> set [''a'', ''b''].
      \<exists>ps. GetPiecesContainingBlock sample_pieces_env l = Inr ps \<and> p \<in> set ps)" by blast
  with run have "\<forall>l \<in> set [''a'', ''b'']. \<exists>ps. GetPiecesContainingBlock sample_pieces_env l = Inr ps \<and> ''p2'' \<in> set ps"
    by (intro iff [rule_format, THEN iffD1]) simp_all
  then have "\<exists>ps. GetPiecesContainingBlock sample_pieces_env ''b'' = Inr ps \<and> ''p2'' \<in> set ps"
    by (rule bspec) simp
  with run show ?thesis by blast
qed

text \<open>
  The piece a retrieval is served from: with a piece CID in the request, that piece if it is among
  the candidates and otherwise none at all; without one, the first candidate with an unsealed sector,
  else the first candidate, else none. The flag says whether the piece returned has a deal whose
  sector the sector accessor reports as unsealed (an error of the accessor counts as sealed).
\<close>
theorem getBestPieceInfoMatch_correct:
  "getBestPieceInfoMatch env pieces clientPieceCID =
    (if clientPieceCID \<noteq> cid_Undef
     then (case find (\<lambda>p. InfoPieceCID p = clientPieceCID) pieces of
         Some p \<Rightarrow> (p, pieceInUnsealedSector env p) | None \<Rightarrow> (PieceInfoUndefined, False))
     else (case find (pieceInUnsealedSector env) pieces of
         Some p \<Rightarrow> (p, True)
       | None \<Rightarrow> (case pieces of [] \<Rightarrow> (PieceInfoUndefined, False) | p # _ \<Rightarrow> (p, False))))
   \<and> (pieceInUnsealedSector env p \<longleftrightarrow> (\<exists>di \<in> set (Deals p).
        IsUnsealed env (SectorID di) (Unpadded env (Offset di)) (Unpadded env (Length di)) = Inr True))"
  by (simp add: getBestPieceInfoMatch_def best_loop_specific best_loop_any pieceInUnsealedSector_def
      unsealed_loop_iff cong: option.case_cong)

end
