(* ===== verification/Retrieval_Validation.thy ===== *)
theory Retrieval_Validation
  imports Retrieval_Pieces Retrieval_Transfer
begin

section \<open>Retrieval provider: queries and the validation of deals\<close>

text \<open>
  What a retrieval provider answers a query with (\<open>impl/provider.go\<close>: \<open>HandleQueryStream\<close>,
  \<open>GetDynamicAsk\<close>, \<open>DefaultPricingFunc\<close>), what a proposal is checked against
  (\<open>impl/provider_environments.go\<close>: \<open>providerValidationEnvironment\<close>) and the validator of incoming
  transfer requests (\<open>impl/requestvalidation/requestvalidation.go\<close>). The provider with the modules it
  calls is the record \<open>retrieval_provider\<close>; \<open>CurrAsk\<close> is the answer of the ask store. What a
  request does to the state machines is the list of \<open>validation_call\<close>s.
\<close>

record 'n retrieval_provider =
  piecesOf :: pieces_env
  CurrAsk :: "Ask option"
  GetRetrievalPricingInput :: "cid \<Rightarrow> uint64 list \<Rightarrow> go_error + PricingInput"
  retrievalPricingFunc :: "PricingInput \<Rightarrow> go_error + Ask"
  dealDecider :: "(ProviderDealState \<Rightarrow> go_error + bool \<times> string) option"
  BeginMachine :: "ProviderDealIdentifier \<Rightarrow> ProviderDealState \<Rightarrow> go_error option"
  SendMachine :: "ProviderDealIdentifier \<Rightarrow> ProviderEvent \<Rightarrow> go_error option"
  GetSync :: "ProviderDealIdentifier \<Rightarrow> go_error + ProviderDealState"
  nodes :: "'n bindnode_registry"
  allSelector :: string
  ErrRejected :: go_error
  QGetChainHead :: "go_error + tipset_token \<times> chain_epoch"
  QGetMinerWorkerAddress :: "address \<Rightarrow> tipset_token \<Rightarrow> go_error + address"
  minerAddress :: address

subsection \<open>Prices\<close>

definition GetDynamicAsk :: "'n retrieval_provider \<Rightarrow> PricingInput \<Rightarrow> uint64 list \<Rightarrow> go_error + Ask" where
  "GetDynamicAsk p input storageDeals =
     on_err (GetRetrievalPricingInput p (InputPieceCID input) storageDeals)
       (\<lambda>err. Inl (New (''GetRetrievalPricingInput: '' @ Error err)))
       (\<lambda>dp. case CurrAsk p of
          None \<Rightarrow> Inl (New ''no ask configured in ask-store'')
        | Some currAsk \<Rightarrow> on_err (retrievalPricingFunc p (dp\<lparr>InputPayloadCID := InputPayloadCID input,
              InputPieceCID := InputPieceCID input, Unsealed := Unsealed input,
              InputClient := InputClient input, CurrentAsk := currAsk\<rparr>))
            (\<lambda>err. Inl (Wrap ''retrievalPricingFunc: '' err)) Inr)"

definition DefaultPricingFunc :: "bool \<Rightarrow> PricingInput \<Rightarrow> go_error + Ask" where
  "DefaultPricingFunc VerifiedDealsFreeTransfer pricingInput =
     (let ask = CurrentAsk pricingInput;
          ask1 = (if Unsealed pricingInput then ask\<lparr>AskUnsealPrice := Some 0\<rparr> else ask)
      in Inr (if VerifiedDeal pricingInput \<and> VerifiedDealsFreeTransfer
        then ask1\<lparr>AskPricePerByte := 0\<rparr> else ask1))"

text \<open>The fields of a \<open>PricingInput\<close> that its maker leaves at their zero values are overwritten from
  what the node answers.\<close>

definition pricing_input :: "cid \<Rightarrow> cid \<Rightarrow> bool \<Rightarrow> peer_id \<Rightarrow> PricingInput" where
  "pricing_input pieceCID payloadCID unsealed client = \<lparr>InputPayloadCID = payloadCID,
     InputPieceCID = pieceCID, InputPieceSize = 0, InputClient = client, VerifiedDeal = False,
     Unsealed = unsealed, CurrentAsk = \<lparr>AskPricePerByte = 0, AskUnsealPrice = None,
       AskPaymentInterval = 0, AskPaymentIntervalIncrease = 0\<rparr>\<rparr>"

subsection \<open>The validation environment\<close>

definition pve_GetAsk ::
  "'n retrieval_provider \<Rightarrow> cid \<Rightarrow> cid option \<Rightarrow> PieceInfo \<Rightarrow> bool \<Rightarrow> peer_id \<Rightarrow> (go_error + Ask) go_run" where
  "pve_GetAsk p payloadCid pieceCid piece isUnsealed client =
     run_bind (run_opt (getAllPieceInfoForPayload (piecesOf p) payloadCid)) (\<lambda>(pieces, piecesErr).
       let storageDeals = getStorageDealsForPiece (pieceCid \<noteq> None) pieces piece
       in Returns (
         if storageDeals = [] then Inl (case piecesErr of
             Some err \<Rightarrow> Wrap (''failed to fetch deals for payload ['' @ payloadCid @ '']: '') err
           | None \<Rightarrow> New (''no storage deals found for payload ['' @ payloadCid @ '']''))
         else GetDynamicAsk p (pricing_input (InfoPieceCID piece) payloadCid isUnsealed client) storageDeals))"

text \<open>When no piece is found and none was asked for, the text of the error reads a nil CID.\<close>

definition pve_GetPiece ::
  "'n retrieval_provider \<Rightarrow> cid \<Rightarrow> cid option \<Rightarrow> (go_error + PieceInfo \<times> bool) go_run" where
  "pve_GetPiece p c pieceCID =
     run_bind (run_opt (getAllPieceInfoForPayload (piecesOf p) c)) (\<lambda>(pieces, piecesErr).
       let (pieceInfo, isUnsealed) = getBestPieceInfoMatch (piecesOf p) pieces
             (case pieceCID of None \<Rightarrow> cid_Undef | Some x \<Rightarrow> x)
       in if PieceInfo_Defined pieceInfo then Returns (Inr (pieceInfo, isUnsealed))
          else case piecesErr of
            Some err \<Rightarrow> Returns (Inl err)
          | None \<Rightarrow> (case pieceCID of
              None \<Rightarrow> Panics
            | Some x \<Rightarrow> Returns (Inl (New (''unknown pieceCID '' @ x)))))"

definition CheckDealParams ::
  "Ask \<Rightarrow> token_amount \<Rightarrow> uint64 \<Rightarrow> uint64 \<Rightarrow> token_amount \<Rightarrow> go_error option" where
  "CheckDealParams ask pricePerByte paymentInterval paymentIntervalIncrease unsealPrice =
     (if pricePerByte < AskPricePerByte ask then Some (New ''Price per byte too low'')
      else if paymentInterval > AskPaymentInterval ask then Some (New ''Payment interval too large'')
      else if paymentIntervalIncrease > AskPaymentIntervalIncrease ask
      then Some (New ''Payment interval increase too large'')
      else case AskUnsealPrice ask of
        None \<Rightarrow> None
      | Some askUnseal \<Rightarrow> if unsealPrice < askUnseal then Some (New ''Unseal price too small'') else None)"

definition RunDealDecisioningLogic ::
  "'n retrieval_provider \<Rightarrow> ProviderDealState \<Rightarrow> go_error + bool \<times> string" where
  "RunDealDecisioningLogic p state = (case dealDecider p of None \<Rightarrow> Inr (True, []) | Some decide \<Rightarrow> decide state)"

datatype validation_call =
    CBegin ProviderDealIdentifier ProviderDealState
  | CSend ProviderDealIdentifier ProviderEvent

definition BeginTracking ::
  "'n retrieval_provider \<Rightarrow> ProviderDealState \<Rightarrow> validation_call list \<times> go_error option" where
  "BeginTracking p pds = (case BeginMachine p (Identifier pds) pds of
     Some err \<Rightarrow> ([CBegin (Identifier pds) pds], Some err)
   | None \<Rightarrow>
       let ev = (if UnsealPrice (pdeal_params pds) > 0 then ProviderEventPaymentRequested else ProviderEventOpen)
       in ([CBegin (Identifier pds) pds, CSend (Identifier pds) ev], SendMachine p (Identifier pds) ev))"

subsection \<open>Validating requests\<close>

definition ValidatePush :: "'n ValidationResult \<times> go_error option" where
  "ValidatePush = (ValidationResult_zero, Some (New ''No pushes accepted''))"

definition rejectProposal ::
  "'n retrieval_provider \<Rightarrow> DealProposal \<Rightarrow> DealStatus \<Rightarrow> string \<Rightarrow> 'n ValidationResult \<times> go_error option" where
  "rejectProposal p proposal status reason = (ValidationResult_zero\<lparr>Accepted := False,
     VoucherResult := Some (response_to_node (nodes p) \<lparr>RespStatus = status, RespID = ProposalID proposal,
       PaymentOwed = 0, RespMessage = reason\<rparr>)\<rparr>, None)"

text \<open>\<open>err == rm.ErrNotFound\<close>: the error itself, not one that wraps it.\<close>

definition is_ErrNotFound :: "go_error \<Rightarrow> bool" where
  "is_ErrNotFound err = (case err of Sentinel k _ \<Rightarrow> k = RetrievalErrNotFound | _ \<Rightarrow> False)"

definition new_provider_deal :: "DealProposal \<Rightarrow> peer_id \<Rightarrow> ProviderDealState" where
  "new_provider_deal proposal receiver = \<lparr>PProposalOf = proposal, PStoreID = 0, PChannelID = None,
     PieceInfoOf = None, PStatus = DealStatusNew, Receiver = receiver, FundsReceived = 0, PMessage = []\<rparr>"

definition requested_selector :: "'n retrieval_provider \<Rightarrow> DealProposal \<Rightarrow> string" where
  "requested_selector p proposal = (case SelectorOf (ParamsOf proposal) of None \<Rightarrow> allSelector p | Some s \<Rightarrow> s)"

text \<open>The end of \<open>validatePull\<close>: the deal is tracked, then the response is made.\<close>

definition accept_pull ::
  "'n retrieval_provider \<Rightarrow> ProviderDealState \<Rightarrow> validation_call list \<times> ('n ValidationResult \<times> go_error option) go_run" where
  "accept_pull p deal = (case BeginTracking p deal of
     (calls, Some err) \<Rightarrow> (calls, Returns (ValidationResult_zero, Some err))
   | (calls, None) \<Rightarrow> (calls,
       run_bind (run_opt (OutstandingBalance (pdeal_params deal) 0 0 False)) (\<lambda>owed.
         run_bind (run_opt (NextInterval (pdeal_params deal) 0)) (\<lambda>limit.
           Returns (\<lparr>Accepted = True,
             VoucherResult = Some (response_to_node (nodes p) \<lparr>
               RespStatus = (if UnsealPrice (pdeal_params deal) > 0 then DealStatusFundsNeededUnseal
                 else DealStatusAccepted),
               RespID = ProposalID (PProposalOf deal), PaymentOwed = owed, RespMessage = []\<rparr>),
             ForcePause = True, DataLimit = limit, RequiresFinalization = True\<rparr>, None)))))"

definition validatePull ::
  "'n retrieval_provider \<Rightarrow> peer_id \<Rightarrow> DealProposal \<Rightarrow> cid \<Rightarrow> string \<Rightarrow>
   validation_call list \<times> ('n ValidationResult \<times> go_error option) go_run" where
  "validatePull p receiver proposal baseCid selector =
     (let params = ParamsOf proposal; deal = new_provider_deal proposal receiver;
          reject = (\<lambda>status reason. ([], Returns (rejectProposal p proposal status reason)))
      in if PayloadCID proposal \<noteq> baseCid then reject DealStatusRejected ''incorrect CID for this proposal''
      else if requested_selector p proposal \<noteq> selector
      then reject DealStatusRejected ''incorrect selector specified for this proposal''
      else case pve_GetPiece p (PayloadCID proposal) (ParamsPieceCID params) of
        Panics \<Rightarrow> ([], Panics)
      | Loops \<Rightarrow> ([], Loops)
      | Returns (Inl err) \<Rightarrow>
          if is_ErrNotFound err then reject DealStatusDealNotFound (Error err)
          else reject DealStatusErrored (Error err)
      | Returns (Inr (pieceInfo, isUnsealed)) \<Rightarrow>
          (case pve_GetAsk p (PayloadCID proposal) (ParamsPieceCID params) pieceInfo isUnsealed receiver of
             Panics \<Rightarrow> ([], Panics)
           | Loops \<Rightarrow> ([], Loops)
           | Returns (Inl err) \<Rightarrow> reject DealStatusErrored (Error err)
           | Returns (Inr ask) \<Rightarrow>
               (case CheckDealParams ask (PricePerByte params) (PaymentInterval params)
                   (PaymentIntervalIncrease params) (UnsealPrice params) of
                  Some err \<Rightarrow> reject DealStatusRejected (Error err)
                | None \<Rightarrow> on_err (RunDealDecisioningLogic p deal)
                    (\<lambda>err. reject DealStatusErrored (Error err))
                    (\<lambda>(accepted, reason). if \<not> accepted then reject DealStatusRejected reason
                       else accept_pull p (deal\<lparr>PieceInfoOf := Some pieceInfo\<rparr>)))))"

record ProviderValidationEvent =
  IsRestart :: bool
  EvReceiver :: peer_id
  EvProposal :: DealProposal
  EvBaseCid :: cid
  EvSelector :: string
  EvResponse :: "DealResponse option"
  EvError :: "go_error option"

definition publishValidationEvent ::
  "'n retrieval_provider \<Rightarrow> bool \<Rightarrow> peer_id \<Rightarrow> DealProposal \<Rightarrow> cid \<Rightarrow> string \<Rightarrow>
   'n ValidationResult \<times> go_error option \<Rightarrow> ProviderValidationEvent" where
  "publishValidationEvent p restart receiver proposal baseCid selector r = (case r of (response, err) \<Rightarrow>
     \<lparr>IsRestart = False, EvReceiver = receiver, EvProposal = proposal, EvBaseCid = baseCid,
      EvSelector = selector,
      EvResponse = (case VoucherResult response of
        None \<Rightarrow> None
      | Some v \<Rightarrow> on_err (DealResponseFromNode (nodes p) (Some v)) (\<lambda>_. None) Some),
      EvError = (if err = None \<and> \<not> Accepted response then Some (ErrRejected p) else err)\<rparr>)"

text \<open>What a validation does: the calls on the state machines, the events published, the result.\<close>

type_synonym 'n validation =
  "validation_call list \<times> ProviderValidationEvent list \<times> ('n ValidationResult \<times> go_error option) go_run"

definition ValidatePull ::
  "'n retrieval_provider \<Rightarrow> peer_id \<Rightarrow> 'n option \<Rightarrow> cid \<Rightarrow> string \<Rightarrow> 'n validation" where
  "ValidatePull p receiver voucher baseCid selector =
     on_err (DealProposalFromNode (nodes p) voucher)
       (\<lambda>err. ([], [], Returns (ValidationResult_zero, Some err)))
       (\<lambda>proposal. case validatePull p receiver proposal baseCid selector of
          (calls, Returns r) \<Rightarrow>
            (calls, [publishValidationEvent p False receiver proposal baseCid selector r], Returns r)
        | (calls, r) \<Rightarrow> (calls, [], r))"

definition requiresFinalization :: "ProviderDealState \<Rightarrow> 'n channel_state \<Rightarrow> bool go_run" where
  "requiresFinalization deal cs =
     (if PStatus deal \<noteq> DealStatusFundsNeededLastPayment \<and> PStatus deal \<noteq> DealStatusFinalizing
      then Returns True
      else run_bind (run_opt (OutstandingBalance (pdeal_params deal) (FundsReceived deal) (Queued cs) (InFinalization cs)))
        (\<lambda>owed. Returns (owed > 0)))"

definition rv_errorDealResponse ::
  "'n retrieval_provider \<Rightarrow> ProviderDealIdentifier \<Rightarrow> go_error \<Rightarrow> 'n ValidationResult \<times> go_error option" where
  "rv_errorDealResponse p dealID err = (ValidationResult_zero\<lparr>Accepted := False,
     VoucherResult := Some (response_to_node (nodes p) \<lparr>RespStatus = DealStatusErrored,
       RespID = IdDealID dealID, PaymentOwed = 0, RespMessage = Error err\<rparr>)\<rparr>, None)"

definition validateRestart ::
  "'n retrieval_provider \<Rightarrow> DealProposal \<Rightarrow> 'n channel_state \<Rightarrow> ('n ValidationResult \<times> go_error option) go_run" where
  "validateRestart p proposal cs =
     (let dealID = \<lparr>IdReceiver = OtherPeer cs, IdDealID = ProposalID proposal\<rparr>
      in on_err (GetSync p dealID)
        (\<lambda>err. Returns (rv_errorDealResponse p dealID err))
        (\<lambda>deal. run_bind (requiresFinalization deal cs) (\<lambda>fin.
           run_bind (run_opt (NextInterval (pdeal_params deal) (FundsReceived deal))) (\<lambda>limit.
             Returns (\<lparr>Accepted = True, VoucherResult = None,
               ForcePause = (PStatus deal = DealStatusUnsealing \<or> PStatus deal = DealStatusFundsNeededUnseal),
               DataLimit = limit, RequiresFinalization = fin\<rparr>, None)))))"

definition ValidateRestart :: "'n retrieval_provider \<Rightarrow> 'n channel_state \<Rightarrow> 'n validation" where
  "ValidateRestart p cs = on_err (DealProposalFromNode (nodes p) (Voucher cs))
     (\<lambda>err. ([], [], Returns (ValidationResult_zero, Some (New ''wrong voucher type''))))
     (\<lambda>proposal. case validateRestart p proposal cs of
        Returns r \<Rightarrow>
          ([], [publishValidationEvent p True (OtherPeer cs) proposal (BaseCID cs) (ChanSelector cs) r], Returns r)
      | r \<Rightarrow> ([], [], r))"

subsection \<open>Queries\<close>

text \<open>The effects of \<open>HandleQueryStream\<close> beside closing the stream: what is written and published.\<close>

record ProviderQueryEvent =
  QEventResponse :: "QueryResponse option"
  QEventError :: "go_error option"

datatype query_effect = WriteResp QueryResponse | PublishQuery ProviderQueryEvent

definition sendResp :: "(QueryResponse \<Rightarrow> go_error option) \<Rightarrow> QueryResponse \<Rightarrow> query_effect list" where
  "sendResp write resp = [WriteResp resp, PublishQuery \<lparr>QEventResponse = Some resp,
     QEventError = map_option (Wrap ''Retrieval query: writing query response: '') (write resp)\<rparr>]"

definition query_answer :: QueryResponse where
  "query_answer = \<lparr>QueryStatus = QueryResponseUnavailable, PieceCIDFound = QueryItemUnavailable,
     QuerySize = 0, PaymentAddress = address_Undef, MinPricePerByte = 0, MaxPaymentInterval = 0,
     MaxPaymentIntervalIncrease = 0, QueryMessage = [], QueryUnsealPrice = 0\<rparr>"

text \<open>The answer for a payload, once the payment address is known. A nil unseal price is written as
  zero.\<close>

definition query_unavailable :: "QueryResponse \<Rightarrow> go_error option \<Rightarrow> QueryResponse" where
  "query_unavailable answer piecesErr =
     (let answer1 = (case piecesErr of
            Some err \<Rightarrow> if \<not> errors_Is err RetrievalErrNotFound
              then answer\<lparr>QueryStatus := QueryResponseError,
                QueryMessage := ''failed to fetch piece to retrieve from: '' @ Error err\<rparr> else answer
          | None \<Rightarrow> answer)
      in if QueryMessage answer1 = []
         then answer1\<lparr>QueryMessage := ''piece info for cid not found (deal has not been added to a piece yet)''\<rparr>
         else answer1)"

definition query_price ::
  "'n retrieval_provider \<Rightarrow> peer_id \<Rightarrow> Query \<Rightarrow> PieceInfo list \<Rightarrow> go_error option \<Rightarrow> PieceInfo \<Rightarrow> bool \<Rightarrow>
   QueryResponse \<Rightarrow> QueryResponse" where
  "query_price p client query pieces piecesErr pieceInfo isUnsealed answer =
     (let storageDeals = getStorageDealsForPiece (QueryPieceCID (QueryParamsOf query) \<noteq> None) pieces pieceInfo
      in if storageDeals = [] then answer\<lparr>QueryStatus := QueryResponseError,
          QueryMessage := ''failed to fetch storage deals containing payload ['' @ QueryPayloadCID query @
            (case piecesErr of Some err \<Rightarrow> '']: '' @ Error err | None \<Rightarrow> '']'')\<rparr>
      else on_err (GetDynamicAsk p (pricing_input (InfoPieceCID pieceInfo) (QueryPayloadCID query) isUnsealed client)
          storageDeals)
        (\<lambda>err. answer\<lparr>QueryStatus := QueryResponseError, QueryMessage := ''failed to price deal: '' @ Error err\<rparr>)
        (\<lambda>ask. answer\<lparr>MinPricePerByte := AskPricePerByte ask, MaxPaymentInterval := AskPaymentInterval ask,
           MaxPaymentIntervalIncrease := AskPaymentIntervalIncrease ask,
           QueryUnsealPrice := (case AskUnsealPrice ask of None \<Rightarrow> 0 | Some u \<Rightarrow> u)\<rparr>))"

definition query_piece ::
  "'n retrieval_provider \<Rightarrow> peer_id \<Rightarrow> Query \<Rightarrow> QueryResponse \<Rightarrow> QueryResponse go_run" where
  "query_piece p client query answer =
     run_bind (run_opt (getAllPieceInfoForPayload (piecesOf p) (QueryPayloadCID query))) (\<lambda>(pieces, piecesErr).
       let (pieceInfo, isUnsealed) = getBestPieceInfoMatch (piecesOf p) pieces
             (case QueryPieceCID (QueryParamsOf query) of None \<Rightarrow> cid_Undef | Some c \<Rightarrow> c)
       in if \<not> PieceInfo_Defined pieceInfo then Returns (query_unavailable answer piecesErr)
          else case Deals pieceInfo of
            [] \<Rightarrow> Panics
          | d # _ \<Rightarrow> Returns (query_price p client query pieces piecesErr pieceInfo isUnsealed
              (answer\<lparr>QueryStatus := QueryResponseAvailable,
                 QuerySize := Unpadded (piecesOf p) (Length d), PieceCIDFound := QueryItemAvailable\<rparr>)))"

definition HandleQueryStream ::
  "'n retrieval_provider \<Rightarrow> (go_error + Query) \<Rightarrow> peer_id \<Rightarrow> (QueryResponse \<Rightarrow> go_error option) \<Rightarrow>
   query_effect list go_run" where
  "HandleQueryStream p readQuery remotePeer write = on_err readQuery
     (\<lambda>err. Returns [])
     (\<lambda>query. on_err (QGetChainHead p)
        (\<lambda>err. Returns [PublishQuery \<lparr>QEventResponse = None,
           QEventError = Some (Wrap ''Retrieval query: GetChainHead: '' err)\<rparr>])
        (\<lambda>(tok, _). on_err (QGetMinerWorkerAddress p (minerAddress p) tok)
           (\<lambda>err. Returns (sendResp write (query_answer\<lparr>QueryStatus := QueryResponseError,
              QueryMessage := ''failed to look up payment address: '' @ Error err\<rparr>)))
           (\<lambda>paymentAddress. run_bind
              (query_piece p remotePeer query (query_answer\<lparr>PaymentAddress := paymentAddress\<rparr>))
              (\<lambda>answer. Returns (sendResp write answer)))))"

end
