(* ===== verification/Retrieval_Validation_Correct.thy ===== *)
theory Retrieval_Validation_Correct
  imports Retrieval_Validation
begin

section \<open>Retrieval provider: what validation accepts\<close>

text \<open>
  When a proposal is accepted and what an accepted or rejected one leaves behind; the terms that the
  answer to a query quotes are terms that the validation accepts; proposals on which it never returns.
\<close>

lemma CheckDealParams_None_iff:
  "CheckDealParams ask price interval increase unseal = None \<longleftrightarrow>
     AskPricePerByte ask \<le> price \<and> interval \<le> AskPaymentInterval ask \<and>
     increase \<le> AskPaymentIntervalIncrease ask \<and>
     (case AskUnsealPrice ask of None \<Rightarrow> True | Some u \<Rightarrow> u \<le> unseal)"
  by (auto simp: CheckDealParams_def split: option.splits)

subsection \<open>The first payment\<close>

lemma lower_loop_le:
  "lower_loop inc cur sz low tgt = Some r \<Longrightarrow> low \<le> cur \<longrightarrow> r \<le> cur"
  by (erule lower_loop.raw_induct [rotated, where P = "\<lambda>inc cur sz low tgt r. low \<le> cur \<longrightarrow> r \<le> cur"])
    (fastforce split: if_splits)

lemma initial_owed:
  assumes "OutstandingBalance p 0 0 False = Some owed" and "0 \<le> UnsealPrice p"
  shows "owed = UnsealPrice p"
proof (cases "0 < UnsealPrice p \<or> PricePerByte p = 0")
  case False
  with assms obtain lb where "IntervalLowerBound p 0 = Some lb" and owed: "owed = (let x = int64_of lb * PricePerByte p in if x < 0 then 0 else x)"
    by (auto simp: OutstandingBalance_def Let_def split: option.splits)
  then have "lb = 0"
    using lower_loop_le [of "PaymentIntervalIncrease p" 0 "PaymentInterval p" 0 0 lb]
    by (simp add: IntervalLowerBound_def)
  with owed False assms(2) show ?thesis by (simp add: int64_of_def i64_def)
qed (use assms in \<open>auto simp: OutstandingBalance_def split: if_splits\<close>)

lemma big_Div_nonpos: "a \<le> 0 \<Longrightarrow> 0 < b \<Longrightarrow> big_Div a b \<le> 0"
  by (cases "a = 0") (simp_all add: big_Div_def pos_imp_zdiv_nonneg_iff)

lemma initial_limits:
  assumes "0 \<le> UnsealPrice p" and "0 \<le> PricePerByte p" and "0 < PaymentInterval p"
  shows "\<exists>owed. OutstandingBalance p 0 0 False = Some owed"
    and "NextInterval p 0 = Some (if PricePerByte p = 0 then 0 else PaymentInterval p)"
proof -
  have pos: "\<not> PaymentInterval p \<le> 0" using assms(3) by (simp only: not_le)
  have "lower_loop (PaymentIntervalIncrease p) 0 (PaymentInterval p) 0 0 = Some 0"
    using pos by (subst lower_loop.simps, subst lower_loop.simps) simp
  then show "\<exists>owed. OutstandingBalance p 0 0 False = Some owed"
    by (simp add: OutstandingBalance_def IntervalLowerBound_def Let_def)
  have "next_loop (PaymentIntervalIncrease p) 0 (PaymentInterval p) 0 = Some (PaymentInterval p)"
    using pos by (subst next_loop.simps, subst next_loop.simps) simp
  moreover have "bytes_paid p 0 \<le> 0" if "PricePerByte p \<noteq> 0"
    unfolding bytes_paid_def using that assms(1,2) by (intro big_Div_nonpos) auto
  ultimately show "NextInterval p 0 = Some (if PricePerByte p = 0 then 0 else PaymentInterval p)"
    by (auto simp: NextInterval_def nextInterval_def)
qed

subsection \<open>Accepting a proposal\<close>

text \<open>The checks before a deal is tracked; \<open>piece\<close> is the piece it is served from.\<close>

definition pull_checked ::
  "'n retrieval_provider \<Rightarrow> peer_id \<Rightarrow> DealProposal \<Rightarrow> cid \<Rightarrow> string \<Rightarrow> PieceInfo \<Rightarrow> bool" where
  "pull_checked p receiver proposal baseCid selector piece \<longleftrightarrow>
     PayloadCID proposal = baseCid \<and> requested_selector p proposal = selector \<and>
     (\<exists>unsealed ask reason.
        pve_GetPiece p (PayloadCID proposal) (ParamsPieceCID (ParamsOf proposal)) = Returns (Inr (piece, unsealed)) \<and>
        pve_GetAsk p (PayloadCID proposal) (ParamsPieceCID (ParamsOf proposal)) piece unsealed receiver =
          Returns (Inr ask) \<and>
        AskPricePerByte ask \<le> PricePerByte (ParamsOf proposal) \<and>
        PaymentInterval (ParamsOf proposal) \<le> AskPaymentInterval ask \<and>
        PaymentIntervalIncrease (ParamsOf proposal) \<le> AskPaymentIntervalIncrease ask \<and>
        (case AskUnsealPrice ask of None \<Rightarrow> True | Some u \<Rightarrow> u \<le> UnsealPrice (ParamsOf proposal)) \<and>
        RunDealDecisioningLogic p (new_provider_deal proposal receiver) = Inr (True, reason))"

definition tracked_deal :: "DealProposal \<Rightarrow> peer_id \<Rightarrow> PieceInfo \<Rightarrow> ProviderDealState" where
  "tracked_deal proposal receiver piece =
     (new_provider_deal proposal receiver)\<lparr>PieceInfoOf := Some piece\<rparr>"

definition rejection ::
  "'n retrieval_provider \<Rightarrow> DealProposal \<Rightarrow> 'n ValidationResult \<Rightarrow> bool" where
  "rejection p proposal vr \<longleftrightarrow> (\<exists>status reason.
     status \<in> {DealStatusRejected, DealStatusErrored, DealStatusDealNotFound} \<and>
     vr = fst (rejectProposal p proposal status reason))"

definition untouched ::
  "'n retrieval_provider \<Rightarrow> DealProposal \<Rightarrow> validation_call list \<times> ('n ValidationResult \<times> go_error option) go_run \<Rightarrow> bool" where
  "untouched p proposal out \<longleftrightarrow> fst out = [] \<and>
     (\<forall>r. snd out = Returns r \<longrightarrow> snd r = None \<and> rejection p proposal (fst r))"

text \<open>\<open>validatePull\<close> either passes all checks and goes on to track the deal, or touches nothing.\<close>

lemma validatePull_checked:
  "pull_checked p receiver proposal baseCid selector piece \<Longrightarrow>
     validatePull p receiver proposal baseCid selector = accept_pull p (tracked_deal proposal receiver piece)"
  by (auto simp: pull_checked_def validatePull_def tracked_deal_def CheckDealParams_None_iff [THEN iffD2])

lemma rejection_reject [simp]:
  "rejection p proposal (fst (rejectProposal p proposal DealStatusRejected reason))"
  "rejection p proposal (fst (rejectProposal p proposal DealStatusErrored reason))"
  "rejection p proposal (fst (rejectProposal p proposal DealStatusDealNotFound reason))"
  by (auto simp: rejection_def)

lemma snd_rejectProposal [simp]: "snd (rejectProposal p proposal status reason) = None"
  by (simp add: rejectProposal_def)

lemma untouched_reject:
  "s \<in> {DealStatusRejected, DealStatusErrored, DealStatusDealNotFound} \<Longrightarrow>
   untouched p proposal ([], Returns (rejectProposal p proposal s reason))"
  by (auto simp: untouched_def)

lemma untouched_stop [simp]: "untouched p proposal ([], Panics)" "untouched p proposal ([], Loops)"
  by (simp_all add: untouched_def)

lemma validatePull_piece:
  assumes "PayloadCID proposal = baseCid" "requested_selector p proposal = selector"
    and "pve_GetPiece p (PayloadCID proposal) (ParamsPieceCID (ParamsOf proposal)) = Returns (Inr (piece, unsealed))"
    and "\<not> pull_checked p receiver proposal baseCid selector piece"
  shows "untouched p proposal (validatePull p receiver proposal baseCid selector)"
proof (cases "pve_GetAsk p (PayloadCID proposal) (ParamsPieceCID (ParamsOf proposal)) piece unsealed receiver")
  case (Returns r)
  show ?thesis
  proof (cases r)
    case (Inl err)
    with assms(1-3) Returns show ?thesis by (simp add: validatePull_def untouched_reject Let_def)
  next
    case (Inr ask)
    show ?thesis
    proof (cases "CheckDealParams ask (PricePerByte (ParamsOf proposal)) (PaymentInterval (ParamsOf proposal))
        (PaymentIntervalIncrease (ParamsOf proposal)) (UnsealPrice (ParamsOf proposal))")
      case None
      with assms Returns Inr have "RunDealDecisioningLogic p (new_provider_deal proposal receiver) \<noteq> Inr (True, reason)" for reason
        unfolding pull_checked_def CheckDealParams_None_iff by blast
      with assms(1-3) Returns Inr None show ?thesis
        by (auto simp: validatePull_def untouched_reject Let_def split: on_err_split)
    qed (use assms(1-3) Returns Inr in \<open>simp add: validatePull_def untouched_reject Let_def\<close>)
  qed
qed (use assms(1-3) in \<open>simp_all add: validatePull_def Let_def\<close>)

lemma validatePull_cases:
  assumes "\<And>piece. \<not> pull_checked p receiver proposal baseCid selector piece"
  shows "untouched p proposal (validatePull p receiver proposal baseCid selector)"
proof (cases "PayloadCID proposal = baseCid \<and> requested_selector p proposal = selector")
  case True
  show ?thesis
  proof (cases "pve_GetPiece p (PayloadCID proposal) (ParamsPieceCID (ParamsOf proposal))")
    case (Returns r)
    show ?thesis
    proof (cases r)
      case (Inl err)
      with True Returns show ?thesis by (simp add: validatePull_def untouched_reject Let_def)
    next
      case (Inr pu)
      with Returns have "pve_GetPiece p (PayloadCID proposal) (ParamsPieceCID (ParamsOf proposal)) =
          Returns (Inr (fst pu, snd pu))" by simp
      from True validatePull_piece [OF _ _ this assms] show ?thesis by blast
    qed
  qed (use True in \<open>simp_all add: validatePull_def Let_def\<close>)
qed (auto simp: validatePull_def Let_def untouched_reject)

lemma accept_pull_Returns:
  "accept_pull p deal = (calls, Returns (vr, err)) \<Longrightarrow>
     calls = fst (BeginTracking p deal) \<and> err = snd (BeginTracking p deal) \<and>
     (if err = None then \<exists>owed limit. OutstandingBalance (pdeal_params deal) 0 0 False = Some owed \<and>
        NextInterval (pdeal_params deal) 0 = Some limit \<and>
        vr = \<lparr>Accepted = True, VoucherResult = Some (response_to_node (nodes p) \<lparr>
               RespStatus = (if UnsealPrice (pdeal_params deal) > 0 then DealStatusFundsNeededUnseal
                 else DealStatusAccepted),
               RespID = ProposalID (PProposalOf deal), PaymentOwed = owed, RespMessage = []\<rparr>),
             ForcePause = True, DataLimit = limit, RequiresFinalization = True\<rparr>
      else vr = ValidationResult_zero)"
  by (auto simp: accept_pull_def run_bind_Returns_iff split: prod.splits option.splits)

lemma accept_pull_ok:
  assumes "snd (BeginTracking p deal) = None" "OutstandingBalance (pdeal_params deal) 0 0 False = Some owed"
    "NextInterval (pdeal_params deal) 0 = Some limit"
  shows "\<exists>vr. accept_pull p deal = (fst (BeginTracking p deal), Returns (vr, None)) \<and> Accepted vr"
  using assms by (cases "BeginTracking p deal") (simp add: accept_pull_def run_opt_def)

lemma tracked_deal_simps [simp]:
  "PProposalOf (tracked_deal proposal receiver piece) = proposal"
  "Identifier (tracked_deal proposal receiver piece) = \<lparr>IdReceiver = receiver, IdDealID = ProposalID proposal\<rparr>"
  by (simp_all add: tracked_deal_def new_provider_deal_def Identifier_def)

lemma rejection_not_accepted: "rejection p proposal vr \<Longrightarrow> \<not> Accepted vr"
  by (auto simp: rejection_def rejectProposal_def)

lemma not_accepted_zero [simp]: "\<not> Accepted ValidationResult_zero"
  by (simp add: ValidationResult_zero_def)

subsection \<open>Properties\<close>


lemma accepted_response:
  assumes "validatePull p receiver proposal baseCid selector = (calls, Returns (vr, err))" "Accepted vr"
    and "0 \<le> UnsealPrice (ParamsOf proposal)"
  shows "VoucherResult vr = Some (response_to_node (nodes p) \<lparr>
        RespStatus = (if UnsealPrice (ParamsOf proposal) > 0 then DealStatusFundsNeededUnseal else DealStatusAccepted),
        RespID = ProposalID proposal, PaymentOwed = UnsealPrice (ParamsOf proposal), RespMessage = []\<rparr>)"
proof -
  obtain piece where ok: "pull_checked p receiver proposal baseCid selector piece"
    using validatePull_cases [of p receiver proposal baseCid selector] assms(1,2) rejection_not_accepted
    by (fastforce simp: untouched_def)
  from accept_pull_Returns [OF assms(1) [unfolded validatePull_checked [OF ok]], simplified] assms(2)
    initial_owed [OF _ assms(3)] show ?thesis by (cases err) auto
qed

text \<open>
  What a returned validation of a pull request leaves behind. When it is accepted, the deal is
  tracked once, with the piece it is served from, and given its first event; the transfer starts
  paused and with finalization required, and the client is asked for exactly the unsealing price
  first. Otherwise, unless the deal could not be tracked, nothing is done and the client gets a
  response that rejects the proposal, is an error, or says that there is no such payload.
\<close>
theorem validatePull_result:
  assumes "validatePull p receiver proposal baseCid selector = (calls, Returns (vr, err))"
    and "0 \<le> UnsealPrice (ParamsOf proposal)"
  shows "if Accepted vr
    then err = None \<and> ForcePause vr \<and> RequiresFinalization vr \<and>
      (\<exists>piece. calls =
        [CBegin \<lparr>IdReceiver = receiver, IdDealID = ProposalID proposal\<rparr>
           ((new_provider_deal proposal receiver)\<lparr>PieceInfoOf := Some piece\<rparr>),
         CSend \<lparr>IdReceiver = receiver, IdDealID = ProposalID proposal\<rparr>
           (if UnsealPrice (ParamsOf proposal) > 0 then ProviderEventPaymentRequested else ProviderEventOpen)]) \<and>
      VoucherResult vr = Some (response_to_node (nodes p) \<lparr>
        RespStatus = (if UnsealPrice (ParamsOf proposal) > 0 then DealStatusFundsNeededUnseal else DealStatusAccepted),
        RespID = ProposalID proposal, PaymentOwed = UnsealPrice (ParamsOf proposal), RespMessage = []\<rparr>)
    else err \<noteq> None \<or> calls = [] \<and> rejection p proposal vr"
proof (cases "\<exists>piece. pull_checked p receiver proposal baseCid selector piece")
  case True
  then obtain piece where ok: "pull_checked p receiver proposal baseCid selector piece" ..
  note run = accept_pull_Returns [OF assms(1) [unfolded validatePull_checked [OF ok]], simplified]
  have "fst (BeginTracking p (tracked_deal proposal receiver piece)) =
      [CBegin \<lparr>IdReceiver = receiver, IdDealID = ProposalID proposal\<rparr> (tracked_deal proposal receiver piece),
       CSend \<lparr>IdReceiver = receiver, IdDealID = ProposalID proposal\<rparr>
         (if UnsealPrice (ParamsOf proposal) > 0 then ProviderEventPaymentRequested else ProviderEventOpen)]"
    if "snd (BeginTracking p (tracked_deal proposal receiver piece)) = None"
    using that by (simp add: BeginTracking_def Let_def split: option.splits)
  then show ?thesis
    unfolding tracked_deal_def [symmetric] using run initial_owed [OF _ assms(2)] by (cases err) auto
next
  case False
  with validatePull_cases [of p receiver proposal baseCid selector] assms(1) rejection_not_accepted
  show ?thesis by (fastforce simp: untouched_def)
qed

definition sample_provider :: "voucher_node retrieval_provider" where
  "sample_provider = \<lparr>
     piecesOf = sample_pieces_env\<lparr>LookupPieceInfo := (\<lambda>c. Inr \<lparr>InfoPieceCID = c,
       Deals = [\<lparr>InfoDealID = 4, SectorID = 1, Offset = 0, Length = 256\<rparr>]\<rparr>)\<rparr>,
     CurrAsk = Some \<lparr>AskPricePerByte = 7, AskUnsealPrice = Some 3, AskPaymentInterval = 100,
       AskPaymentIntervalIncrease = 50\<rparr>,
     GetRetrievalPricingInput = (\<lambda>piece deals. Inr (pricing_input piece [] False [])),
     retrievalPricingFunc = DefaultPricingFunc True,
     dealDecider = None, BeginMachine = (\<lambda>id deal. None), SendMachine = (\<lambda>id ev. None),
     GetSync = (\<lambda>id. Inl (New ''not found'')), nodes = node_registry, allSelector = ''all'',
     ErrRejected = New ''response rejected'', QGetChainHead = Inr (''tok'', 5),
     QGetMinerWorkerAddress = (\<lambda>a tok. Inr ''f0101''), minerAddress = ''f0100''\<rparr>"

definition sample_proposal :: "token_amount \<Rightarrow> uint64 \<Rightarrow> uint64 \<Rightarrow> DealProposal" where
  "sample_proposal price interval increase = \<lparr>PayloadCID = ''a'', ProposalID = 9, ParamsOf =
     \<lparr>SelectorOf = None, ParamsPieceCID = None, PricePerByte = price, PaymentInterval = interval,
      PaymentIntervalIncrease = increase, UnsealPrice = 0\<rparr>\<rparr>"

definition sample_answer :: QueryResponse where
  "sample_answer = \<lparr>QueryStatus = QueryResponseAvailable, PieceCIDFound = QueryItemAvailable, QuerySize = 254,
     PaymentAddress = ''f0101'', MinPricePerByte = 7, MaxPaymentInterval = 100,
     MaxPaymentIntervalIncrease = 50, QueryMessage = [], QueryUnsealPrice = 0\<rparr>"

lemma sample_provider_simps:
  "allSelector sample_provider = ''all''" "dealDecider sample_provider = None"
  "BeginMachine sample_provider i d = None" "SendMachine sample_provider i e = None"
  by (simp_all add: sample_provider_def)

lemma sample_piece: "pve_GetPiece sample_provider ''a'' None = Returns (Inr (\<lparr>InfoPieceCID = ''p1'',
    Deals = [\<lparr>InfoDealID = 4, SectorID = 1, Offset = 0, Length = 256\<rparr>]\<rparr>, True))"
  by code_simp

lemma sample_price: "pve_GetAsk sample_provider ''a'' None \<lparr>InfoPieceCID = ''p1'',
    Deals = [\<lparr>InfoDealID = 4, SectorID = 1, Offset = 0, Length = 256\<rparr>]\<rparr> True ''peer'' = Returns (Inr
      \<lparr>AskPricePerByte = 7, AskUnsealPrice = Some 0, AskPaymentInterval = 100, AskPaymentIntervalIncrease = 50\<rparr>)"
  by code_simp

lemma sample_checked: "interval \<le> 100 \<Longrightarrow> increase \<le> 50 \<Longrightarrow>
    pull_checked sample_provider ''peer'' (sample_proposal 7 interval increase) ''a'' ''all''
      \<lparr>InfoPieceCID = ''p1'', Deals = [\<lparr>InfoDealID = 4, SectorID = 1, Offset = 0, Length = 256\<rparr>]\<rparr>"
  by (auto simp: pull_checked_def sample_proposal_def sample_piece sample_price sample_provider_simps
      requested_selector_def RunDealDecisioningLogic_def intro!: exI [of _ True])

lemma sample_query:
  "HandleQueryStream sample_provider (Inr (NewQueryV0 ''a'')) ''peer'' (\<lambda>r. None) =
     Returns (sendResp (\<lambda>r. None) sample_answer)"
  by code_simp

theorem validatePull_result_witness:
  "\<exists>calls vr. validatePull sample_provider ''peer'' (sample_proposal 7 100 50) ''a'' ''all'' = (calls, Returns (vr, None)) \<and>
     Accepted vr \<and> ForcePause vr \<and> length calls = 2"
proof -
  define out where "out = validatePull sample_provider ''peer'' (sample_proposal 7 100 50) ''a'' ''all''"
  have "case out of (calls, Returns (vr, err)) \<Rightarrow> err = None \<and> Accepted vr \<and> length calls = 2 | _ \<Rightarrow> False"
    unfolding out_def by code_simp
  then obtain calls vr where run: "out = (calls, Returns (vr, None))" "Accepted vr" "length calls = 2"
    by (auto split: prod.splits go_run.splits)
  with validatePull_result [OF run(1) [unfolded out_def]] show ?thesis
    unfolding out_def by (auto simp: sample_proposal_def)
qed

text \<open>
  C20. A priced proposal whose payment interval and increase are both zero passes the checks, since the
  ask only bounds them from above; once the deal is tracked, the validation never returns.
\<close>
theorem validatePull_zero_interval_hangs:
  assumes "\<exists>piece. pull_checked p receiver proposal baseCid selector piece"
    and "PaymentInterval (ParamsOf proposal) = 0" and "PaymentIntervalIncrease (ParamsOf proposal) = 0"
    and "0 < PricePerByte (ParamsOf proposal)"
    and "\<forall>id deal. BeginMachine p id deal = None" and "\<forall>id ev. SendMachine p id ev = None"
  shows "snd (validatePull p receiver proposal baseCid selector) = Loops \<and>
    fst (validatePull p receiver proposal baseCid selector) \<noteq> []"
proof -
  from assms(1) obtain piece where ok: "pull_checked p receiver proposal baseCid selector piece" ..
  have limit: "NextInterval (ParamsOf proposal) 0 = None"
    using assms(2-4) by (simp add: NextInterval_def nextInterval_def next_loop_zero_diverges)
  show ?thesis
    unfolding validatePull_checked [OF ok] accept_pull_def BeginTracking_def
    using assms(5,6) limit by (simp add: run_opt_def run_bind_def Let_def split: option.split)
qed

theorem validatePull_zero_interval_hangs_witness:
  "snd (validatePull sample_provider ''peer'' (sample_proposal 7 0 0) ''a'' ''all'') = Loops"
  using validatePull_zero_interval_hangs [of sample_provider "''peer''" "sample_proposal 7 0 0" "''a''" "''all''"]
    sample_checked [of 0 0]
  by (auto simp: sample_proposal_def sample_provider_def)

text \<open>The piece and the ask behind the answer to a query.\<close>

lemma query_price_available:
  assumes answer: "answer = query_price p client query pieces piecesErr info unsealed answer0"
    and "QueryStatus answer = QueryResponseAvailable"
  shows "\<exists>ask. getStorageDealsForPiece (QueryPieceCID (QueryParamsOf query) \<noteq> None) pieces info \<noteq> [] \<and>
    GetDynamicAsk p (pricing_input (InfoPieceCID info) (QueryPayloadCID query) unsealed client)
      (getStorageDealsForPiece (QueryPieceCID (QueryParamsOf query) \<noteq> None) pieces info) = Inr ask \<and>
    AskPricePerByte ask = MinPricePerByte answer \<and> AskPaymentInterval ask = MaxPaymentInterval answer \<and>
    AskPaymentIntervalIncrease ask = MaxPaymentIntervalIncrease answer \<and>
    (case AskUnsealPrice ask of None \<Rightarrow> True | Some u \<Rightarrow> u = QueryUnsealPrice answer)"
proof (cases "getStorageDealsForPiece (QueryPieceCID (QueryParamsOf query) \<noteq> None) pieces info = []")
  case False
  then show ?thesis
    using assms(2) unfolding answer query_price_def
    by (cases "GetDynamicAsk p (pricing_input (InfoPieceCID info) (QueryPayloadCID query) unsealed client)
      (getStorageDealsForPiece (QueryPieceCID (QueryParamsOf query) \<noteq> None) pieces info)")
      (simp_all split: option.split)
qed (use assms(2) in \<open>simp add: answer query_price_def\<close>)

lemma query_available:
  assumes "HandleQueryStream p (Inr query) client write = Returns effects" "WriteResp answer \<in> set effects"
    "QueryStatus answer = QueryResponseAvailable"
  obtains piece unsealed ask where
    "pve_GetPiece p (QueryPayloadCID query) (QueryPieceCID (QueryParamsOf query)) = Returns (Inr (piece, unsealed))"
    "pve_GetAsk p (QueryPayloadCID query) (QueryPieceCID (QueryParamsOf query)) piece unsealed client = Returns (Inr ask)"
    "AskPricePerByte ask = MinPricePerByte answer" "AskPaymentInterval ask = MaxPaymentInterval answer"
    "AskPaymentIntervalIncrease ask = MaxPaymentIntervalIncrease answer"
    "(case AskUnsealPrice ask of None \<Rightarrow> True | Some u \<Rightarrow> u = QueryUnsealPrice answer)"
proof -
  from assms obtain a where piece: "query_piece p client query (query_answer\<lparr>PaymentAddress := a\<rparr>) = Returns answer"
    by (auto simp: HandleQueryStream_def sendResp_def run_bind_Returns_iff query_answer_def
        split: on_err_splits prod.splits)
  then obtain pieces piecesErr where
    pieces: "getAllPieceInfoForPayload (piecesOf p) (QueryPayloadCID query) = Some (pieces, piecesErr)"
    unfolding query_piece_def run_bind_Returns_iff run_opt_Returns_iff by fast
  obtain info unsealed where best: "getBestPieceInfoMatch (piecesOf p) pieces
      (case QueryPieceCID (QueryParamsOf query) of None \<Rightarrow> cid_Undef | Some c \<Rightarrow> c) = (info, unsealed)"
    by fastforce
  have defd: "PieceInfo_Defined info"
    using piece pieces best assms(3)
    by (auto simp: query_piece_def run_opt_def query_unavailable_def Let_def query_answer_def split: if_splits option.splits)
  with piece pieces best obtain answer0 where
    price: "answer = query_price p client query pieces piecesErr info unsealed answer0"
    by (force simp: query_piece_def run_opt_def split: list.splits)
  from query_price_available [OF price assms(3)] obtain ask where
    "getStorageDealsForPiece (QueryPieceCID (QueryParamsOf query) \<noteq> None) pieces info \<noteq> []"
    "GetDynamicAsk p (pricing_input (InfoPieceCID info) (QueryPayloadCID query) unsealed client)
      (getStorageDealsForPiece (QueryPieceCID (QueryParamsOf query) \<noteq> None) pieces info) = Inr ask"
    "AskPricePerByte ask = MinPricePerByte answer" "AskPaymentInterval ask = MaxPaymentInterval answer"
    "AskPaymentIntervalIncrease ask = MaxPaymentIntervalIncrease answer"
    "(case AskUnsealPrice ask of None \<Rightarrow> True | Some u \<Rightarrow> u = QueryUnsealPrice answer)"
    by blast
  with pieces best defd show thesis
    by (intro that [of info unsealed ask]) (simp_all add: pve_GetPiece_def pve_GetAsk_def run_opt_def)
qed

text \<open>Quoted terms pass the validation, as long as the provider has not changed in between.\<close>

lemma quoted_terms_ok:
  assumes "HandleQueryStream p (Inr query) client write = Returns effects" and "WriteResp answer \<in> set effects"
    and "QueryStatus answer = QueryResponseAvailable"
    and "proposal = \<lparr>PayloadCID = QueryPayloadCID query, ProposalID = dealID, ParamsOf = \<lparr>SelectorOf = sel,
      ParamsPieceCID = QueryPieceCID (QueryParamsOf query), PricePerByte = MinPricePerByte answer,
      PaymentInterval = MaxPaymentInterval answer, PaymentIntervalIncrease = MaxPaymentIntervalIncrease answer,
      UnsealPrice = QueryUnsealPrice answer\<rparr>\<rparr>"
    and "dealDecider p = None" and "\<forall>id deal. BeginMachine p id deal = None" and "\<forall>id ev. SendMachine p id ev = None"
    and "0 < MaxPaymentInterval answer" and "0 \<le> MinPricePerByte answer" and "0 \<le> QueryUnsealPrice answer"
  shows "\<exists>calls vr. validatePull p client proposal (QueryPayloadCID query) (requested_selector p proposal) =
    (calls, Returns (vr, None)) \<and> Accepted vr"
proof -
  obtain piece unsealed ask where quoted:
    "pve_GetPiece p (QueryPayloadCID query) (QueryPieceCID (QueryParamsOf query)) = Returns (Inr (piece, unsealed))"
    "pve_GetAsk p (QueryPayloadCID query) (QueryPieceCID (QueryParamsOf query)) piece unsealed client = Returns (Inr ask)"
    "AskPricePerByte ask = MinPricePerByte answer" "AskPaymentInterval ask = MaxPaymentInterval answer"
    "AskPaymentIntervalIncrease ask = MaxPaymentIntervalIncrease answer"
    "(case AskUnsealPrice ask of None \<Rightarrow> True | Some u \<Rightarrow> u = QueryUnsealPrice answer)"
    by (rule query_available [OF assms(1-3)])
  then have ok: "pull_checked p client proposal (QueryPayloadCID query) (requested_selector p proposal) piece"
    using assms(4,5) by (auto simp: pull_checked_def RunDealDecisioningLogic_def split: option.splits)
  have tracked: "snd (BeginTracking p (tracked_deal proposal client piece)) = None"
    using assms(6,7) by (simp add: BeginTracking_def)
  obtain owed where "OutstandingBalance (ParamsOf proposal) 0 0 False = Some owed"
    "NextInterval (ParamsOf proposal) 0 = Some (if PricePerByte (ParamsOf proposal) = 0 then 0 else PaymentInterval (ParamsOf proposal))"
    using initial_limits [of "ParamsOf proposal"] assms(4,8-10) by auto
  with accept_pull_ok [of p "tracked_deal proposal client piece", OF tracked] show ?thesis
    unfolding validatePull_checked [OF ok] by fastforce
qed

end
