(* ===== verification/Retrieval_Ops.thy ===== *)
theory Retrieval_Ops
  imports Retrieval_Client_Inv Retrieval_Validation_Correct Datastore
begin

section \<open>Retrieval market: the operations of client and provider\<close>

text \<open>
  The operations around the state machines. Client (\<open>retrievalmarket/impl/client.go\<close>): queries,
  \<open>Retrieve\<close>, the operations that send events to deals, and the environment of the handlers.
  Provider (\<open>impl/provider_environments.go\<close>, \<open>impl/provider.go\<close>, \<open>impl/lazyblockstore.go\<close>): the
  blockstores from which deals are served. The state machine group, the data transfer module, the
  network and the blockstore accessor are parameters; what an operation does to them is its list of
  effects.
\<close>

subsection \<open>Client\<close>

record ('n, 'b) rclient =
  ResolverGetPeers :: "cid \<Rightarrow> go_error + RetrievalPeer list"
  ClientGetChainHead :: "go_error + tipset_token \<times> chain_epoch"
  GetKnownAddresses :: "RetrievalPeer \<Rightarrow> tipset_token \<Rightarrow> go_error + string list"
  NewQueryStream :: "peer_id \<Rightarrow> go_error option"
  WriteQuery :: "Query \<Rightarrow> go_error option"
  ReadQueryResponse :: "go_error + QueryResponse"
  ClientGroupBegin :: "uint64 \<Rightarrow> ClientDealState \<Rightarrow> go_error option"
  ClientGroupSend :: "uint64 \<Rightarrow> ClientEvent \<Rightarrow> go_error option"
  ClientGroupGet :: "uint64 \<Rightarrow> go_error + ClientDealState"
  ClientGroupList :: "go_error + ClientDealState list"
  OpenPullDataChannel :: "peer_id \<Rightarrow> 'n \<Rightarrow> cid \<Rightarrow> string \<Rightarrow> go_error + channel_id"
  SendVoucher :: "channel_id \<Rightarrow> 'n \<Rightarrow> go_error option"
  CloseDataTransferChannel :: "channel_id \<Rightarrow> go_error option"
  BstoresGet :: "uint64 \<Rightarrow> cid \<Rightarrow> go_error + 'b"
  BstoresDone :: "uint64 \<Rightarrow> go_error option"
  ClientNodes :: "'n bindnode_registry"
  ClientAllSelector :: string

datatype rclient_effect =
    AddAddrs peer_id "string list"
  | GroupBegin uint64 ClientDealState
  | GroupSend uint64 ClientEvent
  | QueryWritten peer_id Query

text \<open>\<open>shared/timecounter.go\<close>: the atomic addition wraps.\<close>

definition TimeCounter_Next :: "uint64 \<Rightarrow> uint64 \<times> uint64" where
  "TimeCounter_Next counter = (counter + 1, counter + 1)"

definition IsCtxDone :: "go_error option \<Rightarrow> bool" where
  "IsCtxDone e = (case e of
     None \<Rightarrow> False | Some err \<Rightarrow> errors_Is err ContextCanceled \<or> errors_Is err ContextDeadlineExceeded)"

definition FindProviders :: "('n, 'b) rclient \<Rightarrow> cid \<Rightarrow> RetrievalPeer list" where
  "FindProviders c payloadCID = on_err (ResolverGetPeers c payloadCID) (\<lambda>err. []) (\<lambda>peers. peers)"

definition addMultiaddrs ::
  "('n, 'b) rclient \<Rightarrow> RetrievalPeer \<Rightarrow> rclient_effect list \<times> go_error option" where
  "addMultiaddrs c p = on_err (ClientGetChainHead c)
     (\<lambda>err. ([], Some err))
     (\<lambda>(tok, _). on_err (GetKnownAddresses c p tok)
        (\<lambda>err. ([], Some err))
        (\<lambda>maddrs. (if length maddrs > 0 then [AddAddrs (PeerID p) maddrs] else [], None)))"

definition ClientQuery ::
  "('n, 'b) rclient \<Rightarrow> RetrievalPeer \<Rightarrow> cid \<Rightarrow> QueryParams \<Rightarrow> rclient_effect list \<times> (go_error + QueryResponse)" where
  "ClientQuery c p payloadCID params = (case addMultiaddrs c p of
     (eff, Some err) \<Rightarrow> (eff, Inl err)
   | (eff, None) \<Rightarrow> (case NewQueryStream c (PeerID p) of
       Some err \<Rightarrow> (eff, Inl err)
     | None \<Rightarrow>
         let query = \<lparr>QueryPayloadCID = payloadCID, QueryParamsOf = params\<rparr>
         in (case WriteQuery c query of
             Some err \<Rightarrow> (eff, Inl err)
           | None \<Rightarrow> (eff @ [QueryWritten (PeerID p) query], ReadQueryResponse c))))"

definition Retrieve ::
  "('n, 'b) rclient \<Rightarrow> uint64 \<Rightarrow> uint64 \<Rightarrow> cid \<Rightarrow> Params \<Rightarrow> token_amount \<Rightarrow> RetrievalPeer \<Rightarrow> address \<Rightarrow> address \<Rightarrow>
   rclient_effect list \<times> uint64 \<times> (go_error + uint64)" where
  "Retrieve c counter dealId payloadCID params totalFunds p clientWallet minerWallet = (case addMultiaddrs c p of
     (eff, Some err) \<Rightarrow> (eff, counter, Inl err)
   | (eff, None) \<Rightarrow>
       let (counter', newId) = (if dealId = 0 then TimeCounter_Next counter else (counter, dealId));
           dealState = retrieve_deal payloadCID newId params totalFunds p clientWallet minerWallet
       in (case ClientGroupBegin c newId dealState of
           Some err \<Rightarrow> (eff, counter', Inl err)
         | None \<Rightarrow> (case ClientGroupSend c newId ClientEventOpen of
             Some err \<Rightarrow> (eff @ [GroupBegin newId dealState], counter', Inl err)
           | None \<Rightarrow> (eff @ [GroupBegin newId dealState, GroupSend newId ClientEventOpen], counter', Inr newId))))"

text \<open>The loop of \<open>TryRestartInsufficientFunds\<close>; reading \<open>PaymentInfo\<close> of a deal that has none panics.\<close>

fun restart_loop ::
  "('n, 'b) rclient \<Rightarrow> address \<Rightarrow> ClientDealState list \<Rightarrow> rclient_effect list \<times> go_error option go_run" where
  "restart_loop c paymentChannel [] = ([], Returns None)"
| "restart_loop c paymentChannel (deal # deals) =
     (if Status deal = DealStatusInsufficientFunds
      then (case PaymentInfoOf deal of
          None \<Rightarrow> ([], Panics)
        | Some info \<Rightarrow>
            if PayCh info = paymentChannel
            then (case ClientGroupSend c (ProposalID (ProposalOf deal)) ClientEventRecheckFunds of
                Some err \<Rightarrow> ([], Returns (Some err))
              | None \<Rightarrow> (case restart_loop c paymentChannel deals of (eff, r) \<Rightarrow>
                  (GroupSend (ProposalID (ProposalOf deal)) ClientEventRecheckFunds # eff, r)))
            else restart_loop c paymentChannel deals)
      else restart_loop c paymentChannel deals)"

definition TryRestartInsufficientFunds ::
  "('n, 'b) rclient \<Rightarrow> address \<Rightarrow> rclient_effect list \<times> go_error option go_run" where
  "TryRestartInsufficientFunds c paymentChannel = on_err (ClientGroupList c)
     (\<lambda>err. ([], Returns (Some err))) (restart_loop c paymentChannel)"

definition ClientCancelDeal :: "('n, 'b) rclient \<Rightarrow> uint64 \<Rightarrow> rclient_effect list \<times> go_error option" where
  "ClientCancelDeal c dealID = (case ClientGroupSend c dealID ClientEventCancel of
     Some err \<Rightarrow> ([], Some err) | None \<Rightarrow> ([GroupSend dealID ClientEventCancel], None))"

definition ClientGetDeal :: "('n, 'b) rclient \<Rightarrow> uint64 \<Rightarrow> go_error + ClientDealState" where
  "ClientGetDeal c dealID = ClientGroupGet c dealID"

definition ClientListDeals :: "('n, 'b) rclient \<Rightarrow> go_error + (uint64 \<rightharpoonup> ClientDealState)" where
  "ClientListDeals c = on_err (ClientGroupList c) Inl
     (\<lambda>deals. Inr (fold (\<lambda>deal m. m(ProposalID (ProposalOf deal) \<mapsto> deal)) deals Map.empty))"

definition client_selector :: "('n, 'b) rclient \<Rightarrow> DealProposal \<Rightarrow> string" where
  "client_selector c proposal = (case SelectorOf (ParamsOf proposal) of None \<Rightarrow> ClientAllSelector c | Some s \<Rightarrow> s)"

text \<open>The pull request of a proposal: voucher, root and selector.\<close>

definition pull_request :: "('n, 'b) rclient \<Rightarrow> DealProposal \<Rightarrow> 'n \<times> cid \<times> string" where
  "pull_request c proposal =
     (proposal_to_node (ClientNodes c) proposal, PayloadCID proposal, client_selector c proposal)"

definition cde_OpenDataTransfer :: "('n, 'b) rclient \<Rightarrow> peer_id \<Rightarrow> DealProposal \<Rightarrow> go_error + channel_id" where
  "cde_OpenDataTransfer c to proposal = (case pull_request c proposal of
     (vouch, root, sel) \<Rightarrow> OpenPullDataChannel c to vouch root sel)"

definition cde_SendDataTransferVoucher :: "('n, 'b) rclient \<Rightarrow> channel_id \<Rightarrow> DealPayment \<Rightarrow> go_error option" where
  "cde_SendDataTransferVoucher c channelID payment =
     SendVoucher c channelID (payment_to_node (ClientNodes c) payment)"

definition cde_CloseDataTransfer :: "('n, 'b) rclient \<Rightarrow> channel_id \<Rightarrow> go_error option" where
  "cde_CloseDataTransfer c channelID =
     (let err = CloseDataTransferChannel c channelID in if IsCtxDone err then None else err)"

definition cde_FinalizeBlockstore :: "('n, 'b) rclient \<Rightarrow> uint64 \<Rightarrow> go_error option" where
  "cde_FinalizeBlockstore c dealID = BstoresDone c dealID"

definition csg_Get :: "('n, 'b) rclient \<Rightarrow> peer_id \<Rightarrow> uint64 \<Rightarrow> go_error + 'b" where
  "csg_Get c otherPeer dealId = on_err (ClientGroupGet c dealId) Inl
     (\<lambda>deal. BstoresGet c dealId (PayloadCID (ProposalOf deal)))"

subsection \<open>Provider\<close>

text \<open>The stores a provider serves from: the shards that the DAG store loads, tracked under the text of
  the deal's id.\<close>

definition DealID_String :: "uint64 \<Rightarrow> string" where
  "DealID_String d = show_uint64 d"

definition pde_PrepareBlockstore ::
  "(cid \<Rightarrow> go_error + 'b) \<Rightarrow> uint64 \<Rightarrow> cid \<Rightarrow> 'b stores \<Rightarrow> go_error option \<times> 'b stores" where
  "pde_PrepareBlockstore loadShard dealID pieceCid st = on_err (loadShard pieceCid)
     (\<lambda>err. (Some (Wrap (''failed to load blockstore for piece '' @ pieceCid @ '': '') err), st))
     (\<lambda>bs. (None, snd (RO_Track (DealID_String dealID) bs st)))"

definition pde_CloseDataTransfer :: "(channel_id \<Rightarrow> go_error option) \<Rightarrow> channel_id \<Rightarrow> go_error option" where
  "pde_CloseDataTransfer closeChannel chid =
     (let err = closeChannel chid in if IsCtxDone err then None else err)"

definition pde_DeleteStore ::
  "('b \<Rightarrow> go_error option option) \<Rightarrow> uint64 \<Rightarrow> 'b stores \<Rightarrow> go_error option \<times> 'b stores" where
  "pde_DeleteStore closer dealID st = (case RO_Untrack closer (DealID_String dealID) st of
     (Some err, st') \<Rightarrow>
       (Some (Wrap (''failed to clean read-only blockstore for deal '' @ show_uint64 dealID @ '': '') err), st')
   | (None, st') \<Rightarrow> (None, st'))"

text \<open>The lazy blockstore: \<open>load\<close> is asked until it answers a store, which is then kept.\<close>

definition lazy_init :: "(go_error + 'b) \<Rightarrow> 'b option \<Rightarrow> (go_error + 'b) \<times> 'b option" where
  "lazy_init load bs = (case bs of
     Some b \<Rightarrow> (Inr b, Some b)
   | None \<Rightarrow> on_err load (\<lambda>err. (Inl err, None)) (\<lambda>b. (Inr b, Some b)))"

text \<open>\<open>Has\<close>, \<open>Get\<close>, \<open>GetSize\<close> and \<open>AllKeysChan\<close> run their namesake on the store.\<close>

definition lazy_read :: "('b \<Rightarrow> go_error + 'a) \<Rightarrow> (go_error + 'b) \<Rightarrow> 'b option \<Rightarrow> (go_error + 'a) \<times> 'b option" where
  "lazy_read read load bs = (case lazy_init load bs of
     (Inl err, bs') \<Rightarrow> (Inl err, bs') | (Inr b, bs') \<Rightarrow> (read b, bs'))"

definition lazy_write :: "unit go_run" where
  "lazy_write = Panics"

definition lazy_HashOnRead :: "('b \<Rightarrow> 'b) \<Rightarrow> (go_error + 'b) \<Rightarrow> 'b option \<Rightarrow> 'b option" where
  "lazy_HashOnRead setHashOnRead load bs = (case lazy_init load bs of
     (Inl err, bs') \<Rightarrow> bs' | (Inr b, bs') \<Rightarrow> Some (setHashOnRead b))"

text \<open>What the transport is given for a deal, here the load function of the lazy store.\<close>

definition psg_Get ::
  "(ProviderDealIdentifier \<Rightarrow> go_error + ProviderDealState) \<Rightarrow> peer_id \<Rightarrow> uint64 \<Rightarrow>
   go_error + ('b stores \<Rightarrow> go_error + 'b)" where
  "psg_Get groupGet otherPeer dealID = on_err (groupGet \<lparr>IdReceiver = otherPeer, IdDealID = dealID\<rparr>)
     (\<lambda>err. Inl (Wrap ''failed to get deal state: '' err))
     (\<lambda>deal. Inr (\<lambda>st. RO_Get (DealID_String dealID) st))"

definition ProviderListDeals :: "ProviderDealState list \<Rightarrow> ProviderDealIdentifier \<rightharpoonup> ProviderDealState" where
  "ProviderListDeals deals = fold (\<lambda>deal m. m(\<lparr>IdReceiver = Receiver deal,
     IdDealID = ProposalID (PProposalOf deal)\<rparr> \<mapsto> deal)) deals Map.empty"

subsection \<open>Properties\<close>


definition sample_client :: "(voucher_node, nat) rclient" where
  "sample_client = \<lparr>ResolverGetPeers = (\<lambda>c. Inr []), ClientGetChainHead = Inr (''tok'', 5),
     GetKnownAddresses = (\<lambda>p tok. Inr []), NewQueryStream = (\<lambda>p. None), WriteQuery = (\<lambda>q. None),
     ReadQueryResponse = Inr sample_answer, ClientGroupBegin = (\<lambda>i d. None), ClientGroupSend = (\<lambda>i e. None),
     ClientGroupGet = (\<lambda>i. Inl (New ''not found'')),
     ClientGroupList = Inr [(retrieve_deal ''a'' 5 (NewParamsV0 0 10 0) 9 \<lparr>PeerAddress = [], PeerID = ''p'',
        PeerPieceCID = None\<rparr> ''w'' ''m'')\<lparr>Status := DealStatusInsufficientFunds, ChannelID := Some ''ch'',
        PaymentInfoOf := Some \<lparr>PayCh = ''pch'', Lane = 1\<rparr>\<rparr>],
     OpenPullDataChannel = (\<lambda>to v root s. Inr ''ch''), SendVoucher = (\<lambda>ch v. None),
     CloseDataTransferChannel = (\<lambda>ch. None), BstoresGet = (\<lambda>i c. Inr 0), BstoresDone = (\<lambda>i. None),
     ClientNodes = node_registry, ClientAllSelector = ''all''\<rparr>"


lemma restart_loop_returns:
  assumes "\<forall>d \<in> set deals. Status d = DealStatusInsufficientFunds \<longrightarrow> PaymentInfoOf d \<noteq> None"
  shows "\<exists>eff r. restart_loop c ch deals = (eff, Returns r) \<and> (r = None \<longrightarrow>
    eff = map (\<lambda>d. GroupSend (ProposalID (ProposalOf d)) ClientEventRecheckFunds)
      (filter (\<lambda>d. Status d = DealStatusInsufficientFunds \<and> map_option PayCh (PaymentInfoOf d) = Some ch) deals))"
  using assms by (induction deals) (auto split: option.splits)

text \<open>
  \<open>TryRestartInsufficientFunds\<close> does not panic on deals that are in a state their state machine
  can reach, and when it succeeds it has sent the recheck event to exactly the deals that wait for
  funds on that payment channel.
\<close>
theorem TryRestartInsufficientFunds_correct:
  assumes "ClientGroupList c = Inr deals" and "\<forall>d \<in> set deals. \<exists>p B. rclient_safe p B d"
  shows "\<exists>eff r. TryRestartInsufficientFunds c ch = (eff, Returns r) \<and> (r = None \<longrightarrow>
    eff = map (\<lambda>d. GroupSend (ProposalID (ProposalOf d)) ClientEventRecheckFunds)
      (filter (\<lambda>d. Status d = DealStatusInsufficientFunds \<and> map_option PayCh (PaymentInfoOf d) = Some ch) deals))"
proof -
  have "\<forall>d \<in> set deals. Status d = DealStatusInsufficientFunds \<longrightarrow> PaymentInfoOf d \<noteq> None"
    using assms(2) by (auto simp: rclient_safe_def)
  from restart_loop_returns [OF this, of c ch] assms(1) show ?thesis
    by (simp add: TryRestartInsufficientFunds_def)
qed

theorem TryRestartInsufficientFunds_correct_witness:
  "\<exists>r. TryRestartInsufficientFunds sample_client ''pch'' = ([GroupSend 5 ClientEventRecheckFunds], Returns r)"
proof -
  obtain d where list: "ClientGroupList sample_client = Inr [d]" and "rclient_safe (NewParamsV0 0 10 0) 0 d"
    by (simp add: sample_client_def rclient_safe_def retrieve_deal_def NewParamsV0_def fits_def payable_def price_for_def)
  then have "\<forall>d' \<in> set [d]. \<exists>p B. rclient_safe p B d'" by auto
  from TryRestartInsufficientFunds_correct [OF list this, of "''pch''"] show ?thesis
    by (auto simp: sample_client_def TryRestartInsufficientFunds_def retrieve_deal_def)
qed

text \<open>
  C27. The blockstores that deals are served from are tracked under the deal id alone, which is unique to
  a client but not to the provider: when two clients use the same id, the second deal is served from
  the first deal's piece, and when the first deal is cleaned up the second has no store at all.
\<close>
theorem same_deal_id_shares_store:
  assumes "loadShard piece1 = Inr bs1" and "loadShard piece2 = Inr bs2" and "st (DealID_String dealID) = None"
    and "groupGet \<lparr>IdReceiver = client2, IdDealID = dealID\<rparr> = Inr deal2"
    and "closer bs1 = Some None"
  shows "\<exists>st1 st2 st3 load. pde_PrepareBlockstore loadShard dealID piece1 st = (None, st1) \<and>
    pde_PrepareBlockstore loadShard dealID piece2 st1 = (None, st2) \<and>
    psg_Get groupGet client2 dealID = Inr load \<and> load st2 = Inr bs1 \<and>
    pde_DeleteStore closer dealID st2 = (None, st3) \<and> load st3 = Inl (stores_not_found (DealID_String dealID))"
  using assms by (auto simp: pde_PrepareBlockstore_def psg_Get_def pde_DeleteStore_def RO_Track_def RO_Get_def
      RO_Untrack_def)

theorem same_deal_id_shares_store_witness:
  "\<exists>st1 st2. pde_PrepareBlockstore (\<lambda>c. Inr (if c = ''p1'' then 1 else (2 :: nat))) 7 ''p1'' Map.empty = (None, st1) \<and>
    pde_PrepareBlockstore (\<lambda>c. Inr (if c = ''p1'' then 1 else (2 :: nat))) 7 ''p2'' st1 = (None, st2) \<and>
    RO_Get (DealID_String 7) st2 = Inr 1"
  using same_deal_id_shares_store [of "\<lambda>c. Inr (if c = ''p1'' then 1 else (2 :: nat))" "''p1''" 1 "''p2''" 2 Map.empty 7
      "\<lambda>i. Inr (new_provider_deal (sample_proposal 7 100 50) ''peer'')" "''peer''" _ "\<lambda>b. Some None"]
  by (auto simp: psg_Get_def)

end
