(* ===== verification/Retrieval_Ask_Store.thy ===== *)
theory Retrieval_Ask_Store
  imports Retrieval_Types Datastore
begin

section \<open>Retrieval provider: the ask store\<close>

text \<open>
  \<open>retrievalmarket/impl/askstore/askstore_impl.go\<close>: the provider's current ask, kept in a datastore
  under one key and cached in memory. The datastore, its migrations and the CBOR codec are
  parameters (\<open>askstore_env\<close>); the locale \<open>ask_disk\<close> has the documented laws of the first and the
  last. The mutex makes every operation atomic.
\<close>

record ('s, 'v) askstore_env =
  AskDs :: "('s, 'v) ds_api"
  AskKey :: string
  BuildMigrations :: "go_error option"
  MigrateDs :: "'s \<Rightarrow> go_error option \<times> 's"
  DumpAsk :: "Ask option \<Rightarrow> go_error + 'v"
  ReadAsk :: "'v \<Rightarrow> go_error + Ask"

record 's AskStoreImpl =
  CachedAsk :: "Ask option"
  AskDisk :: 's

definition DefaultPricePerByte :: token_amount where "DefaultPricePerByte = 2"
definition DefaultUnsealPrice :: token_amount where "DefaultUnsealPrice = 0"
definition DefaultPaymentInterval :: uint64 where "DefaultPaymentInterval = push_bit 20 1"
definition DefaultPaymentIntervalIncrease :: uint64 where "DefaultPaymentIntervalIncrease = push_bit 20 1"

definition saveAsk ::
  "('s, 'v) askstore_env \<Rightarrow> Ask option \<Rightarrow> 's AskStoreImpl \<Rightarrow> go_error option \<times> 's AskStoreImpl" where
  "saveAsk env a s = on_err (DumpAsk env a)
     (\<lambda>err. (Some err, s))
     (\<lambda>b. case DsPut (AskDs env) (AskDisk s) (AskKey env) b of
        (Some err, d) \<Rightarrow> (Some err, s\<lparr>AskDisk := d\<rparr>)
      | (None, d) \<Rightarrow> (None, s\<lparr>AskDisk := d, CachedAsk := a\<rparr>))"

definition loadAsk ::
  "('s, 'v) askstore_env \<Rightarrow> 's AskStoreImpl \<Rightarrow> go_error option \<times> 's AskStoreImpl" where
  "loadAsk env s = on_err (DsGet (AskDs env) (AskDisk s) (AskKey env))
     (\<lambda>err. (Some (Wrap ''failed to load most recent retrieval ask from disk: '' err), s))
     (\<lambda>askb. on_err (ReadAsk env askb) (\<lambda>err. (Some err, s)) (\<lambda>ask. (None, s\<lparr>CachedAsk := Some ask\<rparr>)))"

definition tryLoadAsk ::
  "('s, 'v) askstore_env \<Rightarrow> 's AskStoreImpl \<Rightarrow> go_error option \<times> 's AskStoreImpl" where
  "tryLoadAsk env s = (case loadAsk env s of
     (Some err, s') \<Rightarrow> if errors_Is err DatastoreErrNotFound then (None, s') else (Some err, s')
   | (None, s') \<Rightarrow> (None, s'))"

definition GetAsk :: "'s AskStoreImpl \<Rightarrow> Ask option" where
  "GetAsk s = CachedAsk s"

definition SetAsk ::
  "('s, 'v) askstore_env \<Rightarrow> Ask option \<Rightarrow> 's AskStoreImpl \<Rightarrow> go_error option \<times> 's AskStoreImpl" where
  "SetAsk env ask s = saveAsk env ask s"

text \<open>\<open>SetAsk\<close> of the retrieval provider logs the error.\<close>

definition rp_SetAsk :: "('s, 'v) askstore_env \<Rightarrow> Ask option \<Rightarrow> 's AskStoreImpl \<Rightarrow> 's AskStoreImpl" where
  "rp_SetAsk env ask s = snd (SetAsk env ask s)"

definition defaultAsk :: Ask where
  "defaultAsk = \<lparr>AskPricePerByte = DefaultPricePerByte, AskUnsealPrice = Some DefaultUnsealPrice,
     AskPaymentInterval = DefaultPaymentInterval, AskPaymentIntervalIncrease = DefaultPaymentIntervalIncrease\<rparr>"

definition NewAskStore :: "('s, 'v) askstore_env \<Rightarrow> 's \<Rightarrow> go_error + 's AskStoreImpl" where
  "NewAskStore env ds = (case BuildMigrations env of
     Some err \<Rightarrow> Inl err
   | None \<Rightarrow> (case MigrateDs env ds of
       (Some err, _) \<Rightarrow> Inl err
     | (None, versionedDs) \<Rightarrow> (case tryLoadAsk env \<lparr>CachedAsk = None, AskDisk = versionedDs\<rparr> of
         (Some err, _) \<Rightarrow> Inl err
       | (None, s) \<Rightarrow> if CachedAsk s = None
           then (case SetAsk env (Some defaultAsk) s of
               (Some err, _) \<Rightarrow> Inl (Wrap ''failed setting a default retrieval ask: '' err)
             | (None, s') \<Rightarrow> Inr s')
           else Inr s)))"

lemmas ask_store_defs = saveAsk_def loadAsk_def tryLoadAsk_def GetAsk_def SetAsk_def

subsection \<open>The store keeps what was set\<close>

locale ask_disk = datastore "AskDs env" view for env :: "('s, 'v) askstore_env" and view +
  assumes ask_codec: "DumpAsk env (Some a) = Inr b \<Longrightarrow> ReadAsk env b = Inr a"
begin

definition disk_ask :: "'s AskStoreImpl \<Rightarrow> Ask option" where
  "disk_ask s = (case view (AskDisk s) (AskKey env) of
     None \<Rightarrow> None
   | Some b \<Rightarrow> (case ReadAsk env b of Inl _ \<Rightarrow> None | Inr a \<Rightarrow> Some a))"

end

sublocale ask_disk \<subseteq> persisted "\<lambda>a. SetAsk env (Some a)" "tryLoadAsk env"
  "\<lambda>s. s\<lparr>CachedAsk := None\<rparr>" CachedAsk disk_ask
proof (unfold_locales, goal_cases)
  case (1 a s s')
  then show ?case
    by (auto simp: ask_store_defs disk_ask_def split: on_err_splits prod.splits option.splits sum.splits
        dest!: ds_put dest: ask_codec)
next
  case (2 a s e s')
  then show ?case
    by (auto simp: ask_store_defs disk_ask_def split: on_err_splits prod.splits option.splits
        dest!: ds_put_err)
next
  case (3 s s')
  then show ?case
    by (auto simp: ask_store_defs disk_ask_def split: on_err_splits prod.splits option.splits sum.splits if_splits
        dest!: ds_get dest: ds_get_missing)
next
  case (4 s e s')
  then show ?case
    by (auto simp: ask_store_defs disk_ask_def split: on_err_splits prod.splits option.splits if_splits)
qed (simp_all add: ask_disk.disk_ask_def [OF ask_disk_axioms])

text \<open>A store over a datastore in memory whose values are the asks themselves.\<close>

definition memory_ask_env :: "(string \<rightharpoonup> Ask option, Ask option) askstore_env" where
  "memory_ask_env = \<lparr>AskDs = map_ds, AskKey = ''latest'', BuildMigrations = None,
     MigrateDs = (\<lambda>s. (None, s)), DumpAsk = Inr,
     ReadAsk = (\<lambda>v. case v of Some a \<Rightarrow> Inr a | None \<Rightarrow> Inl (New ''cbor input should be of type array''))\<rparr>"

interpretation memory_ask: ask_disk memory_ask_env id
proof -
  have ds: "AskDs memory_ask_env = map_ds" by (simp add: memory_ask_env_def)
  show "ask_disk memory_ask_env id"
    unfolding ask_disk_def ask_disk_axioms_def ds
    using map_ds.datastore_axioms by (simp add: memory_ask_env_def)
qed

lemma NewAskStore_loaded: "NewAskStore env ds = Inr s \<Longrightarrow> CachedAsk s \<noteq> None"
  by (auto simp: NewAskStore_def ask_store_defs split: option.splits prod.splits if_splits on_err_splits)

context ask_disk
begin

lemma set_then_new:
  assumes set: "SetAsk env (Some a) s = (None, s')" and new: "NewAskStore env (AskDisk s') = Inr s''"
    and current: "MigrateDs env (AskDisk s') = (None, AskDisk s')"
  shows "CachedAsk s'' = Some a"
proof -
  from new current obtain s1 where load: "tryLoadAsk env (s'\<lparr>CachedAsk := None\<rparr>) = (None, s1)"
    and s'': "CachedAsk s1 \<noteq> None \<Longrightarrow> s'' = s1"
    by (cases s') (auto simp: NewAskStore_def split: option.splits prod.splits if_splits)
  have "CachedAsk s1 = Some a" by (rule save_then_reload [OF set load])
  with s'' show ?thesis by simp
qed

lemma set_failed:
  "SetAsk env (Some a) s = (Some e, s') \<Longrightarrow> CachedAsk s' = CachedAsk s \<and> view (AskDisk s') = view (AskDisk s)"
  by (auto simp: ask_store_defs split: on_err_splits prod.splits option.splits dest!: ds_put_err)

end

text \<open>
  A provider always has an ask: a new ask store has one, and an ask that was set successfully is
  the ask of every store that is made later on the same datastore (after its migrations, which leave a
  current datastore alone), whatever was in the cache; an ask that could not be stored changes
  neither the cache nor the disk.
\<close>
theorem ask_survives_restart:
  assumes "ask_disk env view"
    and "SetAsk env (Some a) s = (r, s')"
    and "NewAskStore env (AskDisk s') = Inr s''" and "MigrateDs env (AskDisk s') = (None, AskDisk s')"
  shows "GetAsk s'' \<noteq> None \<and> (case r of
     None \<Rightarrow> GetAsk s' = Some a \<and> GetAsk s'' = Some a
   | Some _ \<Rightarrow> GetAsk s' = GetAsk s \<and> view (AskDisk s') = view (AskDisk s))"
proof (cases r)
  case None
  with assms(2) have set: "SetAsk env (Some a) s = (None, s')" by simp
  have "CachedAsk s' = Some a"
    using set by (auto simp: ask_store_defs split: on_err_splits prod.splits option.splits)
  with ask_disk.set_then_new [OF assms(1) set assms(3,4)] None show ?thesis by (simp add: GetAsk_def)
next
  case (Some e)
  with assms(2) have "SetAsk env (Some a) s = (Some e, s')" by simp
  from ask_disk.set_failed [OF assms(1) this] NewAskStore_loaded [OF assms(3)] Some
  show ?thesis by (simp add: GetAsk_def)
qed

definition sample_ask :: Ask where
  "sample_ask = \<lparr>AskPricePerByte = 7, AskUnsealPrice = Some 3, AskPaymentInterval = 100,
     AskPaymentIntervalIncrease = 50\<rparr>"

theorem ask_survives_restart_witness:
  "\<exists>s0 s' s''. NewAskStore memory_ask_env Map.empty = Inr s0 \<and> GetAsk s0 = Some defaultAsk \<and>
     SetAsk memory_ask_env (Some sample_ask) s0 = (None, s') \<and>
     NewAskStore memory_ask_env (AskDisk s') = Inr s'' \<and> GetAsk s'' = Some sample_ask"
proof -
  define s0 where "s0 = \<lparr>CachedAsk = Some defaultAsk, AskDisk = [''latest'' \<mapsto> Some defaultAsk]\<rparr>"
  define s' where "s' = \<lparr>CachedAsk = Some sample_ask, AskDisk = [''latest'' \<mapsto> Some sample_ask]\<rparr>"
  have "NewAskStore memory_ask_env Map.empty = Inr s0"
    by (simp add: NewAskStore_def ask_store_defs memory_ask_env_def map_ds_def s0_def)
  moreover have set: "SetAsk memory_ask_env (Some sample_ask) s0 = (None, s')"
    by (simp add: ask_store_defs memory_ask_env_def map_ds_def s0_def s'_def)
  moreover have new: "NewAskStore memory_ask_env (AskDisk s') = Inr s'"
    by (simp add: NewAskStore_def ask_store_defs memory_ask_env_def map_ds_def s'_def)
  moreover have "GetAsk s' = Some sample_ask"
  proof -
    have "MigrateDs memory_ask_env (AskDisk s') = (None, AskDisk s')" by (simp add: memory_ask_env_def)
    from ask_survives_restart [OF memory_ask.ask_disk_axioms set new this] show ?thesis by simp
  qed
  moreover have "GetAsk s0 = Some defaultAsk" by (simp add: GetAsk_def s0_def)
  ultimately show ?thesis by blast
qed

end
