(* ===== verification/Discovery_Local.thy ===== *)
theory Discovery_Local
  imports Retrieval_Types Datastore
begin

section \<open>Peer discovery\<close>

text \<open>
  \<open>discovery/impl/local.go\<close>: which peers a payload was stored with, kept in a datastore under the
  multihash of its CID. The datastore, the codec and the key function are the record
  \<open>discovery_env\<close>. Go compares two \<open>RetrievalPeer\<close>s field by field, and their piece CIDs, which are
  pointers, by address: a decoded piece CID is a new pointer, so it differs from every other.
\<close>

record ('s, 'v) discovery_env =
  PeersDs :: "('s, 'v) ds_api"
  MultihashToDsKey :: "cid \<Rightarrow> string"
  WritePeers :: "RetrievalPeer list \<Rightarrow> go_error + 'v"
  ReadPeers :: "'v \<Rightarrow> go_error + RetrievalPeer list"

definition same_peer :: "RetrievalPeer \<Rightarrow> RetrievalPeer \<Rightarrow> bool" where
  "same_peer decoded peer \<longleftrightarrow> PeerAddress decoded = PeerAddress peer \<and> PeerID decoded = PeerID peer \<and>
     PeerPieceCID decoded = None \<and> PeerPieceCID peer = None"

fun hasPeer :: "RetrievalPeer list \<Rightarrow> RetrievalPeer \<Rightarrow> bool" where
  "hasPeer [] peer = False"
| "hasPeer (p # ps) peer = (if same_peer p peer then True else hasPeer ps peer)"

definition AddPeer ::
  "('s, 'v) discovery_env \<Rightarrow> cid \<Rightarrow> RetrievalPeer \<Rightarrow> 's \<Rightarrow> go_error option \<times> 's" where
  "AddPeer env c peer s = (let key = MultihashToDsKey env c in
     on_err (DsHas (PeersDs env) s key)
       (\<lambda>err. (Some err, s))
       (\<lambda>exists.
          if \<not> exists
          then on_err (WritePeers env [peer]) (\<lambda>err. (Some err, s)) (\<lambda>b. DsPut (PeersDs env) s key b)
          else on_err (DsGet (PeersDs env) s key)
            (\<lambda>err. (Some err, s))
            (\<lambda>entry. on_err (ReadPeers env entry)
               (\<lambda>err. (Some err, s))
               (\<lambda>peers. if hasPeer peers peer then (None, s)
                  else on_err (WritePeers env (peers @ [peer])) (\<lambda>err. (Some err, s))
                    (\<lambda>b. DsPut (PeersDs env) s key b)))))"

text \<open>\<open>err == datastore.ErrNotFound\<close>: the error itself, not one that wraps it.\<close>

definition GetPeers :: "('s, 'v) discovery_env \<Rightarrow> cid \<Rightarrow> 's \<Rightarrow> go_error + RetrievalPeer list" where
  "GetPeers env payloadCID s = on_err (DsGet (PeersDs env) s (MultihashToDsKey env payloadCID))
     (\<lambda>err. case err of
        Sentinel k _ \<Rightarrow> if k = DatastoreErrNotFound then Inr [] else Inl err
      | _ \<Rightarrow> Inl err)
     (\<lambda>entry. ReadPeers env entry)"

definition Multi :: "'r \<Rightarrow> 'r" where
  "Multi r = r"

subsection \<open>What is found again\<close>

locale peers_disk = datastore "PeersDs env" view for env :: "('s, 'v) discovery_env" and view +
  assumes peers_codec: "WritePeers env ps = Inr b \<Longrightarrow> ReadPeers env b = Inr ps"
begin

text \<open>The peers on disk for a payload.\<close>

definition disk_peers :: "cid \<Rightarrow> 's \<Rightarrow> RetrievalPeer list option" where
  "disk_peers c s = (case view s (MultihashToDsKey env c) of
     None \<Rightarrow> Some [] | Some b \<Rightarrow> (case ReadPeers env b of Inl _ \<Rightarrow> None | Inr ps \<Rightarrow> Some ps))"

lemma GetPeers_disk: "GetPeers env c s = Inr ps \<Longrightarrow> disk_peers c s = Some ps"
  by (auto simp: GetPeers_def disk_peers_def split: on_err_splits go_error.splits if_splits sum.splits
      dest!: ds_get dest: ds_get_missing)

lemma AddPeer_disk:
  assumes "AddPeer env c peer s = (r, s')" and "disk_peers c s = Some ps"
  shows "disk_peers c s' = Some (if r = None \<and> \<not> hasPeer ps peer then ps @ [peer] else ps)"
proof (cases r)
  case None
  with assms show ?thesis
    by (auto simp: AddPeer_def disk_peers_def Let_def peers_codec split: on_err_splits if_splits option.splits sum.splits
        dest!: ds_has ds_get ds_put)
next
  case (Some e)
  with assms have "view s' = view s"
    by (auto simp: AddPeer_def Let_def split: on_err_splits if_splits dest!: ds_put_err)
  with Some assms(2) show ?thesis by (simp add: disk_peers_def)
qed

end

definition memory_peers_env :: "(string \<rightharpoonup> RetrievalPeer list, RetrievalPeer list) discovery_env" where
  "memory_peers_env = \<lparr>PeersDs = map_ds, MultihashToDsKey = (\<lambda>c. c), WritePeers = Inr, ReadPeers = Inr\<rparr>"

interpretation memory_peers: peers_disk memory_peers_env id
proof -
  have ds: "PeersDs memory_peers_env = map_ds" by (simp add: memory_peers_env_def)
  show "peers_disk memory_peers_env id"
    unfolding peers_disk_def peers_disk_axioms_def ds
    using map_ds.datastore_axioms by (simp add: memory_peers_env_def)
qed

lemma hasPeer_iff: "hasPeer ps peer \<longleftrightarrow> (\<exists>p \<in> set ps. same_peer p peer)"
  by (induction ps) auto

text \<open>
  After a peer was added for a payload, the peers found for the payload are those found before with
  the new one last, except that a peer without a piece CID that is there already is not added again.
  A peer with a piece CID is added again every time, even when the list has it; a failed operation
  changes nothing.
\<close>
theorem AddPeer_GetPeers:
  assumes "peers_disk env view" and "GetPeers env c s = Inr ps" and "AddPeer env c peer s = (r, s')"
    and "GetPeers env c s' = Inr ps'"
  shows "ps' = (if r = None \<and> \<not> (peer \<in> set ps \<and> PeerPieceCID peer = None) then ps @ [peer] else ps)"
proof -
  have "hasPeer ps peer \<longleftrightarrow> peer \<in> set ps \<and> PeerPieceCID peer = None"
    by (auto simp: hasPeer_iff same_peer_def intro!: RetrievalPeer.equality)
      (metis (full_types) RetrievalPeer.equality old.unit.exhaust)
  with peers_disk.AddPeer_disk [OF assms(1,3) peers_disk.GetPeers_disk [OF assms(1,2)]]
    peers_disk.GetPeers_disk [OF assms(1,4)] show ?thesis by simp
qed

theorem AddPeer_GetPeers_witness:
  "\<exists>s1 s2. AddPeer memory_peers_env ''root'' \<lparr>PeerAddress = ''f01'', PeerID = ''p'', PeerPieceCID = Some ''c''\<rparr> Map.empty = (None, s1) \<and>
     AddPeer memory_peers_env ''root'' \<lparr>PeerAddress = ''f01'', PeerID = ''p'', PeerPieceCID = Some ''c''\<rparr> s1 = (None, s2) \<and>
     GetPeers memory_peers_env ''root'' s2 = Inr [\<lparr>PeerAddress = ''f01'', PeerID = ''p'', PeerPieceCID = Some ''c''\<rparr>,
       \<lparr>PeerAddress = ''f01'', PeerID = ''p'', PeerPieceCID = Some ''c''\<rparr>]"
proof -
  define peer where "peer = \<lparr>PeerAddress = ''f01'', PeerID = ''p'', PeerPieceCID = Some ''c''\<rparr>"
  define s1 where "s1 = [''root'' \<mapsto> [peer]]"
  define s2 where "s2 = [''root'' \<mapsto> [peer, peer]]"
  note defs = AddPeer_def GetPeers_def memory_peers_env_def map_ds_def same_peer_def
  have "AddPeer memory_peers_env ''root'' peer Map.empty = (None, s1)" by (simp add: defs s1_def)
  moreover have add: "AddPeer memory_peers_env ''root'' peer s1 = (None, s2)"
    by (simp add: defs s1_def s2_def peer_def)
  moreover have "GetPeers memory_peers_env ''root'' s1 = Inr [peer]" by (simp add: defs s1_def)
  moreover have "GetPeers memory_peers_env ''root'' s2 = Inr [peer, peer]" by (simp add: defs s2_def)
  moreover have "[peer, peer] = [peer] @ [peer]"
    using AddPeer_GetPeers [OF memory_peers.peers_disk_axioms calculation(3,2,4)] by (simp add: peer_def)
  ultimately show ?thesis unfolding peer_def by blast
qed

end
