(* ===== verification/Storage_Migrations.thy ===== *)
theory Storage_Migrations
  imports Storage_Provider_Ops Storage_Provider_Correct
begin

section \<open>Storage market: old record formats\<close>

text \<open>
  \<open>storagemarket/migrations/migrations.go\<close> and \<open>migrations_mapenc_types.go\<close>: the records as older
  versions stored and sent them, and their conversions. Fields carry the version as a suffix. The
  proposal of the old market actor has the fields of the new one, with a label that is a plain string;
  \<open>utf8.ValidString\<close> and the two constructors of a label are the record \<open>label_lib\<close>. Running the
  migrations over a datastore is the versioning library's.
\<close>

record label_lib =
  ValidString :: "string \<Rightarrow> bool"
  NewLabelFromString :: "string \<Rightarrow> go_error + string"
  NewLabelFromBytes :: "string \<Rightarrow> go_error + string"

type_synonym ClientDealProposal = "DealProposal \<times> string"

record DataRef0 =
  TransferType0 :: string
  Root0 :: cid
  PieceCid0 :: "cid option"
  PieceSize0 :: uint64

record StorageAsk0 =
  Price0 :: token_amount
  VerifiedPrice0 :: token_amount
  MinPieceSize0 :: uint64
  MaxPieceSize0 :: uint64
  AskMiner0 :: address
  Timestamp0 :: chain_epoch
  Expiry0 :: chain_epoch
  SeqNo0 :: uint64

record SignedStorageAsk0 =
  Ask0 :: "StorageAsk0 option"
  Signature0 :: "string option"

record MinerDeal0 =
  ClientDealProposal0 :: ClientDealProposal
  ProposalCid0 :: cid
  AddFundsCid0 :: "cid option"
  PublishCid0 :: "cid option"
  Miner0 :: peer_id
  Client0 :: peer_id
  State0 :: StorageDealStatus
  PiecePath0 :: string
  MetadataPath0 :: string
  SlashEpoch0 :: chain_epoch
  FastRetrieval0 :: bool
  Message0 :: string
  StoreID0 :: "uint64 option"
  FundsReserved0 :: "token_amount option"
  Ref0 :: "DataRef0 option"
  AvailableForRetrieval0 :: bool
  DealID0 :: uint64
  CreationTime0 :: int

record MinerDeal1 =
  ClientDealProposal1 :: ClientDealProposal
  ProposalCid1 :: cid
  AddFundsCid1 :: "cid option"
  PublishCid1 :: "cid option"
  Miner1 :: peer_id
  Client1 :: peer_id
  State1 :: StorageDealStatus
  PiecePath1 :: string
  MetadataPath1 :: string
  SlashEpoch1 :: chain_epoch
  FastRetrieval1 :: bool
  Message1 :: string
  FundsReserved1 :: "token_amount option"
  Ref1 :: "DataRef option"
  AvailableForRetrieval1 :: bool
  DealID1 :: uint64
  CreationTime1 :: int
  TransferChannelId1 :: "channel_id option"
  SectorNumber1 :: uint64
  InboundCAR1 :: string

record ClientDeal0 =
  CdClientDealProposal0 :: ClientDealProposal
  CdProposalCid0 :: cid
  CdAddFundsCid0 :: "cid option"
  CdState0 :: StorageDealStatus
  CdMiner0 :: peer_id
  CdMinerWorker0 :: address
  CdDealID0 :: uint64
  CdDataRef0 :: "DataRef0 option"
  CdMessage0 :: string
  CdPublishMessage0 :: "cid option"
  CdSlashEpoch0 :: chain_epoch
  CdPollRetryCount0 :: uint64
  CdPollErrorCount0 :: uint64
  CdFastRetrieval0 :: bool
  CdStoreID0 :: "uint64 option"
  CdFundsReserved0 :: "token_amount option"
  CdCreationTime0 :: int

record ProviderDealState0 =
  PDState0 :: StorageDealStatus
  PDMessage0 :: string
  PDProposal0 :: "DealProposal option"
  PDProposalCid0 :: "cid option"
  PDAddFundsCid0 :: "cid option"
  PDPublishCid0 :: "cid option"
  PDDealID0 :: uint64
  PDFastRetrieval0 :: bool

record Proposal0 =
  DealProposal0 :: "ClientDealProposal option"
  Piece0 :: "DataRef0 option"
  MsgFastRetrieval0 :: bool

record Proposal1 =
  DealProposal1 :: "ClientDealProposal option"
  Piece1 :: "DataRef option"
  MsgFastRetrieval1 :: bool

record Response0 =
  RespState0 :: StorageDealStatus
  RespMessage0 :: string
  RespProposal0 :: cid
  RespPublishMessage0 :: "cid option"

record SignedResponse0 =
  ResponseOf0 :: Response0
  RespSignature0 :: "string option"

record DealStatusRequest0 =
  ReqProposal0 :: cid
  ReqSignature0 :: string

record DealStatusResponse0 =
  DealStateOf0 :: ProviderDealState0
  StatusSignature0 :: string

subsection \<open>Conversions\<close>

definition MigrateDataRef0To1 :: "DataRef0 option \<Rightarrow> DataRef option" where
  "MigrateDataRef0To1 oldDr = (case oldDr of
     None \<Rightarrow> None
   | Some dr \<Rightarrow> Some \<lparr>TransferType = TransferType0 dr, Root = Root0 dr, PieceCid = PieceCid0 dr,
       RefPieceSize = PieceSize0 dr, RawBlockSize = 0\<rparr>)"

definition MigrateClientDeal0To1 :: "ClientDeal0 \<Rightarrow> go_error + ClientDeal" where
  "MigrateClientDeal0To1 oldCd = Inr \<lparr>ClientDeal.Proposal = fst (CdClientDealProposal0 oldCd),
     ClientSignature = snd (CdClientDealProposal0 oldCd), ProposalCid = CdProposalCid0 oldCd,
     AddFundsCid = CdAddFundsCid0 oldCd, State = CdState0 oldCd, Miner = CdMiner0 oldCd,
     MinerWorker = CdMinerWorker0 oldCd, DealID = CdDealID0 oldCd,
     DataRefOf = MigrateDataRef0To1 (CdDataRef0 oldCd), Message = CdMessage0 oldCd, DealStagesOf = None,
     PublishMessage = CdPublishMessage0 oldCd, SlashEpoch = CdSlashEpoch0 oldCd,
     PollRetryCount = CdPollRetryCount0 oldCd, PollErrorCount = CdPollErrorCount0 oldCd,
     FastRetrieval = CdFastRetrieval0 oldCd, FundsReserved = CdFundsReserved0 oldCd,
     CreationTime = CdCreationTime0 oldCd, TransferChannelID = None, SectorNumber = 0\<rparr>"

definition MigrateMinerDeal0To1 :: "MinerDeal0 \<Rightarrow> go_error + MinerDeal1" where
  "MigrateMinerDeal0To1 oldCd = Inr \<lparr>ClientDealProposal1 = ClientDealProposal0 oldCd,
     ProposalCid1 = ProposalCid0 oldCd, AddFundsCid1 = AddFundsCid0 oldCd, PublishCid1 = PublishCid0 oldCd,
     Miner1 = Miner0 oldCd, Client1 = Client0 oldCd, State1 = State0 oldCd, PiecePath1 = PiecePath0 oldCd,
     MetadataPath1 = MetadataPath0 oldCd, SlashEpoch1 = SlashEpoch0 oldCd,
     FastRetrieval1 = FastRetrieval0 oldCd, Message1 = Message0 oldCd, FundsReserved1 = FundsReserved0 oldCd,
     Ref1 = MigrateDataRef0To1 (Ref0 oldCd), AvailableForRetrieval1 = AvailableForRetrieval0 oldCd,
     DealID1 = DealID0 oldCd, CreationTime1 = CreationTime0 oldCd, TransferChannelId1 = None,
     SectorNumber1 = 0, InboundCAR1 = []\<rparr>"

definition MigrateClientDealProposal0To1 :: "label_lib \<Rightarrow> ClientDealProposal \<Rightarrow> go_error + ClientDealProposal" where
  "MigrateClientDealProposal0To1 ll prop =
     (let oldLabel = Label (fst prop);
          newProp = (\<lambda>newLabel. Inr (\<lparr>PieceCID = PieceCID (fst prop), PieceSize = PieceSize (fst prop),
            VerifiedDeal = VerifiedDeal (fst prop), ProposalClient = ProposalClient (fst prop),
            Provider = Provider (fst prop), Label = newLabel, StartEpoch = StartEpoch (fst prop),
            EndEpoch = EndEpoch (fst prop), StoragePricePerEpoch = StoragePricePerEpoch (fst prop),
            ProviderCollateral = ProviderCollateral (fst prop),
            ClientCollateral = ClientCollateral (fst prop)\<rparr>, snd prop))
      in if ValidString ll oldLabel
         then on_err (NewLabelFromString ll oldLabel)
           (\<lambda>err. Inl (Wrap ''migrating deal label to DealLabel (string): '' err)) newProp
         else on_err (NewLabelFromBytes ll oldLabel)
           (\<lambda>err. Inl (Wrap ''migrating deal label to DealLabel (byte): '' err)) newProp)"

text \<open>The literal of the new deal does not name \<open>TransferChannelId\<close>, \<open>SectorNumber\<close> and \<open>InboundCAR\<close>.\<close>

definition MigrateMinerDeal1To2 :: "label_lib \<Rightarrow> MinerDeal1 \<Rightarrow> go_error + MinerDeal" where
  "MigrateMinerDeal1To2 ll oldCd = on_err (MigrateClientDealProposal0To1 ll (ClientDealProposal1 oldCd))
     (\<lambda>err. Inl (Wrap (''migrating deal with proposal cid '' @ ProposalCid1 oldCd @ '': '') err))
     (\<lambda>clientDealProp. Inr \<lparr>MinerDeal.Proposal = fst clientDealProp, ClientSignature = snd clientDealProp,
        ProposalCid = ProposalCid1 oldCd, AddFundsCid = AddFundsCid1 oldCd, PublishCid = PublishCid1 oldCd,
        Miner = Miner1 oldCd, Client = Client1 oldCd, State = State1 oldCd, PiecePath = PiecePath1 oldCd,
        MetadataPath = MetadataPath1 oldCd, SlashEpoch = SlashEpoch1 oldCd,
        FastRetrieval = FastRetrieval1 oldCd, Message = Message1 oldCd, FundsReserved = FundsReserved1 oldCd,
        Ref = Ref1 oldCd, AvailableForRetrieval = AvailableForRetrieval1 oldCd, DealID = DealID1 oldCd,
        CreationTime = CreationTime1 oldCd, TransferChannelId = None, SectorNumber = 0, InboundCAR = []\<rparr>)"

definition MigrateStorageAsk0To1 :: "StorageAsk0 \<Rightarrow> StorageAsk" where
  "MigrateStorageAsk0To1 oldSa = \<lparr>Price = Price0 oldSa, VerifiedPrice = VerifiedPrice0 oldSa,
     AskMinPieceSize = MinPieceSize0 oldSa, AskMaxPieceSize = MaxPieceSize0 oldSa, AskMiner = AskMiner0 oldSa,
     Timestamp = Timestamp0 oldSa, Expiry = Expiry0 oldSa, SeqNo = SeqNo0 oldSa\<rparr>"

text \<open>A nil ask is dereferenced.\<close>

definition GetMigrateSignedStorageAsk0To1 ::
  "(StorageAsk \<Rightarrow> go_error + string option) \<Rightarrow> SignedStorageAsk0 \<Rightarrow> (go_error + SignedStorageAsk) go_run" where
  "GetMigrateSignedStorageAsk0To1 sign oldSsa = (case Ask0 oldSsa of
     None \<Rightarrow> Panics
   | Some ask \<Rightarrow> Returns (on_err (sign (MigrateStorageAsk0To1 ask)) Inl
       (\<lambda>sig. Inr \<lparr>Ask = Some (MigrateStorageAsk0To1 ask), Signature = sig\<rparr>)))"

text \<open>The versions with the keys that a step leaves alone, since they hold asks.\<close>

definition ask_keys :: "string list" where
  "ask_keys = [''/latest-ask'', ''/storage-ask/latest'', ''/storage-ask/1/latest'', ''/storage-ask/versions/current'']"

definition ClientMigrations :: "(string \<times> string \<times> string list) list" where
  "ClientMigrations = [('''', ''1'', [])]"

definition ProviderMigrations :: "(string \<times> string \<times> string list) list" where
  "ProviderMigrations = [('''', ''1'', ask_keys), (''1'', ''2'', ask_keys)]"

subsection \<open>What a migrated deal keeps\<close>

text \<open>A deal of version 1 with every field carried over, and the new label.\<close>

definition carried_over :: "string \<Rightarrow> MinerDeal1 \<Rightarrow> MinerDeal" where
  "carried_over label d = \<lparr>MinerDeal.Proposal = (fst (ClientDealProposal1 d))\<lparr>Label := label\<rparr>,
     ClientSignature = snd (ClientDealProposal1 d), ProposalCid = ProposalCid1 d, AddFundsCid = AddFundsCid1 d,
     PublishCid = PublishCid1 d, Miner = Miner1 d, Client = Client1 d, State = State1 d,
     PiecePath = PiecePath1 d, MetadataPath = MetadataPath1 d, SlashEpoch = SlashEpoch1 d,
     FastRetrieval = FastRetrieval1 d, Message = Message1 d, FundsReserved = FundsReserved1 d, Ref = Ref1 d,
     AvailableForRetrieval = AvailableForRetrieval1 d, DealID = DealID1 d, CreationTime = CreationTime1 d,
     TransferChannelId = TransferChannelId1 d, SectorNumber = SectorNumber1 d, InboundCAR = InboundCAR1 d\<rparr>"

definition new_label :: "label_lib \<Rightarrow> string \<Rightarrow> go_error + string" where
  "new_label ll old = (if ValidString ll old then NewLabelFromString ll old else NewLabelFromBytes ll old)"

lemma MigrateMinerDeal1To2_Inr_iff:
  "MigrateMinerDeal1To2 ll d = Inr d' \<longleftrightarrow> (\<exists>label. new_label ll (Label (fst (ClientDealProposal1 d))) = Inr label \<and>
     d' = (carried_over label d)\<lparr>MinerDeal.TransferChannelId := None, MinerDeal.SectorNumber := 0, InboundCAR := []\<rparr>)"
  by (auto simp: MigrateMinerDeal1To2_def MigrateClientDealProposal0To1_def new_label_def carried_over_def
    Let_def split: on_err_splits if_splits)

text \<open>
  C32. Migrating a provider's deal to the current format keeps every field, with the label in its new
  form, except the transfer channel, the sector number and the path of the CAR file that its data was
  received in: these are reset. A deal that was transferred over the network and published before the
  migration has no other path to its data, so that its handoff to sealing fails, and when the deal then
  fails the file is not removed. A deal of the first format, which had none of these fields, loses nothing.
\<close>
theorem migrated_deal_loses_data:
  assumes "MigrateMinerDeal1To2 ll d = Inr d'" and "PiecePath1 d = []" and "ReadCAR env [] = Inl err"
  shows "(\<exists>label. new_label ll (Label (fst (ClientDealProposal1 d))) = Inr label \<and>
      d' = (carried_over label d)\<lparr>MinerDeal.TransferChannelId := None, MinerDeal.SectorNumber := 0, InboundCAR := []\<rparr>) \<and>
    HandoffDeal env d' = [Trig ProviderEventDealHandoffFailed [AErr (Wrap
      (''failed to open CARv2 file, proposalCid='' @ ProposalCid1 d @ '': '') err)]] \<and>
    Call (CTerminateBlockstore (ProposalCid1 d) (InboundCAR1 d)) \<notin> set (Storage_Provider_States.FailDeal env d') \<and>
    (\<exists>d1. MigrateMinerDeal0To1 d0 = Inr d1 \<and> (MigrateMinerDeal1To2 ll d1 = Inr d2 \<longrightarrow>
      (\<exists>label. d2 = carried_over label d1)))"
proof (intro conjI)
  from assms(1) obtain label where label: "new_label ll (Label (fst (ClientDealProposal1 d))) = Inr label"
    and d': "d' = (carried_over label d)\<lparr>MinerDeal.TransferChannelId := None, MinerDeal.SectorNumber := 0, InboundCAR := []\<rparr>"
    unfolding MigrateMinerDeal1To2_Inr_iff by blast
  then show "\<exists>label. new_label ll (Label (fst (ClientDealProposal1 d))) = Inr label \<and>
      d' = (carried_over label d)\<lparr>MinerDeal.TransferChannelId := None, MinerDeal.SectorNumber := 0, InboundCAR := []\<rparr>"
    by blast
  show "HandoffDeal env d' = [Trig ProviderEventDealHandoffFailed [AErr (Wrap
      (''failed to open CARv2 file, proposalCid='' @ ProposalCid1 d @ '': '') err)]]"
    unfolding d' using assms(2,3) by (simp add: HandoffDeal_def carried_over_def)
  show "Call (CTerminateBlockstore (ProposalCid1 d) (InboundCAR1 d)) \<notin> set (Storage_Provider_States.FailDeal env d')"
    unfolding d' by (auto simp: Storage_Provider_States.FailDeal_def delete_files_def
      Storage_Provider_States.releaseReservedFunds_def carried_over_def split: option.splits)
  show "\<exists>d1. MigrateMinerDeal0To1 d0 = Inr d1 \<and> (MigrateMinerDeal1To2 ll d1 = Inr d2 \<longrightarrow>
      (\<exists>label. d2 = carried_over label d1))"
    unfolding MigrateMinerDeal1To2_Inr_iff by (auto simp: MigrateMinerDeal0To1_def carried_over_def)
qed

text \<open>A deal that waits to be published, its data in a file.\<close>

definition sample_labels :: label_lib where
  "sample_labels = \<lparr>ValidString = (\<lambda>s. True), NewLabelFromString = Inr, NewLabelFromBytes = Inr\<rparr>"

definition sample_deal1 :: MinerDeal1 where
  "sample_deal1 = \<lparr>ClientDealProposal1 = (\<lparr>PieceCID = ''piece'', PieceSize = 256, VerifiedDeal = False,
     ProposalClient = ''f02'', Provider = ''f01'', Label = ''l'', StartEpoch = 1, EndEpoch = 2,
     StoragePricePerEpoch = 1, ProviderCollateral = 0, ClientCollateral = 0\<rparr>, ''sig''),
     ProposalCid1 = ''prop'', AddFundsCid1 = None, PublishCid1 = None, Miner1 = ''pm'', Client1 = ''pc'',
     State1 = StorageDealStaged, PiecePath1 = [], MetadataPath1 = [], SlashEpoch1 = 0, FastRetrieval1 = True,
     Message1 = [], FundsReserved1 = None, Ref1 = None, AvailableForRetrieval1 = False, DealID1 = 7,
     CreationTime1 = 0, TransferChannelId1 = Some ''ch'', SectorNumber1 = 3, InboundCAR1 = ''/tmp/car''\<rparr>"

theorem migrated_deal_loses_data_witness:
  "\<exists>d'. MigrateMinerDeal1To2 sample_labels sample_deal1 = Inr d' \<and> InboundCAR1 sample_deal1 = ''/tmp/car'' \<and>
     HandoffDeal (sample_env\<lparr>ReadCAR := (\<lambda>path. if path = ''/tmp/car'' then Inr 200 else Inl (New ''no such file''))\<rparr>) d' =
       [Trig ProviderEventDealHandoffFailed [AErr (Wrap ''failed to open CARv2 file, proposalCid=prop: ''
          (New ''no such file''))]]"
proof -
  define env where "env = sample_env\<lparr>ReadCAR := (\<lambda>path. if path = ''/tmp/car'' then Inr 200 else Inl (New ''no such file''))\<rparr>"
  have car: "ReadCAR env [] = Inl (New ''no such file'')" by (simp add: env_def)
  obtain d' where run: "MigrateMinerDeal1To2 sample_labels sample_deal1 = Inr d'"
    by (simp add: MigrateMinerDeal1To2_def MigrateClientDealProposal0To1_def sample_labels_def Let_def)
  have path: "PiecePath1 sample_deal1 = []" by (simp add: sample_deal1_def)
  from migrated_deal_loses_data [OF run path car, THEN conjunct2, THEN conjunct1]
  have "HandoffDeal env d' = [Trig ProviderEventDealHandoffFailed [AErr (Wrap ''failed to open CARv2 file, proposalCid=prop: ''
          (New ''no such file''))]]" by (simp add: sample_deal1_def)
  with run show ?thesis unfolding env_def by (auto simp: sample_deal1_def)
qed

end
