(* ===== verification/Retry_Stream.thy ===== *)
theory Retry_Stream
  imports Market_Prelude Complex_Main
begin

section \<open>Opening streams\<close>

text \<open>
  \<open>shared/retrystream.go\<close>: a stream is tried for until it opens, the attempts are used up, or the
  context is cancelled while waiting. \<open>newStream n\<close> is what the opener answers the \<open>n\<close>-th time it is
  asked, \<open>cancelled n\<close> whether the context ends during the wait after that. The \<open>float64\<close> settings are
  numbers (\<open>rat\<close>), so not NaN; durations are in nanoseconds.
\<close>

definition defaultMaxStreamOpenAttempts :: rat where
  "defaultMaxStreamOpenAttempts = 5"

definition defaultMinAttemptDuration :: int where
  "defaultMinAttemptDuration = 1000000000"

definition defaultMaxAttemptDuration :: int where
  "defaultMaxAttemptDuration = 300000000000"

definition defaultBackoffFactor :: rat where
  "defaultBackoffFactor = 5"

record RetryStream =
  backoffFactor :: rat
  maxStreamOpenAttempts :: rat
  minAttemptDuration :: int
  maxAttemptDuration :: int

type_synonym RetryStreamOption = "RetryStream \<Rightarrow> RetryStream"

text \<open>The given backoff factor is dropped.\<close>

definition RetryParameters :: "int \<Rightarrow> int \<Rightarrow> rat \<Rightarrow> rat \<Rightarrow> RetryStreamOption" where
  "RetryParameters minDuration maxDuration attempts factor impl =
     impl\<lparr>maxStreamOpenAttempts := attempts, minAttemptDuration := minDuration, maxAttemptDuration := maxDuration\<rparr>"

definition SetOptions :: "RetryStreamOption list \<Rightarrow> RetryStream \<Rightarrow> RetryStream" where
  "SetOptions options impl = fold (\<lambda>option impl. option impl) options impl"

definition NewRetryStream :: "RetryStreamOption list \<Rightarrow> RetryStream" where
  "NewRetryStream options = SetOptions options \<lparr>backoffFactor = defaultBackoffFactor,
     maxStreamOpenAttempts = defaultMaxStreamOpenAttempts, minAttemptDuration = defaultMinAttemptDuration,
     maxAttemptDuration = defaultMaxAttemptDuration\<rparr>"

text \<open>The factor of the backoff is the number of attempts.\<close>

definition backoff_settings :: "RetryStream \<Rightarrow> int \<times> int \<times> rat" where
  "backoff_settings impl = (minAttemptDuration impl, maxAttemptDuration impl, maxStreamOpenAttempts impl)"

text \<open>Conversion to an integer truncates.\<close>

definition int_of_float :: "rat \<Rightarrow> int" where
  "int_of_float x = (if x < 0 then \<lceil>x\<rceil> else \<lfloor>x\<rfloor>)"

text \<open>The outcome with the number of times the opener was asked; \<open>n\<close> is the backoff's counter.\<close>

function open_loop ::
  "(nat \<Rightarrow> go_error + 'st) \<Rightarrow> (nat \<Rightarrow> bool) \<Rightarrow> string \<Rightarrow> rat \<Rightarrow> nat \<Rightarrow> (go_error + 'st) \<times> nat" where
  "open_loop newStream cancelled peer maxAttempts n = (case newStream n of
     Inr s \<Rightarrow> (Inr s, n + 1)
   | Inl err \<Rightarrow>
       if of_nat n + 1 \<ge> maxAttempts
       then (Inl (Wrap (''exhausted '' @ show_int (int_of_float maxAttempts) @ '' attempts but failed to open stream, err: '') err), n + 1)
       else if cancelled n
       then (Inl (New (''open stream to '' @ peer @ '' canceled by context'')), n + 1)
       else open_loop newStream cancelled peer maxAttempts (n + 1))"
  by pat_completeness auto

termination
proof (relation "measure (\<lambda>(_, _, _, maxAttempts, n). nat \<lceil>maxAttempts\<rceil> - n)")
  fix newStream :: "nat \<Rightarrow> go_error + 'st" and cancelled :: "nat \<Rightarrow> bool" and peer err n and maxAttempts :: rat
  assume "\<not> maxAttempts \<le> of_nat n + 1"
  then have "int n + 1 < \<lceil>maxAttempts\<rceil>" by (simp add: less_ceiling_iff)
  then show "((newStream, cancelled, peer, maxAttempts, n + 1), newStream, cancelled, peer, maxAttempts, n)
    \<in> measure (\<lambda>(_, _, _, maxAttempts, n). nat \<lceil>maxAttempts\<rceil> - n)" by simp
qed simp

declare open_loop.simps [simp del]

definition OpenStream ::
  "RetryStream \<Rightarrow> (nat \<Rightarrow> go_error + 'st) \<Rightarrow> (nat \<Rightarrow> bool) \<Rightarrow> string \<Rightarrow> (go_error + 'st) \<times> nat" where
  "OpenStream impl newStream cancelled peer = open_loop newStream cancelled peer (maxStreamOpenAttempts impl) 0"

text \<open>Asked from the \<open>n\<close>-th time on, the first attempt that opens within the limit, with no cancellation
  before it, is the one that counts.\<close>

lemma open_loop_attempts:
  "n < snd (open_loop newStream cancelled peer maxAttempts n) \<and>
   snd (open_loop newStream cancelled peer maxAttempts n) \<le> max (n + 1) (nat \<lceil>maxAttempts\<rceil>)"
proof (induction newStream cancelled peer maxAttempts n rule: open_loop.induct)
  case (1 newStream cancelled peer maxAttempts n)
  show ?case
  proof (cases "newStream n")
    case (Inl err)
    show ?thesis
    proof (cases "of_nat n + 1 \<ge> maxAttempts \<or> cancelled n")
      case False
      then have less: "int n + 1 < \<lceil>maxAttempts\<rceil>" by (simp add: less_ceiling_iff)
      from False have step: "open_loop newStream cancelled peer maxAttempts n =
          open_loop newStream cancelled peer maxAttempts (n + 1)"
        by (subst open_loop.simps) (simp add: Inl)
      from 1 [OF Inl] False less show ?thesis unfolding step by auto
    qed (auto simp: Inl open_loop.simps [of _ _ _ _ n])
  qed (simp add: open_loop.simps [of _ _ _ _ n])
qed

lemma open_loop_Inr_iff:
  "fst (open_loop newStream cancelled peer maxAttempts n) = Inr s \<longleftrightarrow>
   (\<exists>k \<ge> n. newStream k = Inr s \<and> (k = n \<or> of_nat k < maxAttempts) \<and>
      (\<forall>j. n \<le> j \<longrightarrow> j < k \<longrightarrow> isl (newStream j) \<and> \<not> cancelled j))"
proof (induction newStream cancelled peer maxAttempts n rule: open_loop.induct)
  case (1 newStream cancelled peer maxAttempts n)
  have later: "(\<exists>k \<ge> n. newStream k = Inr s \<and> (k = n \<or> of_nat k < maxAttempts) \<and>
      (\<forall>j. n \<le> j \<longrightarrow> j < k \<longrightarrow> isl (newStream j) \<and> \<not> cancelled j)) \<longleftrightarrow>
    newStream n = Inr s \<or> isl (newStream n) \<and> \<not> cancelled n \<and> (\<exists>k \<ge> n + 1. newStream k = Inr s \<and>
      of_nat k < maxAttempts \<and> (\<forall>j. n + 1 \<le> j \<longrightarrow> j < k \<longrightarrow> isl (newStream j) \<and> \<not> cancelled j))"
    (is "?some \<longleftrightarrow> ?now \<or> ?later")
  proof
    assume ?some
    then obtain k where k: "n \<le> k" "newStream k = Inr s" "k = n \<or> of_nat k < maxAttempts"
      and before: "\<forall>j. n \<le> j \<longrightarrow> j < k \<longrightarrow> isl (newStream j) \<and> \<not> cancelled j" by blast
    show "?now \<or> ?later"
    proof (cases "k = n")
      case False
      with k(1) have "n < k" by simp
      with before k False show ?thesis by (intro disjI2 conjI exI [of _ k]) auto
    qed (use k in simp)
  next
    assume "?now \<or> ?later"
    then show ?some
    proof
      assume ?later
      then obtain k where k: "n + 1 \<le> k" "newStream k = Inr s" "of_nat k < maxAttempts"
        and first: "isl (newStream n) \<and> \<not> cancelled n"
        and before: "\<And>j. n + 1 \<le> j \<Longrightarrow> j < k \<Longrightarrow> isl (newStream j) \<and> \<not> cancelled j" by blast
      have "isl (newStream j) \<and> \<not> cancelled j" if "n \<le> j" "j < k" for j
        using that first before [of j] by (cases "j = n") auto
      with k show ?some by (intro exI [of _ k]) auto
    qed auto
  qed
  show ?case
  proof (cases "newStream n")
    case (Inl err)
    show ?thesis
    proof (cases "of_nat n + 1 \<ge> maxAttempts \<or> cancelled n")
      case True
      then have "fst (open_loop newStream cancelled peer maxAttempts n) \<noteq> Inr s"
        by (auto simp: Inl open_loop.simps [of _ _ _ _ n])
      moreover have "\<not> of_nat k < maxAttempts" if "n + 1 \<le> k" "of_nat n + 1 \<ge> maxAttempts" for k
        using that by (metis Suc_eq_plus1 le_less_trans linorder_not_less of_nat_1 of_nat_add of_nat_le_iff)
      ultimately show ?thesis unfolding later using True Inl by auto
    next
      case False
      then have step: "open_loop newStream cancelled peer maxAttempts n =
          open_loop newStream cancelled peer maxAttempts (n + 1)"
        by (subst open_loop.simps) (simp add: Inl)
      from False have more: "of_nat (n + 1) < maxAttempts" by simp
      from False 1 [OF Inl] show ?thesis unfolding later step using more Inl False by auto
    qed
  qed (unfold later, auto simp: open_loop.simps [of _ _ _ _ n])
qed

text \<open>
  Opening a stream ends: the opener is asked at least once and otherwise no more often than the
  number of attempts that is set, and a stream is returned exactly when one of these attempts opens
  it before the context is cancelled during a wait; it is the first that opens.
\<close>
theorem OpenStream_attempts:
  "(0 < snd (OpenStream impl newStream cancelled peer) \<and>
    snd (OpenStream impl newStream cancelled peer) \<le> max 1 (nat \<lceil>maxStreamOpenAttempts impl\<rceil>)) \<and>
   (fst (OpenStream impl newStream cancelled peer) = Inr s \<longleftrightarrow>
    (\<exists>k. newStream k = Inr s \<and> (k = 0 \<or> of_nat k < maxStreamOpenAttempts impl) \<and>
      (\<forall>j<k. isl (newStream j) \<and> \<not> cancelled j)))"
  unfolding OpenStream_def
  using open_loop_attempts [of 0 newStream cancelled peer "maxStreamOpenAttempts impl"]
    open_loop_Inr_iff [of newStream cancelled peer "maxStreamOpenAttempts impl" 0 s] by simp

text \<open>Three failures, then the stream opens, within the five attempts of the default settings.\<close>

theorem OpenStream_attempts_witness:
  "fst (OpenStream (NewRetryStream []) (\<lambda>k. if k < 3 then Inl (New ''refused'') else Inr k) (\<lambda>k. False) ''p'') = Inr 3"
proof -
  have "\<exists>k. (if k < 3 then Inl (New ''refused'') else Inr k) = Inr (3::nat) \<and>
     (k = 0 \<or> of_nat k < maxStreamOpenAttempts (NewRetryStream [])) \<and>
     (\<forall>j<k. isl (if j < 3 then Inl (New ''refused'') else Inr j) \<and> \<not> False)"
    by (intro exI [of _ 3]) (simp add: NewRetryStream_def SetOptions_def defaultMaxStreamOpenAttempts_def)
  with OpenStream_attempts [of "NewRetryStream []" "\<lambda>k. if k < 3 then Inl (New ''refused'') else Inr k"
      "\<lambda>k. False" "''p''" 3] show ?thesis by blast
qed

end
