(* ===== verification/Storage_Streams.thy ===== *)
theory Storage_Streams
  imports Storage_Migrations Storage_Client_Ops Retry_Stream
begin

section \<open>Storage market: protocol streams\<close>

text \<open>
  \<open>storagemarket/network\<close>: the streams of the ask, deal and deal status protocols in the versions that
  are spoken, and the choice between them. A stream of an old version converts what it reads and
  writes to the old records, and signs a response again when it converts it. What travels on the wire
  (\<open>'w\<close>) is made and read by the generated codecs, the record \<open>storage_wire\<close>; its laws, that a decoder
  reads back what the encoder wrote, are the locale \<open>storage_codec\<close>. \<open>send\<close> is what writing to the
  connection answers.
\<close>

record 'w storage_wire =
  EncAskRequest :: "address \<Rightarrow> 'w"
  DecAskRequest :: "'w \<Rightarrow> go_error + address"
  EncAskRequest0 :: "address \<Rightarrow> 'w"
  DecAskRequest0 :: "'w \<Rightarrow> go_error + address"
  EncAskResponse :: "SignedStorageAsk option \<Rightarrow> 'w"
  DecAskResponse :: "'w \<Rightarrow> go_error + SignedStorageAsk option"
  EncAskResponse0 :: "SignedStorageAsk0 option \<Rightarrow> 'w"
  DecAskResponse0 :: "'w \<Rightarrow> go_error + SignedStorageAsk0 option"
  EncProposal :: "ProposalMsg \<Rightarrow> 'w"
  DecProposal :: "'w \<Rightarrow> go_error + ProposalMsg"
  DecProposal1 :: "'w \<Rightarrow> go_error + Proposal1"
  EncProposal0 :: "Proposal0 \<Rightarrow> 'w"
  DecProposal0 :: "'w \<Rightarrow> go_error + Proposal0"
  EncSignedResponse :: "SignedResponse \<Rightarrow> 'w"
  DecSignedResponse :: "'w \<Rightarrow> go_error + SignedResponse"
  EncSignedResponse0 :: "SignedResponse0 \<Rightarrow> 'w"
  DecSignedResponse0 :: "'w \<Rightarrow> go_error + SignedResponse0"
  EncStatusRequest :: "DealStatusRequest \<Rightarrow> 'w"
  DecStatusRequest :: "'w \<Rightarrow> go_error + DealStatusRequest"
  EncStatusRequest0 :: "DealStatusRequest0 \<Rightarrow> 'w"
  DecStatusRequest0 :: "'w \<Rightarrow> go_error + DealStatusRequest0"
  EncStatusResponse :: "DealStatusResponse \<Rightarrow> 'w"
  DecStatusResponse :: "'w \<Rightarrow> go_error + DealStatusResponse"
  EncStatusResponse0 :: "DealStatusResponse0 \<Rightarrow> 'w"
  DecStatusResponse0 :: "'w \<Rightarrow> go_error + DealStatusResponse0"
  DumpAsk :: "StorageAsk option \<Rightarrow> go_error + string"
  DumpAsk0 :: "StorageAsk0 option \<Rightarrow> go_error + string"
  DumpDealResponse :: "Response \<Rightarrow> go_error + string"
  DumpDealResponse0 :: "Response0 \<Rightarrow> go_error + string"
  DumpStatus :: "ProviderDealState \<Rightarrow> go_error + string"
  DumpStatus0 :: "ProviderDealState0 \<Rightarrow> go_error + string"

locale storage_codec =
  fixes w :: "'w storage_wire"
  assumes ask_request: "DecAskRequest w (EncAskRequest w a) = Inr a"
    and ask_request0: "DecAskRequest0 w (EncAskRequest0 w a) = Inr a"
    and ask_response: "DecAskResponse w (EncAskResponse w r) = Inr r"
    and ask_response0: "DecAskResponse0 w (EncAskResponse0 w r0) = Inr r0"
    and proposal: "DecProposal w (EncProposal w p) = Inr p"
    and proposal0: "DecProposal0 w (EncProposal0 w p0) = Inr p0"
    and signed_response: "DecSignedResponse w (EncSignedResponse w s) = Inr s"
    and signed_response0: "DecSignedResponse0 w (EncSignedResponse0 w s0) = Inr s0"
    and status_request: "DecStatusRequest w (EncStatusRequest w q) = Inr q"
    and status_request0: "DecStatusRequest0 w (EncStatusRequest0 w q0) = Inr q0"
    and status_response: "DecStatusResponse w (EncStatusResponse w t) = Inr t"
    and status_response0: "DecStatusResponse0 w (EncStatusResponse0 w t0) = Inr t0"

text \<open>What a write leads to: an error, or the message on its way.\<close>

definition WriteCborRPC :: "('w \<Rightarrow> go_error option) \<Rightarrow> 'w \<Rightarrow> go_error + 'w" where
  "WriteCborRPC send x = (case send x of Some err \<Rightarrow> Inl err | None \<Rightarrow> Inr x)"

subsection \<open>The ask protocol\<close>

definition as_ReadAskRequest :: "'w storage_wire \<Rightarrow> 'w \<Rightarrow> go_error + address" where
  "as_ReadAskRequest w x = DecAskRequest w x"

definition as_WriteAskRequest :: "'w storage_wire \<Rightarrow> ('w \<Rightarrow> go_error option) \<Rightarrow> address \<Rightarrow> go_error + 'w" where
  "as_WriteAskRequest w send q = WriteCborRPC send (EncAskRequest w q)"

text \<open>The bytes of the ask are read through a pointer to the signed ask that may be nil.\<close>

definition as_ReadAskResponse :: "'w storage_wire \<Rightarrow> 'w \<Rightarrow> (go_error + SignedStorageAsk option \<times> string) go_run" where
  "as_ReadAskResponse w x = on_err (DecAskResponse w x)
     (\<lambda>err. Returns (Inl err))
     (\<lambda>resp. case resp of
        None \<Rightarrow> Panics
      | Some ssa \<Rightarrow> Returns (on_err (DumpAsk w (Ask ssa)) Inl (\<lambda>origBytes. Inr (resp, origBytes))))"

definition as_WriteAskResponse ::
  "'w storage_wire \<Rightarrow> ('w \<Rightarrow> go_error option) \<Rightarrow> SignedStorageAsk option \<Rightarrow> go_error + 'w" where
  "as_WriteAskResponse w send qr = WriteCborRPC send (EncAskResponse w qr)"

definition las_ReadAskRequest :: "'w storage_wire \<Rightarrow> 'w \<Rightarrow> go_error + address" where
  "las_ReadAskRequest w x = DecAskRequest0 w x"

definition las_WriteAskRequest :: "'w storage_wire \<Rightarrow> ('w \<Rightarrow> go_error option) \<Rightarrow> address \<Rightarrow> go_error + 'w" where
  "las_WriteAskRequest w send q = WriteCborRPC send (EncAskRequest0 w q)"

definition las_ReadAskResponse :: "'w storage_wire \<Rightarrow> 'w \<Rightarrow> (go_error + SignedStorageAsk option \<times> string) go_run" where
  "las_ReadAskResponse w x = on_err (DecAskResponse0 w x)
     (\<lambda>err. Returns (Inl err))
     (\<lambda>resp. case resp of
        None \<Rightarrow> Panics
      | Some ssa \<Rightarrow> on_err (DumpAsk0 w (Ask0 ssa))
          (\<lambda>err. Returns (Inl err))
          (\<lambda>origBytes. case Ask0 ssa of
             None \<Rightarrow> Panics
           | Some ask \<Rightarrow> Returns (Inr (Some \<lparr>Ask = Some (MigrateStorageAsk0To1 ask), Signature = Signature0 ssa\<rparr>,
               origBytes))))"

definition legacy_ask :: "StorageAsk \<Rightarrow> StorageAsk0" where
  "legacy_ask newAsk = \<lparr>Price0 = Price newAsk, VerifiedPrice0 = VerifiedPrice newAsk,
     MinPieceSize0 = AskMinPieceSize newAsk, MaxPieceSize0 = AskMaxPieceSize newAsk, AskMiner0 = AskMiner newAsk,
     Timestamp0 = Timestamp newAsk, Expiry0 = Expiry newAsk, SeqNo0 = SeqNo newAsk\<rparr>"

definition las_WriteAskResponse ::
  "'w storage_wire \<Rightarrow> ('w \<Rightarrow> go_error option) \<Rightarrow> SignedStorageAsk option \<Rightarrow> (StorageAsk0 \<Rightarrow> go_error + string option) \<Rightarrow>
   (go_error + 'w) go_run" where
  "las_WriteAskResponse w send qr resign = (case qr of
     None \<Rightarrow> Panics
   | Some ssa \<Rightarrow> (case Ask ssa of
       None \<Rightarrow> Panics
     | Some newAsk \<Rightarrow> Returns (on_err (resign (legacy_ask newAsk)) Inl
         (\<lambda>oldSig. WriteCborRPC send (EncAskResponse0 w
            (Some \<lparr>Ask0 = Some (legacy_ask newAsk), Signature0 = oldSig\<rparr>))))))"

subsection \<open>The deal protocol\<close>

definition ds111_ReadDealProposal :: "'w storage_wire \<Rightarrow> 'w \<Rightarrow> go_error + ProposalMsg" where
  "ds111_ReadDealProposal w x = DecProposal w x"

definition ds111_WriteDealProposal :: "'w storage_wire \<Rightarrow> ('w \<Rightarrow> go_error option) \<Rightarrow> ProposalMsg \<Rightarrow> go_error + 'w" where
  "ds111_WriteDealProposal w send dp = WriteCborRPC send (EncProposal w dp)"

definition ds111_ReadDealResponse :: "'w storage_wire \<Rightarrow> 'w \<Rightarrow> go_error + SignedResponse \<times> string" where
  "ds111_ReadDealResponse w x = on_err (DecSignedResponse w x) Inl
     (\<lambda>dr. on_err (DumpDealResponse w (ResponseOf dr)) Inl (\<lambda>origBytes. Inr (dr, origBytes)))"

definition ds111_WriteDealResponse :: "'w storage_wire \<Rightarrow> ('w \<Rightarrow> go_error option) \<Rightarrow> SignedResponse \<Rightarrow> go_error + 'w" where
  "ds111_WriteDealResponse w send dr = WriteCborRPC send (EncSignedResponse w dr)"

definition hex_digit :: "nat \<Rightarrow> char" where
  "hex_digit n = ''0123456789abcdef'' ! n"

definition hex_EncodeToString :: "string \<Rightarrow> string" where
  "hex_EncodeToString s = concat (map (\<lambda>c. [hex_digit (of_char c div 16), hex_digit (of_char c mod 16)]) s)"

definition checkDealLabel :: "label_lib \<Rightarrow> string \<Rightarrow> go_error option" where
  "checkDealLabel ll label = (if \<not> ValidString ll label
     then Some (New (''cannot parse deal label 0x'' @ hex_EncodeToString label @ '' as string'')) else None)"

text \<open>A message without a proposal makes the reader of version 1.1.0 panic.\<close>

definition ds110_ReadDealProposal :: "'w storage_wire \<Rightarrow> label_lib \<Rightarrow> 'w \<Rightarrow> (go_error + ProposalMsg) go_run" where
  "ds110_ReadDealProposal w ll x = on_err (DecProposal1 w x)
     (\<lambda>err. Returns (Inl (Wrap ''unmarshalling v110 deal proposal: '' err)))
     (\<lambda>ds. case DealProposal1 ds of
        None \<Rightarrow> Panics
      | Some dp \<Rightarrow> Returns (case checkDealLabel ll (Label (fst dp)) of
          Some err \<Rightarrow> Inl err
        | None \<Rightarrow> on_err (MigrateClientDealProposal0To1 ll dp)
            (\<lambda>err. Inl (Wrap ''migrating v110 deal proposal to current version: '' err))
            (\<lambda>prop. Inr \<lparr>MsgDealProposal = Some prop, MsgPiece = Piece1 ds, MsgFastRetrieval = MsgFastRetrieval1 ds\<rparr>)))"

definition ds110_WriteDealProposal :: "'w storage_wire \<Rightarrow> ('w \<Rightarrow> go_error option) \<Rightarrow> ProposalMsg \<Rightarrow> go_error + 'w" where
  "ds110_WriteDealProposal w send dp = WriteCborRPC send (EncProposal w dp)"

definition ds110_ReadDealResponse :: "'w storage_wire \<Rightarrow> 'w \<Rightarrow> go_error + SignedResponse \<times> string" where
  "ds110_ReadDealResponse w x = on_err (DecSignedResponse w x) Inl
     (\<lambda>dr. on_err (DumpDealResponse w (ResponseOf dr)) Inl (\<lambda>origBytes. Inr (dr, origBytes)))"

definition ds110_WriteDealResponse :: "'w storage_wire \<Rightarrow> ('w \<Rightarrow> go_error option) \<Rightarrow> SignedResponse \<Rightarrow> go_error + 'w" where
  "ds110_WriteDealResponse w send dr = WriteCborRPC send (EncSignedResponse w dr)"

text \<open>\<open>VerifyResponse\<close> of \<open>impl/clientutils\<close>; a response without a signature makes it panic.\<close>

definition VerifyResponse ::
  "'w storage_wire \<Rightarrow> (string \<Rightarrow> address \<Rightarrow> string \<Rightarrow> tipset_token \<Rightarrow> go_error + bool) \<Rightarrow>
   SignedResponse \<Rightarrow> address \<Rightarrow> tipset_token \<Rightarrow> go_error option go_run" where
  "VerifyResponse w verifier resp minerAddr tok = on_err (DumpDealResponse w (ResponseOf resp))
     (\<lambda>err. Returns (Some err))
     (\<lambda>b. case RespSignature resp of
        None \<Rightarrow> Panics
      | Some sig \<Rightarrow> Returns (on_err (verifier sig minerAddr b tok) Some
          (\<lambda>verified. if \<not> verified then Some (New ''could not verify signature'') else None)))"

definition ds101_ReadDealProposal :: "'w storage_wire \<Rightarrow> 'w \<Rightarrow> go_error + ProposalMsg" where
  "ds101_ReadDealProposal w x = on_err (DecProposal0 w x) Inl
     (\<lambda>ds. Inr \<lparr>MsgDealProposal = DealProposal0 ds, MsgPiece = MigrateDataRef0To1 (Piece0 ds),
        MsgFastRetrieval = MsgFastRetrieval0 ds\<rparr>)"

definition legacy_ref :: "DataRef option \<Rightarrow> DataRef0 option" where
  "legacy_ref ref = (case ref of None \<Rightarrow> None | Some r \<Rightarrow> Some \<lparr>TransferType0 = TransferType r, Root0 = Root r,
     PieceCid0 = PieceCid r, PieceSize0 = RefPieceSize r\<rparr>)"

definition ds101_WriteDealProposal :: "'w storage_wire \<Rightarrow> ('w \<Rightarrow> go_error option) \<Rightarrow> ProposalMsg \<Rightarrow> go_error + 'w" where
  "ds101_WriteDealProposal w send dp = WriteCborRPC send (EncProposal0 w
     \<lparr>DealProposal0 = MsgDealProposal dp, Piece0 = legacy_ref (MsgPiece dp), MsgFastRetrieval0 = MsgFastRetrieval dp\<rparr>)"

definition ds101_ReadDealResponse :: "'w storage_wire \<Rightarrow> 'w \<Rightarrow> go_error + SignedResponse \<times> string" where
  "ds101_ReadDealResponse w x = on_err (DecSignedResponse0 w x) Inl
     (\<lambda>dr. on_err (DumpDealResponse0 w (ResponseOf0 dr)) Inl
        (\<lambda>origBytes. Inr (\<lparr>ResponseOf = \<lparr>RespState = RespState0 (ResponseOf0 dr), RespMessage = RespMessage0 (ResponseOf0 dr),
             RespProposal = RespProposal0 (ResponseOf0 dr), RespPublishMessage = RespPublishMessage0 (ResponseOf0 dr)\<rparr>,
           RespSignature = RespSignature0 dr\<rparr>, origBytes)))"

definition legacy_response :: "Response \<Rightarrow> Response0" where
  "legacy_response r = \<lparr>RespState0 = RespState r, RespMessage0 = RespMessage r, RespProposal0 = RespProposal r,
     RespPublishMessage0 = RespPublishMessage r\<rparr>"

definition ds101_WriteDealResponse ::
  "'w storage_wire \<Rightarrow> ('w \<Rightarrow> go_error option) \<Rightarrow> SignedResponse \<Rightarrow> (Response0 \<Rightarrow> go_error + string option) \<Rightarrow> go_error + 'w" where
  "ds101_WriteDealResponse w send dr resign = on_err (resign (legacy_response (ResponseOf dr))) Inl
     (\<lambda>oldSig. WriteCborRPC send (EncSignedResponse0 w
        \<lparr>ResponseOf0 = legacy_response (ResponseOf dr), RespSignature0 = oldSig\<rparr>))"

subsection \<open>The deal status protocol\<close>

definition dss_ReadDealStatusRequest :: "'w storage_wire \<Rightarrow> 'w \<Rightarrow> go_error + DealStatusRequest" where
  "dss_ReadDealStatusRequest w x = DecStatusRequest w x"

definition dss_WriteDealStatusRequest :: "'w storage_wire \<Rightarrow> ('w \<Rightarrow> go_error option) \<Rightarrow> DealStatusRequest \<Rightarrow> go_error + 'w" where
  "dss_WriteDealStatusRequest w send q = WriteCborRPC send (EncStatusRequest w q)"

definition dss_ReadDealStatusResponse :: "'w storage_wire \<Rightarrow> 'w \<Rightarrow> go_error + DealStatusResponse \<times> string" where
  "dss_ReadDealStatusResponse w x = on_err (DecStatusResponse w x) Inl
     (\<lambda>qr. on_err (DumpStatus w (DealStateOf qr)) Inl (\<lambda>origBytes. Inr (qr, origBytes)))"

definition dss_WriteDealStatusResponse :: "'w storage_wire \<Rightarrow> ('w \<Rightarrow> go_error option) \<Rightarrow> DealStatusResponse \<Rightarrow> go_error + 'w" where
  "dss_WriteDealStatusResponse w send qr = WriteCborRPC send (EncStatusResponse w qr)"

definition ldss_ReadDealStatusRequest :: "'w storage_wire \<Rightarrow> 'w \<Rightarrow> go_error + DealStatusRequest" where
  "ldss_ReadDealStatusRequest w x = on_err (DecStatusRequest0 w x) Inl
     (\<lambda>q. Inr \<lparr>ReqProposal = ReqProposal0 q, ReqSignature = ReqSignature0 q\<rparr>)"

definition ldss_WriteDealStatusRequest :: "'w storage_wire \<Rightarrow> ('w \<Rightarrow> go_error option) \<Rightarrow> DealStatusRequest \<Rightarrow> go_error + 'w" where
  "ldss_WriteDealStatusRequest w send q = WriteCborRPC send (EncStatusRequest0 w
     \<lparr>ReqProposal0 = ReqProposal q, ReqSignature0 = ReqSignature q\<rparr>)"

definition ldss_ReadDealStatusResponse :: "'w storage_wire \<Rightarrow> 'w \<Rightarrow> go_error + DealStatusResponse \<times> string" where
  "ldss_ReadDealStatusResponse w x = on_err (DecStatusResponse0 w x) Inl
     (\<lambda>qr. on_err (DumpStatus0 w (DealStateOf0 qr)) Inl
        (\<lambda>origBytes. Inr (\<lparr>DealStateOf = \<lparr>PDState = PDState0 (DealStateOf0 qr), PDMessage = PDMessage0 (DealStateOf0 qr),
             PDProposal = PDProposal0 (DealStateOf0 qr), PDProposalCid = PDProposalCid0 (DealStateOf0 qr),
             PDAddFundsCid = PDAddFundsCid0 (DealStateOf0 qr), PDPublishCid = PDPublishCid0 (DealStateOf0 qr),
             PDDealID = PDDealID0 (DealStateOf0 qr), PDFastRetrieval = PDFastRetrieval0 (DealStateOf0 qr)\<rparr>,
           StatusSignature = StatusSignature0 qr\<rparr>, origBytes)))"

definition legacy_state :: "ProviderDealState \<Rightarrow> ProviderDealState0" where
  "legacy_state s = \<lparr>PDState0 = PDState s, PDMessage0 = PDMessage s, PDProposal0 = PDProposal s,
     PDProposalCid0 = PDProposalCid s, PDAddFundsCid0 = PDAddFundsCid s, PDPublishCid0 = PDPublishCid s,
     PDDealID0 = PDDealID s, PDFastRetrieval0 = PDFastRetrieval s\<rparr>"

definition ldss_WriteDealStatusResponse ::
  "'w storage_wire \<Rightarrow> ('w \<Rightarrow> go_error option) \<Rightarrow> DealStatusResponse \<Rightarrow> (ProviderDealState0 \<Rightarrow> go_error + string option) \<Rightarrow>
   (go_error + 'w) go_run" where
  "ldss_WriteDealStatusResponse w send qr resign = on_err (resign (legacy_state (DealStateOf qr)))
     (\<lambda>err. Returns (Inl err))
     (\<lambda>oldSig. case oldSig of
        None \<Rightarrow> Panics
      | Some sig \<Rightarrow> Returns (WriteCborRPC send (EncStatusResponse0 w
          \<lparr>DealStateOf0 = legacy_state (DealStateOf qr), StatusSignature0 = sig\<rparr>)))"

subsection \<open>Choosing a version\<close>

definition DealProtocolID101 :: string where "DealProtocolID101 = ''/fil/storage/mk/1.0.1''"
definition DealProtocolID110 :: string where "DealProtocolID110 = ''/fil/storage/mk/1.1.0''"
definition DealProtocolID111 :: string where "DealProtocolID111 = ''/fil/storage/mk/1.1.1''"
definition OldAskProtocolID :: string where "OldAskProtocolID = ''/fil/storage/ask/1.0.1''"
definition AskProtocolID :: string where "AskProtocolID = ''/fil/storage/ask/1.1.0''"
definition OldDealStatusProtocolID :: string where "OldDealStatusProtocolID = ''/fil/storage/status/1.0.1''"
definition DealStatusProtocolID :: string where "DealStatusProtocolID = ''/fil/storage/status/1.1.0''"

datatype stream_kind =
  AskStream | LegacyAskStream | DealStreamV101 | DealStreamV110 | DealStreamV111 | StatusStream | LegacyStatusStream

text \<open>The network object: the retry settings, whether a receiver is set, and the protocols it speaks, in
  the order of preference; \<open>handlers\<close> are the protocols that the host has a handler for.\<close>

record storage_network =
  NetRetry :: RetryStream
  NetReceiver :: bool
  supportedAskProtocols :: "string list"
  supportedDealProtocols :: "string list"
  supportedDealStatusProtocols :: "string list"

definition NewFromLibp2pHost :: "(storage_network \<Rightarrow> storage_network) list \<Rightarrow> storage_network" where
  "NewFromLibp2pHost options = fold (\<lambda>option impl. option impl) options \<lparr>NetRetry = NewRetryStream [],
     NetReceiver = False, supportedAskProtocols = [AskProtocolID, OldAskProtocolID],
     supportedDealProtocols = [DealProtocolID111, DealProtocolID110, DealProtocolID101],
     supportedDealStatusProtocols = [DealStatusProtocolID, OldDealStatusProtocolID]\<rparr>"

definition SRetryParameters :: "int \<Rightarrow> int \<Rightarrow> rat \<Rightarrow> rat \<Rightarrow> storage_network \<Rightarrow> storage_network" where
  "SRetryParameters minDuration maxDuration attempts factor impl =
     impl\<lparr>NetRetry := SetOptions [RetryParameters minDuration maxDuration attempts factor] (NetRetry impl)\<rparr>"

definition SupportedAskProtocols :: "string list \<Rightarrow> storage_network \<Rightarrow> storage_network" where
  "SupportedAskProtocols protos impl = impl\<lparr>supportedAskProtocols := protos\<rparr>"

definition SupportedDealProtocols :: "string list \<Rightarrow> storage_network \<Rightarrow> storage_network" where
  "SupportedDealProtocols protos impl = impl\<lparr>supportedDealProtocols := protos\<rparr>"

definition SupportedDealStatusProtocols :: "string list \<Rightarrow> storage_network \<Rightarrow> storage_network" where
  "SupportedDealStatusProtocols protos impl = impl\<lparr>supportedDealStatusProtocols := protos\<rparr>"

definition ask_stream :: "string \<Rightarrow> stream_kind" where
  "ask_stream protocol = (if protocol = OldAskProtocolID then LegacyAskStream else AskStream)"

definition deal_stream :: "string \<Rightarrow> stream_kind" where
  "deal_stream protocol = (if protocol = DealProtocolID101 then DealStreamV101
     else if protocol = DealProtocolID110 then DealStreamV110 else DealStreamV111)"

definition status_stream :: "string \<Rightarrow> stream_kind" where
  "status_stream protocol = (if protocol = OldDealStatusProtocolID then LegacyStatusStream else StatusStream)"

text \<open>The host's \<open>NewStream\<close> answers a stream with the protocol that was agreed on.\<close>

definition NewAskStream ::
  "storage_network \<Rightarrow> (string list \<Rightarrow> nat \<Rightarrow> go_error + string) \<Rightarrow> (nat \<Rightarrow> bool) \<Rightarrow> peer_id \<Rightarrow> go_error + stream_kind" where
  "NewAskStream impl newStream cancelled peer =
     on_err (fst (OpenStream (NetRetry impl) (newStream (supportedAskProtocols impl)) cancelled peer)) Inl
       (\<lambda>protocol. Inr (ask_stream protocol))"

definition NewDealStream ::
  "storage_network \<Rightarrow> (string list \<Rightarrow> nat \<Rightarrow> go_error + string) \<Rightarrow> (nat \<Rightarrow> bool) \<Rightarrow> peer_id \<Rightarrow> go_error + stream_kind" where
  "NewDealStream impl newStream cancelled peer =
     on_err (fst (OpenStream (NetRetry impl) (newStream (supportedDealProtocols impl)) cancelled peer)) Inl
       (\<lambda>protocol. Inr (deal_stream protocol))"

definition NewDealStatusStream ::
  "storage_network \<Rightarrow> (string list \<Rightarrow> nat \<Rightarrow> go_error + string) \<Rightarrow> (nat \<Rightarrow> bool) \<Rightarrow> peer_id \<Rightarrow> go_error + stream_kind" where
  "NewDealStatusStream impl newStream cancelled peer =
     on_err (fst (OpenStream (NetRetry impl) (newStream (supportedDealStatusProtocols impl)) cancelled peer)) Inl
       (\<lambda>protocol. Inr (status_stream protocol))"

definition SetDelegate :: "storage_network \<Rightarrow> string set \<Rightarrow> storage_network \<times> string set" where
  "SetDelegate impl handlers = (impl\<lparr>NetReceiver := True\<rparr>, handlers \<union> set (supportedAskProtocols impl) \<union>
     set (supportedDealProtocols impl) \<union> set (supportedDealStatusProtocols impl))"

definition StopHandlingRequests :: "storage_network \<Rightarrow> string set \<Rightarrow> storage_network \<times> string set" where
  "StopHandlingRequests impl handlers = (impl\<lparr>NetReceiver := False\<rparr>, handlers - set (supportedAskProtocols impl) -
     set (supportedDealProtocols impl) - set (supportedDealStatusProtocols impl))"

text \<open>What an incoming stream is handed to the receiver as; without a receiver it is reset.\<close>

definition getReaderOrReset :: "storage_network \<Rightarrow> stream_kind \<Rightarrow> stream_kind option" where
  "getReaderOrReset impl s = (if \<not> NetReceiver impl then None else Some s)"

definition handleNewAskStream :: "storage_network \<Rightarrow> string \<Rightarrow> stream_kind option" where
  "handleNewAskStream impl protocol = getReaderOrReset impl (ask_stream protocol)"

definition handleNewDealStream :: "storage_network \<Rightarrow> string \<Rightarrow> stream_kind option" where
  "handleNewDealStream impl protocol = getReaderOrReset impl (deal_stream protocol)"

definition handleNewDealStatusStream :: "storage_network \<Rightarrow> string \<Rightarrow> stream_kind option" where
  "handleNewDealStatusStream impl protocol = getReaderOrReset impl (status_stream protocol)"

subsection \<open>The ask protocol, end to end\<close>

text \<open>A provider serving a request on a connection that takes what is written: nothing, or the reply.\<close>

definition serve_ask :: "stream_kind \<Rightarrow> 'w storage_wire \<Rightarrow> sprovider \<Rightarrow> 'w \<Rightarrow> (go_error + 'w) option go_run" where
  "serve_ask kind w p x = (if kind = LegacyAskStream
     then (case HandleAskStream p (las_ReadAskRequest w x) of
         None \<Rightarrow> Returns None
       | Some qr \<Rightarrow> run_bind (las_WriteAskResponse w (\<lambda>_. None) qr (\<lambda>a. sp_sign p (DumpAsk0 w (Some a))))
           (\<lambda>y. Returns (Some y)))
     else (case HandleAskStream p (as_ReadAskRequest w x) of
         None \<Rightarrow> Returns None
       | Some qr \<Rightarrow> Returns (Some (as_WriteAskResponse w (\<lambda>_. None) qr))))"

definition ask_request :: "stream_kind \<Rightarrow> 'w storage_wire \<Rightarrow> address \<Rightarrow> 'w" where
  "ask_request kind w miner = (if kind = LegacyAskStream then EncAskRequest0 w miner else EncAskRequest w miner)"

definition read_ask :: "stream_kind \<Rightarrow> 'w storage_wire \<Rightarrow> 'w \<Rightarrow> (go_error + SignedStorageAsk option \<times> string) go_run" where
  "read_ask kind w y = (if kind = LegacyAskStream then las_ReadAskResponse w y else as_ReadAskResponse w y)"

lemma legacy_ask_inverse [simp]: "MigrateStorageAsk0To1 (legacy_ask a) = a"
  by (simp add: MigrateStorageAsk0To1_def legacy_ask_def)

context storage_codec
begin

lemmas decoded = ask_request ask_request0 ask_response ask_response0 proposal proposal0 signed_response
  signed_response0 status_request status_request0 status_response status_response0

lemma serve_ask_held:
  assumes "StoredAskOf p = Some \<lparr>Ask = Some ask, Signature = sig\<rparr>"
    and "DumpAsk w (Some ask) = Inr bytes" and "DumpAsk0 w (Some (legacy_ask ask)) = Inr bytes0"
    and "sp_sign p (Inr bytes0) = Inr sig0"
  shows "\<exists>y. serve_ask kind w p (ask_request kind w (SpnActor p)) = Returns (Some (Inr y)) \<and>
    read_ask kind w y = Returns (Inr (if kind = LegacyAskStream
      then (Some \<lparr>Ask = Some ask, Signature = sig0\<rparr>, bytes0) else (Some \<lparr>Ask = Some ask, Signature = sig\<rparr>, bytes)))"
  using assms by (simp add: serve_ask_def ask_request_def read_ask_def HandleAskStream_def las_ReadAskRequest_def
    as_ReadAskRequest_def as_WriteAskResponse_def las_WriteAskResponse_def as_ReadAskResponse_def
    las_ReadAskResponse_def WriteCborRPC_def decoded)

lemma serve_ask_missing:
  assumes "SpnActor p \<noteq> miner \<or> StoredAskOf p = None"
  shows "serve_ask LegacyAskStream w p (ask_request LegacyAskStream w miner) = Panics \<and>
    (\<exists>y. serve_ask AskStream w p (ask_request AskStream w miner) = Returns (Some (Inr y)) \<and>
       read_ask AskStream w y = Panics)"
  using assms by (auto simp: serve_ask_def ask_request_def read_ask_def HandleAskStream_def las_ReadAskRequest_def
    as_ReadAskRequest_def as_WriteAskResponse_def las_WriteAskResponse_def as_ReadAskResponse_def
    WriteCborRPC_def decoded)

text \<open>Deal messages over the first version: a proposal arrives without the raw block size of its data
  reference, a response and a status as they were, signed over the bytes that the reader computes.\<close>

lemma legacy_proposal:
  "\<exists>x. ds101_WriteDealProposal w (\<lambda>_. None) dp = Inr x \<and>
    ds101_ReadDealProposal w x = Inr (dp\<lparr>MsgPiece := map_option (\<lambda>r. r\<lparr>RawBlockSize := 0\<rparr>) (MsgPiece dp)\<rparr>)"
  by (cases "MsgPiece dp") (simp_all add: ds101_WriteDealProposal_def ds101_ReadDealProposal_def WriteCborRPC_def
    legacy_ref_def MigrateDataRef0To1_def decoded)

lemma legacy_deal_response:
  assumes "DumpDealResponse0 w (legacy_response (ResponseOf dr)) = Inr bytes" and "sign bytes = Inr sig"
  shows "\<exists>x. ds101_WriteDealResponse w (\<lambda>_. None) dr (\<lambda>r. on_err (DumpDealResponse0 w r) Inl sign) = Inr x \<and>
    ds101_ReadDealResponse w x = Inr (dr\<lparr>RespSignature := sig\<rparr>, bytes)"
  using assms by (simp add: ds101_WriteDealResponse_def ds101_ReadDealResponse_def WriteCborRPC_def decoded
    legacy_response_def)

text \<open>A response that arrives over the newer versions passes \<open>VerifyResponse\<close> exactly if its signature is one of the
  bytes that come with it.\<close>

lemma deal_response_verified:
  assumes "DumpDealResponse w (ResponseOf dr) = Inr bytes" and "RespSignature dr = Some sig"
  shows "\<exists>x. ds110_WriteDealResponse w (\<lambda>_. None) dr = Inr x \<and> ds111_WriteDealResponse w (\<lambda>_. None) dr = Inr x \<and>
    ds110_ReadDealResponse w x = Inr (dr, bytes) \<and> ds111_ReadDealResponse w x = Inr (dr, bytes) \<and>
    (VerifyResponse w verifier dr miner tok = Returns None \<longleftrightarrow> verifier sig miner bytes tok = Inr True)"
  using assms by (auto simp: ds110_WriteDealResponse_def ds111_WriteDealResponse_def ds110_ReadDealResponse_def
    ds111_ReadDealResponse_def VerifyResponse_def WriteCborRPC_def decoded split: on_err_splits if_splits)

lemma legacy_status:
  assumes "DumpStatus0 w (legacy_state (DealStateOf qr)) = Inr bytes" and "sign bytes = Inr (Some sig)"
  shows "\<exists>x. ldss_WriteDealStatusResponse w (\<lambda>_. None) qr (\<lambda>s. on_err (DumpStatus0 w s) Inl sign) = Returns (Inr x) \<and>
    ldss_ReadDealStatusResponse w x = Inr (qr\<lparr>StatusSignature := sig\<rparr>, bytes)"
  using assms by (simp add: ldss_WriteDealStatusResponse_def ldss_ReadDealStatusResponse_def WriteCborRPC_def
    decoded legacy_state_def)

end

text \<open>A wire that carries the messages themselves.\<close>

datatype wire_msg =
    WAskRequest address | WAskRequest0 address | WAskResponse "SignedStorageAsk option"
  | WAskResponse0 "SignedStorageAsk0 option" | WProposal ProposalMsg | WProposal0 Proposal0
  | WSignedResponse SignedResponse | WSignedResponse0 SignedResponse0 | WStatusRequest DealStatusRequest
  | WStatusRequest0 DealStatusRequest0 | WStatusResponse DealStatusResponse | WStatusResponse0 DealStatusResponse0

definition unexpected :: "go_error + 'a" where
  "unexpected = Inl (New ''cbor: unexpected input'')"

definition msg_wire :: "wire_msg storage_wire" where
  "msg_wire = \<lparr>EncAskRequest = WAskRequest, DecAskRequest = (\<lambda>x. case x of WAskRequest a \<Rightarrow> Inr a | _ \<Rightarrow> unexpected),
     EncAskRequest0 = WAskRequest0, DecAskRequest0 = (\<lambda>x. case x of WAskRequest0 a \<Rightarrow> Inr a | _ \<Rightarrow> unexpected),
     EncAskResponse = WAskResponse, DecAskResponse = (\<lambda>x. case x of WAskResponse a \<Rightarrow> Inr a | _ \<Rightarrow> unexpected),
     EncAskResponse0 = WAskResponse0, DecAskResponse0 = (\<lambda>x. case x of WAskResponse0 a \<Rightarrow> Inr a | _ \<Rightarrow> unexpected),
     EncProposal = WProposal, DecProposal = (\<lambda>x. case x of WProposal a \<Rightarrow> Inr a | _ \<Rightarrow> unexpected),
     DecProposal1 = (\<lambda>x. case x of WProposal a \<Rightarrow> Inr \<lparr>DealProposal1 = MsgDealProposal a, Piece1 = MsgPiece a,
       MsgFastRetrieval1 = MsgFastRetrieval a\<rparr> | _ \<Rightarrow> unexpected),
     EncProposal0 = WProposal0, DecProposal0 = (\<lambda>x. case x of WProposal0 a \<Rightarrow> Inr a | _ \<Rightarrow> unexpected),
     EncSignedResponse = WSignedResponse, DecSignedResponse = (\<lambda>x. case x of WSignedResponse a \<Rightarrow> Inr a | _ \<Rightarrow> unexpected),
     EncSignedResponse0 = WSignedResponse0, DecSignedResponse0 = (\<lambda>x. case x of WSignedResponse0 a \<Rightarrow> Inr a | _ \<Rightarrow> unexpected),
     EncStatusRequest = WStatusRequest, DecStatusRequest = (\<lambda>x. case x of WStatusRequest a \<Rightarrow> Inr a | _ \<Rightarrow> unexpected),
     EncStatusRequest0 = WStatusRequest0, DecStatusRequest0 = (\<lambda>x. case x of WStatusRequest0 a \<Rightarrow> Inr a | _ \<Rightarrow> unexpected),
     EncStatusResponse = WStatusResponse, DecStatusResponse = (\<lambda>x. case x of WStatusResponse a \<Rightarrow> Inr a | _ \<Rightarrow> unexpected),
     EncStatusResponse0 = WStatusResponse0, DecStatusResponse0 = (\<lambda>x. case x of WStatusResponse0 a \<Rightarrow> Inr a | _ \<Rightarrow> unexpected),
     DumpAsk = (\<lambda>a. Inr ''ask''), DumpAsk0 = (\<lambda>a. Inr ''ask0''), DumpDealResponse = (\<lambda>r. Inr ''response''),
     DumpDealResponse0 = (\<lambda>r. Inr ''response0''), DumpStatus = (\<lambda>s. Inr ''state''), DumpStatus0 = (\<lambda>s. Inr ''state0'')\<rparr>"

interpretation msg_codec: storage_codec msg_wire
  by unfold_locales (simp_all add: msg_wire_def)


definition sample_ask_provider :: sprovider where
  "sample_ask_provider = sample_sprovider\<lparr>StoredAskOf := Some \<lparr>Ask = Some (StorageAskUndefined\<lparr>AskMiner := ''f01''\<rparr>),
     Signature = Some ''sig''\<rparr>\<rparr>"


text \<open>
  Asking a provider for an ask that it does not have crashes one of the two. When the request names
  another miner, or no ask is stored, the provider's handler answers without an ask. Over the old
  protocol the provider dereferences the missing ask to convert it; over the current one the reply is
  sent, and the client dereferences it to compute the signed bytes, before it looks whether there is one.
\<close>
theorem missing_ask_crashes:
  assumes "storage_codec w" and "SpnActor p \<noteq> InfoAddress info \<or> StoredAskOf p = None"
    and "ScNewAskStream c (InfoPeerID info) = None" and "ScWriteAskRequest c (InfoAddress info) = None"
  shows "serve_ask LegacyAskStream w p (ask_request LegacyAskStream w (InfoAddress info)) = Panics \<and>
    (\<exists>y. serve_ask AskStream w p (ask_request AskStream w (InfoAddress info)) = Returns (Some (Inr y)) \<and>
       snd (sc_GetAsk (c\<lparr>ScReadAskResponse := (\<lambda>_. read_ask AskStream w y)\<rparr>) info) = Panics)"
  using storage_codec.serve_ask_missing [OF assms(1,2)] assms(3,4) by (auto simp: sc_GetAsk_def)

theorem missing_ask_crashes_witness:
  "serve_ask LegacyAskStream msg_wire sample_sprovider (ask_request LegacyAskStream msg_wire ''f01'') = Panics"
  using missing_ask_crashes [OF msg_codec.storage_codec_axioms, of sample_sprovider "PropInfo sample_propose_params" sample_sclient]
  by (simp add: sample_sprovider_def sample_sclient_def sample_propose_params_def)

end
