(* ===== verification/Car_Format.thy ===== *)
theory Car_Format
  imports Market_Prelude
begin

section \<open>CAR files: readers, sections and headers\<close>

text \<open>
  The first half of \<open>stores/kvcarbs.go\<close>: readers and writers at an offset, sections (a length and that many
  bytes), nodes (a section with a CID in front), the CARv1 header and the reader of a whole CAR. Bytes are
  the characters of a \<open>string\<close>; a reader is the bytes that are still to come. Varints, CIDs, multihashes
  and the CBOR codec are libraries, the record \<open>car_lib\<close>, with what is relied on as the locale
  \<open>car_format\<close>; memory is not exhausted by the length of a section.
\<close>

subsection \<open>Readers and writers at an offset\<close>

text \<open>\<open>ReadAt\<close> of a backing reader: what is there of \<open>n\<close> bytes from \<open>off\<close> on, and EOF if that is less.\<close>

definition bytes_ReadAt :: "string \<Rightarrow> nat \<Rightarrow> int \<Rightarrow> string \<times> go_error option" where
  "bytes_ReadAt r n off = (let got = take n (drop (nat off) r) in
     if off < 0 then ([], Some io_EOF) else (got, if length got < n then Some io_EOF else None))"

record OffsetReadSeeker =
  ors_base :: int
  ors_off :: int

definition NewOffsetReadSeeker :: "int \<Rightarrow> OffsetReadSeeker" where
  "NewOffsetReadSeeker off = \<lparr>ors_base = off, ors_off = off\<rparr>"

definition ors_Read :: "string \<Rightarrow> nat \<Rightarrow> OffsetReadSeeker \<Rightarrow> (string \<times> go_error option) \<times> OffsetReadSeeker" where
  "ors_Read r n ors = (case bytes_ReadAt r n (ors_off ors) of
     (got, err) \<Rightarrow> ((got, err), ors\<lparr>ors_off := ors_off ors + int (length got)\<rparr>))"

definition ors_ReadAt :: "string \<Rightarrow> nat \<Rightarrow> int \<Rightarrow> OffsetReadSeeker \<Rightarrow> string \<times> go_error option" where
  "ors_ReadAt r n off ors = (if off < 0 then ([], Some io_EOF) else bytes_ReadAt r n (off + ors_base ors))"

definition ors_ReadByte :: "string \<Rightarrow> OffsetReadSeeker \<Rightarrow> (char \<times> go_error option) \<times> OffsetReadSeeker" where
  "ors_ReadByte r ors = (case ors_Read r 1 ors of
     ((got, err), ors') \<Rightarrow> ((case got of [] \<Rightarrow> CHR 0x00 | b # _ \<Rightarrow> b, err), ors'))"

definition ors_Offset :: "OffsetReadSeeker \<Rightarrow> int" where
  "ors_Offset ors = ors_off ors"

definition ors_Position :: "OffsetReadSeeker \<Rightarrow> int" where
  "ors_Position ors = ors_off ors - ors_base ors"

datatype whence = SeekStart | SeekCurrent | SeekEnd

definition ors_Seek :: "int \<Rightarrow> whence \<Rightarrow> OffsetReadSeeker \<Rightarrow> (int \<times> OffsetReadSeeker) go_run" where
  "ors_Seek offset wh ors = (case wh of
     SeekStart \<Rightarrow> (let ors' = ors\<lparr>ors_off := offset + ors_base ors\<rparr> in Returns (ors_Position ors', ors'))
   | SeekCurrent \<Rightarrow> (let ors' = ors\<lparr>ors_off := ors_off ors + offset\<rparr> in Returns (ors_Position ors', ors'))
   | SeekEnd \<Rightarrow> Panics)"

text \<open>\<open>WriteAt\<close> of a file: the bytes at the offset replaced, the file extended if need be.\<close>

definition bytes_WriteAt :: "string \<Rightarrow> string \<Rightarrow> nat \<Rightarrow> string" where
  "bytes_WriteAt f b off = take off (f @ replicate (off - length f) (CHR 0x00)) @ b @ drop (off + length b) f"

record OffsetWriteSeeker =
  ows_base :: int
  ows_offset :: int

definition NewOffsetWriter :: "int \<Rightarrow> OffsetWriteSeeker" where
  "NewOffsetWriter off = \<lparr>ows_base = off, ows_offset = off\<rparr>"

text \<open>A write that stops early advances by what it wrote; \<open>n\<close> of the bytes are written.\<close>

definition ows_Write :: "nat \<Rightarrow> string \<Rightarrow> string \<Rightarrow> OffsetWriteSeeker \<Rightarrow> string \<times> OffsetWriteSeeker" where
  "ows_Write n b f ows = (bytes_WriteAt f (take n b) (nat (ows_offset ows)),
     ows\<lparr>ows_offset := ows_offset ows + int (length (take n b))\<rparr>)"

definition ows_Position :: "OffsetWriteSeeker \<Rightarrow> int" where
  "ows_Position ows = ows_offset ows - ows_base ows"

definition ows_Seek :: "int \<Rightarrow> whence \<Rightarrow> OffsetWriteSeeker \<Rightarrow> (int \<times> OffsetWriteSeeker) go_run" where
  "ows_Seek offset wh ows = (case wh of
     SeekStart \<Rightarrow> (let ows' = ows\<lparr>ows_offset := offset + ows_base ows\<rparr> in Returns (ows_Position ows', ows'))
   | SeekCurrent \<Rightarrow> (let ows' = ows\<lparr>ows_offset := ows_offset ows + offset\<rparr> in Returns (ows_Position ows', ows'))
   | SeekEnd \<Rightarrow> Panics)"

subsection \<open>Sections\<close>

record CarHeader =
  Roots :: "cid list"
  Version :: uint64

text \<open>\<open>ReadUvarint\<close> gives the value read so far, an error and the bytes that are left; \<open>CidFromReader\<close> the
  length of the CID at the start of the bytes and the CID; \<open>UtilLd\<close> the bytes that the CAR library's
  \<open>LdWrite\<close> writes, \<open>CidTooLarge\<close> its error for a CID beyond the limit, and \<open>V2Prefix\<close> the size of the
  pragma and the header of a CARv2.\<close>

record car_lib =
  PutUvarint :: "uint64 \<Rightarrow> string"
  ReadUvarint :: "string \<Rightarrow> uint64 \<times> go_error option \<times> string"
  CidFromReader :: "string \<Rightarrow> go_error + nat \<times> cid"
  CidBytes :: "cid \<Rightarrow> string"
  CidHash :: "cid \<Rightarrow> string"
  MhDecode :: "string \<Rightarrow> go_error + string"
  PrefixSum :: "cid \<Rightarrow> string \<Rightarrow> go_error + cid"
  DumpObject :: "CarHeader \<Rightarrow> go_error + string"
  DecodeInto :: "string \<Rightarrow> go_error + CarHeader"
  UtilLd :: "string list \<Rightarrow> string"
  CidTooLarge :: "uint64 \<Rightarrow> uint64 \<Rightarrow> go_error"
  V2Prefix :: uint64

definition ld_sum :: "string list \<Rightarrow> uint64" where
  "ld_sum d = sum_list (map (\<lambda>s. of_nat (length s)) d)"

text \<open>The length is put into a buffer of eight bytes, which is too small for nine or more.\<close>

definition LdWrite :: "car_lib \<Rightarrow> string list \<Rightarrow> string go_run" where
  "LdWrite L d = (if length (PutUvarint L (ld_sum d)) > 8 then Panics
     else Returns (PutUvarint L (ld_sum d) @ concat d))"

definition LdSize :: "car_lib \<Rightarrow> string list \<Rightarrow> uint64" where
  "LdSize L d = ld_sum d + of_nat (length (PutUvarint L (ld_sum d)))"

text \<open>\<open>io.ReadFull\<close> reports EOF when there is not one byte, and an unexpected EOF when there are too few.\<close>

definition io_ReadFull :: "nat \<Rightarrow> string \<Rightarrow> go_error + string \<times> string" where
  "io_ReadFull n r = (if n \<le> length r then Inr (take n r, drop n r)
     else if r = [] then Inl io_EOF else Inl io_ErrUnexpectedEOF)"

definition LdRead :: "car_lib \<Rightarrow> bool \<Rightarrow> string \<Rightarrow> go_error + string \<times> string" where
  "LdRead L zeroLenAsEOF r = (case ReadUvarint L r of
     (l, Some err, _) \<Rightarrow> Inl (if l > 0 \<and> err = io_EOF then io_ErrUnexpectedEOF else err)
   | (l, None, r') \<Rightarrow> if l = 0 \<and> zeroLenAsEOF then Inl io_EOF else io_ReadFull (unat l) r')"

definition ReadNode :: "car_lib \<Rightarrow> bool \<Rightarrow> string \<Rightarrow> go_error + (cid \<times> string) \<times> string" where
  "ReadNode L zeroLenAsEOF r = on_err (LdRead L zeroLenAsEOF r) Inl
     (\<lambda>(data, r'). on_err (CidFromReader L data) Inl (\<lambda>(n, c). Inr ((c, drop n data), r')))"

subsection \<open>Headers and whole files\<close>

definition ReadHeader :: "car_lib \<Rightarrow> string \<Rightarrow> go_error + CarHeader \<times> string" where
  "ReadHeader L r = on_err (LdRead L False r) Inl
     (\<lambda>(hb, r'). on_err (DecodeInto L hb) (\<lambda>err. Inl (New (''invalid header: '' @ Error err))) (\<lambda>ch. Inr (ch, r')))"

definition WriteHeader :: "car_lib \<Rightarrow> CarHeader \<Rightarrow> go_error + string" where
  "WriteHeader L h = on_err (DumpObject L h) Inl (\<lambda>hb. Inr (UtilLd L [hb]))"

definition HeaderSize :: "car_lib \<Rightarrow> CarHeader \<Rightarrow> go_error + uint64" where
  "HeaderSize L h = on_err (DumpObject L h) Inl (\<lambda>hb. Inr (of_nat (length (UtilLd L [hb]))))"

fun containsRoot :: "cid list \<Rightarrow> cid \<Rightarrow> bool" where
  "containsRoot [] root = False"
| "containsRoot (r # rs) root = (if r = root then True else containsRoot rs root)"

definition Matches :: "CarHeader \<Rightarrow> CarHeader \<Rightarrow> bool" where
  "Matches h other = (if Version h \<noteq> Version other then False
     else if length (Roots h) \<noteq> length (Roots other) then False
     else if length (Roots h) = 1 then Roots h ! 0 = Roots other ! 0
     else list_all (containsRoot (Roots other)) (Roots h))"

record CarReader =
  CrHeader :: CarHeader
  CrZeroLenAsEOF :: bool

definition newCarReader :: "car_lib \<Rightarrow> bool \<Rightarrow> string \<Rightarrow> go_error + CarReader \<times> string" where
  "newCarReader L zeroLenAsEOF r = on_err (ReadHeader L r) Inl
     (\<lambda>(ch, r'). if Version ch \<noteq> 1 then Inl (New (''invalid car version: '' @ show_uint64 (Version ch)))
        else if Roots ch = [] then Inl (New ''empty car, no roots'')
        else Inr (\<lparr>CrHeader = ch, CrZeroLenAsEOF = zeroLenAsEOF\<rparr>, r'))"

definition cr_Next :: "car_lib \<Rightarrow> CarReader \<Rightarrow> string \<Rightarrow> go_error + (cid \<times> string) \<times> string" where
  "cr_Next L cr r = on_err (ReadNode L (CrZeroLenAsEOF cr) r) Inl
     (\<lambda>((c, data), r'). on_err (PrefixSum L c data) Inl
        (\<lambda>hashed. if hashed \<noteq> c
           then Inl (New (''mismatch in content integrity, name: '' @ c @ '', data: '' @ hashed))
           else Inr ((c, data), r')))"

text \<open>Loading a CAR into a store of state \<open>'s\<close>, block by block or in batches of a thousand; no value: the
  loop does not end.\<close>

partial_function (option) loadCarSlow ::
  "car_lib \<Rightarrow> (cid \<times> string \<Rightarrow> 's \<Rightarrow> go_error option \<times> 's) \<Rightarrow> CarReader \<Rightarrow> string \<Rightarrow> 's \<Rightarrow> ((go_error + CarHeader) \<times> 's) option" where
  "loadCarSlow L put cr r s = (case cr_Next L cr r of
     Inl err \<Rightarrow> Some (if err = io_EOF then Inr (CrHeader cr) else Inl err, s)
   | Inr (blk, r') \<Rightarrow> (case put blk s of
       (Some err, s') \<Rightarrow> Some (Inl err, s')
     | (None, s') \<Rightarrow> loadCarSlow L put cr r' s'))"

partial_function (option) loadCarFast ::
  "car_lib \<Rightarrow> ((cid \<times> string) list \<Rightarrow> 's \<Rightarrow> go_error option \<times> 's) \<Rightarrow> CarReader \<Rightarrow> string \<Rightarrow> (cid \<times> string) list \<Rightarrow> 's \<Rightarrow>
   ((go_error + CarHeader) \<times> 's) option" where
  "loadCarFast L putMany cr r buf s = (case cr_Next L cr r of
     Inl err \<Rightarrow> Some (if err = io_EOF
       then (if length buf > 0
         then (case putMany buf s of (Some e, s') \<Rightarrow> (Inl e, s') | (None, s') \<Rightarrow> (Inr (CrHeader cr), s'))
         else (Inr (CrHeader cr), s))
       else (Inl err, s))
   | Inr (blk, r') \<Rightarrow> (let buf' = buf @ [blk] in
       if length buf' > 1000
       then (case putMany buf' s of
           (Some e, s') \<Rightarrow> Some (Inl e, s')
         | (None, s') \<Rightarrow> loadCarFast L putMany cr r' [] s')
       else loadCarFast L putMany cr r' buf' s))"

definition LoadCar ::
  "car_lib \<Rightarrow> (cid \<times> string \<Rightarrow> 's \<Rightarrow> go_error option \<times> 's) \<Rightarrow> ((cid \<times> string) list \<Rightarrow> 's \<Rightarrow> go_error option \<times> 's) option \<Rightarrow>
   string \<Rightarrow> 's \<Rightarrow> ((go_error + CarHeader) \<times> 's) option" where
  "LoadCar L put putMany r s = on_err (newCarReader L False r)
     (\<lambda>err. Some (Inl err, s))
     (\<lambda>(cr, r'). case putMany of
        Some pm \<Rightarrow> loadCarFast L pm cr r' [] s
      | None \<Rightarrow> loadCarSlow L put cr r' s)"

subsection \<open>What is relied on\<close>

locale car_format =
  fixes L :: car_lib and valid_cid :: "cid \<Rightarrow> bool"
  assumes uvarint: "ReadUvarint L (PutUvarint L n @ rest) = (n, None, rest)"
    and uvarint_end: "ReadUvarint L [] = (0, Some io_EOF, [])"
    and uvarint_nonempty: "PutUvarint L n \<noteq> []"
    and cid_bytes: "valid_cid c \<Longrightarrow> CidFromReader L (CidBytes L c @ rest) = Inr (length (CidBytes L c), c)"
    and cid_nonempty: "valid_cid c \<Longrightarrow> CidBytes L c \<noteq> []"
    and util_ld: "UtilLd L d = PutUvarint L (ld_sum d) @ concat d"
    and header: "DumpObject L h = Inr hb \<Longrightarrow> DecodeInto L hb = Inr h"

lemma unat_ld_sum:
  "length (concat d) < 2 ^ 64 \<Longrightarrow> unat (ld_sum d) = length (concat d)"
proof (induction d)
  case (Cons a d)
  then have "unat (ld_sum d) = length (concat d)" by simp
  moreover have "unat (of_nat (length a) :: uint64) = length a"
    using Cons.prems by (intro unat_of_nat_small) simp
  ultimately show ?case
    using Cons.prems by (simp add: ld_sum_def unat_word_ariths)
qed (simp add: ld_sum_def)

context car_format
begin

lemma LdRead_UtilLd:
  assumes "length (concat d) < 2 ^ 64" and "concat d \<noteq> []"
  shows "LdRead L zero (UtilLd L d @ rest) = Inr (concat d, rest)"
proof -
  have n: "unat (ld_sum d) = length (concat d)" using assms(1) by (rule unat_ld_sum)
  then have "ld_sum d \<noteq> 0" using assms(2) by (metis length_0_conv unat_0)
  then show ?thesis by (simp add: LdRead_def util_ld uvarint io_ReadFull_def n)
qed

lemma ReadNode_section:
  assumes "valid_cid c" and "length (CidBytes L c @ data) < 2 ^ 64"
  shows "ReadNode L zero (UtilLd L [CidBytes L c, data] @ rest) = Inr ((c, data), rest)"
  using LdRead_UtilLd [of "[CidBytes L c, data]" zero rest] assms cid_nonempty [OF assms(1)]
  by (simp add: ReadNode_def cid_bytes)

lemma ReadHeader_written:
  assumes "WriteHeader L h = Inr hb" and "length hb < 2 ^ 64" and "hb \<noteq> []" and "DumpObject L h \<noteq> Inr []"
  shows "ReadHeader L (hb @ rest) = Inr (h, rest)"
proof -
  from assms(1) obtain b where b: "DumpObject L h = Inr b" and hb: "hb = UtilLd L [b]"
    by (auto simp: WriteHeader_def split: on_err_splits)
  have "length (concat [b]) < 2 ^ 64" using assms(2) by (simp add: hb util_ld)
  then have "LdRead L False (hb @ rest) = Inr (b, rest)"
    using LdRead_UtilLd [of "[b]" False rest] assms(4) b by (simp add: hb)
  then show ?thesis by (simp add: ReadHeader_def header [OF b])
qed

text \<open>A section as a store writes it.\<close>

definition sec :: "cid \<times> string \<Rightarrow> string" where
  "sec blk = UtilLd L [CidBytes L (fst blk), snd blk]"

lemma sec_bytes: "sec (c, data) = PutUvarint L (ld_sum [CidBytes L c, data]) @ CidBytes L c @ data"
  by (simp add: sec_def util_ld)

text \<open>Blocks whose hash is right are put one by one; the file may end right after the length of a section.\<close>

lemma cr_Next_section:
  assumes "valid_cid c" and "PrefixSum L c data = Inr c" and "length (sec (c, data)) < 2 ^ 64"
  shows "cr_Next L cr (sec (c, data) @ rest) = Inr ((c, data), rest)"
  using ReadNode_section [of c data "CrZeroLenAsEOF cr" rest] assms
  by (simp add: cr_Next_def sec_def util_ld)

lemma cr_Next_end:
  assumes "rest = [] \<or> (\<exists>n. rest = PutUvarint L n \<and> 0 < n)"
  shows "cr_Next L cr rest = Inl io_EOF"
proof -
  have "LdRead L z (PutUvarint L n) = Inl io_EOF" if "0 < n" for n z
    using that uvarint [of n "[]"] by (simp add: LdRead_def io_ReadFull_def unat_gt_0 word_neq_0_conv)
  then show ?thesis using assms by (auto simp: cr_Next_def ReadNode_def LdRead_def uvarint_end)
qed

lemma loadCarSlow_puts:
  assumes "\<forall>(c, data) \<in> set blks. valid_cid c \<and> PrefixSum L c data = Inr c \<and> length (sec (c, data)) < 2 ^ 64"
    and "rest = [] \<or> (\<exists>n. rest = PutUvarint L n \<and> 0 < n)"
  shows "loadCarSlow L (\<lambda>blk s. (None, add blk s)) cr (concat (map sec blks) @ rest) s = Some (Inr (CrHeader cr), fold add blks s)"
  using assms(1)
proof (induction blks arbitrary: s)
  case (Cons blk blks)
  obtain c data where blk: "blk = (c, data)" by (cases blk)
  have "cr_Next L cr (sec blk @ concat (map sec blks) @ rest) = Inr (blk, concat (map sec blks) @ rest)"
    unfolding blk by (rule cr_Next_section) (use Cons.prems in \<open>simp_all add: blk\<close>)
  with Cons show ?case by (subst loadCarSlow.simps) (simp)
qed (subst loadCarSlow.simps, simp add: cr_Next_end [OF assms(2)])

lemma loadCarFast_puts:
  assumes "\<forall>(c, data) \<in> set blks. valid_cid c \<and> PrefixSum L c data = Inr c \<and> length (sec (c, data)) < 2 ^ 64"
    and "rest = [] \<or> (\<exists>n. rest = PutUvarint L n \<and> 0 < n)"
  shows "loadCarFast L (\<lambda>bs s. (None, fold add bs s)) cr (concat (map sec blks) @ rest) buf s = Some (Inr (CrHeader cr), fold add (buf @ blks) s)"
  using assms(1)
proof (induction blks arbitrary: buf s)
  case (Cons blk blks)
  obtain c data where blk: "blk = (c, data)" by (cases blk)
  have "cr_Next L cr (sec blk @ concat (map sec blks) @ rest) = Inr (blk, concat (map sec blks) @ rest)"
    unfolding blk by (rule cr_Next_section) (use Cons.prems in \<open>simp_all add: blk\<close>)
  with Cons show ?case by (subst loadCarFast.simps) (simp add: Let_def)
qed (subst loadCarFast.simps, simp add: cr_Next_end [OF assms(2)])

end

end
