(* ===== verification/Car_Store.thy ===== *)
theory Car_Store
  imports Car_Format
begin

section \<open>CAR files as block stores\<close>

text \<open>
  The second half of \<open>stores/kvcarbs.go\<close>: the index of a store that is being written, the read-only store
  and the read-write store, and \<open>stores/filestore.go\<close>, which uses a block store as a datastore. The index
  keeps its records in the tree of the \<open>llrb\<close> library: a parameter \<open>llrb_api\<close>, with the documented
  behaviour (items come in ascending order, equal ones in the order of insertion) as the locale \<open>llrb\<close>.
  \<open>isIdentity\<close> always answers no, so that data is stored under identity CIDs too.
\<close>

definition isIdentity :: "cid \<Rightarrow> bool" where
  "isIdentity c = False"

subsection \<open>The index of a store that is written\<close>

record recordDigest =
  RdDigest :: string
  RdCid :: cid
  RdOffset :: uint64

definition bytes_less :: "string \<Rightarrow> string \<Rightarrow> bool" where
  "bytes_less a b = ord_class.lexordp (map of_char a :: nat list) (map of_char b)"

definition rd_Less :: "recordDigest \<Rightarrow> recordDigest \<Rightarrow> bool" where
  "rd_Less r than = bytes_less (RdDigest r) (RdDigest than)"

text \<open>\<open>LAscend d t\<close> are the items that \<open>AscendGreaterOrEqual\<close> visits from the first that is not less than
  the digest \<open>d\<close> on.\<close>

record 't llrb_api =
  LEmpty :: 't
  LInsertNoReplace :: "recordDigest \<Rightarrow> 't \<Rightarrow> 't"
  LGet :: "string \<Rightarrow> 't \<Rightarrow> recordDigest option"
  LAscend :: "string \<Rightarrow> 't \<Rightarrow> recordDigest list"

locale llrb =
  fixes T :: "'t llrb_api" and items :: "'t \<Rightarrow> recordDigest list"
  assumes items_empty: "items (LEmpty T) = []"
    and items_insert: "items (LInsertNoReplace T r t) =
      filter (\<lambda>x. \<not> rd_Less r x) (items t) @ r # filter (\<lambda>x. rd_Less r x) (items t)"
    and get_None: "LGet T d t = None \<longleftrightarrow> (\<forall>x \<in> set (items t). RdDigest x \<noteq> d)"
    and get_Some: "LGet T d t = Some r \<Longrightarrow> r \<in> set (items t) \<and> RdDigest r = d"
    and ascend: "LAscend T d t = filter (\<lambda>x. \<not> bytes_less (RdDigest x) d) (items t)"

definition newRecordFromCid :: "car_lib \<Rightarrow> cid \<Rightarrow> uint64 \<Rightarrow> recordDigest go_run" where
  "newRecordFromCid L c at = on_err (MhDecode L (CidHash L c)) (\<lambda>err. Panics)
     (\<lambda>d. Returns \<lparr>RdDigest = d, RdCid = c, RdOffset = at\<rparr>)"

definition insertNoReplace :: "car_lib \<Rightarrow> 't llrb_api \<Rightarrow> cid \<Rightarrow> uint64 \<Rightarrow> 't \<Rightarrow> 't go_run" where
  "insertNoReplace L T key n ii = run_bind (newRecordFromCid L key n) (\<lambda>r. Returns (LInsertNoReplace T r ii))"

definition index_not_found :: go_error where
  "index_not_found = Sentinel IndexErrNotFound ''not found''"

definition ii_Get :: "car_lib \<Rightarrow> 't llrb_api \<Rightarrow> 't \<Rightarrow> cid \<Rightarrow> go_error + uint64" where
  "ii_Get L T ii c = on_err (MhDecode L (CidHash L c)) Inl
     (\<lambda>d. case LGet T d ii of None \<Rightarrow> Inl index_not_found | Some r \<Rightarrow> Inr (RdOffset r))"

text \<open>\<open>GetAll\<close> calls back with the offset of each record of the digest, in order, until the callback says
  stop; what the callback closes over is its state \<open>'s\<close>.\<close>

fun getall_loop :: "string \<Rightarrow> (uint64 \<Rightarrow> 's \<Rightarrow> bool \<times> 's) \<Rightarrow> recordDigest list \<Rightarrow> bool \<Rightarrow> 's \<Rightarrow> bool \<times> 's" where
  "getall_loop d fn [] any s = (any, s)"
| "getall_loop d fn (existing # rs) any s =
     (if RdDigest existing \<noteq> d then (any, s)
      else case fn (RdOffset existing) s of (continue, s') \<Rightarrow>
        if continue then getall_loop d fn rs True s' else (True, s'))"

definition ii_GetAll ::
  "car_lib \<Rightarrow> 't llrb_api \<Rightarrow> 't \<Rightarrow> cid \<Rightarrow> (uint64 \<Rightarrow> 's \<Rightarrow> bool \<times> 's) \<Rightarrow> 's \<Rightarrow> go_error option \<times> 's" where
  "ii_GetAll L T ii c fn s = on_err (MhDecode L (CidHash L c))
     (\<lambda>err. (Some err, s))
     (\<lambda>d. case getall_loop d fn (LAscend T d ii) False s of
        (any, s') \<Rightarrow> (if \<not> any then Some index_not_found else None, s'))"

fun exact_loop :: "string \<Rightarrow> cid \<Rightarrow> recordDigest list \<Rightarrow> bool" where
  "exact_loop d c [] = False"
| "exact_loop d c (existing # rs) =
     (if RdDigest existing \<noteq> d then False else if RdCid existing = c then True else exact_loop d c rs)"

definition hasExactCID :: "car_lib \<Rightarrow> 't llrb_api \<Rightarrow> 't \<Rightarrow> cid \<Rightarrow> bool go_run" where
  "hasExactCID L T ii c = on_err (MhDecode L (CidHash L c)) (\<lambda>err. Panics)
     (\<lambda>d. Returns (exact_loop d c (LAscend T d ii)))"

subsection \<open>Reading\<close>

record car_opts =
  ZeroLengthSectionAsEOF :: bool
  BlockstoreUseWholeCIDs :: bool
  BlockstoreAllowDuplicatePuts :: bool
  StoreIdentityCIDs :: bool
  MaxIndexCidSize :: uint64

definition errClosed :: go_error where
  "errClosed = New ''cannot use a carv2 blockstore after closing''"

definition errReadOnly :: go_error where
  "errReadOnly = New ''called write method on a read-only carv2 blockstore''"

definition not_found :: "cid \<Rightarrow> go_error" where
  "not_found key = Sentinel FormatErrNotFound key"

text \<open>The read-only store: the bytes of the CARv1 payload, whether it is closed, and the options. The
  index that it was opened with is given by its \<open>GetAll\<close>.\<close>

record ReadOnly =
  RoClosed :: bool
  RoBacking :: string
  RoOpts :: car_opts

type_synonym 's index_all = "cid \<Rightarrow> (uint64 \<Rightarrow> 's \<Rightarrow> bool \<times> 's) \<Rightarrow> 's \<Rightarrow> go_error option \<times> 's"

definition reader_at :: "ReadOnly \<Rightarrow> uint64 \<Rightarrow> string" where
  "reader_at b off = drop (unat off) (RoBacking b)"

definition readBlock :: "car_lib \<Rightarrow> ReadOnly \<Rightarrow> uint64 \<Rightarrow> go_error + cid \<times> string" where
  "readBlock L b idx = on_err (ReadNode L (ZeroLengthSectionAsEOF (RoOpts b)) (reader_at b idx)) Inl
     (\<lambda>(node, _). Inr node)"

definition has_at :: "car_lib \<Rightarrow> ReadOnly \<Rightarrow> cid \<Rightarrow> uint64 \<Rightarrow> bool \<times> go_error option \<Rightarrow> bool \<times> (bool \<times> go_error option)" where
  "has_at L b key offset s = (case ReadUvarint L (reader_at b offset) of
     (_, Some err, _) \<Rightarrow> (False, (fst s, Some err))
   | (_, None, r) \<Rightarrow> on_err (CidFromReader L r)
       (\<lambda>err. (False, (fst s, Some err)))
       (\<lambda>(_, readCid).
          if BlockstoreUseWholeCIDs (RoOpts b) then (readCid \<noteq> key, (readCid = key, snd s))
          else (False, (CidHash L readCid = CidHash L key, snd s))))"

definition ro_Has ::
  "car_lib \<Rightarrow> (bool \<times> go_error option) index_all \<Rightarrow> ReadOnly \<Rightarrow> cid \<Rightarrow> bool \<times> go_error option" where
  "ro_Has L getAll b key = (if isIdentity key then (True, None)
     else if RoClosed b then (False, Some errClosed)
     else case getAll key (has_at L b key) (False, None) of
       (Some err, _) \<Rightarrow> (False, if errors_Is err IndexErrNotFound then None else Some err)
     | (None, s) \<Rightarrow> s)"

definition get_at ::
  "car_lib \<Rightarrow> ReadOnly \<Rightarrow> cid \<Rightarrow> uint64 \<Rightarrow> string option \<times> go_error option \<Rightarrow> bool \<times> (string option \<times> go_error option)" where
  "get_at L b key offset s = on_err (readBlock L b offset)
     (\<lambda>err. (False, (fst s, Some err)))
     (\<lambda>(readCid, data).
        if BlockstoreUseWholeCIDs (RoOpts b)
        then if readCid = key then (False, (Some data, snd s)) else (True, s)
        else (False, (if CidHash L readCid = CidHash L key then Some data else fst s, snd s)))"

definition ro_Get ::
  "car_lib \<Rightarrow> (string option \<times> go_error option) index_all \<Rightarrow> ReadOnly \<Rightarrow> cid \<Rightarrow> go_error + cid \<times> string" where
  "ro_Get L getAll b key = (if isIdentity key then Inr (key, [])
     else if RoClosed b then Inl errClosed
     else case getAll key (get_at L b key) (None, None) of
       (Some err, _) \<Rightarrow> Inl (if errors_Is err IndexErrNotFound then not_found key else err)
     | (None, (_, Some fnErr)) \<Rightarrow> Inl fnErr
     | (None, (None, None)) \<Rightarrow> Inl (not_found key)
     | (None, (Some fnData, None)) \<Rightarrow> Inr (key, fnData))"

definition size_at ::
  "car_lib \<Rightarrow> ReadOnly \<Rightarrow> cid \<Rightarrow> uint64 \<Rightarrow> int \<times> go_error option \<Rightarrow> bool \<times> (int \<times> go_error option)" where
  "size_at L b key offset s = (case ReadUvarint L (reader_at b offset) of
     (_, Some err, _) \<Rightarrow> (False, (fst s, Some err))
   | (sectionLen, None, r) \<Rightarrow> on_err (CidFromReader L r)
       (\<lambda>err. (False, (fst s, Some err)))
       (\<lambda>(cidLen, readCid).
          if BlockstoreUseWholeCIDs (RoOpts b)
          then if readCid = key then (False, (sint sectionLen - int cidLen, snd s)) else (True, s)
          else (False, (if CidHash L readCid = CidHash L key then sint sectionLen - int cidLen else fst s, snd s))))"

definition ro_GetSize ::
  "car_lib \<Rightarrow> (int \<times> go_error option) index_all \<Rightarrow> ReadOnly \<Rightarrow> cid \<Rightarrow> int \<times> go_error option" where
  "ro_GetSize L getAll b key = (if isIdentity key then (0, None)
     else if RoClosed b then (0, Some errClosed)
     else case getAll key (size_at L b key) (-1, None) of
       (Some err, _) \<Rightarrow> (-1, Some (if errors_Is err IndexErrNotFound then not_found key else err))
     | (None, (_, Some fnErr)) \<Rightarrow> (-1, Some fnErr)
     | (None, (fnSize, None)) \<Rightarrow> if fnSize = -1 then (-1, Some (not_found key)) else (fnSize, None))"

definition ro_Put :: "go_error option" where "ro_Put = Some errReadOnly"
definition ro_PutMany :: "go_error option" where "ro_PutMany = Some errReadOnly"
definition ro_DeleteBlock :: "go_error option" where "ro_DeleteBlock = Some errReadOnly"

definition ro_Roots :: "car_lib \<Rightarrow> ReadOnly \<Rightarrow> go_error + cid list" where
  "ro_Roots L b = on_err (ReadHeader L (RoBacking b))
     (\<lambda>err. Inl (Wrap ''error reading car header: '' err)) (\<lambda>(header, _). Inr (Roots header))"

definition ro_Close :: "go_error option \<Rightarrow> ReadOnly \<Rightarrow> go_error option \<times> ReadOnly" where
  "ro_Close closer b = (closer, b\<lparr>RoClosed := True\<rparr>)"

text \<open>The keys of the payload, in order, with the error that ended the walk, if one did. \<open>rawCid\<close> is the
  CID of the raw codec with the same hash; the walk is not cancelled.\<close>

partial_function (option) keys_loop ::
  "car_lib \<Rightarrow> (cid \<Rightarrow> cid) \<Rightarrow> car_opts \<Rightarrow> string \<Rightarrow> nat \<Rightarrow> cid list \<Rightarrow> (cid list \<times> go_error option) option" where
  "keys_loop L rawCid opts f off ch = (case ReadUvarint L (drop off f) of
     (_, Some err, _) \<Rightarrow> Some (ch, if err \<noteq> io_EOF then Some err else None)
   | (len, None, r) \<Rightarrow>
       if len = 0
       then Some (ch, if ZeroLengthSectionAsEOF opts then None
         else Some (New ''zero-length carv2 section not allowed by default; see WithZeroLengthSectionAsEOF option''))
       else (case CidFromReader L r of
           Inl err \<Rightarrow> Some (ch, Some err)
         | Inr (_, c) \<Rightarrow> keys_loop L rawCid opts f (length f - length r + unat len)
             (ch @ [if BlockstoreUseWholeCIDs opts then c else rawCid c])))"

definition ro_AllKeysChan ::
  "car_lib \<Rightarrow> (cid \<Rightarrow> cid) \<Rightarrow> ReadOnly \<Rightarrow> go_error + (cid list \<times> go_error option) option" where
  "ro_AllKeysChan L rawCid b = (if RoClosed b then Inl errClosed
     else on_err (ReadHeader L (RoBacking b))
       (\<lambda>err. Inl (Wrap ''error reading car header: '' err))
       (\<lambda>(header, _). on_err (HeaderSize L header) Inl
          (\<lambda>headerSize. Inr (keys_loop L rawCid (RoOpts b) (RoBacking b) (unat headerSize) []))))"

subsection \<open>Writing\<close>

text \<open>The read-write store: the payload as it is in the file, the position of the data writer in it, and
  the index.\<close>

record 't ReadWrite =
  RwClosed :: bool
  RwPayload :: string
  RwPosition :: nat
  RwIdx :: 't
  RwOpts :: car_opts

definition rw_ronly :: "'t ReadWrite \<Rightarrow> ReadOnly" where
  "rw_ronly b = \<lparr>RoClosed = RwClosed b, RoBacking = RwPayload b, RoOpts = RwOpts b\<rparr>"

text \<open>Whether a block is there already, so that it is not written again.\<close>

definition deduplicated :: "car_lib \<Rightarrow> 't llrb_api \<Rightarrow> 't ReadWrite \<Rightarrow> cid \<Rightarrow> bool go_run" where
  "deduplicated L T b c = (if BlockstoreAllowDuplicatePuts (RwOpts b) then Returns False
     else if BlockstoreUseWholeCIDs (RwOpts b) then hasExactCID L T (RwIdx b) c
     else Returns (on_err (ii_Get L T (RwIdx b) c) (\<lambda>err. False) (\<lambda>off. True)))"

text \<open>Writing a section: \<open>wr\<close> says how many bytes of it get to the file, and the error when that is not
  all; the writer moves on by what it wrote.\<close>

definition write_section :: "(string \<Rightarrow> nat \<times> go_error option) \<Rightarrow> string \<Rightarrow> 't ReadWrite \<Rightarrow> go_error option \<times> 't ReadWrite" where
  "write_section wr sec b = (let (k, err) = wr sec; written = (case err of None \<Rightarrow> sec | Some _ \<Rightarrow> take k sec) in
     (err, b\<lparr>RwPayload := bytes_WriteAt (RwPayload b) written (RwPosition b),
       RwPosition := RwPosition b + length written\<rparr>))"

fun put_loop ::
  "car_lib \<Rightarrow> 't llrb_api \<Rightarrow> (string \<Rightarrow> nat \<times> go_error option) \<Rightarrow> (cid \<times> string) list \<Rightarrow> 't ReadWrite \<Rightarrow>
   (go_error option \<times> 't ReadWrite) go_run" where
  "put_loop L T wr [] b = Returns (None, b)"
| "put_loop L T wr ((c, data) # blks) b =
     (if \<not> StoreIdentityCIDs (RwOpts b) \<and> isIdentity c then put_loop L T wr blks b
      else if of_nat (length (CidBytes L c)) > MaxIndexCidSize (RwOpts b)
      then Returns (Some (CidTooLarge L (MaxIndexCidSize (RwOpts b)) (of_nat (length (CidBytes L c)))), b)
      else run_bind (deduplicated L T b c) (\<lambda>dup.
        if dup then put_loop L T wr blks b
        else (case write_section wr (UtilLd L [CidBytes L c, data]) b of
            (Some err, b') \<Rightarrow> Returns (Some err, b')
          | (None, b') \<Rightarrow> run_bind (insertNoReplace L T c (of_nat (RwPosition b)) (RwIdx b'))
              (\<lambda>idx. put_loop L T wr blks (b'\<lparr>RwIdx := idx\<rparr>)))))"

definition rw_PutMany ::
  "car_lib \<Rightarrow> 't llrb_api \<Rightarrow> (string \<Rightarrow> nat \<times> go_error option) \<Rightarrow> (cid \<times> string) list \<Rightarrow> 't ReadWrite \<Rightarrow>
   (go_error option \<times> 't ReadWrite) go_run" where
  "rw_PutMany L T wr blks b = (if RwClosed b then Returns (Some errClosed, b) else put_loop L T wr blks b)"

definition rw_Put ::
  "car_lib \<Rightarrow> 't llrb_api \<Rightarrow> (string \<Rightarrow> nat \<times> go_error option) \<Rightarrow> cid \<times> string \<Rightarrow> 't ReadWrite \<Rightarrow>
   (go_error option \<times> 't ReadWrite) go_run" where
  "rw_Put L T wr blk b = rw_PutMany L T wr [blk] b"

definition rw_Get :: "car_lib \<Rightarrow> 't llrb_api \<Rightarrow> 't ReadWrite \<Rightarrow> cid \<Rightarrow> go_error + cid \<times> string" where
  "rw_Get L T b key = ro_Get L (ii_GetAll L T (RwIdx b)) (rw_ronly b) key"

definition rw_Has :: "car_lib \<Rightarrow> 't llrb_api \<Rightarrow> 't ReadWrite \<Rightarrow> cid \<Rightarrow> bool \<times> go_error option" where
  "rw_Has L T b key = ro_Has L (ii_GetAll L T (RwIdx b)) (rw_ronly b) key"

definition rw_GetSize :: "car_lib \<Rightarrow> 't llrb_api \<Rightarrow> 't ReadWrite \<Rightarrow> cid \<Rightarrow> int \<times> go_error option" where
  "rw_GetSize L T b key = ro_GetSize L (ii_GetAll L T (RwIdx b)) (rw_ronly b) key"

definition rw_Discard :: "'t ReadWrite \<Rightarrow> 't ReadWrite" where
  "rw_Discard b = b\<lparr>RwClosed := True\<rparr>"

text \<open>\<open>Finalize\<close>, with what flattening the index, writing it, writing the CARv2 header and closing the file
  answer; whatever happens, the store is closed.\<close>

definition rw_Finalize ::
  "go_error option \<Rightarrow> go_error option \<Rightarrow> go_error option \<Rightarrow> go_error option \<Rightarrow> 't ReadWrite \<Rightarrow> go_error option \<times> 't ReadWrite" where
  "rw_Finalize flatten writeIndex writeHeader close b =
     (if RwClosed b then (Some (New ''called Finalize on a closed blockstore''), b)
      else (case flatten of Some err \<Rightarrow> Some err
        | None \<Rightarrow> (case writeIndex of Some err \<Rightarrow> Some err
          | None \<Rightarrow> (case writeHeader of Some err \<Rightarrow> Some err | None \<Rightarrow> close)),
        b\<lparr>RwClosed := True\<rparr>))"

subsection \<open>Opening\<close>

definition initWithRoots :: "car_lib \<Rightarrow> 't llrb_api \<Rightarrow> car_opts \<Rightarrow> cid list \<Rightarrow> go_error + 't ReadWrite" where
  "initWithRoots L T opts roots = on_err (WriteHeader L \<lparr>Roots = roots, Version = 1\<rparr>) Inl
     (\<lambda>hb. Inr \<lparr>RwClosed = False, RwPayload = hb, RwPosition = length hb, RwIdx = LEmpty T, RwOpts = opts\<rparr>)"

text \<open>The walk over the sections of a file that is resumed: each CID goes into the index with the offset of
  its section. No value: the walk does not end; the result is an error or the index and the end. Lengths
  below \<open>2 ^ 63\<close> are meant: the seek over the section goes backwards beyond.\<close>

partial_function (option) resume_loop ::
  "car_lib \<Rightarrow> 't llrb_api \<Rightarrow> bool \<Rightarrow> string \<Rightarrow> nat \<Rightarrow> 't \<Rightarrow> (go_error + 't \<times> nat) go_run option" where
  "resume_loop L T zeroLenAsEOF f sectionOffset idx = (case ReadUvarint L (drop sectionOffset f) of
     (_, Some err, _) \<Rightarrow> Some (Returns (if err = io_EOF then Inr (idx, sectionOffset) else Inl err))
   | (len, None, r) \<Rightarrow>
       if len = 0
       then Some (Returns (if zeroLenAsEOF then Inr (idx, sectionOffset)
         else Inl (New ''carv1 null padding not allowed by default; see WithZeroLegthSectionAsEOF'')))
       else (case CidFromReader L r of
           Inl err \<Rightarrow> Some (Returns (Inl err))
         | Inr (n, c) \<Rightarrow> (case insertNoReplace L T c (of_nat sectionOffset) idx of
             Returns idx' \<Rightarrow> resume_loop L T zeroLenAsEOF f (length f - length r + unat len) idx'
           | Panics \<Rightarrow> Some Panics
           | Loops \<Rightarrow> None)))"

text \<open>The payload once the file is known to be a CARv2: the header is read and compared, the index of a
  finalized file is cut off, the CARv2 header is cleared, and the sections are walked. The data writer
  goes on at the end of the walk.\<close>

text \<open>\<open>cutFile\<close> is what truncating the file answers; it ends \<open>fileEnd\<close> bytes into the payload then.\<close>

definition resume_payload ::
  "car_lib \<Rightarrow> 't llrb_api \<Rightarrow> car_opts \<Rightarrow> go_error option \<Rightarrow> go_error option \<Rightarrow> nat \<Rightarrow> nat \<Rightarrow> string \<Rightarrow> cid list \<Rightarrow>
   (go_error + 't ReadWrite) go_run option" where
  "resume_payload L T opts cutFile unfinalize fileOffset fileEnd f roots = on_err (ReadHeader L f)
     (\<lambda>err. Some (Returns (Inl (Wrap ''error reading car header: '' err))))
     (\<lambda>(header, _).
        if \<not> Matches header \<lparr>Roots = roots, Version = 1\<rparr>
        then Some (Returns (Inl (New ''cannot resume on file with mismatching data header'')))
        else if fileOffset \<noteq> 0 \<and> cutFile \<noteq> None then Some (Returns (Inl (the cutFile)))
        else case unfinalize of
          Some err \<Rightarrow> Some (Returns (Inl (Wrap ''could not un-finalize: '' err)))
        | None \<Rightarrow> on_err (HeaderSize L header)
            (\<lambda>err. Some (Returns (Inl err)))
            (\<lambda>offset. let f' = (if fileOffset \<noteq> 0 then take fileEnd f @ replicate (fileEnd - length f) (CHR 0x00) else f) in
               map_option (\<lambda>run. run_bind run (\<lambda>res. Returns (on_err res Inl (\<lambda>(idx, sectionOffset).
                 Inr \<lparr>RwClosed = False, RwPayload = f', RwPosition = sectionOffset, RwIdx = idx, RwOpts = opts\<rparr>))))
                 (resume_loop L T (ZeroLengthSectionAsEOF opts) f' (unat offset) (LEmpty T))))"

text \<open>\<open>headerInFile\<close> is what reading the CARv2 header gives: an error, the data offset and the data size.\<close>

definition resumeWithRoots ::
  "car_lib \<Rightarrow> 't llrb_api \<Rightarrow> car_opts \<Rightarrow> nat \<Rightarrow> (go_error + uint64) \<Rightarrow> go_error option \<times> nat \<times> nat \<Rightarrow> go_error option \<Rightarrow>
   go_error option \<Rightarrow> string \<Rightarrow> cid list \<Rightarrow> (go_error + 't ReadWrite) go_run option" where
  "resumeWithRoots L T opts dataOffset readVersion headerInFile cutFile unfinalize f roots = on_err readVersion
     (\<lambda>err. Some (Returns (Inl err)))
     (\<lambda>version. if version \<noteq> 2
        then Some (Returns (Inl (New (''cannot resume on CAR file with version '' @ show_uint64 version))))
        else case headerInFile of (err, off, len) \<Rightarrow>
          if err = None \<and> off \<noteq> 0 \<and> off \<noteq> dataOffset
          then Some (Returns (Inl (New (''cannot resume from file with mismatched CARv1 offset; `WithDataPadding` '' @
            ''option must match the padding on file. Expected padding value of '' @
            show_uint64 (of_nat off - V2Prefix L) @ '' but got '' @ show_uint64 (of_nat dataOffset - V2Prefix L)))))
          else if err = None \<and> off \<noteq> 0 \<and> len = 0
          then Some (Returns (Inl (New ''corrupt CARv2 header; cannot resume from file'')))
          else resume_payload L T opts cutFile unfinalize off (off + len - dataOffset) f roots)"

text \<open>A file that is not empty is resumed.\<close>

definition OpenReadWrite ::
  "car_lib \<Rightarrow> 't llrb_api \<Rightarrow> car_opts \<Rightarrow> nat \<Rightarrow> (go_error + uint64) \<Rightarrow> go_error option \<times> nat \<times> nat \<Rightarrow> go_error option \<Rightarrow>
   go_error option \<Rightarrow> (go_error + string option) \<Rightarrow> cid list \<Rightarrow> (go_error + 't ReadWrite) go_run option" where
  "OpenReadWrite L T opts dataOffset readVersion headerInFile cutFile unfinalize file roots = on_err file
     (\<lambda>err. Some (Returns (Inl (Wrap ''could not open read/write file: '' err))))
     (\<lambda>payload. case payload of
        Some f \<Rightarrow> resumeWithRoots L T opts dataOffset readVersion headerInFile cutFile unfinalize f roots
      | None \<Rightarrow> Some (Returns (initWithRoots L T opts roots)))"

subsection \<open>A block store as a datastore\<close>

text \<open>\<open>dsCoercer\<close> in \<open>stores/filestore.go\<close>: a value is stored as the block of the CID that the key's bytes
  hash to (\<open>sumCid\<close>), which is not the hash of the value.\<close>

definition crcr_Get :: "(string \<Rightarrow> go_error + cid) \<Rightarrow> (cid \<Rightarrow> go_error + cid \<times> string) \<Rightarrow> string \<Rightarrow> go_error + string" where
  "crcr_Get sumCid get key = on_err (sumCid key)
     (\<lambda>err. Inl (Wrap ''failed to create cid: '' err))
     (\<lambda>c. on_err (get c) (\<lambda>err. Inl (Wrap (''failed to get cid '' @ c @ '': '') err)) (\<lambda>(_, data). Inr data))"

definition crcr_Put ::
  "(string \<Rightarrow> go_error + cid) \<Rightarrow> (cid \<times> string \<Rightarrow> 's \<Rightarrow> (go_error option \<times> 's) go_run) \<Rightarrow> string \<Rightarrow> string \<Rightarrow> 's \<Rightarrow>
   (go_error option \<times> 's) go_run" where
  "crcr_Put sumCid put key val s = on_err (sumCid key)
     (\<lambda>err. Returns (Some (Wrap ''failed to create cid: '' err), s))
     (\<lambda>c. run_bind (put (c, val) s) (\<lambda>(err, s'). Returns (map_option (Wrap ''failed to put block: '') err, s')))"

definition crcr_Has :: "(string \<Rightarrow> go_error + cid) \<Rightarrow> (cid \<Rightarrow> bool \<times> go_error option) \<Rightarrow> string \<Rightarrow> bool \<times> go_error option" where
  "crcr_Has sumCid has key = on_err (sumCid key) (\<lambda>err. (False, Some (Wrap ''failed to create cid: '' err))) has"

definition crcr_GetSize :: go_error where "crcr_GetSize = New ''operation NOT supported: GetSize''"
definition crcr_Query :: go_error where "crcr_Query = New ''operation NOT supported: Query''"
definition crcr_Delete :: go_error where "crcr_Delete = New ''operation NOT supported: Delete''"
definition crcr_Sync :: go_error where "crcr_Sync = New ''operation NOT supported: Sync''"

text \<open>The options of \<open>ReadWriteFilestore\<close>; the limit on CIDs is the library's default.\<close>

definition filestore_opts :: "uint64 \<Rightarrow> car_opts" where
  "filestore_opts maxCid = \<lparr>ZeroLengthSectionAsEOF = True, BlockstoreUseWholeCIDs = True,
     BlockstoreAllowDuplicatePuts = False, StoreIdentityCIDs = True, MaxIndexCidSize = maxCid\<rparr>"

end
