(* ===== verification/Car_Store_Correct.thy ===== *)
theory Car_Store_Correct
  imports Car_Store
begin

section \<open>Correctness of the CAR block store\<close>

text \<open>
  A store that is written is described by its header bytes and the sections put into it, in order: the
  payload is their concatenation and the index was made by inserting their CIDs with their offsets
  (\<open>holds\<close>). Reading finds a block through the index; walking the file again makes the same index.
\<close>

subsection \<open>The index\<close>

lemma bytes_less_irrefl: "\<not> bytes_less a a"
  by (simp add: bytes_less_def lexordp_irreflexive')

lemma bytes_less_trans: "bytes_less a b \<Longrightarrow> bytes_less b c \<Longrightarrow> bytes_less a c"
  unfolding bytes_less_def by (rule lexordp_trans)

lemma bytes_less_asym: "bytes_less a b \<Longrightarrow> \<not> bytes_less b a"
  using bytes_less_irrefl bytes_less_trans by blast

lemma bytes_less_total: "a \<noteq> b \<Longrightarrow> \<not> bytes_less a b \<Longrightarrow> bytes_less b a"
  unfolding bytes_less_def
  by (metis inj_map_eq_map inj_of_char lexordp_linear)

definition ascending :: "recordDigest list \<Rightarrow> bool" where
  "ascending rs = sorted_wrt (\<lambda>a b. \<not> rd_Less b a) rs"

lemma ascending_insert:
  assumes "ascending rs"
  shows "ascending (filter (\<lambda>x. \<not> rd_Less r x) rs @ r # filter (\<lambda>x. rd_Less r x) rs)"
proof -
  have between: "\<not> rd_Less y x" if "\<not> rd_Less r x" "rd_Less r y" for x y
    using that bytes_less_trans unfolding rd_Less_def by blast
  have after: "\<not> rd_Less y r" if "rd_Less r y" for y
    using that bytes_less_asym unfolding rd_Less_def by blast
  show ?thesis
    unfolding ascending_def sorted_wrt_append sorted_wrt.simps
  proof (intro conjI ballI)
    fix x y
    assume "x \<in> set (filter (\<lambda>x. \<not> rd_Less r x) rs)" and "y \<in> set (r # filter (\<lambda>x. rd_Less r x) rs)"
    then show "\<not> rd_Less y x" using between [of x y] by auto
  qed (use assms after in \<open>simp_all add: ascending_def sorted_wrt_filter\<close>)
qed

lemma ascending_same_digest:
  "ascending rs \<Longrightarrow> takeWhile (\<lambda>r. RdDigest r = d) (filter (\<lambda>x. \<not> bytes_less (RdDigest x) d) rs) =
   filter (\<lambda>r. RdDigest r = d) rs"
proof (induction rs)
  case (Cons x rs)
  then have IH: "takeWhile (\<lambda>r. RdDigest r = d) (filter (\<lambda>x. \<not> bytes_less (RdDigest x) d) rs) =
     filter (\<lambda>r. RdDigest r = d) rs" by (simp add: ascending_def)
  show ?case
  proof (cases "RdDigest x = d \<or> bytes_less (RdDigest x) d")
    case False
    then have "bytes_less d (RdDigest x)" using bytes_less_total by blast
    moreover have "\<forall>y \<in> set rs. \<not> bytes_less (RdDigest y) (RdDigest x)"
      using Cons.prems by (simp add: ascending_def rd_Less_def)
    ultimately have "\<forall>y \<in> set rs. RdDigest y \<noteq> d" by blast
    with False show ?thesis by (simp add: filter_empty_conv)
  qed (use IH in \<open>auto simp: bytes_less_irrefl\<close>)
qed simp

lemma getall_loop_prefix:
  "getall_loop d fn rs any s = getall_loop d fn (takeWhile (\<lambda>r. RdDigest r = d) rs) any s"
  by (induction rs arbitrary: any s) (auto split: prod.split)

lemma exact_loop_prefix:
  "exact_loop d c rs \<longleftrightarrow> c \<in> RdCid ` set (takeWhile (\<lambda>r. RdDigest r = d) rs)"
  by (induction rs) auto

context llrb
begin

definition of_records :: "recordDigest list \<Rightarrow> 't \<Rightarrow> 't" where
  "of_records rs t = fold (LInsertNoReplace T) rs t"

lemma ascending_of_records: "ascending (items t) \<Longrightarrow> ascending (items (of_records rs t))"
  unfolding of_records_def
proof (induction rs arbitrary: t)
  case (Cons r rs)
  have "ascending (items (LInsertNoReplace T r t))"
    unfolding items_insert by (rule ascending_insert [OF Cons.prems])
  then show ?case using Cons.IH by simp
qed simp

lemma same_digest_insert:
  "filter (\<lambda>x. RdDigest x = d) (items (LInsertNoReplace T r t)) =
   filter (\<lambda>x. RdDigest x = d) (items t) @ (if RdDigest r = d then [r] else [])"
proof (cases "bytes_less (RdDigest r) d")
  case True
  then have "filter (\<lambda>x. \<not> rd_Less r x \<and> RdDigest x = d) (items t) = []"
    "filter (\<lambda>x. rd_Less r x \<and> RdDigest x = d) (items t) = filter (\<lambda>x. RdDigest x = d) (items t)"
    by (auto simp: rd_Less_def filter_empty_conv intro!: filter_cong)
  moreover from True have "RdDigest r \<noteq> d" using bytes_less_irrefl by blast
  ultimately show ?thesis by (simp add: items_insert conj_commute)
next
  case False
  then have "filter (\<lambda>x. \<not> rd_Less r x \<and> RdDigest x = d) (items t) = filter (\<lambda>x. RdDigest x = d) (items t)"
    "filter (\<lambda>x. rd_Less r x \<and> RdDigest x = d) (items t) = []"
    by (auto simp: rd_Less_def filter_empty_conv intro!: filter_cong)
  then show ?thesis by (simp add: items_insert conj_commute)
qed

lemma same_digest_of_records:
  "filter (\<lambda>x. RdDigest x = d) (items (of_records rs t)) =
   filter (\<lambda>x. RdDigest x = d) (items t) @ filter (\<lambda>x. RdDigest x = d) rs"
  unfolding of_records_def by (induction rs arbitrary: t) (simp_all add: same_digest_insert)

lemma visited_of_records:
  "takeWhile (\<lambda>r. RdDigest r = d) (LAscend T d (of_records rs (LEmpty T))) = filter (\<lambda>r. RdDigest r = d) rs"
proof -
  have "ascending (items (of_records rs (LEmpty T)))"
    by (rule ascending_of_records) (simp add: items_empty ascending_def)
  from ascending_same_digest [OF this] show ?thesis
    by (simp add: ascend same_digest_of_records items_empty)
qed

end

subsection \<open>Sections and their records\<close>

text \<open>A CID that goes into the index: its multihash can be decoded and it is not too long.\<close>

definition indexable :: "car_lib \<Rightarrow> (cid \<Rightarrow> bool) \<Rightarrow> car_opts \<Rightarrow> cid \<Rightarrow> bool" where
  "indexable L valid opts c \<longleftrightarrow> valid c \<and> \<not> isl (MhDecode L (CidHash L c)) \<and>
     (of_nat (length (CidBytes L c)) :: uint64) \<le> MaxIndexCidSize opts"

locale car_store = car_format L valid_cid + llrb T items
  for L :: car_lib and valid_cid and T :: "'t llrb_api" and items
begin

definition decodes :: "cid \<Rightarrow> bool" where
  "decodes c = (\<not> isl (MhDecode L (CidHash L c)))"

definition dig :: "cid \<Rightarrow> string" where
  "dig c = on_err (MhDecode L (CidHash L c)) (\<lambda>_. []) (\<lambda>d. d)"

lemma decodes_dig: "decodes c \<Longrightarrow> MhDecode L (CidHash L c) = Inr (dig c)"
  by (auto simp: decodes_def dig_def split: on_err_splits)

fun records :: "nat \<Rightarrow> (cid \<times> string) list \<Rightarrow> recordDigest list" where
  "records off [] = []"
| "records off (blk # blks) = \<lparr>RdDigest = dig (fst blk), RdCid = fst blk, RdOffset = of_nat off\<rparr> #
     records (off + length (sec blk)) blks"

lemma records_snoc:
  "records off (blks @ [blk]) = records off blks @
     [\<lparr>RdDigest = dig (fst blk), RdCid = fst blk, RdOffset = of_nat (off + length (concat (map sec blks)))\<rparr>]"
  by (induction blks arbitrary: off) (simp_all add: add.assoc)

lemma records_cids: "map RdCid (records off blks) = map fst blks"
  by (induction blks arbitrary: off) simp_all

lemma records_digest: "r \<in> set (records off blks) \<Longrightarrow> RdDigest r = dig (RdCid r)"
  by (induction blks arbitrary: off) auto

lemma records_at:
  "r \<in> set (records off blks) \<Longrightarrow> \<exists>pre data post. blks = pre @ (RdCid r, data) # post \<and>
     RdOffset r = of_nat (off + length (concat (map sec pre)))"
proof (induction blks arbitrary: off)
  case (Cons blk blks)
  show ?case
  proof (cases "r \<in> set (records (off + length (sec blk)) blks)")
    case True
    from Cons.IH [OF this] obtain pre data post where "blks = pre @ (RdCid r, data) # post"
      "RdOffset r = of_nat (off + length (sec blk) + length (concat (map sec pre)))" by blast
    then show ?thesis by (intro exI [of _ "blk # pre"] exI [of _ data] exI [of _ post]) (simp add: add.assoc)
  next
    case False
    with Cons.prems show ?thesis
      by (intro exI [of _ "[]"] exI [of _ "snd blk"] exI [of _ blks]) (cases blk, simp)
  qed
qed simp

definition holds :: "string \<Rightarrow> (cid \<times> string) list \<Rightarrow> 't ReadWrite \<Rightarrow> bool" where
  "holds hb blks b \<longleftrightarrow> \<not> RwClosed b \<and> RwPayload b = hb @ concat (map sec blks) \<and>
     RwPosition b = length (RwPayload b) \<and> RwIdx b = of_records (records (length hb) blks) (LEmpty T) \<and>
     distinct (map fst blks) \<and> (\<forall>c \<in> fst ` set blks. valid_cid c \<and> decodes c)"

subsection \<open>Reading\<close>

lemma readBlock_section:
  assumes "RoBacking b = pre @ sec (c, data) @ post" and "length (RoBacking b) < 2 ^ 63" and "valid_cid c"
  shows "readBlock L b (of_nat (length pre)) = Inr (c, data)"
proof -
  have "unat (of_nat (length pre) :: uint64) = length pre"
    using assms(1,2) by (intro unat_of_nat_small) simp
  moreover have "length (CidBytes L c @ data) < 2 ^ 64"
    using assms(1,2) by (simp add: sec_def util_ld)
  ultimately show ?thesis
    using ReadNode_section [OF assms(3)] by (simp add: readBlock_def reader_at_def assms(1) sec_def)
qed

text \<open>Looking through records of one digest whose blocks can be read finds the first with the CID.\<close>

lemma getall_found:
  assumes "\<And>r. r \<in> set rs \<Longrightarrow> RdDigest r = d \<and> (\<exists>data. readBlock L b (RdOffset r) = Inr (RdCid r, data) \<and> m (RdCid r) = Some data)"
    and "BlockstoreUseWholeCIDs (RoOpts b)"
  shows "getall_loop d (get_at L b key) rs any (None, None) =
    (any \<or> rs \<noteq> [], (if key \<in> RdCid ` set rs then m key else None, None))"
  using assms(1)
proof (induction rs arbitrary: any)
  case (Cons r rs)
  from Cons.prems [of r] obtain data where r: "RdDigest r = d" "readBlock L b (RdOffset r) = Inr (RdCid r, data)"
    "m (RdCid r) = Some data" by auto
  have IH: "getall_loop d (get_at L b key) rs True (None, None) = (True \<or> rs \<noteq> [],
      (if key \<in> RdCid ` set rs then m key else None, None))"
    by (rule Cons.IH) (rule Cons.prems, simp)
  have at: "get_at L b key (RdOffset r) (None, None) =
      (if RdCid r = key then (False, (Some data, None)) else (True, (None, None)))"
    using r(2) assms(2) by (simp add: get_at_def)
  show ?case
  proof (cases "RdCid r = key")
    case True
    with r(1,3) at show ?thesis by simp
  next
    case False
    with r(1) at IH show ?thesis by (simp split: if_splits)
  qed
qed simp

lemma rw_Get_holds:
  assumes "holds hb blks b" and "BlockstoreUseWholeCIDs (RwOpts b)" and "length (RwPayload b) < 2 ^ 63" and "decodes key"
  shows "rw_Get L T b key = (case map_of blks key of Some data \<Rightarrow> Inr (key, data) | None \<Rightarrow> Inl (not_found key))"
proof -
  let ?rs = "filter (\<lambda>r. RdDigest r = dig key) (records (length hb) blks)"
  from assms(1) have opened: "\<not> RwClosed b" and payload: "RwPayload b = hb @ concat (map sec blks)"
    and idx: "RwIdx b = of_records (records (length hb) blks) (LEmpty T)" and dist: "distinct (map fst blks)"
    and ok: "\<forall>c \<in> fst ` set blks. valid_cid c \<and> decodes c" unfolding holds_def by blast+
  have readable: "RdDigest r = dig key \<and> (\<exists>data. readBlock L (rw_ronly b) (RdOffset r) = Inr (RdCid r, data) \<and>
      map_of blks (RdCid r) = Some data)" if "r \<in> set ?rs" for r
  proof -
    from that records_at obtain pre data post where blks: "blks = pre @ (RdCid r, data) # post"
      and off: "RdOffset r = of_nat (length hb + length (concat (map sec pre)))" by fastforce
    have "readBlock L (rw_ronly b) (of_nat (length (hb @ concat (map sec pre)))) = Inr (RdCid r, data)"
      by (rule readBlock_section [where post = "concat (map sec post)"])
        (use assms(3) ok in \<open>simp_all add: rw_ronly_def payload blks\<close>)
    moreover have "map_of blks (RdCid r) = Some data"
      using dist by (rule map_of_is_SomeI) (simp add: blks)
    ultimately show ?thesis using that off by simp
  qed
  have whole: "BlockstoreUseWholeCIDs (RoOpts (rw_ronly b))" using assms(2) by (simp add: rw_ronly_def)
  have key: "key \<in> RdCid ` set ?rs \<longleftrightarrow> map_of blks key \<noteq> None"
  proof -
    have "key \<in> RdCid ` set ?rs \<longleftrightarrow> key \<in> RdCid ` set (records (length hb) blks)"
      using records_digest by fastforce
    also have "\<dots> \<longleftrightarrow> key \<in> fst ` set blks" by (metis records_cids set_map)
    finally show ?thesis by (simp add: map_of_eq_None_iff)
  qed
  have "getall_loop (dig key) (get_at L (rw_ronly b) key) ?rs False (None, None) =
      (False \<or> ?rs \<noteq> [], (if key \<in> RdCid ` set ?rs then map_of blks key else None, None))"
    by (rule getall_found [OF _ whole]) (rule readable)
  then have "getall_loop (dig key) (get_at L (rw_ronly b) key) (LAscend T (dig key) (RwIdx b)) False (None, None) =
      (?rs \<noteq> [], (if key \<in> RdCid ` set ?rs then map_of blks key else None, None))"
    by (subst getall_loop_prefix) (simp only: idx visited_of_records simp_thms)
  then have all: "ii_GetAll L T (RwIdx b) key (get_at L (rw_ronly b) key) (None, None) =
      (if ?rs = [] then Some index_not_found else None, (map_of blks key, None))"
    using key by (auto simp: ii_GetAll_def decodes_dig [OF assms(4)])
  show ?thesis
    using opened key unfolding rw_Get_def ro_Get_def all
    by (auto simp: isIdentity_def rw_ronly_def index_not_found_def filter_empty_conv split: option.split)
qed

subsection \<open>Writing\<close>

text \<open>What a store keeps of the blocks that are put into it: the first of each CID.\<close>

definition keep :: "(cid \<times> string) list \<Rightarrow> (cid \<times> string) list \<Rightarrow> (cid \<times> string) list" where
  "keep old new = fold (\<lambda>blk kept. if fst blk \<in> fst ` set kept then kept else kept @ [blk]) new old"

lemma keep_simps:
  "keep old [] = old"
  "keep old (blk # new) = keep (if fst blk \<in> fst ` set old then old else old @ [blk]) new"
  by (simp_all add: keep_def)

lemma keep_keep: "keep (keep old new) newer = keep old (new @ newer)"
  by (simp add: keep_def)

lemma map_of_keep: "map_of (keep old new) = map_of (old @ new)"
proof (induction new arbitrary: old)
  case (Cons blk new)
  show ?case
  proof (cases "fst blk \<in> fst ` set old")
    case True
    then have "map_of old (fst blk) \<noteq> None" by (simp add: map_of_eq_None_iff)
    then show ?thesis
      using True Cons.IH [of old] by (cases blk) (auto simp: keep_simps fun_eq_iff map_add_def split: option.split)
  qed (simp add: keep_simps Cons.IH)
qed (simp add: keep_simps)

lemma deduplicated_holds:
  assumes "holds hb blks b" and "decodes c" and "\<not> BlockstoreAllowDuplicatePuts (RwOpts b)"
    and "BlockstoreUseWholeCIDs (RwOpts b)"
  shows "deduplicated L T b c = Returns (c \<in> fst ` set blks)"
proof -
  have "c \<in> RdCid ` set (filter (\<lambda>r. RdDigest r = dig c) (records (length hb) blks)) \<longleftrightarrow> c \<in> RdCid ` set (records (length hb) blks)"
    using records_digest by fastforce
  also have "\<dots> \<longleftrightarrow> c \<in> fst ` set blks" by (metis records_cids set_map)
  finally show ?thesis
    using assms unfolding holds_def
    by (simp add: deduplicated_def hasExactCID_def decodes_dig exact_loop_prefix visited_of_records)
qed

lemma write_section_end:
  assumes "RwPosition b = length (RwPayload b)" and "snd (wr bs) = None"
  shows "write_section wr bs b = (None, b\<lparr>RwPayload := RwPayload b @ bs, RwPosition := length (RwPayload b @ bs)\<rparr>)"
  using assms by (cases "wr bs") (simp add: write_section_def bytes_WriteAt_def)

lemma put_loop_holds:
  assumes "holds hb old b" and "\<forall>blk \<in> set new. indexable L valid_cid (RwOpts b) (fst blk)"
    and "\<not> BlockstoreAllowDuplicatePuts (RwOpts b)" and "BlockstoreUseWholeCIDs (RwOpts b)"
    and wr: "\<And>bs. snd (wr bs) = None"
  shows "\<exists>b'. put_loop L T wr new b = Returns (None, b') \<and> holds hb (keep old new) b' \<and> RwOpts b' = RwOpts b"
  using assms(1-4)
proof (induction new arbitrary: old b)
  case (Cons blk new)
  obtain c data where blk: "blk = (c, data)" by (cases blk)
  have c: "valid_cid c" "decodes c" "\<not> MaxIndexCidSize (RwOpts b) < (of_nat (length (CidBytes L c)) :: uint64)"
    using Cons.prems(2) by (auto simp: blk indexable_def decodes_def not_less)
  have dup: "deduplicated L T b c = Returns (c \<in> fst ` set old)"
    using Cons.prems c(2) by (intro deduplicated_holds) auto
  show ?case
  proof (cases "c \<in> fst ` set old")
    case True
    then have "put_loop L T wr (blk # new) b = put_loop L T wr new b"
      using c(3) dup by (simp add: blk isIdentity_def)
    moreover have "keep old (blk # new) = keep old new" using True by (simp add: keep_simps blk)
    ultimately show ?thesis using Cons.IH [OF Cons.prems(1)] Cons.prems(2-4) by simp
  next
    case False
    let ?bs = "UtilLd L [CidBytes L c, data]"
    let ?r = "\<lparr>RdDigest = dig c, RdCid = c, RdOffset = of_nat (RwPosition b)\<rparr>"
    let ?b = "b\<lparr>RwPayload := RwPayload b @ ?bs, RwPosition := length (RwPayload b @ ?bs), RwIdx := LInsertNoReplace T ?r (RwIdx b)\<rparr>"
    have held: "RwPosition b = length (RwPayload b)" using Cons.prems(1) by (simp add: holds_def)
    have "put_loop L T wr (blk # new) b = put_loop L T wr new ?b"
      using c False dup write_section_end [OF held wr]
      by (simp add: blk isIdentity_def insertNoReplace_def newRecordFromCid_def decodes_dig)
    moreover have "holds hb (old @ [blk]) ?b"
      using Cons.prems(1) c(1,2) False
      by (auto simp: holds_def blk sec_def records_snoc of_records_def)
    moreover have "keep old (blk # new) = keep (old @ [blk]) new" using False by (simp add: keep_simps blk)
    ultimately show ?thesis using Cons.IH [of "old @ [blk]" ?b] Cons.prems(2-4) by simp
  qed
qed (simp add: keep_simps)

subsection \<open>Resuming\<close>

text \<open>One section of the walk: also when the file ends inside the data of the block.\<close>

lemma resume_section:
  assumes "drop off f = PutUvarint L (ld_sum [CidBytes L c, data]) @ CidBytes L c @ rest"
    and "off \<le> length f" and "length (sec (c, data)) < 2 ^ 64" and "valid_cid c" and "decodes c"
  shows "resume_loop L T z f off t = resume_loop L T z f (off + length (sec (c, data)))
     (LInsertNoReplace T \<lparr>RdDigest = dig c, RdCid = c, RdOffset = of_nat off\<rparr> t)"
proof -
  let ?n = "ld_sum [CidBytes L c, data]"
  have n: "unat ?n = length (CidBytes L c) + length data"
    using unat_ld_sum [of "[CidBytes L c, data]"] assms(3) by (simp add: sec_def util_ld)
  then have "?n \<noteq> 0" using cid_nonempty [OF assms(4)] by (metis add_is_0 length_0_conv unat_0)
  moreover have "length f - length (CidBytes L c @ rest) + unat ?n = off + length (sec (c, data))"
  proof -
    have "length f - off = length (PutUvarint L ?n) + length (CidBytes L c @ rest)"
      using assms(1) by (metis length_append length_drop)
    then show ?thesis using assms(2) n by (simp add: sec_def util_ld)
  qed
  ultimately show ?thesis
    by (subst resume_loop.simps) (simp add: assms(1) uvarint cid_bytes [OF assms(4)] insertNoReplace_def
      newRecordFromCid_def decodes_dig [OF assms(5)])
qed

lemma resume_end: "length f \<le> off \<Longrightarrow> resume_loop L T z f off t = Some (Returns (Inr (t, off)))"
  by (subst resume_loop.simps) (simp add: uvarint_end)

lemma resume_walk:
  assumes "f = pre @ concat (map sec blks) @ post" and "length f < 2 ^ 64"
    and "\<forall>c \<in> fst ` set blks. valid_cid c \<and> decodes c"
  shows "resume_loop L T z f (length pre) t =
    resume_loop L T z f (length (pre @ concat (map sec blks))) (of_records (records (length pre) blks) t)"
  using assms
proof (induction blks arbitrary: pre t)
  case (Cons blk blks)
  obtain c data where blk: "blk = (c, data)" by (cases blk)
  have "resume_loop L T z f (length pre) t = resume_loop L T z f (length pre + length (sec (c, data)))
     (LInsertNoReplace T \<lparr>RdDigest = dig c, RdCid = c, RdOffset = of_nat (length pre)\<rparr> t)"
    using Cons.prems
    by (intro resume_section [where rest = "data @ concat (map sec blks) @ post"]) (simp_all add: blk sec_bytes)
  also have "\<dots> = resume_loop L T z f (length ((pre @ sec (c, data)) @ concat (map sec blks)))
      (of_records (records (length (pre @ sec (c, data))) blks)
        (LInsertNoReplace T \<lparr>RdDigest = dig c, RdCid = c, RdOffset = of_nat (length pre)\<rparr> t))"
    using Cons.IH [of "pre @ sec (c, data)"] Cons.prems by (simp add: blk)
  finally show ?case by (simp add: blk of_records_def)
qed (simp add: of_records_def)

definition header_of :: "cid list \<Rightarrow> string \<Rightarrow> bool" where
  "header_of roots hb \<longleftrightarrow> WriteHeader L \<lparr>Roots = roots, Version = 1\<rparr> = Inr hb \<and>
     DumpObject L \<lparr>Roots = roots, Version = 1\<rparr> \<noteq> Inr []"

lemma containsRoot_set: "containsRoot rs r \<longleftrightarrow> r \<in> set rs"
  by (induction rs) auto

lemma Matches_refl: "Matches h h"
  by (simp add: Matches_def containsRoot_set list_all_iff)

lemma header_of_facts:
  assumes "header_of roots hb" and "length hb < 2 ^ 64"
  shows "ReadHeader L (hb @ rest) = Inr (\<lparr>Roots = roots, Version = 1\<rparr>, rest)"
    and "HeaderSize L \<lparr>Roots = roots, Version = 1\<rparr> = Inr (of_nat (length hb))"
    and "unat (of_nat (length hb) :: uint64) = length hb"
proof -
  obtain b where b: "DumpObject L \<lparr>Roots = roots, Version = 1\<rparr> = Inr b" and hb: "hb = UtilLd L [b]"
    using assms(1) by (auto simp: header_of_def WriteHeader_def split: on_err_splits)
  have "hb \<noteq> []" using uvarint_nonempty by (simp add: hb util_ld)
  then show "ReadHeader L (hb @ rest) = Inr (\<lparr>Roots = roots, Version = 1\<rparr>, rest)"
    using assms by (intro ReadHeader_written) (simp_all add: header_of_def)
  show "HeaderSize L \<lparr>Roots = roots, Version = 1\<rparr> = Inr (of_nat (length hb))"
    by (simp add: HeaderSize_def b hb)
  show "unat (of_nat (length hb) :: uint64) = length hb" using assms(2) by (intro unat_of_nat_small) simp
qed

text \<open>A file that was not finalized is walked from its header to its end.\<close>

lemma resume_unfinalized:
  assumes "header_of roots hb" and "length hb < 2 ^ 64"
  shows "resume_payload L T opts None None 0 n (hb @ rest) roots =
    map_option (\<lambda>run. run_bind run (\<lambda>res. Returns (on_err res Inl (\<lambda>(idx, off).
      Inr \<lparr>RwClosed = False, RwPayload = hb @ rest, RwPosition = off, RwIdx = idx, RwOpts = opts\<rparr>))))
      (resume_loop L T (ZeroLengthSectionAsEOF opts) (hb @ rest) (length hb) (LEmpty T))"
  using header_of_facts [OF assms] by (simp add: resume_payload_def Matches_refl Let_def)

text \<open>A file that was finalized is cut to its payload first.\<close>

lemma resume_finalized:
  assumes "header_of roots hb" and "length hb < 2 ^ 64" and "0 < off"
  shows "resume_payload L T opts None None off (length (hb @ rest)) ((hb @ rest) @ index) roots =
    resume_payload L T opts None None 0 n (hb @ rest) roots"
  unfolding resume_unfinalized [OF assms(1,2)]
  using header_of_facts [OF assms(1,2)] assms(3) by (simp add: resume_payload_def Matches_refl Let_def)

lemma resume_holds:
  assumes "header_of roots hb" and "holds hb blks b" and "length (RwPayload b) < 2 ^ 64"
  shows "resume_payload L T (RwOpts b) None None 0 n (RwPayload b) roots = Some (Returns (Inr b))"
proof -
  have payload: "RwPayload b = hb @ concat (map sec blks)" using assms(2) by (simp add: holds_def)
  have "resume_loop L T z (RwPayload b) (length hb) (LEmpty T) =
      Some (Returns (Inr (RwIdx b, length (RwPayload b))))" for z
    using resume_walk [of "RwPayload b" hb blks "[]" z "LEmpty T"] assms(2,3)
      resume_end [of "RwPayload b" "length (RwPayload b)"]
    by (simp add: holds_def)
  moreover have "b = \<lparr>RwClosed = False, RwPayload = RwPayload b, RwPosition = length (RwPayload b), RwIdx = RwIdx b, RwOpts = RwOpts b\<rparr>"
    using assms(2) by (simp add: holds_def)
  ultimately show ?thesis
    using resume_unfinalized [OF assms(1)] assms(3) by (simp add: payload)
qed

text \<open>Cutting the file inside the data of the last block changes nothing of what the walk finds.\<close>

lemma cut_payload:
  assumes "holds hb (blks @ [(c, data)]) b" and "k \<le> length data"
  shows "take (length (RwPayload b) - k) (RwPayload b) = hb @ concat (map sec blks) @
    PutUvarint L (ld_sum [CidBytes L c, data]) @ CidBytes L c @ take (length data - k) data"
  using assms by (simp add: holds_def sec_bytes)

lemma resume_cut:
  assumes "header_of roots hb" and "holds hb (blks @ [(c, data)]) b" and "length (RwPayload b) < 2 ^ 64" and "k \<le> length data"
  shows "resume_payload L T (RwOpts b) None None 0 n (take (length (RwPayload b) - k) (RwPayload b)) roots =
    Some (Returns (Inr (b\<lparr>RwPayload := take (length (RwPayload b) - k) (RwPayload b)\<rparr>)))"
proof -
  let ?f = "take (length (RwPayload b) - k) (RwPayload b)"
  let ?off = "length (hb @ concat (map sec blks))"
  let ?r = "\<lparr>RdDigest = dig c, RdCid = c, RdOffset = of_nat ?off\<rparr>"
  have payload: "RwPayload b = hb @ concat (map sec blks) @ sec (c, data)" and c: "valid_cid c" "decodes c"
    and blks: "\<forall>c \<in> fst ` set blks. valid_cid c \<and> decodes c"
    and idx: "RwIdx b = LInsertNoReplace T ?r (of_records (records (length hb) blks) (LEmpty T))"
    using assms(2) by (auto simp: holds_def records_snoc of_records_def)
  have short: "length ?f < 2 ^ 64" using assms(3) by simp
  have "resume_loop L T z ?f (length hb) (LEmpty T) =
      resume_loop L T z ?f ?off (of_records (records (length hb) blks) (LEmpty T))" for z
    using cut_payload [OF assms(2,4)] short blks by (intro resume_walk) simp_all
  also have "resume_loop L T z ?f ?off t = resume_loop L T z ?f (?off + length (sec (c, data))) (LInsertNoReplace T ?r t)" for z t
    using cut_payload [OF assms(2,4)] c assms(3) payload by (intro resume_section) simp_all
  also have "resume_loop L T z ?f (?off + length (sec (c, data))) t = Some (Returns (Inr (t, length (RwPayload b))))" for z t
    using payload by (subst resume_end) simp_all
  finally have walk: "resume_loop L T z ?f (length hb) (LEmpty T) = Some (Returns (Inr (RwIdx b, length (RwPayload b))))" for z
    by (simp only: idx)
  have "\<exists>rest. ?f = hb @ rest" using cut_payload [OF assms(2,4)] by simp
  then obtain rest where rest: "?f = hb @ rest" ..
  have hb: "length hb < 2 ^ 64" using assms(3) payload by simp
  have b: "\<not> RwClosed b" "RwPosition b = length (RwPayload b)" using assms(2) by (simp_all add: holds_def)
  show ?thesis
    unfolding rest resume_unfinalized [OF assms(1) hb] walk [unfolded rest] using b by simp
qed

lemma getall_loop_passes:
  "(\<And>r. r \<in> set rs \<Longrightarrow> RdDigest r = d \<and> fn (RdOffset r) s = (True, s)) \<Longrightarrow>
   getall_loop d fn (rs @ qs) any s = getall_loop d fn qs (any \<or> rs \<noteq> []) s"
  by (induction rs arbitrary: any) auto

lemma readBlock_cut:
  assumes "RoBacking b = pre @ PutUvarint L (ld_sum [CidBytes L c, data]) @ CidBytes L c @ rest"
    and "length rest < length data" and "length (pre @ sec (c, data)) < 2 ^ 63" and "valid_cid c"
  shows "readBlock L b (of_nat (length pre)) = Inl io_ErrUnexpectedEOF"
proof -
  let ?n = "ld_sum [CidBytes L c, data]"
  have n: "unat ?n = length (CidBytes L c) + length data"
    using unat_ld_sum [of "[CidBytes L c, data]"] assms(3) by (simp add: sec_bytes)
  then have "?n \<noteq> 0" using cid_nonempty [OF assms(4)] by (metis add_is_0 length_0_conv unat_0)
  moreover have "unat (of_nat (length pre) :: uint64) = length pre"
    using assms(3) by (intro unat_of_nat_small) simp
  ultimately show ?thesis
    using assms(2) cid_nonempty [OF assms(4)]
    by (simp add: readBlock_def ReadNode_def LdRead_def reader_at_def assms(1) uvarint io_ReadFull_def n)
qed

lemma rw_Get_cut:
  assumes "holds hb (blks @ [(c, data)]) b" and "BlockstoreUseWholeCIDs (RwOpts b)"
    and "length (RwPayload b) < 2 ^ 63" and "0 < k" and "k \<le> length data"
  shows "rw_Get L T (b\<lparr>RwPayload := take (length (RwPayload b) - k) (RwPayload b)\<rparr>) c = Inl io_ErrUnexpectedEOF"
proof -
  let ?b = "b\<lparr>RwPayload := take (length (RwPayload b) - k) (RwPayload b)\<rparr>"
  let ?rs = "filter (\<lambda>r. RdDigest r = dig c) (records (length hb) blks)"
  let ?r = "\<lparr>RdDigest = dig c, RdCid = c, RdOffset = of_nat (length (hb @ concat (map sec blks)))\<rparr>"
  note cut = cut_payload [OF assms(1,5)]
  from assms(1) have opened: "\<not> RwClosed b" and payload: "RwPayload b = hb @ concat (map sec blks) @ sec (c, data)"
    and idx: "RwIdx b = of_records (records (length hb) (blks @ [(c, data)])) (LEmpty T)"
    and fresh: "c \<notin> fst ` set blks" and ok: "\<forall>c \<in> fst ` set blks. valid_cid c \<and> decodes c"
    and c: "valid_cid c" "decodes c" by (auto simp: holds_def)
  have other: "RdDigest r = dig c \<and> get_at L (rw_ronly ?b) c (RdOffset r) (None, None) = (True, (None, None))"
    if "r \<in> set ?rs" for r
  proof -
    from that records_at obtain pre d post where blks: "blks = pre @ (RdCid r, d) # post"
      and off: "RdOffset r = of_nat (length hb + length (concat (map sec pre)))" by fastforce
    have "RoBacking (rw_ronly ?b) = (hb @ concat (map sec pre)) @ sec (RdCid r, d) @
        (concat (map sec post) @ PutUvarint L (ld_sum [CidBytes L c, data]) @ CidBytes L c @ take (length data - k) data)"
      using cut by (simp add: rw_ronly_def blks)
    moreover have "length (RoBacking (rw_ronly ?b)) < 2 ^ 63" using assms(3) by (simp add: rw_ronly_def)
    moreover have "valid_cid (RdCid r)" using ok by (simp add: blks)
    ultimately have "readBlock L (rw_ronly ?b) (of_nat (length (hb @ concat (map sec pre)))) = Inr (RdCid r, d)"
      by (rule readBlock_section)
    moreover have "RdCid r \<noteq> c" using fresh by (auto simp: blks)
    ultimately show ?thesis using that off assms(2) by (simp add: get_at_def rw_ronly_def)
  qed
  have "readBlock L (rw_ronly ?b) (RdOffset ?r) = Inl io_ErrUnexpectedEOF"
    unfolding recordDigest.simps
  proof (rule readBlock_cut)
    show "RoBacking (rw_ronly ?b) = (hb @ concat (map sec blks)) @ PutUvarint L (ld_sum [CidBytes L c, data]) @
        CidBytes L c @ take (length data - k) data" using cut by (simp add: rw_ronly_def)
    show "length (take (length data - k) data) < length data" using assms(4,5) by (cases data) auto
    show "length ((hb @ concat (map sec blks)) @ sec (c, data)) < 2 ^ 63" using assms(3) by (simp add: payload)
  qed (rule c)
  then have "get_at L (rw_ronly ?b) c (RdOffset ?r) (None, None) = (False, (None, Some io_ErrUnexpectedEOF))"
    by (simp add: get_at_def)
  moreover have "getall_loop (dig c) (get_at L (rw_ronly ?b) c) (?rs @ [?r]) False (None, None) =
      getall_loop (dig c) (get_at L (rw_ronly ?b) c) [?r] (False \<or> ?rs \<noteq> []) (None, None)"
    by (rule getall_loop_passes) (rule other)
  ultimately have "getall_loop (dig c) (get_at L (rw_ronly ?b) c) (?rs @ [?r]) False (None, None) =
      (True, (None, Some io_ErrUnexpectedEOF))" by simp
  then have "getall_loop (dig c) (get_at L (rw_ronly ?b) c) (LAscend T (dig c) (RwIdx b)) False (None, None) =
      (True, (None, Some io_ErrUnexpectedEOF))"
    by (subst getall_loop_prefix) (simp add: idx visited_of_records records_snoc)
  then show ?thesis
    using opened c(2) by (simp add: rw_Get_def ro_Get_def ii_GetAll_def decodes_dig isIdentity_def rw_ronly_def)
qed

text \<open>A block that is in the index is not written again, whatever became of the file.\<close>

lemma keep_snoc:
  assumes "c \<notin> fst ` set new" and "c \<notin> fst ` set old"
  shows "keep old (new @ [(c, data)]) = keep old new @ [(c, data)]"
proof -
  have "map_of (keep old new) c = None" using assms by (simp add: map_of_keep map_add_def map_of_eq_None_iff [symmetric])
  then show ?thesis by (simp add: keep_keep [symmetric] keep_simps map_of_eq_None_iff)
qed

lemma put_again:
  assumes "holds hb blks b" and "indexable L valid_cid (RwOpts b) c" and "c \<in> fst ` set blks"
    and "\<not> BlockstoreAllowDuplicatePuts (RwOpts b)" and "BlockstoreUseWholeCIDs (RwOpts b)"
  shows "rw_Put L T wr (c, data) (b\<lparr>RwPayload := f\<rparr>) = Returns (None, b\<lparr>RwPayload := f\<rparr>)"
proof -
  have "deduplicated L T (b\<lparr>RwPayload := f\<rparr>) c = deduplicated L T b c" by (simp add: deduplicated_def)
  also have "\<dots> = Returns True"
    using deduplicated_holds [OF assms(1) _ assms(4,5)] assms(2,3) by (simp add: indexable_def decodes_def)
  finally show ?thesis
    using assms(1,2) by (simp add: rw_Put_def rw_PutMany_def isIdentity_def indexable_def holds_def not_less [symmetric])
qed

end

end
