(* ===== verification/Car_Files.thy ===== *)
theory Car_Files
  imports Car_Store_Correct
begin

section \<open>CAR files from the first put to the resumption\<close>

text \<open>
  What a user of the CAR block store relies on: blocks that were put are read back, a file is resumed as
  the store that wrote it, and a CAR is loaded in batches as it is block by block. The laws of the
  libraries hold of a concrete instance: LEB128 varints, CIDs with their length in front, and a sorted
  list for the tree.
\<close>

subsection \<open>An instance of the libraries\<close>

fun leb :: "nat \<Rightarrow> string" where
  "leb n = (if n < 128 then [char_of n] else char_of (128 + n mod 128) # leb (n div 128))"

declare leb.simps [simp del]

fun unleb :: "nat \<Rightarrow> nat \<Rightarrow> string \<Rightarrow> nat \<times> go_error option \<times> string" where
  "unleb scale n [] = (n, Some io_EOF, [])"
| "unleb scale n (b # bs) =
     (if of_char b < (128 :: nat) then (n + of_char b * scale, None, bs)
      else unleb (scale * 128) (n + (of_char b - 128) * scale) bs)"

lemma unleb_leb: "unleb scale m (leb n @ rest) = (m + n * scale, None, rest)"
proof (induction n arbitrary: scale m rule: leb.induct)
  case (1 n)
  show ?case
  proof (cases "n < 128")
    case False
    have "n * scale = n mod 128 * scale + n div 128 * (scale * 128)"
      by (metis add.commute add_mult_distrib div_mod_decomp mult.assoc mult.commute)
    then show ?thesis using False 1 [of "scale * 128"] by (simp add: leb.simps [of n] of_char_of add.assoc)
  qed (simp add: leb.simps of_char_of)
qed

definition sample_car :: car_lib where
  "sample_car = \<lparr>PutUvarint = (\<lambda>n. leb (unat n)),
     ReadUvarint = (\<lambda>r. case unleb 1 0 r of (n, err, rest) \<Rightarrow> (of_nat n, err, rest)),
     CidFromReader = (\<lambda>r. case r of [] \<Rightarrow> Inl io_EOF
       | n # bs \<Rightarrow> if of_char n \<le> length bs then Inr (Suc (of_char n), take (of_char n) bs) else Inl io_ErrUnexpectedEOF),
     CidBytes = (\<lambda>c. char_of (length c) # c), CidHash = tl,
     MhDecode = (\<lambda>h. if h = [] then Inl (New ''multihash too short'') else Inr h),
     PrefixSum = (\<lambda>c data. Inr (take 1 c @ take 1 data)),
     DumpObject = (\<lambda>h. case Roots h of [r] \<Rightarrow> if Version h = 1 then Inr (CHR ''h'' # r) else Inl (New ''header'')
       | _ \<Rightarrow> Inl (New ''header'')),
     DecodeInto = (\<lambda>hb. case hb of [] \<Rightarrow> Inl io_EOF | _ # r \<Rightarrow> Inr \<lparr>Roots = [r], Version = 1\<rparr>),
     UtilLd = (\<lambda>d. leb (unat (ld_sum d)) @ concat d),
     CidTooLarge = (\<lambda>limit n. New ''cid too large''), V2Prefix = 51\<rparr>"

definition sample_valid :: "cid \<Rightarrow> bool" where
  "sample_valid c = (length c < 256)"

definition sample_tree :: "recordDigest list llrb_api" where
  "sample_tree = \<lparr>LEmpty = [],
     LInsertNoReplace = (\<lambda>r t. filter (\<lambda>x. \<not> rd_Less r x) t @ r # filter (\<lambda>x. rd_Less r x) t),
     LGet = (\<lambda>d t. List.find (\<lambda>x. RdDigest x = d) t), LAscend = (\<lambda>d t. filter (\<lambda>x. \<not> bytes_less (RdDigest x) d) t)\<rparr>"

interpretation sample: car_store sample_car sample_valid sample_tree "\<lambda>t. t"
proof unfold_locales
  fix h hb
  assume "DumpObject sample_car h = Inr hb"
  then show "DecodeInto sample_car hb = Inr h"
    by (cases h) (auto simp: sample_car_def split: list.splits if_splits)
next
  fix n
  show "PutUvarint sample_car n \<noteq> []" by (simp add: sample_car_def leb.simps)
next
  fix d and t :: "recordDigest list" and r
  show "(LGet sample_tree d t = None) = (\<forall>x \<in> set t. RdDigest x \<noteq> d)"
    by (auto simp: sample_tree_def find_None_iff)
  assume "LGet sample_tree d t = Some r"
  then show "r \<in> set t \<and> RdDigest r = d" by (auto simp: sample_tree_def find_Some_iff)
qed (simp_all add: sample_car_def sample_tree_def sample_valid_def unleb_leb of_char_of)

subsection \<open>Putting and reading\<close>

text \<open>Batches of blocks put one after the other, until one fails.\<close>

fun put_batches ::
  "car_lib \<Rightarrow> 't llrb_api \<Rightarrow> (string \<Rightarrow> nat \<times> go_error option) \<Rightarrow> (cid \<times> string) list list \<Rightarrow> 't ReadWrite \<Rightarrow>
   (go_error option \<times> 't ReadWrite) go_run" where
  "put_batches L T wr [] b = Returns (None, b)"
| "put_batches L T wr (blks # batches) b = run_bind (rw_PutMany L T wr blks b)
     (\<lambda>(err, b'). if err = None then put_batches L T wr batches b' else Returns (err, b'))"

text \<open>How long the payload can get: the header and every section.\<close>

definition payload_bound :: "car_lib \<Rightarrow> string \<Rightarrow> (cid \<times> string) list \<Rightarrow> nat" where
  "payload_bound L hb blks = length hb + length (concat (map (\<lambda>(c, data). UtilLd L [CidBytes L c, data]) blks))"

context car_store
begin

lemma put_batches_holds:
  assumes "holds hb old b" and "\<forall>blk \<in> set (concat batches). indexable L valid_cid (RwOpts b) (fst blk)"
    and "\<not> BlockstoreAllowDuplicatePuts (RwOpts b)" and "BlockstoreUseWholeCIDs (RwOpts b)"
    and wr: "\<And>bs. snd (wr bs) = None"
  shows "\<exists>b'. put_batches L T wr batches b = Returns (None, b') \<and> holds hb (keep old (concat batches)) b' \<and> RwOpts b' = RwOpts b"
  using assms(1-4)
proof (induction batches arbitrary: old b)
  case (Cons blks batches)
  obtain b1 where b1: "put_loop L T wr blks b = Returns (None, b1)" "holds hb (keep old blks) b1" "RwOpts b1 = RwOpts b"
    using put_loop_holds [of hb old b blks wr] Cons.prems wr by auto
  moreover have "\<not> RwClosed b" using Cons.prems(1) by (simp add: holds_def)
  ultimately show ?case
    using Cons.IH [OF b1(2)] Cons.prems(2-4) by (simp add: rw_PutMany_def keep_keep)
qed (simp add: keep_simps)

lemma holds_init:
  assumes "initWithRoots L T opts roots = Inr b"
  obtains hb where "WriteHeader L \<lparr>Roots = roots, Version = 1\<rparr> = Inr hb" and "holds hb [] b" and "RwOpts b = opts" and "RwPayload b = hb"
  using assms by (auto simp: initWithRoots_def holds_def of_records_def split: on_err_splits)

lemma keep_length: "length (concat (map sec (keep old new))) \<le> length (concat (map sec (old @ new)))"
proof (induction new arbitrary: old)
  case (Cons blk new)
  show ?case using Cons.IH [of old] Cons.IH [of "old @ [blk]"] by (auto simp: keep_simps)
qed (simp add: keep_simps)

lemma holds_bound:
  assumes "holds hb (keep [] blks) b" and "payload_bound L hb blks < n"
  shows "length (RwPayload b) < n"
  using keep_length [of "[]" blks] assms
  by (simp add: holds_def payload_bound_def sec_def [abs_def] split_def)

text \<open>A new store into which batches are put holds the first block of each CID.\<close>

lemma new_store_holds:
  assumes "initWithRoots L T opts roots = Inr b0" and "BlockstoreUseWholeCIDs opts" and "\<not> BlockstoreAllowDuplicatePuts opts"
    and "\<forall>blk \<in> set (concat batches). indexable L valid_cid opts (fst blk)" and "\<forall>bs. snd (wr bs) = None"
  obtains b hb where "put_batches L T wr batches b0 = Returns (None, b)" and "RwOpts b = opts"
    and "WriteHeader L \<lparr>Roots = roots, Version = 1\<rparr> = Inr hb" and "RwPayload b0 = hb" and "holds hb (keep [] (concat batches)) b"
proof -
  obtain hb where hb: "WriteHeader L \<lparr>Roots = roots, Version = 1\<rparr> = Inr hb" "holds hb [] b0" "RwOpts b0 = opts" "RwPayload b0 = hb"
    using holds_init [OF assms(1)] by blast
  obtain b where "put_batches L T wr batches b0 = Returns (None, b)" "holds hb (keep [] (concat batches)) b" "RwOpts b = RwOpts b0"
    using put_batches_holds [OF hb(2), of batches wr] assms(2-5) hb(3) by auto
  then show thesis using hb that by simp
qed

end

text \<open>
  C28. Blocks that are put into a new CAR store, in any batches, are read back as a map from CIDs to data:
  the first data that was put for a CID, and an error that says not found for a CID that was not put. CIDs
  that share a multihash are told apart.
\<close>

theorem car_store_keeps_first:
  assumes "car_store L valid T items" and "initWithRoots L T opts roots = Inr b0"
    and "BlockstoreUseWholeCIDs opts" and "\<not> BlockstoreAllowDuplicatePuts opts"
    and "\<forall>blk \<in> set (concat batches). indexable L valid opts (fst blk)" and "\<forall>bs. snd (wr bs) = None"
    and "payload_bound L (RwPayload b0) (concat batches) < 2 ^ 63" and "\<not> isl (MhDecode L (CidHash L key))"
  shows "\<exists>b. put_batches L T wr batches b0 = Returns (None, b) \<and>
    rw_Get L T b key = (case map_of (concat batches) key of Some data \<Rightarrow> Inr (key, data) | None \<Rightarrow> Inl (not_found key))"
proof -
  obtain b hb where b: "put_batches L T wr batches b0 = Returns (None, b)" "RwOpts b = opts" "RwPayload b0 = hb"
    "car_store.holds L valid T hb (car_store.keep [] (concat batches)) b"
    by (rule car_store.new_store_holds [OF assms(1-6)])
  have "length (RwPayload b) < 2 ^ 63"
    by (rule car_store.holds_bound [OF assms(1) b(4)]) (use assms(7) b(3) in simp)
  then have "rw_Get L T b key = (case map_of (car_store.keep [] (concat batches)) key of
      Some data \<Rightarrow> Inr (key, data) | None \<Rightarrow> Inl (not_found key))"
    using b(2) assms(3,8) by (intro car_store.rw_Get_holds [OF assms(1) b(4)])
      (simp_all add: car_store.decodes_def [OF assms(1)])
  then show ?thesis using b(1) by (simp add: car_store.map_of_keep [OF assms(1)])
qed

definition always :: "string \<Rightarrow> nat \<times> go_error option" where
  "always bs = (length bs, None)"

definition sample_batches :: "(cid \<times> string) list list" where
  "sample_batches = [[(''ax'', ''x1''), (''bx'', ''x2'')], [(''ax'', ''x3''), (''ay'', ''y1'')]]"

definition sample_b0 :: "recordDigest list ReadWrite" where
  "sample_b0 = \<lparr>RwClosed = False, RwPayload = [char_of (3 :: nat), CHR ''h'', CHR ''a'', CHR ''x''], RwPosition = 4, RwIdx = [],
     RwOpts = filestore_opts 2048\<rparr>"

lemma sample_facts:
  "initWithRoots sample_car sample_tree (filestore_opts 2048) [''ax''] = Inr sample_b0"
  "BlockstoreUseWholeCIDs (filestore_opts 2048)" "\<not> BlockstoreAllowDuplicatePuts (filestore_opts 2048)"
  "\<forall>blk \<in> set (concat sample_batches). indexable sample_car sample_valid (filestore_opts 2048) (fst blk)"
  "\<forall>bs. snd (always bs) = None"
  "payload_bound sample_car (RwPayload sample_b0) (concat sample_batches) < 2 ^ 63"
  "\<not> isl (MhDecode sample_car (CidHash sample_car ''bx''))"
  subgoal by (simp add: initWithRoots_def WriteHeader_def sample_car_def sample_tree_def sample_b0_def ld_sum_def leb.simps)
  subgoal by (simp add: filestore_opts_def)
  subgoal by (simp add: filestore_opts_def)
  subgoal by (simp add: sample_batches_def indexable_def sample_car_def sample_valid_def filestore_opts_def)
  subgoal by (simp add: always_def)
  subgoal by (simp add: payload_bound_def sample_batches_def sample_car_def sample_b0_def ld_sum_def leb.simps)
  subgoal by (simp add: sample_car_def)
  done

theorem car_store_keeps_first_witness:
  "\<exists>b. put_batches sample_car sample_tree always sample_batches sample_b0 = Returns (None, b) \<and>
    rw_Get sample_car sample_tree b ''bx'' = Inr (''bx'', ''x2'')"
  using car_store_keeps_first [OF sample.car_store_axioms sample_facts]
  by (simp add: sample_batches_def)

text \<open>
  C29. A file is resumed as the store that wrote it: opening the file of a store into which batches were put
  gives that store back, with its index, its position and its payload, both when the file was left without
  being finalized and when it was finalized, and whatever index was written behind the payload then.
\<close>

theorem resume_rebuilds:
  assumes "car_store L valid T items" and "initWithRoots L T opts roots = Inr b0"
    and "BlockstoreUseWholeCIDs opts" and "\<not> BlockstoreAllowDuplicatePuts opts"
    and "\<forall>blk \<in> set (concat batches). indexable L valid opts (fst blk)" and "\<forall>bs. snd (wr bs) = None"
    and "payload_bound L (RwPayload b0) (concat batches) < 2 ^ 63"
    and "DumpObject L \<lparr>Roots = roots, Version = 1\<rparr> \<noteq> Inr []" and "0 < dataOffset"
  shows "\<exists>b. put_batches L T wr batches b0 = Returns (None, b) \<and>
    OpenReadWrite L T opts dataOffset (Inr 2) (err, 0, n) None None (Inr (Some (RwPayload b))) roots = Some (Returns (Inr b)) \<and>
    OpenReadWrite L T opts dataOffset (Inr 2) (None, dataOffset, RwPosition b) None None
      (Inr (Some (RwPayload b @ index))) roots = Some (Returns (Inr b))"
proof -
  obtain b hb where b: "put_batches L T wr batches b0 = Returns (None, b)" "RwOpts b = opts"
    "WriteHeader L \<lparr>Roots = roots, Version = 1\<rparr> = Inr hb" "RwPayload b0 = hb"
    "car_store.holds L valid T hb (car_store.keep [] (concat batches)) b"
    by (rule car_store.new_store_holds [OF assms(1-6)])
  have hb: "car_store.header_of L roots hb" using b(3) assms(8) by (simp add: car_store.header_of_def [OF assms(1)])
  have short: "length (RwPayload b) < 2 ^ 63"
    by (rule car_store.holds_bound [OF assms(1) b(5)]) (use assms(7) b(4) in simp)
  have again: "resume_payload L T opts None None 0 m (RwPayload b) roots = Some (Returns (Inr b))" for m
    using car_store.resume_holds [OF assms(1) hb b(5)] short b(2) by simp
  obtain rest where rest: "RwPayload b = hb @ rest" and pos: "RwPosition b = length (RwPayload b)" "RwPayload b \<noteq> []"
    using b(5) car_store.axioms(1) [OF assms(1)] b(3)
    by (auto simp: car_store.holds_def [OF assms(1)] WriteHeader_def car_format.util_ld car_format.uvarint_nonempty split: on_err_splits)
  have "resume_payload L T opts None None dataOffset (length (RwPayload b)) (RwPayload b @ index) roots = Some (Returns (Inr b))"
    using car_store.resume_finalized [OF assms(1) hb _ assms(9), of opts rest index 0] again [of 0] short
    by (simp add: rest)
  then show ?thesis using b(1) again [of "n - dataOffset"] assms(9) pos by (simp add: OpenReadWrite_def resumeWithRoots_def)
qed

theorem resume_rebuilds_witness:
  "\<exists>b. put_batches sample_car sample_tree always sample_batches sample_b0 = Returns (None, b) \<and>
    OpenReadWrite sample_car sample_tree (filestore_opts 2048) 51 (Inr 2) (None, 0, 0) None None (Inr (Some (RwPayload b))) [''ax''] =
      Some (Returns (Inr b)) \<and>
    OpenReadWrite sample_car sample_tree (filestore_opts 2048) 51 (Inr 2) (None, 51, RwPosition b) None None
      (Inr (Some (RwPayload b @ ''index''))) [''ax''] = Some (Returns (Inr b))"
  by (rule resume_rebuilds [OF sample.car_store_axioms sample_facts(1-6)]) (code_simp, simp)

text \<open>
  C30. A file that was cut inside the data of its last block is resumed all the same, although the
  documentation says that resumption fails on a section that is not complete: the seek over the section
  goes past the end of the file. Reading the block fails from then on, and putting it again succeeds
  without writing it, as it is taken for a duplicate.
\<close>

theorem resume_keeps_cut_block:
  assumes "car_store L valid T items" and "initWithRoots L T opts roots = Inr b0"
    and "BlockstoreUseWholeCIDs opts" and "\<not> BlockstoreAllowDuplicatePuts opts"
    and "\<forall>blk \<in> set (concat [blks @ [(c, data)]]). indexable L valid opts (fst blk)" and "\<forall>bs. snd (wr bs) = None"
    and "payload_bound L (RwPayload b0) (blks @ [(c, data)]) < 2 ^ 63"
    and "DumpObject L \<lparr>Roots = roots, Version = 1\<rparr> \<noteq> Inr []"
    and "c \<notin> fst ` set blks" and "0 < k" and "k \<le> length data"
  shows "\<exists>b b'. rw_PutMany L T wr (blks @ [(c, data)]) b0 = Returns (None, b) \<and>
    OpenReadWrite L T opts dataOffset (Inr 2) (err, 0, n) None None
      (Inr (Some (take (length (RwPayload b) - k) (RwPayload b)))) roots = Some (Returns (Inr b')) \<and>
    rw_Get L T b' c = Inl io_ErrUnexpectedEOF \<and> rw_Put L T wr (c, data) b' = Returns (None, b')"
proof -
  obtain b hb where b: "put_batches L T wr [blks @ [(c, data)]] b0 = Returns (None, b)" "RwOpts b = opts"
    "WriteHeader L \<lparr>Roots = roots, Version = 1\<rparr> = Inr hb" "RwPayload b0 = hb"
    "car_store.holds L valid T hb (car_store.keep [] (concat [blks @ [(c, data)]])) b"
    by (rule car_store.new_store_holds [OF assms(1-6)])
  let ?b = "b\<lparr>RwPayload := take (length (RwPayload b) - k) (RwPayload b)\<rparr>"
  have put: "rw_PutMany L T wr (blks @ [(c, data)]) b0 = Returns (None, b)"
    using b(1) by (cases "rw_PutMany L T wr (blks @ [(c, data)]) b0") (auto split: prod.splits if_splits)
  have hb: "car_store.header_of L roots hb" using b(3) assms(8) by (simp add: car_store.header_of_def [OF assms(1)])
  have short: "length (RwPayload b) < 2 ^ 63"
    by (rule car_store.holds_bound [OF assms(1) b(5)]) (use assms(7) b(4) in simp)
  have held: "car_store.holds L valid T hb (car_store.keep [] blks @ [(c, data)]) b"
    using b(5) car_store.keep_snoc [OF assms(1,9), of "[]" data] by simp
  have "resume_payload L T opts None None 0 m (take (length (RwPayload b) - k) (RwPayload b)) roots = Some (Returns (Inr ?b))" for m
    using car_store.resume_cut [OF assms(1) hb held _ assms(11)] short b(2) by simp
  moreover have "rw_Get L T ?b c = Inl io_ErrUnexpectedEOF"
    using b(2) assms(3) by (intro car_store.rw_Get_cut [OF assms(1) held _ short assms(10,11)]) simp
  moreover have "rw_Put L T wr (c, data) ?b = Returns (None, ?b)"
    using b(2) assms(3-5) by (intro car_store.put_again [OF assms(1) held]) simp_all
  ultimately show ?thesis using put by (simp add: OpenReadWrite_def resumeWithRoots_def)
qed

theorem resume_keeps_cut_block_witness:
  "\<exists>b b'. rw_PutMany sample_car sample_tree always ([(''ax'', ''x1'')] @ [(''ay'', ''y123'')]) sample_b0 = Returns (None, b) \<and>
    OpenReadWrite sample_car sample_tree (filestore_opts 2048) 51 (Inr 2) (None, 0, 0) None None
      (Inr (Some (take (length (RwPayload b) - 2) (RwPayload b)))) [''ax''] = Some (Returns (Inr b')) \<and>
    rw_Get sample_car sample_tree b' ''ay'' = Inl io_ErrUnexpectedEOF \<and>
    rw_Put sample_car sample_tree always (''ay'', ''y123'') b' = Returns (None, b')"
  by (rule resume_keeps_cut_block [OF sample.car_store_axioms sample_facts(1-3) _ sample_facts(5)])
    (simp_all add: indexable_def sample_car_def sample_valid_def filestore_opts_def payload_bound_def sample_b0_def ld_sum_def leb.simps)

subsection \<open>Loading\<close>

text \<open>
  A CAR whose blocks have the hashes that their CIDs name is loaded in batches as it is block by block:
  every block is put, once for each time that it is in the file and in its order, and the header is returned. A
  file that ends right after the length of a further section is taken for complete, too.
\<close>

theorem LoadCar_puts_all:
  assumes "car_format L valid" and "WriteHeader L \<lparr>Roots = roots, Version = 1\<rparr> = Inr hb" and "roots \<noteq> []"
    and "DumpObject L \<lparr>Roots = roots, Version = 1\<rparr> \<noteq> Inr []" and "payload_bound L hb blks < 2 ^ 63"
    and "\<forall>(c, data) \<in> set blks. valid c \<and> PrefixSum L c data = Inr c"
    and "rest = [] \<or> (\<exists>n. rest = PutUvarint L n \<and> 0 < n)"
    and "fast = None \<or> fast = Some (\<lambda>bs s. (None, fold add bs s))"
  shows "LoadCar L (\<lambda>blk s. (None, add blk s)) fast
      (hb @ concat (map (\<lambda>(c, data). UtilLd L [CidBytes L c, data]) blks) @ rest) s =
    Some (Inr \<lparr>Roots = roots, Version = 1\<rparr>, fold add blks s)"
proof -
  let ?sec = "car_format.sec L"
  have sec: "(\<lambda>(c, data). UtilLd L [CidBytes L c, data]) = ?sec"
    by (simp add: fun_eq_iff car_format.sec_def [OF assms(1)])
  have "length (?sec blk) < 2 ^ 64" if "blk \<in> set blks" for blk
  proof -
    have "length (?sec blk) \<le> length (concat (map ?sec blks))"
      using that by (auto simp: length_concat intro!: member_le_sum_list)
    then show ?thesis using assms(5) by (simp add: payload_bound_def sec)
  qed
  then have ok: "\<forall>(c, data) \<in> set blks. valid c \<and> PrefixSum L c data = Inr c \<and> length (?sec (c, data)) < 2 ^ 64"
    using assms(6) by fastforce
  have "hb \<noteq> []" using assms(2) car_format.uvarint_nonempty [OF assms(1)]
    by (auto simp: WriteHeader_def car_format.util_ld [OF assms(1)] split: on_err_splits)
  then have "ReadHeader L (hb @ tail) = Inr (\<lparr>Roots = roots, Version = 1\<rparr>, tail)" for tail
    using assms(5) by (intro car_format.ReadHeader_written [OF assms(1,2) _ _ assms(4)]) (simp_all add: payload_bound_def)
  then have "newCarReader L False (hb @ tail) = Inr (\<lparr>CrHeader = \<lparr>Roots = roots, Version = 1\<rparr>, CrZeroLenAsEOF = False\<rparr>, tail)" for tail
    using assms(3) by (simp add: newCarReader_def)
  then show ?thesis
    using assms(8) car_format.loadCarSlow_puts [OF assms(1) ok assms(7), of add]
      car_format.loadCarFast_puts [OF assms(1) ok assms(7), of add]
    by (auto simp: LoadCar_def sec)
qed

theorem LoadCar_puts_all_witness:
  "LoadCar sample_car (\<lambda>blk s. (None, s @ [blk])) (Some (\<lambda>bs s. (None, fold (\<lambda>blk s. s @ [blk]) bs s)))
      ([char_of (3 :: nat), CHR ''h'', CHR ''a'', CHR ''x''] @ concat (map (\<lambda>(c, data). UtilLd sample_car [CidBytes sample_car c, data])
         [(''ax'', ''x1''), (''by'', ''y'')]) @ PutUvarint sample_car 9) [] =
    Some (Inr \<lparr>Roots = [''ax''], Version = 1\<rparr>, fold (\<lambda>blk s. s @ [blk]) [(''ax'', ''x1''), (''by'', ''y'')] [])"
proof (rule LoadCar_puts_all [OF sample.car_format_axioms])
  show "PutUvarint sample_car 9 = [] \<or> (\<exists>n. PutUvarint sample_car 9 = PutUvarint sample_car n \<and> 0 < n)"
    by (intro disjI2 exI [of _ 9]) simp
qed (simp_all add: WriteHeader_def sample_car_def sample_valid_def ld_sum_def leb.simps payload_bound_def)

end
