(* ===== verification/Cbor_Codec.thy ===== *)
theory Cbor_Codec
  imports Market_Prelude
begin

section \<open>The generated CBOR codecs: what they have in common\<close>

text \<open>
  The files \<open>*_cbor_gen.go\<close> hold, for each type that is stored or sent, a \<open>MarshalCBOR\<close> and an
  \<open>UnmarshalCBOR\<close> that a generator wrote. They are all put together from the same pieces: a header byte, the
  fields one after the other, each with its name in front where the type is a map, and for reading a loop
  with a switch on the name, or one field after the other where the type is an array. Here are these
  pieces; the codec of a type is the list of its fields. The \<open>cbor-gen\<close> library underneath is the record
  \<open>cbor_lib\<close>, with what is relied on as the locale \<open>cbor_codec\<close>. Writing goes to memory: a writer that
  fails ends the encoding with its error at that point.
\<close>

type_synonym 'a reader = "string \<Rightarrow> go_error + 'a \<times> string"
type_synonym written = "go_error + string"

datatype major =
    MajUnsignedInt
  | MajNegativeInt
  | MajByteString
  | MajTextString
  | MajArray
  | MajMap
  | MajTag
  | MajOther

text \<open>The codec of a type of another module.\<close>

record 'a wire_codec =
  CodecPut :: "'a \<Rightarrow> written"
  CodecGet :: "'a reader"

text \<open>\<open>CborHeader\<close> are the bytes that \<open>WriteMajorTypeHeader\<close> writes; \<open>ScanForLinks\<close> gives what is left
  after a value was skipped, its error is ignored by its callers. A big integer that is nil is written
  as zero.\<close>

record cbor_lib =
  CborHeader :: "major \<Rightarrow> uint64 \<Rightarrow> string"
  ReadCborHeader :: "(major \<times> uint64) reader"
  cbg_WriteCid :: "cid \<Rightarrow> written"
  cbg_ReadCid :: "cid reader"
  cbg_ReadString :: "string reader"
  ScanForLinks :: "string \<Rightarrow> string"
  cbg_WriteBool :: "bool \<Rightarrow> string"
  MaxLength :: nat
  BigInt :: "token_amount wire_codec"
  Address :: "address wire_codec"
  ChannelCodec :: "channel_id wire_codec"
  SignatureCodec :: "string wire_codec"
  CborTime :: "int wire_codec"

definition CborNull :: string where
  "CborNull = [CHR 0xF6]"

subsection \<open>Writing\<close>

definition put_key :: "cbor_lib \<Rightarrow> string \<Rightarrow> written" where
  "put_key B name = (if length name > MaxLength B
     then Inl (New (''Value in field \"'' @ name @ ''\" was too long''))
     else Inr (CborHeader B MajTextString (of_nat (length name)) @ name))"

fun put_fields :: "cbor_lib \<Rightarrow> (string \<times> written) list \<Rightarrow> written" where
  "put_fields B [] = Inr []"
| "put_fields B ((name, v) # fs) = on_err (put_key B name) Inl
     (\<lambda>k. on_err v Inl (\<lambda>b. on_err (put_fields B fs) Inl (\<lambda>bs. Inr (k @ b @ bs))))"

text \<open>A nil pointer is written as null.\<close>

definition marshal_map :: "cbor_lib \<Rightarrow> nat \<Rightarrow> ('r \<Rightarrow> (string \<times> written) list) \<Rightarrow> 'r option \<Rightarrow> written" where
  "marshal_map B hb flds t = (case t of
     None \<Rightarrow> Inr CborNull
   | Some r \<Rightarrow> on_err (put_fields B (flds r)) Inl (\<lambda>bs. Inr (char_of hb # bs)))"

fun put_values :: "written list \<Rightarrow> written" where
  "put_values [] = Inr []"
| "put_values (v # vs) = on_err v Inl (\<lambda>b. on_err (put_values vs) Inl (\<lambda>bs. Inr (b @ bs)))"

definition marshal_tuple :: "nat \<Rightarrow> ('r \<Rightarrow> written list) \<Rightarrow> 'r option \<Rightarrow> written" where
  "marshal_tuple hb flds t = (case t of
     None \<Rightarrow> Inr CborNull
   | Some r \<Rightarrow> on_err (put_values (flds r)) Inl (\<lambda>bs. Inr (char_of hb # bs)))"

definition put_uint64 :: "cbor_lib \<Rightarrow> uint64 \<Rightarrow> written" where
  "put_uint64 B n = Inr (CborHeader B MajUnsignedInt n)"

definition put_cid :: "cbor_lib \<Rightarrow> string \<Rightarrow> cid \<Rightarrow> written" where
  "put_cid B field c = on_err (cbg_WriteCid B c) (\<lambda>err. Inl (Wrap (''failed to write cid field t.'' @ field @ '': '') err)) Inr"

definition put_slice :: "cbor_lib \<Rightarrow> string \<Rightarrow> ('a \<Rightarrow> written) \<Rightarrow> 'a list \<Rightarrow> written" where
  "put_slice B field put xs = (if length xs > MaxLength B
     then Inl (New (''Slice value in field t.'' @ field @ '' was too long''))
     else on_err (put_values (map put xs)) Inl (\<lambda>bs. Inr (CborHeader B MajArray (of_nat (length xs)) @ bs)))"

definition put_int64 :: "cbor_lib \<Rightarrow> int \<Rightarrow> written" where
  "put_int64 B n = Inr (if n \<ge> 0 then CborHeader B MajUnsignedInt (of_int n)
     else CborHeader B MajNegativeInt (of_int (- n - 1)))"

definition put_bool :: "cbor_lib \<Rightarrow> bool \<Rightarrow> written" where
  "put_bool B b = Inr (cbg_WriteBool B b)"

definition put_string :: "cbor_lib \<Rightarrow> string \<Rightarrow> string \<Rightarrow> written" where
  "put_string B field s = (if length s > MaxLength B
     then Inl (New (''Value in field t.'' @ field @ '' was too long''))
     else Inr (CborHeader B MajTextString (of_nat (length s)) @ s))"

definition put_ptr :: "('a \<Rightarrow> written) \<Rightarrow> 'a option \<Rightarrow> written" where
  "put_ptr put x = (case x of None \<Rightarrow> Inr CborNull | Some v \<Rightarrow> put v)"

definition put_big :: "cbor_lib \<Rightarrow> token_amount option \<Rightarrow> written" where
  "put_big B x = CodecPut (BigInt B) (case x of None \<Rightarrow> 0 | Some n \<Rightarrow> n)"

subsection \<open>Reading\<close>

definition set_field :: "('a \<Rightarrow> 'r \<Rightarrow> 'r) \<Rightarrow> 'a reader \<Rightarrow> 'r \<Rightarrow> 'r reader" where
  "set_field upd rd t r = on_err (rd r) Inl (\<lambda>(v, r'). Inr (upd v t, r'))"

fun map_loop :: "cbor_lib \<Rightarrow> (string \<Rightarrow> ('r \<Rightarrow> 'r reader) option) \<Rightarrow> nat \<Rightarrow> 'r \<Rightarrow> 'r reader" where
  "map_loop B switch 0 t r = Inr (t, r)"
| "map_loop B switch (Suc n) t r = on_err (cbg_ReadString B r) Inl
     (\<lambda>(name, r'). case switch name of
        Some rd \<Rightarrow> on_err (rd t r') Inl (\<lambda>(t', r''). map_loop B switch n t' r'')
      | None \<Rightarrow> map_loop B switch n t (ScanForLinks B r'))"

text \<open>Once the header is read, the end of the input is unexpected.\<close>

definition unexpected_eof :: "go_error + 'a \<Rightarrow> go_error + 'a" where
  "unexpected_eof x = on_err x (\<lambda>err. Inl (if err = io_EOF then io_ErrUnexpectedEOF else err)) Inr"

definition unmarshal_map ::
  "cbor_lib \<Rightarrow> string \<Rightarrow> 'r \<Rightarrow> (string \<times> ('r \<Rightarrow> 'r reader)) list \<Rightarrow> 'r reader" where
  "unmarshal_map B typ zero cases r = on_err (ReadCborHeader B r) Inl
     (\<lambda>((maj, extra), r'). unexpected_eof
        (if maj \<noteq> MajMap then Inl (New ''cbor input should be of type map'')
         else if unat extra > MaxLength B then Inl (New (typ @ '': map struct too large ('' @ show_uint64 extra @ '')''))
         else map_loop B (map_of cases) (unat extra) zero r'))"

fun tuple_fields :: "('r \<Rightarrow> 'r reader) list \<Rightarrow> 'r \<Rightarrow> 'r reader" where
  "tuple_fields [] t r = Inr (t, r)"
| "tuple_fields (rd # rds) t r = on_err (rd t r) Inl (\<lambda>(t', r'). tuple_fields rds t' r')"

definition unmarshal_tuple :: "cbor_lib \<Rightarrow> 'r \<Rightarrow> ('r \<Rightarrow> 'r reader) list \<Rightarrow> 'r reader" where
  "unmarshal_tuple B zero flds r = on_err (ReadCborHeader B r) Inl
     (\<lambda>((maj, extra), r'). unexpected_eof
        (if maj \<noteq> MajArray then Inl (New ''cbor input should be of type array'')
         else if unat extra \<noteq> length flds then Inl (New ''cbor input had wrong number of fields'')
         else tuple_fields flds zero r'))"

definition get_uint64 :: "cbor_lib \<Rightarrow> uint64 reader" where
  "get_uint64 B r = on_err (ReadCborHeader B r) Inl
     (\<lambda>((maj, extra), r'). if maj \<noteq> MajUnsignedInt then Inl (New ''wrong type for uint64 field'') else Inr (extra, r'))"

definition get_cid :: "cbor_lib \<Rightarrow> string \<Rightarrow> cid reader" where
  "get_cid B field r = on_err (cbg_ReadCid B r) (\<lambda>err. Inl (Wrap (''failed to read cid field t.'' @ field @ '': '') err)) Inr"

definition get_struct :: "string \<Rightarrow> 'a reader \<Rightarrow> 'a reader" where
  "get_struct field rd r = on_err (rd r) (\<lambda>err. Inl (Wrap (''unmarshaling t.'' @ field @ '': '') err)) Inr"

fun get_values :: "'a reader \<Rightarrow> nat \<Rightarrow> 'a list reader" where
  "get_values rd 0 r = Inr ([], r)"
| "get_values rd (Suc n) r = on_err (rd r) Inl
     (\<lambda>(v, r'). on_err (get_values rd n r') Inl (\<lambda>(vs, r''). Inr (v # vs, r'')))"

text \<open>An empty slice leaves the field as it is.\<close>

definition set_slice :: "cbor_lib \<Rightarrow> string \<Rightarrow> ('a list \<Rightarrow> 'r \<Rightarrow> 'r) \<Rightarrow> 'a reader \<Rightarrow> 'r \<Rightarrow> 'r reader" where
  "set_slice B field upd rd t r = on_err (ReadCborHeader B r) Inl
     (\<lambda>((maj, extra), r').
        if unat extra > MaxLength B then Inl (New (''t.'' @ field @ '': array too large ('' @ show_uint64 extra @ '')''))
        else if maj \<noteq> MajArray then Inl (New ''expected cbor array'')
        else on_err (get_values rd (unat extra) r') Inl
          (\<lambda>(vs, r''). Inr (if extra > 0 then upd vs t else t, r'')))"

definition get_int64 :: "cbor_lib \<Rightarrow> int reader" where
  "get_int64 B r = on_err (ReadCborHeader B r) Inl
     (\<lambda>((maj, extra), r'). case maj of
        MajUnsignedInt \<Rightarrow> if int64_of extra < 0 then Inl (New ''int64 positive overflow'') else Inr (int64_of extra, r')
      | MajNegativeInt \<Rightarrow> if int64_of extra < 0 then Inl (New ''int64 negative overflow'') else Inr (-1 - int64_of extra, r')
      | _ \<Rightarrow> Inl (New ''wrong type for int64 field''))"

definition get_bool :: "cbor_lib \<Rightarrow> bool reader" where
  "get_bool B r = on_err (ReadCborHeader B r) Inl
     (\<lambda>((maj, extra), r'). if maj \<noteq> MajOther then Inl (New ''booleans must be major type 7'')
        else if extra = 20 then Inr (False, r')
        else if extra = 21 then Inr (True, r')
        else Inl (New (''booleans are either major type 7, value 20 or 21 (got '' @ show_uint64 extra @ '')'')))"

definition get_string :: "cbor_lib \<Rightarrow> string reader" where
  "get_string B r = cbg_ReadString B r"

definition get_ptr :: "string \<Rightarrow> 'a reader \<Rightarrow> 'a reader" where
  "get_ptr field rd r = on_err (rd r) (\<lambda>err. Inl (Wrap (''unmarshaling t.'' @ field @ '' pointer: '') err)) Inr"

definition get_big :: "cbor_lib \<Rightarrow> token_amount option reader" where
  "get_big B r = on_err (CodecGet (BigInt B) r) Inl (\<lambda>(n, r'). Inr (Some n, r'))"

definition get_enum :: "(uint64 \<Rightarrow> 'e) \<Rightarrow> cbor_lib \<Rightarrow> 'e reader" where
  "get_enum conv B r = on_err (get_uint64 B r) Inl (\<lambda>(n, r'). Inr (conv n, r'))"

text \<open>A pointer: a null leaves the field as it is, anything else is a value.\<close>

definition set_ptr :: "('a option \<Rightarrow> 'r \<Rightarrow> 'r) \<Rightarrow> 'a reader \<Rightarrow> 'r \<Rightarrow> 'r reader" where
  "set_ptr upd rd t r = (case r of
     [] \<Rightarrow> Inl io_EOF
   | b # r' \<Rightarrow> if [b] = CborNull then Inr (t, r') else on_err (rd r) Inl (\<lambda>(v, r''). Inr (upd (Some v) t, r'')))"

subsection \<open>What is relied on\<close>

text \<open>\<open>codec v rd x\<close>: if \<open>v\<close> was written, then \<open>rd\<close> reads \<open>x\<close> from it and stops behind it. \<open>nonnull v\<close>: what was
  written does not begin like a null.\<close>

named_theorems codec \<open>which reader reads what a writer writes\<close>

definition codec :: "written \<Rightarrow> 'a reader \<Rightarrow> 'a \<Rightarrow> bool" where
  "codec v rd x \<longleftrightarrow> (\<forall>b rest. v = Inr b \<longrightarrow> rd (b @ rest) = Inr (x, rest))"

definition nonnull :: "written \<Rightarrow> bool" where
  "nonnull v \<longleftrightarrow> (\<forall>b. v = Inr b \<longrightarrow> b \<noteq> [] \<and> [hd b] \<noteq> CborNull)"

definition int64_range :: "int \<Rightarrow> bool" where
  "int64_range n \<longleftrightarrow> - (2 ^ 63) \<le> n \<and> n < 2 ^ 63"

definition exact :: "'a wire_codec \<Rightarrow> bool" where
  "exact e \<longleftrightarrow> (\<forall>x. codec (CodecPut e x) (CodecGet e) x \<and> nonnull (CodecPut e x))"

locale cbor_codec =
  fixes B :: cbor_lib
  assumes header: "ReadCborHeader B (CborHeader B m n @ rest) = Inr ((m, n), rest)"
    and header_map: "k < 24 \<Longrightarrow> ReadCborHeader B (char_of (160 + k) # rest) = Inr ((MajMap, of_nat k), rest)"
    and header_array: "k < 24 \<Longrightarrow> ReadCborHeader B (char_of (128 + k) # rest) = Inr ((MajArray, of_nat k), rest)"
    and header_end: "ReadCborHeader B [] = Inl io_EOF"
    and text_string: "length s \<le> MaxLength B \<Longrightarrow>
      cbg_ReadString B (CborHeader B MajTextString (of_nat (length s)) @ s @ rest) = Inr (s, rest)"
    and cid_written: "cbg_WriteCid B c = Inr bs \<Longrightarrow> cbg_ReadCid B (bs @ rest) = Inr (c, rest)"
    and cid_nonnull: "nonnull (cbg_WriteCid B c)"
    and header_nonnull: "m \<noteq> MajOther \<Longrightarrow> nonnull (Inr (CborHeader B m n))"
    and bool_written: "ReadCborHeader B (cbg_WriteBool B b @ rest) = Inr ((MajOther, if b then 21 else 20), rest)"
    and modules: "exact (BigInt B)" "exact (Address B)" "exact (ChannelCodec B)" "exact (SignatureCodec B)" "exact (CborTime B)"
    and max_length: "24 \<le> MaxLength B" "MaxLength B < 2 ^ 63"

lemma codecI: "(\<And>b rest. v = Inr b \<Longrightarrow> rd (b @ rest) = Inr (x, rest)) \<Longrightarrow> codec v rd x"
  by (simp add: codec_def)

lemma codecD: "codec v rd x \<Longrightarrow> v = Inr b \<Longrightarrow> rd (b @ rest) = Inr (x, rest)"
  by (simp add: codec_def)

lemma codec_set [codec]: "codec v rd x \<Longrightarrow> codec v (set_field upd rd t) (upd x t)"
  by (simp add: codec_def set_field_def)

lemma codec_struct [codec]: "codec v rd x \<Longrightarrow> codec v (get_struct field rd) x"
  by (simp add: codec_def get_struct_def)

lemma codec_values:
  "(\<And>x. x \<in> set xs \<Longrightarrow> codec (put x) rd x) \<Longrightarrow> put_values (map put xs) = Inr b \<Longrightarrow>
   get_values rd (length xs) (b @ rest) = Inr (xs, rest)"
proof (induction xs arbitrary: b)
  case (Cons x xs)
  from Cons.prems(2) obtain b1 b2 where b: "put x = Inr b1" "put_values (map put xs) = Inr b2" "b = b1 @ b2"
    by (auto split: on_err_splits)
  have "rd (b1 @ b2 @ rest) = Inr (x, b2 @ rest)" using Cons.prems(1) [of x] b(1) by (auto dest: codecD)
  moreover have "get_values rd (length xs) (b2 @ rest) = Inr (xs, rest)" using Cons.IH [OF _ b(2)] Cons.prems(1) by simp
  ultimately show ?case by (simp add: b(3))
qed simp

lemma codec_get_ptr [codec]: "codec v rd x \<Longrightarrow> codec v (get_ptr field rd) x"
  by (simp add: codec_def get_ptr_def)

lemma exact_codec: "exact e \<Longrightarrow> codec (CodecPut e x) (CodecGet e) x"
  and exact_nonnull: "exact e \<Longrightarrow> nonnull (CodecPut e x)"
  by (simp_all add: exact_def)

text \<open>A pointer is written by \<open>m\<close>, as null when it is nil.\<close>

lemma codec_ptrI:
  assumes "m None = Inr CborNull" and "\<And>v. x = Some v \<Longrightarrow> codec (m (Some v)) rd v" and "\<And>v. nonnull (m (Some v))"
    and "upd None t = t"
  shows "codec (m x) (set_ptr upd rd t) (upd x t)"
proof (rule codecI)
  fix b rest
  assume b: "m x = Inr b"
  show "set_ptr upd rd t (b @ rest) = Inr (upd x t, rest)"
  proof (cases x)
    case None
    then have "b = CborNull" using b assms(1) by simp
    then show ?thesis by (simp add: set_ptr_def CborNull_def None assms(4))
  next
    case (Some v)
    then have "b \<noteq> []" "[hd b] \<noteq> CborNull" using assms(3) [of v] b by (simp_all add: nonnull_def)
    then obtain c bs where "b = c # bs" "[c] \<noteq> CborNull" by (cases b) auto
    then show ?thesis using codecD [OF assms(2) [OF Some], of b rest] b Some by (simp add: set_ptr_def)
  qed
qed

lemma codec_put_ptr [codec]:
  assumes "\<And>v. codec (put v) rd v" and "\<And>v. nonnull (put v)" and "upd None t = t"
  shows "codec (put_ptr put x) (set_ptr upd rd t) (upd x t)"
  by (rule codec_ptrI) (simp_all add: put_ptr_def assms)

text \<open>The fields of a map are read back one by one, the cases of the switch being in the order of the
  fields.\<close>

fun fields_read :: "(string \<times> ('r \<Rightarrow> 'r reader)) list \<Rightarrow> 'r \<Rightarrow> (string \<times> written) list \<Rightarrow> 'r \<Rightarrow> bool" where
  "fields_read [] t [] t' \<longleftrightarrow> t = t'"
| "fields_read ((name', rd) # cases) t ((name, v) # fs) t' \<longleftrightarrow>
     name' = name \<and> (\<exists>t1. codec v (rd t) t1 \<and> fields_read cases t1 fs t')"
| "fields_read _ t _ t' \<longleftrightarrow> False"

lemma fields_read_Cons [codec]:
  "codec v (rd t) t1 \<Longrightarrow> fields_read cases t1 fs t' \<Longrightarrow> fields_read ((name, rd) # cases) t ((name, v) # fs) t'"
  by auto

lemma fields_read_Nil [codec]: "t = t' \<Longrightarrow> fields_read [] t [] t'"
  by simp

fun values_read :: "('r \<Rightarrow> 'r reader) list \<Rightarrow> 'r \<Rightarrow> written list \<Rightarrow> 'r \<Rightarrow> bool" where
  "values_read [] t [] t' \<longleftrightarrow> t = t'"
| "values_read (rd # rds) t (v # vs) t' \<longleftrightarrow> (\<exists>t1. codec v (rd t) t1 \<and> values_read rds t1 vs t')"
| "values_read _ t _ t' \<longleftrightarrow> False"

lemma values_read_Cons [codec]:
  "codec v (rd t) t1 \<Longrightarrow> values_read rds t1 vs t' \<Longrightarrow> values_read (rd # rds) t (v # vs) t'"
  by auto

lemma values_read_Nil [codec]: "t = t' \<Longrightarrow> values_read [] t [] t'"
  by simp

lemma tuple_fields_read:
  "values_read rds t vs t' \<Longrightarrow> put_values vs = Inr b \<Longrightarrow> tuple_fields rds t (b @ rest) = Inr (t', rest)"
proof (induction rds t vs t' arbitrary: b rule: values_read.induct)
  case (2 rd rds t v vs t')
  from "2.prems" obtain t1 where t1: "codec v (rd t) t1" "values_read rds t1 vs t'" by auto
  from "2.prems"(2) obtain b1 b2 where b: "v = Inr b1" "put_values vs = Inr b2" "b = b1 @ b2"
    by (auto split: on_err_splits)
  show ?case using codecD [OF t1(1) b(1)] "2.IH" [OF t1(2) b(2)] by (simp add: b(3))
qed auto

context cbor_codec
begin

lemma map_loop_fields:
  "fields_read cases t fs t' \<Longrightarrow> put_fields B fs = Inr b \<Longrightarrow> distinct (map fst cases) \<Longrightarrow>
   (\<And>name rd. (name, rd) \<in> set cases \<Longrightarrow> switch name = Some rd) \<Longrightarrow>
   map_loop B switch (length fs) t (b @ rest) = Inr (t', rest)"
proof (induction cases t fs t' arbitrary: b rule: fields_read.induct)
  case (2 name' rd cases t name v fs t')
  from "2.prems"(1) obtain t1 where t1: "codec v (rd t) t1" "fields_read cases t1 fs t'" "name' = name" by auto
  from "2.prems"(2) obtain b1 b2 where b: "length name \<le> MaxLength B" "v = Inr b1" "put_fields B fs = Inr b2"
    "b = CborHeader B MajTextString (of_nat (length name)) @ name @ b1 @ b2"
    by (auto simp: put_key_def split: on_err_splits if_splits)
  have "map_loop B switch (length fs) t1 (b2 @ rest) = Inr (t', rest)"
    using "2.IH" [OF t1(2) b(3)] "2.prems"(3,4) by simp
  moreover have "switch name = Some rd" using "2.prems"(4) t1(3) by simp
  ultimately show ?case using codecD [OF t1(1) b(2)] by (simp add: b(4) text_string [OF b(1)])
qed auto

lemma codec_map [codec]:
  assumes "hb = 160 + length (flds x)" and "length (flds x) < 24" and "distinct (map fst cases)"
    and "fields_read cases zero (flds x) x"
  shows "codec (marshal_map B hb flds (Some x)) (unmarshal_map B typ zero cases) x"
proof (rule codecI)
  fix b rest
  assume "marshal_map B hb flds (Some x) = Inr b"
  then obtain bs where bs: "put_fields B (flds x) = Inr bs" "b = char_of hb # bs"
    by (auto simp: marshal_map_def split: on_err_splits)
  have n: "unat (of_nat (length (flds x)) :: uint64) = length (flds x)" using assms(2) by (intro unat_of_nat_small) simp
  show "unmarshal_map B typ zero cases (b @ rest) = Inr (x, rest)"
    using header_map [OF assms(2)] map_loop_fields [OF assms(4) bs(1) assms(3)] assms(1-3) max_length(1)
    by (simp add: unmarshal_map_def bs(2) n unexpected_eof_def)
qed

lemma codec_tuple [codec]:
  assumes "hb = 128 + length (flds x)" and "length (flds x) < 24" and "length readers = length (flds x)"
    and "values_read readers zero (flds x) x"
  shows "codec (marshal_tuple hb flds (Some x)) (unmarshal_tuple B zero readers) x"
proof (rule codecI)
  fix b rest
  assume "marshal_tuple hb flds (Some x) = Inr b"
  then obtain bs where bs: "put_values (flds x) = Inr bs" "b = char_of hb # bs"
    by (auto simp: marshal_tuple_def split: on_err_splits)
  have n: "unat (of_nat (length (flds x)) :: uint64) = length (flds x)" using assms(2) by (intro unat_of_nat_small) simp
  show "unmarshal_tuple B zero readers (b @ rest) = Inr (x, rest)"
    using header_array [OF assms(2)] tuple_fields_read [OF assms(4) bs(1)] assms(1,3)
    by (simp add: unmarshal_tuple_def bs(2) n unexpected_eof_def)
qed

lemma codec_uint64 [codec]: "codec (put_uint64 B n) (get_uint64 B) n"
  by (simp add: codec_def put_uint64_def get_uint64_def header)

lemma codec_cid [codec]: "codec (put_cid B f c) (get_cid B f') c"
  by (auto simp: codec_def put_cid_def get_cid_def cid_written split: on_err_splits)

lemma nonnull_uint64 [codec]: "nonnull (put_uint64 B n)"
  unfolding put_uint64_def by (rule header_nonnull) simp

lemma nonnull_cid [codec]: "nonnull (put_cid B f c)"
  using cid_nonnull [of c] by (auto simp: nonnull_def put_cid_def split: on_err_splits)

lemma nonnull_map:
  assumes "\<And>x. length (flds x) < 24" and "\<And>x. hb = 160 + length (flds x)"
  shows "nonnull (marshal_map B hb flds (Some x))"
proof -
  have "[char_of hb] \<noteq> CborNull"
  proof
    assume "[char_of hb] = CborNull"
    then have "of_char (char_of hb :: char) = (of_char (CHR 0xF6) :: nat)" by (simp add: CborNull_def)
    then show False using assms [of undefined] by (simp add: of_char_of)
  qed
  then show ?thesis by (auto simp: nonnull_def marshal_map_def split: on_err_splits)
qed

lemma nonnull_tuple:
  assumes "\<And>x. length (flds x) < 24" and "\<And>x. hb = 128 + length (flds x)"
  shows "nonnull (marshal_tuple hb flds (Some x))"
proof -
  have "[char_of hb] \<noteq> CborNull"
  proof
    assume "[char_of hb] = CborNull"
    then have "of_char (char_of hb :: char) = (of_char (CHR 0xF6) :: nat)" by (simp add: CborNull_def)
    then show False using assms [of undefined] by (simp add: of_char_of)
  qed
  then show ?thesis by (auto simp: nonnull_def marshal_tuple_def split: on_err_splits)
qed

lemma codec_int64 [codec]:
  assumes "int64_range n"
  shows "codec (put_int64 B n) (get_int64 B) n"
proof -
  have small: "int64_of (of_int m) = m" if "0 \<le> m" "m < 2 ^ 63" for m
    using that int64_of_small [of "of_int m"] by (simp add: uint_word_of_int_eq take_bit_int_eq_self)
  have range: "- (2 ^ 63) \<le> n" "n < 2 ^ 63" using assms by (simp_all add: int64_range_def)
  show ?thesis
  proof (cases "0 \<le> n")
    case True
    with small [of n] range(2) show ?thesis by (simp add: codec_def put_int64_def get_int64_def header)
  next
    case False
    then have "int64_of (of_int (- n - 1)) = - n - 1" using range(1) by (intro small) simp_all
    with False show ?thesis by (simp add: codec_def put_int64_def get_int64_def header)
  qed
qed

lemma codec_bool [codec]: "codec (put_bool B b) (get_bool B) b"
  by (simp add: codec_def put_bool_def get_bool_def bool_written)

lemma codec_string [codec]: "codec (put_string B f s) (get_string B) s"
  by (auto simp: codec_def put_string_def get_string_def text_string)

lemma codec_big [codec]: "x \<noteq> None \<Longrightarrow> codec (put_big B x) (get_big B) x"
  using exact_codec [OF modules(1), of "the x"] by (auto simp: codec_def put_big_def get_big_def)

lemmas codec_modules [codec] = modules [THEN exact_codec]
lemmas nonnull_modules [codec] = modules [THEN exact_nonnull]

lemma codec_enum [codec]: "conv n = e \<Longrightarrow> codec (put_uint64 B n) (get_enum conv B) e"
  using codec_uint64 [of n] by (simp add: codec_def get_enum_def)

lemma codec_slice [codec]:
  assumes "\<And>x. codec (put x) rd x" and "upd [] t = t"
  shows "codec (put_slice B f put xs) (set_slice B f' upd rd t) (upd xs t)"
proof (rule codecI)
  fix b rest
  assume "put_slice B f put xs = Inr b"
  then obtain bs where bs: "length xs \<le> MaxLength B" "put_values (map put xs) = Inr bs"
    "b = CborHeader B MajArray (of_nat (length xs)) @ bs"
    by (auto simp: put_slice_def split: on_err_splits if_splits)
  have n: "unat (of_nat (length xs) :: uint64) = length xs" using bs(1) max_length(2) by (intro unat_of_nat_small) simp
  have "get_values rd (length xs) (bs @ rest) = Inr (xs, rest)" using codec_values [OF assms(1) bs(2)] by simp
  moreover have "(0 :: uint64) < of_nat (length xs) \<longleftrightarrow> xs \<noteq> []" 
    using n unat_eq_zero [of "of_nat (length xs) :: uint64"] by (simp add: word_gt_0)
  ultimately show "set_slice B f' upd rd t (b @ rest) = Inr (upd xs t, rest)"
    using bs(1) assms(2) by (cases "xs = []") (simp_all add: set_slice_def bs(3) header n)
qed

end

declare fields_read.simps [simp del] and values_read.simps [simp del]

end
