(* ===== verification/Cbor_Sample.thy ===== *)
theory Cbor_Sample
  imports Cbor_Codec
begin

section \<open>An encoding that fulfils what the codecs rely on\<close>

text \<open>
  Headers as in CBOR: the major type in the upper three bits, a small argument in the lower five, a larger
  one in eight bytes behind. CIDs, addresses, channels and signatures are byte strings, amounts and times
  are integers of 64 bits; anything larger is refused.
\<close>

fun digits :: "nat \<Rightarrow> nat \<Rightarrow> string" where
  "digits 0 n = []"
| "digits (Suc k) n = char_of (n mod 256) # digits k (n div 256)"

fun undigits :: "string \<Rightarrow> nat" where
  "undigits [] = 0"
| "undigits (c # cs) = of_char c + 256 * undigits cs"

lemma length_digits [simp]: "length (digits k n) = k"
  by (induction k arbitrary: n) simp_all

lemma undigits_digits: "n < 256 ^ k \<Longrightarrow> undigits (digits k n) = n"
proof (induction k arbitrary: n)
  case (Suc k)
  then have "n div 256 < 256 ^ k" by (simp add: less_mult_imp_div_less mult.commute)
  with Suc.IH show ?case by (simp add: of_char_of)
qed simp

primrec major_code :: "major \<Rightarrow> nat" where
  "major_code MajUnsignedInt = 0"
| "major_code MajNegativeInt = 1"
| "major_code MajByteString = 2"
| "major_code MajTextString = 3"
| "major_code MajArray = 4"
| "major_code MajMap = 5"
| "major_code MajTag = 6"
| "major_code MajOther = 7"

definition majors :: "major list" where
  "majors = [MajUnsignedInt, MajNegativeInt, MajByteString, MajTextString, MajArray, MajMap, MajTag, MajOther]"

lemma major_code_less: "major_code m < 8"
  by (cases m) simp_all

lemma majors_nth [simp]: "majors ! major_code m = m"
  by (cases m) (simp_all add: majors_def numeral_eq_Suc)

definition sample_header :: "major \<Rightarrow> uint64 \<Rightarrow> string" where
  "sample_header m n = (if unat n < 24 then [char_of (32 * major_code m + unat n)]
     else char_of (32 * major_code m + 27) # digits 8 (unat n))"

definition sample_read_header :: "(major \<times> uint64) reader" where
  "sample_read_header r = (case r of
     [] \<Rightarrow> Inl io_EOF
   | b # bs \<Rightarrow> let m = majors ! (of_char b div 32); n = of_char b mod 32 in
       if n < 24 then Inr ((m, of_nat n), bs)
       else if n = 27 \<and> 8 \<le> length bs then Inr ((m, of_nat (undigits (take 8 bs))), drop 8 bs)
       else Inl io_ErrUnexpectedEOF)"

lemma sample_read_empty: "sample_read_header [] = Inl io_EOF"
  by (simp add: sample_read_header_def)

lemma header_byte:
  assumes "k < 32"
  shows "(of_char (char_of (32 * major_code m + k) :: char) :: nat) div 32 = major_code m"
    and "(of_char (char_of (32 * major_code m + k) :: char) :: nat) mod 32 = k"
proof -
  have "32 * major_code m + k < 256" using major_code_less [of m] assms by simp
  then show "(of_char (char_of (32 * major_code m + k) :: char) :: nat) div 32 = major_code m"
    and "(of_char (char_of (32 * major_code m + k) :: char) :: nat) mod 32 = k"
    using assms by (simp_all add: of_char_of)
qed

lemma sample_header_read: "sample_read_header (sample_header m n @ rest) = Inr ((m, n), rest)"
proof -
  have "undigits (digits 8 (unat n)) = unat n"
    using unsigned_less [where ?'a = nat, of n] by (intro undigits_digits) simp
  then show ?thesis
    using header_byte [of "unat n" m] header_byte [of 27 m]
    by (simp add: sample_header_def sample_read_header_def Let_def)
qed

definition sample_bytes :: "major \<Rightarrow> string \<Rightarrow> written" where
  "sample_bytes m s = (if length s < 2 ^ 63 then Inr (sample_header m (of_nat (length s)) @ s) else Inl (New ''too long''))"

definition sample_read_bytes :: "major \<Rightarrow> string reader" where
  "sample_read_bytes m r = on_err (sample_read_header r) Inl
     (\<lambda>((maj, n), r'). if maj = m \<and> unat n \<le> length r' then Inr (take (unat n) r', drop (unat n) r') else Inl io_ErrUnexpectedEOF)"

definition sample_int :: "int \<Rightarrow> written" where
  "sample_int n = (if 0 \<le> n \<and> n < 2 ^ 64 then Inr (sample_header MajUnsignedInt (of_int n))
     else if n < 0 \<and> - (2 ^ 64) \<le> n then Inr (sample_header MajNegativeInt (of_int (- 1 - n)))
     else Inl (New ''too large''))"

definition sample_read_int :: "int reader" where
  "sample_read_int r = on_err (sample_read_header r) Inl
     (\<lambda>((maj, n), r'). if maj = MajUnsignedInt then Inr (uint n, r')
        else if maj = MajNegativeInt then Inr (- 1 - uint n, r') else Inl (New ''not an integer''))"

definition sample_cbor :: cbor_lib where
  "sample_cbor = \<lparr>CborHeader = sample_header, ReadCborHeader = sample_read_header,
     cbg_WriteCid = (\<lambda>c. if c = cid_Undef then Inl (New ''undefined cid'') else sample_bytes MajByteString c),
     cbg_ReadCid = sample_read_bytes MajByteString, cbg_ReadString = sample_read_bytes MajTextString, ScanForLinks = tl,
     cbg_WriteBool = (\<lambda>b. sample_header MajOther (if b then 21 else 20)), MaxLength = 8192,
     BigInt = \<lparr>CodecPut = sample_int, CodecGet = sample_read_int\<rparr>,
     Address = \<lparr>CodecPut = sample_bytes MajByteString, CodecGet = sample_read_bytes MajByteString\<rparr>,
     ChannelCodec = \<lparr>CodecPut = sample_bytes MajByteString, CodecGet = sample_read_bytes MajByteString\<rparr>,
     SignatureCodec = \<lparr>CodecPut = sample_bytes MajByteString, CodecGet = sample_read_bytes MajByteString\<rparr>,
     CborTime = \<lparr>CodecPut = sample_int, CodecGet = sample_read_int\<rparr>\<rparr>"

lemma sample_header_nonnull: "m \<noteq> MajOther \<Longrightarrow> sample_header m n \<noteq> [] \<and> [hd (sample_header m n)] \<noteq> CborNull"
proof -
  assume m: "m \<noteq> MajOther"
  have "[char_of (32 * major_code m + k)] \<noteq> CborNull" if "k < 32" for k
  proof
    assume "[char_of (32 * major_code m + k)] = CborNull"
    then have "of_char (char_of (32 * major_code m + k) :: char) = (of_char (CHR 0xF6) :: nat)" by (simp add: CborNull_def)
    moreover have "32 * major_code m + k < 224" using m that by (cases m) simp_all
    ultimately show False by (simp add: of_char_of)
  qed
  from this [of "unat n"] this [of 27] show ?thesis by (simp add: sample_header_def)
qed

lemma sample_bytes_exact: "m \<noteq> MajOther \<Longrightarrow> exact \<lparr>CodecPut = sample_bytes m, CodecGet = sample_read_bytes m\<rparr>"
proof -
  assume m: "m \<noteq> MajOther"
  have "unat (of_nat (length s) :: uint64) = length s" if "length s < 2 ^ 63" for s :: string
    using that by (intro unat_of_nat_small) simp
  then show ?thesis
    using sample_header_nonnull [OF m]
    by (auto simp: exact_def codec_def nonnull_def sample_bytes_def sample_read_bytes_def sample_header_read split: if_splits)
qed

lemma sample_int_exact: "exact \<lparr>CodecPut = sample_int, CodecGet = sample_read_int\<rparr>"
proof -
  have u: "uint (of_int n :: uint64) = n" if "0 \<le> n" "n < 2 ^ 64" for n
    using that by (simp add: uint_word_of_int_eq take_bit_int_eq_self)
  have "codec (sample_int n) sample_read_int n" for n
    using u [of n] u [of "- 1 - n"]
    by (simp add: codec_def sample_int_def sample_read_int_def sample_header_read del: of_int_diff of_int_minus)
  moreover have "nonnull (sample_int n)" for n
    using sample_header_nonnull by (auto simp: nonnull_def sample_int_def split: if_splits)
  ultimately show ?thesis by (simp add: exact_def)
qed

interpretation sample_cbor: cbor_codec sample_cbor
proof unfold_locales
  fix k :: nat and rest
  assume k: "k < 24"
  then show "ReadCborHeader sample_cbor (char_of (160 + k) # rest) = Inr ((MajMap, of_nat k), rest)"
    using header_byte [of k MajMap] majors_nth [of MajMap] by (simp add: sample_cbor_def sample_read_header_def Let_def)
  show "ReadCborHeader sample_cbor (char_of (128 + k) # rest) = Inr ((MajArray, of_nat k), rest)"
    using k header_byte [of k MajArray] majors_nth [of MajArray] by (simp add: sample_cbor_def sample_read_header_def Let_def)
next
  fix s rest :: string
  assume s: "length s \<le> MaxLength sample_cbor"
  then have "unat (of_nat (length s) :: uint64) = length s" by (intro unat_of_nat_small) (simp add: sample_cbor_def)
  then show "cbg_ReadString sample_cbor (CborHeader sample_cbor MajTextString (of_nat (length s)) @ s @ rest) = Inr (s, rest)"
    by (simp add: sample_cbor_def sample_read_bytes_def sample_header_read)
next
  fix c bs rest
  assume "cbg_WriteCid sample_cbor c = Inr bs"
  then show "cbg_ReadCid sample_cbor (bs @ rest) = Inr (c, rest)"
    using exact_codec [OF sample_bytes_exact, of MajByteString c] by (simp add: sample_cbor_def codec_def split: if_splits)
next
  fix c
  show "nonnull (cbg_WriteCid sample_cbor c)"
    using exact_nonnull [OF sample_bytes_exact, of MajByteString c] by (simp add: sample_cbor_def nonnull_def)
next
  fix m n
  assume "m \<noteq> MajOther"
  then show "nonnull (Inr (CborHeader sample_cbor m n))" by (simp add: nonnull_def sample_cbor_def sample_header_nonnull)
qed (simp_all add: sample_cbor_def sample_header_read sample_int_exact sample_bytes_exact sample_read_empty)

text \<open>The bytes that were written, for what could be written.\<close>

definition bytes_of :: "written \<Rightarrow> string" where
  "bytes_of v = on_err v (\<lambda>_. []) (\<lambda>b. b)"

lemma written_bytes: "\<not> isl v \<Longrightarrow> v = Inr (bytes_of v)"
  by (cases v) (simp_all add: bytes_of_def)

lemmas put_defs = marshal_map_def marshal_tuple_def put_key_def put_uint64_def put_int64_def put_cid_def put_slice_def
  put_string_def put_bool_def put_ptr_def put_big_def sample_cbor_def sample_bytes_def sample_int_def

end
