(* ===== verification/Car_Index.thy ===== *)
theory Car_Index
  imports Car_Files Cbor_Sample
begin

section \<open>CAR files: the index on disk, opening, and reader adapters\<close>

text \<open>
  The rest of \<open>stores/kvcarbs.go\<close>: how the index of a store is written, read, loaded and flattened; opening a
  read-only store over a CAR of either version; writing a CAR from a DAG; and the adapters that give a reader
  the methods it lacks. The size and the least item of the tree come with \<open>llrb_size\<close>, the encoding of a record
  with \<open>record_codec\<close>, CARv2 with \<open>car2_lib\<close> and the walk over a DAG as a function: they are libraries.
\<close>

subsection \<open>The index\<close>

record 't llrb_size =
  LLen :: "'t \<Rightarrow> nat"
  LMin :: "'t \<Rightarrow> recordDigest option"

text \<open>A record is a CID with an offset; \<open>RecGet\<close> is one call of the decoder on the bytes that are left.\<close>

type_synonym index_record = "cid \<times> uint64"

record record_codec =
  RecPut :: "index_record \<Rightarrow> written"
  RecGet :: "index_record reader"

definition record_of :: "recordDigest \<Rightarrow> index_record" where
  "record_of r = (RdCid r, RdOffset r)"

definition newRecordDigest :: "car_lib \<Rightarrow> index_record \<Rightarrow> recordDigest go_run" where
  "newRecordDigest L r = on_err (MhDecode L (CidHash L (fst r))) (\<lambda>err. Panics)
     (\<lambda>d. Returns \<lparr>RdDigest = d, RdCid = fst r, RdOffset = snd r\<rparr>)"

text \<open>All items, in the order of the tree: the walk from the least one on. An empty tree has none.\<close>

definition ascend_all :: "'t llrb_api \<Rightarrow> 't llrb_size \<Rightarrow> 't \<Rightarrow> recordDigest list" where
  "ascend_all T Z ii = (case LMin Z ii of None \<Rightarrow> [] | Some r \<Rightarrow> LAscend T (RdDigest r) ii)"

text \<open>What was written when the first record fails, and the error.\<close>

fun marshal_records :: "record_codec \<Rightarrow> recordDigest list \<Rightarrow> string \<times> go_error option" where
  "marshal_records C [] = ([], None)"
| "marshal_records C (r # rs) = (case RecPut C (record_of r) of
     Inl err \<Rightarrow> ([], Some err)
   | Inr b \<Rightarrow> (case marshal_records C rs of (bs, err) \<Rightarrow> (b @ bs, err)))"

text \<open>\<open>Marshal\<close>: the bytes, the length that is returned, which counts the eight bytes of the number of records, and
  the error. The number is written in eight bytes, the least significant first.\<close>

definition ii_Marshal :: "'t llrb_api \<Rightarrow> 't llrb_size \<Rightarrow> record_codec \<Rightarrow> 't \<Rightarrow> string \<times> uint64 \<times> go_error option" where
  "ii_Marshal T Z C ii = (case marshal_records C (ascend_all T Z ii) of
     (bs, err) \<Rightarrow> (digits 8 (unat (of_nat (LLen Z ii) :: uint64)) @ bs, 8, err))"

fun unmarshal_loop ::
  "car_lib \<Rightarrow> 't llrb_api \<Rightarrow> record_codec \<Rightarrow> nat \<Rightarrow> string \<Rightarrow> 't \<Rightarrow> (go_error option \<times> 't) go_run" where
  "unmarshal_loop L T C 0 r ii = Returns (None, ii)"
| "unmarshal_loop L T C (Suc n) r ii = (case RecGet C r of
     Inl err \<Rightarrow> Returns (Some err, ii)
   | Inr (rec, r') \<Rightarrow> run_bind (newRecordDigest L rec)
       (\<lambda>rd. unmarshal_loop L T C n r' (LInsertNoReplace T rd ii)))"

text \<open>A negative number of records reads none.\<close>

definition ii_Unmarshal :: "car_lib \<Rightarrow> 't llrb_api \<Rightarrow> record_codec \<Rightarrow> string \<Rightarrow> 't \<Rightarrow> (go_error option \<times> 't) go_run" where
  "ii_Unmarshal L T C r ii = on_err (io_ReadFull 8 r)
     (\<lambda>err. Returns (Some err, ii))
     (\<lambda>(b, r'). unmarshal_loop L T C (nat (int64_of (of_nat (undigits b)))) r' ii)"

definition insertionIndexCodec :: uint64 where
  "insertionIndexCodec = 0x300003"

definition ii_Codec :: uint64 where
  "ii_Codec = insertionIndexCodec"

text \<open>A digest that was decoded is not nil.\<close>

fun ii_Load :: "car_lib \<Rightarrow> 't llrb_api \<Rightarrow> index_record list \<Rightarrow> 't \<Rightarrow> (go_error option \<times> 't) go_run" where
  "ii_Load L T [] ii = Returns (None, ii)"
| "ii_Load L T (r # rs) ii = run_bind (newRecordDigest L r) (\<lambda>rd. ii_Load L T rs (LInsertNoReplace T rd ii))"

text \<open>The records go into a slice that has the length of the tree.\<close>

definition flatten ::
  "'t llrb_api \<Rightarrow> 't llrb_size \<Rightarrow> (uint64 \<Rightarrow> go_error + 'i) \<Rightarrow> (index_record list \<Rightarrow> 'i \<Rightarrow> go_error + 'i) \<Rightarrow> uint64 \<Rightarrow> 't \<Rightarrow>
   (go_error + 'i) go_run" where
  "flatten T Z index_New load c ii = on_err (index_New c)
     (\<lambda>err. Returns (Inl err))
     (\<lambda>si. let rs = map record_of (ascend_all T Z ii) in
        if length rs > LLen Z ii then Panics
        else Returns (load (rs @ replicate (LLen Z ii - length rs) (cid_Undef, 0)) si))"

subsection \<open>Opening a read-only store\<close>

record 'i car2_lib =
  car2_ReadVersion :: "string \<Rightarrow> go_error + uint64"
  car2_GenerateIndex :: "car_opts \<Rightarrow> string \<Rightarrow> go_error + 'i"
  car2_NewReader :: "car_opts \<Rightarrow> string \<Rightarrow> go_error + bool"
  car2_IndexReader :: "string \<Rightarrow> go_error + string"
  car2_DataReader :: "string \<Rightarrow> go_error + string"
  index_ReadFrom :: "string \<Rightarrow> go_error + 'i"

definition readVersion :: "'i car2_lib \<Rightarrow> string \<Rightarrow> go_error + uint64" where
  "readVersion V r = car2_ReadVersion V r"

definition generateIndex :: "'i car2_lib \<Rightarrow> car_opts \<Rightarrow> string \<Rightarrow> go_error + 'i" where
  "generateIndex V opts r = car2_GenerateIndex V opts r"

text \<open>The index of a CARv2: the one in the file, or one that is made from the data.\<close>

definition v2_index :: "'i car2_lib \<Rightarrow> car_opts \<Rightarrow> bool \<Rightarrow> string \<Rightarrow> go_error + 'i" where
  "v2_index V opts hasIndex backing = (if hasIndex
     then on_err (car2_IndexReader V backing) Inl (index_ReadFrom V)
     else on_err (car2_DataReader V backing) Inl (generateIndex V opts))"

definition NewReadOnly :: "'i car2_lib \<Rightarrow> string \<Rightarrow> 'i option \<Rightarrow> car_opts \<Rightarrow> go_error + ReadOnly \<times> 'i" where
  "NewReadOnly V backing idx opts = on_err (readVersion V backing) Inl (\<lambda>version.
     let store = (\<lambda>b i. Inr (\<lparr>RoClosed = False, RoBacking = b, RoOpts = opts\<rparr>, i)) in
     if version = 1 then
       on_err (case idx of Some i \<Rightarrow> Inr i | None \<Rightarrow> generateIndex V opts backing) Inl (store backing)
     else if version = 2 then
       on_err (car2_NewReader V opts backing) Inl (\<lambda>hasIndex.
         on_err (case idx of Some i \<Rightarrow> Inr i | None \<Rightarrow> v2_index V opts hasIndex backing) Inl (\<lambda>i.
           on_err (car2_DataReader V backing) Inl (\<lambda>d. store d i)))
     else Inl (New (''unsupported car version: '' @ show_uint64 version)))"

definition OpenReadOnly :: "'i car2_lib \<Rightarrow> (go_error + string) \<Rightarrow> car_opts \<Rightarrow> go_error + ReadOnly \<times> 'i" where
  "OpenReadOnly V f opts = on_err f Inl (\<lambda>backing. NewReadOnly V backing None opts)"

text \<open>What the read-write store passes on to the read-only one, and what it refuses.\<close>

definition rw_AllKeysChan ::
  "car_lib \<Rightarrow> (cid \<Rightarrow> cid) \<Rightarrow> 't ReadWrite \<Rightarrow> go_error + (cid list \<times> go_error option) option" where
  "rw_AllKeysChan L rawCid b = ro_AllKeysChan L rawCid (rw_ronly b)"

definition rw_Roots :: "car_lib \<Rightarrow> 't ReadWrite \<Rightarrow> go_error + cid list" where
  "rw_Roots L b = ro_Roots L (rw_ronly b)"

definition rw_DeleteBlock :: "go_error option" where
  "rw_DeleteBlock = Some (New ''ReadWrite blockstore does not support deleting blocks'')"

subsection \<open>Writing a CAR from a DAG\<close>

text \<open>\<open>nodeGet\<close> gives a node: its CID, its data and its links; the bytes written so far are the state. The walk
  calls back for the links of a node, with the set of the nodes seen threaded through it.\<close>

definition writeNode :: "car_lib \<Rightarrow> cid \<times> string \<times> cid list \<Rightarrow> string \<Rightarrow> string" where
  "writeNode L nd w = w @ UtilLd L [CidBytes L (fst nd), fst (snd nd)]"

definition enumGetLinks ::
  "car_lib \<Rightarrow> (cid \<Rightarrow> go_error + cid \<times> string \<times> cid list) \<Rightarrow> cid \<Rightarrow> string \<Rightarrow> (go_error + cid list) \<times> string" where
  "enumGetLinks L nodeGet c w = (case nodeGet c of
     Inl err \<Rightarrow> (Inl err, w)
   | Inr nd \<Rightarrow> (Inr (snd (snd nd)), writeNode L nd w))"

type_synonym dag_walk = "(cid \<Rightarrow> string \<Rightarrow> (go_error + cid list) \<times> string) \<Rightarrow> cid \<Rightarrow> cid list \<Rightarrow> string \<Rightarrow>
  go_error option \<times> cid list \<times> string"

fun walk_roots ::
  "dag_walk \<Rightarrow> (cid \<Rightarrow> string \<Rightarrow> (go_error + cid list) \<times> string) \<Rightarrow> cid list \<Rightarrow> cid list \<Rightarrow> string \<Rightarrow> go_error option \<times> string" where
  "walk_roots walk getLinks [] seen w = (None, w)"
| "walk_roots walk getLinks (r # rs) seen w = (case walk getLinks r seen w of
     (Some err, seen', w') \<Rightarrow> (Some err, w')
   | (None, seen', w') \<Rightarrow> walk_roots walk getLinks rs seen' w')"

definition WriteCar ::
  "car_lib \<Rightarrow> dag_walk \<Rightarrow> (cid \<Rightarrow> go_error + cid \<times> string \<times> cid list) \<Rightarrow> cid list \<Rightarrow> go_error option \<times> string" where
  "WriteCar L walk nodeGet roots = on_err (WriteHeader L \<lparr>Roots = roots, Version = 1\<rparr>)
     (\<lambda>err. (Some (New (''failed to write car header: '' @ Error err)), []))
     (\<lambda>hb. walk_roots walk (enumGetLinks L nodeGet) roots [] hb)"

subsection \<open>Reader adapters\<close>

text \<open>What a reader can do besides reading decides which adapter it gets; \<open>AsIs\<close>: none.\<close>

record reader_methods =
  HasReadByte :: bool
  HasSeek :: bool
  HasReadAt :: bool

datatype adapter = AsIs | ReaderPlusByte | ReadSeekerPlusByte | DiscardingReadSeekerPlusByte | ReadSeekerAt

definition ToByteReader :: "reader_methods \<Rightarrow> adapter" where
  "ToByteReader r = (if HasReadByte r then AsIs else ReaderPlusByte)"

definition ToByteReadSeeker :: "reader_methods \<Rightarrow> adapter" where
  "ToByteReadSeeker r = (if HasSeek r \<and> HasReadByte r then AsIs
     else if HasSeek r then ReadSeekerPlusByte else DiscardingReadSeekerPlusByte)"

definition ToReaderAt :: "reader_methods \<Rightarrow> adapter" where
  "ToReaderAt rs = (if HasReadAt rs then AsIs else ReadSeekerAt)"

text \<open>A reader over memory with a buffer of one byte, which keeps its value when nothing is read.\<close>

record byte_reader =
  BrRest :: string
  BrBuf :: char

definition rb_ReadByte :: "byte_reader \<Rightarrow> (char \<times> go_error option) \<times> byte_reader" where
  "rb_ReadByte rb = (case io_ReadFull 1 (BrRest rb) of
     Inl err \<Rightarrow> ((BrBuf rb, Some err), rb)
   | Inr (b, r) \<Rightarrow> ((b ! 0, None), rb\<lparr>BrRest := r, BrBuf := b ! 0\<rparr>))"

definition rsb_ReadByte :: "byte_reader \<Rightarrow> (char \<times> go_error option) \<times> byte_reader" where
  "rsb_ReadByte rsb = rb_ReadByte rsb"

record discarding_reader =
  DrRest :: string
  DrOffset :: int
  DrBuf :: char

definition drsb_Read :: "nat \<Rightarrow> discarding_reader \<Rightarrow> (string \<times> go_error option) \<times> discarding_reader" where
  "drsb_Read n d = (let got = take n (DrRest d) in
     ((got, if got = [] \<and> n > 0 then Some io_EOF else None),
      d\<lparr>DrRest := drop n (DrRest d), DrOffset := DrOffset d + int (length got)\<rparr>))"

definition drsb_ReadByte :: "discarding_reader \<Rightarrow> (char \<times> go_error option) \<times> discarding_reader" where
  "drsb_ReadByte d = (case drsb_Read 1 d of
     ((b # _, _), d') \<Rightarrow> ((b, None), d'\<lparr>DrBuf := b\<rparr>)
   | (([], err), d') \<Rightarrow> ((DrBuf d, err), d'))"

text \<open>\<open>io.CopyN\<close> into nothing: EOF when there are less than \<open>n\<close> bytes; a negative \<open>n\<close> copies nothing and
  is no error.\<close>

definition discard :: "int \<Rightarrow> discarding_reader \<Rightarrow> go_error option \<times> discarding_reader" where
  "discard n d = (let m = min (nat n) (length (DrRest d)) in
     (if int m < n then Some io_EOF else None,
      d\<lparr>DrRest := drop m (DrRest d), DrOffset := DrOffset d + int m\<rparr>))"

definition drsb_Seek :: "int \<Rightarrow> whence \<Rightarrow> discarding_reader \<Rightarrow> ((int \<times> go_error option) \<times> discarding_reader) go_run" where
  "drsb_Seek offset wh d = (case wh of
     SeekStart \<Rightarrow> (let n = offset - DrOffset d in
       if n < 0 then Panics else (case discard n d of (err, d') \<Rightarrow> Returns ((DrOffset d', err), d')))
   | SeekCurrent \<Rightarrow> (case discard offset d of (err, d') \<Rightarrow> Returns ((DrOffset d', err), d'))
   | SeekEnd \<Rightarrow> Panics)"

definition rsa_ReadAt ::
  "(int \<Rightarrow> 's \<Rightarrow> go_error option \<times> 's) \<Rightarrow> (nat \<Rightarrow> 's \<Rightarrow> (string \<times> go_error option) \<times> 's) \<Rightarrow> nat \<Rightarrow> int \<Rightarrow> 's \<Rightarrow>
   (string \<times> go_error option) \<times> 's" where
  "rsa_ReadAt seek read n off s = (case seek off s of
     (Some err, s') \<Rightarrow> (([], Some err), s')
   | (None, s') \<Rightarrow> read n s')"

text \<open>The offset of the adapter is where it stands in what it was given: reading and seeking keep that.\<close>

definition stands_in :: "string \<Rightarrow> discarding_reader \<Rightarrow> bool" where
  "stands_in f d \<longleftrightarrow> 0 \<le> DrOffset d \<and> DrOffset d \<le> int (length f) \<and> DrRest d = drop (nat (DrOffset d)) f"

lemma drsb_Read_stands: "stands_in f d \<Longrightarrow> drsb_Read n d = ((got, err), d') \<Longrightarrow>
   stands_in f d' \<and> got = take n (drop (nat (DrOffset d)) f)"
  by (auto simp: stands_in_def drsb_Read_def Let_def nat_add_distrib min_def add.commute split: if_splits)

lemma discard_stands:
  assumes "stands_in f d"
  shows "discard n d = (if DrOffset d + n > int (length f) then Some io_EOF else None,
      d\<lparr>DrRest := drop (nat (min (DrOffset d + max 0 n) (int (length f)))) f,
        DrOffset := min (DrOffset d + max 0 n) (int (length f))\<rparr>)"
proof -
  have rest: "length (DrRest d) = length f - nat (DrOffset d)" "0 \<le> DrOffset d" "DrOffset d \<le> int (length f)"
    "DrRest d = drop (nat (DrOffset d)) f"
    using assms by (simp_all add: stands_in_def)
  have "int (min (nat n) (length (DrRest d))) = min (max 0 n) (int (length f) - DrOffset d)"
    using rest(1,2,3) by (simp add: min_def max_def nat_le_iff le_nat_iff of_nat_diff)
  moreover from this have "nat (min (DrOffset d + max 0 n) (int (length f))) = min (nat n) (length (DrRest d)) + nat (DrOffset d)"
    using rest(2,3) by (auto simp: min_def max_def split: if_splits)
  ultimately show ?thesis
    using rest by (auto simp: discard_def Let_def min_def max_def split: if_splits)
qed

text \<open>
  Seeking forward goes there, or to the end with EOF. Seeking backwards from the current position is
  answered with no error, and does nothing.
\<close>

lemma drsb_Seek_forward:
  assumes "stands_in f d" and "DrOffset d \<le> pos" and "pos \<le> int (length f)"
  shows "drsb_Seek pos SeekStart d = Returns ((pos, None), d\<lparr>DrRest := drop (nat pos) f, DrOffset := pos\<rparr>)"
  using assms(2,3) discard_stands [OF assms(1), of "pos - DrOffset d"] by (simp add: drsb_Seek_def Let_def)

lemma drsb_Seek_back_ignored:
  assumes "stands_in f d" and "n < 0"
  shows "drsb_Seek n SeekCurrent d = Returns ((DrOffset d, None), d)"
  using assms discard_stands [OF assms(1), of n] by (auto simp: drsb_Seek_def stands_in_def)

subsection \<open>An index that was written is read back\<close>

locale index_format = llrb T items for T :: "'t llrb_api" and items :: "'t \<Rightarrow> recordDigest list" +
  fixes Z :: "'t llrb_size" and C :: record_codec
  assumes len: "LLen Z t = length (items t)"
    and min_item: "LMin Z t = (case items t of [] \<Rightarrow> None | r # _ \<Rightarrow> Some r)"
    and record_codec: "codec (RecPut C r) (RecGet C) r"
begin

lemma ascend_all_items: "ascending (items t) \<Longrightarrow> ascend_all T Z t = items t"
proof (cases "items t")
  case (Cons r rs)
  assume "ascending (items t)"
  then have "\<forall>x \<in> set (items t). \<not> bytes_less (RdDigest x) (RdDigest r)"
    using Cons bytes_less_irrefl by (auto simp: ascending_def rd_Less_def)
  then show ?thesis by (simp add: ascend_all_def min_item Cons ascend)
qed (simp add: ascend_all_def min_item)

lemma items_append:
  "ascending (items t @ [r]) \<Longrightarrow> items (LInsertNoReplace T r t) = items t @ [r]"
  by (auto simp: items_insert ascending_def sorted_wrt_append filter_empty_conv intro!: filter_True)

lemma records_read:
  assumes "marshal_records C rs = (bs, None)" and "ascending (items t @ rs)"
    and "\<forall>r \<in> set rs. MhDecode L (CidHash L (RdCid r)) = Inr (RdDigest r)"
  shows "\<exists>t'. unmarshal_loop L T C (length rs) (bs @ rest) t = Returns (None, t') \<and> items t' = items t @ rs"
  using assms
proof (induction rs arbitrary: bs t)
  case (Cons r rs)
  from Cons.prems(1) obtain b bs' where b: "RecPut C (record_of r) = Inr b" "marshal_records C rs = (bs', None)" "bs = b @ bs'"
    by (auto split: sum.splits prod.splits)
  have get: "RecGet C (b @ bs' @ rest) = Inr (record_of r, bs' @ rest)" by (rule codecD [OF record_codec b(1)])
  have new: "newRecordDigest L (record_of r) = Returns r" using Cons.prems(3) by (simp add: newRecordDigest_def record_of_def)
  have "ascending (items t @ [r])" using Cons.prems(2) by (auto simp: ascending_def sorted_wrt_append)
  then have t: "items (LInsertNoReplace T r t) = items t @ [r]" by (rule items_append)
  from Cons.IH [OF b(2), of "LInsertNoReplace T r t"] Cons.prems(2,3) t
  obtain t' where "unmarshal_loop L T C (length rs) (bs' @ rest) (LInsertNoReplace T r t) = Returns (None, t')"
    "items t' = items t @ r # rs" by auto
  then show ?case by (simp add: b(3) get new)
qed simp

lemma loaded_index:
  assumes "ii_Load L T recs t = Returns (e, t')" and "ascending (items t)"
    and "\<forall>r \<in> set (items t). MhDecode L (CidHash L (RdCid r)) = Inr (RdDigest r)"
  shows "ascending (items t') \<and> length (items t') = length (items t) + length recs \<and> e = None \<and>
    (\<forall>r \<in> set (items t'). MhDecode L (CidHash L (RdCid r)) = Inr (RdDigest r))"
  using assms
proof (induction recs arbitrary: t)
  case (Cons c recs)
  from Cons.prems(1) obtain r where r: "newRecordDigest L c = Returns r" "ii_Load L T recs (LInsertNoReplace T r t) = Returns (e, t')"
    by (auto simp: run_bind_Returns_iff)
  have "ascending (items (LInsertNoReplace T r t))"
    using ascending_insert [OF Cons.prems(2), of r] by (simp add: items_insert)
  moreover have "MhDecode L (CidHash L (RdCid r)) = Inr (RdDigest r)"
    using r(1) by (auto simp: newRecordDigest_def split: on_err_splits)
  then have "\<forall>x \<in> set (items (LInsertNoReplace T r t)). MhDecode L (CidHash L (RdCid x)) = Inr (RdDigest x)"
    using Cons.prems(3) by (auto simp: items_insert)
  moreover have "length (items (LInsertNoReplace T r t)) = Suc (length (items t))"
    using sum_length_filter_compl [of "rd_Less r" "items t"] by (simp add: items_insert)
  ultimately show ?case using Cons.IH [OF r(2)] by auto
qed simp

lemma index_read:
  assumes "ii_Load L T recs (LEmpty T) = Returns (e, ii)" and "length recs < 2 ^ 63" and "ii_Marshal T Z C ii = (bs, n, None)"
  shows "\<exists>ii'. ii_Unmarshal L T C (bs @ rest) (LEmpty T) = Returns (None, ii') \<and> items ii' = items ii \<and>
    ascend_all T Z ii = items ii \<and> length (items ii) = length recs"
proof -
  have ii: "ascending (items ii)" "length (items ii) = length recs"
    "\<forall>r \<in> set (items ii). MhDecode L (CidHash L (RdCid r)) = Inr (RdDigest r)"
    using loaded_index [OF assms(1)] by (auto simp: items_empty ascending_def)
  define count :: uint64 where "count = of_nat (length (items ii))"
  have "unat count = length recs" using assms(2) unfolding count_def ii(2) by (intro unat_of_nat_small) simp
  then have count: "nat (int64_of count) = length (items ii)" "unat count < 256 ^ 8"
    using assms(2) ii(2) int64_of_small [of count] by (simp_all add: uint_nat)
  obtain rs where rs: "marshal_records C (items ii) = (rs, None)" "bs = digits 8 (unat count) @ rs"
    using assms(3) by (auto simp: ii_Marshal_def ascend_all_items [OF ii(1)] len count_def split: prod.splits)
  obtain ii' where "unmarshal_loop L T C (length (items ii)) (rs @ rest) (LEmpty T) = Returns (None, ii')" "items ii' = items ii"
    using records_read [OF rs(1), of "LEmpty T" L rest] ii(1,3) by (auto simp: items_empty)
  then have "ii_Unmarshal L T C (bs @ rest) (LEmpty T) = Returns (None, ii')"
    by (simp add: ii_Unmarshal_def io_ReadFull_def rs(2) undigits_digits [OF count(2)] count(1))
  then show ?thesis using \<open>items ii' = items ii\<close> ascend_all_items [OF ii(1)] ii(2) by blast
qed

end


text \<open>An instance over the sorted list.\<close>

definition sample_size :: "recordDigest list llrb_size" where
  "sample_size = \<lparr>LLen = length, LMin = (\<lambda>t. case t of [] \<Rightarrow> None | r # _ \<Rightarrow> Some r)\<rparr>"

definition sample_records :: record_codec where
  "sample_records = \<lparr>RecPut = (\<lambda>(c, off). on_err (sample_bytes MajByteString c) Inl (\<lambda>b. Inr (b @ sample_header MajUnsignedInt off))),
     RecGet = (\<lambda>r. on_err (sample_read_bytes MajByteString r) Inl
       (\<lambda>(c, r'). on_err (sample_read_header r') Inl (\<lambda>((_, off), r''). Inr ((c, off), r''))))\<rparr>"

interpretation sample_index: index_format sample_tree "\<lambda>t. t" sample_size sample_records
proof (intro index_format.intro index_format_axioms.intro)
  show "llrb sample_tree (\<lambda>t. t)" by (rule sample.llrb_axioms)
  fix r :: index_record
  have "codec (sample_bytes MajByteString (fst r)) (sample_read_bytes MajByteString) (fst r)"
    using exact_codec [OF sample_bytes_exact, of MajByteString "fst r"] by simp
  then show "codec (RecPut sample_records r) (RecGet sample_records) r"
    by (auto simp: codec_def sample_records_def sample_header_read split: prod.splits on_err_splits)
qed (simp_all add: sample_size_def)


end
