(* ===== verification/Storage_Codec.thy ===== *)
theory Storage_Codec
  imports Cbor_Sample Storage_Provider_Ops Storage_Client_States
begin

section \<open>How the storage market is stored and sent\<close>

text \<open>
  The codecs of the storage market's records (\<open>storagemarket/types_cbor_gen.go\<close>) and of the messages of
  its protocols (\<open>storagemarket/network/types_cbor_gen.go\<close>). The proposals are of another module and come
  with their codecs, the signed proposal with the one of the old actors too. A long function is given in parts. A state is a number there and a name here: \<open>StatusOf\<close>
  is the name of a number, whatever it is for a number that no constant has.
\<close>

record storage_lib =
  SCbor :: cbor_lib
  ProposalCodec :: "DealProposal wire_codec"
  ClientProposalCodec :: "(DealProposal \<times> string) wire_codec"
  OldClientProposalCodec :: "(DealProposal \<times> string) wire_codec"
  StatusOf :: "uint64 \<Rightarrow> StorageDealStatus"

definition DealProposal_zero :: DealProposal where
  "DealProposal_zero = \<lparr>PieceCID = cid_Undef, PieceSize = 0, VerifiedDeal = False, ProposalClient = address_Undef, Provider = address_Undef, Label = [], StartEpoch = 0, EndEpoch = 0, StoragePricePerEpoch = 0, ProviderCollateral = 0, ClientCollateral = 0\<rparr>"

locale storage_types = cbor_codec "SCbor S" for S :: storage_lib +
  assumes proposals: "exact (ProposalCodec S)" "exact (ClientProposalCodec S)" "exact (OldClientProposalCodec S)"
    and status_named [simp]: "StatusOf S (of_nat (StorageDealStatus_code s)) = s"

subsection \<open>The codecs\<close>

definition Balance_MarshalCBOR :: "storage_lib \<Rightarrow> Balance option \<Rightarrow> written" where
  "Balance_MarshalCBOR S = marshal_map (SCbor S) 162 (\<lambda>t.
     [(''Locked'', CodecPut (BigInt (SCbor S)) (Locked t)),
      (''Available'', CodecPut (BigInt (SCbor S)) (Available t))])"

definition Balance_UnmarshalCBOR :: "storage_lib \<Rightarrow> Balance reader" where
  "Balance_UnmarshalCBOR S = unmarshal_map (SCbor S) ''Balance'' \<lparr>Locked = 0, Available = 0\<rparr> 
     [(''Locked'', set_field (\<lambda>v t. t\<lparr>Locked := v\<rparr>) (get_struct ''Locked'' (CodecGet (BigInt (SCbor S))))),
      (''Available'', set_field (\<lambda>v t. t\<lparr>Available := v\<rparr>) (get_struct ''Available'' (CodecGet (BigInt (SCbor S)))))]"

definition StorageAsk_MarshalCBOR :: "storage_lib \<Rightarrow> StorageAsk option \<Rightarrow> written" where
  "StorageAsk_MarshalCBOR S = marshal_map (SCbor S) 168 (\<lambda>t.
     [(''Miner'', CodecPut (Address (SCbor S)) (AskMiner t)),
      (''Price'', CodecPut (BigInt (SCbor S)) (Price t)),
      (''SeqNo'', put_uint64 (SCbor S) (SeqNo t)),
      (''Expiry'', put_int64 (SCbor S) (Expiry t)),
      (''Timestamp'', put_int64 (SCbor S) (Timestamp t)),
      (''MaxPieceSize'', put_uint64 (SCbor S) (AskMaxPieceSize t)),
      (''MinPieceSize'', put_uint64 (SCbor S) (AskMinPieceSize t)),
      (''VerifiedPrice'', CodecPut (BigInt (SCbor S)) (VerifiedPrice t))])"

definition StorageAsk_UnmarshalCBOR :: "storage_lib \<Rightarrow> StorageAsk reader" where
  "StorageAsk_UnmarshalCBOR S = unmarshal_map (SCbor S) ''StorageAsk'' \<lparr>Price = 0, VerifiedPrice = 0, AskMinPieceSize = 0, AskMaxPieceSize = 0, AskMiner = address_Undef, Timestamp = 0, Expiry = 0, SeqNo = 0\<rparr> 
     [(''Miner'', set_field (\<lambda>v t. t\<lparr>AskMiner := v\<rparr>) (get_struct ''Miner'' (CodecGet (Address (SCbor S))))),
      (''Price'', set_field (\<lambda>v t. t\<lparr>Price := v\<rparr>) (get_struct ''Price'' (CodecGet (BigInt (SCbor S))))),
      (''SeqNo'', set_field (\<lambda>v t. t\<lparr>SeqNo := v\<rparr>) (get_uint64 (SCbor S))),
      (''Expiry'', set_field (\<lambda>v t. t\<lparr>Expiry := v\<rparr>) (get_int64 (SCbor S))),
      (''Timestamp'', set_field (\<lambda>v t. t\<lparr>Timestamp := v\<rparr>) (get_int64 (SCbor S))),
      (''MaxPieceSize'', set_field (\<lambda>v t. t\<lparr>AskMaxPieceSize := v\<rparr>) (get_uint64 (SCbor S))),
      (''MinPieceSize'', set_field (\<lambda>v t. t\<lparr>AskMinPieceSize := v\<rparr>) (get_uint64 (SCbor S))),
      (''VerifiedPrice'', set_field (\<lambda>v t. t\<lparr>VerifiedPrice := v\<rparr>) (get_struct ''VerifiedPrice'' (CodecGet (BigInt (SCbor S)))))]"

definition StorageAsk_storable :: "StorageAsk \<Rightarrow> bool" where
  "StorageAsk_storable t \<longleftrightarrow> int64_range (Expiry t) \<and> int64_range (Timestamp t)"

definition SignedStorageAsk_MarshalCBOR :: "storage_lib \<Rightarrow> SignedStorageAsk option \<Rightarrow> written" where
  "SignedStorageAsk_MarshalCBOR S = marshal_map (SCbor S) 162 (\<lambda>t.
     [(''Ask'', StorageAsk_MarshalCBOR S (Ask t)),
      (''Signature'', put_ptr (CodecPut (SignatureCodec (SCbor S))) (Signature t))])"

definition SignedStorageAsk_UnmarshalCBOR :: "storage_lib \<Rightarrow> SignedStorageAsk reader" where
  "SignedStorageAsk_UnmarshalCBOR S = unmarshal_map (SCbor S) ''SignedStorageAsk'' \<lparr>Ask = None, Signature = None\<rparr> 
     [(''Ask'', set_ptr (\<lambda>v t. t\<lparr>Ask := v\<rparr>) (get_ptr ''Ask'' (StorageAsk_UnmarshalCBOR S))),
      (''Signature'', set_ptr (\<lambda>v t. t\<lparr>Signature := v\<rparr>) (get_ptr ''Signature'' (CodecGet (SignatureCodec (SCbor S)))))]"

definition SignedStorageAsk_storable :: "SignedStorageAsk \<Rightarrow> bool" where
  "SignedStorageAsk_storable t \<longleftrightarrow> (\<forall>v. (Ask t) = Some v \<longrightarrow> StorageAsk_storable v)"

definition DataRef_MarshalCBOR :: "storage_lib \<Rightarrow> DataRef option \<Rightarrow> written" where
  "DataRef_MarshalCBOR S = marshal_map (SCbor S) 165 (\<lambda>t.
     [(''Root'', put_cid (SCbor S) ''Root'' (Root t)),
      (''PieceCid'', put_ptr (put_cid (SCbor S) ''PieceCid'') (PieceCid t)),
      (''PieceSize'', put_uint64 (SCbor S) (RefPieceSize t)),
      (''RawBlockSize'', put_uint64 (SCbor S) (RawBlockSize t)),
      (''TransferType'', put_string (SCbor S) ''TransferType'' (TransferType t))])"

definition DataRef_UnmarshalCBOR :: "storage_lib \<Rightarrow> DataRef reader" where
  "DataRef_UnmarshalCBOR S = unmarshal_map (SCbor S) ''DataRef'' \<lparr>TransferType = [], Root = cid_Undef, PieceCid = None, RefPieceSize = 0, RawBlockSize = 0\<rparr> 
     [(''Root'', set_field (\<lambda>v t. t\<lparr>Root := v\<rparr>) (get_cid (SCbor S) ''Root'')),
      (''PieceCid'', set_ptr (\<lambda>v t. t\<lparr>PieceCid := v\<rparr>) (get_cid (SCbor S) ''PieceCid'')),
      (''PieceSize'', set_field (\<lambda>v t. t\<lparr>RefPieceSize := v\<rparr>) (get_uint64 (SCbor S))),
      (''RawBlockSize'', set_field (\<lambda>v t. t\<lparr>RawBlockSize := v\<rparr>) (get_uint64 (SCbor S))),
      (''TransferType'', set_field (\<lambda>v t. t\<lparr>TransferType := v\<rparr>) (get_string (SCbor S)))]"

definition Log_MarshalCBOR :: "storage_lib \<Rightarrow> Log option \<Rightarrow> written" where
  "Log_MarshalCBOR S = marshal_map (SCbor S) 162 (\<lambda>t.
     [(''Log'', put_string (SCbor S) ''Log'' (LogMsg t)),
      (''UpdatedTime'', CodecPut (CborTime (SCbor S)) (LogUpdatedTime t))])"

definition Log_UnmarshalCBOR :: "storage_lib \<Rightarrow> Log reader" where
  "Log_UnmarshalCBOR S = unmarshal_map (SCbor S) ''Log'' \<lparr>LogMsg = [], LogUpdatedTime = 0\<rparr> 
     [(''Log'', set_field (\<lambda>v t. t\<lparr>LogMsg := v\<rparr>) (get_string (SCbor S))),
      (''UpdatedTime'', set_field (\<lambda>v t. t\<lparr>LogUpdatedTime := v\<rparr>) (get_struct ''UpdatedTime'' (CodecGet (CborTime (SCbor S)))))]"

definition DealStage_MarshalCBOR :: "storage_lib \<Rightarrow> DealStage option \<Rightarrow> written" where
  "DealStage_MarshalCBOR S = marshal_map (SCbor S) 166 (\<lambda>t.
     [(''Logs'', put_slice (SCbor S) ''Logs'' (\<lambda>v. Log_MarshalCBOR S (Some v)) (Logs t)),
      (''Name'', put_string (SCbor S) ''Name'' (StageName t)),
      (''CreatedTime'', CodecPut (CborTime (SCbor S)) (CreatedTime t)),
      (''Description'', put_string (SCbor S) ''Description'' (Description t)),
      (''UpdatedTime'', CodecPut (CborTime (SCbor S)) (StageUpdatedTime t)),
      (''ExpectedDuration'', put_string (SCbor S) ''ExpectedDuration'' (ExpectedDuration t))])"

definition DealStage_UnmarshalCBOR :: "storage_lib \<Rightarrow> DealStage reader" where
  "DealStage_UnmarshalCBOR S = unmarshal_map (SCbor S) ''DealStage'' \<lparr>StageName = [], Description = [], ExpectedDuration = [], CreatedTime = 0, StageUpdatedTime = 0, Logs = []\<rparr> 
     [(''Logs'', set_slice (SCbor S) ''Logs'' (\<lambda>v t. t\<lparr>Logs := v\<rparr>) (Log_UnmarshalCBOR S)),
      (''Name'', set_field (\<lambda>v t. t\<lparr>StageName := v\<rparr>) (get_string (SCbor S))),
      (''CreatedTime'', set_field (\<lambda>v t. t\<lparr>CreatedTime := v\<rparr>) (get_struct ''CreatedTime'' (CodecGet (CborTime (SCbor S))))),
      (''Description'', set_field (\<lambda>v t. t\<lparr>Description := v\<rparr>) (get_string (SCbor S))),
      (''UpdatedTime'', set_field (\<lambda>v t. t\<lparr>StageUpdatedTime := v\<rparr>) (get_struct ''UpdatedTime'' (CodecGet (CborTime (SCbor S))))),
      (''ExpectedDuration'', set_field (\<lambda>v t. t\<lparr>ExpectedDuration := v\<rparr>) (get_string (SCbor S)))]"

definition DealStages_MarshalCBOR :: "storage_lib \<Rightarrow> DealStages option \<Rightarrow> written" where
  "DealStages_MarshalCBOR S = marshal_map (SCbor S) 161 (\<lambda>t.
     [(''Stages'', put_slice (SCbor S) ''Stages'' (\<lambda>v. DealStage_MarshalCBOR S (Some v)) t)])"

definition DealStages_UnmarshalCBOR :: "storage_lib \<Rightarrow> DealStages reader" where
  "DealStages_UnmarshalCBOR S = unmarshal_map (SCbor S) ''DealStages'' [] 
     [(''Stages'', set_slice (SCbor S) ''Stages'' (\<lambda>v t. v) (DealStage_UnmarshalCBOR S))]"

definition ProviderDealState_writes_1 :: "storage_lib \<Rightarrow> ProviderDealState \<Rightarrow> (string \<times> written) list" where
  "ProviderDealState_writes_1 S t =
     [(''State'', put_uint64 (SCbor S) (of_nat (StorageDealStatus_code (PDState t)))),
      (''DealID'', put_uint64 (SCbor S) (PDDealID t)),
      (''Message'', put_string (SCbor S) ''Message'' (PDMessage t)),
      (''Proposal'', put_ptr (CodecPut (ProposalCodec S)) (PDProposal t)),
      (''PublishCid'', put_ptr (put_cid (SCbor S) ''PublishCid'') (PDPublishCid t)),
      (''AddFundsCid'', put_ptr (put_cid (SCbor S) ''AddFundsCid'') (PDAddFundsCid t)),
      (''ProposalCid'', put_ptr (put_cid (SCbor S) ''ProposalCid'') (PDProposalCid t))]"

definition ProviderDealState_writes_2 :: "storage_lib \<Rightarrow> ProviderDealState \<Rightarrow> (string \<times> written) list" where
  "ProviderDealState_writes_2 S t =
     [(''FastRetrieval'', put_bool (SCbor S) (PDFastRetrieval t))]"

definition ProviderDealState_MarshalCBOR :: "storage_lib \<Rightarrow> ProviderDealState option \<Rightarrow> written" where
  "ProviderDealState_MarshalCBOR S = marshal_map (SCbor S) 168 (\<lambda>t. ProviderDealState_writes_1 S t @ ProviderDealState_writes_2 S t)"

definition ProviderDealState_reads_1 :: "storage_lib \<Rightarrow> (string \<times> (ProviderDealState \<Rightarrow> ProviderDealState reader)) list" where
  "ProviderDealState_reads_1 S =
     [(''State'', set_field (\<lambda>v t. t\<lparr>PDState := v\<rparr>) (get_enum (StatusOf S) (SCbor S))),
      (''DealID'', set_field (\<lambda>v t. t\<lparr>PDDealID := v\<rparr>) (get_uint64 (SCbor S))),
      (''Message'', set_field (\<lambda>v t. t\<lparr>PDMessage := v\<rparr>) (get_string (SCbor S))),
      (''Proposal'', set_ptr (\<lambda>v t. t\<lparr>PDProposal := v\<rparr>) (get_ptr ''Proposal'' (CodecGet (ProposalCodec S)))),
      (''PublishCid'', set_ptr (\<lambda>v t. t\<lparr>PDPublishCid := v\<rparr>) (get_cid (SCbor S) ''PublishCid'')),
      (''AddFundsCid'', set_ptr (\<lambda>v t. t\<lparr>PDAddFundsCid := v\<rparr>) (get_cid (SCbor S) ''AddFundsCid'')),
      (''ProposalCid'', set_ptr (\<lambda>v t. t\<lparr>PDProposalCid := v\<rparr>) (get_cid (SCbor S) ''ProposalCid''))]"

definition ProviderDealState_reads_2 :: "storage_lib \<Rightarrow> (string \<times> (ProviderDealState \<Rightarrow> ProviderDealState reader)) list" where
  "ProviderDealState_reads_2 S =
     [(''FastRetrieval'', set_field (\<lambda>v t. t\<lparr>PDFastRetrieval := v\<rparr>) (get_bool (SCbor S)))]"

definition ProviderDealState_UnmarshalCBOR :: "storage_lib \<Rightarrow> ProviderDealState reader" where
  "ProviderDealState_UnmarshalCBOR S = unmarshal_map (SCbor S) ''ProviderDealState'' \<lparr>PDState = StorageDealUnknown, PDMessage = [], PDProposal = None, PDProposalCid = None, PDAddFundsCid = None, PDPublishCid = None, PDDealID = 0, PDFastRetrieval = False\<rparr> (ProviderDealState_reads_1 S @ ProviderDealState_reads_2 S)"

definition MinerDeal_writes_1 :: "storage_lib \<Rightarrow> MinerDeal \<Rightarrow> (string \<times> written) list" where
  "MinerDeal_writes_1 S t =
     [(''Ref'', DataRef_MarshalCBOR S (MinerDeal.Ref t)),
      (''Miner'', put_string (SCbor S) ''Miner'' (MinerDeal.Miner t)),
      (''State'', put_uint64 (SCbor S) (of_nat (StorageDealStatus_code (MinerDeal.State t)))),
      (''Client'', put_string (SCbor S) ''Client'' (MinerDeal.Client t)),
      (''DealID'', put_uint64 (SCbor S) (MinerDeal.DealID t)),
      (''Message'', put_string (SCbor S) ''Message'' (MinerDeal.Message t)),
      (''PiecePath'', put_string (SCbor S) ''PiecePath'' (MinerDeal.PiecePath t))]"

definition MinerDeal_writes_2 :: "storage_lib \<Rightarrow> MinerDeal \<Rightarrow> (string \<times> written) list" where
  "MinerDeal_writes_2 S t =
     [(''InboundCAR'', put_string (SCbor S) ''InboundCAR'' (MinerDeal.InboundCAR t)),
      (''PublishCid'', put_ptr (put_cid (SCbor S) ''PublishCid'') (MinerDeal.PublishCid t)),
      (''SlashEpoch'', put_int64 (SCbor S) (MinerDeal.SlashEpoch t)),
      (''AddFundsCid'', put_ptr (put_cid (SCbor S) ''AddFundsCid'') (MinerDeal.AddFundsCid t)),
      (''ProposalCid'', put_cid (SCbor S) ''ProposalCid'' (MinerDeal.ProposalCid t)),
      (''CreationTime'', CodecPut (CborTime (SCbor S)) (MinerDeal.CreationTime t)),
      (''MetadataPath'', put_string (SCbor S) ''MetadataPath'' (MinerDeal.MetadataPath t))]"

definition MinerDeal_writes_3 :: "storage_lib \<Rightarrow> MinerDeal \<Rightarrow> (string \<times> written) list" where
  "MinerDeal_writes_3 S t =
     [(''SectorNumber'', put_uint64 (SCbor S) (MinerDeal.SectorNumber t)),
      (''FastRetrieval'', put_bool (SCbor S) (MinerDeal.FastRetrieval t)),
      (''FundsReserved'', put_big (SCbor S) (MinerDeal.FundsReserved t)),
      (''TransferChannelId'', put_ptr (CodecPut (ChannelCodec (SCbor S))) (MinerDeal.TransferChannelId t)),
      (''ClientDealProposal'', CodecPut (ClientProposalCodec S) (MinerDeal.Proposal t, MinerDeal.ClientSignature t)),
      (''AvailableForRetrieval'', put_bool (SCbor S) (MinerDeal.AvailableForRetrieval t))]"

definition MinerDeal_MarshalCBOR :: "storage_lib \<Rightarrow> MinerDeal option \<Rightarrow> written" where
  "MinerDeal_MarshalCBOR S = marshal_map (SCbor S) 180 (\<lambda>t. MinerDeal_writes_1 S t @ MinerDeal_writes_2 S t @ MinerDeal_writes_3 S t)"

definition MinerDeal_reads_1 :: "storage_lib \<Rightarrow> (string \<times> (MinerDeal \<Rightarrow> MinerDeal reader)) list" where
  "MinerDeal_reads_1 S =
     [(''Ref'', set_ptr (\<lambda>v t. t\<lparr>MinerDeal.Ref := v\<rparr>) (get_ptr ''Ref'' (DataRef_UnmarshalCBOR S))),
      (''Miner'', set_field (\<lambda>v t. t\<lparr>MinerDeal.Miner := v\<rparr>) (get_string (SCbor S))),
      (''State'', set_field (\<lambda>v t. t\<lparr>MinerDeal.State := v\<rparr>) (get_enum (StatusOf S) (SCbor S))),
      (''Client'', set_field (\<lambda>v t. t\<lparr>MinerDeal.Client := v\<rparr>) (get_string (SCbor S))),
      (''DealID'', set_field (\<lambda>v t. t\<lparr>MinerDeal.DealID := v\<rparr>) (get_uint64 (SCbor S))),
      (''Message'', set_field (\<lambda>v t. t\<lparr>MinerDeal.Message := v\<rparr>) (get_string (SCbor S))),
      (''PiecePath'', set_field (\<lambda>v t. t\<lparr>MinerDeal.PiecePath := v\<rparr>) (get_string (SCbor S))),
      (''InboundCAR'', set_field (\<lambda>v t. t\<lparr>MinerDeal.InboundCAR := v\<rparr>) (get_string (SCbor S))),
      (''PublishCid'', set_ptr (\<lambda>v t. t\<lparr>MinerDeal.PublishCid := v\<rparr>) (get_cid (SCbor S) ''PublishCid''))]"

definition MinerDeal_reads_2 :: "storage_lib \<Rightarrow> (string \<times> (MinerDeal \<Rightarrow> MinerDeal reader)) list" where
  "MinerDeal_reads_2 S =
     [(''SlashEpoch'', set_field (\<lambda>v t. t\<lparr>MinerDeal.SlashEpoch := v\<rparr>) (get_int64 (SCbor S))),
      (''AddFundsCid'', set_ptr (\<lambda>v t. t\<lparr>MinerDeal.AddFundsCid := v\<rparr>) (get_cid (SCbor S) ''AddFundsCid'')),
      (''ProposalCid'', set_field (\<lambda>v t. t\<lparr>MinerDeal.ProposalCid := v\<rparr>) (get_cid (SCbor S) ''ProposalCid'')),
      (''CreationTime'', set_field (\<lambda>v t. t\<lparr>MinerDeal.CreationTime := v\<rparr>) (get_struct ''CreationTime'' (CodecGet (CborTime (SCbor S))))),
      (''MetadataPath'', set_field (\<lambda>v t. t\<lparr>MinerDeal.MetadataPath := v\<rparr>) (get_string (SCbor S))),
      (''SectorNumber'', set_field (\<lambda>v t. t\<lparr>MinerDeal.SectorNumber := v\<rparr>) (get_uint64 (SCbor S))),
      (''FastRetrieval'', set_field (\<lambda>v t. t\<lparr>MinerDeal.FastRetrieval := v\<rparr>) (get_bool (SCbor S))),
      (''FundsReserved'', set_field (\<lambda>v t. t\<lparr>MinerDeal.FundsReserved := v\<rparr>) (get_struct ''FundsReserved'' (get_big (SCbor S)))),
      (''TransferChannelId'', set_ptr (\<lambda>v t. t\<lparr>MinerDeal.TransferChannelId := v\<rparr>) (get_ptr ''TransferChannelId'' (CodecGet (ChannelCodec (SCbor S)))))]"

definition MinerDeal_reads_3 :: "storage_lib \<Rightarrow> (string \<times> (MinerDeal \<Rightarrow> MinerDeal reader)) list" where
  "MinerDeal_reads_3 S =
     [(''ClientDealProposal'', set_field (\<lambda>v t. t\<lparr>MinerDeal.Proposal := fst v, MinerDeal.ClientSignature := snd v\<rparr>) (get_struct ''ClientDealProposal'' (CodecGet (ClientProposalCodec S)))),
      (''AvailableForRetrieval'', set_field (\<lambda>v t. t\<lparr>MinerDeal.AvailableForRetrieval := v\<rparr>) (get_bool (SCbor S)))]"

definition MinerDeal_UnmarshalCBOR :: "storage_lib \<Rightarrow> MinerDeal reader" where
  "MinerDeal_UnmarshalCBOR S = unmarshal_map (SCbor S) ''MinerDeal'' \<lparr>MinerDeal.Proposal = DealProposal_zero, MinerDeal.ClientSignature = [], MinerDeal.ProposalCid = [], MinerDeal.AddFundsCid = None, MinerDeal.PublishCid = None, MinerDeal.Miner = [], MinerDeal.Client = [], MinerDeal.State = StorageDealUnknown, MinerDeal.PiecePath = [], MinerDeal.MetadataPath = [], MinerDeal.SlashEpoch = 0, MinerDeal.FastRetrieval = False, MinerDeal.Message = [], MinerDeal.FundsReserved = None, MinerDeal.Ref = None, MinerDeal.AvailableForRetrieval = False, MinerDeal.DealID = 0, MinerDeal.CreationTime = 0, MinerDeal.TransferChannelId = None, MinerDeal.SectorNumber = 0, MinerDeal.InboundCAR = []\<rparr> (MinerDeal_reads_1 S @ MinerDeal_reads_2 S @ MinerDeal_reads_3 S)"

definition MinerDeal_storable :: "MinerDeal \<Rightarrow> bool" where
  "MinerDeal_storable t \<longleftrightarrow> int64_range (MinerDeal.SlashEpoch t) \<and> (MinerDeal.FundsReserved t) \<noteq> None"

definition ClientDeal_writes_1 :: "storage_lib \<Rightarrow> ClientDeal \<Rightarrow> (string \<times> written) list" where
  "ClientDeal_writes_1 S t =
     [(''Miner'', put_string (SCbor S) ''Miner'' (ClientDeal.Miner t)),
      (''State'', put_uint64 (SCbor S) (of_nat (StorageDealStatus_code (ClientDeal.State t)))),
      (''DealID'', put_uint64 (SCbor S) (ClientDeal.DealID t)),
      (''DataRef'', DataRef_MarshalCBOR S (ClientDeal.DataRefOf t)),
      (''Message'', put_string (SCbor S) ''Message'' (ClientDeal.Message t)),
      (''DealStages'', DealStages_MarshalCBOR S (ClientDeal.DealStagesOf t)),
      (''SlashEpoch'', put_int64 (SCbor S) (ClientDeal.SlashEpoch t))]"

definition ClientDeal_writes_2 :: "storage_lib \<Rightarrow> ClientDeal \<Rightarrow> (string \<times> written) list" where
  "ClientDeal_writes_2 S t =
     [(''AddFundsCid'', put_ptr (put_cid (SCbor S) ''AddFundsCid'') (ClientDeal.AddFundsCid t)),
      (''MinerWorker'', CodecPut (Address (SCbor S)) (ClientDeal.MinerWorker t)),
      (''ProposalCid'', put_cid (SCbor S) ''ProposalCid'' (ClientDeal.ProposalCid t)),
      (''CreationTime'', CodecPut (CborTime (SCbor S)) (ClientDeal.CreationTime t)),
      (''SectorNumber'', put_uint64 (SCbor S) (ClientDeal.SectorNumber t)),
      (''FastRetrieval'', put_bool (SCbor S) (ClientDeal.FastRetrieval t)),
      (''FundsReserved'', put_big (SCbor S) (ClientDeal.FundsReserved t)),
      (''PollErrorCount'', put_uint64 (SCbor S) (ClientDeal.PollErrorCount t)),
      (''PollRetryCount'', put_uint64 (SCbor S) (ClientDeal.PollRetryCount t))]"

definition ClientDeal_writes_3 :: "storage_lib \<Rightarrow> ClientDeal \<Rightarrow> (string \<times> written) list" where
  "ClientDeal_writes_3 S t =
     [(''PublishMessage'', put_ptr (put_cid (SCbor S) ''PublishMessage'') (ClientDeal.PublishMessage t)),
      (''TransferChannelID'', put_ptr (CodecPut (ChannelCodec (SCbor S))) (ClientDeal.TransferChannelID t)),
      (''ClientDealProposal'', CodecPut (ClientProposalCodec S) (ClientDeal.Proposal t, ClientDeal.ClientSignature t))]"

definition ClientDeal_MarshalCBOR :: "storage_lib \<Rightarrow> ClientDeal option \<Rightarrow> written" where
  "ClientDeal_MarshalCBOR S = marshal_map (SCbor S) 179 (\<lambda>t. ClientDeal_writes_1 S t @ ClientDeal_writes_2 S t @ ClientDeal_writes_3 S t)"

definition ClientDeal_reads_1 :: "storage_lib \<Rightarrow> (string \<times> (ClientDeal \<Rightarrow> ClientDeal reader)) list" where
  "ClientDeal_reads_1 S =
     [(''Miner'', set_field (\<lambda>v t. t\<lparr>ClientDeal.Miner := v\<rparr>) (get_string (SCbor S))),
      (''State'', set_field (\<lambda>v t. t\<lparr>ClientDeal.State := v\<rparr>) (get_enum (StatusOf S) (SCbor S))),
      (''DealID'', set_field (\<lambda>v t. t\<lparr>ClientDeal.DealID := v\<rparr>) (get_uint64 (SCbor S))),
      (''DataRef'', set_ptr (\<lambda>v t. t\<lparr>ClientDeal.DataRefOf := v\<rparr>) (get_ptr ''DataRef'' (DataRef_UnmarshalCBOR S))),
      (''Message'', set_field (\<lambda>v t. t\<lparr>ClientDeal.Message := v\<rparr>) (get_string (SCbor S))),
      (''DealStages'', set_ptr (\<lambda>v t. t\<lparr>ClientDeal.DealStagesOf := v\<rparr>) (get_ptr ''DealStages'' (DealStages_UnmarshalCBOR S))),
      (''SlashEpoch'', set_field (\<lambda>v t. t\<lparr>ClientDeal.SlashEpoch := v\<rparr>) (get_int64 (SCbor S))),
      (''AddFundsCid'', set_ptr (\<lambda>v t. t\<lparr>ClientDeal.AddFundsCid := v\<rparr>) (get_cid (SCbor S) ''AddFundsCid''))]"

definition ClientDeal_reads_2 :: "storage_lib \<Rightarrow> (string \<times> (ClientDeal \<Rightarrow> ClientDeal reader)) list" where
  "ClientDeal_reads_2 S =
     [(''MinerWorker'', set_field (\<lambda>v t. t\<lparr>ClientDeal.MinerWorker := v\<rparr>) (get_struct ''MinerWorker'' (CodecGet (Address (SCbor S))))),
      (''ProposalCid'', set_field (\<lambda>v t. t\<lparr>ClientDeal.ProposalCid := v\<rparr>) (get_cid (SCbor S) ''ProposalCid'')),
      (''CreationTime'', set_field (\<lambda>v t. t\<lparr>ClientDeal.CreationTime := v\<rparr>) (get_struct ''CreationTime'' (CodecGet (CborTime (SCbor S))))),
      (''SectorNumber'', set_field (\<lambda>v t. t\<lparr>ClientDeal.SectorNumber := v\<rparr>) (get_uint64 (SCbor S))),
      (''FastRetrieval'', set_field (\<lambda>v t. t\<lparr>ClientDeal.FastRetrieval := v\<rparr>) (get_bool (SCbor S))),
      (''FundsReserved'', set_field (\<lambda>v t. t\<lparr>ClientDeal.FundsReserved := v\<rparr>) (get_struct ''FundsReserved'' (get_big (SCbor S)))),
      (''PollErrorCount'', set_field (\<lambda>v t. t\<lparr>ClientDeal.PollErrorCount := v\<rparr>) (get_uint64 (SCbor S))),
      (''PollRetryCount'', set_field (\<lambda>v t. t\<lparr>ClientDeal.PollRetryCount := v\<rparr>) (get_uint64 (SCbor S))),
      (''PublishMessage'', set_ptr (\<lambda>v t. t\<lparr>ClientDeal.PublishMessage := v\<rparr>) (get_cid (SCbor S) ''PublishMessage'')),
      (''TransferChannelID'', set_ptr (\<lambda>v t. t\<lparr>ClientDeal.TransferChannelID := v\<rparr>) (get_ptr ''TransferChannelID'' (CodecGet (ChannelCodec (SCbor S)))))]"

definition ClientDeal_reads_3 :: "storage_lib \<Rightarrow> (string \<times> (ClientDeal \<Rightarrow> ClientDeal reader)) list" where
  "ClientDeal_reads_3 S =
     [(''ClientDealProposal'', set_field (\<lambda>v t. t\<lparr>ClientDeal.Proposal := fst v, ClientDeal.ClientSignature := snd v\<rparr>) (get_struct ''ClientDealProposal'' (CodecGet (ClientProposalCodec S))))]"

definition ClientDeal_UnmarshalCBOR :: "storage_lib \<Rightarrow> ClientDeal reader" where
  "ClientDeal_UnmarshalCBOR S = unmarshal_map (SCbor S) ''ClientDeal'' \<lparr>ClientDeal.Proposal = DealProposal_zero, ClientDeal.ClientSignature = [], ClientDeal.ProposalCid = [], ClientDeal.AddFundsCid = None, ClientDeal.State = StorageDealUnknown, ClientDeal.Miner = [], ClientDeal.MinerWorker = [], ClientDeal.DealID = 0, ClientDeal.DataRefOf = None, ClientDeal.Message = [], ClientDeal.DealStagesOf = None, ClientDeal.PublishMessage = None, ClientDeal.SlashEpoch = 0, ClientDeal.PollRetryCount = 0, ClientDeal.PollErrorCount = 0, ClientDeal.FastRetrieval = False, ClientDeal.FundsReserved = None, ClientDeal.CreationTime = 0, ClientDeal.TransferChannelID = None, ClientDeal.SectorNumber = 0\<rparr> (ClientDeal_reads_1 S @ ClientDeal_reads_2 S @ ClientDeal_reads_3 S)"

definition ClientDeal_storable :: "ClientDeal \<Rightarrow> bool" where
  "ClientDeal_storable t \<longleftrightarrow> int64_range (ClientDeal.SlashEpoch t) \<and> (ClientDeal.FundsReserved t) \<noteq> None"

definition AskRequest_MarshalCBOR :: "storage_lib \<Rightarrow> address option \<Rightarrow> written" where
  "AskRequest_MarshalCBOR S = marshal_map (SCbor S) 161 (\<lambda>t.
     [(''Miner'', CodecPut (Address (SCbor S)) t)])"

definition AskRequest_UnmarshalCBOR :: "storage_lib \<Rightarrow> address reader" where
  "AskRequest_UnmarshalCBOR S = unmarshal_map (SCbor S) ''AskRequest'' address_Undef 
     [(''Miner'', set_field (\<lambda>v t. v) (get_struct ''Miner'' (CodecGet (Address (SCbor S)))))]"

definition AskResponse_MarshalCBOR :: "storage_lib \<Rightarrow> SignedStorageAsk option option \<Rightarrow> written" where
  "AskResponse_MarshalCBOR S = marshal_map (SCbor S) 161 (\<lambda>t.
     [(''Ask'', SignedStorageAsk_MarshalCBOR S t)])"

definition AskResponse_UnmarshalCBOR :: "storage_lib \<Rightarrow> SignedStorageAsk option reader" where
  "AskResponse_UnmarshalCBOR S = unmarshal_map (SCbor S) ''AskResponse'' None 
     [(''Ask'', set_ptr (\<lambda>v t. v) (get_ptr ''Ask'' (SignedStorageAsk_UnmarshalCBOR S)))]"

definition AskResponse_storable :: "SignedStorageAsk option \<Rightarrow> bool" where
  "AskResponse_storable t \<longleftrightarrow> (\<forall>v. t = Some v \<longrightarrow> SignedStorageAsk_storable v)"

definition Proposal_MarshalCBOR :: "storage_lib \<Rightarrow> ProposalMsg option \<Rightarrow> written" where
  "Proposal_MarshalCBOR S = marshal_map (SCbor S) 163 (\<lambda>t.
     [(''Piece'', DataRef_MarshalCBOR S (MsgPiece t)),
      (''DealProposal'', put_ptr (CodecPut (ClientProposalCodec S)) (MsgDealProposal t)),
      (''FastRetrieval'', put_bool (SCbor S) (MsgFastRetrieval t))])"

definition Proposal_UnmarshalCBOR :: "storage_lib \<Rightarrow> ProposalMsg reader" where
  "Proposal_UnmarshalCBOR S = unmarshal_map (SCbor S) ''Proposal'' \<lparr>MsgDealProposal = None, MsgPiece = None, MsgFastRetrieval = False\<rparr> 
     [(''Piece'', set_ptr (\<lambda>v t. t\<lparr>MsgPiece := v\<rparr>) (get_ptr ''Piece'' (DataRef_UnmarshalCBOR S))),
      (''DealProposal'', set_ptr (\<lambda>v t. t\<lparr>MsgDealProposal := v\<rparr>) (get_ptr ''DealProposal'' (CodecGet (ClientProposalCodec S)))),
      (''FastRetrieval'', set_field (\<lambda>v t. t\<lparr>MsgFastRetrieval := v\<rparr>) (get_bool (SCbor S)))]"

definition Response_MarshalCBOR :: "storage_lib \<Rightarrow> Response option \<Rightarrow> written" where
  "Response_MarshalCBOR S = marshal_map (SCbor S) 164 (\<lambda>t.
     [(''State'', put_uint64 (SCbor S) (of_nat (StorageDealStatus_code (RespState t)))),
      (''Message'', put_string (SCbor S) ''Message'' (RespMessage t)),
      (''Proposal'', put_cid (SCbor S) ''Proposal'' (RespProposal t)),
      (''PublishMessage'', put_ptr (put_cid (SCbor S) ''PublishMessage'') (RespPublishMessage t))])"

definition Response_UnmarshalCBOR :: "storage_lib \<Rightarrow> Response reader" where
  "Response_UnmarshalCBOR S = unmarshal_map (SCbor S) ''Response'' \<lparr>RespState = StorageDealUnknown, RespMessage = [], RespProposal = cid_Undef, RespPublishMessage = None\<rparr> 
     [(''State'', set_field (\<lambda>v t. t\<lparr>RespState := v\<rparr>) (get_enum (StatusOf S) (SCbor S))),
      (''Message'', set_field (\<lambda>v t. t\<lparr>RespMessage := v\<rparr>) (get_string (SCbor S))),
      (''Proposal'', set_field (\<lambda>v t. t\<lparr>RespProposal := v\<rparr>) (get_cid (SCbor S) ''Proposal'')),
      (''PublishMessage'', set_ptr (\<lambda>v t. t\<lparr>RespPublishMessage := v\<rparr>) (get_cid (SCbor S) ''PublishMessage''))]"

definition SignedResponse_MarshalCBOR :: "storage_lib \<Rightarrow> SignedResponse option \<Rightarrow> written" where
  "SignedResponse_MarshalCBOR S = marshal_map (SCbor S) 162 (\<lambda>t.
     [(''Response'', Response_MarshalCBOR S (Some (ResponseOf t))),
      (''Signature'', put_ptr (CodecPut (SignatureCodec (SCbor S))) (RespSignature t))])"

definition SignedResponse_UnmarshalCBOR :: "storage_lib \<Rightarrow> SignedResponse reader" where
  "SignedResponse_UnmarshalCBOR S = unmarshal_map (SCbor S) ''SignedResponse'' \<lparr>ResponseOf = \<lparr>RespState = StorageDealUnknown, RespMessage = [], RespProposal = cid_Undef, RespPublishMessage = None\<rparr>, RespSignature = None\<rparr> 
     [(''Response'', set_field (\<lambda>v t. t\<lparr>ResponseOf := v\<rparr>) (get_struct ''Response'' (Response_UnmarshalCBOR S))),
      (''Signature'', set_ptr (\<lambda>v t. t\<lparr>RespSignature := v\<rparr>) (get_ptr ''Signature'' (CodecGet (SignatureCodec (SCbor S)))))]"

definition DealStatusRequest_MarshalCBOR :: "storage_lib \<Rightarrow> DealStatusRequest option \<Rightarrow> written" where
  "DealStatusRequest_MarshalCBOR S = marshal_map (SCbor S) 162 (\<lambda>t.
     [(''Proposal'', put_cid (SCbor S) ''Proposal'' (ReqProposal t)),
      (''Signature'', CodecPut (SignatureCodec (SCbor S)) (ReqSignature t))])"

definition DealStatusRequest_UnmarshalCBOR :: "storage_lib \<Rightarrow> DealStatusRequest reader" where
  "DealStatusRequest_UnmarshalCBOR S = unmarshal_map (SCbor S) ''DealStatusRequest'' \<lparr>ReqProposal = cid_Undef, ReqSignature = []\<rparr> 
     [(''Proposal'', set_field (\<lambda>v t. t\<lparr>ReqProposal := v\<rparr>) (get_cid (SCbor S) ''Proposal'')),
      (''Signature'', set_field (\<lambda>v t. t\<lparr>ReqSignature := v\<rparr>) (get_struct ''Signature'' (CodecGet (SignatureCodec (SCbor S)))))]"

definition DealStatusResponse_MarshalCBOR :: "storage_lib \<Rightarrow> DealStatusResponse option \<Rightarrow> written" where
  "DealStatusResponse_MarshalCBOR S = marshal_map (SCbor S) 162 (\<lambda>t.
     [(''DealState'', ProviderDealState_MarshalCBOR S (Some (DealStateOf t))),
      (''Signature'', CodecPut (SignatureCodec (SCbor S)) (StatusSignature t))])"

definition DealStatusResponse_UnmarshalCBOR :: "storage_lib \<Rightarrow> DealStatusResponse reader" where
  "DealStatusResponse_UnmarshalCBOR S = unmarshal_map (SCbor S) ''DealStatusResponse'' \<lparr>DealStateOf = \<lparr>PDState = StorageDealUnknown, PDMessage = [], PDProposal = None, PDProposalCid = None, PDAddFundsCid = None, PDPublishCid = None, PDDealID = 0, PDFastRetrieval = False\<rparr>, StatusSignature = []\<rparr> 
     [(''DealState'', set_field (\<lambda>v t. t\<lparr>DealStateOf := v\<rparr>) (get_struct ''DealState'' (ProviderDealState_UnmarshalCBOR S))),
      (''Signature'', set_field (\<lambda>v t. t\<lparr>StatusSignature := v\<rparr>) (get_struct ''Signature'' (CodecGet (SignatureCodec (SCbor S)))))]"

subsection \<open>What is written is read back\<close>

text \<open>\<open>storable\<close> says what the encoding of a record does not keep: an epoch beyond 64 bits, and an amount that is
  nil, which becomes zero.\<close>

context storage_types
begin

lemmas codec_proposals [codec] = proposals [THEN exact_codec]
lemmas nonnull_proposals [codec] = proposals [THEN exact_nonnull]

lemma Balance_codec [codec]:
  "codec (Balance_MarshalCBOR S (Some t)) (Balance_UnmarshalCBOR S) t"
  unfolding Balance_MarshalCBOR_def Balance_UnmarshalCBOR_def
  by (cases t) (rule codec | simp; fail)+

lemma StorageAsk_codec [codec]:
  "StorageAsk_storable t \<Longrightarrow> codec (StorageAsk_MarshalCBOR S (Some t)) (StorageAsk_UnmarshalCBOR S) t"
  unfolding StorageAsk_MarshalCBOR_def StorageAsk_UnmarshalCBOR_def StorageAsk_storable_def
  by (cases t) (rule codec | simp; fail)+

lemma StorageAsk_ptr [codec]:
  "(\<And>v. x = Some v \<Longrightarrow> StorageAsk_storable v) \<Longrightarrow> upd None t = t \<Longrightarrow>
   codec (StorageAsk_MarshalCBOR S x) (set_ptr upd (get_ptr f (StorageAsk_UnmarshalCBOR S)) t) (upd x t)"
  by (rule codec_ptrI) (simp add: StorageAsk_MarshalCBOR_def marshal_map_def, (rule codec | simp; fail)+,
    simp add: StorageAsk_MarshalCBOR_def, rule nonnull_map, simp_all)

lemma SignedStorageAsk_codec [codec]:
  "SignedStorageAsk_storable t \<Longrightarrow> codec (SignedStorageAsk_MarshalCBOR S (Some t)) (SignedStorageAsk_UnmarshalCBOR S) t"
  unfolding SignedStorageAsk_MarshalCBOR_def SignedStorageAsk_UnmarshalCBOR_def SignedStorageAsk_storable_def
  by (cases t) (rule codec | simp; fail)+

lemma SignedStorageAsk_ptr [codec]:
  "(\<And>v. x = Some v \<Longrightarrow> SignedStorageAsk_storable v) \<Longrightarrow> upd None t = t \<Longrightarrow>
   codec (SignedStorageAsk_MarshalCBOR S x) (set_ptr upd (get_ptr f (SignedStorageAsk_UnmarshalCBOR S)) t) (upd x t)"
  by (rule codec_ptrI) (simp add: SignedStorageAsk_MarshalCBOR_def marshal_map_def, (rule codec | simp; fail)+,
    simp add: SignedStorageAsk_MarshalCBOR_def, rule nonnull_map, simp_all)

lemma DataRef_codec [codec]:
  "codec (DataRef_MarshalCBOR S (Some t)) (DataRef_UnmarshalCBOR S) t"
  unfolding DataRef_MarshalCBOR_def DataRef_UnmarshalCBOR_def
  by (cases t) (rule codec | simp; fail)+

lemma DataRef_ptr [codec]:
  "upd None t = t \<Longrightarrow>
   codec (DataRef_MarshalCBOR S x) (set_ptr upd (get_ptr f (DataRef_UnmarshalCBOR S)) t) (upd x t)"
  by (rule codec_ptrI) (simp add: DataRef_MarshalCBOR_def marshal_map_def, (rule codec | simp; fail)+,
    simp add: DataRef_MarshalCBOR_def, rule nonnull_map, simp_all)

lemma Log_codec [codec]:
  "codec (Log_MarshalCBOR S (Some t)) (Log_UnmarshalCBOR S) t"
  unfolding Log_MarshalCBOR_def Log_UnmarshalCBOR_def
  by (cases t) (rule codec | simp; fail)+

lemma DealStage_codec [codec]:
  "codec (DealStage_MarshalCBOR S (Some t)) (DealStage_UnmarshalCBOR S) t"
  unfolding DealStage_MarshalCBOR_def DealStage_UnmarshalCBOR_def
  by (cases t) (rule codec | simp; fail)+

lemma DealStages_codec [codec]:
  "codec (DealStages_MarshalCBOR S (Some t)) (DealStages_UnmarshalCBOR S) t"
  unfolding DealStages_MarshalCBOR_def DealStages_UnmarshalCBOR_def
  by (rule codec | simp; fail)+

lemma DealStages_ptr [codec]:
  "upd None t = t \<Longrightarrow>
   codec (DealStages_MarshalCBOR S x) (set_ptr upd (get_ptr f (DealStages_UnmarshalCBOR S)) t) (upd x t)"
  by (rule codec_ptrI) (simp add: DealStages_MarshalCBOR_def marshal_map_def, (rule codec | simp; fail)+,
    simp add: DealStages_MarshalCBOR_def, rule nonnull_map, simp_all)

lemma ProviderDealState_codec [codec]:
  "codec (ProviderDealState_MarshalCBOR S (Some t)) (ProviderDealState_UnmarshalCBOR S) t"
  unfolding ProviderDealState_MarshalCBOR_def ProviderDealState_UnmarshalCBOR_def ProviderDealState_writes_1_def ProviderDealState_writes_2_def ProviderDealState_reads_1_def ProviderDealState_reads_2_def append.simps
  by (cases t) (rule codec | simp; fail)+

lemma MinerDeal_codec [codec]:
  "MinerDeal_storable t \<Longrightarrow> codec (MinerDeal_MarshalCBOR S (Some t)) (MinerDeal_UnmarshalCBOR S) t"
  unfolding MinerDeal_MarshalCBOR_def MinerDeal_UnmarshalCBOR_def MinerDeal_writes_1_def MinerDeal_writes_2_def MinerDeal_writes_3_def MinerDeal_reads_1_def MinerDeal_reads_2_def MinerDeal_reads_3_def append.simps MinerDeal_storable_def
  by (cases t) (rule codec | simp; fail)+

lemma ClientDeal_codec [codec]:
  "ClientDeal_storable t \<Longrightarrow> codec (ClientDeal_MarshalCBOR S (Some t)) (ClientDeal_UnmarshalCBOR S) t"
  unfolding ClientDeal_MarshalCBOR_def ClientDeal_UnmarshalCBOR_def ClientDeal_writes_1_def ClientDeal_writes_2_def ClientDeal_writes_3_def ClientDeal_reads_1_def ClientDeal_reads_2_def ClientDeal_reads_3_def append.simps ClientDeal_storable_def
  by (cases t) (rule codec | simp; fail)+

lemma AskRequest_codec [codec]:
  "codec (AskRequest_MarshalCBOR S (Some t)) (AskRequest_UnmarshalCBOR S) t"
  unfolding AskRequest_MarshalCBOR_def AskRequest_UnmarshalCBOR_def
  by (rule codec | simp; fail)+

lemma AskResponse_codec [codec]:
  "AskResponse_storable t \<Longrightarrow> codec (AskResponse_MarshalCBOR S (Some t)) (AskResponse_UnmarshalCBOR S) t"
  unfolding AskResponse_MarshalCBOR_def AskResponse_UnmarshalCBOR_def AskResponse_storable_def
  by (rule codec | simp; fail)+

lemma Proposal_codec [codec]:
  "codec (Proposal_MarshalCBOR S (Some t)) (Proposal_UnmarshalCBOR S) t"
  unfolding Proposal_MarshalCBOR_def Proposal_UnmarshalCBOR_def
  by (cases t) (rule codec | simp; fail)+

lemma Response_codec [codec]:
  "codec (Response_MarshalCBOR S (Some t)) (Response_UnmarshalCBOR S) t"
  unfolding Response_MarshalCBOR_def Response_UnmarshalCBOR_def
  by (cases t) (rule codec | simp; fail)+

lemma SignedResponse_codec [codec]:
  "codec (SignedResponse_MarshalCBOR S (Some t)) (SignedResponse_UnmarshalCBOR S) t"
  unfolding SignedResponse_MarshalCBOR_def SignedResponse_UnmarshalCBOR_def
  by (cases t) (rule codec | simp; fail)+

lemma DealStatusRequest_codec [codec]:
  "codec (DealStatusRequest_MarshalCBOR S (Some t)) (DealStatusRequest_UnmarshalCBOR S) t"
  unfolding DealStatusRequest_MarshalCBOR_def DealStatusRequest_UnmarshalCBOR_def
  by (cases t) (rule codec | simp; fail)+

lemma DealStatusResponse_codec [codec]:
  "codec (DealStatusResponse_MarshalCBOR S (Some t)) (DealStatusResponse_UnmarshalCBOR S) t"
  unfolding DealStatusResponse_MarshalCBOR_def DealStatusResponse_UnmarshalCBOR_def
  by (cases t) (rule codec | simp; fail)+

end

lemma put_fields_err:
  assumes "(name, v) \<in> set fs" and "isl v"
  shows "isl (put_fields B fs)"
  using assms by (induction fs) (auto simp: on_err_def split: sum.splits)

text \<open>
  C33. The deals of both sides and the messages of the protocols are read back from their bytes unchanged,
  whatever follows them: no field is lost, swapped or cut by the codecs, where the epochs are of 64 bits
  and the reserved funds are set.
\<close>

theorem storage_records_roundtrip:
  assumes "storage_types S" and "MinerDeal_storable md" and "ClientDeal_storable cd" and "AskResponse_storable ask"
  shows "codec (MinerDeal_MarshalCBOR S (Some md)) (MinerDeal_UnmarshalCBOR S) md \<and>
    codec (ClientDeal_MarshalCBOR S (Some cd)) (ClientDeal_UnmarshalCBOR S) cd \<and>
    codec (AskResponse_MarshalCBOR S (Some ask)) (AskResponse_UnmarshalCBOR S) ask \<and>
    codec (Proposal_MarshalCBOR S (Some prop)) (Proposal_UnmarshalCBOR S) prop \<and>
    codec (SignedResponse_MarshalCBOR S (Some resp)) (SignedResponse_UnmarshalCBOR S) resp \<and>
    codec (DealStatusRequest_MarshalCBOR S (Some req)) (DealStatusRequest_UnmarshalCBOR S) req \<and>
    codec (DealStatusResponse_MarshalCBOR S (Some status)) (DealStatusResponse_UnmarshalCBOR S) status"
  using storage_types.MinerDeal_codec [OF assms(1,2)] storage_types.ClientDeal_codec [OF assms(1,3)]
    storage_types.AskResponse_codec [OF assms(1,4)] storage_types.Proposal_codec [OF assms(1)]
    storage_types.SignedResponse_codec [OF assms(1)] storage_types.DealStatusRequest_codec [OF assms(1)]
    storage_types.DealStatusResponse_codec [OF assms(1)]
  by simp

text \<open>An instance, where only a proposal without contents can be written.\<close>

definition all_statuses :: "StorageDealStatus list" where
  "all_statuses = [StorageDealUnknown, StorageDealProposalNotFound, StorageDealProposalRejected, StorageDealProposalAccepted,
     StorageDealStaged, StorageDealSealing, StorageDealFinalizing, StorageDealActive, StorageDealExpired,
     StorageDealSlashed, StorageDealRejecting, StorageDealFailing, StorageDealFundsReserved,
     StorageDealCheckForAcceptance, StorageDealValidating, StorageDealAcceptWait, StorageDealStartDataTransfer,
     StorageDealTransferring, StorageDealWaitingForData, StorageDealVerifyData, StorageDealReserveProviderFunds,
     StorageDealReserveClientFunds, StorageDealProviderFunding, StorageDealClientFunding, StorageDealPublish,
     StorageDealPublishing, StorageDealError, StorageDealProviderTransferAwaitRestart,
     StorageDealClientTransferRestart, StorageDealAwaitingPreCommit, StorageDealTransferQueued]"

definition sample_storage :: storage_lib where
  "sample_storage = \<lparr>SCbor = sample_cbor,
     ProposalCodec = \<lparr>CodecPut = (\<lambda>p. if p = DealProposal_zero then Inr (sample_header MajArray 0) else Inl (New ''not empty'')),
       CodecGet = (\<lambda>r. on_err (sample_read_header r) Inl (\<lambda>(_, r'). Inr (DealProposal_zero, r')))\<rparr>,
     ClientProposalCodec = \<lparr>CodecPut = (\<lambda>(p, sig). if p = DealProposal_zero then sample_bytes MajByteString sig else Inl (New ''not empty'')),
       CodecGet = (\<lambda>r. on_err (sample_read_bytes MajByteString r) Inl (\<lambda>(sig, r'). Inr ((DealProposal_zero, sig), r')))\<rparr>,
     OldClientProposalCodec = \<lparr>CodecPut = (\<lambda>(p, sig). if p = DealProposal_zero then sample_bytes MajByteString sig else Inl (New ''not empty'')),
       CodecGet = (\<lambda>r. on_err (sample_read_bytes MajByteString r) Inl (\<lambda>(sig, r'). Inr ((DealProposal_zero, sig), r')))\<rparr>,
     StatusOf = (\<lambda>n. if unat n < length all_statuses then all_statuses ! unat n else StorageDealUnknown)\<rparr>"

lemma all_statuses_nth: "StorageDealStatus_code s < length all_statuses \<and> all_statuses ! StorageDealStatus_code s = s"
  by (cases s) (simp_all add: all_statuses_def)

lemma sample_storage_cbor:
  "SCbor sample_storage = sample_cbor"
  "CodecPut (ClientProposalCodec sample_storage) (DealProposal_zero, sig) = sample_bytes MajByteString sig"
  "CodecPut (OldClientProposalCodec sample_storage) (DealProposal_zero, sig) = sample_bytes MajByteString sig"
  by (simp_all add: sample_storage_def)

lemma sample_proposals:
  "exact (ProposalCodec sample_storage)" "exact (ClientProposalCodec sample_storage)" "exact (OldClientProposalCodec sample_storage)"
proof -
  have bytes: "codec (sample_bytes MajByteString sig) (sample_read_bytes MajByteString) sig" "nonnull (sample_bytes MajByteString sig)" for sig
    using sample_bytes_exact [of MajByteString] by (simp_all add: exact_def)
  show "exact (ProposalCodec sample_storage)"
    using sample_header_nonnull [of MajArray 0]
    by (auto simp: sample_storage_def exact_def codec_def nonnull_def sample_header_read split: if_splits)
  show "exact (ClientProposalCodec sample_storage)" "exact (OldClientProposalCodec sample_storage)"
    using bytes by (auto simp: sample_storage_def exact_def codec_def nonnull_def split: if_splits)
qed

interpretation sample_storage: storage_types sample_storage
proof (intro storage_types.intro storage_types_axioms.intro)
  show "cbor_codec (SCbor sample_storage)" by (simp add: sample_storage_def sample_cbor.cbor_codec_axioms)
  fix s
  have "length all_statuses = 31" by (simp add: all_statuses_def)
  then have "unat (of_nat (StorageDealStatus_code s) :: uint64) = StorageDealStatus_code s"
    using all_statuses_nth [of s] by (intro unat_of_nat_small) simp
  then show "StatusOf sample_storage (of_nat (StorageDealStatus_code s)) = s"
    using all_statuses_nth [of s] by (simp add: sample_storage_def)
qed (rule sample_proposals)+

definition sample_stored_md :: MinerDeal where
  "sample_stored_md = \<lparr>MinerDeal.Proposal = DealProposal_zero, ClientSignature = ''sig'', ProposalCid = ''prop'', AddFundsCid = None,
     PublishCid = Some ''msg'', Miner = ''m'', Client = ''c'', State = StorageDealPublishing, PiecePath = [], MetadataPath = [],
     SlashEpoch = -1, FastRetrieval = True, Message = ''waiting'', FundsReserved = Some 7, Ref = None,
     AvailableForRetrieval = False, DealID = 0, CreationTime = 5, TransferChannelId = Some ''ch'', SectorNumber = 0,
     InboundCAR = ''/car''\<rparr>"

definition sample_stored_cd :: ClientDeal where
  "sample_stored_cd = \<lparr>ClientDeal.Proposal = DealProposal_zero, ClientSignature = ''sig'', ProposalCid = ''prop'', AddFundsCid = None,
     State = StorageDealActive, Miner = ''m'', MinerWorker = ''w'', DealID = 3, DataRefOf = None, Message = [],
     DealStagesOf = Some [], PublishMessage = None, SlashEpoch = 0, PollRetryCount = 1, PollErrorCount = 0, FastRetrieval = False,
     FundsReserved = Some 0, CreationTime = 5, TransferChannelID = None, SectorNumber = 4\<rparr>"

lemma sample_deals_written:
  "\<not> isl (MinerDeal_MarshalCBOR sample_storage (Some sample_stored_md))"
  "\<not> isl (ClientDeal_MarshalCBOR sample_storage (Some sample_stored_cd))"
  by (simp_all add: MinerDeal_MarshalCBOR_def MinerDeal_writes_1_def MinerDeal_writes_2_def MinerDeal_writes_3_def sample_stored_md_def
    ClientDeal_MarshalCBOR_def ClientDeal_writes_1_def ClientDeal_writes_2_def ClientDeal_writes_3_def sample_stored_cd_def
    DataRef_MarshalCBOR_def DealStages_MarshalCBOR_def sample_storage_cbor put_defs)

theorem storage_records_roundtrip_witness:
  "\<not> isl (MinerDeal_MarshalCBOR sample_storage (Some sample_stored_md)) \<and>
    \<not> isl (ClientDeal_MarshalCBOR sample_storage (Some sample_stored_cd)) \<and>
    codec (MinerDeal_MarshalCBOR sample_storage (Some sample_stored_md)) (MinerDeal_UnmarshalCBOR sample_storage) sample_stored_md \<and>
    codec (ClientDeal_MarshalCBOR sample_storage (Some sample_stored_cd)) (ClientDeal_UnmarshalCBOR sample_storage) sample_stored_cd \<and>
    codec (AskResponse_MarshalCBOR sample_storage (Some None)) (AskResponse_UnmarshalCBOR sample_storage) None \<and>
    codec (Proposal_MarshalCBOR sample_storage (Some \<lparr>MsgDealProposal = None, MsgPiece = None, MsgFastRetrieval = True\<rparr>))
      (Proposal_UnmarshalCBOR sample_storage) \<lparr>MsgDealProposal = None, MsgPiece = None, MsgFastRetrieval = True\<rparr> \<and>
    codec (SignedResponse_MarshalCBOR sample_storage (Some \<lparr>ResponseOf = \<lparr>RespState = StorageDealActive, RespMessage = [],
        RespProposal = ''p'', RespPublishMessage = None\<rparr>, RespSignature = None\<rparr>))
      (SignedResponse_UnmarshalCBOR sample_storage) \<lparr>ResponseOf = \<lparr>RespState = StorageDealActive, RespMessage = [],
        RespProposal = ''p'', RespPublishMessage = None\<rparr>, RespSignature = None\<rparr> \<and>
    codec (DealStatusRequest_MarshalCBOR sample_storage (Some \<lparr>ReqProposal = ''p'', ReqSignature = ''s''\<rparr>))
      (DealStatusRequest_UnmarshalCBOR sample_storage) \<lparr>ReqProposal = ''p'', ReqSignature = ''s''\<rparr> \<and>
    codec (DealStatusResponse_MarshalCBOR sample_storage (Some \<lparr>DealStateOf = \<lparr>PDState = StorageDealError, PDMessage = ''m'',
        PDProposal = None, PDProposalCid = Some ''p'', PDAddFundsCid = None, PDPublishCid = None, PDDealID = 1, PDFastRetrieval = True\<rparr>,
        StatusSignature = ''s''\<rparr>))
      (DealStatusResponse_UnmarshalCBOR sample_storage) \<lparr>DealStateOf = \<lparr>PDState = StorageDealError, PDMessage = ''m'',
        PDProposal = None, PDProposalCid = Some ''p'', PDAddFundsCid = None, PDPublishCid = None, PDDealID = 1, PDFastRetrieval = True\<rparr>,
        StatusSignature = ''s''\<rparr>"
  by (rule conjI [OF sample_deals_written(1) conjI [OF sample_deals_written(2)
      storage_records_roundtrip [OF sample_storage.storage_types_axioms]]])
    (simp_all add: MinerDeal_storable_def ClientDeal_storable_def AskResponse_storable_def sample_stored_md_def
      sample_stored_cd_def int64_range_def)

text \<open>
  C35. The codecs refuse a text of more than \<open>MaxLength\<close> bytes, and the state machines put the text of an error
  into the deal's message as it is: a provider's deal in which the node reports a longer error cannot be
  written with the failure, in any state that the event leads it to.
\<close>

theorem long_error_not_stored:
  assumes "fsm_plan provider_fsm ProviderEventNodeErrored [AErr err] deal = Entered deal'"
    and "MaxLength (SCbor S) < length (Error err)"
  shows "isl (MinerDeal_MarshalCBOR S (Some deal'))"
proof -
  have "find_event ProviderEvents ProviderEventNodeErrored = Some (Event ProviderEventNodeErrored
      [FromAny (To StorageDealFailing)] (Storage_Provider_Fsm.note_error ''error calling node: ''))"
    by (simp add: provider_table_defs)
  then have "MinerDeal.Message deal' = ''error calling node: '' @ Error err"
    using assms(1) by (auto simp: fsm_plan_def provider_fsm_def Storage_Provider_Fsm.note_error_def act_def
      transition_def apply_target_def split: if_splits)
  then have "isl (put_string (SCbor S) ''Message'' (MinerDeal.Message deal'))" using assms(2) by (simp add: put_string_def)
  moreover have "(''Message'', put_string (SCbor S) ''Message'' (MinerDeal.Message deal')) \<in> set (MinerDeal_writes_1 S deal')"
    by (simp add: MinerDeal_writes_1_def)
  ultimately have "isl (put_fields (SCbor S) (MinerDeal_writes_1 S deal' @ MinerDeal_writes_2 S deal' @ MinerDeal_writes_3 S deal'))"
    by (intro put_fields_err) auto
  then show ?thesis by (auto simp: MinerDeal_MarshalCBOR_def marshal_map_def on_err_def split: sum.splits)
qed

theorem long_error_not_stored_witness:
  "isl (MinerDeal_MarshalCBOR sample_storage (Some (sample_stored_md\<lparr>MinerDeal.Message := ''error calling node: '' @
     replicate 9000 (CHR ''x''), MinerDeal.State := StorageDealFailing\<rparr>)))"
proof (rule long_error_not_stored)
  show "fsm_plan provider_fsm ProviderEventNodeErrored [AErr (New (replicate 9000 (CHR ''x'')))] sample_stored_md =
      Entered (sample_stored_md\<lparr>MinerDeal.Message := ''error calling node: '' @ replicate 9000 (CHR ''x''),
        MinerDeal.State := StorageDealFailing\<rparr>)"
    by (simp add: fsm_plan_def provider_table_defs find_event_def transition_def Storage_Provider_Fsm.note_error_def act_def
      apply_target_def sample_stored_md_def)
qed (simp add: sample_storage_def sample_cbor_def)

end
