(* ===== verification/Storage_Migrations_Codec.thy ===== *)
theory Storage_Migrations_Codec
  imports Storage_Codec Storage_Migrations
begin

section \<open>How old records of the storage market are stored\<close>

text \<open>
  The codecs of the formats before the current one: \<open>migrations/migrations_cbor_gen.go\<close>, where a record
  is an array of its fields, and \<open>migrations/migrations_mapenc_types_cbor_gen.go\<close>; and of the voucher of a
  storage data transfer (\<open>impl/requestvalidation/types_cbor_gen.go\<close>). What an old version wrote is read,
  converted and written in the new format.
\<close>

record Balance0 =
  Locked0 :: token_amount
  Available0 :: token_amount

definition Balance0_MarshalCBOR :: "storage_lib \<Rightarrow> Balance0 option \<Rightarrow> written" where
  "Balance0_MarshalCBOR S = marshal_tuple 130 (\<lambda>t.
     [CodecPut (BigInt (SCbor S)) (Locked0 t),
      CodecPut (BigInt (SCbor S)) (Available0 t)])"

definition Balance0_UnmarshalCBOR :: "storage_lib \<Rightarrow> Balance0 reader" where
  "Balance0_UnmarshalCBOR S = unmarshal_tuple (SCbor S) \<lparr>Locked0 = 0, Available0 = 0\<rparr> 
     [set_field (\<lambda>v t. t\<lparr>Locked0 := v\<rparr>) (get_struct ''Locked'' (CodecGet (BigInt (SCbor S)))),
      set_field (\<lambda>v t. t\<lparr>Available0 := v\<rparr>) (get_struct ''Available'' (CodecGet (BigInt (SCbor S))))]"

definition StorageAsk0_MarshalCBOR :: "storage_lib \<Rightarrow> StorageAsk0 option \<Rightarrow> written" where
  "StorageAsk0_MarshalCBOR S = marshal_tuple 136 (\<lambda>t.
     [CodecPut (BigInt (SCbor S)) (Price0 t),
      CodecPut (BigInt (SCbor S)) (VerifiedPrice0 t),
      put_uint64 (SCbor S) (MinPieceSize0 t),
      put_uint64 (SCbor S) (MaxPieceSize0 t),
      CodecPut (Address (SCbor S)) (AskMiner0 t),
      put_int64 (SCbor S) (Timestamp0 t),
      put_int64 (SCbor S) (Expiry0 t),
      put_uint64 (SCbor S) (SeqNo0 t)])"

definition StorageAsk0_UnmarshalCBOR :: "storage_lib \<Rightarrow> StorageAsk0 reader" where
  "StorageAsk0_UnmarshalCBOR S = unmarshal_tuple (SCbor S) \<lparr>Price0 = 0, VerifiedPrice0 = 0, MinPieceSize0 = 0, MaxPieceSize0 = 0, AskMiner0 = address_Undef, Timestamp0 = 0, Expiry0 = 0, SeqNo0 = 0\<rparr> 
     [set_field (\<lambda>v t. t\<lparr>Price0 := v\<rparr>) (get_struct ''Price'' (CodecGet (BigInt (SCbor S)))),
      set_field (\<lambda>v t. t\<lparr>VerifiedPrice0 := v\<rparr>) (get_struct ''VerifiedPrice'' (CodecGet (BigInt (SCbor S)))),
      set_field (\<lambda>v t. t\<lparr>MinPieceSize0 := v\<rparr>) (get_uint64 (SCbor S)),
      set_field (\<lambda>v t. t\<lparr>MaxPieceSize0 := v\<rparr>) (get_uint64 (SCbor S)),
      set_field (\<lambda>v t. t\<lparr>AskMiner0 := v\<rparr>) (get_struct ''Miner'' (CodecGet (Address (SCbor S)))),
      set_field (\<lambda>v t. t\<lparr>Timestamp0 := v\<rparr>) (get_int64 (SCbor S)),
      set_field (\<lambda>v t. t\<lparr>Expiry0 := v\<rparr>) (get_int64 (SCbor S)),
      set_field (\<lambda>v t. t\<lparr>SeqNo0 := v\<rparr>) (get_uint64 (SCbor S))]"

definition StorageAsk0_storable :: "StorageAsk0 \<Rightarrow> bool" where
  "StorageAsk0_storable t \<longleftrightarrow> int64_range (Timestamp0 t) \<and> int64_range (Expiry0 t)"

definition SignedStorageAsk0_MarshalCBOR :: "storage_lib \<Rightarrow> SignedStorageAsk0 option \<Rightarrow> written" where
  "SignedStorageAsk0_MarshalCBOR S = marshal_tuple 130 (\<lambda>t.
     [StorageAsk0_MarshalCBOR S (Ask0 t),
      put_ptr (CodecPut (SignatureCodec (SCbor S))) (Signature0 t)])"

definition SignedStorageAsk0_UnmarshalCBOR :: "storage_lib \<Rightarrow> SignedStorageAsk0 reader" where
  "SignedStorageAsk0_UnmarshalCBOR S = unmarshal_tuple (SCbor S) \<lparr>Ask0 = None, Signature0 = None\<rparr> 
     [set_ptr (\<lambda>v t. t\<lparr>Ask0 := v\<rparr>) (get_ptr ''Ask'' (StorageAsk0_UnmarshalCBOR S)),
      set_ptr (\<lambda>v t. t\<lparr>Signature0 := v\<rparr>) (get_ptr ''Signature'' (CodecGet (SignatureCodec (SCbor S))))]"

definition SignedStorageAsk0_storable :: "SignedStorageAsk0 \<Rightarrow> bool" where
  "SignedStorageAsk0_storable t \<longleftrightarrow> (\<forall>v. (Ask0 t) = Some v \<longrightarrow> StorageAsk0_storable v)"

definition DataRef0_MarshalCBOR :: "storage_lib \<Rightarrow> DataRef0 option \<Rightarrow> written" where
  "DataRef0_MarshalCBOR S = marshal_tuple 132 (\<lambda>t.
     [put_string (SCbor S) ''TransferType'' (TransferType0 t),
      put_cid (SCbor S) ''Root'' (Root0 t),
      put_ptr (put_cid (SCbor S) ''PieceCid'') (PieceCid0 t),
      put_uint64 (SCbor S) (PieceSize0 t)])"

definition DataRef0_UnmarshalCBOR :: "storage_lib \<Rightarrow> DataRef0 reader" where
  "DataRef0_UnmarshalCBOR S = unmarshal_tuple (SCbor S) \<lparr>TransferType0 = [], Root0 = cid_Undef, PieceCid0 = None, PieceSize0 = 0\<rparr> 
     [set_field (\<lambda>v t. t\<lparr>TransferType0 := v\<rparr>) (get_string (SCbor S)),
      set_field (\<lambda>v t. t\<lparr>Root0 := v\<rparr>) (get_cid (SCbor S) ''Root''),
      set_ptr (\<lambda>v t. t\<lparr>PieceCid0 := v\<rparr>) (get_cid (SCbor S) ''PieceCid''),
      set_field (\<lambda>v t. t\<lparr>PieceSize0 := v\<rparr>) (get_uint64 (SCbor S))]"

definition ProviderDealState0_MarshalCBOR :: "storage_lib \<Rightarrow> ProviderDealState0 option \<Rightarrow> written" where
  "ProviderDealState0_MarshalCBOR S = marshal_tuple 136 (\<lambda>t.
     [put_uint64 (SCbor S) (of_nat (StorageDealStatus_code (PDState0 t))),
      put_string (SCbor S) ''Message'' (PDMessage0 t),
      put_ptr (CodecPut (ProposalCodec S)) (PDProposal0 t),
      put_ptr (put_cid (SCbor S) ''ProposalCid'') (PDProposalCid0 t),
      put_ptr (put_cid (SCbor S) ''AddFundsCid'') (PDAddFundsCid0 t),
      put_ptr (put_cid (SCbor S) ''PublishCid'') (PDPublishCid0 t),
      put_uint64 (SCbor S) (PDDealID0 t),
      put_bool (SCbor S) (PDFastRetrieval0 t)])"

definition ProviderDealState0_UnmarshalCBOR :: "storage_lib \<Rightarrow> ProviderDealState0 reader" where
  "ProviderDealState0_UnmarshalCBOR S = unmarshal_tuple (SCbor S) \<lparr>PDState0 = StorageDealUnknown, PDMessage0 = [], PDProposal0 = None, PDProposalCid0 = None, PDAddFundsCid0 = None, PDPublishCid0 = None, PDDealID0 = 0, PDFastRetrieval0 = False\<rparr> 
     [set_field (\<lambda>v t. t\<lparr>PDState0 := v\<rparr>) (get_enum (StatusOf S) (SCbor S)),
      set_field (\<lambda>v t. t\<lparr>PDMessage0 := v\<rparr>) (get_string (SCbor S)),
      set_ptr (\<lambda>v t. t\<lparr>PDProposal0 := v\<rparr>) (get_ptr ''Proposal'' (CodecGet (ProposalCodec S))),
      set_ptr (\<lambda>v t. t\<lparr>PDProposalCid0 := v\<rparr>) (get_cid (SCbor S) ''ProposalCid''),
      set_ptr (\<lambda>v t. t\<lparr>PDAddFundsCid0 := v\<rparr>) (get_cid (SCbor S) ''AddFundsCid''),
      set_ptr (\<lambda>v t. t\<lparr>PDPublishCid0 := v\<rparr>) (get_cid (SCbor S) ''PublishCid''),
      set_field (\<lambda>v t. t\<lparr>PDDealID0 := v\<rparr>) (get_uint64 (SCbor S)),
      set_field (\<lambda>v t. t\<lparr>PDFastRetrieval0 := v\<rparr>) (get_bool (SCbor S))]"

definition AskRequest0_MarshalCBOR :: "storage_lib \<Rightarrow> address option \<Rightarrow> written" where
  "AskRequest0_MarshalCBOR S = marshal_tuple 129 (\<lambda>t.
     [CodecPut (Address (SCbor S)) t])"

definition AskRequest0_UnmarshalCBOR :: "storage_lib \<Rightarrow> address reader" where
  "AskRequest0_UnmarshalCBOR S = unmarshal_tuple (SCbor S) address_Undef 
     [set_field (\<lambda>v t. v) (get_struct ''Miner'' (CodecGet (Address (SCbor S))))]"

definition AskResponse0_MarshalCBOR :: "storage_lib \<Rightarrow> SignedStorageAsk0 option option \<Rightarrow> written" where
  "AskResponse0_MarshalCBOR S = marshal_tuple 129 (\<lambda>t.
     [SignedStorageAsk0_MarshalCBOR S t])"

definition AskResponse0_UnmarshalCBOR :: "storage_lib \<Rightarrow> SignedStorageAsk0 option reader" where
  "AskResponse0_UnmarshalCBOR S = unmarshal_tuple (SCbor S) None 
     [set_ptr (\<lambda>v t. v) (get_ptr ''Ask'' (SignedStorageAsk0_UnmarshalCBOR S))]"

definition AskResponse0_storable :: "SignedStorageAsk0 option \<Rightarrow> bool" where
  "AskResponse0_storable t \<longleftrightarrow> (\<forall>v. t = Some v \<longrightarrow> SignedStorageAsk0_storable v)"

definition Proposal0_MarshalCBOR :: "storage_lib \<Rightarrow> Proposal0 option \<Rightarrow> written" where
  "Proposal0_MarshalCBOR S = marshal_tuple 131 (\<lambda>t.
     [put_ptr (CodecPut (ClientProposalCodec S)) (DealProposal0 t),
      DataRef0_MarshalCBOR S (Piece0 t),
      put_bool (SCbor S) (MsgFastRetrieval0 t)])"

definition Proposal0_UnmarshalCBOR :: "storage_lib \<Rightarrow> Proposal0 reader" where
  "Proposal0_UnmarshalCBOR S = unmarshal_tuple (SCbor S) \<lparr>DealProposal0 = None, Piece0 = None, MsgFastRetrieval0 = False\<rparr> 
     [set_ptr (\<lambda>v t. t\<lparr>DealProposal0 := v\<rparr>) (get_ptr ''DealProposal'' (CodecGet (ClientProposalCodec S))),
      set_ptr (\<lambda>v t. t\<lparr>Piece0 := v\<rparr>) (get_ptr ''Piece'' (DataRef0_UnmarshalCBOR S)),
      set_field (\<lambda>v t. t\<lparr>MsgFastRetrieval0 := v\<rparr>) (get_bool (SCbor S))]"

definition Response0_MarshalCBOR :: "storage_lib \<Rightarrow> Response0 option \<Rightarrow> written" where
  "Response0_MarshalCBOR S = marshal_tuple 132 (\<lambda>t.
     [put_uint64 (SCbor S) (of_nat (StorageDealStatus_code (RespState0 t))),
      put_string (SCbor S) ''Message'' (RespMessage0 t),
      put_cid (SCbor S) ''Proposal'' (RespProposal0 t),
      put_ptr (put_cid (SCbor S) ''PublishMessage'') (RespPublishMessage0 t)])"

definition Response0_UnmarshalCBOR :: "storage_lib \<Rightarrow> Response0 reader" where
  "Response0_UnmarshalCBOR S = unmarshal_tuple (SCbor S) \<lparr>RespState0 = StorageDealUnknown, RespMessage0 = [], RespProposal0 = cid_Undef, RespPublishMessage0 = None\<rparr> 
     [set_field (\<lambda>v t. t\<lparr>RespState0 := v\<rparr>) (get_enum (StatusOf S) (SCbor S)),
      set_field (\<lambda>v t. t\<lparr>RespMessage0 := v\<rparr>) (get_string (SCbor S)),
      set_field (\<lambda>v t. t\<lparr>RespProposal0 := v\<rparr>) (get_cid (SCbor S) ''Proposal''),
      set_ptr (\<lambda>v t. t\<lparr>RespPublishMessage0 := v\<rparr>) (get_cid (SCbor S) ''PublishMessage'')]"

definition SignedResponse0_MarshalCBOR :: "storage_lib \<Rightarrow> SignedResponse0 option \<Rightarrow> written" where
  "SignedResponse0_MarshalCBOR S = marshal_tuple 130 (\<lambda>t.
     [Response0_MarshalCBOR S (Some (ResponseOf0 t)),
      put_ptr (CodecPut (SignatureCodec (SCbor S))) (RespSignature0 t)])"

definition SignedResponse0_UnmarshalCBOR :: "storage_lib \<Rightarrow> SignedResponse0 reader" where
  "SignedResponse0_UnmarshalCBOR S = unmarshal_tuple (SCbor S) \<lparr>ResponseOf0 = \<lparr>RespState0 = StorageDealUnknown, RespMessage0 = [], RespProposal0 = cid_Undef, RespPublishMessage0 = None\<rparr>, RespSignature0 = None\<rparr> 
     [set_field (\<lambda>v t. t\<lparr>ResponseOf0 := v\<rparr>) (get_struct ''Response'' (Response0_UnmarshalCBOR S)),
      set_ptr (\<lambda>v t. t\<lparr>RespSignature0 := v\<rparr>) (get_ptr ''Signature'' (CodecGet (SignatureCodec (SCbor S))))]"

definition DealStatusRequest0_MarshalCBOR :: "storage_lib \<Rightarrow> DealStatusRequest0 option \<Rightarrow> written" where
  "DealStatusRequest0_MarshalCBOR S = marshal_tuple 130 (\<lambda>t.
     [put_cid (SCbor S) ''Proposal'' (ReqProposal0 t),
      CodecPut (SignatureCodec (SCbor S)) (ReqSignature0 t)])"

definition DealStatusRequest0_UnmarshalCBOR :: "storage_lib \<Rightarrow> DealStatusRequest0 reader" where
  "DealStatusRequest0_UnmarshalCBOR S = unmarshal_tuple (SCbor S) \<lparr>ReqProposal0 = cid_Undef, ReqSignature0 = []\<rparr> 
     [set_field (\<lambda>v t. t\<lparr>ReqProposal0 := v\<rparr>) (get_cid (SCbor S) ''Proposal''),
      set_field (\<lambda>v t. t\<lparr>ReqSignature0 := v\<rparr>) (get_struct ''Signature'' (CodecGet (SignatureCodec (SCbor S))))]"

definition DealStatusResponse0_MarshalCBOR :: "storage_lib \<Rightarrow> DealStatusResponse0 option \<Rightarrow> written" where
  "DealStatusResponse0_MarshalCBOR S = marshal_tuple 130 (\<lambda>t.
     [ProviderDealState0_MarshalCBOR S (Some (DealStateOf0 t)),
      CodecPut (SignatureCodec (SCbor S)) (StatusSignature0 t)])"

definition DealStatusResponse0_UnmarshalCBOR :: "storage_lib \<Rightarrow> DealStatusResponse0 reader" where
  "DealStatusResponse0_UnmarshalCBOR S = unmarshal_tuple (SCbor S) \<lparr>DealStateOf0 = \<lparr>PDState0 = StorageDealUnknown, PDMessage0 = [], PDProposal0 = None, PDProposalCid0 = None, PDAddFundsCid0 = None, PDPublishCid0 = None, PDDealID0 = 0, PDFastRetrieval0 = False\<rparr>, StatusSignature0 = []\<rparr> 
     [set_field (\<lambda>v t. t\<lparr>DealStateOf0 := v\<rparr>) (get_struct ''DealState'' (ProviderDealState0_UnmarshalCBOR S)),
      set_field (\<lambda>v t. t\<lparr>StatusSignature0 := v\<rparr>) (get_struct ''Signature'' (CodecGet (SignatureCodec (SCbor S))))]"

definition MinerDeal0_writes_1 :: "storage_lib \<Rightarrow> MinerDeal0 \<Rightarrow> written list" where
  "MinerDeal0_writes_1 S t =
     [CodecPut (OldClientProposalCodec S) (ClientDealProposal0 t),
      put_cid (SCbor S) ''ProposalCid'' (ProposalCid0 t),
      put_ptr (put_cid (SCbor S) ''AddFundsCid'') (AddFundsCid0 t),
      put_ptr (put_cid (SCbor S) ''PublishCid'') (PublishCid0 t),
      put_string (SCbor S) ''Miner'' (Miner0 t),
      put_string (SCbor S) ''Client'' (Client0 t),
      put_uint64 (SCbor S) (of_nat (StorageDealStatus_code (State0 t))),
      put_string (SCbor S) ''PiecePath'' (PiecePath0 t),
      put_string (SCbor S) ''MetadataPath'' (MetadataPath0 t),
      put_int64 (SCbor S) (SlashEpoch0 t),
      put_bool (SCbor S) (FastRetrieval0 t),
      put_string (SCbor S) ''Message'' (Message0 t),
      put_ptr (put_uint64 (SCbor S)) (StoreID0 t),
      put_big (SCbor S) (FundsReserved0 t),
      DataRef0_MarshalCBOR S (Ref0 t),
      put_bool (SCbor S) (AvailableForRetrieval0 t),
      put_uint64 (SCbor S) (DealID0 t)]"

definition MinerDeal0_writes_2 :: "storage_lib \<Rightarrow> MinerDeal0 \<Rightarrow> written list" where
  "MinerDeal0_writes_2 S t =
     [CodecPut (CborTime (SCbor S)) (CreationTime0 t)]"

definition MinerDeal0_MarshalCBOR :: "storage_lib \<Rightarrow> MinerDeal0 option \<Rightarrow> written" where
  "MinerDeal0_MarshalCBOR S = marshal_tuple 146 (\<lambda>t. MinerDeal0_writes_1 S t @ MinerDeal0_writes_2 S t)"

definition MinerDeal0_reads_1 :: "storage_lib \<Rightarrow> (MinerDeal0 \<Rightarrow> MinerDeal0 reader) list" where
  "MinerDeal0_reads_1 S =
     [set_field (\<lambda>v t. t\<lparr>ClientDealProposal0 := v\<rparr>) (get_struct ''ClientDealProposal'' (CodecGet (OldClientProposalCodec S))),
      set_field (\<lambda>v t. t\<lparr>ProposalCid0 := v\<rparr>) (get_cid (SCbor S) ''ProposalCid''),
      set_ptr (\<lambda>v t. t\<lparr>AddFundsCid0 := v\<rparr>) (get_cid (SCbor S) ''AddFundsCid''),
      set_ptr (\<lambda>v t. t\<lparr>PublishCid0 := v\<rparr>) (get_cid (SCbor S) ''PublishCid''),
      set_field (\<lambda>v t. t\<lparr>Miner0 := v\<rparr>) (get_string (SCbor S)),
      set_field (\<lambda>v t. t\<lparr>Client0 := v\<rparr>) (get_string (SCbor S)),
      set_field (\<lambda>v t. t\<lparr>State0 := v\<rparr>) (get_enum (StatusOf S) (SCbor S)),
      set_field (\<lambda>v t. t\<lparr>PiecePath0 := v\<rparr>) (get_string (SCbor S)),
      set_field (\<lambda>v t. t\<lparr>MetadataPath0 := v\<rparr>) (get_string (SCbor S)),
      set_field (\<lambda>v t. t\<lparr>SlashEpoch0 := v\<rparr>) (get_int64 (SCbor S))]"

definition MinerDeal0_reads_2 :: "storage_lib \<Rightarrow> (MinerDeal0 \<Rightarrow> MinerDeal0 reader) list" where
  "MinerDeal0_reads_2 S =
     [set_field (\<lambda>v t. t\<lparr>FastRetrieval0 := v\<rparr>) (get_bool (SCbor S)),
      set_field (\<lambda>v t. t\<lparr>Message0 := v\<rparr>) (get_string (SCbor S)),
      set_ptr (\<lambda>v t. t\<lparr>StoreID0 := v\<rparr>) (get_uint64 (SCbor S)),
      set_field (\<lambda>v t. t\<lparr>FundsReserved0 := v\<rparr>) (get_struct ''FundsReserved'' (get_big (SCbor S))),
      set_ptr (\<lambda>v t. t\<lparr>Ref0 := v\<rparr>) (get_ptr ''Ref'' (DataRef0_UnmarshalCBOR S)),
      set_field (\<lambda>v t. t\<lparr>AvailableForRetrieval0 := v\<rparr>) (get_bool (SCbor S)),
      set_field (\<lambda>v t. t\<lparr>DealID0 := v\<rparr>) (get_uint64 (SCbor S)),
      set_field (\<lambda>v t. t\<lparr>CreationTime0 := v\<rparr>) (get_struct ''CreationTime'' (CodecGet (CborTime (SCbor S))))]"

definition MinerDeal0_UnmarshalCBOR :: "storage_lib \<Rightarrow> MinerDeal0 reader" where
  "MinerDeal0_UnmarshalCBOR S = unmarshal_tuple (SCbor S) \<lparr>ClientDealProposal0 = (DealProposal_zero, []), ProposalCid0 = [], AddFundsCid0 = None, PublishCid0 = None, Miner0 = [], Client0 = [], State0 = StorageDealUnknown, PiecePath0 = [], MetadataPath0 = [], SlashEpoch0 = 0, FastRetrieval0 = False, Message0 = [], StoreID0 = None, FundsReserved0 = None, Ref0 = None, AvailableForRetrieval0 = False, DealID0 = 0, CreationTime0 = 0\<rparr> (MinerDeal0_reads_1 S @ MinerDeal0_reads_2 S)"

definition MinerDeal0_storable :: "MinerDeal0 \<Rightarrow> bool" where
  "MinerDeal0_storable t \<longleftrightarrow> int64_range (SlashEpoch0 t) \<and> (FundsReserved0 t) \<noteq> None"

definition ClientDeal0_MarshalCBOR :: "storage_lib \<Rightarrow> ClientDeal0 option \<Rightarrow> written" where
  "ClientDeal0_MarshalCBOR S = marshal_tuple 145 (\<lambda>t.
     [CodecPut (ClientProposalCodec S) (CdClientDealProposal0 t),
      put_cid (SCbor S) ''ProposalCid'' (CdProposalCid0 t),
      put_ptr (put_cid (SCbor S) ''AddFundsCid'') (CdAddFundsCid0 t),
      put_uint64 (SCbor S) (of_nat (StorageDealStatus_code (CdState0 t))),
      put_string (SCbor S) ''Miner'' (CdMiner0 t),
      CodecPut (Address (SCbor S)) (CdMinerWorker0 t),
      put_uint64 (SCbor S) (CdDealID0 t),
      DataRef0_MarshalCBOR S (CdDataRef0 t),
      put_string (SCbor S) ''Message'' (CdMessage0 t),
      put_ptr (put_cid (SCbor S) ''PublishMessage'') (CdPublishMessage0 t),
      put_int64 (SCbor S) (CdSlashEpoch0 t),
      put_uint64 (SCbor S) (CdPollRetryCount0 t),
      put_uint64 (SCbor S) (CdPollErrorCount0 t),
      put_bool (SCbor S) (CdFastRetrieval0 t),
      put_ptr (put_uint64 (SCbor S)) (CdStoreID0 t),
      put_big (SCbor S) (CdFundsReserved0 t),
      CodecPut (CborTime (SCbor S)) (CdCreationTime0 t)])"

definition ClientDeal0_reads_1 :: "storage_lib \<Rightarrow> (ClientDeal0 \<Rightarrow> ClientDeal0 reader) list" where
  "ClientDeal0_reads_1 S =
     [set_field (\<lambda>v t. t\<lparr>CdClientDealProposal0 := v\<rparr>) (get_struct ''ClientDealProposal'' (CodecGet (ClientProposalCodec S))),
      set_field (\<lambda>v t. t\<lparr>CdProposalCid0 := v\<rparr>) (get_cid (SCbor S) ''ProposalCid''),
      set_ptr (\<lambda>v t. t\<lparr>CdAddFundsCid0 := v\<rparr>) (get_cid (SCbor S) ''AddFundsCid''),
      set_field (\<lambda>v t. t\<lparr>CdState0 := v\<rparr>) (get_enum (StatusOf S) (SCbor S)),
      set_field (\<lambda>v t. t\<lparr>CdMiner0 := v\<rparr>) (get_string (SCbor S)),
      set_field (\<lambda>v t. t\<lparr>CdMinerWorker0 := v\<rparr>) (get_struct ''MinerWorker'' (CodecGet (Address (SCbor S)))),
      set_field (\<lambda>v t. t\<lparr>CdDealID0 := v\<rparr>) (get_uint64 (SCbor S)),
      set_ptr (\<lambda>v t. t\<lparr>CdDataRef0 := v\<rparr>) (get_ptr ''DataRef'' (DataRef0_UnmarshalCBOR S)),
      set_field (\<lambda>v t. t\<lparr>CdMessage0 := v\<rparr>) (get_string (SCbor S)),
      set_ptr (\<lambda>v t. t\<lparr>CdPublishMessage0 := v\<rparr>) (get_cid (SCbor S) ''PublishMessage'')]"

definition ClientDeal0_reads_2 :: "storage_lib \<Rightarrow> (ClientDeal0 \<Rightarrow> ClientDeal0 reader) list" where
  "ClientDeal0_reads_2 S =
     [set_field (\<lambda>v t. t\<lparr>CdSlashEpoch0 := v\<rparr>) (get_int64 (SCbor S)),
      set_field (\<lambda>v t. t\<lparr>CdPollRetryCount0 := v\<rparr>) (get_uint64 (SCbor S)),
      set_field (\<lambda>v t. t\<lparr>CdPollErrorCount0 := v\<rparr>) (get_uint64 (SCbor S)),
      set_field (\<lambda>v t. t\<lparr>CdFastRetrieval0 := v\<rparr>) (get_bool (SCbor S)),
      set_ptr (\<lambda>v t. t\<lparr>CdStoreID0 := v\<rparr>) (get_uint64 (SCbor S)),
      set_field (\<lambda>v t. t\<lparr>CdFundsReserved0 := v\<rparr>) (get_struct ''FundsReserved'' (get_big (SCbor S))),
      set_field (\<lambda>v t. t\<lparr>CdCreationTime0 := v\<rparr>) (get_struct ''CreationTime'' (CodecGet (CborTime (SCbor S))))]"

definition ClientDeal0_UnmarshalCBOR :: "storage_lib \<Rightarrow> ClientDeal0 reader" where
  "ClientDeal0_UnmarshalCBOR S = unmarshal_tuple (SCbor S) \<lparr>CdClientDealProposal0 = (DealProposal_zero, []), CdProposalCid0 = [], CdAddFundsCid0 = None, CdState0 = StorageDealUnknown, CdMiner0 = [], CdMinerWorker0 = [], CdDealID0 = 0, CdDataRef0 = None, CdMessage0 = [], CdPublishMessage0 = None, CdSlashEpoch0 = 0, CdPollRetryCount0 = 0, CdPollErrorCount0 = 0, CdFastRetrieval0 = False, CdStoreID0 = None, CdFundsReserved0 = None, CdCreationTime0 = 0\<rparr> (ClientDeal0_reads_1 S @ ClientDeal0_reads_2 S)"

definition ClientDeal0_storable :: "ClientDeal0 \<Rightarrow> bool" where
  "ClientDeal0_storable t \<longleftrightarrow> int64_range (CdSlashEpoch0 t) \<and> (CdFundsReserved0 t) \<noteq> None"

definition Proposal1_MarshalCBOR :: "storage_lib \<Rightarrow> Proposal1 option \<Rightarrow> written" where
  "Proposal1_MarshalCBOR S = marshal_map (SCbor S) 163 (\<lambda>t.
     [(''Piece'', DataRef_MarshalCBOR S (Piece1 t)),
      (''DealProposal'', put_ptr (CodecPut (OldClientProposalCodec S)) (DealProposal1 t)),
      (''FastRetrieval'', put_bool (SCbor S) (MsgFastRetrieval1 t))])"

definition Proposal1_UnmarshalCBOR :: "storage_lib \<Rightarrow> Proposal1 reader" where
  "Proposal1_UnmarshalCBOR S = unmarshal_map (SCbor S) ''Proposal1'' \<lparr>DealProposal1 = None, Piece1 = None, MsgFastRetrieval1 = False\<rparr> 
     [(''Piece'', set_ptr (\<lambda>v t. t\<lparr>Piece1 := v\<rparr>) (get_ptr ''Piece'' (DataRef_UnmarshalCBOR S))),
      (''DealProposal'', set_ptr (\<lambda>v t. t\<lparr>DealProposal1 := v\<rparr>) (get_ptr ''DealProposal'' (CodecGet (OldClientProposalCodec S)))),
      (''FastRetrieval'', set_field (\<lambda>v t. t\<lparr>MsgFastRetrieval1 := v\<rparr>) (get_bool (SCbor S)))]"

definition MinerDeal1_writes_1 :: "storage_lib \<Rightarrow> MinerDeal1 \<Rightarrow> (string \<times> written) list" where
  "MinerDeal1_writes_1 S t =
     [(''Ref'', DataRef_MarshalCBOR S (Ref1 t)),
      (''Miner'', put_string (SCbor S) ''Miner'' (Miner1 t)),
      (''State'', put_uint64 (SCbor S) (of_nat (StorageDealStatus_code (State1 t)))),
      (''Client'', put_string (SCbor S) ''Client'' (Client1 t)),
      (''DealID'', put_uint64 (SCbor S) (DealID1 t)),
      (''Message'', put_string (SCbor S) ''Message'' (Message1 t)),
      (''PiecePath'', put_string (SCbor S) ''PiecePath'' (PiecePath1 t))]"

definition MinerDeal1_writes_2 :: "storage_lib \<Rightarrow> MinerDeal1 \<Rightarrow> (string \<times> written) list" where
  "MinerDeal1_writes_2 S t =
     [(''InboundCAR'', put_string (SCbor S) ''InboundCAR'' (InboundCAR1 t)),
      (''PublishCid'', put_ptr (put_cid (SCbor S) ''PublishCid'') (PublishCid1 t)),
      (''SlashEpoch'', put_int64 (SCbor S) (SlashEpoch1 t)),
      (''AddFundsCid'', put_ptr (put_cid (SCbor S) ''AddFundsCid'') (AddFundsCid1 t)),
      (''ProposalCid'', put_cid (SCbor S) ''ProposalCid'' (ProposalCid1 t)),
      (''CreationTime'', CodecPut (CborTime (SCbor S)) (CreationTime1 t)),
      (''MetadataPath'', put_string (SCbor S) ''MetadataPath'' (MetadataPath1 t))]"

definition MinerDeal1_writes_3 :: "storage_lib \<Rightarrow> MinerDeal1 \<Rightarrow> (string \<times> written) list" where
  "MinerDeal1_writes_3 S t =
     [(''SectorNumber'', put_uint64 (SCbor S) (SectorNumber1 t)),
      (''FastRetrieval'', put_bool (SCbor S) (FastRetrieval1 t)),
      (''FundsReserved'', put_big (SCbor S) (FundsReserved1 t)),
      (''TransferChannelId'', put_ptr (CodecPut (ChannelCodec (SCbor S))) (TransferChannelId1 t)),
      (''ClientDealProposal'', CodecPut (OldClientProposalCodec S) (ClientDealProposal1 t)),
      (''AvailableForRetrieval'', put_bool (SCbor S) (AvailableForRetrieval1 t))]"

definition MinerDeal1_MarshalCBOR :: "storage_lib \<Rightarrow> MinerDeal1 option \<Rightarrow> written" where
  "MinerDeal1_MarshalCBOR S = marshal_map (SCbor S) 180 (\<lambda>t. MinerDeal1_writes_1 S t @ MinerDeal1_writes_2 S t @ MinerDeal1_writes_3 S t)"

definition MinerDeal1_reads_1 :: "storage_lib \<Rightarrow> (string \<times> (MinerDeal1 \<Rightarrow> MinerDeal1 reader)) list" where
  "MinerDeal1_reads_1 S =
     [(''Ref'', set_ptr (\<lambda>v t. t\<lparr>Ref1 := v\<rparr>) (get_ptr ''Ref'' (DataRef_UnmarshalCBOR S))),
      (''Miner'', set_field (\<lambda>v t. t\<lparr>Miner1 := v\<rparr>) (get_string (SCbor S))),
      (''State'', set_field (\<lambda>v t. t\<lparr>State1 := v\<rparr>) (get_enum (StatusOf S) (SCbor S))),
      (''Client'', set_field (\<lambda>v t. t\<lparr>Client1 := v\<rparr>) (get_string (SCbor S))),
      (''DealID'', set_field (\<lambda>v t. t\<lparr>DealID1 := v\<rparr>) (get_uint64 (SCbor S))),
      (''Message'', set_field (\<lambda>v t. t\<lparr>Message1 := v\<rparr>) (get_string (SCbor S))),
      (''PiecePath'', set_field (\<lambda>v t. t\<lparr>PiecePath1 := v\<rparr>) (get_string (SCbor S))),
      (''InboundCAR'', set_field (\<lambda>v t. t\<lparr>InboundCAR1 := v\<rparr>) (get_string (SCbor S))),
      (''PublishCid'', set_ptr (\<lambda>v t. t\<lparr>PublishCid1 := v\<rparr>) (get_cid (SCbor S) ''PublishCid''))]"

definition MinerDeal1_reads_2 :: "storage_lib \<Rightarrow> (string \<times> (MinerDeal1 \<Rightarrow> MinerDeal1 reader)) list" where
  "MinerDeal1_reads_2 S =
     [(''SlashEpoch'', set_field (\<lambda>v t. t\<lparr>SlashEpoch1 := v\<rparr>) (get_int64 (SCbor S))),
      (''AddFundsCid'', set_ptr (\<lambda>v t. t\<lparr>AddFundsCid1 := v\<rparr>) (get_cid (SCbor S) ''AddFundsCid'')),
      (''ProposalCid'', set_field (\<lambda>v t. t\<lparr>ProposalCid1 := v\<rparr>) (get_cid (SCbor S) ''ProposalCid'')),
      (''CreationTime'', set_field (\<lambda>v t. t\<lparr>CreationTime1 := v\<rparr>) (get_struct ''CreationTime'' (CodecGet (CborTime (SCbor S))))),
      (''MetadataPath'', set_field (\<lambda>v t. t\<lparr>MetadataPath1 := v\<rparr>) (get_string (SCbor S))),
      (''SectorNumber'', set_field (\<lambda>v t. t\<lparr>SectorNumber1 := v\<rparr>) (get_uint64 (SCbor S))),
      (''FastRetrieval'', set_field (\<lambda>v t. t\<lparr>FastRetrieval1 := v\<rparr>) (get_bool (SCbor S))),
      (''FundsReserved'', set_field (\<lambda>v t. t\<lparr>FundsReserved1 := v\<rparr>) (get_struct ''FundsReserved'' (get_big (SCbor S)))),
      (''TransferChannelId'', set_ptr (\<lambda>v t. t\<lparr>TransferChannelId1 := v\<rparr>) (get_ptr ''TransferChannelId'' (CodecGet (ChannelCodec (SCbor S)))))]"

definition MinerDeal1_reads_3 :: "storage_lib \<Rightarrow> (string \<times> (MinerDeal1 \<Rightarrow> MinerDeal1 reader)) list" where
  "MinerDeal1_reads_3 S =
     [(''ClientDealProposal'', set_field (\<lambda>v t. t\<lparr>ClientDealProposal1 := v\<rparr>) (get_struct ''ClientDealProposal'' (CodecGet (OldClientProposalCodec S)))),
      (''AvailableForRetrieval'', set_field (\<lambda>v t. t\<lparr>AvailableForRetrieval1 := v\<rparr>) (get_bool (SCbor S)))]"

definition MinerDeal1_UnmarshalCBOR :: "storage_lib \<Rightarrow> MinerDeal1 reader" where
  "MinerDeal1_UnmarshalCBOR S = unmarshal_map (SCbor S) ''MinerDeal1'' \<lparr>ClientDealProposal1 = (DealProposal_zero, []), ProposalCid1 = [], AddFundsCid1 = None, PublishCid1 = None, Miner1 = [], Client1 = [], State1 = StorageDealUnknown, PiecePath1 = [], MetadataPath1 = [], SlashEpoch1 = 0, FastRetrieval1 = False, Message1 = [], FundsReserved1 = None, Ref1 = None, AvailableForRetrieval1 = False, DealID1 = 0, CreationTime1 = 0, TransferChannelId1 = None, SectorNumber1 = 0, InboundCAR1 = []\<rparr> (MinerDeal1_reads_1 S @ MinerDeal1_reads_2 S @ MinerDeal1_reads_3 S)"

definition MinerDeal1_storable :: "MinerDeal1 \<Rightarrow> bool" where
  "MinerDeal1_storable t \<longleftrightarrow> int64_range (SlashEpoch1 t) \<and> (FundsReserved1 t) \<noteq> None"

definition StorageDataTransferVoucher_MarshalCBOR :: "storage_lib \<Rightarrow> cid option \<Rightarrow> written" where
  "StorageDataTransferVoucher_MarshalCBOR S = marshal_tuple 129 (\<lambda>t.
     [put_cid (SCbor S) ''Proposal'' t])"

definition StorageDataTransferVoucher_UnmarshalCBOR :: "storage_lib \<Rightarrow> cid reader" where
  "StorageDataTransferVoucher_UnmarshalCBOR S = unmarshal_tuple (SCbor S) cid_Undef 
     [set_field (\<lambda>v t. v) (get_cid (SCbor S) ''Proposal'')]"

subsection \<open>What is written is read back\<close>

context storage_types
begin

lemma Balance0_codec [codec]:
  "codec (Balance0_MarshalCBOR S (Some t)) (Balance0_UnmarshalCBOR S) t"
  unfolding Balance0_MarshalCBOR_def Balance0_UnmarshalCBOR_def
  by (cases t) (rule codec | simp; fail)+

lemma StorageAsk0_codec [codec]:
  "StorageAsk0_storable t \<Longrightarrow> codec (StorageAsk0_MarshalCBOR S (Some t)) (StorageAsk0_UnmarshalCBOR S) t"
  unfolding StorageAsk0_MarshalCBOR_def StorageAsk0_UnmarshalCBOR_def StorageAsk0_storable_def
  by (cases t) (rule codec | simp; fail)+

lemma StorageAsk0_ptr [codec]:
  "(\<And>v. x = Some v \<Longrightarrow> StorageAsk0_storable v) \<Longrightarrow> upd None t = t \<Longrightarrow>
   codec (StorageAsk0_MarshalCBOR S x) (set_ptr upd (get_ptr f (StorageAsk0_UnmarshalCBOR S)) t) (upd x t)"
  by (rule codec_ptrI) (simp add: StorageAsk0_MarshalCBOR_def marshal_tuple_def, (rule codec | simp; fail)+,
    simp add: StorageAsk0_MarshalCBOR_def, rule nonnull_tuple, simp_all)

lemma SignedStorageAsk0_codec [codec]:
  "SignedStorageAsk0_storable t \<Longrightarrow> codec (SignedStorageAsk0_MarshalCBOR S (Some t)) (SignedStorageAsk0_UnmarshalCBOR S) t"
  unfolding SignedStorageAsk0_MarshalCBOR_def SignedStorageAsk0_UnmarshalCBOR_def SignedStorageAsk0_storable_def
  by (cases t) (rule codec | simp; fail)+

lemma SignedStorageAsk0_ptr [codec]:
  "(\<And>v. x = Some v \<Longrightarrow> SignedStorageAsk0_storable v) \<Longrightarrow> upd None t = t \<Longrightarrow>
   codec (SignedStorageAsk0_MarshalCBOR S x) (set_ptr upd (get_ptr f (SignedStorageAsk0_UnmarshalCBOR S)) t) (upd x t)"
  by (rule codec_ptrI) (simp add: SignedStorageAsk0_MarshalCBOR_def marshal_tuple_def, (rule codec | simp; fail)+,
    simp add: SignedStorageAsk0_MarshalCBOR_def, rule nonnull_tuple, simp_all)

lemma DataRef0_codec [codec]:
  "codec (DataRef0_MarshalCBOR S (Some t)) (DataRef0_UnmarshalCBOR S) t"
  unfolding DataRef0_MarshalCBOR_def DataRef0_UnmarshalCBOR_def
  by (cases t) (rule codec | simp; fail)+

lemma DataRef0_ptr [codec]:
  "upd None t = t \<Longrightarrow>
   codec (DataRef0_MarshalCBOR S x) (set_ptr upd (get_ptr f (DataRef0_UnmarshalCBOR S)) t) (upd x t)"
  by (rule codec_ptrI) (simp add: DataRef0_MarshalCBOR_def marshal_tuple_def, (rule codec | simp; fail)+,
    simp add: DataRef0_MarshalCBOR_def, rule nonnull_tuple, simp_all)

lemma ProviderDealState0_codec [codec]:
  "codec (ProviderDealState0_MarshalCBOR S (Some t)) (ProviderDealState0_UnmarshalCBOR S) t"
  unfolding ProviderDealState0_MarshalCBOR_def ProviderDealState0_UnmarshalCBOR_def
  by (cases t) (rule codec | simp; fail)+

lemma AskRequest0_codec [codec]:
  "codec (AskRequest0_MarshalCBOR S (Some t)) (AskRequest0_UnmarshalCBOR S) t"
  unfolding AskRequest0_MarshalCBOR_def AskRequest0_UnmarshalCBOR_def
  by (rule codec | simp; fail)+

lemma AskResponse0_codec [codec]:
  "AskResponse0_storable t \<Longrightarrow> codec (AskResponse0_MarshalCBOR S (Some t)) (AskResponse0_UnmarshalCBOR S) t"
  unfolding AskResponse0_MarshalCBOR_def AskResponse0_UnmarshalCBOR_def AskResponse0_storable_def
  by (rule codec | simp; fail)+

lemma Proposal0_codec [codec]:
  "codec (Proposal0_MarshalCBOR S (Some t)) (Proposal0_UnmarshalCBOR S) t"
  unfolding Proposal0_MarshalCBOR_def Proposal0_UnmarshalCBOR_def
  by (cases t) (rule codec | simp; fail)+

lemma Response0_codec [codec]:
  "codec (Response0_MarshalCBOR S (Some t)) (Response0_UnmarshalCBOR S) t"
  unfolding Response0_MarshalCBOR_def Response0_UnmarshalCBOR_def
  by (cases t) (rule codec | simp; fail)+

lemma SignedResponse0_codec [codec]:
  "codec (SignedResponse0_MarshalCBOR S (Some t)) (SignedResponse0_UnmarshalCBOR S) t"
  unfolding SignedResponse0_MarshalCBOR_def SignedResponse0_UnmarshalCBOR_def
  by (cases t) (rule codec | simp; fail)+

lemma DealStatusRequest0_codec [codec]:
  "codec (DealStatusRequest0_MarshalCBOR S (Some t)) (DealStatusRequest0_UnmarshalCBOR S) t"
  unfolding DealStatusRequest0_MarshalCBOR_def DealStatusRequest0_UnmarshalCBOR_def
  by (cases t) (rule codec | simp; fail)+

lemma DealStatusResponse0_codec [codec]:
  "codec (DealStatusResponse0_MarshalCBOR S (Some t)) (DealStatusResponse0_UnmarshalCBOR S) t"
  unfolding DealStatusResponse0_MarshalCBOR_def DealStatusResponse0_UnmarshalCBOR_def
  by (cases t) (rule codec | simp; fail)+

lemma MinerDeal0_codec [codec]:
  "MinerDeal0_storable t \<Longrightarrow> codec (MinerDeal0_MarshalCBOR S (Some t)) (MinerDeal0_UnmarshalCBOR S) t"
  unfolding MinerDeal0_MarshalCBOR_def MinerDeal0_UnmarshalCBOR_def MinerDeal0_writes_1_def MinerDeal0_writes_2_def MinerDeal0_reads_1_def MinerDeal0_reads_2_def append.simps MinerDeal0_storable_def
  by (cases t) (rule codec | simp; fail)+

lemma ClientDeal0_codec [codec]:
  "ClientDeal0_storable t \<Longrightarrow> codec (ClientDeal0_MarshalCBOR S (Some t)) (ClientDeal0_UnmarshalCBOR S) t"
  unfolding ClientDeal0_MarshalCBOR_def ClientDeal0_UnmarshalCBOR_def ClientDeal0_reads_1_def ClientDeal0_reads_2_def append.simps ClientDeal0_storable_def
  by (cases t) (rule codec | simp; fail)+

lemma Proposal1_codec [codec]:
  "codec (Proposal1_MarshalCBOR S (Some t)) (Proposal1_UnmarshalCBOR S) t"
  unfolding Proposal1_MarshalCBOR_def Proposal1_UnmarshalCBOR_def
  by (cases t) (rule codec | simp; fail)+

lemma MinerDeal1_codec [codec]:
  "MinerDeal1_storable t \<Longrightarrow> codec (MinerDeal1_MarshalCBOR S (Some t)) (MinerDeal1_UnmarshalCBOR S) t"
  unfolding MinerDeal1_MarshalCBOR_def MinerDeal1_UnmarshalCBOR_def MinerDeal1_writes_1_def MinerDeal1_writes_2_def MinerDeal1_writes_3_def MinerDeal1_reads_1_def MinerDeal1_reads_2_def MinerDeal1_reads_3_def append.simps MinerDeal1_storable_def
  by (cases t) (rule codec | simp; fail)+

lemma StorageDataTransferVoucher_codec [codec]:
  "codec (StorageDataTransferVoucher_MarshalCBOR S (Some t)) (StorageDataTransferVoucher_UnmarshalCBOR S) t"
  unfolding StorageDataTransferVoucher_MarshalCBOR_def StorageDataTransferVoucher_UnmarshalCBOR_def
  by (rule codec | simp; fail)+

end


definition sample_old_md :: MinerDeal0 where
  "sample_old_md = \<lparr>ClientDealProposal0 = (DealProposal_zero, ''sig''), ProposalCid0 = ''prop'', AddFundsCid0 = None,
     PublishCid0 = Some ''msg'', Miner0 = ''m'', Client0 = ''c'', State0 = StorageDealStaged, PiecePath0 = ''/piece'', MetadataPath0 = [],
     SlashEpoch0 = -1, FastRetrieval0 = True, Message0 = ''waiting'', StoreID0 = Some 3, FundsReserved0 = Some 7, Ref0 = None,
     AvailableForRetrieval0 = False, DealID0 = 12, CreationTime0 = 5\<rparr>"

definition sample_mid_md :: MinerDeal1 where
  "sample_mid_md = \<lparr>ClientDealProposal1 = (DealProposal_zero, ''sig''), ProposalCid1 = ''prop'', AddFundsCid1 = None,
     PublishCid1 = Some ''msg'', Miner1 = ''m'', Client1 = ''c'', State1 = StorageDealStaged, PiecePath1 = ''/piece'', MetadataPath1 = [],
     SlashEpoch1 = -1, FastRetrieval1 = True, Message1 = ''waiting'', FundsReserved1 = Some 7, Ref1 = None,
     AvailableForRetrieval1 = False, DealID1 = 12, CreationTime1 = 5, TransferChannelId1 = None, SectorNumber1 = 0, InboundCAR1 = []\<rparr>"

definition sample_upgraded_md :: MinerDeal where
  "sample_upgraded_md = sample_stored_md\<lparr>MinerDeal.State := StorageDealStaged, PiecePath := ''/piece'',
     MinerDeal.DealID := 12, MinerDeal.TransferChannelId := None, InboundCAR := []\<rparr>"

lemma sample_upgrade_runs:
  "MigrateMinerDeal0To1 sample_old_md = Inr sample_mid_md" "MigrateMinerDeal1To2 sample_labels sample_mid_md = Inr sample_upgraded_md"
  by (simp_all add: MigrateMinerDeal0To1_def MigrateDataRef0To1_def sample_old_md_def sample_mid_md_def MigrateMinerDeal1To2_def
    MigrateClientDealProposal0To1_def sample_labels_def sample_upgraded_md_def sample_stored_md_def Let_def DealProposal_zero_def)

lemma sample_upgrade_written:
  "\<not> isl (MinerDeal0_MarshalCBOR sample_storage (Some sample_old_md))"
  "\<not> isl (MinerDeal1_MarshalCBOR sample_storage (Some sample_mid_md))"
  "\<not> isl (MinerDeal_MarshalCBOR sample_storage (Some sample_upgraded_md))"
  by (simp add: MinerDeal0_MarshalCBOR_def MinerDeal0_writes_1_def MinerDeal0_writes_2_def sample_old_md_def DataRef0_MarshalCBOR_def
      sample_storage_cbor put_defs)
    (simp add: MinerDeal1_MarshalCBOR_def MinerDeal1_writes_1_def MinerDeal1_writes_2_def MinerDeal1_writes_3_def
      sample_mid_md_def DataRef_MarshalCBOR_def sample_storage_cbor put_defs,
     simp add: MinerDeal_MarshalCBOR_def MinerDeal_writes_1_def MinerDeal_writes_2_def MinerDeal_writes_3_def
      sample_upgraded_md_def sample_stored_md_def DataRef_MarshalCBOR_def sample_storage_cbor put_defs)


end
