(* ===== verification/Piece_Codec.thy ===== *)
theory Piece_Codec
  imports Cbor_Sample Piece_Store
begin

section \<open>How the piece store is stored\<close>

text \<open>
  The codecs of the piece store's records (\<open>piecestore/types_cbor_gen.go\<close>), their old versions with the
  conversion (\<open>piecestore/migrations\<close>), and the file of block metadata that is written while a CAR is
  made (\<open>storagemarket/impl/blockrecorder\<close>).
\<close>

subsection \<open>The records of the piece store\<close>

definition DealInfo_MarshalCBOR :: "cbor_lib \<Rightarrow> DealInfo option \<Rightarrow> written" where
  "DealInfo_MarshalCBOR B = marshal_map B 164 (\<lambda>t.
     [(''DealID'', put_uint64 B (InfoDealID t)),
      (''Length'', put_uint64 B (Length t)),
      (''Offset'', put_uint64 B (Offset t)),
      (''SectorID'', put_uint64 B (SectorID t))])"

definition DealInfo_UnmarshalCBOR :: "cbor_lib \<Rightarrow> DealInfo reader" where
  "DealInfo_UnmarshalCBOR B = unmarshal_map B ''DealInfo'' \<lparr>InfoDealID = 0, SectorID = 0, Offset = 0, Length = 0\<rparr> 
     [(''DealID'', set_field (\<lambda>v t. t\<lparr>InfoDealID := v\<rparr>) (get_uint64 B)),
      (''Length'', set_field (\<lambda>v t. t\<lparr>Length := v\<rparr>) (get_uint64 B)),
      (''Offset'', set_field (\<lambda>v t. t\<lparr>Offset := v\<rparr>) (get_uint64 B)),
      (''SectorID'', set_field (\<lambda>v t. t\<lparr>SectorID := v\<rparr>) (get_uint64 B))]"

definition PieceInfo_MarshalCBOR :: "cbor_lib \<Rightarrow> PieceInfo option \<Rightarrow> written" where
  "PieceInfo_MarshalCBOR B = marshal_map B 162 (\<lambda>t.
     [(''Deals'', put_slice B ''Deals'' (\<lambda>v. DealInfo_MarshalCBOR B (Some v)) (Deals t)),
      (''PieceCID'', put_cid B ''PieceCID'' (InfoPieceCID t))])"

definition PieceInfo_UnmarshalCBOR :: "cbor_lib \<Rightarrow> PieceInfo reader" where
  "PieceInfo_UnmarshalCBOR B = unmarshal_map B ''PieceInfo'' \<lparr>InfoPieceCID = cid_Undef, Deals = []\<rparr> 
     [(''Deals'', set_slice B ''Deals'' (\<lambda>v t. t\<lparr>Deals := v\<rparr>) (DealInfo_UnmarshalCBOR B)),
      (''PieceCID'', set_field (\<lambda>v t. t\<lparr>InfoPieceCID := v\<rparr>) (get_cid B ''PieceCID''))]"

definition BlockLocation_MarshalCBOR :: "cbor_lib \<Rightarrow> BlockLocation option \<Rightarrow> written" where
  "BlockLocation_MarshalCBOR B = marshal_map B 162 (\<lambda>t.
     [(''BlockSize'', put_uint64 B (BlockSize t)),
      (''RelOffset'', put_uint64 B (RelOffset t))])"

definition BlockLocation_UnmarshalCBOR :: "cbor_lib \<Rightarrow> BlockLocation reader" where
  "BlockLocation_UnmarshalCBOR B = unmarshal_map B ''BlockLocation'' \<lparr>RelOffset = 0, BlockSize = 0\<rparr> 
     [(''BlockSize'', set_field (\<lambda>v t. t\<lparr>BlockSize := v\<rparr>) (get_uint64 B)),
      (''RelOffset'', set_field (\<lambda>v t. t\<lparr>RelOffset := v\<rparr>) (get_uint64 B))]"

definition PieceBlockLocation_MarshalCBOR :: "cbor_lib \<Rightarrow> PieceBlockLocation option \<Rightarrow> written" where
  "PieceBlockLocation_MarshalCBOR B = marshal_map B 162 (\<lambda>t.
     [(''PieceCID'', put_cid B ''PieceCID'' (LocationPieceCID t)),
      (''BlockLocation'', BlockLocation_MarshalCBOR B (Some (Location t)))])"

definition PieceBlockLocation_UnmarshalCBOR :: "cbor_lib \<Rightarrow> PieceBlockLocation reader" where
  "PieceBlockLocation_UnmarshalCBOR B = unmarshal_map B ''PieceBlockLocation'' \<lparr>Location = \<lparr>RelOffset = 0, BlockSize = 0\<rparr>, LocationPieceCID = cid_Undef\<rparr> 
     [(''PieceCID'', set_field (\<lambda>v t. t\<lparr>LocationPieceCID := v\<rparr>) (get_cid B ''PieceCID'')),
      (''BlockLocation'', set_field (\<lambda>v t. t\<lparr>Location := v\<rparr>) (get_struct ''BlockLocation'' (BlockLocation_UnmarshalCBOR B)))]"

definition CIDInfo_MarshalCBOR :: "cbor_lib \<Rightarrow> CIDInfo option \<Rightarrow> written" where
  "CIDInfo_MarshalCBOR B = marshal_map B 162 (\<lambda>t.
     [(''CID'', put_cid B ''CID'' (CID t)),
      (''PieceBlockLocations'', put_slice B ''PieceBlockLocations'' (\<lambda>v. PieceBlockLocation_MarshalCBOR B (Some v)) (PieceBlockLocations t))])"

definition CIDInfo_UnmarshalCBOR :: "cbor_lib \<Rightarrow> CIDInfo reader" where
  "CIDInfo_UnmarshalCBOR B = unmarshal_map B ''CIDInfo'' \<lparr>CID = cid_Undef, PieceBlockLocations = []\<rparr> 
     [(''CID'', set_field (\<lambda>v t. t\<lparr>CID := v\<rparr>) (get_cid B ''CID'')),
      (''PieceBlockLocations'', set_slice B ''PieceBlockLocations'' (\<lambda>v t. t\<lparr>PieceBlockLocations := v\<rparr>) (PieceBlockLocation_UnmarshalCBOR B))]"

subsection \<open>The old records\<close>

record DealInfo0 =
  DealID0 :: uint64
  SectorID0 :: uint64
  Offset0 :: uint64
  Length0 :: uint64

record BlockLocation0 =
  RelOffset0 :: uint64
  BlockSize0 :: uint64

record PieceBlockLocation0 =
  Location0 :: BlockLocation0
  LocationPieceCID0 :: cid

record CIDInfo0 =
  CID0 :: cid
  PieceBlockLocations0 :: "PieceBlockLocation0 list"

record PieceInfo0 =
  PieceCID0 :: cid
  Deals0 :: "DealInfo0 list"

definition MigratePieceInfo0To1 :: "PieceInfo0 \<Rightarrow> go_error + PieceInfo" where
  "MigratePieceInfo0To1 oldPi = Inr \<lparr>InfoPieceCID = PieceCID0 oldPi,
     Deals = map (\<lambda>oldDi. \<lparr>InfoDealID = DealID0 oldDi, SectorID = SectorID0 oldDi, Offset = Offset0 oldDi,
       Length = Length0 oldDi\<rparr>) (Deals0 oldPi)\<rparr>"

definition MigrateCidInfo0To1 :: "CIDInfo0 \<Rightarrow> go_error + CIDInfo" where
  "MigrateCidInfo0To1 oldCi = Inr \<lparr>CID = CID0 oldCi,
     PieceBlockLocations = map (\<lambda>oldPbl. \<lparr>Location = \<lparr>RelOffset = RelOffset0 (Location0 oldPbl),
       BlockSize = BlockSize0 (Location0 oldPbl)\<rparr>, LocationPieceCID = LocationPieceCID0 oldPbl\<rparr>)
       (PieceBlockLocations0 oldCi)\<rparr>"

definition DealInfo0_MarshalCBOR :: "cbor_lib \<Rightarrow> DealInfo0 option \<Rightarrow> written" where
  "DealInfo0_MarshalCBOR B = marshal_tuple 132 (\<lambda>t.
     [put_uint64 B (DealID0 t),
      put_uint64 B (SectorID0 t),
      put_uint64 B (Offset0 t),
      put_uint64 B (Length0 t)])"

definition DealInfo0_UnmarshalCBOR :: "cbor_lib \<Rightarrow> DealInfo0 reader" where
  "DealInfo0_UnmarshalCBOR B = unmarshal_tuple B \<lparr>DealID0 = 0, SectorID0 = 0, Offset0 = 0, Length0 = 0\<rparr> 
     [set_field (\<lambda>v t. t\<lparr>DealID0 := v\<rparr>) (get_uint64 B),
      set_field (\<lambda>v t. t\<lparr>SectorID0 := v\<rparr>) (get_uint64 B),
      set_field (\<lambda>v t. t\<lparr>Offset0 := v\<rparr>) (get_uint64 B),
      set_field (\<lambda>v t. t\<lparr>Length0 := v\<rparr>) (get_uint64 B)]"

definition PieceInfo0_MarshalCBOR :: "cbor_lib \<Rightarrow> PieceInfo0 option \<Rightarrow> written" where
  "PieceInfo0_MarshalCBOR B = marshal_tuple 130 (\<lambda>t.
     [put_cid B ''PieceCID'' (PieceCID0 t),
      put_slice B ''Deals'' (\<lambda>v. DealInfo0_MarshalCBOR B (Some v)) (Deals0 t)])"

definition PieceInfo0_UnmarshalCBOR :: "cbor_lib \<Rightarrow> PieceInfo0 reader" where
  "PieceInfo0_UnmarshalCBOR B = unmarshal_tuple B \<lparr>PieceCID0 = cid_Undef, Deals0 = []\<rparr> 
     [set_field (\<lambda>v t. t\<lparr>PieceCID0 := v\<rparr>) (get_cid B ''PieceCID''),
      set_slice B ''Deals'' (\<lambda>v t. t\<lparr>Deals0 := v\<rparr>) (DealInfo0_UnmarshalCBOR B)]"

definition BlockLocation0_MarshalCBOR :: "cbor_lib \<Rightarrow> BlockLocation0 option \<Rightarrow> written" where
  "BlockLocation0_MarshalCBOR B = marshal_tuple 130 (\<lambda>t.
     [put_uint64 B (RelOffset0 t),
      put_uint64 B (BlockSize0 t)])"

definition BlockLocation0_UnmarshalCBOR :: "cbor_lib \<Rightarrow> BlockLocation0 reader" where
  "BlockLocation0_UnmarshalCBOR B = unmarshal_tuple B \<lparr>RelOffset0 = 0, BlockSize0 = 0\<rparr> 
     [set_field (\<lambda>v t. t\<lparr>RelOffset0 := v\<rparr>) (get_uint64 B),
      set_field (\<lambda>v t. t\<lparr>BlockSize0 := v\<rparr>) (get_uint64 B)]"

definition PieceBlockLocation0_MarshalCBOR :: "cbor_lib \<Rightarrow> PieceBlockLocation0 option \<Rightarrow> written" where
  "PieceBlockLocation0_MarshalCBOR B = marshal_tuple 130 (\<lambda>t.
     [BlockLocation0_MarshalCBOR B (Some (Location0 t)),
      put_cid B ''PieceCID'' (LocationPieceCID0 t)])"

definition PieceBlockLocation0_UnmarshalCBOR :: "cbor_lib \<Rightarrow> PieceBlockLocation0 reader" where
  "PieceBlockLocation0_UnmarshalCBOR B = unmarshal_tuple B \<lparr>Location0 = \<lparr>RelOffset0 = 0, BlockSize0 = 0\<rparr>, LocationPieceCID0 = cid_Undef\<rparr> 
     [set_field (\<lambda>v t. t\<lparr>Location0 := v\<rparr>) (get_struct ''BlockLocation0'' (BlockLocation0_UnmarshalCBOR B)),
      set_field (\<lambda>v t. t\<lparr>LocationPieceCID0 := v\<rparr>) (get_cid B ''PieceCID'')]"

definition CIDInfo0_MarshalCBOR :: "cbor_lib \<Rightarrow> CIDInfo0 option \<Rightarrow> written" where
  "CIDInfo0_MarshalCBOR B = marshal_tuple 130 (\<lambda>t.
     [put_cid B ''CID'' (CID0 t),
      put_slice B ''PieceBlockLocations'' (\<lambda>v. PieceBlockLocation0_MarshalCBOR B (Some v)) (PieceBlockLocations0 t)])"

definition CIDInfo0_UnmarshalCBOR :: "cbor_lib \<Rightarrow> CIDInfo0 reader" where
  "CIDInfo0_UnmarshalCBOR B = unmarshal_tuple B \<lparr>CID0 = cid_Undef, PieceBlockLocations0 = []\<rparr> 
     [set_field (\<lambda>v t. t\<lparr>CID0 := v\<rparr>) (get_cid B ''CID''),
      set_slice B ''PieceBlockLocations'' (\<lambda>v t. t\<lparr>PieceBlockLocations0 := v\<rparr>) (PieceBlockLocation0_UnmarshalCBOR B)]"

subsection \<open>The metadata of blocks\<close>

record PieceBlockMetadata =
  MetaCID :: cid
  MetaOffset :: uint64
  MetaSize :: uint64

definition PieceBlockMetadata_MarshalCBOR :: "cbor_lib \<Rightarrow> PieceBlockMetadata option \<Rightarrow> written" where
  "PieceBlockMetadata_MarshalCBOR B = marshal_tuple 131 (\<lambda>t.
     [put_cid B ''CID'' (MetaCID t),
      put_uint64 B (MetaOffset t),
      put_uint64 B (MetaSize t)])"

definition PieceBlockMetadata_UnmarshalCBOR :: "cbor_lib \<Rightarrow> PieceBlockMetadata reader" where
  "PieceBlockMetadata_UnmarshalCBOR B = unmarshal_tuple B \<lparr>MetaCID = cid_Undef, MetaOffset = 0, MetaSize = 0\<rparr> 
     [set_field (\<lambda>v t. t\<lparr>MetaCID := v\<rparr>) (get_cid B ''CID''),
      set_field (\<lambda>v t. t\<lparr>MetaOffset := v\<rparr>) (get_uint64 B),
      set_field (\<lambda>v t. t\<lparr>MetaSize := v\<rparr>) (get_uint64 B)]"

text \<open>A block as the CAR library announces it: where its section starts, how long the section is, and its
  data.\<close>

record car_block =
  BlockCID :: cid
  BlockOffset :: uint64
  BlockSectionSize :: uint64
  BlockData :: string

definition RecordEachBlockTo :: "cbor_lib \<Rightarrow> car_block \<Rightarrow> written" where
  "RecordEachBlockTo B block = PieceBlockMetadata_MarshalCBOR B (Some
     \<lparr>MetaCID = BlockCID block,
      MetaOffset = BlockOffset block + BlockSectionSize block - of_nat (length (BlockData block)),
      MetaSize = of_nat (length (BlockData block))\<rparr>)"

partial_function (option) read_metadata ::
  "cbor_lib \<Rightarrow> string \<Rightarrow> PieceBlockMetadata list \<Rightarrow> (go_error + PieceBlockMetadata list) option" where
  "read_metadata B buf metadatas = (case PieceBlockMetadata_UnmarshalCBOR B buf of
     Inl err \<Rightarrow> Some (if err \<noteq> io_EOF then Inl err else Inr metadatas)
   | Inr (nextMetadata, buf') \<Rightarrow> read_metadata B buf' (metadatas @ [nextMetadata]))"

definition ReadBlockMetadata :: "cbor_lib \<Rightarrow> string \<Rightarrow> (go_error + PieceBlockMetadata list) option" where
  "ReadBlockMetadata B input = read_metadata B input []"

subsection \<open>What is written is read back\<close>

context cbor_codec
begin

lemma DealInfo_codec [codec]:
  "codec (DealInfo_MarshalCBOR B (Some t)) (DealInfo_UnmarshalCBOR B) t"
  unfolding DealInfo_MarshalCBOR_def DealInfo_UnmarshalCBOR_def
  by (cases t) (rule codec | simp; fail)+

lemma PieceInfo_codec [codec]:
  "codec (PieceInfo_MarshalCBOR B (Some t)) (PieceInfo_UnmarshalCBOR B) t"
  unfolding PieceInfo_MarshalCBOR_def PieceInfo_UnmarshalCBOR_def
  by (cases t) (rule codec | simp; fail)+

lemma PieceInfo_ptr [codec]:
  "upd None t = t \<Longrightarrow>
   codec (PieceInfo_MarshalCBOR B x) (set_ptr upd (get_ptr f (PieceInfo_UnmarshalCBOR B)) t) (upd x t)"
  by (rule codec_ptrI) (simp add: PieceInfo_MarshalCBOR_def marshal_map_def, (rule codec | simp; fail)+,
    simp add: PieceInfo_MarshalCBOR_def, rule nonnull_map, simp_all)

lemma BlockLocation_codec [codec]:
  "codec (BlockLocation_MarshalCBOR B (Some t)) (BlockLocation_UnmarshalCBOR B) t"
  unfolding BlockLocation_MarshalCBOR_def BlockLocation_UnmarshalCBOR_def
  by (cases t) (rule codec | simp; fail)+

lemma PieceBlockLocation_codec [codec]:
  "codec (PieceBlockLocation_MarshalCBOR B (Some t)) (PieceBlockLocation_UnmarshalCBOR B) t"
  unfolding PieceBlockLocation_MarshalCBOR_def PieceBlockLocation_UnmarshalCBOR_def
  by (cases t) (rule codec | simp; fail)+

lemma CIDInfo_codec [codec]:
  "codec (CIDInfo_MarshalCBOR B (Some t)) (CIDInfo_UnmarshalCBOR B) t"
  unfolding CIDInfo_MarshalCBOR_def CIDInfo_UnmarshalCBOR_def
  by (cases t) (rule codec | simp; fail)+

lemma DealInfo0_codec [codec]:
  "codec (DealInfo0_MarshalCBOR B (Some t)) (DealInfo0_UnmarshalCBOR B) t"
  unfolding DealInfo0_MarshalCBOR_def DealInfo0_UnmarshalCBOR_def
  by (cases t) (rule codec | simp; fail)+

lemma PieceInfo0_codec [codec]:
  "codec (PieceInfo0_MarshalCBOR B (Some t)) (PieceInfo0_UnmarshalCBOR B) t"
  unfolding PieceInfo0_MarshalCBOR_def PieceInfo0_UnmarshalCBOR_def
  by (cases t) (rule codec | simp; fail)+

lemma BlockLocation0_codec [codec]:
  "codec (BlockLocation0_MarshalCBOR B (Some t)) (BlockLocation0_UnmarshalCBOR B) t"
  unfolding BlockLocation0_MarshalCBOR_def BlockLocation0_UnmarshalCBOR_def
  by (cases t) (rule codec | simp; fail)+

lemma PieceBlockLocation0_codec [codec]:
  "codec (PieceBlockLocation0_MarshalCBOR B (Some t)) (PieceBlockLocation0_UnmarshalCBOR B) t"
  unfolding PieceBlockLocation0_MarshalCBOR_def PieceBlockLocation0_UnmarshalCBOR_def
  by (cases t) (rule codec | simp; fail)+

lemma CIDInfo0_codec [codec]:
  "codec (CIDInfo0_MarshalCBOR B (Some t)) (CIDInfo0_UnmarshalCBOR B) t"
  unfolding CIDInfo0_MarshalCBOR_def CIDInfo0_UnmarshalCBOR_def
  by (cases t) (rule codec | simp; fail)+

lemma PieceBlockMetadata_codec [codec]:
  "codec (PieceBlockMetadata_MarshalCBOR B (Some t)) (PieceBlockMetadata_UnmarshalCBOR B) t"
  unfolding PieceBlockMetadata_MarshalCBOR_def PieceBlockMetadata_UnmarshalCBOR_def
  by (cases t) (rule codec | simp; fail)+

lemma read_metadata_all:
  "put_values (map (\<lambda>m. PieceBlockMetadata_MarshalCBOR B (Some m)) ms) = Inr b \<Longrightarrow>
   read_metadata B b metadatas = Some (Inr (metadatas @ ms))"
proof (induction ms arbitrary: b metadatas)
  case Nil
  then have "PieceBlockMetadata_UnmarshalCBOR B b = Inl io_EOF"
    by (simp add: PieceBlockMetadata_UnmarshalCBOR_def unmarshal_tuple_def header_end)
  then show ?case by (subst read_metadata.simps) simp
next
  case (Cons m ms)
  from Cons.prems obtain b1 b2 where b: "PieceBlockMetadata_MarshalCBOR B (Some m) = Inr b1"
    "put_values (map (\<lambda>m. PieceBlockMetadata_MarshalCBOR B (Some m)) ms) = Inr b2" "b = b1 @ b2"
    by (auto split: on_err_splits)
  show ?case
    using codecD [OF PieceBlockMetadata_codec b(1), of b2] Cons.IH [OF b(2)]
    by (subst read_metadata.simps) (simp add: b(3))
qed

end

text \<open>
  What the piece store writes is what it reads back: the record of a piece and the record of a block that
  could be written are read from their bytes unchanged, whatever follows them; a record with more deals than
  the codec's limit cannot be written.
\<close>

theorem piece_records_roundtrip:
  assumes "cbor_codec B" and "PieceInfo_MarshalCBOR B (Some piece) = Inr bs" and "CIDInfo_MarshalCBOR B (Some info) = Inr cs"
  shows "PieceInfo_UnmarshalCBOR B (bs @ rest) = Inr (piece, rest) \<and> CIDInfo_UnmarshalCBOR B (cs @ rest) = Inr (info, rest) \<and>
    length (Deals piece) \<le> MaxLength B"
proof -
  have "length (Deals piece) \<le> MaxLength B"
    using assms(2) by (auto simp: PieceInfo_MarshalCBOR_def marshal_map_def put_slice_def split: on_err_splits if_splits)
  then show ?thesis
    using codecD [OF cbor_codec.PieceInfo_codec [OF assms(1)] assms(2)] codecD [OF cbor_codec.CIDInfo_codec [OF assms(1)] assms(3)]
    by simp
qed

definition sample_piece :: PieceInfo where
  "sample_piece = \<lparr>InfoPieceCID = ''p'', Deals = [\<lparr>InfoDealID = 1, SectorID = 2, Offset = 3, Length = 4\<rparr>]\<rparr>"

definition sample_info :: CIDInfo where
  "sample_info = \<lparr>CID = ''c'', PieceBlockLocations = [\<lparr>Location = \<lparr>RelOffset = 5, BlockSize = 6\<rparr>, LocationPieceCID = ''p''\<rparr>]\<rparr>"

lemma sample_piece_written:
  "PieceInfo_MarshalCBOR sample_cbor (Some sample_piece) = Inr (bytes_of (PieceInfo_MarshalCBOR sample_cbor (Some sample_piece)))"
  "CIDInfo_MarshalCBOR sample_cbor (Some sample_info) = Inr (bytes_of (CIDInfo_MarshalCBOR sample_cbor (Some sample_info)))"
  by (rule written_bytes, simp add: PieceInfo_MarshalCBOR_def DealInfo_MarshalCBOR_def sample_piece_def put_defs)
    (rule written_bytes, simp add: CIDInfo_MarshalCBOR_def PieceBlockLocation_MarshalCBOR_def BlockLocation_MarshalCBOR_def
      sample_info_def put_defs)

theorem piece_records_roundtrip_witness:
  "PieceInfo_UnmarshalCBOR sample_cbor (bytes_of (PieceInfo_MarshalCBOR sample_cbor (Some sample_piece)) @ ''more'') =
     Inr (sample_piece, ''more'') \<and>
   CIDInfo_UnmarshalCBOR sample_cbor (bytes_of (CIDInfo_MarshalCBOR sample_cbor (Some sample_info)) @ ''more'') =
     Inr (sample_info, ''more'') \<and> length (Deals sample_piece) \<le> MaxLength sample_cbor"
  by (rule piece_records_roundtrip [OF sample_cbor.cbor_codec_axioms sample_piece_written])

text \<open>
  The metadata that is recorded of the blocks of a CAR, one after the other, is read back as a whole and in
  order, with the place of the data of each block behind the head of its section.
\<close>

lemma block_metadata_read_back:
  assumes "cbor_codec B" and "put_values (map (RecordEachBlockTo B) blocks) = Inr file"
  shows "ReadBlockMetadata B file = Some (Inr (map (\<lambda>block. \<lparr>MetaCID = BlockCID block,
    MetaOffset = BlockOffset block + BlockSectionSize block - of_nat (length (BlockData block)),
    MetaSize = of_nat (length (BlockData block))\<rparr>) blocks))"
proof -
  let ?ms = "map (\<lambda>block. \<lparr>MetaCID = BlockCID block,
    MetaOffset = BlockOffset block + BlockSectionSize block - of_nat (length (BlockData block)),
    MetaSize = of_nat (length (BlockData block))\<rparr>) blocks"
  have "put_values (map (\<lambda>m. PieceBlockMetadata_MarshalCBOR B (Some m)) ?ms) = Inr file"
    using assms(2) by (simp add: RecordEachBlockTo_def [abs_def] comp_def)
  from cbor_codec.read_metadata_all [OF assms(1) this] show ?thesis by (simp add: ReadBlockMetadata_def)
qed

text \<open>The conversion of an old record keeps everything in it.\<close>

lemma MigratePieceInfo0To1_keeps:
  "MigratePieceInfo0To1 oldPi = Inr p \<Longrightarrow> InfoPieceCID p = PieceCID0 oldPi \<and> length (Deals p) = length (Deals0 oldPi) \<and>
   (i < length (Deals p) \<longrightarrow> InfoDealID (Deals p ! i) = DealID0 (Deals0 oldPi ! i) \<and>
     Offset (Deals p ! i) = Offset0 (Deals0 oldPi ! i) \<and> Length (Deals p ! i) = Length0 (Deals0 oldPi ! i))"
  by (auto simp: MigratePieceInfo0To1_def)

end
