(* ===== verification/Retrieval_Codec.thy ===== *)
theory Retrieval_Codec
  imports Piece_Codec Retrieval_Types
begin

section \<open>How the retrieval market is stored and sent\<close>

text \<open>
  The codecs of the retrieval market's records and messages (\<open>retrievalmarket/types_cbor_gen.go\<close>), of a list
  of peers (\<open>discovery/types_cbor_gen.go\<close>), and of a selector (\<open>retrievalmarket/bindnodeoptions.go\<close>). A
  selector is the bytes of its node's representation, \<open>None\<close> being a nil node as well as the node of a
  null, which \<open>IsNull\<close> does not tell apart; \<open>dagcbor_Encode\<close> and \<open>dagcbor_Decode\<close> are the IPLD codec,
  \<open>Deferred_UnmarshalCBOR\<close> takes the bytes of one value off the input. A status is a number there and a name
  here: the conversions are parameters that give back the name of a number that has one.
\<close>

record retrieval_lib =
  RCbor :: cbor_lib
  dagcbor_Encode :: "string option \<Rightarrow> written"
  dagcbor_Decode :: "string \<Rightarrow> go_error + string option"
  Deferred_UnmarshalCBOR :: "string reader"
  VoucherCodec :: "string wire_codec"
  DealStatusOf :: "uint64 \<Rightarrow> DealStatus"
  QueryResponseStatusOf :: "uint64 \<Rightarrow> QueryResponseStatus"
  QueryItemStatusOf :: "uint64 \<Rightarrow> QueryItemStatus"

primrec QueryResponseStatus_code :: "QueryResponseStatus \<Rightarrow> nat" where
  "QueryResponseStatus_code QueryResponseAvailable = 0"
| "QueryResponseStatus_code QueryResponseUnavailable = 1"
| "QueryResponseStatus_code QueryResponseError = 2"

primrec QueryItemStatus_code :: "QueryItemStatus \<Rightarrow> nat" where
  "QueryItemStatus_code QueryItemAvailable = 0"
| "QueryItemStatus_code QueryItemUnavailable = 1"
| "QueryItemStatus_code QueryItemUnknown = 2"

locale retrieval_types = cbor_codec "RCbor R" for R :: retrieval_lib +
  assumes node_taken: "dagcbor_Encode R n = Inr b \<Longrightarrow> Deferred_UnmarshalCBOR R (b @ rest) = Inr (b, rest)"
    and node_decoded: "dagcbor_Encode R n = Inr b \<Longrightarrow> dagcbor_Decode R b = Inr n"
    and voucher_exact: "exact (VoucherCodec R)"
    and status_named [simp]: "DealStatusOf R (of_nat (DealStatus_code s)) = s"
    and response_named [simp]: "QueryResponseStatusOf R (of_nat (QueryResponseStatus_code q)) = q"
    and item_named [simp]: "QueryItemStatusOf R (of_nat (QueryItemStatus_code i)) = i"

subsection \<open>The codecs\<close>

text \<open>A nil node is written as null, and so is a nil pointer to one.\<close>

definition Node_MarshalCBOR :: "retrieval_lib \<Rightarrow> string option option \<Rightarrow> written" where
  "Node_MarshalCBOR R sn = dagcbor_Encode R (case sn of None \<Rightarrow> None | Some n \<Rightarrow> n)"

definition Node_UnmarshalCBOR :: "retrieval_lib \<Rightarrow> string option reader" where
  "Node_UnmarshalCBOR R r = on_err (Deferred_UnmarshalCBOR R r) Inl
     (\<lambda>(raw, r'). on_err (dagcbor_Decode R raw) Inl (\<lambda>n. Inr (n, r')))"

definition QueryParams_MarshalCBOR :: "retrieval_lib \<Rightarrow> QueryParams option \<Rightarrow> written" where
  "QueryParams_MarshalCBOR R = marshal_map (RCbor R) 161 (\<lambda>t.
     [(''PieceCID'', put_ptr (put_cid (RCbor R) ''PieceCID'') (QueryPieceCID t))])"

definition QueryParams_UnmarshalCBOR :: "retrieval_lib \<Rightarrow> QueryParams reader" where
  "QueryParams_UnmarshalCBOR R = unmarshal_map (RCbor R) ''QueryParams'' \<lparr>QueryPieceCID = None\<rparr> 
     [(''PieceCID'', set_ptr (\<lambda>v t. t\<lparr>QueryPieceCID := v\<rparr>) (get_cid (RCbor R) ''PieceCID''))]"

definition Query_MarshalCBOR :: "retrieval_lib \<Rightarrow> Query option \<Rightarrow> written" where
  "Query_MarshalCBOR R = marshal_map (RCbor R) 162 (\<lambda>t.
     [(''PayloadCID'', put_cid (RCbor R) ''PayloadCID'' (QueryPayloadCID t)),
      (''QueryParams'', QueryParams_MarshalCBOR R (Some (QueryParamsOf t)))])"

definition Query_UnmarshalCBOR :: "retrieval_lib \<Rightarrow> Query reader" where
  "Query_UnmarshalCBOR R = unmarshal_map (RCbor R) ''Query'' \<lparr>QueryPayloadCID = cid_Undef, QueryParamsOf = \<lparr>QueryPieceCID = None\<rparr>\<rparr> 
     [(''PayloadCID'', set_field (\<lambda>v t. t\<lparr>QueryPayloadCID := v\<rparr>) (get_cid (RCbor R) ''PayloadCID'')),
      (''QueryParams'', set_field (\<lambda>v t. t\<lparr>QueryParamsOf := v\<rparr>) (get_struct ''QueryParams'' (QueryParams_UnmarshalCBOR R)))]"

definition QueryResponse_writes_1 :: "retrieval_lib \<Rightarrow> QueryResponse \<Rightarrow> (string \<times> written) list" where
  "QueryResponse_writes_1 R t =
     [(''Size'', put_uint64 (RCbor R) (QuerySize t)),
      (''Status'', put_uint64 (RCbor R) (of_nat (QueryResponseStatus_code (QueryStatus t)))),
      (''Message'', put_string (RCbor R) ''Message'' (QueryMessage t)),
      (''UnsealPrice'', CodecPut (BigInt (RCbor R)) (QueryUnsealPrice t)),
      (''PieceCIDFound'', put_uint64 (RCbor R) (of_nat (QueryItemStatus_code (PieceCIDFound t)))),
      (''PaymentAddress'', CodecPut (Address (RCbor R)) (PaymentAddress t)),
      (''MinPricePerByte'', CodecPut (BigInt (RCbor R)) (MinPricePerByte t)),
      (''MaxPaymentInterval'', put_uint64 (RCbor R) (MaxPaymentInterval t))]"

definition QueryResponse_writes_2 :: "retrieval_lib \<Rightarrow> QueryResponse \<Rightarrow> (string \<times> written) list" where
  "QueryResponse_writes_2 R t =
     [(''MaxPaymentIntervalIncrease'', put_uint64 (RCbor R) (MaxPaymentIntervalIncrease t))]"

definition QueryResponse_MarshalCBOR :: "retrieval_lib \<Rightarrow> QueryResponse option \<Rightarrow> written" where
  "QueryResponse_MarshalCBOR R = marshal_map (RCbor R) 169 (\<lambda>t. QueryResponse_writes_1 R t @ QueryResponse_writes_2 R t)"

definition QueryResponse_UnmarshalCBOR :: "retrieval_lib \<Rightarrow> QueryResponse reader" where
  "QueryResponse_UnmarshalCBOR R = unmarshal_map (RCbor R) ''QueryResponse'' \<lparr>QueryStatus = QueryResponseAvailable, PieceCIDFound = QueryItemAvailable, QuerySize = 0, PaymentAddress = address_Undef, MinPricePerByte = 0, MaxPaymentInterval = 0, MaxPaymentIntervalIncrease = 0, QueryMessage = [], QueryUnsealPrice = 0\<rparr> 
     [(''Size'', set_field (\<lambda>v t. t\<lparr>QuerySize := v\<rparr>) (get_uint64 (RCbor R))),
      (''Status'', set_field (\<lambda>v t. t\<lparr>QueryStatus := v\<rparr>) (get_enum (QueryResponseStatusOf R) (RCbor R))),
      (''Message'', set_field (\<lambda>v t. t\<lparr>QueryMessage := v\<rparr>) (get_string (RCbor R))),
      (''UnsealPrice'', set_field (\<lambda>v t. t\<lparr>QueryUnsealPrice := v\<rparr>) (get_struct ''UnsealPrice'' (CodecGet (BigInt (RCbor R))))),
      (''PieceCIDFound'', set_field (\<lambda>v t. t\<lparr>PieceCIDFound := v\<rparr>) (get_enum (QueryItemStatusOf R) (RCbor R))),
      (''PaymentAddress'', set_field (\<lambda>v t. t\<lparr>PaymentAddress := v\<rparr>) (get_struct ''PaymentAddress'' (CodecGet (Address (RCbor R))))),
      (''MinPricePerByte'', set_field (\<lambda>v t. t\<lparr>MinPricePerByte := v\<rparr>) (get_struct ''MinPricePerByte'' (CodecGet (BigInt (RCbor R))))),
      (''MaxPaymentInterval'', set_field (\<lambda>v t. t\<lparr>MaxPaymentInterval := v\<rparr>) (get_uint64 (RCbor R))),
      (''MaxPaymentIntervalIncrease'', set_field (\<lambda>v t. t\<lparr>MaxPaymentIntervalIncrease := v\<rparr>) (get_uint64 (RCbor R)))]"

definition Params_MarshalCBOR :: "retrieval_lib \<Rightarrow> Params option \<Rightarrow> written" where
  "Params_MarshalCBOR R = marshal_map (RCbor R) 166 (\<lambda>t.
     [(''PieceCID'', put_ptr (put_cid (RCbor R) ''PieceCID'') (ParamsPieceCID t)),
      (''Selector'', Node_MarshalCBOR R (Some (SelectorOf t))),
      (''UnsealPrice'', CodecPut (BigInt (RCbor R)) (UnsealPrice t)),
      (''PricePerByte'', CodecPut (BigInt (RCbor R)) (PricePerByte t)),
      (''PaymentInterval'', put_uint64 (RCbor R) (PaymentInterval t)),
      (''PaymentIntervalIncrease'', put_uint64 (RCbor R) (PaymentIntervalIncrease t))])"

definition Params_UnmarshalCBOR :: "retrieval_lib \<Rightarrow> Params reader" where
  "Params_UnmarshalCBOR R = unmarshal_map (RCbor R) ''Params'' \<lparr>SelectorOf = None, ParamsPieceCID = None, PricePerByte = 0, PaymentInterval = 0, PaymentIntervalIncrease = 0, UnsealPrice = 0\<rparr> 
     [(''PieceCID'', set_ptr (\<lambda>v t. t\<lparr>ParamsPieceCID := v\<rparr>) (get_cid (RCbor R) ''PieceCID'')),
      (''Selector'', set_field (\<lambda>v t. t\<lparr>SelectorOf := v\<rparr>) (get_struct ''Selector'' (Node_UnmarshalCBOR R))),
      (''UnsealPrice'', set_field (\<lambda>v t. t\<lparr>UnsealPrice := v\<rparr>) (get_struct ''UnsealPrice'' (CodecGet (BigInt (RCbor R))))),
      (''PricePerByte'', set_field (\<lambda>v t. t\<lparr>PricePerByte := v\<rparr>) (get_struct ''PricePerByte'' (CodecGet (BigInt (RCbor R))))),
      (''PaymentInterval'', set_field (\<lambda>v t. t\<lparr>PaymentInterval := v\<rparr>) (get_uint64 (RCbor R))),
      (''PaymentIntervalIncrease'', set_field (\<lambda>v t. t\<lparr>PaymentIntervalIncrease := v\<rparr>) (get_uint64 (RCbor R)))]"

definition DealProposal_MarshalCBOR :: "retrieval_lib \<Rightarrow> DealProposal option \<Rightarrow> written" where
  "DealProposal_MarshalCBOR R = marshal_map (RCbor R) 163 (\<lambda>t.
     [(''ID'', put_uint64 (RCbor R) (ProposalID t)),
      (''Params'', Params_MarshalCBOR R (Some (ParamsOf t))),
      (''PayloadCID'', put_cid (RCbor R) ''PayloadCID'' (PayloadCID t))])"

definition DealProposal_UnmarshalCBOR :: "retrieval_lib \<Rightarrow> DealProposal reader" where
  "DealProposal_UnmarshalCBOR R = unmarshal_map (RCbor R) ''DealProposal'' \<lparr>PayloadCID = cid_Undef, ProposalID = 0, ParamsOf = \<lparr>SelectorOf = None, ParamsPieceCID = None, PricePerByte = 0, PaymentInterval = 0, PaymentIntervalIncrease = 0, UnsealPrice = 0\<rparr>\<rparr> 
     [(''ID'', set_field (\<lambda>v t. t\<lparr>ProposalID := v\<rparr>) (get_uint64 (RCbor R))),
      (''Params'', set_field (\<lambda>v t. t\<lparr>ParamsOf := v\<rparr>) (get_struct ''Params'' (Params_UnmarshalCBOR R))),
      (''PayloadCID'', set_field (\<lambda>v t. t\<lparr>PayloadCID := v\<rparr>) (get_cid (RCbor R) ''PayloadCID''))]"

definition DealResponse_MarshalCBOR :: "retrieval_lib \<Rightarrow> DealResponse option \<Rightarrow> written" where
  "DealResponse_MarshalCBOR R = marshal_map (RCbor R) 164 (\<lambda>t.
     [(''ID'', put_uint64 (RCbor R) (RespID t)),
      (''Status'', put_uint64 (RCbor R) (of_nat (DealStatus_code (RespStatus t)))),
      (''Message'', put_string (RCbor R) ''Message'' (RespMessage t)),
      (''PaymentOwed'', CodecPut (BigInt (RCbor R)) (PaymentOwed t))])"

definition DealResponse_UnmarshalCBOR :: "retrieval_lib \<Rightarrow> DealResponse reader" where
  "DealResponse_UnmarshalCBOR R = unmarshal_map (RCbor R) ''DealResponse'' \<lparr>RespStatus = DealStatusNew, RespID = 0, PaymentOwed = 0, RespMessage = []\<rparr> 
     [(''ID'', set_field (\<lambda>v t. t\<lparr>RespID := v\<rparr>) (get_uint64 (RCbor R))),
      (''Status'', set_field (\<lambda>v t. t\<lparr>RespStatus := v\<rparr>) (get_enum (DealStatusOf R) (RCbor R))),
      (''Message'', set_field (\<lambda>v t. t\<lparr>RespMessage := v\<rparr>) (get_string (RCbor R))),
      (''PaymentOwed'', set_field (\<lambda>v t. t\<lparr>PaymentOwed := v\<rparr>) (get_struct ''PaymentOwed'' (CodecGet (BigInt (RCbor R)))))]"

definition DealPayment_MarshalCBOR :: "retrieval_lib \<Rightarrow> DealPayment option \<Rightarrow> written" where
  "DealPayment_MarshalCBOR R = marshal_map (RCbor R) 163 (\<lambda>t.
     [(''ID'', put_uint64 (RCbor R) (PaymentID t)),
      (''PaymentChannel'', CodecPut (Address (RCbor R)) (PaymentChannel t)),
      (''PaymentVoucher'', put_ptr (CodecPut (VoucherCodec R)) (PaymentVoucher t))])"

definition DealPayment_UnmarshalCBOR :: "retrieval_lib \<Rightarrow> DealPayment reader" where
  "DealPayment_UnmarshalCBOR R = unmarshal_map (RCbor R) ''DealPayment'' \<lparr>PaymentID = 0, PaymentChannel = address_Undef, PaymentVoucher = None\<rparr> 
     [(''ID'', set_field (\<lambda>v t. t\<lparr>PaymentID := v\<rparr>) (get_uint64 (RCbor R))),
      (''PaymentChannel'', set_field (\<lambda>v t. t\<lparr>PaymentChannel := v\<rparr>) (get_struct ''PaymentChannel'' (CodecGet (Address (RCbor R))))),
      (''PaymentVoucher'', set_ptr (\<lambda>v t. t\<lparr>PaymentVoucher := v\<rparr>) (get_ptr ''PaymentVoucher'' (CodecGet (VoucherCodec R))))]"

definition PaymentInfo_MarshalCBOR :: "retrieval_lib \<Rightarrow> PaymentInfo option \<Rightarrow> written" where
  "PaymentInfo_MarshalCBOR R = marshal_map (RCbor R) 162 (\<lambda>t.
     [(''Lane'', put_uint64 (RCbor R) (Lane t)),
      (''PayCh'', CodecPut (Address (RCbor R)) (PayCh t))])"

definition PaymentInfo_UnmarshalCBOR :: "retrieval_lib \<Rightarrow> PaymentInfo reader" where
  "PaymentInfo_UnmarshalCBOR R = unmarshal_map (RCbor R) ''PaymentInfo'' \<lparr>PayCh = address_Undef, Lane = 0\<rparr> 
     [(''Lane'', set_field (\<lambda>v t. t\<lparr>Lane := v\<rparr>) (get_uint64 (RCbor R))),
      (''PayCh'', set_field (\<lambda>v t. t\<lparr>PayCh := v\<rparr>) (get_struct ''PayCh'' (CodecGet (Address (RCbor R)))))]"

definition ClientDealState_writes_1 :: "retrieval_lib \<Rightarrow> ClientDealState \<Rightarrow> (string \<times> written) list" where
  "ClientDealState_writes_1 R t =
     [(''Sender'', put_string (RCbor R) ''Sender'' (Sender t)),
      (''Status'', put_uint64 (RCbor R) (of_nat (DealStatus_code (Status t)))),
      (''Message'', put_string (RCbor R) ''Message'' (Message t)),
      (''StoreID'', put_ptr (put_uint64 (RCbor R)) (StoreID t)),
      (''ChannelID'', put_ptr (CodecPut (ChannelCodec (RCbor R))) (ChannelID t)),
      (''FundsSpent'', CodecPut (BigInt (RCbor R)) (FundsSpent t)),
      (''TotalFunds'', CodecPut (BigInt (RCbor R)) (TotalFunds t))]"

definition ClientDealState_writes_2 :: "retrieval_lib \<Rightarrow> ClientDealState \<Rightarrow> (string \<times> written) list" where
  "ClientDealState_writes_2 R t =
     [(''WaitMsgCID'', put_ptr (put_cid (RCbor R) ''WaitMsgCID'') (WaitMsgCID t)),
      (''MinerWallet'', CodecPut (Address (RCbor R)) (MinerWallet t)),
      (''PaymentInfo'', PaymentInfo_MarshalCBOR R (PaymentInfoOf t)),
      (''BytesPaidFor'', put_uint64 (RCbor R) (BytesPaidFor t)),
      (''ClientWallet'', CodecPut (Address (RCbor R)) (ClientWallet t)),
      (''DealProposal'', DealProposal_MarshalCBOR R (Some (ProposalOf t))),
      (''TotalReceived'', put_uint64 (RCbor R) (TotalReceived t)),
      (''LegacyProtocol'', put_bool (RCbor R) (LegacyProtocol t)),
      (''CurrentInterval'', put_uint64 (RCbor R) (CurrentInterval t))]"

definition ClientDealState_writes_3 :: "retrieval_lib \<Rightarrow> ClientDealState \<Rightarrow> (string \<times> written) list" where
  "ClientDealState_writes_3 R t =
     [(''UnsealFundsPaid'', CodecPut (BigInt (RCbor R)) (UnsealFundsPaid t)),
      (''PaymentRequested'', CodecPut (BigInt (RCbor R)) (PaymentRequested t)),
      (''VoucherShortfall'', CodecPut (BigInt (RCbor R)) (VoucherShortfall t)),
      (''AllBlocksReceived'', put_bool (RCbor R) (AllBlocksReceived t)),
      (''LastPaymentRequested'', put_bool (RCbor R) (LastPaymentRequested t))]"

definition ClientDealState_MarshalCBOR :: "retrieval_lib \<Rightarrow> ClientDealState option \<Rightarrow> written" where
  "ClientDealState_MarshalCBOR R = marshal_map (RCbor R) 181 (\<lambda>t. ClientDealState_writes_1 R t @ ClientDealState_writes_2 R t @ ClientDealState_writes_3 R t)"

definition ClientDealState_reads_1 :: "retrieval_lib \<Rightarrow> (string \<times> (ClientDealState \<Rightarrow> ClientDealState reader)) list" where
  "ClientDealState_reads_1 R =
     [(''Sender'', set_field (\<lambda>v t. t\<lparr>Sender := v\<rparr>) (get_string (RCbor R))),
      (''Status'', set_field (\<lambda>v t. t\<lparr>Status := v\<rparr>) (get_enum (DealStatusOf R) (RCbor R))),
      (''Message'', set_field (\<lambda>v t. t\<lparr>Message := v\<rparr>) (get_string (RCbor R))),
      (''StoreID'', set_ptr (\<lambda>v t. t\<lparr>StoreID := v\<rparr>) (get_uint64 (RCbor R))),
      (''ChannelID'', set_ptr (\<lambda>v t. t\<lparr>ChannelID := v\<rparr>) (get_ptr ''ChannelID'' (CodecGet (ChannelCodec (RCbor R))))),
      (''FundsSpent'', set_field (\<lambda>v t. t\<lparr>FundsSpent := v\<rparr>) (get_struct ''FundsSpent'' (CodecGet (BigInt (RCbor R))))),
      (''TotalFunds'', set_field (\<lambda>v t. t\<lparr>TotalFunds := v\<rparr>) (get_struct ''TotalFunds'' (CodecGet (BigInt (RCbor R))))),
      (''WaitMsgCID'', set_ptr (\<lambda>v t. t\<lparr>WaitMsgCID := v\<rparr>) (get_cid (RCbor R) ''WaitMsgCID'')),
      (''MinerWallet'', set_field (\<lambda>v t. t\<lparr>MinerWallet := v\<rparr>) (get_struct ''MinerWallet'' (CodecGet (Address (RCbor R)))))]"

definition ClientDealState_reads_2 :: "retrieval_lib \<Rightarrow> (string \<times> (ClientDealState \<Rightarrow> ClientDealState reader)) list" where
  "ClientDealState_reads_2 R =
     [(''PaymentInfo'', set_ptr (\<lambda>v t. t\<lparr>PaymentInfoOf := v\<rparr>) (get_ptr ''PaymentInfo'' (PaymentInfo_UnmarshalCBOR R))),
      (''BytesPaidFor'', set_field (\<lambda>v t. t\<lparr>BytesPaidFor := v\<rparr>) (get_uint64 (RCbor R))),
      (''ClientWallet'', set_field (\<lambda>v t. t\<lparr>ClientWallet := v\<rparr>) (get_struct ''ClientWallet'' (CodecGet (Address (RCbor R))))),
      (''DealProposal'', set_field (\<lambda>v t. t\<lparr>ProposalOf := v\<rparr>) (get_struct ''DealProposal'' (DealProposal_UnmarshalCBOR R))),
      (''TotalReceived'', set_field (\<lambda>v t. t\<lparr>TotalReceived := v\<rparr>) (get_uint64 (RCbor R))),
      (''LegacyProtocol'', set_field (\<lambda>v t. t\<lparr>LegacyProtocol := v\<rparr>) (get_bool (RCbor R))),
      (''CurrentInterval'', set_field (\<lambda>v t. t\<lparr>CurrentInterval := v\<rparr>) (get_uint64 (RCbor R))),
      (''UnsealFundsPaid'', set_field (\<lambda>v t. t\<lparr>UnsealFundsPaid := v\<rparr>) (get_struct ''UnsealFundsPaid'' (CodecGet (BigInt (RCbor R))))),
      (''PaymentRequested'', set_field (\<lambda>v t. t\<lparr>PaymentRequested := v\<rparr>) (get_struct ''PaymentRequested'' (CodecGet (BigInt (RCbor R))))),
      (''VoucherShortfall'', set_field (\<lambda>v t. t\<lparr>VoucherShortfall := v\<rparr>) (get_struct ''VoucherShortfall'' (CodecGet (BigInt (RCbor R)))))]"

definition ClientDealState_reads_3 :: "retrieval_lib \<Rightarrow> (string \<times> (ClientDealState \<Rightarrow> ClientDealState reader)) list" where
  "ClientDealState_reads_3 R =
     [(''AllBlocksReceived'', set_field (\<lambda>v t. t\<lparr>AllBlocksReceived := v\<rparr>) (get_bool (RCbor R))),
      (''LastPaymentRequested'', set_field (\<lambda>v t. t\<lparr>LastPaymentRequested := v\<rparr>) (get_bool (RCbor R)))]"

definition ClientDealState_UnmarshalCBOR :: "retrieval_lib \<Rightarrow> ClientDealState reader" where
  "ClientDealState_UnmarshalCBOR R = unmarshal_map (RCbor R) ''ClientDealState'' \<lparr>ProposalOf = \<lparr>PayloadCID = cid_Undef, ProposalID = 0, ParamsOf = \<lparr>SelectorOf = None, ParamsPieceCID = None, PricePerByte = 0, PaymentInterval = 0, PaymentIntervalIncrease = 0, UnsealPrice = 0\<rparr>\<rparr>, StoreID = None, ChannelID = None, LastPaymentRequested = False, AllBlocksReceived = False, TotalFunds = 0, ClientWallet = address_Undef, MinerWallet = address_Undef, PaymentInfoOf = None, Status = DealStatusNew, Sender = [], TotalReceived = 0, Message = [], BytesPaidFor = 0, CurrentInterval = 0, PaymentRequested = 0, FundsSpent = 0, UnsealFundsPaid = 0, WaitMsgCID = None, VoucherShortfall = 0, LegacyProtocol = False\<rparr> (ClientDealState_reads_1 R @ ClientDealState_reads_2 R @ ClientDealState_reads_3 R)"

definition ProviderDealState_MarshalCBOR :: "retrieval_lib \<Rightarrow> ProviderDealState option \<Rightarrow> written" where
  "ProviderDealState_MarshalCBOR R = marshal_map (RCbor R) 168 (\<lambda>t.
     [(''Status'', put_uint64 (RCbor R) (of_nat (DealStatus_code (PStatus t)))),
      (''Message'', put_string (RCbor R) ''Message'' (PMessage t)),
      (''StoreID'', put_uint64 (RCbor R) (PStoreID t)),
      (''Receiver'', put_string (RCbor R) ''Receiver'' (Receiver t)),
      (''ChannelID'', put_ptr (CodecPut (ChannelCodec (RCbor R))) (PChannelID t)),
      (''PieceInfo'', PieceInfo_MarshalCBOR (RCbor R) (PieceInfoOf t)),
      (''DealProposal'', DealProposal_MarshalCBOR R (Some (PProposalOf t))),
      (''FundsReceived'', CodecPut (BigInt (RCbor R)) (FundsReceived t))])"

definition ProviderDealState_UnmarshalCBOR :: "retrieval_lib \<Rightarrow> ProviderDealState reader" where
  "ProviderDealState_UnmarshalCBOR R = unmarshal_map (RCbor R) ''ProviderDealState'' \<lparr>PProposalOf = \<lparr>PayloadCID = cid_Undef, ProposalID = 0, ParamsOf = \<lparr>SelectorOf = None, ParamsPieceCID = None, PricePerByte = 0, PaymentInterval = 0, PaymentIntervalIncrease = 0, UnsealPrice = 0\<rparr>\<rparr>, PStoreID = 0, PChannelID = None, PieceInfoOf = None, PStatus = DealStatusNew, Receiver = [], FundsReceived = 0, PMessage = []\<rparr> 
     [(''Status'', set_field (\<lambda>v t. t\<lparr>PStatus := v\<rparr>) (get_enum (DealStatusOf R) (RCbor R))),
      (''Message'', set_field (\<lambda>v t. t\<lparr>PMessage := v\<rparr>) (get_string (RCbor R))),
      (''StoreID'', set_field (\<lambda>v t. t\<lparr>PStoreID := v\<rparr>) (get_uint64 (RCbor R))),
      (''Receiver'', set_field (\<lambda>v t. t\<lparr>Receiver := v\<rparr>) (get_string (RCbor R))),
      (''ChannelID'', set_ptr (\<lambda>v t. t\<lparr>PChannelID := v\<rparr>) (get_ptr ''ChannelID'' (CodecGet (ChannelCodec (RCbor R))))),
      (''PieceInfo'', set_ptr (\<lambda>v t. t\<lparr>PieceInfoOf := v\<rparr>) (get_ptr ''PieceInfo'' (PieceInfo_UnmarshalCBOR (RCbor R)))),
      (''DealProposal'', set_field (\<lambda>v t. t\<lparr>PProposalOf := v\<rparr>) (get_struct ''DealProposal'' (DealProposal_UnmarshalCBOR R))),
      (''FundsReceived'', set_field (\<lambda>v t. t\<lparr>FundsReceived := v\<rparr>) (get_struct ''FundsReceived'' (CodecGet (BigInt (RCbor R)))))]"

definition RetrievalPeer_MarshalCBOR :: "retrieval_lib \<Rightarrow> RetrievalPeer option \<Rightarrow> written" where
  "RetrievalPeer_MarshalCBOR R = marshal_map (RCbor R) 163 (\<lambda>t.
     [(''ID'', put_string (RCbor R) ''ID'' (PeerID t)),
      (''Address'', CodecPut (Address (RCbor R)) (PeerAddress t)),
      (''PieceCID'', put_ptr (put_cid (RCbor R) ''PieceCID'') (PeerPieceCID t))])"

definition RetrievalPeer_UnmarshalCBOR :: "retrieval_lib \<Rightarrow> RetrievalPeer reader" where
  "RetrievalPeer_UnmarshalCBOR R = unmarshal_map (RCbor R) ''RetrievalPeer'' \<lparr>PeerAddress = address_Undef, PeerID = [], PeerPieceCID = None\<rparr> 
     [(''ID'', set_field (\<lambda>v t. t\<lparr>PeerID := v\<rparr>) (get_string (RCbor R))),
      (''Address'', set_field (\<lambda>v t. t\<lparr>PeerAddress := v\<rparr>) (get_struct ''Address'' (CodecGet (Address (RCbor R))))),
      (''PieceCID'', set_ptr (\<lambda>v t. t\<lparr>PeerPieceCID := v\<rparr>) (get_cid (RCbor R) ''PieceCID''))]"

definition Ask_MarshalCBOR :: "retrieval_lib \<Rightarrow> Ask option \<Rightarrow> written" where
  "Ask_MarshalCBOR R = marshal_map (RCbor R) 164 (\<lambda>t.
     [(''UnsealPrice'', put_big (RCbor R) (AskUnsealPrice t)),
      (''PricePerByte'', CodecPut (BigInt (RCbor R)) (AskPricePerByte t)),
      (''PaymentInterval'', put_uint64 (RCbor R) (AskPaymentInterval t)),
      (''PaymentIntervalIncrease'', put_uint64 (RCbor R) (AskPaymentIntervalIncrease t))])"

definition Ask_UnmarshalCBOR :: "retrieval_lib \<Rightarrow> Ask reader" where
  "Ask_UnmarshalCBOR R = unmarshal_map (RCbor R) ''Ask'' \<lparr>AskPricePerByte = 0, AskUnsealPrice = None, AskPaymentInterval = 0, AskPaymentIntervalIncrease = 0\<rparr> 
     [(''UnsealPrice'', set_field (\<lambda>v t. t\<lparr>AskUnsealPrice := v\<rparr>) (get_struct ''UnsealPrice'' (get_big (RCbor R)))),
      (''PricePerByte'', set_field (\<lambda>v t. t\<lparr>AskPricePerByte := v\<rparr>) (get_struct ''PricePerByte'' (CodecGet (BigInt (RCbor R))))),
      (''PaymentInterval'', set_field (\<lambda>v t. t\<lparr>AskPaymentInterval := v\<rparr>) (get_uint64 (RCbor R))),
      (''PaymentIntervalIncrease'', set_field (\<lambda>v t. t\<lparr>AskPaymentIntervalIncrease := v\<rparr>) (get_uint64 (RCbor R)))]"

definition Ask_storable :: "Ask \<Rightarrow> bool" where
  "Ask_storable t \<longleftrightarrow> (AskUnsealPrice t) \<noteq> None"

definition RetrievalPeers_MarshalCBOR :: "retrieval_lib \<Rightarrow> RetrievalPeer list option \<Rightarrow> written" where
  "RetrievalPeers_MarshalCBOR R = marshal_map (RCbor R) 161 (\<lambda>t.
     [(''Peers'', put_slice (RCbor R) ''Peers'' (\<lambda>v. RetrievalPeer_MarshalCBOR R (Some v)) t)])"

definition RetrievalPeers_UnmarshalCBOR :: "retrieval_lib \<Rightarrow> RetrievalPeer list reader" where
  "RetrievalPeers_UnmarshalCBOR R = unmarshal_map (RCbor R) ''RetrievalPeers'' [] 
     [(''Peers'', set_slice (RCbor R) ''Peers'' (\<lambda>v t. v) (RetrievalPeer_UnmarshalCBOR R))]"

subsection \<open>What is written is read back\<close>

context retrieval_types
begin

lemma Node_codec [codec]: "codec (Node_MarshalCBOR R (Some n)) (Node_UnmarshalCBOR R) n"
  using node_taken [of n] node_decoded [of n] by (auto simp: codec_def Node_MarshalCBOR_def Node_UnmarshalCBOR_def)

lemmas codec_voucher [codec] = voucher_exact [THEN exact_codec] voucher_exact [THEN exact_nonnull]

lemma QueryParams_codec [codec]:
  "codec (QueryParams_MarshalCBOR R (Some t)) (QueryParams_UnmarshalCBOR R) t"
  unfolding QueryParams_MarshalCBOR_def QueryParams_UnmarshalCBOR_def
  by (cases t) (rule codec | simp; fail)+

lemma Query_codec [codec]:
  "codec (Query_MarshalCBOR R (Some t)) (Query_UnmarshalCBOR R) t"
  unfolding Query_MarshalCBOR_def Query_UnmarshalCBOR_def
  by (cases t) (rule codec | simp; fail)+

lemma QueryResponse_codec [codec]:
  "codec (QueryResponse_MarshalCBOR R (Some t)) (QueryResponse_UnmarshalCBOR R) t"
  unfolding QueryResponse_MarshalCBOR_def QueryResponse_UnmarshalCBOR_def QueryResponse_writes_1_def QueryResponse_writes_2_def append.simps
  by (cases t) (rule codec | simp; fail)+

lemma Params_codec [codec]:
  "codec (Params_MarshalCBOR R (Some t)) (Params_UnmarshalCBOR R) t"
  unfolding Params_MarshalCBOR_def Params_UnmarshalCBOR_def
  by (cases t) (rule codec | simp; fail)+

lemma DealProposal_codec [codec]:
  "codec (DealProposal_MarshalCBOR R (Some t)) (DealProposal_UnmarshalCBOR R) t"
  unfolding DealProposal_MarshalCBOR_def DealProposal_UnmarshalCBOR_def
  by (cases t) (rule codec | simp; fail)+

lemma DealResponse_codec [codec]:
  "codec (DealResponse_MarshalCBOR R (Some t)) (DealResponse_UnmarshalCBOR R) t"
  unfolding DealResponse_MarshalCBOR_def DealResponse_UnmarshalCBOR_def
  by (cases t) (rule codec | simp; fail)+

lemma DealPayment_codec [codec]:
  "codec (DealPayment_MarshalCBOR R (Some t)) (DealPayment_UnmarshalCBOR R) t"
  unfolding DealPayment_MarshalCBOR_def DealPayment_UnmarshalCBOR_def
  by (cases t) (rule codec | simp; fail)+

lemma PaymentInfo_codec [codec]:
  "codec (PaymentInfo_MarshalCBOR R (Some t)) (PaymentInfo_UnmarshalCBOR R) t"
  unfolding PaymentInfo_MarshalCBOR_def PaymentInfo_UnmarshalCBOR_def
  by (cases t) (rule codec | simp; fail)+

lemma PaymentInfo_ptr [codec]:
  "upd None t = t \<Longrightarrow>
   codec (PaymentInfo_MarshalCBOR R x) (set_ptr upd (get_ptr f (PaymentInfo_UnmarshalCBOR R)) t) (upd x t)"
  by (rule codec_ptrI) (simp add: PaymentInfo_MarshalCBOR_def marshal_map_def, (rule codec | simp; fail)+,
    simp add: PaymentInfo_MarshalCBOR_def, rule nonnull_map, simp_all)

lemma ClientDealState_codec [codec]:
  "codec (ClientDealState_MarshalCBOR R (Some t)) (ClientDealState_UnmarshalCBOR R) t"
  unfolding ClientDealState_MarshalCBOR_def ClientDealState_UnmarshalCBOR_def ClientDealState_writes_1_def ClientDealState_writes_2_def ClientDealState_writes_3_def ClientDealState_reads_1_def ClientDealState_reads_2_def ClientDealState_reads_3_def append.simps
  by (cases t) (rule codec | simp; fail)+

lemma ProviderDealState_codec [codec]:
  "codec (ProviderDealState_MarshalCBOR R (Some t)) (ProviderDealState_UnmarshalCBOR R) t"
  unfolding ProviderDealState_MarshalCBOR_def ProviderDealState_UnmarshalCBOR_def
  by (cases t) (rule codec | simp; fail)+

lemma RetrievalPeer_codec [codec]:
  "codec (RetrievalPeer_MarshalCBOR R (Some t)) (RetrievalPeer_UnmarshalCBOR R) t"
  unfolding RetrievalPeer_MarshalCBOR_def RetrievalPeer_UnmarshalCBOR_def
  by (cases t) (rule codec | simp; fail)+

lemma Ask_codec [codec]:
  "Ask_storable t \<Longrightarrow> codec (Ask_MarshalCBOR R (Some t)) (Ask_UnmarshalCBOR R) t"
  unfolding Ask_MarshalCBOR_def Ask_UnmarshalCBOR_def Ask_storable_def
  by (cases t) (rule codec | simp; fail)+

lemma RetrievalPeers_codec [codec]:
  "codec (RetrievalPeers_MarshalCBOR R (Some t)) (RetrievalPeers_UnmarshalCBOR R) t"
  unfolding RetrievalPeers_MarshalCBOR_def RetrievalPeers_UnmarshalCBOR_def
  by (rule codec | simp; fail)+

end

text \<open>
  C34. The deal states of both sides of the retrieval market, the messages of its protocols, its ask and the
  peers found for a payload are read back from their bytes unchanged, whatever follows them.
\<close>

theorem retrieval_records_roundtrip:
  assumes "retrieval_types R" and "Ask_storable ask"
  shows "codec (ClientDealState_MarshalCBOR R (Some cds)) (ClientDealState_UnmarshalCBOR R) cds \<and>
    codec (ProviderDealState_MarshalCBOR R (Some pds)) (ProviderDealState_UnmarshalCBOR R) pds \<and>
    codec (Query_MarshalCBOR R (Some query)) (Query_UnmarshalCBOR R) query \<and>
    codec (QueryResponse_MarshalCBOR R (Some response)) (QueryResponse_UnmarshalCBOR R) response \<and>
    codec (DealProposal_MarshalCBOR R (Some proposal)) (DealProposal_UnmarshalCBOR R) proposal \<and>
    codec (DealResponse_MarshalCBOR R (Some answer)) (DealResponse_UnmarshalCBOR R) answer \<and>
    codec (DealPayment_MarshalCBOR R (Some payment)) (DealPayment_UnmarshalCBOR R) payment \<and>
    codec (Ask_MarshalCBOR R (Some ask)) (Ask_UnmarshalCBOR R) ask \<and>
    codec (RetrievalPeers_MarshalCBOR R (Some peers)) (RetrievalPeers_UnmarshalCBOR R) peers"
  using retrieval_types.ClientDealState_codec [OF assms(1)] retrieval_types.ProviderDealState_codec [OF assms(1)]
    retrieval_types.Query_codec [OF assms(1)] retrieval_types.QueryResponse_codec [OF assms(1)]
    retrieval_types.DealProposal_codec [OF assms(1)] retrieval_types.DealResponse_codec [OF assms(1)]
    retrieval_types.DealPayment_codec [OF assms(1)] retrieval_types.Ask_codec [OF assms(1,2)]
    retrieval_types.RetrievalPeers_codec [OF assms(1)]
  by simp

text \<open>An instance, where a selector is a text.\<close>

definition all_deal_statuses :: "DealStatus list" where
  "all_deal_statuses = [DealStatusNew, DealStatusUnsealing, DealStatusUnsealed, DealStatusWaitForAcceptance,
     DealStatusPaymentChannelCreating, DealStatusPaymentChannelAddingFunds, DealStatusAccepted,
     DealStatusFundsNeededUnseal, DealStatusFailing, DealStatusRejected, DealStatusFundsNeeded,
     DealStatusSendFunds, DealStatusSendFundsLastPayment, DealStatusOngoing,
     DealStatusFundsNeededLastPayment, DealStatusCompleted, DealStatusDealNotFound, DealStatusErrored,
     DealStatusBlocksComplete, DealStatusFinalizing, DealStatusCompleting, DealStatusCheckComplete,
     DealStatusCheckFunds, DealStatusInsufficientFunds, DealStatusPaymentChannelAllocatingLane,
     DealStatusCancelling, DealStatusCancelled, DealStatusRetryLegacy, DealStatusWaitForAcceptanceLegacy,
     DealStatusClientWaitingForLastBlocks, DealStatusPaymentChannelAddingInitialFunds, DealStatusErroring,
     DealStatusRejecting, DealStatusDealNotFoundCleanup, DealStatusFinalizingBlockstore]"

definition sample_node :: "string option \<Rightarrow> written" where
  "sample_node n = put_ptr (sample_bytes MajTextString) n"

definition sample_read_node :: "string option reader" where
  "sample_read_node = set_ptr (\<lambda>v t. v) (sample_read_bytes MajTextString) None"

definition sample_retrieval :: retrieval_lib where
  "sample_retrieval = \<lparr>RCbor = sample_cbor, dagcbor_Encode = sample_node,
     dagcbor_Decode = (\<lambda>raw. on_err (sample_read_node raw) Inl (\<lambda>(n, _). Inr n)),
     Deferred_UnmarshalCBOR = (\<lambda>r. on_err (sample_read_node r) Inl (\<lambda>(_, r'). Inr (take (length r - length r') r, r'))),
     VoucherCodec = \<lparr>CodecPut = sample_bytes MajByteString, CodecGet = sample_read_bytes MajByteString\<rparr>,
     DealStatusOf = (\<lambda>n. if unat n < length all_deal_statuses then all_deal_statuses ! unat n else DealStatusNew),
     QueryResponseStatusOf = (\<lambda>n. if n = 0 then QueryResponseAvailable else if n = 1 then QueryResponseUnavailable else QueryResponseError),
     QueryItemStatusOf = (\<lambda>n. if n = 0 then QueryItemAvailable else if n = 1 then QueryItemUnavailable else QueryItemUnknown)\<rparr>"

lemma all_deal_statuses_nth:
  "DealStatus_code s < length all_deal_statuses \<and> all_deal_statuses ! DealStatus_code s = s"
  by (cases s) (simp_all add: all_deal_statuses_def)

lemma sample_node_read: "sample_node n = Inr b \<Longrightarrow> sample_read_node (b @ rest) = Inr (n, rest)"
  using exact_codec [OF sample_bytes_exact, of MajTextString "the n"] exact_nonnull [OF sample_bytes_exact, of MajTextString "the n"]
  by (cases n; cases b) (auto simp: sample_node_def sample_read_node_def put_ptr_def set_ptr_def CborNull_def codec_def nonnull_def)

interpretation sample_retrieval: retrieval_types sample_retrieval
proof (intro retrieval_types.intro retrieval_types_axioms.intro)
  show "cbor_codec (RCbor sample_retrieval)" by (simp add: sample_retrieval_def sample_cbor.cbor_codec_axioms)
  show "Deferred_UnmarshalCBOR sample_retrieval (b @ rest) = Inr (b, rest)" if "dagcbor_Encode sample_retrieval n = Inr b" for n b rest
    using that sample_node_read [of n b rest] by (simp add: sample_retrieval_def)
  show "dagcbor_Decode sample_retrieval b = Inr n" if "dagcbor_Encode sample_retrieval n = Inr b" for n b
    using that sample_node_read [of n b "[]"] by (simp add: sample_retrieval_def)
  show "exact (VoucherCodec sample_retrieval)" by (simp add: sample_retrieval_def sample_bytes_exact)
  show "DealStatusOf sample_retrieval (of_nat (DealStatus_code s)) = s" for s
  proof -
    have "length all_deal_statuses = 35" by (simp add: all_deal_statuses_def)
    then have "unat (of_nat (DealStatus_code s) :: uint64) = DealStatus_code s"
      using all_deal_statuses_nth [of s] by (intro unat_of_nat_small) simp
    then show ?thesis using all_deal_statuses_nth [of s] by (simp add: sample_retrieval_def)
  qed
  show "QueryResponseStatusOf sample_retrieval (of_nat (QueryResponseStatus_code q)) = q" for q
    by (cases q) (simp_all add: sample_retrieval_def)
  show "QueryItemStatusOf sample_retrieval (of_nat (QueryItemStatus_code i)) = i" for i
    by (cases i) (simp_all add: sample_retrieval_def)
qed

definition sample_stored_params :: Params where
  "sample_stored_params = \<lparr>SelectorOf = Some ''all'', ParamsPieceCID = Some ''piece'', PricePerByte = 2, PaymentInterval = 100,
     PaymentIntervalIncrease = 10, UnsealPrice = 0\<rparr>"

definition sample_stored_proposal :: DealProposal where
  "sample_stored_proposal = \<lparr>PayloadCID = ''payload'', ProposalID = 7, ParamsOf = sample_stored_params\<rparr>"

definition sample_stored_cds :: ClientDealState where
  "sample_stored_cds = \<lparr>ProposalOf = sample_stored_proposal, StoreID = None,
     ChannelID = Some ''ch'', LastPaymentRequested = False, AllBlocksReceived = True, TotalFunds = 2000, ClientWallet = ''w'',
     MinerWallet = ''m'', PaymentInfoOf = Some \<lparr>PayCh = ''pch'', Lane = 1\<rparr>, Status = DealStatusOngoing, Sender = ''peer'',
     TotalReceived = 512, Message = [], BytesPaidFor = 400, CurrentInterval = 110, PaymentRequested = 24, FundsSpent = 800,
     UnsealFundsPaid = 0, WaitMsgCID = None, VoucherShortfall = 0, LegacyProtocol = False\<rparr>"

definition sample_stored_pds :: ProviderDealState where
  "sample_stored_pds = \<lparr>PProposalOf = sample_stored_proposal, PStoreID = 0, PChannelID = None, PieceInfoOf = Some sample_piece,
     PStatus = DealStatusUnsealing, Receiver = ''peer'', FundsReceived = 0, PMessage = ''m''\<rparr>"

lemma sample_retrieval_cbor: "RCbor sample_retrieval = sample_cbor" "dagcbor_Encode sample_retrieval = sample_node"
  by (simp_all add: sample_retrieval_def)

lemma sample_proposal_written:
  "DealProposal_MarshalCBOR sample_retrieval (Some sample_stored_proposal) =
     Inr (bytes_of (DealProposal_MarshalCBOR sample_retrieval (Some sample_stored_proposal)))"
  by (rule written_bytes) (simp add: DealProposal_MarshalCBOR_def Params_MarshalCBOR_def Node_MarshalCBOR_def
    sample_stored_proposal_def sample_stored_params_def sample_retrieval_cbor sample_node_def put_defs)

lemma sample_states_written:
  "\<not> isl (ClientDealState_MarshalCBOR sample_retrieval (Some sample_stored_cds))"
  "\<not> isl (ProviderDealState_MarshalCBOR sample_retrieval (Some sample_stored_pds))"
proof -
  obtain b p where b: "DealProposal_MarshalCBOR sample_retrieval (Some sample_stored_proposal) = Inr b"
    "PieceInfo_MarshalCBOR sample_cbor (Some sample_piece) = Inr p"
    using sample_proposal_written sample_piece_written(1) by blast
  show "\<not> isl (ClientDealState_MarshalCBOR sample_retrieval (Some sample_stored_cds))"
    using b(1) by (simp add: ClientDealState_MarshalCBOR_def ClientDealState_writes_1_def ClientDealState_writes_2_def
      ClientDealState_writes_3_def PaymentInfo_MarshalCBOR_def sample_stored_cds_def sample_retrieval_cbor put_defs)
  show "\<not> isl (ProviderDealState_MarshalCBOR sample_retrieval (Some sample_stored_pds))"
    unfolding ProviderDealState_MarshalCBOR_def marshal_map_def sample_stored_pds_def sample_retrieval_cbor
    by (simp add: b) (simp add: put_defs)
qed

theorem retrieval_records_roundtrip_witness:
  "\<not> isl (ClientDealState_MarshalCBOR sample_retrieval (Some sample_stored_cds)) \<and>
   \<not> isl (ProviderDealState_MarshalCBOR sample_retrieval (Some sample_stored_pds)) \<and>
   codec (ClientDealState_MarshalCBOR sample_retrieval (Some sample_stored_cds)) (ClientDealState_UnmarshalCBOR sample_retrieval)
     sample_stored_cds \<and>
   codec (ProviderDealState_MarshalCBOR sample_retrieval (Some sample_stored_pds)) (ProviderDealState_UnmarshalCBOR sample_retrieval)
     sample_stored_pds"
proof -
  have "Ask_storable \<lparr>AskPricePerByte = 2, AskUnsealPrice = Some 0, AskPaymentInterval = 100, AskPaymentIntervalIncrease = 10\<rparr>"
    by (simp add: Ask_storable_def)
  from retrieval_records_roundtrip [OF sample_retrieval.retrieval_types_axioms this, of sample_stored_cds sample_stored_pds]
    sample_states_written show ?thesis by simp
qed

end
