(* ===== verification/Retrieval_Migrations.thy ===== *)
theory Retrieval_Migrations
  imports Retrieval_Codec
begin

section \<open>Retrieval market: old record formats\<close>

text \<open>
  \<open>retrievalmarket/migrations/migrations.go\<close> and \<open>maptypes/\<close>: the deal states as the version before stored
  them, with a channel that is always there, their codecs, and their conversion. Fields carry the side and
  the version. A channel is opaque in the model: \<open>ChannelInitiator\<close> and \<open>ChannelResponder\<close> are its parts,
  \<open>channel_zero\<close> the one whose parts are empty. Running the migrations over a datastore is the versioning
  library's.
\<close>

record channel_parts =
  ChannelInitiator :: "channel_id \<Rightarrow> peer_id"
  ChannelResponder :: "channel_id \<Rightarrow> peer_id"

definition channel_zero :: channel_id where
  "channel_zero = []"

record ClientDealState1 =
  CdProposal1 :: DealProposal
  CdStoreID1 :: "uint64 option"
  CdChannelID1 :: channel_id
  CdLastPaymentRequested1 :: bool
  CdAllBlocksReceived1 :: bool
  CdTotalFunds1 :: token_amount
  CdClientWallet1 :: address
  CdMinerWallet1 :: address
  CdPaymentInfo1 :: "PaymentInfo option"
  CdStatus1 :: DealStatus
  CdSender1 :: peer_id
  CdTotalReceived1 :: uint64
  CdMessage1 :: string
  CdBytesPaidFor1 :: uint64
  CdCurrentInterval1 :: uint64
  CdPaymentRequested1 :: token_amount
  CdFundsSpent1 :: token_amount
  CdUnsealFundsPaid1 :: token_amount
  CdWaitMsgCID1 :: "cid option"
  CdVoucherShortfall1 :: token_amount
  CdLegacyProtocol1 :: bool

record ProviderDealState1 =
  PdProposal1 :: DealProposal
  PdStoreID1 :: uint64
  PdChannelID1 :: channel_id
  PdPieceInfo1 :: "PieceInfo option"
  PdStatus1 :: DealStatus
  PdReceiver1 :: peer_id
  PdTotalSent1 :: uint64
  PdFundsReceived1 :: token_amount
  PdMessage1 :: string
  PdCurrentInterval1 :: uint64
  PdLegacyProtocol1 :: bool

subsection \<open>Conversions\<close>

definition NoOpClientDealState0To1 :: "ClientDealState1 \<Rightarrow> go_error + ClientDealState1" where
  "NoOpClientDealState0To1 oldDs = Inr oldDs"

definition MigrateClientDealState1To2 :: "channel_parts \<Rightarrow> ClientDealState1 \<Rightarrow> go_error + ClientDealState" where
  "MigrateClientDealState1To2 parts oldDs =
     (let chid = (if ChannelInitiator parts (CdChannelID1 oldDs) \<noteq> [] \<and> ChannelResponder parts (CdChannelID1 oldDs) \<noteq> []
        then Some (CdChannelID1 oldDs) else None)
      in Inr \<lparr>ProposalOf = CdProposal1 oldDs, StoreID = CdStoreID1 oldDs, ChannelID = chid,
        LastPaymentRequested = CdLastPaymentRequested1 oldDs, AllBlocksReceived = CdAllBlocksReceived1 oldDs,
        TotalFunds = CdTotalFunds1 oldDs, ClientWallet = CdClientWallet1 oldDs, MinerWallet = CdMinerWallet1 oldDs,
        PaymentInfoOf = CdPaymentInfo1 oldDs, Status = CdStatus1 oldDs, Sender = CdSender1 oldDs,
        TotalReceived = CdTotalReceived1 oldDs, Message = CdMessage1 oldDs, BytesPaidFor = CdBytesPaidFor1 oldDs,
        CurrentInterval = CdCurrentInterval1 oldDs, PaymentRequested = CdPaymentRequested1 oldDs,
        FundsSpent = CdFundsSpent1 oldDs, UnsealFundsPaid = CdUnsealFundsPaid1 oldDs, WaitMsgCID = CdWaitMsgCID1 oldDs,
        VoucherShortfall = CdVoucherShortfall1 oldDs, LegacyProtocol = True\<rparr>)"

definition NoOpProviderDealState0To1 :: "ProviderDealState1 \<Rightarrow> go_error + ProviderDealState1" where
  "NoOpProviderDealState0To1 oldDs = Inr oldDs"

definition MigrateProviderDealState1To2 :: "channel_parts \<Rightarrow> ProviderDealState1 \<Rightarrow> go_error + ProviderDealState" where
  "MigrateProviderDealState1To2 parts oldDs =
     (let chid = (if ChannelInitiator parts (PdChannelID1 oldDs) \<noteq> [] \<and> ChannelResponder parts (PdChannelID1 oldDs) \<noteq> []
        then Some (PdChannelID1 oldDs) else None)
      in Inr \<lparr>PProposalOf = PdProposal1 oldDs, PStoreID = PdStoreID1 oldDs, PChannelID = chid,
        PieceInfoOf = PdPieceInfo1 oldDs, PStatus = PdStatus1 oldDs, Receiver = PdReceiver1 oldDs,
        FundsReceived = PdFundsReceived1 oldDs, PMessage = PdMessage1 oldDs\<rparr>)"

subsection \<open>The codecs\<close>

definition ClientDealState1_writes_1 :: "retrieval_lib \<Rightarrow> ClientDealState1 \<Rightarrow> (string \<times> written) list" where
  "ClientDealState1_writes_1 R t =
     [(''Sender'', put_string (RCbor R) ''Sender'' (CdSender1 t)),
      (''Status'', put_uint64 (RCbor R) (of_nat (DealStatus_code (CdStatus1 t)))),
      (''Message'', put_string (RCbor R) ''Message'' (CdMessage1 t)),
      (''StoreID'', put_ptr (put_uint64 (RCbor R)) (CdStoreID1 t)),
      (''ChannelID'', CodecPut (ChannelCodec (RCbor R)) (CdChannelID1 t)),
      (''FundsSpent'', CodecPut (BigInt (RCbor R)) (CdFundsSpent1 t)),
      (''TotalFunds'', CodecPut (BigInt (RCbor R)) (CdTotalFunds1 t))]"

definition ClientDealState1_writes_2 :: "retrieval_lib \<Rightarrow> ClientDealState1 \<Rightarrow> (string \<times> written) list" where
  "ClientDealState1_writes_2 R t =
     [(''WaitMsgCID'', put_ptr (put_cid (RCbor R) ''WaitMsgCID'') (CdWaitMsgCID1 t)),
      (''MinerWallet'', CodecPut (Address (RCbor R)) (CdMinerWallet1 t)),
      (''PaymentInfo'', PaymentInfo_MarshalCBOR R (CdPaymentInfo1 t)),
      (''BytesPaidFor'', put_uint64 (RCbor R) (CdBytesPaidFor1 t)),
      (''ClientWallet'', CodecPut (Address (RCbor R)) (CdClientWallet1 t)),
      (''DealProposal'', DealProposal_MarshalCBOR R (Some (CdProposal1 t))),
      (''TotalReceived'', put_uint64 (RCbor R) (CdTotalReceived1 t)),
      (''LegacyProtocol'', put_bool (RCbor R) (CdLegacyProtocol1 t)),
      (''CurrentInterval'', put_uint64 (RCbor R) (CdCurrentInterval1 t))]"

definition ClientDealState1_writes_3 :: "retrieval_lib \<Rightarrow> ClientDealState1 \<Rightarrow> (string \<times> written) list" where
  "ClientDealState1_writes_3 R t =
     [(''UnsealFundsPaid'', CodecPut (BigInt (RCbor R)) (CdUnsealFundsPaid1 t)),
      (''PaymentRequested'', CodecPut (BigInt (RCbor R)) (CdPaymentRequested1 t)),
      (''VoucherShortfall'', CodecPut (BigInt (RCbor R)) (CdVoucherShortfall1 t)),
      (''AllBlocksReceived'', put_bool (RCbor R) (CdAllBlocksReceived1 t)),
      (''LastPaymentRequested'', put_bool (RCbor R) (CdLastPaymentRequested1 t))]"

definition ClientDealState1_MarshalCBOR :: "retrieval_lib \<Rightarrow> ClientDealState1 option \<Rightarrow> written" where
  "ClientDealState1_MarshalCBOR R = marshal_map (RCbor R) 181 (\<lambda>t. ClientDealState1_writes_1 R t @ ClientDealState1_writes_2 R t @ ClientDealState1_writes_3 R t)"

definition ClientDealState1_reads_1 :: "retrieval_lib \<Rightarrow> (string \<times> (ClientDealState1 \<Rightarrow> ClientDealState1 reader)) list" where
  "ClientDealState1_reads_1 R =
     [(''Sender'', set_field (\<lambda>v t. t\<lparr>CdSender1 := v\<rparr>) (get_string (RCbor R))),
      (''Status'', set_field (\<lambda>v t. t\<lparr>CdStatus1 := v\<rparr>) (get_enum (DealStatusOf R) (RCbor R))),
      (''Message'', set_field (\<lambda>v t. t\<lparr>CdMessage1 := v\<rparr>) (get_string (RCbor R))),
      (''StoreID'', set_ptr (\<lambda>v t. t\<lparr>CdStoreID1 := v\<rparr>) (get_uint64 (RCbor R))),
      (''ChannelID'', set_field (\<lambda>v t. t\<lparr>CdChannelID1 := v\<rparr>) (get_struct ''ChannelID'' (CodecGet (ChannelCodec (RCbor R))))),
      (''FundsSpent'', set_field (\<lambda>v t. t\<lparr>CdFundsSpent1 := v\<rparr>) (get_struct ''FundsSpent'' (CodecGet (BigInt (RCbor R))))),
      (''TotalFunds'', set_field (\<lambda>v t. t\<lparr>CdTotalFunds1 := v\<rparr>) (get_struct ''TotalFunds'' (CodecGet (BigInt (RCbor R))))),
      (''WaitMsgCID'', set_ptr (\<lambda>v t. t\<lparr>CdWaitMsgCID1 := v\<rparr>) (get_cid (RCbor R) ''WaitMsgCID'')),
      (''MinerWallet'', set_field (\<lambda>v t. t\<lparr>CdMinerWallet1 := v\<rparr>) (get_struct ''MinerWallet'' (CodecGet (Address (RCbor R))))),
      (''PaymentInfo'', set_ptr (\<lambda>v t. t\<lparr>CdPaymentInfo1 := v\<rparr>) (get_ptr ''PaymentInfo'' (PaymentInfo_UnmarshalCBOR R)))]"

definition ClientDealState1_reads_2 :: "retrieval_lib \<Rightarrow> (string \<times> (ClientDealState1 \<Rightarrow> ClientDealState1 reader)) list" where
  "ClientDealState1_reads_2 R =
     [(''BytesPaidFor'', set_field (\<lambda>v t. t\<lparr>CdBytesPaidFor1 := v\<rparr>) (get_uint64 (RCbor R))),
      (''ClientWallet'', set_field (\<lambda>v t. t\<lparr>CdClientWallet1 := v\<rparr>) (get_struct ''ClientWallet'' (CodecGet (Address (RCbor R))))),
      (''DealProposal'', set_field (\<lambda>v t. t\<lparr>CdProposal1 := v\<rparr>) (get_struct ''DealProposal'' (DealProposal_UnmarshalCBOR R))),
      (''TotalReceived'', set_field (\<lambda>v t. t\<lparr>CdTotalReceived1 := v\<rparr>) (get_uint64 (RCbor R))),
      (''LegacyProtocol'', set_field (\<lambda>v t. t\<lparr>CdLegacyProtocol1 := v\<rparr>) (get_bool (RCbor R))),
      (''CurrentInterval'', set_field (\<lambda>v t. t\<lparr>CdCurrentInterval1 := v\<rparr>) (get_uint64 (RCbor R))),
      (''UnsealFundsPaid'', set_field (\<lambda>v t. t\<lparr>CdUnsealFundsPaid1 := v\<rparr>) (get_struct ''UnsealFundsPaid'' (CodecGet (BigInt (RCbor R))))),
      (''PaymentRequested'', set_field (\<lambda>v t. t\<lparr>CdPaymentRequested1 := v\<rparr>) (get_struct ''PaymentRequested'' (CodecGet (BigInt (RCbor R))))),
      (''VoucherShortfall'', set_field (\<lambda>v t. t\<lparr>CdVoucherShortfall1 := v\<rparr>) (get_struct ''VoucherShortfall'' (CodecGet (BigInt (RCbor R))))),
      (''AllBlocksReceived'', set_field (\<lambda>v t. t\<lparr>CdAllBlocksReceived1 := v\<rparr>) (get_bool (RCbor R)))]"

definition ClientDealState1_reads_3 :: "retrieval_lib \<Rightarrow> (string \<times> (ClientDealState1 \<Rightarrow> ClientDealState1 reader)) list" where
  "ClientDealState1_reads_3 R =
     [(''LastPaymentRequested'', set_field (\<lambda>v t. t\<lparr>CdLastPaymentRequested1 := v\<rparr>) (get_bool (RCbor R)))]"

definition ClientDealState1_UnmarshalCBOR :: "retrieval_lib \<Rightarrow> ClientDealState1 reader" where
  "ClientDealState1_UnmarshalCBOR R = unmarshal_map (RCbor R) ''ClientDealState1'' \<lparr>CdProposal1 = \<lparr>PayloadCID = cid_Undef, ProposalID = 0, ParamsOf = \<lparr>SelectorOf = None, ParamsPieceCID = None, PricePerByte = 0, PaymentInterval = 0, PaymentIntervalIncrease = 0, UnsealPrice = 0\<rparr>\<rparr>, CdStoreID1 = None, CdChannelID1 = channel_zero, CdLastPaymentRequested1 = False, CdAllBlocksReceived1 = False, CdTotalFunds1 = 0, CdClientWallet1 = address_Undef, CdMinerWallet1 = address_Undef, CdPaymentInfo1 = None, CdStatus1 = DealStatusNew, CdSender1 = [], CdTotalReceived1 = 0, CdMessage1 = [], CdBytesPaidFor1 = 0, CdCurrentInterval1 = 0, CdPaymentRequested1 = 0, CdFundsSpent1 = 0, CdUnsealFundsPaid1 = 0, CdWaitMsgCID1 = None, CdVoucherShortfall1 = 0, CdLegacyProtocol1 = False\<rparr> (ClientDealState1_reads_1 R @ ClientDealState1_reads_2 R @ ClientDealState1_reads_3 R)"

definition ProviderDealState1_writes_1 :: "retrieval_lib \<Rightarrow> ProviderDealState1 \<Rightarrow> (string \<times> written) list" where
  "ProviderDealState1_writes_1 R t =
     [(''Status'', put_uint64 (RCbor R) (of_nat (DealStatus_code (PdStatus1 t)))),
      (''Message'', put_string (RCbor R) ''Message'' (PdMessage1 t)),
      (''StoreID'', put_uint64 (RCbor R) (PdStoreID1 t)),
      (''Receiver'', put_string (RCbor R) ''Receiver'' (PdReceiver1 t)),
      (''ChannelID'', CodecPut (ChannelCodec (RCbor R)) (PdChannelID1 t)),
      (''PieceInfo'', PieceInfo_MarshalCBOR (RCbor R) (PdPieceInfo1 t)),
      (''TotalSent'', put_uint64 (RCbor R) (PdTotalSent1 t)),
      (''DealProposal'', DealProposal_MarshalCBOR R (Some (PdProposal1 t)))]"

definition ProviderDealState1_writes_2 :: "retrieval_lib \<Rightarrow> ProviderDealState1 \<Rightarrow> (string \<times> written) list" where
  "ProviderDealState1_writes_2 R t =
     [(''FundsReceived'', CodecPut (BigInt (RCbor R)) (PdFundsReceived1 t)),
      (''LegacyProtocol'', put_bool (RCbor R) (PdLegacyProtocol1 t)),
      (''CurrentInterval'', put_uint64 (RCbor R) (PdCurrentInterval1 t))]"

definition ProviderDealState1_MarshalCBOR :: "retrieval_lib \<Rightarrow> ProviderDealState1 option \<Rightarrow> written" where
  "ProviderDealState1_MarshalCBOR R = marshal_map (RCbor R) 171 (\<lambda>t. ProviderDealState1_writes_1 R t @ ProviderDealState1_writes_2 R t)"

definition ProviderDealState1_reads_1 :: "retrieval_lib \<Rightarrow> (string \<times> (ProviderDealState1 \<Rightarrow> ProviderDealState1 reader)) list" where
  "ProviderDealState1_reads_1 R =
     [(''Status'', set_field (\<lambda>v t. t\<lparr>PdStatus1 := v\<rparr>) (get_enum (DealStatusOf R) (RCbor R))),
      (''Message'', set_field (\<lambda>v t. t\<lparr>PdMessage1 := v\<rparr>) (get_string (RCbor R))),
      (''StoreID'', set_field (\<lambda>v t. t\<lparr>PdStoreID1 := v\<rparr>) (get_uint64 (RCbor R))),
      (''Receiver'', set_field (\<lambda>v t. t\<lparr>PdReceiver1 := v\<rparr>) (get_string (RCbor R))),
      (''ChannelID'', set_field (\<lambda>v t. t\<lparr>PdChannelID1 := v\<rparr>) (get_struct ''ChannelID'' (CodecGet (ChannelCodec (RCbor R))))),
      (''PieceInfo'', set_ptr (\<lambda>v t. t\<lparr>PdPieceInfo1 := v\<rparr>) (get_ptr ''PieceInfo'' (PieceInfo_UnmarshalCBOR (RCbor R)))),
      (''TotalSent'', set_field (\<lambda>v t. t\<lparr>PdTotalSent1 := v\<rparr>) (get_uint64 (RCbor R))),
      (''DealProposal'', set_field (\<lambda>v t. t\<lparr>PdProposal1 := v\<rparr>) (get_struct ''DealProposal'' (DealProposal_UnmarshalCBOR R))),
      (''FundsReceived'', set_field (\<lambda>v t. t\<lparr>PdFundsReceived1 := v\<rparr>) (get_struct ''FundsReceived'' (CodecGet (BigInt (RCbor R))))),
      (''LegacyProtocol'', set_field (\<lambda>v t. t\<lparr>PdLegacyProtocol1 := v\<rparr>) (get_bool (RCbor R)))]"

definition ProviderDealState1_reads_2 :: "retrieval_lib \<Rightarrow> (string \<times> (ProviderDealState1 \<Rightarrow> ProviderDealState1 reader)) list" where
  "ProviderDealState1_reads_2 R =
     [(''CurrentInterval'', set_field (\<lambda>v t. t\<lparr>PdCurrentInterval1 := v\<rparr>) (get_uint64 (RCbor R)))]"

definition ProviderDealState1_UnmarshalCBOR :: "retrieval_lib \<Rightarrow> ProviderDealState1 reader" where
  "ProviderDealState1_UnmarshalCBOR R = unmarshal_map (RCbor R) ''ProviderDealState1'' \<lparr>PdProposal1 = \<lparr>PayloadCID = cid_Undef, ProposalID = 0, ParamsOf = \<lparr>SelectorOf = None, ParamsPieceCID = None, PricePerByte = 0, PaymentInterval = 0, PaymentIntervalIncrease = 0, UnsealPrice = 0\<rparr>\<rparr>, PdStoreID1 = 0, PdChannelID1 = channel_zero, PdPieceInfo1 = None, PdStatus1 = DealStatusNew, PdReceiver1 = [], PdTotalSent1 = 0, PdFundsReceived1 = 0, PdMessage1 = [], PdCurrentInterval1 = 0, PdLegacyProtocol1 = False\<rparr> (ProviderDealState1_reads_1 R @ ProviderDealState1_reads_2 R)"

subsection \<open>What is written is read back\<close>

context retrieval_types
begin

lemma ClientDealState1_codec [codec]:
  "codec (ClientDealState1_MarshalCBOR R (Some t)) (ClientDealState1_UnmarshalCBOR R) t"
  unfolding ClientDealState1_MarshalCBOR_def ClientDealState1_UnmarshalCBOR_def ClientDealState1_writes_1_def ClientDealState1_writes_2_def ClientDealState1_writes_3_def ClientDealState1_reads_1_def ClientDealState1_reads_2_def ClientDealState1_reads_3_def append.simps
  by (cases t) (rule codec | simp; fail)+

lemma ProviderDealState1_codec [codec]:
  "codec (ProviderDealState1_MarshalCBOR R (Some t)) (ProviderDealState1_UnmarshalCBOR R) t"
  unfolding ProviderDealState1_MarshalCBOR_def ProviderDealState1_UnmarshalCBOR_def ProviderDealState1_writes_1_def ProviderDealState1_writes_2_def ProviderDealState1_reads_1_def ProviderDealState1_reads_2_def append.simps
  by (cases t) (rule codec | simp; fail)+

end

text \<open>
  A deal of the retrieval client that the version before stored survives the upgrade: its bytes are read,
  the deal converted and written, and the new bytes are read back as a deal with the old one's proposal,
  status and payments. It has the old channel if both its ends are known and none otherwise, and it
  is marked as of the old protocol.
\<close>

theorem retrieval_deal_migrated:
  assumes "retrieval_types R" and "ClientDealState1_MarshalCBOR R (Some old) = Inr stored"
    and "MigrateClientDealState1To2 parts old = Inr new" and "ClientDealState_MarshalCBOR R (Some new) = Inr upgraded"
  shows "on_err (ClientDealState1_UnmarshalCBOR R (stored @ rest)) Inl
      (\<lambda>(ds, r). on_err (MigrateClientDealState1To2 parts ds) Inl (\<lambda>ds'. ClientDealState_MarshalCBOR R (Some ds'))) = Inr upgraded \<and>
    ClientDealState_UnmarshalCBOR R (upgraded @ rest) = Inr (new, rest) \<and>
    ProposalOf new = CdProposal1 old \<and> Status new = CdStatus1 old \<and> PaymentInfoOf new = CdPaymentInfo1 old \<and>
    FundsSpent new = CdFundsSpent1 old \<and> TotalReceived new = CdTotalReceived1 old \<and> LegacyProtocol new \<and>
    ChannelID new = (if ChannelInitiator parts (CdChannelID1 old) = [] \<or> ChannelResponder parts (CdChannelID1 old) = []
      then None else Some (CdChannelID1 old))"
  using codecD [OF retrieval_types.ClientDealState1_codec [OF assms(1)] assms(2)]
    codecD [OF retrieval_types.ClientDealState_codec [OF assms(1)] assms(4)] assms(3,4)
  by (auto simp: MigrateClientDealState1To2_def Let_def)

definition sample_old_cds :: ClientDealState1 where
  "sample_old_cds = \<lparr>CdProposal1 = sample_stored_proposal, CdStoreID1 = None,
     CdChannelID1 = ''ab'', CdLastPaymentRequested1 = False, CdAllBlocksReceived1 = True, CdTotalFunds1 = 2000, CdClientWallet1 = ''w'',
     CdMinerWallet1 = ''m'', CdPaymentInfo1 = Some \<lparr>PayCh = ''pch'', Lane = 1\<rparr>, CdStatus1 = DealStatusOngoing, CdSender1 = ''peer'',
     CdTotalReceived1 = 512, CdMessage1 = [], CdBytesPaidFor1 = 400, CdCurrentInterval1 = 110, CdPaymentRequested1 = 24, CdFundsSpent1 = 800,
     CdUnsealFundsPaid1 = 0, CdWaitMsgCID1 = None, CdVoucherShortfall1 = 0, CdLegacyProtocol1 = False\<rparr>"

definition sample_parts :: channel_parts where
  "sample_parts = \<lparr>ChannelInitiator = take 1, ChannelResponder = drop 1\<rparr>"

lemma sample_old_written: "\<not> isl (ClientDealState1_MarshalCBOR sample_retrieval (Some sample_old_cds))"
proof -
  obtain b where "DealProposal_MarshalCBOR sample_retrieval (Some sample_stored_proposal) = Inr b"
    using sample_proposal_written by blast
  then show ?thesis
    by (simp add: ClientDealState1_MarshalCBOR_def ClientDealState1_writes_1_def ClientDealState1_writes_2_def
      ClientDealState1_writes_3_def PaymentInfo_MarshalCBOR_def sample_old_cds_def sample_retrieval_cbor put_defs)
qed

theorem retrieval_deal_migrated_witness:
  "ClientDealState_UnmarshalCBOR sample_retrieval (bytes_of (ClientDealState_MarshalCBOR sample_retrieval
       (Some (sample_stored_cds\<lparr>ChannelID := Some ''ab'', LegacyProtocol := True\<rparr>))) @ ''next'') =
     Inr (sample_stored_cds\<lparr>ChannelID := Some ''ab'', LegacyProtocol := True\<rparr>, ''next'')"
proof -
  let ?new = "sample_stored_cds\<lparr>ChannelID := Some ''ab'', LegacyProtocol := True\<rparr>"
  have "\<not> isl (ClientDealState_MarshalCBOR sample_retrieval (Some ?new))"
  proof -
    obtain b where "DealProposal_MarshalCBOR sample_retrieval (Some sample_stored_proposal) = Inr b"
      using sample_proposal_written by blast
    then show ?thesis
      by (simp add: ClientDealState_MarshalCBOR_def ClientDealState_writes_1_def ClientDealState_writes_2_def
        ClientDealState_writes_3_def PaymentInfo_MarshalCBOR_def sample_stored_cds_def sample_retrieval_cbor put_defs)
  qed
  moreover have "MigrateClientDealState1To2 sample_parts sample_old_cds = Inr ?new"
    by (simp add: MigrateClientDealState1To2_def sample_parts_def sample_old_cds_def sample_stored_cds_def)
  ultimately show ?thesis
    using retrieval_deal_migrated [OF sample_retrieval.retrieval_types_axioms written_bytes [OF sample_old_written] _ written_bytes]
    by blast
qed

end
