(* ===== verification/Retrieval_Bindnode.thy ===== *)
theory Retrieval_Bindnode
  imports Market_Prelude
begin

section \<open>Retrieval market: values inside voucher nodes\<close>

text \<open>
  The converters of \<open>retrievalmarket/bindnodeoptions.go\<close>, which the bindnode library calls for the fields of a
  voucher: a big integer, an address and a signature become bytes, a selector an arbitrary node. An
  \<open>interface{}\<close> is \<open>go_iface\<close>, a pointer of one of the types that are expected, or of another; a pointer
  may be nil, and so may the number inside a big integer and the node inside a selector. The numbers and
  addresses of the Filecoin libraries are the record \<open>bytes_lib\<close>, with their laws as the locale \<open>bytes_laws\<close>.
\<close>

record Signature =
  SigType :: nat
  SigData :: string

datatype go_iface =
    PtrBigInt "token_amount option option"
  | PtrAddress "address option"
  | PtrSignature "Signature option"
  | PtrNode "string option option"
  | PtrOther

record bytes_lib =
  big_FromBytes :: "string \<Rightarrow> go_error + token_amount"
  big_Bytes :: "token_amount \<Rightarrow> go_error + string"
  address_NewFromBytes :: "string \<Rightarrow> go_error + address"
  address_Bytes :: "address \<Rightarrow> string"
  SigTypeSecp256k1 :: nat
  SigTypeBLS :: nat
  SignatureMaxLength :: nat

locale bytes_laws =
  fixes L :: bytes_lib
  assumes big_read: "big_Bytes L n = Inr b \<Longrightarrow> b \<noteq> [] \<Longrightarrow> big_FromBytes L b = Inr n"
    and big_zero: "big_Bytes L n = Inr [] \<Longrightarrow> n = 0"
    and address_read: "address_NewFromBytes L (address_Bytes L a) = Inr a"
    and sig_types: "SigTypeSecp256k1 L < 256" "SigTypeBLS L < 256"

subsection \<open>The converters\<close>

text \<open>A node, \<open>None\<close> being \<open>datamodel.Null\<close>.\<close>

definition cborGenCompatibleNodeFromAny :: "string option \<Rightarrow> go_error + string option" where
  "cborGenCompatibleNodeFromAny node = Inr node"

definition cborGenCompatibleNodeToAny :: "go_iface \<Rightarrow> (go_error + string option) go_run" where
  "cborGenCompatibleNodeToAny iface = (case iface of
     PtrNode sn \<Rightarrow> (case sn of None \<Rightarrow> Panics | Some node \<Rightarrow> Returns (Inr node))
   | _ \<Rightarrow> Returns (Inl (New ''expected *CborGenCompatibleNode value'')))"

definition bigIntFromBytes :: "bytes_lib \<Rightarrow> string \<Rightarrow> go_error + token_amount" where
  "bigIntFromBytes L b = (if length b = 0 then Inr 0 else big_FromBytes L b)"

definition tokenAmountFromBytes :: "bytes_lib \<Rightarrow> string \<Rightarrow> go_error + token_amount" where
  "tokenAmountFromBytes L b = bigIntFromBytes L b"

text \<open>A nil pointer is assigned through.\<close>

definition bigIntToBytes :: "bytes_lib \<Rightarrow> go_iface \<Rightarrow> (go_error + string) go_run" where
  "bigIntToBytes L iface = (case iface of
     PtrBigInt bi \<Rightarrow> (case bi of
         None \<Rightarrow> Panics
       | Some None \<Rightarrow> Returns (big_Bytes L 0)
       | Some (Some n) \<Rightarrow> Returns (big_Bytes L n))
   | _ \<Rightarrow> Returns (Inl (New ''expected *big.Int value'')))"

definition tokenAmountToBytes :: "bytes_lib \<Rightarrow> go_iface \<Rightarrow> (go_error + string) go_run" where
  "tokenAmountToBytes L iface = bigIntToBytes L iface"

definition addressFromBytes :: "bytes_lib \<Rightarrow> string \<Rightarrow> go_error + address" where
  "addressFromBytes L b = address_NewFromBytes L b"

definition addressToBytes :: "bytes_lib \<Rightarrow> go_iface \<Rightarrow> (go_error + string) go_run" where
  "addressToBytes L iface = (case iface of
     PtrAddress addr \<Rightarrow> (case addr of None \<Rightarrow> Panics | Some a \<Rightarrow> Returns (Inr (address_Bytes L a)))
   | _ \<Rightarrow> Returns (Inl (New ''expected *Address value'')))"

definition signatureFromBytes :: "bytes_lib \<Rightarrow> string \<Rightarrow> go_error + Signature" where
  "signatureFromBytes L b =
     (if length b > SignatureMaxLength L then Inl (New ''string too long'')
      else case b of
        [] \<Rightarrow> Inl (New ''string empty'')
      | t # rest \<Rightarrow>
          if of_char t = SigTypeSecp256k1 L then Inr \<lparr>SigType = SigTypeSecp256k1 L, SigData = rest\<rparr>
          else if of_char t = SigTypeBLS L then Inr \<lparr>SigType = SigTypeBLS L, SigData = rest\<rparr>
          else Inl (New (''invalid signature type in cbor input: '' @ show_nat (of_char t))))"

definition signatureToBytes :: "go_iface \<Rightarrow> (go_error + string) go_run" where
  "signatureToBytes iface = (case iface of
     PtrSignature sig \<Rightarrow> (case sig of None \<Rightarrow> Panics | Some s \<Rightarrow> Returns (Inr (char_of (SigType s) # SigData s)))
   | _ \<Rightarrow> Returns (Inl (New ''expected *Signature value'')))"

subsection \<open>What is converted is converted back\<close>

context bytes_laws
begin

lemma bigInt_converted:
  "bigIntToBytes L (PtrBigInt (Some bi)) = Returns (Inr b) \<Longrightarrow>
   bigIntFromBytes L b = Inr (case bi of None \<Rightarrow> 0 | Some n \<Rightarrow> n)"
  using big_read big_zero by (cases "b = []"; cases bi) (auto simp: bigIntToBytes_def bigIntFromBytes_def)

lemma address_converted:
  "addressToBytes L (PtrAddress (Some a)) = Returns (Inr b) \<Longrightarrow> addressFromBytes L b = Inr a"
  by (auto simp: addressToBytes_def addressFromBytes_def address_read)

lemma signature_converted:
  assumes "signatureToBytes (PtrSignature (Some s)) = Returns (Inr b)" and "SigType s < 256"
  shows "signatureFromBytes L b = Inr s \<longleftrightarrow>
    (SigType s = SigTypeSecp256k1 L \<or> SigType s = SigTypeBLS L) \<and> length (SigData s) < SignatureMaxLength L"
proof -
  have b: "b = char_of (SigType s) # SigData s" using assms(1) by (simp add: signatureToBytes_def)
  have "of_char (char_of (SigType s) :: char) = SigType s" using assms(2) by (simp add: of_char_of)
  then show ?thesis by (cases s) (auto simp: b signatureFromBytes_def)
qed

end

text \<open>An instance: small numbers in one byte behind a sign.\<close>

definition sample_bytes_lib :: bytes_lib where
  "sample_bytes_lib = \<lparr>
     big_FromBytes = (\<lambda>b. case b of [s, d] \<Rightarrow> Inr (if s = CHR ''-'' then - int (of_char d) else int (of_char d)) | _ \<Rightarrow> Inl (New ''size'')),
     big_Bytes = (\<lambda>n. if n = 0 then Inr [] else if \<bar>n\<bar> < 256 then Inr [if n < 0 then CHR ''-'' else CHR ''+'', char_of (nat \<bar>n\<bar>)]
       else Inl (New ''too large'')),
     address_NewFromBytes = Inr, address_Bytes = (\<lambda>a. a), SigTypeSecp256k1 = 1, SigTypeBLS = 2, SignatureMaxLength = 200\<rparr>"

interpretation sample_bytes_lib: bytes_laws sample_bytes_lib
proof
  fix n b
  assume "big_Bytes sample_bytes_lib n = Inr b" and "b \<noteq> []"
  then have "\<bar>n\<bar> < 256" "b = [if n < 0 then CHR ''-'' else CHR ''+'', char_of (nat \<bar>n\<bar>)]"
    by (auto simp: sample_bytes_lib_def split: if_splits)
  moreover from this have "of_char (char_of (nat \<bar>n\<bar>) :: char) = nat \<bar>n\<bar>" by (simp add: of_char_of)
  ultimately show "big_FromBytes sample_bytes_lib b = Inr n" by (simp add: sample_bytes_lib_def)
qed (auto simp: sample_bytes_lib_def split: if_splits)

lemma sample_signature_converted:
  "signatureFromBytes sample_bytes_lib (char_of (2::nat) # ''sig'') = Inr \<lparr>SigType = 2, SigData = ''sig''\<rparr>"
  using sample_bytes_lib.signature_converted [of "\<lparr>SigType = 2, SigData = ''sig''\<rparr>" "char_of (2::nat) # ''sig''"]
  by (simp add: signatureToBytes_def) (simp add: sample_bytes_lib_def)

end
