(* ===== verification/Retrieval_Streams.thy ===== *)
theory Retrieval_Streams
  imports Retrieval_Codec Retrieval_Ops Retry_Stream
begin

section \<open>Retrieval market: the query protocol on a stream\<close>

text \<open>
  \<open>retrievalmarket/network/query_stream.go\<close>: a query stream reads from the bytes that arrived and writes
  through the generated codecs, \<open>rw\<close> being what writing to the connection answers;
  \<open>retrievalmarket/network/libp2p_impl.go\<close>: the network object, as \<open>retrieval_network\<close>, with the protocols
  that the host has a handler for as the set \<open>handlers\<close>. At the end the client and the provider are
  joined over one stream.
\<close>

subsection \<open>Query streams\<close>

definition WriteCborRPC :: "(string \<Rightarrow> go_error option) \<Rightarrow> written \<Rightarrow> go_error + string" where
  "WriteCborRPC rw v = on_err v Inl (\<lambda>b. case rw b of None \<Rightarrow> Inr b | Some err \<Rightarrow> Inl err)"

definition qs_ReadQuery :: "retrieval_lib \<Rightarrow> string \<Rightarrow> go_error + Query" where
  "qs_ReadQuery R buffered = on_err (Query_UnmarshalCBOR R buffered) Inl (\<lambda>(q, _). Inr q)"

definition qs_WriteQuery :: "retrieval_lib \<Rightarrow> (string \<Rightarrow> go_error option) \<Rightarrow> Query \<Rightarrow> go_error + string" where
  "qs_WriteQuery R rw q = WriteCborRPC rw (Query_MarshalCBOR R (Some q))"

definition qs_ReadQueryResponse :: "retrieval_lib \<Rightarrow> string \<Rightarrow> go_error + QueryResponse" where
  "qs_ReadQueryResponse R buffered = on_err (QueryResponse_UnmarshalCBOR R buffered) Inl (\<lambda>(resp, _). Inr resp)"

definition qs_WriteQueryResponse :: "retrieval_lib \<Rightarrow> (string \<Rightarrow> go_error option) \<Rightarrow> QueryResponse \<Rightarrow> go_error + string" where
  "qs_WriteQueryResponse R rw qr = WriteCborRPC rw (QueryResponse_MarshalCBOR R (Some qr))"

subsection \<open>The network\<close>

definition QueryProtocolID :: string where
  "QueryProtocolID = ''/fil/retrieval/qry/1.0.0''"

record retrieval_network =
  RNetRetry :: RetryStream
  RNetReceiver :: bool
  supportedProtocols :: "string list"

type_synonym retrieval_network_option = "retrieval_network \<Rightarrow> retrieval_network"

definition NetRetryParameters :: "int \<Rightarrow> int \<Rightarrow> rat \<Rightarrow> rat \<Rightarrow> retrieval_network_option" where
  "NetRetryParameters minDuration maxDuration attempts factor impl =
     impl\<lparr>RNetRetry := SetOptions [RetryParameters minDuration maxDuration attempts factor] (RNetRetry impl)\<rparr>"

definition SupportedProtocols :: "string list \<Rightarrow> retrieval_network_option" where
  "SupportedProtocols protos impl = impl\<lparr>supportedProtocols := protos\<rparr>"

definition NewRetrievalNetwork :: "retrieval_network_option list \<Rightarrow> retrieval_network" where
  "NewRetrievalNetwork options = fold (\<lambda>option impl. option impl) options
     \<lparr>RNetRetry = NewRetryStream [], RNetReceiver = False, supportedProtocols = [QueryProtocolID]\<rparr>"

text \<open>A stream with the peer it goes to, or the error of the last attempt.\<close>

definition OpenQueryStream ::
  "retrieval_network \<Rightarrow> (string list \<Rightarrow> nat \<Rightarrow> go_error + 'st) \<Rightarrow> peer_id \<Rightarrow> go_error + peer_id \<times> 'st" where
  "OpenQueryStream impl newStream p =
     on_err (fst (OpenStream (RNetRetry impl) (newStream (supportedProtocols impl)) (\<lambda>_. False) p)) Inl (\<lambda>s. Inr (p, s))"

definition RSetDelegate :: "retrieval_network \<Rightarrow> string set \<Rightarrow> retrieval_network \<times> string set" where
  "RSetDelegate impl handlers = (impl\<lparr>RNetReceiver := True\<rparr>, handlers \<union> set (supportedProtocols impl))"

definition RStopHandlingRequests :: "retrieval_network \<Rightarrow> string set \<Rightarrow> retrieval_network \<times> string set" where
  "RStopHandlingRequests impl handlers = (impl\<lparr>RNetReceiver := False\<rparr>, handlers - set (supportedProtocols impl))"

text \<open>Without a receiver an incoming stream is reset; otherwise it is handed over with its peer.\<close>

definition handleNewQueryStream :: "retrieval_network \<Rightarrow> peer_id \<Rightarrow> 'st \<Rightarrow> (peer_id \<times> 'st) option" where
  "handleNewQueryStream impl remotePeer s = (if \<not> RNetReceiver impl then None else Some (remotePeer, s))"

lemma handling_requests:
  "fst (RSetDelegate impl H) = impl' \<Longrightarrow> handleNewQueryStream impl' p s = Some (p, s) \<and>
   handleNewQueryStream (fst (RStopHandlingRequests impl' H')) p s = None \<and>
   snd (RStopHandlingRequests impl' (snd (RSetDelegate impl H))) = H - set (supportedProtocols impl)"
  by (auto simp: RSetDelegate_def RStopHandlingRequests_def handleNewQueryStream_def)

text \<open>A stream that cannot be opened is tried five times unless the options say otherwise.\<close>

lemma OpenQueryStream_attempts:
  "snd (OpenStream (RNetRetry (NewRetrievalNetwork [])) newStream (\<lambda>_. False) p) \<le> 5"
  using OpenStream_attempts [of "RNetRetry (NewRetrievalNetwork [])" newStream "\<lambda>_. False" p]
  by (simp add: NewRetrievalNetwork_def NewRetryStream_def SetOptions_def defaultMaxStreamOpenAttempts_def)

subsection \<open>The query protocol, end to end\<close>

text \<open>What the provider writes into the stream.\<close>

definition responses :: "query_effect list \<Rightarrow> QueryResponse list" where
  "responses effs = concat (map (\<lambda>e. case e of WriteResp resp \<Rightarrow> [resp] | PublishQuery _ \<Rightarrow> []) effs)"

text \<open>The provider serving the bytes of a query: the bytes it answers with, if it answers.\<close>

definition serve_query :: "retrieval_lib \<Rightarrow> 'n retrieval_provider \<Rightarrow> peer_id \<Rightarrow> string \<Rightarrow> (go_error + string) option go_run" where
  "serve_query R p remotePeer input = run_bind
     (HandleQueryStream p (qs_ReadQuery R input) remotePeer (\<lambda>resp. on_err (qs_WriteQueryResponse R (\<lambda>_. None) resp) Some (\<lambda>_. None)))
     (\<lambda>effs. Returns (case responses effs of [] \<Rightarrow> None | resp # _ \<Rightarrow> Some (qs_WriteQueryResponse R (\<lambda>_. None) resp)))"

text \<open>The client over a stream that takes what is written and on which \<open>input\<close> arrives.\<close>

definition over_stream :: "retrieval_lib \<Rightarrow> string \<Rightarrow> ('n, 'b) rclient \<Rightarrow> ('n, 'b) rclient" where
  "over_stream R input c = c\<lparr>WriteQuery := (\<lambda>q. on_err (qs_WriteQuery R (\<lambda>_. None) q) Some (\<lambda>_. None)),
     ReadQueryResponse := qs_ReadQueryResponse R input\<rparr>"

lemma responses_sendResp [simp]: "responses (sendResp write resp) = [resp]"
  by (simp add: responses_def sendResp_def)

lemma qs_query_read:
  assumes "retrieval_types R" and "qs_WriteQuery R rw q = Inr b"
  shows "qs_ReadQuery R (b @ rest) = Inr q"
  using codecD [OF retrieval_types.Query_codec [OF assms(1)], of q b rest] assms(2)
  by (auto simp: qs_WriteQuery_def qs_ReadQuery_def WriteCborRPC_def split: on_err_splits option.splits)

lemma qs_response_read:
  assumes "retrieval_types R" and "qs_WriteQueryResponse R rw resp = Inr b"
  shows "qs_ReadQueryResponse R (b @ rest) = Inr resp"
  using codecD [OF retrieval_types.QueryResponse_codec [OF assms(1)], of resp b rest] assms(2)
  by (auto simp: qs_WriteQueryResponse_def qs_ReadQueryResponse_def WriteCborRPC_def split: on_err_splits option.splits)

text \<open>
  A client that queries a provider over a stream gets the answer that the provider makes up for that
  payload and piece: the query survives the way there, the response the way back, and what the
  client returns is what the provider computed, where the provider knows its payment address and the answer
  can be written.
\<close>

theorem query_exchange:
  assumes "retrieval_types R" and "addMultiaddrs c peer = (eff, None)" and "NewQueryStream c (PeerID peer) = None"
    and "qs_WriteQuery R (\<lambda>_. None) \<lparr>QueryPayloadCID = payload, QueryParamsOf = params\<rparr> = Inr b"
    and "QGetChainHead p = Inr (tok, epoch)" and "QGetMinerWorkerAddress p (minerAddress p) tok = Inr worker"
    and "query_piece p client \<lparr>QueryPayloadCID = payload, QueryParamsOf = params\<rparr> (query_answer\<lparr>PaymentAddress := worker\<rparr>) =
      Returns answer"
    and "qs_WriteQueryResponse R (\<lambda>_. None) answer = Inr d"
  shows "serve_query R p client b = Returns (Some (Inr d)) \<and>
    ClientQuery (over_stream R (d @ rest) c) peer payload params =
      (eff @ [QueryWritten (PeerID peer) \<lparr>QueryPayloadCID = payload, QueryParamsOf = params\<rparr>], Inr answer)"
proof -
  have "qs_ReadQuery R b = Inr \<lparr>QueryPayloadCID = payload, QueryParamsOf = params\<rparr>"
    using qs_query_read [OF assms(1,4), of "[]"] by simp
  then have "serve_query R p client b = Returns (Some (Inr d))"
    using assms(5-8) by (simp add: serve_query_def HandleQueryStream_def)
  moreover have "addMultiaddrs (over_stream R (d @ rest) c) peer = (eff, None)"
    using assms(2) by (simp add: addMultiaddrs_def over_stream_def)
  ultimately show ?thesis
    using assms(3,4) qs_response_read [OF assms(1,8), of rest]
    by (simp add: ClientQuery_def over_stream_def)
qed

end
