(* ===== verification/File_Store.thy ===== *)
theory File_Store
  imports Market_Prelude "HOL-Library.AList"
begin

section \<open>The file store\<close>

text \<open>
  \<open>filestore/filestore.go\<close> and \<open>file.go\<close>: files under a base directory, over the operating system. The disk is
  the record \<open>disk\<close>: the contents of the files and the directories, by their cleaned paths, without links. What else an
  operation of the system may fail with (permissions, a full disk) is the record \<open>os_faults\<close>. A file opened by
  the store appends. Paths are cleaned as \<open>path.Clean\<close> does, component by component.
\<close>

subsection \<open>Paths\<close>

fun split_path :: "string \<Rightarrow> string list" where
  "split_path [] = [[]]"
| "split_path (c # cs) = (if c = CHR ''/'' then [] # split_path cs
     else (case split_path cs of [] \<Rightarrow> [[c]] | w # ws \<Rightarrow> (c # w) # ws))"

text \<open>The components that are left, the last first: a \<open>..\<close> removes the one before it, one at the root is
  dropped, and one at the start of a relative path stays.\<close>

definition clean_step :: "bool \<Rightarrow> string list \<Rightarrow> string \<Rightarrow> string list" where
  "clean_step rooted acc w =
     (if w = [] \<or> w = ''.'' then acc
      else if w = ''..'' then (case acc of
          [] \<Rightarrow> if rooted then [] else [''..'']
        | v # vs \<Rightarrow> if v = ''..'' then ''..'' # acc else vs)
      else w # acc)"

fun join_with :: "string list \<Rightarrow> string" where
  "join_with [] = []"
| "join_with [w] = w"
| "join_with (w # ws) = w @ ''/'' @ join_with ws"

definition Clean :: "string \<Rightarrow> string" where
  "Clean p = (let rooted = (case p of c # _ \<Rightarrow> c = CHR ''/'' | [] \<Rightarrow> False);
       ws = rev (fold (\<lambda>w acc. clean_step rooted acc w) (split_path p) [])
     in if rooted then CHR ''/'' # join_with ws else if ws = [] then ''.'' else join_with ws)"

definition Join :: "string \<Rightarrow> string \<Rightarrow> string" where
  "Join base p = (if base = [] then (if p = [] then [] else Clean p)
     else if p = [] then Clean base else Clean (base @ ''/'' @ p))"

subsection \<open>The operating system\<close>

record disk =
  Files :: "(string \<times> string) list"
  Dirs :: "string list"

abbreviation FileAt :: "disk \<Rightarrow> string \<Rightarrow> string option" where
  "FileAt d \<equiv> map_of (Files d)"

abbreviation DirAt :: "disk \<Rightarrow> string \<Rightarrow> bool" where
  "DirAt d p \<equiv> p \<in> set (Dirs d)"

record os_faults =
  StatFault :: "string \<Rightarrow> go_error option"
  OpenFault :: "string \<Rightarrow> go_error option"
  RemoveFault :: "string \<Rightarrow> go_error option"
  CloseFault :: "string \<Rightarrow> go_error option"

definition parent :: "string \<Rightarrow> string" where
  "parent p = Join p ''..''"

definition ErrNotExist :: go_error where "ErrNotExist = New ''no such file or directory''"
definition ErrNotEmpty :: go_error where "ErrNotEmpty = New ''directory not empty''"
definition ErrIsDir :: go_error where "ErrIsDir = New ''is a directory''"

text \<open>Whether there is a directory, and the size.\<close>

definition os_Stat :: "os_faults \<Rightarrow> disk \<Rightarrow> string \<Rightarrow> go_error + bool \<times> nat" where
  "os_Stat F d p = (case StatFault F p of
     Some err \<Rightarrow> Inl err
   | None \<Rightarrow> (case FileAt d p of
       Some content \<Rightarrow> Inr (False, length content)
     | None \<Rightarrow> if DirAt d p then Inr (True, 0) else Inl ErrNotExist))"

text \<open>With \<open>O_APPEND\<close>, \<open>O_CREATE\<close> and \<open>O_RDWR\<close>: a file that is there is kept.\<close>

definition os_OpenFile :: "os_faults \<Rightarrow> disk \<Rightarrow> string \<Rightarrow> disk \<times> (go_error + string)" where
  "os_OpenFile F d p = (case OpenFault F p of
     Some err \<Rightarrow> (d, Inl err)
   | None \<Rightarrow>
       if DirAt d p then (d, Inl ErrIsDir)
       else if FileAt d p \<noteq> None then (d, Inr p)
       else if \<not> DirAt d (parent p) then (d, Inl ErrNotExist)
       else (d\<lparr>Files := AList.update p [] (Files d)\<rparr>, Inr p))"

definition append_to :: "disk \<Rightarrow> string \<Rightarrow> string \<Rightarrow> disk" where
  "append_to d p bs = (case FileAt d p of
     None \<Rightarrow> d | Some content \<Rightarrow> d\<lparr>Files := AList.update p (content @ bs) (Files d)\<rparr>)"

text \<open>An empty directory is removed too.\<close>

definition os_Remove :: "os_faults \<Rightarrow> disk \<Rightarrow> string \<Rightarrow> disk \<times> go_error option" where
  "os_Remove F d p = (case RemoveFault F p of
     Some err \<Rightarrow> (d, Some err)
   | None \<Rightarrow>
       if FileAt d p \<noteq> None then (d\<lparr>Files := AList.delete p (Files d)\<rparr>, None)
       else if DirAt d p then
         (if list_ex (\<lambda>q. q \<noteq> p \<and> parent q = p) (map fst (Files d) @ Dirs d) then (d, Some ErrNotEmpty)
          else (d\<lparr>Dirs := removeAll p (Dirs d)\<rparr>, None))
       else (d, Some ErrNotExist))"

subsection \<open>Files\<close>

text \<open>The name on the system, the path in the store and the base.\<close>

record fd =
  FdName :: string
  FdFilename :: string
  FdBasepath :: string

definition newFile :: "os_faults \<Rightarrow> disk \<Rightarrow> string \<Rightarrow> string \<Rightarrow> disk \<times> (go_error + fd)" where
  "newFile F d basepath filename = (let full = Join basepath filename in
     case os_OpenFile F d full of
       (d', Inl err) \<Rightarrow> (d', Inl err)
     | (d', Inr name) \<Rightarrow> (d', Inr \<lparr>FdName = name, FdFilename = filename, FdBasepath = basepath\<rparr>))"

definition fd_Path :: "fd \<Rightarrow> string" where
  "fd_Path f = FdFilename f"

definition fd_OsPath :: "fd \<Rightarrow> string" where
  "fd_OsPath f = FdName f"

definition fd_Size :: "os_faults \<Rightarrow> disk \<Rightarrow> fd \<Rightarrow> int" where
  "fd_Size F d f = on_err (os_Stat F d (FdName f)) (\<lambda>_. - 1) (\<lambda>(_, n). int n)"

subsection \<open>The store\<close>

definition checkIsDir :: "os_faults \<Rightarrow> disk \<Rightarrow> string \<Rightarrow> go_error + string" where
  "checkIsDir F d baseDir = (let base = Clean baseDir in
     on_err (os_Stat F d base)
       (\<lambda>err. Inl (New (''error getting '' @ base @ '' info: '' @ Error err)))
       (\<lambda>(isDir, _). if \<not> isDir then Inl (New (base @ '' is not a directory'')) else Inr base))"

definition NewLocalFileStore :: "os_faults \<Rightarrow> disk \<Rightarrow> string \<Rightarrow> go_error + string" where
  "NewLocalFileStore F d baseDir = checkIsDir F d baseDir"

definition fs_filename :: "string \<Rightarrow> string \<Rightarrow> string" where
  "fs_filename base p = Join base p"

definition fs_Open :: "os_faults \<Rightarrow> string \<Rightarrow> disk \<Rightarrow> string \<Rightarrow> disk \<times> (go_error + fd)" where
  "fs_Open F base d p = (let name = fs_filename base p in
     case os_Stat F d name of
       Inl err \<Rightarrow> (d, Inl (New (''error trying to open '' @ name @ '': '' @ Error err)))
     | Inr _ \<Rightarrow> newFile F d base p)"

definition fs_Create :: "os_faults \<Rightarrow> string \<Rightarrow> disk \<Rightarrow> string \<Rightarrow> disk \<times> (go_error + fd)" where
  "fs_Create F base d p = (let name = fs_filename base p in
     case os_Stat F d name of
       Inr _ \<Rightarrow> (d, Inl (New (''file '' @ name @ '' already exists'')))
     | Inl _ \<Rightarrow> newFile F d base p)"

text \<open>The source of a copy: what it gives, and the error that it ends with, if any.\<close>

definition fs_Store ::
  "os_faults \<Rightarrow> string \<Rightarrow> disk \<Rightarrow> string \<Rightarrow> string \<times> go_error option \<Rightarrow> disk \<times> (go_error + string)" where
  "fs_Store F base d p src = (case fs_Create F base d p of
     (d', Inl err) \<Rightarrow> (d', Inl err)
   | (d', Inr dest) \<Rightarrow>
       let d'' = append_to d' (FdName dest) (fst src) in
       (case snd src of
          Some err \<Rightarrow> (d'', Inl err)
        | None \<Rightarrow> (case CloseFault F (FdName dest) of Some err \<Rightarrow> (d'', Inl err) | None \<Rightarrow> (d'', Inr p))))"

definition fs_Delete :: "os_faults \<Rightarrow> string \<Rightarrow> disk \<Rightarrow> string \<Rightarrow> disk \<times> go_error option" where
  "fs_Delete F base d p = os_Remove F d (Join base p)"

text \<open>\<open>ioutil.TempFile\<close> tries names with a random suffix until one is free, ten thousand times at most.\<close>

definition temp_name :: "string \<Rightarrow> (nat \<Rightarrow> string) \<Rightarrow> nat \<Rightarrow> string" where
  "temp_name base random n = Join base (''fstmp'' @ random n)"

fun temp_file :: "os_faults \<Rightarrow> string \<Rightarrow> disk \<Rightarrow> (nat \<Rightarrow> string) \<Rightarrow> nat \<Rightarrow> nat \<Rightarrow> disk \<times> (go_error + string)" where
  "temp_file F base d random n tries =
     (let name = temp_name base random n in
      if OpenFault F name \<noteq> None then (d, Inl (the (OpenFault F name)))
      else if FileAt d name \<noteq> None \<or> DirAt d name
      then (case tries of 0 \<Rightarrow> (d, Inl (New ''file exists'')) | Suc k \<Rightarrow> temp_file F base d random (Suc n) k)
      else if \<not> DirAt d base then (d, Inl ErrNotExist)
      else (d\<lparr>Files := AList.update name [] (Files d)\<rparr>, Inr name))"

declare temp_file.simps [simp del]

definition Base :: "string \<Rightarrow> string" where
  "Base p = (if p = [] then ''.'' else case filter (\<lambda>w. w \<noteq> []) (split_path p) of [] \<Rightarrow> ''/'' | ws \<Rightarrow> last ws)"

definition fs_CreateTemp :: "os_faults \<Rightarrow> string \<Rightarrow> disk \<Rightarrow> (nat \<Rightarrow> string) \<Rightarrow> disk \<times> (go_error + fd)" where
  "fs_CreateTemp F base d random = (case temp_file F base d random 0 9999 of
     (d', Inl err) \<Rightarrow> (d', Inl err)
   | (d', Inr name) \<Rightarrow> (d', Inr \<lparr>FdName = name, FdFilename = Base name, FdBasepath = base\<rparr>))"

subsection \<open>Paths of the store\<close>

lemma split_path_nonempty: "split_path p \<noteq> []"
  by (induction p) (auto split: list.splits)

lemma split_path_join: "split_path (p @ CHR ''/'' # q) = split_path p @ split_path q"
proof (induction p)
  case (Cons c p)
  then show ?case using split_path_nonempty [of p] by (auto split: list.splits)
qed simp

lemma split_path_word: "CHR ''/'' \<notin> set w \<Longrightarrow> split_path w = [w]"
  by (induction w) auto

lemma join_with_snoc: "join_with (ws @ [w]) = (if ws = [] then w else join_with ws @ ''/'' @ w)"
  by (induction ws rule: join_with.induct) auto

lemma clean_step_word: "w \<notin> {[], ''.'', ''..''} \<Longrightarrow> clean_step rooted acc w = w # acc"
  by (simp add: clean_step_def)

text \<open>A file name without a slash stays the last component of its path under any base.\<close>

lemma Base_Join:
  assumes "CHR ''/'' \<notin> set w" and "w \<notin> {[], ''.'', ''..''}" and "base \<noteq> []"
  shows "Base (Join base w) = w"
proof -
  define rooted where "rooted = (case base @ CHR ''/'' # w of c # _ \<Rightarrow> c = CHR ''/'' | [] \<Rightarrow> False)"
  define ws where "ws = rev (fold (\<lambda>w acc. clean_step rooted acc w) (split_path base) [])"
  have "Join base w = (if rooted then [CHR ''/''] else []) @ join_with (ws @ [w])"
    using assms by (cases rooted) (simp_all add: Join_def Clean_def Let_def split_path_join split_path_word clean_step_word
      ws_def flip: rooted_def)
  then consider v where "Join base w = v @ ''/'' @ w" | "Join base w = w"
    by (cases rooted; cases "ws = []") (auto simp: join_with_snoc)
  then show ?thesis
  proof cases
    case 1
    then show ?thesis using assms(1,2) by (cases "filter (\<lambda>w. w \<noteq> []) (split_path v)")
      (simp_all add: Base_def split_path_join [of v w] split_path_word)
  next
    case 2
    then show ?thesis using assms(1,2) by (simp add: Base_def split_path_word)
  qed
qed

text \<open>A path with \<open>..\<close> leads out of the base.\<close>

lemma store_path_escapes: "fs_filename ''/base'' ''../secret'' = ''/secret''"
  by (simp add: fs_filename_def Join_def Clean_def clean_step_def Let_def)

subsection \<open>What the operations do to the disk\<close>

lemma append_to_file: "FileAt d p = Some content \<Longrightarrow> FileAt (append_to d p bs) = (FileAt d)(p \<mapsto> content @ bs)"
  by (simp add: append_to_def update_conv')

text \<open>A file that could be created without an error of the system but its absence is new and empty.\<close>

lemma fs_Create_new:
  assumes "fs_Create F base d p = (d', Inr f)" and "StatFault F (Join base p) = None"
  shows "FileAt d (Join base p) = None \<and> FileAt d' = (FileAt d)(Join base p \<mapsto> []) \<and> FdName f = Join base p \<and> Dirs d' = Dirs d"
  using assms by (auto simp: fs_Create_def fs_filename_def os_Stat_def newFile_def os_OpenFile_def Let_def update_conv'
    split: option.splits sum.splits prod.splits if_splits)

lemma fs_Create_exists:
  "FileAt d (Join base p) \<noteq> None \<Longrightarrow> StatFault F (Join base p) = None \<Longrightarrow>
   fs_Create F base d p = (d, Inl (New (''file '' @ Join base p @ '' already exists'')))"
  by (auto simp: fs_Create_def fs_filename_def os_Stat_def Let_def)

text \<open>What was stored is what the file holds, and no other file changes; deleting it leaves the disk without it.\<close>

lemma fs_Store_stores:
  assumes "fs_Store F base d p (bs, None) = (d', Inr q)" and "StatFault F (Join base p) = None"
  shows "q = p \<and> FileAt d' = (FileAt d)(Join base p \<mapsto> bs) \<and>
    (RemoveFault F (Join base p) = None \<longrightarrow>
      (\<exists>d''. fs_Delete F base d' p = (d'', None) \<and> FileAt d'' = FileAt d))"
proof -
  obtain d1 f where create: "fs_Create F base d p = (d1, Inr f)" and d': "d' = append_to d1 (FdName f) bs" and q: "q = p"
    using assms(1) by (auto simp: fs_Store_def Let_def split: prod.splits sum.splits option.splits)
  have new: "FileAt d (Join base p) = None" "FileAt d1 = (FileAt d)(Join base p \<mapsto> [])" "FdName f = Join base p"
    using fs_Create_new [OF create assms(2)] by simp_all
  have stored: "FileAt d' = (FileAt d)(Join base p \<mapsto> bs)"
    using append_to_file [of d1 "Join base p" "[]" bs] new(2,3) by (simp add: d')
  then have "FileAt d' (Join base p) = Some bs" by simp
  then show ?thesis using q stored new(1) by (auto simp: fs_Delete_def os_Remove_def delete_conv' fun_upd_idem_iff)
qed

text \<open>
  A copy that fails leaves its part of the file behind, and no later attempt to store under that path succeeds
  until the file is deleted.
\<close>

theorem failed_store_blocks_retry:
  assumes "fs_Create F base d p = (d1, Inr f)" and "StatFault F (Join base p) = None"
    and "fs_Store F base d p (part, Some err) = (d', r)"
  shows "r = Inl err \<and> FileAt d' (Join base p) = Some part \<and>
    fs_Store F base d' p src = (d', Inl (New (''file '' @ Join base p @ '' already exists'')))"
proof -
  have new: "FileAt d1 = (FileAt d)(Join base p \<mapsto> [])" "FdName f = Join base p"
    using fs_Create_new [OF assms(1,2)] by simp_all
  have d': "d' = append_to d1 (Join base p) part" "r = Inl err"
    using assms(1,3) new(2) by (simp_all add: fs_Store_def Let_def)
  have "FileAt d' (Join base p) = Some part"
    using append_to_file [of d1 "Join base p" "[]" part] new(1) by (simp add: d'(1))
  then show ?thesis using d'(2) fs_Create_exists [of d' base p F] assms(2) by (simp add: fs_Store_def)
qed

lemma temp_file_new:
  "temp_file F base d random n tries = (d', Inr name) \<Longrightarrow>
   (\<exists>k. name = temp_name base random k) \<and> FileAt d name = None \<and> \<not> DirAt d name \<and>
   FileAt d' = (FileAt d)(name \<mapsto> []) \<and> Dirs d' = Dirs d \<and> OpenFault F name = None"
proof (induction tries arbitrary: n)
  case 0
  then show ?case by (subst (asm) temp_file.simps) (auto simp: Let_def update_conv' split: if_splits)
next
  case (Suc tries)
  show ?case
  proof (cases "FileAt d (temp_name base random n) \<noteq> None \<or> DirAt d (temp_name base random n)")
    case True
    with Suc.prems have "temp_file F base d random (Suc n) tries = (d', Inr name)"
      by (subst (asm) temp_file.simps) (simp add: Let_def split: if_splits)
    then show ?thesis by (rule Suc.IH)
  next
    case False
    with Suc.prems show ?thesis by (subst (asm) temp_file.simps) (auto simp: Let_def update_conv' split: if_splits)
  qed
qed

text \<open>A temporary file is new and empty, no other file changes, and its path opens the same file again.\<close>

theorem CreateTemp_reopened:
  assumes "fs_CreateTemp F base d random = (d', Inr f)" and "base \<noteq> []" and "\<And>k. CHR ''/'' \<notin> set (random k)"
    and "StatFault F (FdName f) = None"
  shows "FileAt d (FdName f) = None \<and> FileAt d' = (FileAt d)(FdName f \<mapsto> []) \<and> fd_Size F d' f = 0 \<and>
    fs_Open F base d' (fd_Path f) = (d', Inr f)"
proof -
  obtain name where temp: "temp_file F base d random 0 9999 = (d', Inr name)"
    and f: "f = \<lparr>FdName = name, FdFilename = Base name, FdBasepath = base\<rparr>"
    using assms(1) by (auto simp: fs_CreateTemp_def split: prod.splits sum.splits)
  obtain k where name: "name = Join base (''fstmp'' @ random k)" and new: "FileAt d name = None" "\<not> DirAt d' name"
    "FileAt d' = (FileAt d)(name \<mapsto> [])" "OpenFault F name = None"
    using temp_file_new [OF temp] unfolding temp_name_def by auto
  have path: "Base name = ''fstmp'' @ random k"
    unfolding name by (rule Base_Join) (use assms(2,3) in auto)
  have "os_Stat F d' name = Inr (False, 0)" using assms(4) new(3) by (simp add: os_Stat_def f)
  then show ?thesis
    using new path name by (simp add: f fs_Open_def fs_filename_def fd_Path_def fd_Size_def newFile_def os_OpenFile_def)
qed

end
