(* ===== verification/Block_Locations.thy ===== *)
theory Block_Locations
  imports Piece_Codec File_Store
begin

section \<open>From the blocks of a CAR to the piece store\<close>

text \<open>
  \<open>LoadBlockLocations\<close> of \<open>impl/providerutils\<close>, and the way of the places of the blocks of a deal through four
  components: the block recorder writes them, the file store keeps the file, the provider loads it when the
  sector is sealed, and the piece store adds them to what it knows of each block. A Go map is an
  association list with a key at most once, in the order in which the keys came.
\<close>

text \<open>What is read from a file that was just opened.\<close>

definition file_bytes :: "disk \<Rightarrow> fd \<Rightarrow> string" where
  "file_bytes d f = (case FileAt d (FdName f) of Some content \<Rightarrow> content | None \<Rightarrow> [])"

definition location_map :: "PieceBlockMetadata list \<Rightarrow> (cid \<times> BlockLocation) list" where
  "location_map metadata = fold (\<lambda>metadatum blockLocations. AList.update (MetaCID metadatum)
     \<lparr>RelOffset = MetaOffset metadatum, BlockSize = MetaSize metadatum\<rparr> blockLocations) metadata []"

text \<open>\<open>None\<close>: the loop over the file does not end.\<close>

definition LoadBlockLocations ::
  "cbor_lib \<Rightarrow> os_faults \<Rightarrow> string \<Rightarrow> disk \<Rightarrow> string \<Rightarrow> disk \<times> (go_error + (cid \<times> BlockLocation) list) option" where
  "LoadBlockLocations B F base d metadataPath = (case fs_Open F base d metadataPath of
     (d', Inl err) \<Rightarrow> (d', Some (Inl err))
   | (d', Inr metadataFile) \<Rightarrow>
       (d', map_option (\<lambda>r. on_err r Inl (\<lambda>metadata. Inr (location_map metadata)))
          (ReadBlockMetadata B (file_bytes d' metadataFile))))"

subsection \<open>Loading what was stored\<close>

lemma fs_Open_stored:
  assumes "fs_Store F base d p (bs, None) = (d', Inr q)" and "StatFault F (Join base p) = None"
  shows "\<exists>f. fs_Open F base d' q = (d', Inr f) \<and> file_bytes d' f = bs"
proof -
  obtain d1 f where create: "fs_Create F base d p = (d1, Inr f)" and d': "d' = append_to d1 (FdName f) bs"
    using assms(1) by (auto simp: fs_Store_def Let_def split: prod.splits sum.splits option.splits)
  have stored: "q = p" "FileAt d' (Join base p) = Some bs" using fs_Store_stores [OF assms] by auto
  have "OpenFault F (Join base p) = None" "\<not> DirAt d (Join base p)"
    using create assms(2) by (auto simp: fs_Create_def fs_filename_def os_Stat_def newFile_def os_OpenFile_def Let_def
      split: option.splits sum.splits prod.splits if_splits)
  moreover have "Dirs d' = Dirs d"
    using fs_Create_new [OF create assms(2)] by (simp add: d' append_to_def split: option.splits)
  ultimately show ?thesis
    using stored assms(2) by (simp add: fs_Open_def fs_filename_def os_Stat_def newFile_def os_OpenFile_def file_bytes_def)
qed

text \<open>A CID that comes more than once has its last place.\<close>

lemma map_of_location_fold:
  "map_of (fold (\<lambda>m ls. AList.update (MetaCID m) \<lparr>RelOffset = MetaOffset m, BlockSize = MetaSize m\<rparr> ls) ms ls) c =
   (case find (\<lambda>m. MetaCID m = c) (rev ms) of
      Some m \<Rightarrow> Some \<lparr>RelOffset = MetaOffset m, BlockSize = MetaSize m\<rparr> | None \<Rightarrow> map_of ls c)"
proof (induction ms rule: rev_induct)
  case (snoc m ms)
  then show ?case by (simp add: update_conv')
qed simp

lemma distinct_location_fold:
  "distinct (map fst ls) \<Longrightarrow>
   distinct (map fst (fold (\<lambda>m ls. AList.update (MetaCID m) \<lparr>RelOffset = MetaOffset m, BlockSize = MetaSize m\<rparr> ls) ms ls))"
  by (induction ms arbitrary: ls) (simp_all add: distinct_update)

lemma location_map_places:
  "{l. (c, l) \<in> set (location_map ms)} = (case find (\<lambda>m. MetaCID m = c) (rev ms) of
     Some m \<Rightarrow> {\<lparr>RelOffset = MetaOffset m, BlockSize = MetaSize m\<rparr>} | None \<Rightarrow> {})"
proof -
  have "distinct (map fst (location_map ms))" by (simp add: location_map_def distinct_location_fold)
  then have "{l. (c, l) \<in> set (location_map ms)} = {l. map_of (location_map ms) c = Some l}" by simp
  then show ?thesis using map_of_location_fold [of ms "[]" c] by (simp add: location_map_def split: option.splits)
qed

lemma find_map: "find P (map f xs) = map_option f (find (P \<circ> f) xs)"
  by (induction xs) simp_all

text \<open>Where the data of a block lies in its CAR.\<close>

definition block_location :: "car_block \<Rightarrow> BlockLocation" where
  "block_location block = \<lparr>RelOffset = BlockOffset block + BlockSectionSize block - of_nat (length (BlockData block)),
     BlockSize = of_nat (length (BlockData block))\<rparr>"

text \<open>
  C40. The places of the blocks of a deal get from its CAR to the piece store: what the block recorder writes and
  the file store keeps is loaded without an error and added, after which every block is known at the places it
  was known at before and at the one in this piece, the last one if the CAR has the block several times. No
  other place comes in, and the disk is as it was.
\<close>

theorem recorded_blocks_located:
  assumes "cbor_codec B" and "put_values (map (RecordEachBlockTo B) blocks) = Inr file"
    and "fs_Store F base d p (file, None) = (d', Inr path)" and "StatFault F (Join base p) = None"
    and "reliable_store api view"
  shows "\<exists>locs s'. LoadBlockLocations B F base d' path = (d', Some (Inr locs)) \<and>
    AddPieceBlockLocations api pieceCID locs s = (None, s') \<and>
    (\<forall>c. block_places (view s') c = block_places (view s) c \<union>
       (case find (\<lambda>block. BlockCID block = c) (rev blocks) of
          Some block \<Rightarrow> {(pieceCID, block_location block)} | None \<Rightarrow> {}))"
proof -
  define ms where "ms = map (\<lambda>block. \<lparr>MetaCID = BlockCID block,
    MetaOffset = BlockOffset block + BlockSectionSize block - of_nat (length (BlockData block)),
    MetaSize = of_nat (length (BlockData block))\<rparr>) blocks"
  have "ReadBlockMetadata B file = Some (Inr ms)"
    unfolding ms_def by (rule block_metadata_read_back [OF assms(1,2)])
  with fs_Open_stored [OF assms(3,4)]
  have load: "LoadBlockLocations B F base d' path = (d', Some (Inr (location_map ms)))"
    by (auto simp: LoadBlockLocations_def)
  have places: "{l. (c, l) \<in> set (location_map ms)} = (case find (\<lambda>block. BlockCID block = c) (rev blocks) of
      Some block \<Rightarrow> {block_location block} | None \<Rightarrow> {})" for c
    by (simp add: location_map_places ms_def rev_map find_map comp_def block_location_def split: option.splits)
  obtain s' where s': "AddPieceBlockLocations api pieceCID (location_map ms) s = (None, s')"
    using AddPieceBlockLocations_total [OF assms(5)] by blast
  have "block_places (view s') c = block_places (view s) c \<union> (case find (\<lambda>block. BlockCID block = c) (rev blocks) of
      Some block \<Rightarrow> {(pieceCID, block_location block)} | None \<Rightarrow> {})" for c
    using AddPieceBlockLocations_places [OF reliable_is_state_store [OF assms(5)] s', of c]
    by (simp add: places split: option.splits)
  with load s' show ?thesis by blast
qed

text \<open>A CAR with one block twice, in a store at \<open>/base\<close>.\<close>

definition sample_blocks :: "car_block list" where
  "sample_blocks = [\<lparr>BlockCID = ''c'', BlockOffset = 10, BlockSectionSize = 7, BlockData = ''data''\<rparr>,
     \<lparr>BlockCID = ''c'', BlockOffset = 17, BlockSectionSize = 7, BlockData = ''data''\<rparr>]"

definition no_faults :: os_faults where
  "no_faults = \<lparr>StatFault = (\<lambda>_. None), OpenFault = (\<lambda>_. None), RemoveFault = (\<lambda>_. None), CloseFault = (\<lambda>_. None)\<rparr>"

definition sample_disk :: disk where
  "sample_disk = \<lparr>Files = [], Dirs = [''/base'']\<rparr>"

lemma sample_blocks_recorded:
  "put_values (map (RecordEachBlockTo sample_cbor) sample_blocks) =
   Inr (bytes_of (put_values (map (RecordEachBlockTo sample_cbor) sample_blocks)))"
  by (rule written_bytes) (simp add: sample_blocks_def RecordEachBlockTo_def PieceBlockMetadata_MarshalCBOR_def put_defs)

lemma sample_join: "Join ''/base'' ''meta'' = ''/base/meta''" "parent ''/base/meta'' = ''/base''"
  by (simp_all add: Join_def parent_def Clean_def clean_step_def)

lemma sample_stored: "\<exists>d'. fs_Store no_faults ''/base'' sample_disk ''meta'' (bs, None) = (d', Inr ''meta'')"
  by (simp add: fs_Store_def fs_Create_def fs_filename_def newFile_def os_Stat_def os_OpenFile_def sample_join
    no_faults_def sample_disk_def Let_def)

theorem recorded_blocks_located_witness:
  "\<exists>d' locs s'. LoadBlockLocations sample_cbor no_faults ''/base'' d' ''meta'' = (d', Some (Inr locs)) \<and>
     AddPieceBlockLocations mem_api ''piece'' locs [] = (None, s') \<and>
     block_places (map_of s') ''c'' = {(''piece'', \<lparr>RelOffset = 20, BlockSize = 4\<rparr>)}"
proof -
  obtain d' where d': "fs_Store no_faults ''/base'' sample_disk ''meta''
    (bytes_of (put_values (map (RecordEachBlockTo sample_cbor) sample_blocks)), None) = (d', Inr ''meta'')"
    using sample_stored by blast
  have stat: "StatFault no_faults (Join ''/base'' ''meta'') = None" by (simp add: no_faults_def)
  have empty: "block_places (map_of []) ''c'' = {}" by (simp add: block_places_def cid_entry_def CIDInfoUndefined_def)
  from recorded_blocks_located [OF sample_cbor.cbor_codec_axioms sample_blocks_recorded d' stat mem_store.reliable_store_axioms,
      of "''piece''" "[]"] empty
  show ?thesis by (fastforce simp: sample_blocks_def block_location_def)
qed

end
