(* ===== verification/Padded_Reader.thy ===== *)
theory Padded_Reader
  imports Market_Prelude
begin

section \<open>Padded readers and piece commitments\<close>

text \<open>
  \<open>shared/inflator_reader.go\<close>: a reader that pads a payload up to a size and can go back to its start; and
  \<open>commp/commp.go\<close>: the commitment of a CAR, padded up to the size of the deal. The padding reader is the
  library \<open>padreader\<close>: \<open>PadNew\<close> makes one over a reader, \<open>PadRead\<close> reads at most \<open>n\<close> bytes, given what is left of the
  reader below, and leaves some of it. The commitments are the library \<open>commp_lib\<close>.
\<close>

subsection \<open>The inflator\<close>

record 'p padreader =
  PadNew :: "uint64 \<Rightarrow> uint64 \<Rightarrow> go_error + 'p"
  PadRead :: "nat \<Rightarrow> 'p \<Rightarrow> string \<Rightarrow> (string \<times> go_error option) \<times> 'p \<times> string"

text \<open>\<open>IrData\<close> and \<open>IrPos\<close> are the seeker below: its bytes and where it stands.\<close>

record 'p inflatorReader =
  IrData :: string
  IrPos :: nat
  IrPayloadSize :: uint64
  IrTargetSize :: uint64
  IrPadded :: 'p

definition NewInflatorReader ::
  "'p padreader \<Rightarrow> string \<Rightarrow> nat \<Rightarrow> uint64 \<Rightarrow> uint64 \<Rightarrow> go_error + 'p inflatorReader" where
  "NewInflatorReader P data pos payloadSize targetSize = on_err (PadNew P payloadSize targetSize) Inl
     (\<lambda>p. Inr \<lparr>IrData = data, IrPos = pos, IrPayloadSize = payloadSize, IrTargetSize = targetSize, IrPadded = p\<rparr>)"

definition ir_Read :: "'p padreader \<Rightarrow> nat \<Rightarrow> 'p inflatorReader \<Rightarrow> (string \<times> go_error option) \<times> 'p inflatorReader" where
  "ir_Read P n r = (case PadRead P n (IrPadded r) (drop (IrPos r) (IrData r)) of
     (res, p, left) \<Rightarrow> (res, r\<lparr>IrPadded := p, IrPos := length (IrData r) - length left\<rparr>))"

text \<open>\<open>seek\<close> is what seeking to the start answers. When the padding reader cannot be made, the old one stays
  over a seeker that has moved.\<close>

definition ir_SeekStart :: "go_error option \<Rightarrow> 'p padreader \<Rightarrow> 'p inflatorReader \<Rightarrow> go_error option \<times> 'p inflatorReader" where
  "ir_SeekStart seek P r = (case seek of
     Some err \<Rightarrow> (Some err, r)
   | None \<Rightarrow> (case PadNew P (IrPayloadSize r) (IrTargetSize r) of
       Inl err \<Rightarrow> (Some err, r\<lparr>IrPos := 0\<rparr>)
     | Inr p \<Rightarrow> (None, r\<lparr>IrPos := 0, IrPadded := p\<rparr>)))"

text \<open>Several reads after one another.\<close>

fun ir_reads :: "'p padreader \<Rightarrow> nat list \<Rightarrow> 'p inflatorReader \<Rightarrow> (string \<times> go_error option) list \<times> 'p inflatorReader" where
  "ir_reads P [] r = ([], r)"
| "ir_reads P (n # ns) r = (case ir_Read P n r of
     (res, r') \<Rightarrow> (case ir_reads P ns r' of (rest, r'') \<Rightarrow> (res # rest, r'')))"

lemma ir_reads_keeps:
  "ir_reads P ns r = (res, r') \<Longrightarrow> IrData r' = IrData r \<and> IrPayloadSize r' = IrPayloadSize r \<and> IrTargetSize r' = IrTargetSize r"
proof (induction ns arbitrary: r res)
  case (Cons n ns)
  obtain out r1 rest where r1: "ir_Read P n r = (out, r1)" "ir_reads P ns r1 = (rest, r')"
    using Cons.prems by (auto split: prod.splits)
  from Cons.IH [OF r1(2)] r1(1) show ?case by (auto simp: ir_Read_def split: prod.splits)
qed simp

text \<open>
  However much was read, a reader that went back to its start is the one that was made there: it gives the
  same bytes again.
\<close>

theorem rewind_reads_again:
  assumes "NewInflatorReader P data 0 payloadSize targetSize = Inr r0" and "ir_reads P ns r0 = (res, r)"
  shows "ir_SeekStart None P r = (None, r0) \<and> fst (ir_reads P ns (snd (ir_SeekStart None P r))) = res"
proof -
  obtain p where p: "PadNew P payloadSize targetSize = Inr p"
    "r0 = \<lparr>IrData = data, IrPos = 0, IrPayloadSize = payloadSize, IrTargetSize = targetSize, IrPadded = p\<rparr>"
    using assms(1) by (auto simp: NewInflatorReader_def split: on_err_splits)
  then have "ir_SeekStart None P r = (None, r0)"
    using ir_reads_keeps [OF assms(2)] by (cases r) (simp add: ir_SeekStart_def)
  then show ?thesis using assms(2) by simp
qed

subsection \<open>Commitments\<close>

record commp_lib =
  CommpSum :: "string \<Rightarrow> go_error + cid \<times> uint64"
  PieceCidHash :: "cid \<Rightarrow> string"
  PadCommP :: "string \<Rightarrow> uint64 \<Rightarrow> uint64 \<Rightarrow> go_error + string"
  DataCommitmentV1ToCID :: "string \<Rightarrow> cid \<times> go_error option"

text \<open>The reader gives some bytes and then ends, or fails. The last 32 bytes of the hash are taken, which panics when it is
  shorter; the error of the last conversion is dropped.\<close>

definition GenerateCommp ::
  "commp_lib \<Rightarrow> string \<times> go_error option \<Rightarrow> uint64 \<Rightarrow> uint64 \<Rightarrow> (go_error + cid) go_run" where
  "GenerateCommp K reader payloadSize targetSize = (case reader of
     (_, Some err) \<Rightarrow> Returns (Inl (Wrap ''failed to write to CommP writer: '' err))
   | (bs, None) \<Rightarrow>
       if int (length bs) \<noteq> int64_of payloadSize
       then Returns (Inl (New (''number of bytes written to CommP writer '' @ show_int (int (length bs)) @
         '' not equal to the CARv1 payload size '' @ show_uint64 payloadSize)))
       else on_err (CommpSum K bs)
         (\<lambda>err. Returns (Inl (Wrap ''failed to get CommP: '' err)))
         (\<lambda>(c, pieceSize).
            if pieceSize < targetSize
            then (let h = PieceCidHash K c in
              if length h < 32 then Panics
              else on_err (PadCommP K (drop (length h - 32) h) pieceSize targetSize)
                (\<lambda>err. Returns (Inl err))
                (\<lambda>raw. Returns (Inr (fst (DataCommitmentV1ToCID K raw)))))
            else Returns (Inr c)))"

text \<open>A payload size beyond \<open>int64\<close> is never met, and one that is met is the number of bytes that were read.\<close>

lemma GenerateCommp_size:
  assumes "GenerateCommp K (bs, e) payloadSize targetSize = Returns (Inr c)"
  shows "e = None \<and> unat payloadSize = length bs \<and> unat payloadSize < 2 ^ 63"
proof -
  have e: "e = None" and n: "int (length bs) = int64_of payloadSize"
    using assms by (auto simp: GenerateCommp_def split: option.splits if_splits)
  have small: "uint payloadSize < 2 ^ 63"
  proof (rule ccontr)
    assume big: "\<not> uint payloadSize < 2 ^ 63"
    moreover have "uint payloadSize < 2 ^ 64" using uint_lt2p [of payloadSize] by simp
    ultimately have "(uint payloadSize + 2 ^ 63 - 2 ^ 64) mod 2 ^ 64 = uint payloadSize - 2 ^ 63"
      by (subst mod_pos_pos_trivial) auto
    then have "(uint payloadSize + 2 ^ 63) mod 2 ^ 64 = uint payloadSize - 2 ^ 63" by (simp only: minus_mod_self2)
    then have "int64_of payloadSize < 0" using \<open>uint payloadSize < 2 ^ 64\<close> by (simp add: int64_of_def i64_def)
    with n show False by simp
  qed
  then have "uint payloadSize = int (length bs)" using n int64_of_small [of payloadSize] by simp
  then have "unat payloadSize = length bs" by (simp only: unat_eq_nat_uint nat_int)
  moreover have "int (length bs) < 2 ^ 63" using small \<open>uint payloadSize = int (length bs)\<close> by simp
  ultimately show ?thesis using e by simp
qed

text \<open>A piece that is not smaller than the deal keeps its commitment.\<close>

lemma GenerateCommp_unpadded:
  "CommpSum K bs = Inr (c, pieceSize) \<Longrightarrow> targetSize \<le> pieceSize \<Longrightarrow> int (length bs) = int64_of payloadSize \<Longrightarrow>
   GenerateCommp K (bs, None) payloadSize targetSize = Returns (Inr c)"
  by (auto simp: GenerateCommp_def dest: leD)

end
