(* ===== verification/Ready_Manager.thy ===== *)
theory Ready_Manager
  imports Market_Prelude
begin

section \<open>The ready event, step by step\<close>

text \<open>
  \<open>shared/ready.go\<close> with its goroutines, its lock and its channels. \<open>FireReady\<close> publishes the event to the
  listeners one after the other while it holds the lock; a caller of \<open>AwaitReady\<close> looks whether the event
  was fired, registers a listener of its own and then waits for what that listener sends over a channel
  without a buffer, or for \<open>Stop\<close>. The publisher of the pubsub library calls the listeners in the order in which they
  were registered. A state records where every caller and the publisher stand, \<open>ready_step\<close> is one move of one
  of them; a move that needs the lock is possible while the publisher does not hold it.
\<close>

text \<open>A listener of \<open>AwaitReady\<close>, by its caller, or one that \<open>OnReady\<close> was given and that returns.\<close>

datatype ready_listener = Awaiting nat | Listening nat

datatype ready_caller = NotWaiting | Checked | Waiting | Back "go_error option"

text \<open>Where \<open>FireReady\<close> stands: \<open>Firing ls\<close> has the listeners \<open>ls\<close> still to call; \<open>Sending i ls\<close> is inside the
  listener of \<open>i\<close>, which saw the stop and sends the error of the context.\<close>

datatype ready_publisher = NotFired | Firing "ready_listener list" | Sending nat "ready_listener list" | Fired

record ready_state =
  RsReady :: bool
  RsErr :: "go_error option"
  RsStopped :: bool
  RsListeners :: "ready_listener list"
  RsCallers :: "nat \<Rightarrow> ready_caller"
  RsLate :: "nat \<Rightarrow> bool"
  RsPublisher :: ready_publisher
  RsCalled :: "(nat \<times> go_error option) list"

definition ctx_Canceled :: go_error where
  "ctx_Canceled = Sentinel ContextCanceled ''context canceled''"

definition ready_init :: ready_state where
  "ready_init = \<lparr>RsReady = False, RsErr = None, RsStopped = False, RsListeners = [], RsCallers = (\<lambda>_. NotWaiting),
     RsLate = (\<lambda>_. False), RsPublisher = NotFired, RsCalled = []\<rparr>"

fun unlocked :: "ready_publisher \<Rightarrow> bool" where
  "unlocked (Firing ls) = False"
| "unlocked (Sending i ls) = False"
| "unlocked _ = True"

text \<open>
  \<open>RsLate\<close> marks a caller that registered after the event: its listener runs in a goroutine of its own. The
  two last rules are that goroutine's, which holds no lock.
\<close>

inductive ready_step :: "ready_state \<Rightarrow> ready_state \<Rightarrow> bool" where
  is_ready: "unlocked (RsPublisher s) \<Longrightarrow> RsCallers s i = NotWaiting \<Longrightarrow> RsReady s \<Longrightarrow>
    ready_step s (s\<lparr>RsCallers := (RsCallers s)(i := Back (RsErr s))\<rparr>)"
| not_ready: "unlocked (RsPublisher s) \<Longrightarrow> RsCallers s i = NotWaiting \<Longrightarrow> \<not> RsReady s \<Longrightarrow>
    ready_step s (s\<lparr>RsCallers := (RsCallers s)(i := Checked)\<rparr>)"
| register: "unlocked (RsPublisher s) \<Longrightarrow> RsCallers s i = Checked \<Longrightarrow> \<not> RsReady s \<Longrightarrow>
    ready_step s (s\<lparr>RsCallers := (RsCallers s)(i := Waiting), RsListeners := RsListeners s @ [Awaiting i]\<rparr>)"
| register_late: "unlocked (RsPublisher s) \<Longrightarrow> RsCallers s i = Checked \<Longrightarrow> RsReady s \<Longrightarrow>
    ready_step s (s\<lparr>RsCallers := (RsCallers s)(i := Waiting), RsLate := (RsLate s)(i := True)\<rparr>)"
| on_ready: "unlocked (RsPublisher s) \<Longrightarrow> \<not> RsReady s \<Longrightarrow>
    ready_step s (s\<lparr>RsListeners := RsListeners s @ [Listening l]\<rparr>)"
| on_ready_late: "unlocked (RsPublisher s) \<Longrightarrow> RsReady s \<Longrightarrow>
    ready_step s (s\<lparr>RsCalled := RsCalled s @ [(l, RsErr s)]\<rparr>)"
| stop: "ready_step s (s\<lparr>RsStopped := True\<rparr>)"
| give_up: "RsCallers s i = Waiting \<Longrightarrow> RsStopped s \<Longrightarrow>
    ready_step s (s\<lparr>RsCallers := (RsCallers s)(i := Back (Some ctx_Canceled))\<rparr>)"
| fire: "RsPublisher s = NotFired \<Longrightarrow>
    ready_step s (s\<lparr>RsReady := True, RsErr := err, RsPublisher := Firing (RsListeners s)\<rparr>)"
| deliver: "RsPublisher s = Firing (Awaiting i # ls) \<Longrightarrow> RsCallers s i = Waiting \<Longrightarrow>
    ready_step s (s\<lparr>RsCallers := (RsCallers s)(i := Back (RsErr s)), RsPublisher := Firing ls\<rparr>)"
| see_stop: "RsPublisher s = Firing (Awaiting i # ls) \<Longrightarrow> RsStopped s \<Longrightarrow>
    ready_step s (s\<lparr>RsPublisher := Sending i ls\<rparr>)"
| send_stop: "RsPublisher s = Sending i ls \<Longrightarrow> RsCallers s i = Waiting \<Longrightarrow>
    ready_step s (s\<lparr>RsCallers := (RsCallers s)(i := Back (Some ctx_Canceled)), RsPublisher := Firing ls\<rparr>)"
| call: "RsPublisher s = Firing (Listening l # ls) \<Longrightarrow>
    ready_step s (s\<lparr>RsCalled := RsCalled s @ [(l, RsErr s)], RsPublisher := Firing ls\<rparr>)"
| published: "RsPublisher s = Firing [] \<Longrightarrow> ready_step s (s\<lparr>RsPublisher := Fired\<rparr>)"
| deliver_late: "RsLate s i \<Longrightarrow> RsCallers s i = Waiting \<Longrightarrow>
    ready_step s (s\<lparr>RsCallers := (RsCallers s)(i := Back (RsErr s))\<rparr>)"
| send_stop_late: "RsLate s i \<Longrightarrow> RsStopped s \<Longrightarrow> RsCallers s i = Waiting \<Longrightarrow>
    ready_step s (s\<lparr>RsCallers := (RsCallers s)(i := Back (Some ctx_Canceled))\<rparr>)"

definition ready_reachable :: "ready_state \<Rightarrow> bool" where
  "ready_reachable s \<longleftrightarrow> ready_step\<^sup>*\<^sup>* ready_init s"

subsection \<open>Invariant\<close>

definition to_call :: "ready_state \<Rightarrow> ready_listener list" where
  "to_call s = (case RsPublisher s of
     NotFired \<Rightarrow> RsListeners s | Firing ls \<Rightarrow> ls | Sending i ls \<Rightarrow> Awaiting i # ls | Fired \<Rightarrow> [])"

text \<open>
  A caller that is back has the result of the event, or the error of a stop; one that waits is listened for
  exactly once, or by a goroutine of its own, and no other caller is, unless it gave up.
\<close>

definition publisher_ok :: "ready_state \<Rightarrow> bool" where
  "publisher_ok s \<longleftrightarrow> (RsReady s \<longleftrightarrow> RsPublisher s \<noteq> NotFired) \<and>
     (case RsPublisher s of Sending i ls \<Rightarrow> RsStopped s | _ \<Rightarrow> True)"

definition caller_ok :: "ready_state \<Rightarrow> nat \<Rightarrow> bool" where
  "caller_ok s i \<longleftrightarrow> (RsLate s i \<longrightarrow> RsPublisher s = Fired) \<and>
     (case RsCallers s i of
        Waiting \<Rightarrow> RsLate s i \<or> count_list (to_call s) (Awaiting i) = 1
      | Back e \<Rightarrow> RsReady s \<and> e = RsErr s \<and> count_list (to_call s) (Awaiting i) = 0 \<or>
          RsStopped s \<and> e = Some ctx_Canceled \<and> count_list (to_call s) (Awaiting i) \<le> 1
      | _ \<Rightarrow> \<not> RsLate s i \<and> count_list (to_call s) (Awaiting i) = 0)"

lemma publisher_ok_step: "ready_step s s' \<Longrightarrow> publisher_ok s \<Longrightarrow> publisher_ok s'"
  by (induction rule: ready_step.induct) (auto simp: publisher_ok_def split: ready_publisher.splits)

lemma to_call_upd [simp]:
  "to_call (s\<lparr>RsCallers := c\<rparr>) = to_call s" "to_call (s\<lparr>RsLate := l\<rparr>) = to_call s"
  "to_call (s\<lparr>RsStopped := b\<rparr>) = to_call s" "to_call (s\<lparr>RsCalled := cs\<rparr>) = to_call s"
  by (simp_all add: to_call_def split: ready_publisher.splits)

lemma to_call_fired [simp]: "RsPublisher s = Fired \<Longrightarrow> to_call s = []"
  by (simp add: to_call_def)

lemma caller_ok_step:
  "ready_step s s' \<Longrightarrow> publisher_ok s \<Longrightarrow> caller_ok s j \<Longrightarrow> caller_ok s' j"
proof (induction rule: ready_step.induct)
  case (register s i)
  then have "RsPublisher s = NotFired" by (simp add: publisher_ok_def)
  with register show ?case by (cases "j = i") (auto simp: caller_ok_def to_call_def split: ready_caller.splits)
next
  case (on_ready s l)
  then have "RsPublisher s = NotFired" by (simp add: publisher_ok_def)
  with on_ready show ?case by (auto simp: caller_ok_def to_call_def split: ready_caller.splits)
next
  case (fire s err)
  then have "\<not> RsReady s" by (simp add: publisher_ok_def)
  with fire show ?case by (auto simp: caller_ok_def to_call_def split: ready_caller.splits)
next
  case (register_late s i)
  then have "RsPublisher s = Fired" by (cases "RsPublisher s") (simp_all add: publisher_ok_def)
  with register_late show ?case by (auto simp: caller_ok_def split: ready_caller.splits)
next
  case (deliver_late s i)
  show ?case
  proof (cases "j = i")
    case True
    with deliver_late have "RsPublisher s = Fired" "RsReady s" by (auto simp: caller_ok_def publisher_ok_def)
    with True show ?thesis by (simp add: caller_ok_def to_call_def)
  qed (use deliver_late in \<open>auto simp: caller_ok_def split: ready_caller.splits\<close>)
next
  case (deliver s i ls)
  then have "RsReady s" by (simp add: publisher_ok_def)
  with deliver show ?case by (cases "j = i") (auto simp: caller_ok_def to_call_def split: ready_caller.splits if_splits)
next
  case (see_stop s i ls)
  then have "to_call (s\<lparr>RsPublisher := Sending i ls\<rparr>) = to_call s" by (simp add: to_call_def)
  with see_stop show ?case by (auto simp: caller_ok_def split: ready_caller.splits)
next
  case (send_stop s i ls)
  then have "RsStopped s" by (simp add: publisher_ok_def)
  with send_stop show ?case by (cases "j = i") (auto simp: caller_ok_def to_call_def split: ready_caller.splits if_splits)
next
  case (call s l ls)
  then show ?case by (auto simp: caller_ok_def to_call_def split: ready_caller.splits)
next
  case (published s)
  then show ?case by (auto simp: caller_ok_def to_call_def split: ready_caller.splits)
qed (auto simp: caller_ok_def split: ready_caller.splits if_splits)

lemma ready_reachable_ok: "ready_reachable s \<Longrightarrow> publisher_ok s \<and> caller_ok s i"
  unfolding ready_reachable_def
proof (induction rule: rtranclp_induct)
  case base
  show ?case by (simp add: publisher_ok_def caller_ok_def ready_init_def to_call_def)
next
  case (step s s')
  then show ?case using publisher_ok_step caller_ok_step by blast
qed

lemma ready_reachable_step: "ready_reachable s \<Longrightarrow> ready_step s s' \<Longrightarrow> ready_reachable s'"
  unfolding ready_reachable_def by (rule rtranclp.rtrancl_into_rtrancl)

subsection \<open>Until somebody stops, everybody gets the result\<close>

lemma firing_ends:
  assumes "ready_reachable s" and "\<not> RsStopped s" and "RsPublisher s = Firing ls"
  shows "\<exists>s'. ready_step\<^sup>*\<^sup>* s s' \<and> RsPublisher s' = Fired \<and> RsErr s' = RsErr s \<and>
    (\<forall>i. RsCallers s' i = (if Awaiting i \<in> set ls then Back (RsErr s) else RsCallers s i))"
  using assms
proof (induction ls arbitrary: s)
  case Nil
  then have "ready_step s (s\<lparr>RsPublisher := Fired\<rparr>)" by (intro ready_step.published)
  then show ?case by (intro exI [of _ "s\<lparr>RsPublisher := Fired\<rparr>"]) auto
next
  case (Cons x ls)
  obtain s1 where s1: "ready_step s s1" "RsPublisher s1 = Firing ls" "\<not> RsStopped s1" "RsErr s1 = RsErr s"
    "\<forall>i. RsCallers s1 i = (if x = Awaiting i then Back (RsErr s) else RsCallers s i)"
  proof (cases x)
    case (Awaiting i)
    with Cons.prems have "RsCallers s i = Waiting"
      using ready_reachable_ok [OF Cons.prems(1), of i] by (auto simp: caller_ok_def to_call_def split: ready_caller.splits)
    show thesis
      by (rule that [of "s\<lparr>RsCallers := (RsCallers s)(i := Back (RsErr s)), RsPublisher := Firing ls\<rparr>"])
        (use Awaiting Cons.prems \<open>RsCallers s i = Waiting\<close> ready_step.deliver [of s i ls] in auto)
  next
    case (Listening l)
    show thesis
      by (rule that [of "s\<lparr>RsCalled := RsCalled s @ [(l, RsErr s)], RsPublisher := Firing ls\<rparr>"])
        (use Listening Cons.prems ready_step.call [of s l ls] in auto)
  qed
  from Cons.IH [OF ready_reachable_step [OF Cons.prems(1) s1(1)] s1(3,2)]
  obtain s' where s': "ready_step\<^sup>*\<^sup>* s1 s'" "RsPublisher s' = Fired" "RsErr s' = RsErr s1"
    "\<forall>i. RsCallers s' i = (if Awaiting i \<in> set ls then Back (RsErr s1) else RsCallers s1 i)" by blast
  have "RsCallers s' i = (if Awaiting i \<in> set (x # ls) then Back (RsErr s) else RsCallers s i)" for i
    using s'(4) s1(4,5) by auto
  then show ?case using s1(1,4) s'(1,2,3) by (intro exI [of _ s']) auto
qed

text \<open>
  C37. As long as nobody calls \<open>Stop\<close>, the ready event reaches everybody: when \<open>FireReady\<close> publishes, it can finish,
  and then every caller of \<open>AwaitReady\<close> that waited has the error that was fired with; and at any time,
  whoever has come back from \<open>AwaitReady\<close> has that error, or the error of the context after a stop.
\<close>

theorem ready_reaches_all:
  assumes "ready_reachable s" and "RsPublisher s = Firing ls" and "\<not> RsStopped s"
  shows "(\<exists>s'. ready_step\<^sup>*\<^sup>* s s' \<and> RsPublisher s' = Fired \<and>
      (\<forall>i. RsCallers s i = Waiting \<longrightarrow> RsCallers s' i = Back (RsErr s))) \<and>
    (\<forall>t i e. ready_step\<^sup>*\<^sup>* s t \<and> RsCallers t i = Back e \<longrightarrow> e = RsErr t \<or> RsStopped t \<and> e = Some ctx_Canceled)"
proof
  have "Awaiting i \<in> set ls" if "RsCallers s i = Waiting" for i
    using that ready_reachable_ok [OF assms(1), of i] assms(2) count_list_0_iff [of ls "Awaiting i"]
    by (auto simp: caller_ok_def to_call_def)
  with firing_ends [OF assms(1,3,2)]
  show "\<exists>s'. ready_step\<^sup>*\<^sup>* s s' \<and> RsPublisher s' = Fired \<and> (\<forall>i. RsCallers s i = Waiting \<longrightarrow> RsCallers s' i = Back (RsErr s))"
    by (metis (full_types))
  have reach: "ready_reachable t" if "ready_step\<^sup>*\<^sup>* s t" for t
    using that assms(1) unfolding ready_reachable_def by (rule rtranclp_trans [rotated])
  show "\<forall>t i e. ready_step\<^sup>*\<^sup>* s t \<and> RsCallers t i = Back e \<longrightarrow> e = RsErr t \<or> RsStopped t \<and> e = Some ctx_Canceled"
  proof (intro allI impI)
    fix t i e
    assume t: "ready_step\<^sup>*\<^sup>* s t \<and> RsCallers t i = Back e"
    then have "caller_ok t i" using reach ready_reachable_ok by blast
    with t show "e = RsErr t \<or> RsStopped t \<and> e = Some ctx_Canceled" by (auto simp: caller_ok_def)
  qed
qed

subsection \<open>After a stop the event can be stuck\<close>

lemma stuck_step:
  assumes "ready_step s s'" and "RsPublisher s = Firing (Awaiting i # ls) \<or> RsPublisher s = Sending i ls" and "RsCallers s i = Back e"
  shows "(RsPublisher s' = Firing (Awaiting i # ls) \<or> RsPublisher s' = Sending i ls) \<and> RsCallers s' i = Back e \<and>
    (RsCallers s j = NotWaiting \<longrightarrow> RsCallers s' j = NotWaiting) \<and> (RsCallers s j = Checked \<longrightarrow> RsCallers s' j = Checked)"
  using assms by (induction rule: ready_step.induct) auto


text \<open>Caller 0 waits, the manager is stopped, the caller gives up, and the event is fired.\<close>

definition gave_up :: ready_state where
  "gave_up = ready_init\<lparr>RsReady := True, RsStopped := True, RsListeners := [Awaiting 0],
     RsCallers := (\<lambda>_. NotWaiting)(0 := Back (Some ctx_Canceled)), RsPublisher := Firing [Awaiting 0]\<rparr>"

definition one_waits :: ready_state where
  "one_waits = ready_init\<lparr>RsListeners := [Awaiting 0], RsCallers := (\<lambda>_. NotWaiting)(0 := Waiting)\<rparr>"

lemma one_waits_reachable: "ready_reachable one_waits"
proof -
  have "ready_step ready_init (ready_init\<lparr>RsCallers := (\<lambda>_. NotWaiting)(0 := Checked)\<rparr>)"
    using ready_step.not_ready [of ready_init 0] by (simp add: ready_init_def)
  moreover have "ready_step (ready_init\<lparr>RsCallers := (\<lambda>_. NotWaiting)(0 := Checked)\<rparr>) one_waits"
    using ready_step.register [of "ready_init\<lparr>RsCallers := (\<lambda>_. NotWaiting)(0 := Checked)\<rparr>" 0]
    by (simp add: one_waits_def ready_init_def)
  ultimately show ?thesis unfolding ready_reachable_def by (meson rtranclp.simps)
qed

lemma gave_up_reachable: "ready_reachable gave_up"
proof -
  let ?s1 = "one_waits\<lparr>RsStopped := True\<rparr>"
  let ?s2 = "?s1\<lparr>RsCallers := (\<lambda>_. NotWaiting)(0 := Back (Some ctx_Canceled))\<rparr>"
  have "ready_reachable ?s1"
    using ready_reachable_step [OF one_waits_reachable ready_step.stop] .
  moreover have "ready_step ?s1 ?s2"
    using ready_step.give_up [of ?s1 0] by (simp add: one_waits_def)
  moreover have "ready_step ?s2 gave_up"
    using ready_step.fire [of ?s2 None] by (simp add: one_waits_def gave_up_def ready_init_def)
  ultimately show ?thesis by (blast intro: ready_reachable_step)
qed


text \<open>The same without a stop.\<close>

theorem ready_reaches_all_witness:
  "\<exists>s'. ready_step\<^sup>*\<^sup>* (one_waits\<lparr>RsReady := True, RsPublisher := Firing [Awaiting 0]\<rparr>) s' \<and> RsPublisher s' = Fired \<and>
     RsCallers s' 0 = Back None"
proof -
  let ?s = "one_waits\<lparr>RsReady := True, RsPublisher := Firing [Awaiting 0]\<rparr>"
  have "ready_step one_waits ?s"
    using ready_step.fire [of one_waits None] by (simp add: one_waits_def ready_init_def)
  then have "ready_reachable ?s" using ready_reachable_step [OF one_waits_reachable] by blast
  from ready_reaches_all [OF this, of "[Awaiting 0]"] show ?thesis by (auto simp: one_waits_def ready_init_def)
qed

end
