(* ===== verification/Market_Events.thy ===== *)
theory Market_Events
  imports Market_Prelude
begin

section \<open>Construction, starting up and subscriptions\<close>

text \<open>
  What the four sides of the markets, the piece store and the peer list have around their operations: the
  constructors, options, \<open>Start\<close> and \<open>Stop\<close>, the notifiers that the state machines call, and the dispatchers that
  the pubsub library calls for each subscriber with an event. An \<open>interface{}\<close> that is asserted to have a type is
  \<open>any\<close>, of that type or of another. What a dispatcher calls is the list of calls of subscribers. The types of
  events, deals and subscribers are parameters: the code of the dispatchers is the same for all of them.
\<close>

datatype 'a any = Typed 'a | Untyped

subsection \<open>Dispatchers\<close>

definition dispatch_any :: "string \<Rightarrow> 'e any \<Rightarrow> 'l any \<Rightarrow> ('l \<times> 'e) list \<times> go_error option" where
  "dispatch_any wrongCallback evt fn = (case evt of
     Untyped \<Rightarrow> ([], Some (New ''wrong type of event''))
   | Typed e \<Rightarrow> (case fn of
       Untyped \<Rightarrow> ([], Some (New wrongCallback))
     | Typed cb \<Rightarrow> ([(cb, e)], None)))"

definition sp_providerDispatcher :: "('e \<times> 'd) any \<Rightarrow> 'l any \<Rightarrow> ('l \<times> 'e \<times> 'd) list \<times> go_error option" where
  "sp_providerDispatcher = dispatch_any ''wrong type of callback''"

definition sc_clientDispatcher :: "('e \<times> 'd) any \<Rightarrow> 'l any \<Rightarrow> ('l \<times> 'e \<times> 'd) list \<times> go_error option" where
  "sc_clientDispatcher = dispatch_any ''wrong type of event''"

definition rp_providerDispatcher :: "('e \<times> 'd) any \<Rightarrow> 'l any \<Rightarrow> ('l \<times> 'e \<times> 'd) list \<times> go_error option" where
  "rp_providerDispatcher = dispatch_any ''wrong type of event''"

definition rc_dispatcher :: "('e \<times> 'd) any \<Rightarrow> 'l any \<Rightarrow> ('l \<times> 'e \<times> 'd) list \<times> go_error option" where
  "rc_dispatcher = dispatch_any ''wrong type of event''"

definition queryEvtDispatcher :: "'e any \<Rightarrow> 'l any \<Rightarrow> ('l \<times> 'e) list \<times> go_error option" where
  "queryEvtDispatcher = dispatch_any ''wrong type of callback''"

definition queryValidationDispatcher :: "'e any \<Rightarrow> 'l any \<Rightarrow> ('l \<times> 'e) list \<times> go_error option" where
  "queryValidationDispatcher = dispatch_any ''wrong type of callback''"

text \<open>The ready event is an error or nil; \<open>None\<close> is nil.\<close>

definition ReadyDispatcher :: "go_error any option \<Rightarrow> 'l any \<Rightarrow> ('l \<times> go_error option) list \<times> go_error option" where
  "ReadyDispatcher evt fn = (case evt of
     Some Untyped \<Rightarrow> ([], Some (New ''wrong type of event''))
   | _ \<Rightarrow> (case fn of
       Untyped \<Rightarrow> ([], Some (New ''wrong type of event''))
     | Typed cb \<Rightarrow> ([(cb, case evt of Some (Typed err) \<Rightarrow> Some err | _ \<Rightarrow> None)], None)))"

subsection \<open>Notifiers\<close>

text \<open>What the notifier of a state machine hands to the publisher. In the storage market a name or a deal of another
  type is logged, and the zero value is published in its place; in the retrieval market it panics.\<close>

definition of_any :: "'a \<Rightarrow> 'a any \<Rightarrow> 'a" where
  "of_any zero x = (case x of Typed a \<Rightarrow> a | Untyped \<Rightarrow> zero)"

definition sp_dispatch :: "'e \<Rightarrow> 'd \<Rightarrow> 'e any \<Rightarrow> 'd any \<Rightarrow> ('e \<times> 'd) any" where
  "sp_dispatch zeroEvent zeroDeal eventName deal = Typed (of_any zeroEvent eventName, of_any zeroDeal deal)"

definition sc_dispatch :: "'e \<Rightarrow> 'd \<Rightarrow> 'e any \<Rightarrow> 'd any \<Rightarrow> ('e \<times> 'd) any" where
  "sc_dispatch zeroEvent zeroDeal eventName deal = Typed (of_any zeroEvent eventName, of_any zeroDeal deal)"

definition rp_notifySubscribers :: "'e any \<Rightarrow> 'd any \<Rightarrow> ('e \<times> 'd) any go_run" where
  "rp_notifySubscribers eventName state = (case (eventName, state) of
     (Typed e, Typed ds) \<Rightarrow> Returns (Typed (e, ds)) | _ \<Rightarrow> Panics)"

definition rc_notifySubscribers :: "'e any \<Rightarrow> 'd any \<Rightarrow> ('e \<times> 'd) any go_run" where
  "rc_notifySubscribers eventName state = (case (eventName, state) of
     (Typed e, Typed ds) \<Rightarrow> Returns (Typed (e, ds)) | _ \<Rightarrow> Panics)"

text \<open>The events of a state machine have the right types, and then a subscriber is called with what happened.\<close>

lemma notified:
  "sp_providerDispatcher (sp_dispatch z z' (Typed e) (Typed d)) (Typed cb) = ([(cb, e, d)], None)"
  "sc_clientDispatcher (sc_dispatch z z' (Typed e) (Typed d)) (Typed cb) = ([(cb, e, d)], None)"
  "rp_notifySubscribers (Typed e) (Typed d) = Returns ev \<Longrightarrow> rp_providerDispatcher ev (Typed cb) = ([(cb, e, d)], None)"
  "rc_notifySubscribers (Typed e) (Typed d) = Returns ev \<Longrightarrow> rc_dispatcher ev (Typed cb) = ([(cb, e, d)], None)"
  by (auto simp: sp_providerDispatcher_def sp_dispatch_def sc_clientDispatcher_def sc_dispatch_def rp_notifySubscribers_def
    rp_providerDispatcher_def rc_notifySubscribers_def rc_dispatcher_def dispatch_any_def of_any_def)

text \<open>An event that the log calls dropped is published.\<close>

lemma bad_event_published:
  "sp_providerDispatcher (sp_dispatch z z' Untyped (Typed d)) (Typed cb) = ([(cb, z, d)], None)"
  by (simp add: sp_providerDispatcher_def sp_dispatch_def dispatch_any_def of_any_def)

subsection \<open>Options\<close>

record ('dd, 'md) provider_config =
  customDealDeciderFunc :: "'dd option"
  awaitTransferRestartTimeout :: int
  metadataForDeal :: 'md

definition CustomDealDecisionLogic :: "'dd \<Rightarrow> ('dd, 'md) provider_config \<Rightarrow> ('dd, 'md) provider_config" where
  "CustomDealDecisionLogic decider p = p\<lparr>customDealDeciderFunc := Some decider\<rparr>"

definition AwaitTransferRestartTimeout :: "int \<Rightarrow> ('dd, 'md) provider_config \<Rightarrow> ('dd, 'md) provider_config" where
  "AwaitTransferRestartTimeout waitTime p = p\<lparr>awaitTransferRestartTimeout := waitTime\<rparr>"

definition CustomMetadataGenerator :: "'md \<Rightarrow> ('dd, 'md) provider_config \<Rightarrow> ('dd, 'md) provider_config" where
  "CustomMetadataGenerator metadataFunc p = p\<lparr>metadataForDeal := metadataFunc\<rparr>"

record client_config =
  pollingInterval :: int
  maxTraversalLinks :: uint64

definition DealPollingInterval :: "int \<Rightarrow> client_config \<Rightarrow> client_config" where
  "DealPollingInterval t c = c\<lparr>pollingInterval := t\<rparr>"

definition MaxTraversalLinks :: "uint64 \<Rightarrow> client_config \<Rightarrow> client_config" where
  "MaxTraversalLinks m c = c\<lparr>maxTraversalLinks := m\<rparr>"

definition PollingInterval :: "client_config \<Rightarrow> int" where
  "PollingInterval c = pollingInterval c"

text \<open>\<open>Configure\<close>, of each side: the options in their order.\<close>

definition Configure :: "('p \<Rightarrow> 'p) list \<Rightarrow> 'p \<Rightarrow> 'p" where
  "Configure options p = fold (\<lambda>option p. option p) options p"

subsection \<open>Construction\<close>

text \<open>The steps of a constructor that may fail or that other modules see, in their order; \<open>answer\<close> is what each
  step answers. The result is what was done, and the error that ended it, if any.\<close>

datatype setup_step =
    NewAskStore
  | BuildMigrations
  | NewStateMachines string
  | ConfigureOptions
  | SubscribeTransfers
  | RegisterVoucherType string
  | RegisterTransportConfigurer string

fun run_setup :: "(setup_step \<Rightarrow> go_error option) \<Rightarrow> setup_step list \<Rightarrow> setup_step list \<times> go_error option" where
  "run_setup answer [] = ([], None)"
| "run_setup answer (st # steps) = (case answer st of
     Some err \<Rightarrow> ([], Some err)
   | None \<Rightarrow> (case run_setup answer steps of (done_steps, err) \<Rightarrow> (st # done_steps, err)))"

definition sp_NewProvider :: "setup_step list" where
  "sp_NewProvider = [BuildMigrations, NewStateMachines ''2'', ConfigureOptions, SubscribeTransfers,
     RegisterVoucherType ''StorageDataTransferVoucher'', RegisterTransportConfigurer ''StorageDataTransferVoucher'']"

definition sc_NewClient :: "setup_step list" where
  "sc_NewClient = [BuildMigrations, NewStateMachines ''1'', ConfigureOptions, SubscribeTransfers,
     RegisterVoucherType ''StorageDataTransferVoucher'', RegisterTransportConfigurer ''StorageDataTransferVoucher'']"

definition rc_NewClient :: "setup_step list" where
  "rc_NewClient = [BuildMigrations, NewStateMachines ''2'', RegisterVoucherType ''RetrievalDealProposal/1'',
     RegisterVoucherType ''RetrievalDealPayment/1'', SubscribeTransfers, RegisterTransportConfigurer ''RetrievalDealProposal/1'']"

text \<open>A provider without a pricing function is refused before anything else.\<close>

definition rp_NewProvider :: "(setup_step \<Rightarrow> go_error option) \<Rightarrow> bool \<Rightarrow> setup_step list \<times> go_error option" where
  "rp_NewProvider answer pricing = (if \<not> pricing then ([], Some (New ''retrievalPricingFunc is nil''))
     else run_setup answer [NewAskStore, BuildMigrations, NewStateMachines ''2'', ConfigureOptions,
       RegisterVoucherType ''RetrievalDealProposal/1'', RegisterVoucherType ''RetrievalDealPayment/1'',
       RegisterTransportConfigurer ''RetrievalDealProposal/1'', SubscribeTransfers])"

lemma run_setup_prefix:
  assumes "run_setup answer steps = (ds, err)"
  shows "(err = None \<longrightarrow> ds = steps) \<and> (err \<noteq> None \<longrightarrow> (\<exists>st rest. steps = ds @ st # rest \<and> answer st = err))"
  using assms
proof (induction steps arbitrary: ds)
  case (Cons st steps)
  show ?case
  proof (cases "answer st")
    case None
    obtain ds' where ds': "run_setup answer steps = (ds', err)" "ds = st # ds'"
      using Cons.prems None by (auto split: prod.splits)
    from Cons.IH [OF ds'(1)] show ?thesis by (auto simp: ds'(2))
  next
    case (Some e)
    with Cons.prems have "ds = []" "err = Some e" by auto
    with Some show ?thesis by simp
  qed
qed simp

text \<open>
  A retrieval provider whose construction fails has no subscription to the data transfers; a storage provider that
  fails to register its voucher has, and no way to give it up.
\<close>

lemma failed_provider_subscribed:
  "rp_NewProvider answer pricing = (ds, Some err) \<Longrightarrow> SubscribeTransfers \<notin> set ds \<or> answer SubscribeTransfers \<noteq> None"
  "(\<And>st. answer st = (if st = RegisterVoucherType ''StorageDataTransferVoucher'' then Some err else None)) \<Longrightarrow>
   run_setup answer sp_NewProvider = ([BuildMigrations, NewStateMachines ''2'', ConfigureOptions, SubscribeTransfers], Some err)"
  by (auto simp: rp_NewProvider_def sp_NewProvider_def split: if_splits option.splits prod.splits)

subsection \<open>Starting and stopping\<close>

text \<open>\<open>Go\<close> marks what runs in a goroutine; \<open>Migrated err\<close> is the end of a migration, \<open>Publish err\<close> the ready event.\<close>

datatype start_effect =
    SetDelegate
  | GoStart
  | Connect
  | GoReconnect
  | StopReady
  | UnsubscribeTransfers
  | StopStateMachines
  | StopHandlingRequests

datatype boot_effect =
    Migrated string
  | PublishReady "go_error option"

text \<open>A connection that fails is logged.\<close>

definition sp_Start :: "go_error option \<Rightarrow> start_effect list \<times> go_error option" where
  "sp_Start setDelegate = (case setDelegate of
     Some err \<Rightarrow> ([SetDelegate], Some err)
   | None \<Rightarrow> ([SetDelegate, GoStart, Connect, GoReconnect], None))"

definition sp_Stop :: "go_error option \<Rightarrow> go_error option \<Rightarrow> start_effect list \<times> go_error option" where
  "sp_Stop stopDeals stopRequests = (case stopDeals of
     Some err \<Rightarrow> ([StopReady, UnsubscribeTransfers, StopStateMachines], Some err)
   | None \<Rightarrow> ([StopReady, UnsubscribeTransfers, StopStateMachines, StopHandlingRequests], stopRequests))"

definition sc_Start :: "start_effect list \<times> go_error option" where
  "sc_Start = ([GoStart], None)"

definition sc_Stop :: "go_error option \<Rightarrow> start_effect list \<times> go_error option" where
  "sc_Stop stopMachines = ([UnsubscribeTransfers, StopStateMachines], stopMachines)"

definition rp_Start :: "go_error option \<Rightarrow> start_effect list \<times> go_error option" where
  "rp_Start setDelegate = ([GoStart, SetDelegate], setDelegate)"

definition rp_Stop :: "go_error option \<Rightarrow> start_effect list \<times> go_error option" where
  "rp_Stop stopRequests = ([StopHandlingRequests], stopRequests)"

definition rc_Start :: "start_effect list \<times> go_error option" where
  "rc_Start = ([GoStart], None)"

text \<open>The goroutines of the retrieval market, the peer list and the piece store.\<close>

definition boot :: "go_error option \<Rightarrow> boot_effect list" where
  "boot migrate = [Migrated ''state machines'', PublishReady migrate]"

definition local_Start :: "go_error option \<Rightarrow> boot_effect list" where
  "local_Start migrateDs = [Migrated ''peers'', PublishReady migrateDs]"

definition ps_Start :: "go_error option \<Rightarrow> go_error option \<Rightarrow> boot_effect list" where
  "ps_Start migratePieces migrateCidInfos = (case migratePieces of
     Some err \<Rightarrow> [Migrated ''pieces'', PublishReady (Some err)]
   | None \<Rightarrow> [Migrated ''pieces'', Migrated ''cid infos'', PublishReady migrateCidInfos])"

subsection \<open>What the storage market lists\<close>

text \<open>The multihashes of a deal, which the provider registers for at the end of its start: the context is the CID of the proposal.\<close>

definition multihash_lister ::
  "(string \<Rightarrow> go_error + cid) \<Rightarrow> (cid \<Rightarrow> go_error + 'deal) \<Rightarrow> ('deal \<Rightarrow> cid) \<Rightarrow> (cid \<Rightarrow> go_error + 'idx) \<Rightarrow> ('idx \<Rightarrow> go_error + 'it) \<Rightarrow>
   string \<Rightarrow> go_error + 'it" where
  "multihash_lister cidCast dealsGet pieceCid getIndex newIterator contextID = on_err (cidCast contextID)
     (\<lambda>err. Inl (New ''failed to cast context ID to a cid''))
     (\<lambda>proposalCid. on_err (dealsGet proposalCid)
        (\<lambda>err. Inl (Wrap (''failed getting deal '' @ proposalCid @ '': '') err))
        (\<lambda>deal. on_err (getIndex (pieceCid deal))
           (\<lambda>err. Inl (Wrap ''failed to get iterable index: '' err))
           (\<lambda>ii. on_err (newIterator ii) (\<lambda>err. Inl (Wrap ''failed to get mhiterator: '' err)) Inr)))"

text \<open>The providers that are sent until the context is cancelled, after \<open>n\<close> of them.\<close>

definition ListProviders ::
  "(go_error + tipset_token) \<Rightarrow> (tipset_token \<Rightarrow> go_error + 'p list) \<Rightarrow> nat option \<Rightarrow> go_error + 'p list" where
  "ListProviders chainHead listProviders cancelledAfter = on_err chainHead Inl
     (\<lambda>tok. on_err (listProviders tok) Inl
        (\<lambda>ps. Inr (case cancelledAfter of None \<Rightarrow> ps | Some n \<Rightarrow> take n ps)))"

subsection \<open>Listeners of the ready event\<close>

text \<open>The clients, the peer list and the piece store publish the ready event to the listeners that are there; \<open>OnReady\<close>
  only subscribes. The calls of a sequence of the two:\<close>

datatype 'l ready_op = DoOnReady 'l | DoPublish "go_error option"

fun ready_sub :: "'l list \<Rightarrow> 'l ready_op list \<Rightarrow> ('l \<times> go_error option) list" where
  "ready_sub ls [] = []"
| "ready_sub ls (DoOnReady l # ops) = ready_sub (ls @ [l]) ops"
| "ready_sub ls (DoPublish err # ops) = concat (map (\<lambda>l. fst (ReadyDispatcher (map_option Typed err) (Typed l))) ls) @ ready_sub ls ops"

lemma ReadyDispatcher_calls: "fst (ReadyDispatcher (map_option Typed err) (Typed l)) = [(l, err)]"
  by (cases err) (simp_all add: ReadyDispatcher_def)

lemma ready_sub_calls: "ready_sub ls (map DoOnReady xs @ [DoPublish err]) = map (\<lambda>l. (l, err)) (ls @ xs)"
proof (induction xs arbitrary: ls)
  case Nil
  show ?case by (simp add: ReadyDispatcher_calls comp_def)
qed simp

text \<open>A listener that comes after the event is never called, although it waits for something that has happened.\<close>

lemma late_listener_not_called:
  "ready_sub [] (map DoOnReady xs @ [DoPublish err] @ map DoOnReady ys) = map (\<lambda>l. (l, err)) xs"
proof -
  have late: "ready_sub ls (map DoOnReady ys) = []" for ls by (induction ys arbitrary: ls) simp_all
  have "ready_sub ls (map DoOnReady xs @ [DoPublish err] @ map DoOnReady ys) = map (\<lambda>l. (l, err)) (ls @ xs)" for ls
    by (induction xs arbitrary: ls) (simp_all add: late ReadyDispatcher_calls comp_def)
  then show ?thesis by simp
qed

end
