(* ===== verification/Spec2Isabelle.thy ===== *)
theory Spec2Isabelle
  imports
    Storage_Provider_Correct Storage_Client_Correct Storage_Client_Ops Storage_Transfer
    Retrieval_Client_Correct Retrieval_Provider_Correct Retrieval_Ops Retrieval_Ask_Store Discovery_Local
    Storage_Streams Car_Index Storage_Migrations_Codec Retrieval_Migrations Retrieval_Bindnode Retrieval_Streams
    Block_Locations Padded_Reader Ready_Manager Market_Events
begin

text \<open>
  A verification of the Filecoin storage and retrieval markets (\<open>go-fil-markets\<close>).

  \<^bold>\<open>The program.\<close> Two markets, each with a client and a provider. A deal is one record whose state is
  changed only by the events of a finite state machine; entering a state runs a handler, which talks to
  the chain node, the data transfer module, the file, piece and block stores, and sends further events
  to its own deal. Deals are negotiated over network streams, their data moves through the data transfer
  module, whose events come back to the state machines through subscribers, and requests of the other
  side pass a validator first. Around the state machines stand the operations that the node's user and
  the network call.

  \<^bold>\<open>Foundations.\<close>
  \<^item> \<open>Market_Prelude\<close>: errors with their wrapping chain (\<open>errors.Is\<close>), early returns (\<open>on_err\<close>), runs
    that return, panic or loop (\<open>go_run\<close>), printing of numbers, 64-bit arithmetic.
  \<^item> \<open>Fsm\<close>: the event tables of the \<open>fsm\<close> builder and what planning an event does: the transition
    (\<open>To\<close>, \<open>ToNoChange\<close>, \<open>ToJustRecord\<close>), the action with its argument types, the order of the rows. The
    engine is outside \<open>src/\<close>: it is a parameter, with its documented behaviour as the locale
    \<open>fsm_engine\<close>, of which \<open>fsm_plan\<close> is the reference.
  \<^item> \<open>Fsm_Machine\<close>: a state machine with a deal, a queue of events, a handler under way and the process
    restarting at any point, as an inductive step relation; the locales \<open>machine_invariant\<close>,
    \<open>deal_invariant\<close> and \<open>guarded_invariant\<close> reduce an invariant of all reachable configurations to
    conditions on the table and the handlers. \<open>Funds_Protocol\<close> is the contract that both storage
    machines fulfil for reserved funds.
  \<^item> \<open>Datastore\<close>: key-value stores by their laws, \<open>shared/movekey.go\<close>, the trackers of open
    blockstores of \<open>stores/\<close>, and registering and destroying shards (\<open>stores/dagstore.go\<close>).
  \<^item> \<open>Ready_Manager\<close>: \<open>shared/ready.go\<close> with its goroutines, lock and channels as a step relation: who gets
    the ready event, and how a stop before it leaves the publisher stuck with the lock.
  \<^item> \<open>Market_Events\<close>: what stands around the operations of all sides: the steps of the constructors, options, \<open>Start\<close>
    and \<open>Stop\<close>, the notifiers and dispatchers that bring an event to a subscriber, and the listeners of the ready
    events that have no manager.

  \<^bold>\<open>Storage market.\<close>
  \<^item> \<open>Storage_Enums\<close>, \<open>Storage_Types\<close>: \<open>storagemarket/dealstatus.go\<close>, \<open>events.go\<close>, \<open>types.go\<close>.
  \<^item> \<open>Storage_Provider_Fsm\<close>, \<open>Storage_Provider_States\<close>: \<open>impl/providerstates\<close>, the table and every
    handler. \<open>Storage_Provider_Funds\<close>, \<open>Storage_Provider_Ledger\<close> and \<open>Storage_Provider_Correct\<close> show
    that no handler dereferences nil, that what is reserved with the node less what is released is what
    the deal records, that settled deals hold no funds, and which proposals are accepted.
  \<^item> \<open>Storage_Client_Fsm\<close>, \<open>Storage_Client_States\<close>: \<open>impl/clientstates\<close>, in the same way, with the deal
    timeline; \<open>Storage_Client_Funds\<close> and \<open>Storage_Client_Correct\<close> show the same of funds, what the answers
    of a provider lead to, and that the timeline stays well formed.
  \<^item> \<open>Storage_Provider_Ops\<close>: \<open>impl/provider.go\<close>, \<open>impl/provider_environments.go\<close>, the connection manager
    and \<open>shared/ready.go\<close>; \<open>Storage_Client_Ops\<close>: \<open>impl/client.go\<close>, \<open>client_environments.go\<close>,
    \<open>clientutils\<close>. Together: the deal status protocol, from the client's signed request to the state it
    learns. \<open>Storage_Ask_Store\<close>: \<open>impl/storedask\<close>. \<open>Storage_Transfer\<close>: \<open>impl/requestvalidation\<close> and
    \<open>impl/dtutils\<close>, joined with the event tables.
  \<^item> \<open>Storage_Migrations\<close>: \<open>migrations/migrations.go\<close>, the old record formats and their conversions, with
    what a converted deal loses. \<open>Storage_Streams\<close>: \<open>network/\<close>, what the streams of each protocol version
    read and write, over codecs given by the locale \<open>storage_codec\<close>, and which version a stream gets;
    with the operations of both sides, the ask protocol end to end. \<open>Retry_Stream\<close>:
    \<open>shared/retrystream.go\<close>, opening a stream in a bounded number of attempts.
  \<^item> \<open>Piece_Store\<close>: \<open>piecestore/\<close>, over a state store given by the locales \<open>state_store\<close> and
    \<open>reliable_store\<close>.

  \<^bold>\<open>Retrieval market.\<close>
  \<^item> \<open>Retrieval_Enums\<close>, \<open>Retrieval_Types\<close>: \<open>retrievalmarket/dealstatus.go\<close>, \<open>events.go\<close>, \<open>types.go\<close>;
    \<open>Retrieval_Params\<close>: the payment intervals, in 64-bit arithmetic, whose loops end and agree with
    what is owed.
  \<^item> \<open>Retrieval_Client_Fsm\<close>, \<open>Retrieval_Client_States\<close>: \<open>impl/clientstates\<close>; \<open>Retrieval_Client_Inv\<close> and
    \<open>Retrieval_Client_Correct\<close> show that no run of a client crashes, that it pays for what it received
    and no more, when a deal completes, and which events get lost.
  \<^item> \<open>Retrieval_Provider_Fsm\<close>: \<open>impl/providerstates\<close>; \<open>Retrieval_Provider_Correct\<close> shows that recorded
    funds are the saved vouchers, when a transfer may go on, and that no event gets lost.
  \<^item> \<open>Retrieval_Transfer\<close>: \<open>impl/dtutils\<close>; \<open>Retrieval_Pieces\<close>: \<open>impl/provider_pieces.go\<close>;
    \<open>Retrieval_Validation\<close>: \<open>impl/requestvalidation\<close> and the query protocol and pricing of
    \<open>impl/provider.go\<close>, with \<open>Retrieval_Validation_Correct\<close> on what is accepted and answered;
    \<open>Retrieval_Ops\<close>: \<open>impl/client.go\<close>, the environments of the handlers and the lazy blockstore, and the
    composition of query, proposal and validation; \<open>Retrieval_Ask_Store\<close>: \<open>impl/askstore\<close>.
  \<^item> \<open>Retrieval_Streams\<close>: \<open>retrievalmarket/network/\<close>, the query streams over the codecs of \<open>Retrieval_Codec\<close>, and
    with the operations of both sides the query protocol end to end, by its bytes.
  \<^item> \<open>Discovery_Local\<close>: \<open>discovery/impl\<close>.

  \<^bold>\<open>Block stores.\<close>
  \<^item> \<open>Car_Format\<close>: the sections, headers and readers of \<open>stores/kvcarbs.go\<close> at the level of bytes; the
    varint, CID and CBOR libraries are the record \<open>car_lib\<close> with the laws of the locale \<open>car_format\<close>.
  \<^item> \<open>Car_Store\<close>: its index, over a tree given by the locale \<open>llrb\<close>, the read-only and the read-write
    store, and opening and resuming files; \<open>stores/filestore.go\<close> as a datastore over a block store.
  \<^item> \<open>Car_Store_Correct\<close> proves inside the locale \<open>car_store\<close>, which joins the two interfaces, that a
    store holds the sections that were put and that walking its file makes the same index; \<open>Car_Files\<close>
    has the interpretation and what follows: reads after writes, resumption, files that were cut, and
    loading in batches.
  \<^item> \<open>Car_Index\<close>: the index on disk, with the locale \<open>index_format\<close> for the tree and the encoding of records, opening
    a CAR of either version, writing one from a DAG, and the reader adapters.
  \<^item> \<open>File_Store\<close>: \<open>filestore/\<close> over a disk whose calls may fail; what a path becomes, and what is left after a
    failed write. \<open>Block_Locations\<close>: \<open>LoadBlockLocations\<close> of \<open>impl/providerutils\<close>, and with the block recorder, the
    file store and the piece store the way of the places of a deal's blocks. \<open>Padded_Reader\<close>: \<open>shared/inflator_reader.go\<close> and \<open>commp/\<close>, padding a payload to its piece and
    the commitment of the padded piece.

  \<^bold>\<open>Storage and wire formats.\<close> The generated \<open>*_cbor_gen.go\<close>, with all types of the repository.
  \<^item> \<open>Cbor_Codec\<close>: the pieces that each generated codec is put together from, over the \<open>cbor-gen\<close> library
    (the record \<open>cbor_lib\<close> with the laws of the locale \<open>cbor_codec\<close>), and for each piece the rule that what
    it writes it reads back (the collection \<open>codec\<close>); \<open>Cbor_Sample\<close>: an encoding that fulfils the laws.
  \<^item> \<open>Piece_Codec\<close>: the records of the piece store, its old records and their conversion, and the block
    recorder (\<open>impl/blockrecorder\<close>). \<open>Storage_Codec\<close>: \<open>storagemarket/types_cbor_gen.go\<close> and the messages of
    \<open>network/\<close>, with what an error text beyond the limit leads to. \<open>Storage_Migrations_Codec\<close>: the old
    formats and the upgrade of a stored deal by its bytes. \<open>Retrieval_Codec\<close>: the retrieval market, the
    selectors of \<open>bindnodeoptions.go\<close> and the peers of \<open>discovery/\<close>; \<open>Retrieval_Migrations\<close>: its old deal
    states with their codecs and conversion. \<open>Retrieval_Bindnode\<close>: the converters of \<open>bindnodeoptions.go\<close> between
    bytes and amounts, addresses and signatures, over libraries given by the locale \<open>bytes_laws\<close>.
  A codec that writes something is shown to read it back with nothing lost; where the record of the model has
  values that the format does not keep (an epoch beyond 64 bits, an amount that is nil), \<open>storable\<close>
  excludes them.

  \<^bold>\<open>Conventions.\<close> A handler is a function from the environment (what the outside world answers) and the
  deal to the list of its steps: events it triggers, calls it makes, and \<open>NilDeref\<close> where the code would
  panic. Token amounts are \<open>int\<close>, as big integers are; byte counts are 64-bit words that wrap; chain epochs
  are \<open>int\<close> with \<open>int64\<close> wrapping written out where the code adds. CIDs, addresses and peers are strings.
  The interval loops are partial functions whose value \<open>None\<close> is divergence; the recursion through
  identity CIDs has fuel, the length of the CID, which is shown to be enough because a CID inside an
  identity CID is shorter. Logging is left out. Each call of the environment by a handler gets one
  answer in a run of the handler, and different answers in different runs.

  \<^bold>\<open>Not modelled.\<close> The libraries outside \<open>src/\<close> (the state machine engine beyond its laws, pubsub, versioning, data
  transfer, libp2p, CBOR, CARv2, the commitment hash), which are parameters; declarations of interfaces;
  methods that only pass a call on to one of these; the mocks and generators for tests; metadata for the
  indexer; logging. The mutexes are left out everywhere but in \<open>Ready_Manager\<close>, since each guarded operation
  is one step. Of a constructor only the steps are modelled that may fail or that other modules see, in
  their order, not the assignment of its arguments to fields.
\<close>

end
